(* ===== verification/PyNum.thy ===== *)
theory PyNum
  imports Complex_Main
begin

text \<open>
  Python's two number types, as rationals with correctly rounded operations.

  A \<^typ>\<open>rat\<close> stands for a \<^verbatim>\<open>float\<close> (53 binary digits) or for a
  \<^verbatim>\<open>decimal.Decimal\<close> (28 decimal digits, the default context); every arithmetic
  operation computes the exact result and rounds it half to even, as IEEE 754 and the
  decimal module do.  The exponent range is unbounded in both directions, so infinities,
  NaN and underflow are not values of this model.  \<open>dec_of_float\<close> is
  \<^verbatim>\<open>Decimal(str(x))\<close>: the shortest decimal that reads back as \<open>x\<close>.

  The laws that the rest of the development uses are those of the locale \<open>rounding\<close>,
  which both formats interpret.
\<close>

subsection \<open>Rounding to a number of digits\<close>

text \<open>The number of base \<open>b\<close> digits of an integer, and the exponent of a positive rational.\<close>

function ndigits :: "int \<Rightarrow> int \<Rightarrow> nat" where
  "ndigits b n = (if b \<le> 1 \<or> n \<le> 0 then 0 else Suc (ndigits b (n div b)))"
  by pat_completeness auto
termination
proof (relation "measure (\<lambda>(b, n). nat n)")
  show "((b, n div b), (b, n)) \<in> measure (\<lambda>(b, n). nat n)" if "\<not> (b \<le> 1 \<or> n \<le> 0)" for b n :: int
    using that int_div_less_self[of n b] by simp
qed simp

declare ndigits.simps [simp del]

lemma ndigits_bounds:
  assumes "1 < b" "0 < n"
  shows "b ^ (ndigits b n - 1) \<le> n \<and> n < b ^ ndigits b n \<and> 0 < ndigits b n"
  using assms
proof (induction b n rule: ndigits.induct)
  case (1 b n)
  show ?case
  proof (cases "n < b")
    case True
    then have "n div b = 0" using 1 by simp
    then have "ndigits b n = 1" using 1 by (simp add: ndigits.simps[of b n] ndigits.simps[of b 0])
    with True 1 show ?thesis by simp
  next
    case False
    let ?m = "ndigits b (n div b)"
    have pos: "0 < n div b" using False 1(2) by (simp add: pos_imp_zdiv_pos_iff)
    with 1 have IH: "b ^ (?m - 1) \<le> n div b" "n div b < b ^ ?m" "0 < ?m" by auto
    have d: "ndigits b n = Suc ?m" using 1(2,3) by (simp add: ndigits.simps[of b n])
    have n: "n = b * (n div b) + n mod b" "0 \<le> n mod b" "n mod b < b"
      using 1(2) by auto
    have "b * b ^ (?m - 1) \<le> b * (n div b)" using IH(1) 1(2) by simp
    also have "\<dots> \<le> n" using n by linarith
    finally have lo: "b ^ ?m \<le> n" using IH(3) by (simp add: power_eq_if)
    have "n < b * (n div b) + b" using n by linarith
    also have "\<dots> = b * (n div b + 1)" by (simp add: distrib_left)
    also have "\<dots> \<le> b * b ^ ?m" using IH(2) 1(2) by (intro mult_left_mono) auto
    finally show ?thesis using lo d by simp
  qed
qed

definition ilog :: "nat \<Rightarrow> rat \<Rightarrow> int" where
  "ilog b x = (case quotient_of x of (n, d) \<Rightarrow>
     let k = int (ndigits (int b) n) - int (ndigits (int b) d)
     in if rat_of_nat b powi k \<le> x then k else k - 1)"

definition round_even :: "rat \<Rightarrow> int" where
  "round_even x = (let f = \<lfloor>x\<rfloor>; r = x - of_int f in
     if r < 1 / 2 then f else if 1 / 2 < r then f + 1 else if even f then f else f + 1)"

definition ulp :: "nat \<Rightarrow> nat \<Rightarrow> rat \<Rightarrow> rat" where
  "ulp b p x = rat_of_nat b powi (ilog b \<bar>x\<bar> - int p + 1)"

definition round_digits :: "nat \<Rightarrow> nat \<Rightarrow> rat \<Rightarrow> rat" where
  "round_digits b p x =
     (if x = 0 then 0 else sgn x * (of_int (round_even (\<bar>x\<bar> / ulp b p x)) * ulp b p x))"

lemma powi_pos: "0 < b \<Longrightarrow> 0 < (b :: rat) powi k"
  by (simp add: power_int_def)

lemma powi_mono: "1 \<le> (b :: rat) \<Longrightarrow> m \<le> n \<Longrightarrow> b powi m \<le> b powi n"
  by (rule power_int_increasing)

text \<open>Powers over the integers: the same numbers, cheaper to evaluate.\<close>

definition int_powi :: "nat \<Rightarrow> int \<Rightarrow> rat" where
  "int_powi b k = (if 0 \<le> k then of_int (int b ^ nat k) else 1 / of_int (int b ^ nat (- k)))"

lemma int_powi: "rat_of_nat b powi k = int_powi b k"
  by (simp add: int_powi_def power_int_def power_inverse field_simps)

lemma ilog_code [code]:
  "ilog b x = (case quotient_of x of (n, d) \<Rightarrow>
     let k = int (ndigits (int b) n) - int (ndigits (int b) d)
     in if int_powi b k \<le> x then k else k - 1)"
  by (simp add: ilog_def int_powi)

lemma ulp_code [code]: "ulp b p x = int_powi b (ilog b \<bar>x\<bar> - int p + 1)"
  by (simp add: ulp_def int_powi)

lemma ilog_bounds:
  assumes "1 < b" "0 < x"
  shows "rat_of_nat b powi ilog b x \<le> x" and "x < rat_of_nat b powi (ilog b x + 1)"
proof -
  obtain n d where q: "quotient_of x = (n, d)" by (cases "quotient_of x") auto
  have x: "x = of_int n / of_int d" and d: "0 < d"
    using q by (auto intro: quotient_of_div quotient_of_denom_pos)
  with assms(2) have n: "0 < n" by (simp add: zero_less_divide_iff)
  let ?B = "rat_of_nat b"
  let ?N = "ndigits (int b) n" and ?D = "ndigits (int b) d"
  define k where "k = int ?N - int ?D"
  have B: "1 < ?B" using assms(1) by simp
  have nb: "?B ^ (ndigits (int b) m - 1) \<le> of_int m" "of_int m < ?B ^ ndigits (int b) m"
    "0 < ndigits (int b) m" if "0 < m" for m
  proof -
    have b: "int b ^ (ndigits (int b) m - 1) \<le> m" "m < int b ^ ndigits (int b) m"
      "0 < ndigits (int b) m"
      using ndigits_bounds[of "int b" m] that assms(1) by auto
    from b(1) show "?B ^ (ndigits (int b) m - 1) \<le> of_int m"
      by (metis of_int_le_iff of_int_of_nat_eq of_int_power)
    from b(2) show "of_int m < ?B ^ ndigits (int b) m"
      by (metis of_int_less_iff of_int_of_nat_eq of_int_power)
    show "0 < ndigits (int b) m" by (rule b(3))
  qed
  note n1 = nb(1,2)[OF n] and fN = nb(3)[OF n] and d1 = nb(1,2)[OF d] and fD = nb(3)[OF d]
  have up: "x < ?B powi (k + 1)"
  proof -
    have "x < ?B ^ ?N / ?B ^ (?D - 1)"
      unfolding x using n1 d1 n d B by (intro frac_less) auto
    also have "\<dots> = ?B powi (int (?N) - int (?D - 1))"
      using B by (simp add: power_int_diff)
    also have "int (?N) - int (?D - 1) = k + 1"
      using fD by (simp add: k_def)
    finally show ?thesis .
  qed
  have lo: "?B powi (k - 1) < x"
  proof -
    have "?B powi (k - 1) = ?B powi (int (?N - 1) - int (?D))"
      using fN by (simp add: k_def algebra_simps)
    also have "\<dots> = ?B ^ (?N - 1) / ?B ^ ?D"
      using B by (simp add: power_int_diff)
    also have "\<dots> < x"
      unfolding x using n1 d1 n d B by (intro frac_less2) auto
    finally show ?thesis .
  qed
  have il: "ilog b x = (if ?B powi k \<le> x then k else k - 1)"
    by (simp add: ilog_def q k_def Let_def)
  show "?B powi ilog b x \<le> x" using lo by (simp add: il)
  show "x < ?B powi (ilog b x + 1)" using up by (simp add: il)
qed

lemma ilog_mono:
  assumes "1 < b" "0 < x" "x \<le> y"
  shows "ilog b x \<le> ilog b y"
proof (rule ccontr)
  assume "\<not> ilog b x \<le> ilog b y"
  then have "ilog b y + 1 \<le> ilog b x" by simp
  then have "rat_of_nat b powi (ilog b y + 1) \<le> rat_of_nat b powi ilog b x"
    using assms(1) by (intro powi_mono) auto
  with ilog_bounds[of b x] ilog_bounds[of b y] assms show False by linarith
qed

lemma round_even_cases: "round_even x = \<lfloor>x\<rfloor> \<or> round_even x = \<lfloor>x\<rfloor> + 1"
  by (auto simp: round_even_def Let_def)

lemma round_even_int [simp]: "round_even (of_int k) = k"
  by (simp add: round_even_def)

lemma round_even_mono:
  assumes "x \<le> y"
  shows "round_even x \<le> round_even y"
proof (cases "\<lfloor>x\<rfloor> = \<lfloor>y\<rfloor>")
  case True
  then show ?thesis using assms by (auto simp: round_even_def Let_def)
next
  case False
  with floor_mono[OF assms] have "\<lfloor>x\<rfloor> + 1 \<le> \<lfloor>y\<rfloor>" by linarith
  then show ?thesis using round_even_cases[of x] round_even_cases[of y] by linarith
qed

lemma round_even_err: "\<bar>of_int (round_even x) - x\<bar> \<le> 1 / 2"
proof -
  have "of_int \<lfloor>x\<rfloor> \<le> x" "x < of_int \<lfloor>x\<rfloor> + 1" by linarith+
  then show ?thesis by (auto simp: round_even_def Let_def)
qed

lemma ulp_pos: "1 < b \<Longrightarrow> 0 < ulp b p x"
  by (simp add: ulp_def powi_pos)

text \<open>A number on the grid needs no rounding: the test over the integers, for evaluation.\<close>

definition on_grid :: "nat \<Rightarrow> nat \<Rightarrow> rat \<Rightarrow> bool" where
  "on_grid b p x = (case quotient_of \<bar>x\<bar> of (n, d) \<Rightarrow>
     let e = ilog b \<bar>x\<bar> - int p + 1
     in if 0 \<le> e then n mod (d * int b ^ nat e) = 0 else (n * int b ^ nat (- e)) mod d = 0)"

lemma on_grid_exact:
  assumes "on_grid b p x" "0 < b"
  shows "round_digits b p x = x"
proof (cases "x = 0")
  case True
  then show ?thesis by (simp add: round_digits_def)
next
  case False
  obtain n d where q: "quotient_of \<bar>x\<bar> = (n, d)" by (cases "quotient_of \<bar>x\<bar>")
  define e where "e = ilog b \<bar>x\<bar> - int p + 1"
  have d: "0 < rat_of_int d" using quotient_of_denom_pos[OF q] by simp
  have x: "\<bar>x\<bar> * of_int d = of_int n" using d by (simp add: quotient_of_div[OF q])
  have b: "rat_of_nat b \<noteq> 0" using assms(2) by simp
  have u: "ulp b p x = rat_of_nat b powi e" by (simp add: ulp_def e_def)
  have "\<exists>k :: int. \<bar>x\<bar> = of_int k * ulp b p x"
  proof (cases "0 \<le> e")
    case True
    then have "(d * int b ^ nat e) dvd n"
      using assms(1) by (simp add: on_grid_def q Let_def dvd_eq_mod_eq_0 e_def)
    then obtain k where "n = d * int b ^ nat e * k" by (elim dvdE)
    then have "rat_of_int n = of_int d * rat_of_nat b ^ nat e * of_int k"
      by (metis of_int_mult of_int_of_nat_eq of_int_power)
    with x d have "\<bar>x\<bar> = of_int k * rat_of_nat b ^ nat e" by (simp add: algebra_simps)
    then show ?thesis using True by (intro exI[of _ k]) (simp add: u power_int_def)
  next
    case False
    then have "d dvd n * int b ^ nat (- e)"
      using assms(1) by (simp add: on_grid_def q Let_def dvd_eq_mod_eq_0 e_def)
    then obtain k where "n * int b ^ nat (- e) = d * k" by (elim dvdE)
    then have "rat_of_int n * rat_of_nat b ^ nat (- e) = of_int d * of_int k"
      by (metis of_int_mult of_int_of_nat_eq of_int_power)
    with x[symmetric] d have "\<bar>x\<bar> * rat_of_nat b ^ nat (- e) = of_int k" by simp
    then show ?thesis using False b
      by (intro exI[of _ k]) (simp add: u power_int_def field_simps)
  qed
  then obtain k :: int where k: "\<bar>x\<bar> = of_int k * ulp b p x" ..
  have "ulp b p x \<noteq> 0" using b by (simp add: u)
  with k have "\<bar>x\<bar> / ulp b p x = of_int k" by (simp add: field_simps)
  then have "of_int (round_even (\<bar>x\<bar> / ulp b p x)) * ulp b p x = \<bar>x\<bar>" using k by simp
  then show ?thesis using False by (simp add: round_digits_def sgn_mult_abs)
qed

lemma round_digits_code [code]:
  "round_digits b p x = (if x = 0 then 0 else if 0 < b \<and> on_grid b p x then x
     else sgn x * (of_int (round_even (\<bar>x\<bar> / ulp b p x)) * ulp b p x))"
proof (cases "0 < b \<and> on_grid b p x")
  case True
  then have "round_digits b p x = x" by (intro on_grid_exact) simp_all
  with True show ?thesis by simp
next
  case False
  then show ?thesis by (auto simp: round_digits_def)
qed

lemma round_digits_pos:
  "0 < x \<Longrightarrow> round_digits b p x = of_int (round_even (x / ulp b p x)) * ulp b p x"
  by (simp add: round_digits_def)

lemma round_digits_minus: "round_digits b p (- x) = - round_digits b p x"
  by (simp add: round_digits_def ulp_def)

text \<open>A number on the grid of its own binade, or of a finer one, is left alone.\<close>

lemma ulp_scaled_lower:
  assumes "1 < b" "0 < p" "0 < x"
  shows "rat_of_nat b ^ (p - 1) \<le> x / ulp b p x" "x / ulp b p x < rat_of_nat b ^ p"
proof -
  let ?B = "rat_of_nat b"
  have B: "1 < ?B" using assms(1) by simp
  have u: "?B ^ (p - 1) * ulp b p x = ?B powi ilog b x" "?B ^ p * ulp b p x = ?B powi (ilog b x + 1)"
    using B assms by (simp_all add: ulp_def power_int_add[symmetric] power_int_of_nat[symmetric]
        del: power_int_of_nat)
  from u show "?B ^ (p - 1) \<le> x / ulp b p x" "x / ulp b p x < ?B ^ p"
    using ilog_bounds[OF assms(1,3)] ulp_pos[OF assms(1)]
    by (simp_all add: pos_le_divide_eq pos_divide_less_eq)
qed

lemma round_digits_binade:
  assumes "1 < b" "0 < p" "0 < x"
  shows "rat_of_nat b powi ilog b x \<le> round_digits b p x"
    and "round_digits b p x \<le> rat_of_nat b powi (ilog b x + 1)"
proof -
  let ?B = "rat_of_nat b" and ?u = "ulp b p x"
  have B: "1 < ?B" using assms(1) by simp
  have u: "?B ^ (p - 1) * ?u = ?B powi ilog b x" "?B ^ p * ?u = ?B powi (ilog b x + 1)"
    using B assms by (simp_all add: ulp_def power_int_add[symmetric] power_int_of_nat[symmetric]
        del: power_int_of_nat)
  have "of_int (round_even (of_int (int b ^ (p - 1)))) \<le> (of_int (round_even (x / ?u)) :: rat)"
    using ulp_scaled_lower(1)[OF assms] by (intro of_int_le_iff[THEN iffD2] round_even_mono) simp
  then show "?B powi ilog b x \<le> round_digits b p x"
    using ulp_pos[OF assms(1), of p x] assms(3)
    by (simp only: round_even_int round_digits_pos u(1)[symmetric]) simp
  have "of_int (round_even (x / ?u)) \<le> (of_int (round_even (of_int (int b ^ p))) :: rat)"
    using ulp_scaled_lower(2)[OF assms] by (intro of_int_le_iff[THEN iffD2] round_even_mono) simp
  then show "round_digits b p x \<le> ?B powi (ilog b x + 1)"
    using ulp_pos[OF assms(1), of p x] assms(3)
    by (simp only: round_even_int round_digits_pos u(2)[symmetric]) simp
qed

lemma round_digits_mono_pos:
  assumes "1 < b" "0 < p" "0 < x" "x \<le> y"
  shows "round_digits b p x \<le> round_digits b p y"
proof (cases "ilog b x = ilog b y")
  case True
  have y: "0 < y" using assms by linarith
  have u: "ulp b p x = ulp b p y" using True assms(3) y by (simp add: ulp_def)
  have "x / ulp b p y \<le> y / ulp b p y"
    using ulp_pos[OF assms(1), of p y] assms(4) by (simp add: divide_right_mono)
  then have "of_int (round_even (x / ulp b p y)) \<le> (of_int (round_even (y / ulp b p y)) :: rat)"
    by (simp add: round_even_mono)
  then show ?thesis
    using ulp_pos[OF assms(1), of p y] assms(3) y by (simp add: round_digits_pos u)
next
  case False
  have y: "0 < y" using assms by linarith
  from False ilog_mono[OF assms(1,3,4)] have "ilog b x + 1 \<le> ilog b y" by linarith
  then have "rat_of_nat b powi (ilog b x + 1) \<le> rat_of_nat b powi ilog b y"
    using assms(1) by (intro powi_mono) auto
  with round_digits_binade(2)[OF assms(1-3)] round_digits_binade(1)[OF assms(1,2) y]
  show ?thesis by linarith
qed

lemma round_digits_gt0:
  assumes "1 < b" "0 < p" "0 < x"
  shows "0 < round_digits b p x"
  using order.strict_trans2[OF powi_pos[of "rat_of_nat b" "ilog b x"] round_digits_binade(1)[OF assms]]
    assms(1) by simp

lemma round_digits_idem_pos:
  assumes "1 < b" "0 < p" "0 < x"
  shows "round_digits b p (round_digits b p x) = round_digits b p x"
proof -
  let ?B = "rat_of_nat b" and ?u = "ulp b p x" and ?r = "round_digits b p x"
  have B: "1 < ?B" using assms(1) by simp
  have r: "0 < ?r" by (rule round_digits_gt0[OF assms])
  have up: "0 < ?u" using ulp_pos[OF assms(1)] .
  show ?thesis
  proof (cases "?r = ?B powi (ilog b x + 1)")
    case True
    have "ilog b ?r = ilog b x + 1"
      using ilog_bounds[OF assms(1) r] B unfolding True
      by (metis add_le_cancel_right linorder_not_less nless_le power_int_increasing
          power_int_strict_increasing zless_add1_eq)
    then have "?r / ulp b p ?r = of_int (int b ^ (p - 1))"
      using B assms(2) r
      by (simp add: True ulp_def power_int_diff[symmetric] power_int_of_nat[symmetric]
          del: power_int_of_nat)
    then show ?thesis using ulp_pos[OF assms(1), of p ?r] r
      by (simp only: round_digits_pos[OF r] round_even_int) (simp add: field_simps)
  next
    case False
    have "ilog b ?r = ilog b x"
    proof (rule antisym)
      show "ilog b x \<le> ilog b ?r"
      proof (rule ccontr)
        assume "\<not> ?thesis"
        then have "?B powi (ilog b ?r + 1) \<le> ?B powi ilog b x"
          using B by (intro powi_mono) auto
        with ilog_bounds(2)[OF assms(1) r] round_digits_binade(1)[OF assms] show False by linarith
      qed
      show "ilog b ?r \<le> ilog b x"
      proof (rule ccontr)
        assume "\<not> ?thesis"
        then have "?B powi (ilog b x + 1) \<le> ?B powi ilog b ?r"
          using B by (intro powi_mono) auto
        with ilog_bounds(1)[OF assms(1) r] round_digits_binade(2)[OF assms] False
        show False by linarith
      qed
    qed
    then have "ulp b p ?r = ?u" using r assms(3) by (simp add: ulp_def)
    then have "round_digits b p ?r = of_int (round_even (?r / ?u)) * ?u"
      using round_digits_pos[OF r, of b p] by simp
    also have "?r / ?u = of_int (round_even (x / ?u))"
      using up by (simp add: round_digits_pos[OF assms(3)])
    finally show ?thesis by (simp add: round_digits_pos[OF assms(3)])
  qed
qed

lemma round_digits_err:
  assumes "1 < b" "0 < p"
  shows "\<bar>round_digits b p x - x\<bar> \<le> ulp b p x / 2"
proof (cases "x = 0")
  case False
  have up: "0 < ulp b p x" using ulp_pos[OF assms(1)] .
  have "\<bar>of_int (round_even (\<bar>x\<bar> / ulp b p x)) * ulp b p x - \<bar>x\<bar>\<bar>
      = \<bar>of_int (round_even (\<bar>x\<bar> / ulp b p x)) - \<bar>x\<bar> / ulp b p x\<bar> * ulp b p x"
    using up by (simp add: field_simps abs_mult_pos)
  also have "\<dots> \<le> 1 / 2 * ulp b p x"
    using up by (intro mult_right_mono round_even_err) auto
  finally show ?thesis using False
    by (cases "0 < x") (auto simp: round_digits_def abs_if not_less split: if_splits)
qed (simp add: round_digits_def ulp_pos[OF assms(1)] less_imp_le)


subsection \<open>The laws of a rounding\<close>

lemma powi_less: "1 < (b :: rat) \<Longrightarrow> b powi m < b powi n \<Longrightarrow> m < n"
  using powi_mono[of b n m] by (meson less_eq_rat_def not_le order.strict_implies_order)

text \<open>
  What the models rely on: a rounding is monotone, leaves representable numbers alone,
  commutes with negation and never turns a positive number into zero.
\<close>

locale rounding =
  fixes rnd :: "rat \<Rightarrow> rat"
  assumes mono: "x \<le> y \<Longrightarrow> rnd x \<le> rnd y"
    and idem: "rnd (rnd x) = rnd x"
    and minus: "rnd (- x) = - rnd x"
    and pos: "0 < x \<Longrightarrow> 0 < rnd x"
begin

lemma zero: "rnd 0 = 0"
  using minus[of 0] by simp

lemma nonneg: "0 \<le> x \<Longrightarrow> 0 \<le> rnd x"
  using pos[of x] zero by (cases "x = 0") auto

lemma nonpos: "x \<le> 0 \<Longrightarrow> rnd x \<le> 0"
  using nonneg[of "- x"] minus[of x] by simp

lemma neg: "x < 0 \<Longrightarrow> rnd x < 0"
  using pos[of "- x"] minus[of x] by simp

lemma pos_iff: "0 < rnd x \<longleftrightarrow> 0 < x"
  using pos[of x] nonpos[of x] by (meson leD linorder_not_less)

lemma neg_iff: "rnd x < 0 \<longleftrightarrow> x < 0"
  using neg[of x] nonneg[of x] by (meson leD linorder_not_less)

lemma nonneg_iff: "0 \<le> rnd x \<longleftrightarrow> 0 \<le> x"
  using neg_iff[of x] by (simp add: not_less[symmetric])

lemma nonpos_iff: "rnd x \<le> 0 \<longleftrightarrow> x \<le> 0"
  using pos_iff[of x] by (simp add: not_less[symmetric])

lemma zero_iff: "rnd x = 0 \<longleftrightarrow> x = 0"
  using pos_iff[of x] neg_iff[of x] zero by (metis linorder_neq_iff)

lemma ge_rep: "rnd a = a \<Longrightarrow> a \<le> x \<Longrightarrow> a \<le> rnd x"
  using mono[of a x] by simp

lemma le_rep: "rnd a = a \<Longrightarrow> x \<le> a \<Longrightarrow> rnd x \<le> a"
  using mono[of x a] by simp

lemma abs_rnd: "rnd \<bar>x\<bar> = \<bar>rnd x\<bar>"
  using nonneg[of x] neg[of x] minus[of x] by (cases "0 \<le> x") (auto simp: abs_if)

lemma rep_abs: "rnd x = x \<Longrightarrow> rnd \<bar>x\<bar> = \<bar>x\<bar>"
  by (simp add: abs_rnd)

lemma add_mono_rep: "rnd a = a \<Longrightarrow> 0 \<le> x \<Longrightarrow> a \<le> rnd (a + x)"
  by (rule ge_rep) auto

lemma sub_mono_rep: "rnd a = a \<Longrightarrow> 0 \<le> x \<Longrightarrow> rnd (a - x) \<le> a"
  by (rule le_rep) auto

lemmas signs = zero pos_iff neg_iff nonneg_iff nonpos_iff zero_iff

end

lemma round_digits_rounding:
  assumes "1 < b" "0 < p"
  shows "rounding (round_digits b p)"
proof
  show pos: "0 < x \<Longrightarrow> 0 < round_digits b p x" for x
    by (rule round_digits_gt0[OF assms])
  show minus: "round_digits b p (- x) = - round_digits b p x" for x
    by (rule round_digits_minus)
  have z: "round_digits b p 0 = 0" by (simp add: round_digits_def)
  have neg: "x < 0 \<Longrightarrow> round_digits b p x < 0" for x
    using pos[of "- x"] minus[of x] by simp
  show "round_digits b p (round_digits b p x) = round_digits b p x" for x
    using round_digits_idem_pos[OF assms, of x] round_digits_idem_pos[OF assms, of "- x"]
      minus[of x] minus[of "round_digits b p x"] z
    by (cases x "0 :: rat" rule: linorder_cases) auto
  show "round_digits b p x \<le> round_digits b p y" if "x \<le> y" for x y
  proof -
    consider "0 < x" | "y < 0" | "x \<le> 0" "0 \<le> y" using \<open>x \<le> y\<close> by linarith
    then show ?thesis
    proof cases
      case 1
      then show ?thesis using that by (rule round_digits_mono_pos[OF assms])
    next
      case 2
      then show ?thesis
        using round_digits_mono_pos[OF assms, of "- y" "- x"] that minus by simp
    next
      case 3
      then have "round_digits b p x \<le> 0" "0 \<le> round_digits b p y"
        using neg[of x] pos[of y] z by (metis nless_le)+
      then show ?thesis by linarith
    qed
  qed
qed

subsection \<open>Floats and decimals\<close>

type_synonym pyfloat = rat
type_synonym decimal = rat

definition fl :: "rat \<Rightarrow> pyfloat" where
  "fl x = round_digits 2 53 x"

definition dc :: "rat \<Rightarrow> decimal" where
  "dc x = round_digits 10 28 x"

interpretation flo: rounding fl
  using round_digits_rounding[of 2 53] by (simp add: fl_def[abs_def])

interpretation dco: rounding dc
  using round_digits_rounding[of 10 28] by (simp add: dc_def[abs_def])

definition fadd :: "pyfloat \<Rightarrow> pyfloat \<Rightarrow> pyfloat" where "fadd x y = fl (x + y)"
definition fsub :: "pyfloat \<Rightarrow> pyfloat \<Rightarrow> pyfloat" where "fsub x y = fl (x - y)"
definition fmul :: "pyfloat \<Rightarrow> pyfloat \<Rightarrow> pyfloat" where "fmul x y = fl (x * y)"
definition fdiv :: "pyfloat \<Rightarrow> pyfloat \<Rightarrow> pyfloat" where "fdiv x y = fl (x / y)"

definition dadd :: "decimal \<Rightarrow> decimal \<Rightarrow> decimal" where "dadd x y = dc (x + y)"
definition dsub :: "decimal \<Rightarrow> decimal \<Rightarrow> decimal" where "dsub x y = dc (x - y)"
definition dmul :: "decimal \<Rightarrow> decimal \<Rightarrow> decimal" where "dmul x y = dc (x * y)"
definition ddiv :: "decimal \<Rightarrow> decimal \<Rightarrow> decimal" where "ddiv x y = dc (x / y)"

lemmas float_ops = fadd_def fsub_def fmul_def fdiv_def
lemmas dec_ops = dadd_def dsub_def dmul_def ddiv_def

definition is_float :: "rat \<Rightarrow> bool" where "is_float x \<longleftrightarrow> fl x = x"
definition is_dec :: "rat \<Rightarrow> bool" where "is_dec x \<longleftrightarrow> dc x = x"

lemma is_float_simps [simp]:
  "is_float 0" "is_float (fl x)" "is_float (fadd x y)" "is_float (fsub x y)"
  "is_float (fmul x y)" "is_float (fdiv x y)"
  by (simp_all add: is_float_def float_ops flo.zero flo.idem)

lemma is_dec_simps [simp]:
  "is_dec 0" "is_dec (dc x)" "is_dec (dadd x y)" "is_dec (dsub x y)" "is_dec (dmul x y)"
  "is_dec (ddiv x y)"
  by (simp_all add: is_dec_def dec_ops dco.zero dco.idem)

text \<open>Whole numbers of up to 53 binary digits are floats.\<close>

lemma fl_nat_int:
  assumes "0 \<le> n" "n < 2 ^ 53"
  shows "fl (of_int n) = of_int n"
proof (cases "n = 0")
  case True
  then show ?thesis by (simp add: flo.zero)
next
  case False
  then have n: "0 < rat_of_int n" "0 < n" using assms(1) by simp_all
  have "rat_of_nat 2 powi ilog 2 (of_int n) \<le> of_int n" using n by (intro ilog_bounds(1)) simp_all
  also have "rat_of_int n < rat_of_int (2 ^ 53)" using assms(2) by (simp only: of_int_less_iff)
  also have "rat_of_int (2 ^ 53) = rat_of_nat 2 powi 53" by simp
  finally have "ilog 2 (of_int n) < 53" by (intro powi_less[of "rat_of_nat 2"]) simp_all
  then have "on_grid 2 53 (of_int n)"
    using n by (simp add: on_grid_def quotient_of_int Let_def)
  then show ?thesis unfolding fl_def by (rule on_grid_exact) simp
qed

lemma is_float_int: "\<bar>n\<bar> < 2 ^ 53 \<Longrightarrow> is_float (of_int n)"
  using fl_nat_int[of n] fl_nat_int[of "- n"] flo.minus[of "of_int n"]
  by (cases "0 \<le> n") (simp_all add: is_float_def)

lemma is_float_numeral: "numeral k < (2 :: int) ^ 53 \<Longrightarrow> is_float (numeral k)"
  using is_float_int[of "numeral k"] by simp

text \<open>Folds of rounded additions, as \<^verbatim>\<open>sum(...)\<close> computes them from left to right.\<close>

definition fsum :: "pyfloat list \<Rightarrow> pyfloat" where "fsum xs = foldl fadd 0 xs"
definition dsum :: "decimal list \<Rightarrow> decimal" where "dsum xs = foldl dadd 0 xs"

lemma foldl_fadd_mono:
  "is_float a \<Longrightarrow> (\<forall>x \<in> set xs. 0 \<le> x) \<Longrightarrow> a \<le> foldl fadd a xs \<and> is_float (foldl fadd a xs)"
proof (induction xs arbitrary: a)
  case (Cons x xs)
  have "a \<le> fadd a x" using Cons.prems by (simp add: fadd_def is_float_def flo.add_mono_rep)
  with Cons.IH[of "fadd a x"] Cons.prems show ?case by auto
qed simp

lemma foldl_dadd_mono:
  "is_dec a \<Longrightarrow> (\<forall>x \<in> set xs. 0 \<le> x) \<Longrightarrow> a \<le> foldl dadd a xs \<and> is_dec (foldl dadd a xs)"
proof (induction xs arbitrary: a)
  case (Cons x xs)
  have "a \<le> dadd a x" using Cons.prems by (simp add: dadd_def is_dec_def dco.add_mono_rep)
  with Cons.IH[of "dadd a x"] Cons.prems show ?case by auto
qed simp

lemma dsum_nonneg: "(\<forall>x \<in> set xs. 0 \<le> x) \<Longrightarrow> 0 \<le> dsum xs"
  using foldl_dadd_mono[of 0 xs] by (simp add: dsum_def)

lemma fsum_nonneg: "(\<forall>x \<in> set xs. 0 \<le> x) \<Longrightarrow> 0 \<le> fsum xs"
  using foldl_fadd_mono[of 0 xs] by (simp add: fsum_def)

subsection \<open>Conversions\<close>

definition trunc0 :: "rat \<Rightarrow> int" where
  "trunc0 x = (if 0 \<le> x then \<lfloor>x\<rfloor> else \<lceil>x\<rceil>)"

definition py_round :: "nat \<Rightarrow> pyfloat \<Rightarrow> pyfloat" where
  "py_round n x = fl (of_int (round_even (x * 10 ^ n)) / 10 ^ n)"

text \<open>
  \<open>repr_at n x\<close>: the decimals with \<open>n\<close> significant digits next to \<open>x\<close> that read back
  as \<open>x\<close>; \<^verbatim>\<open>repr\<close> takes the first \<open>n\<close> with one, and the closer of two.
\<close>

definition repr_at :: "nat \<Rightarrow> pyfloat \<Rightarrow> decimal list" where
  "repr_at n x = (let u = ulp 10 n x in
     filter (\<lambda>d. fl d = x) [of_int \<lfloor>x / u\<rfloor> * u, of_int \<lceil>x / u\<rceil> * u])"

fun repr_from :: "nat list \<Rightarrow> pyfloat \<Rightarrow> decimal" where
  "repr_from [] x = x"
| "repr_from (n # ns) x = (case repr_at n x of
     [] \<Rightarrow> repr_from ns x
   | [d] \<Rightarrow> d
   | d # e # _ \<Rightarrow> if x - d \<le> e - x then d else e)"

definition dec_of_float :: "pyfloat \<Rightarrow> decimal" where
  "dec_of_float x = (if x = 0 then 0
     else if x < 0 then - repr_from [1..<18] (- x) else repr_from [1..<18] x)"

lemma fl_repr_from: "is_float x \<Longrightarrow> fl (repr_from ns x) = x"
proof (induction ns)
  case Nil
  then show ?case by (simp add: is_float_def)
next
  case (Cons n ns)
  have "\<forall>d \<in> set (repr_at n x). fl d = x" by (auto simp: repr_at_def Let_def)
  then show ?case using Cons by (auto split: list.splits)
qed

text \<open>Reading the decimal back gives the float: \<^verbatim>\<open>float(Decimal(str(x))) == x\<close>.\<close>

lemma fl_dec_of_float: "is_float x \<Longrightarrow> fl (dec_of_float x) = x"
proof -
  assume "is_float x"
  then have "is_float (- x)" by (simp add: is_float_def flo.minus)
  with \<open>is_float x\<close> show ?thesis
    by (simp add: dec_of_float_def flo.zero flo.minus fl_repr_from)
qed

lemma dec_of_float_less:
  assumes "is_float x" "is_float y"
  shows "dec_of_float x < dec_of_float y \<longleftrightarrow> x < y"
proof
  show "dec_of_float x < dec_of_float y \<Longrightarrow> x < y"
    using flo.mono[of "dec_of_float x" "dec_of_float y"] assms
    by (metis fl_dec_of_float nless_le order_less_irrefl)
  show "x < y \<Longrightarrow> dec_of_float x < dec_of_float y"
    using flo.mono[of "dec_of_float y" "dec_of_float x"] assms
    by (metis fl_dec_of_float linorder_not_less)
qed

lemma dec_of_float_le:
  "is_float x \<Longrightarrow> is_float y \<Longrightarrow> dec_of_float x \<le> dec_of_float y \<longleftrightarrow> x \<le> y"
  using dec_of_float_less[of y x] by (simp add: not_less[symmetric])

lemma dec_of_float_0 [simp]: "dec_of_float 0 = 0"
  by (simp add: dec_of_float_def)

lemma dec_of_float_pos: "is_float x \<Longrightarrow> 0 < dec_of_float x \<longleftrightarrow> 0 < x"
  using dec_of_float_less[of 0 x] by simp

lemma dec_of_float_nonneg: "is_float x \<Longrightarrow> 0 \<le> dec_of_float x \<longleftrightarrow> 0 \<le> x"
  using dec_of_float_le[of 0 x] by simp

subsection \<open>Relative error of float arithmetic\<close>

text \<open>One rounding to 53 bits changes a number by at most the unit roundoff, relatively.\<close>

definition unit_roundoff :: rat where
  "unit_roundoff = 1 / 2 ^ 53"

lemma unit_roundoff_bounds: "0 < unit_roundoff" "unit_roundoff \<le> 1 / 100"
  by (simp_all add: unit_roundoff_def)

lemma fl_near:
  assumes "0 \<le> x"
  shows "x * (1 - unit_roundoff) \<le> fl x" "fl x \<le> x * (1 + unit_roundoff)"
proof -
  have "\<bar>fl x - x\<bar> \<le> x * unit_roundoff"
  proof (cases "x = 0")
    case True
    then show ?thesis by (simp add: flo.zero)
  next
    case False
    then have x: "0 < x" using assms by simp
    have "ulp 2 53 x / 2 = rat_of_nat 2 powi ilog 2 x * unit_roundoff"
      using x by (simp add: ulp_def unit_roundoff_def power_int_add power_int_diff)
    also have "\<dots> \<le> x * unit_roundoff"
      using ilog_bounds(1)[of 2 x] x unit_roundoff_bounds by (intro mult_right_mono) simp_all
    finally show ?thesis using round_digits_err[of 2 53 x] by (simp add: fl_def)
  qed
  then show "x * (1 - unit_roundoff) \<le> fl x" "fl x \<le> x * (1 + unit_roundoff)"
    by (simp_all add: algebra_simps abs_le_iff)
qed

text \<open>The quotient of two rounded numbers, rounded, against the exact one.\<close>

lemma fdiv_near:
  assumes a: "0 \<le> a" and d: "0 < d"
  shows "a * (1 - 4 * unit_roundoff) \<le> fdiv (fl a) (fl d) * d"
    and "fdiv (fl a) (fl d) * d \<le> a * (1 + 4 * unit_roundoff)"
proof -
  define u where "u = unit_roundoff"
  have u: "0 < u" "u \<le> 1 / 100" using unit_roundoff_bounds by (simp_all add: u_def)
  have fd: "0 < fl d" using d by (simp add: flo.signs)
  have fa: "0 \<le> fl a" using a by (simp add: flo.signs)
  have nd: "d * (1 - u) \<le> fl d" "fl d \<le> d * (1 + u)" using fl_near[of d] d by (simp_all add: u_def)
  have na: "a * (1 - u) \<le> fl a" "fl a \<le> a * (1 + u)" using fl_near[OF a] by (simp_all add: u_def)
  have nq: "fl a / fl d * (1 - u) \<le> fdiv (fl a) (fl d)" "fdiv (fl a) (fl d) \<le> fl a / fl d * (1 + u)"
    using fl_near[of "fl a / fl d"] fa fd by (simp_all add: fdiv_def u_def)
  have lo: "(1 - 4 * u) * (1 + u) \<le> (1 - u) * (1 - u)"
    using u by (simp add: algebra_simps)
  have hi: "(1 + u) * (1 + u) \<le> (1 + 4 * u) * (1 - u)"
  proof -
    have "u * u \<le> u * (1 / 100)" using u by (intro mult_left_mono) simp_all
    then show ?thesis using u by (simp add: algebra_simps)
  qed
  have "a * (1 - 4 * u) * fl d \<le> a * (1 - 4 * u) * (d * (1 + u))"
    using nd a u by (intro mult_left_mono) simp_all
  also have "\<dots> = a * d * ((1 - 4 * u) * (1 + u))" by (simp add: algebra_simps)
  also have "\<dots> \<le> a * d * ((1 - u) * (1 - u))" using lo a d by (intro mult_left_mono) simp_all
  also have "\<dots> = a * (1 - u) * (1 - u) * d" by (simp add: algebra_simps)
  also have "\<dots> \<le> fl a * (1 - u) * d" using na a d u by (intro mult_right_mono) simp_all
  also have "\<dots> = fl a / fl d * (1 - u) * d * fl d" using fd by simp
  also have "\<dots> \<le> fdiv (fl a) (fl d) * d * fl d" using nq d fd by (intro mult_right_mono) simp_all
  finally show "a * (1 - 4 * unit_roundoff) \<le> fdiv (fl a) (fl d) * d"
    using fd by (simp add: u_def)
  have "fdiv (fl a) (fl d) * d * fl d \<le> fl a / fl d * (1 + u) * d * fl d"
    using nq d fd by (intro mult_right_mono) simp_all
  also have "\<dots> = fl a * ((1 + u) * d)" using fd by simp
  also have "\<dots> \<le> a * (1 + u) * ((1 + u) * d)" using na d u by (intro mult_right_mono) simp_all
  also have "\<dots> = a * d * ((1 + u) * (1 + u))" by (simp add: algebra_simps)
  also have "\<dots> \<le> a * d * ((1 + 4 * u) * (1 - u))" using hi a d by (intro mult_left_mono) simp_all
  also have "\<dots> = a * (1 + 4 * u) * (d * (1 - u))" by (simp add: algebra_simps)
  also have "\<dots> \<le> a * (1 + 4 * u) * fl d" using nd a u by (intro mult_left_mono) simp_all
  finally show "fdiv (fl a) (fl d) * d \<le> a * (1 + 4 * unit_roundoff)"
    using fd by (simp add: u_def)
qed

lemma within_relative:
  fixes a b c :: rat
  assumes "a * (1 - c) \<le> b" "b \<le> a * (1 + c)"
  shows "\<bar>b - a\<bar> \<le> a * c"
  using assms by (simp add: abs_le_iff algebra_simps)

lemma abs_fsub: "\<bar>fsub x y\<bar> = fl \<bar>x - y\<bar>"
  by (simp add: fsub_def flo.abs_rnd)

end
