(* ===== verification/Prelude.thy ===== *)
theory Prelude
  imports PyNum "HOL-Library.AList"
begin

text \<open>
  What every component shares: the exceptions of the application, programs over a state that
  may raise (a Python coroutine as \<open>'w \<Rightarrow> (exc + 'a) \<times> 'w\<close>: whatever was changed before a raise
  stays changed), the frame laws of such programs as the locale \<open>frame\<close>, Python's truthiness of
  an optional Decimal, and \<^verbatim>\<open>str.strip\<close> / \<^verbatim>\<open>str.upper\<close>.
\<close>

subsection \<open>Exceptions\<close>

datatype exc =
    KillSwitchActiveError | DailyLossLimitError | WeeklyLossLimitError | CooldownActiveError
  | HardLossStreakPauseError
  | RiskManagerError | ZeroRiskDistanceError | InvalidRiskInputError | BelowMinQtyError
  | BelowMinNotionalError | InsufficientSpotBalanceError
  | OrderAlreadySubmittedError
  | BybitAPIError string | BybitConnectionError | TimeoutError | InvalidOrderParamsError
  | GridSessionAlreadyActiveError | GridSessionNotFoundError
  | ValueError | TypeError | KeyError | RuntimeError | ZeroDivisionError | InvalidOperation
  | AttributeError | IndexError | StatisticsError | MultipleResultsFound | NoResultFound
  | TradeNotFoundError | TradeNotOpenError | BacktestGateError | BacktestExpectationError

text \<open>
  \<open>TradeNotFoundError\<close> and \<open>TradeNotOpenError\<close> are the two \<^verbatim>\<open>ValueError\<close>s
  of the position manager, which its router tells apart by their text.
\<close>

fun is_safety_guard_error :: "exc \<Rightarrow> bool" where
  "is_safety_guard_error KillSwitchActiveError = True"
| "is_safety_guard_error DailyLossLimitError = True"
| "is_safety_guard_error WeeklyLossLimitError = True"
| "is_safety_guard_error CooldownActiveError = True"
| "is_safety_guard_error HardLossStreakPauseError = True"
| "is_safety_guard_error _ = False"

fun is_risk_manager_error :: "exc \<Rightarrow> bool" where
  "is_risk_manager_error RiskManagerError = True"
| "is_risk_manager_error ZeroRiskDistanceError = True"
| "is_risk_manager_error InvalidRiskInputError = True"
| "is_risk_manager_error BelowMinQtyError = True"
| "is_risk_manager_error BelowMinNotionalError = True"
| "is_risk_manager_error InsufficientSpotBalanceError = True"
| "is_risk_manager_error _ = False"

subsection \<open>Programs\<close>

type_synonym ('w, 'a) prog = "'w \<Rightarrow> (exc + 'a) \<times> 'w"

definition ret :: "'a \<Rightarrow> ('w, 'a) prog" where
  "ret a w = (Inr a, w)"

definition throw :: "exc \<Rightarrow> ('w, 'a) prog" where
  "throw e w = (Inl e, w)"

definition bnd :: "('w, 'a) prog \<Rightarrow> ('a \<Rightarrow> ('w, 'b) prog) \<Rightarrow> ('w, 'b) prog" where
  "bnd m f w = (case m w of (Inl e, w') \<Rightarrow> (Inl e, w') | (Inr a, w') \<Rightarrow> f a w')"

definition andthen :: "('w, 'a) prog \<Rightarrow> ('w, 'b) prog \<Rightarrow> ('w, 'b) prog" where
  "andthen m n = bnd m (\<lambda>_. n)"

definition reads :: "('w \<Rightarrow> 'a) \<Rightarrow> ('w, 'a) prog" where
  "reads f w = (Inr (f w), w)"

definition modify :: "('w \<Rightarrow> 'w) \<Rightarrow> ('w, unit) prog" where
  "modify f w = (Inr (), f w)"

definition raise_if :: "bool \<Rightarrow> exc \<Rightarrow> ('w, unit) prog" where
  "raise_if c e = (if c then throw e else ret ())"

definition from_sum :: "exc + 'a \<Rightarrow> ('w, 'a) prog" where
  "from_sum r w = (r, w)"

text \<open>\<^verbatim>\<open>try: m except E: h\<close>, with the handled exceptions as a predicate.\<close>

definition catch :: "('w, 'a) prog \<Rightarrow> (exc \<Rightarrow> bool) \<Rightarrow> (exc \<Rightarrow> ('w, 'a) prog) \<Rightarrow> ('w, 'a) prog" where
  "catch m p h w = (case m w of
     (Inl e, w') \<Rightarrow> if p e then h e w' else (Inl e, w')
   | (Inr a, w') \<Rightarrow> (Inr a, w'))"

fun each :: "('a \<Rightarrow> ('w, unit) prog) \<Rightarrow> 'a list \<Rightarrow> ('w, unit) prog" where
  "each f [] = ret ()"
| "each f (x # xs) = andthen (f x) (each f xs)"

text \<open>\<^verbatim>\<open>for x in xs: if f(x): n += 1\<close>\<close>

fun count_each :: "('a \<Rightarrow> ('w, bool) prog) \<Rightarrow> 'a list \<Rightarrow> ('w, nat) prog" where
  "count_each f [] = ret 0"
| "count_each f (x # xs) =
     bnd (f x) (\<lambda>b. bnd (count_each f xs) (\<lambda>n. ret (if b then Suc n else n)))"

text \<open>\<^verbatim>\<open>[f(x) for x in xs]\<close>\<close>

fun map_each :: "('a \<Rightarrow> ('w, 'b) prog) \<Rightarrow> 'a list \<Rightarrow> ('w, 'b list) prog" where
  "map_each f [] = ret []"
| "map_each f (x # xs) = bnd (f x) (\<lambda>y. bnd (map_each f xs) (\<lambda>ys. ret (y # ys)))"

lemmas prog_defs = ret_def throw_def bnd_def andthen_def reads_def modify_def raise_if_def
  from_sum_def catch_def

lemma run_simps [simp]:
  "ret a w = (Inr a, w)" "throw e w = (Inl e, w)" "reads f w = (Inr (f w), w)"
  "modify h w = (Inr (), h w)" "from_sum r w = (r, w)"
  "raise_if True e w = (Inl e, w)" "raise_if False e w = (Inr (), w)"
  by (simp_all add: prog_defs)

lemma raise_if_run: "raise_if c e w = (if c then (Inl e, w) else (Inr (), w))"
  by (simp add: prog_defs)

lemma bnd_Inr: "m w = (Inr a, w') \<Longrightarrow> bnd m f w = f a w'"
  by (simp add: bnd_def)

lemma andthen_Inr: "m w = (Inr a, w') \<Longrightarrow> andthen m n w = n w'"
  by (simp add: andthen_def bnd_def)

lemma bnd_Inl: "m w = (Inl e, w') \<Longrightarrow> bnd m f w = (Inl e, w')"
  by (simp add: bnd_def)

lemma bnd_simps [simp]:
  "bnd (ret a) f = f a" "bnd (throw e) f = throw e"
  "bnd (reads g) f w = f (g w) w" "bnd (modify h) f' w = f' () (h w)"
  "bnd (raise_if c e) f' w = (if c then (Inl e, w) else f' () w)"
  "bnd (from_sum r) f w = (case r of Inl e \<Rightarrow> (Inl e, w) | Inr a \<Rightarrow> f a w)"
  by (auto simp: prog_defs fun_eq_iff split: sum.splits)

lemma andthen_simps [simp]:
  "andthen (ret a) n = n" "andthen (throw e) n = throw e"
  "andthen (reads g) n w = n w" "andthen (modify h) n w = n (h w)"
  "andthen (raise_if c e) n w = (if c then (Inl e, w) else n w)"
  by (auto simp: prog_defs fun_eq_iff)

lemma bnd_assoc: "bnd (bnd m f) g = bnd m (\<lambda>x. bnd (f x) g)"
  by (auto simp: prog_defs fun_eq_iff split: prod.splits sum.splits)

lemma bnd_InrE:
  assumes "bnd m f w = (Inr b, w')"
  obtains a w1 where "m w = (Inr a, w1)" "f a w1 = (Inr b, w')"
  using assms by (auto simp: bnd_def split: prod.splits sum.splits)

lemma andthen_InrE:
  assumes "andthen m n w = (Inr b, w')"
  obtains a w1 where "m w = (Inr a, w1)" "n w1 = (Inr b, w')"
  using assms by (auto simp: andthen_def elim: bnd_InrE)

lemma map_each_Inr:
  "map_each f xs w = (Inr ys, w') \<Longrightarrow> list_all2 (\<lambda>x y. \<exists>v v'. f x v = (Inr y, v')) xs ys"
proof (induction xs arbitrary: w ys)
  case (Cons x xs)
  then obtain y w1 zs where "f x w = (Inr y, w1)" "map_each f xs w1 = (Inr zs, w')" "ys = y # zs"
    by (auto elim!: bnd_InrE)
  with Cons.IH show ?case by auto
qed simp

subsection \<open>Frames\<close>

text \<open>
  \<open>steps R m\<close>: however \<open>m\<close> ends, the state it leaves is related to the one it started in.
  For a reflexive and transitive \<open>R\<close> the programs with that property are closed under every
  combinator, so a component's operations inherit it from the writes they are made of.
\<close>

definition steps :: "('w \<Rightarrow> 'w \<Rightarrow> bool) \<Rightarrow> ('w, 'a) prog \<Rightarrow> bool" where
  "steps R m \<longleftrightarrow> (\<forall>w. R w (snd (m w)))"

lemma stepsI: "(\<And>w. R w (snd (m w))) \<Longrightarrow> steps R m"
  by (simp add: steps_def)

lemma stepsD: "steps R m \<Longrightarrow> m w = (r, w') \<Longrightarrow> R w w'"
  by (metis snd_conv steps_def)

locale frame =
  fixes R :: "'w \<Rightarrow> 'w \<Rightarrow> bool"
  assumes refl: "R w w"
    and trans: "R u v \<Longrightarrow> R v w \<Longrightarrow> R u w"
begin

lemma ret: "steps R (ret a)"
  by (simp add: steps_def refl)

lemma throw: "steps R (throw e)"
  by (simp add: steps_def refl)

lemma reads: "steps R (reads f)"
  by (simp add: steps_def refl)

lemma raise_if: "steps R (raise_if c e)"
  by (simp add: steps_def raise_if_run refl)

lemma from_sum: "steps R (from_sum r)"
  by (simp add: steps_def refl)

lemma modify: "(\<And>w. R w (f w)) \<Longrightarrow> steps R (modify f)"
  by (simp add: steps_def)

lemma bnd: "steps R m \<Longrightarrow> (\<And>a. steps R (f a)) \<Longrightarrow> steps R (bnd m f)"
proof (rule stepsI)
  fix w
  assume m: "steps R m" and f: "\<And>a. steps R (f a)"
  obtain r w1 where mw: "m w = (r, w1)" by (cases "m w")
  show "R w (snd (bnd m f w))"
  proof (cases r)
    case (Inl e)
    then show ?thesis using stepsD[OF m mw] by (simp add: bnd_def mw)
  next
    case (Inr a)
    have "R w1 (snd (f a w1))" using f by (simp add: steps_def)
    with stepsD[OF m mw] show ?thesis by (simp add: bnd_def mw Inr) (rule trans)
  qed
qed

lemma andthen: "steps R m \<Longrightarrow> steps R n \<Longrightarrow> steps R (andthen m n)"
  by (simp add: andthen_def bnd)

lemma catch: "steps R m \<Longrightarrow> (\<And>e. steps R (h e)) \<Longrightarrow> steps R (catch m p h)"
proof (rule stepsI)
  fix w
  assume m: "steps R m" and h: "\<And>e. steps R (h e)"
  obtain r w1 where mw: "m w = (r, w1)" by (cases "m w")
  show "R w (snd (catch m p h w))"
  proof (cases r)
    case (Inl e)
    have "R w1 (snd (h e w1))" using h by (simp add: steps_def)
    with stepsD[OF m mw] show ?thesis
      by (auto simp: catch_def mw Inl intro: trans)
  next
    case (Inr a)
    then show ?thesis using stepsD[OF m mw] by (simp add: catch_def mw)
  qed
qed

lemma ite: "(c \<Longrightarrow> steps R m) \<Longrightarrow> (\<not> c \<Longrightarrow> steps R n) \<Longrightarrow> steps R (if c then m else n)"
  by simp

lemma case_option:
  "steps R m \<Longrightarrow> (\<And>x. steps R (f x)) \<Longrightarrow> steps R (case o' of None \<Rightarrow> m | Some x \<Rightarrow> f x)"
  by (cases o') simp_all

lemma case_prod: "(\<And>x y. steps R (f x y)) \<Longrightarrow> steps R (case p of (x, y) \<Rightarrow> f x y)"
  by (cases p) simp

lemma let_in: "(\<And>x. steps R (f x)) \<Longrightarrow> steps R (Let v f)"
  by (simp add: Let_def)

lemma each: "(\<And>x. steps R (f x)) \<Longrightarrow> steps R (each f xs)"
  by (induction xs) (simp_all add: ret andthen)

lemma count_each: "(\<And>x. steps R (f x)) \<Longrightarrow> steps R (count_each f xs)"
  by (induction xs) (auto intro!: ret bnd)

lemmas rules = ret throw reads raise_if from_sum bnd andthen catch ite case_option case_prod let_in
  each count_each

end

text \<open>Keeping an invariant is a frame.\<close>

definition preserves :: "('w \<Rightarrow> bool) \<Rightarrow> 'w \<Rightarrow> 'w \<Rightarrow> bool" where
  "preserves P w w' \<longleftrightarrow> (P w \<longrightarrow> P w')"

interpretation kp: frame "preserves P" for P
  by unfold_locales (auto simp: preserves_def)

interpretation eqf: frame "\<lambda>w w'. f w' = f w" for f
  by unfold_locales auto

lemma keeps_run: "steps (preserves P) m \<Longrightarrow> P w \<Longrightarrow> P (snd (m w))"
  by (simp add: steps_def preserves_def)

subsection \<open>Truthiness and strings\<close>

text \<open>\<^verbatim>\<open>a or b\<close> on optional Decimals: \<^verbatim>\<open>None\<close> and zero are both falsy.\<close>

fun truthy :: "decimal option \<Rightarrow> bool" where
  "truthy None = False"
| "truthy (Some x) = (x \<noteq> 0)"

definition dec_or :: "decimal option \<Rightarrow> decimal option \<Rightarrow> decimal option" where
  "dec_or a b = (if truthy a then a else b)"

definition or_zero :: "decimal option \<Rightarrow> decimal" where
  "or_zero a = (case a of Some x \<Rightarrow> x | None \<Rightarrow> 0)"

lemma or_zero_simps [simp]: "or_zero None = 0" "or_zero (Some x) = x"
  by (simp_all add: or_zero_def)

lemma dec_or_simps [simp]:
  "dec_or None b = b" "x \<noteq> 0 \<Longrightarrow> dec_or (Some x) b = Some x" "dec_or (Some 0) b = b"
  by (simp_all add: dec_or_def)

definition is_space :: "char \<Rightarrow> bool" where
  "is_space c \<longleftrightarrow> (of_char c :: nat) \<in> {9, 10, 11, 12, 13, 28, 29, 30, 31, 32}"

definition py_strip :: "string \<Rightarrow> string" where
  "py_strip s = rev (dropWhile is_space (rev (dropWhile is_space s)))"

definition upper_char :: "char \<Rightarrow> char" where
  "upper_char c = (if 97 \<le> (of_char c :: nat) \<and> (of_char c :: nat) \<le> 122
     then char_of ((of_char c :: nat) - 32) else c)"

definition py_upper :: "string \<Rightarrow> string" where
  "py_upper s = map upper_char s"

lemma upper_char_idem: "upper_char (upper_char c) = upper_char c"
proof (cases "97 \<le> (of_char c :: nat) \<and> (of_char c :: nat) \<le> 122")
  case True
  then have "((of_char c :: nat) - 32) mod 256 = of_char c - 32"
    by (intro mod_less) linarith
  moreover have "\<not> 97 \<le> (of_char c :: nat) - 32" using True by linarith
  ultimately show ?thesis using True by (simp add: upper_char_def)
next
  case False
  then have "upper_char c = c" by (auto simp: upper_char_def)
  then show ?thesis by simp
qed

lemma dropWhile_hd: "dropWhile P xs = [] \<or> \<not> P (hd (dropWhile P xs))"
  by (metis hd_dropWhile)

lemma py_strip_idem: "py_strip (py_strip s) = py_strip s"
proof -
  define a where "a = dropWhile is_space s"
  define b where "b = dropWhile is_space (rev a)"
  have "dropWhile is_space (rev b) = rev b"
  proof (cases "b = []")
    case False
    have "a \<noteq> []" using False by (auto simp: b_def)
    then have h: "\<not> is_space (hd a)" using dropWhile_hd[of is_space s] by (auto simp: a_def)
    obtain us where "rev a = us @ b" by (metis b_def takeWhile_dropWhile_id)
    then have "a = rev b @ rev us" by (metis rev_append rev_rev_ident)
    then have "hd (rev b) = hd a" using False by (metis hd_append2 rev_is_Nil_conv)
    with h False show ?thesis by (cases "rev b") auto
  next
    case True
    then show ?thesis by simp
  qed
  then show ?thesis by (simp add: py_strip_def a_def b_def)
qed

lemma is_space_upper: "is_space (upper_char c) = is_space c"
  by (auto simp: is_space_def upper_char_def)

lemma py_strip_upper: "py_strip (py_upper s) = py_upper (py_strip s)"
  by (simp add: py_strip_def py_upper_def dropWhile_map o_def is_space_upper rev_map)

lemma normalize_symbol_idem: "py_upper (py_strip (py_upper (py_strip s))) = py_upper (py_strip s)"
  by (simp add: py_strip_upper py_strip_idem) (simp add: py_upper_def upper_char_idem o_def)

subsection \<open>Lists\<close>

definition update_where :: "('a \<Rightarrow> bool) \<Rightarrow> ('a \<Rightarrow> 'a) \<Rightarrow> 'a list \<Rightarrow> 'a list" where
  "update_where p f xs = map (\<lambda>x. if p x then f x else x) xs"

lemma set_update_where: "set (update_where p f xs) = (\<lambda>x. if p x then f x else x) ` set xs"
  by (simp add: update_where_def)

lemma map_update_where: "(\<And>x. p x \<Longrightarrow> g (f x) = g x) \<Longrightarrow> map g (update_where p f xs) = map g xs"
  by (simp add: update_where_def)

lemma length_update_where [simp]: "length (update_where p f xs) = length xs"
  by (simp add: update_where_def)

lemma update_where_twice:
  "(\<And>x. p x \<Longrightarrow> p (f x)) \<Longrightarrow> update_where p g (update_where p f xs) = update_where p (\<lambda>x. g (f x)) xs"
  by (simp add: update_where_def)

lemma find_update_where:
  assumes "\<And>x. q (f x) = q x" "\<And>x. q x \<Longrightarrow> p x"
  shows "find q (update_where p f xs) = map_option f (find q xs)"
  using assms by (induction xs) (auto simp: update_where_def)

lemma find_update_where_other:
  assumes "\<And>x. p x \<Longrightarrow> \<not> q x" "\<And>x. p x \<Longrightarrow> \<not> q (f x)"
  shows "find q (update_where p f xs) = find q xs"
  using assms by (induction xs) (auto simp: update_where_def)

lemma find_append: "find p (xs @ ys) = (case find p xs of Some x \<Rightarrow> Some x | None \<Rightarrow> find p ys)"
  by (induction xs) auto

end
