(* ===== verification/Results.thy ===== *)
theory Results
  imports Prelude
begin

text \<open>
  Computations that may raise but keep no state, as \<open>exc + 'a\<close>: sequencing, guards, Python's
  division, and loops over a list that stop at the first exception.
\<close>

definition ebind :: "exc + 'a \<Rightarrow> ('a \<Rightarrow> exc + 'b) \<Rightarrow> exc + 'b" where
  "ebind m f = (case m of Inl x \<Rightarrow> Inl x | Inr a \<Rightarrow> f a)"

definition eguard :: "bool \<Rightarrow> exc \<Rightarrow> exc + 'a \<Rightarrow> exc + 'a" where
  "eguard c x m = (if c then Inl x else m)"

lemma ebind_simps [simp]: "ebind (Inl x) f = Inl x" "ebind (Inr a) f = f a"
  by (simp_all add: ebind_def)

lemma eguard_simps [simp]: "eguard True x m = Inl x" "eguard False x m = m"
  by (simp_all add: eguard_def)

lemma ebind_Inr_iff: "ebind m f = Inr b \<longleftrightarrow> (\<exists>a. m = Inr a \<and> f a = Inr b)"
  by (cases m) simp_all

lemma eguard_Inr_iff: "eguard c x m = Inr b \<longleftrightarrow> \<not> c \<and> m = Inr b"
  by (cases c) simp_all

text \<open>\<^verbatim>\<open>[f(x) for x in xs]\<close>\<close>

fun emap :: "('a \<Rightarrow> exc + 'b) \<Rightarrow> 'a list \<Rightarrow> exc + 'b list" where
  "emap f [] = Inr []"
| "emap f (x # xs) = ebind (f x) (\<lambda>y. ebind (emap f xs) (\<lambda>ys. Inr (y # ys)))"

text \<open>\<^verbatim>\<open>for x in xs: s = f(s, x)\<close>\<close>

fun efold :: "('s \<Rightarrow> 'a \<Rightarrow> exc + 's) \<Rightarrow> 'a list \<Rightarrow> 's \<Rightarrow> exc + 's" where
  "efold f [] s = Inr s"
| "efold f (x # xs) s = ebind (f s x) (efold f xs)"

lemma emap_total: "(\<And>x. x \<in> set xs \<Longrightarrow> f x = Inr (g x)) \<Longrightarrow> emap f xs = Inr (map g xs)"
  by (induction xs) auto

lemma emap_length: "emap f xs = Inr ys \<Longrightarrow> length ys = length xs"
  by (induction xs arbitrary: ys) (auto simp: ebind_Inr_iff)

lemma efold_total: "(\<And>s x. x \<in> set xs \<Longrightarrow> f s x = Inr (g s x)) \<Longrightarrow> efold f xs s = Inr (foldl g s xs)"
  by (induction xs arbitrary: s) auto

lemma efold_append: "efold f (xs @ ys) s = ebind (efold f xs s) (efold f ys)"
  by (induction xs arbitrary: s) (auto simp: ebind_def split: sum.splits)

lemma efold_invariant:
  assumes "efold f xs s = Inr s'" "P s" "\<And>s x s'. P s \<Longrightarrow> f s x = Inr s' \<Longrightarrow> P s'"
  shows "P s'"
  using assms(1,2)
proof (induction xs arbitrary: s)
  case (Cons x xs)
  then obtain t where t: "f s x = Inr t" "efold f xs t = Inr s'" by (auto simp: ebind_Inr_iff)
  from Cons.IH[OF t(2) assms(3)[OF Cons.prems(2) t(1)]] show ?case .
qed simp

text \<open>Division of floats and of Decimals: by zero it raises.\<close>

definition fdivide :: "pyfloat \<Rightarrow> pyfloat \<Rightarrow> exc + pyfloat" where
  "fdivide x y = (if y = 0 then Inl ZeroDivisionError else Inr (fdiv x y))"

lemma fdivide_nonzero [simp]: "y \<noteq> 0 \<Longrightarrow> fdivide x y = Inr (fdiv x y)" "fdivide x 0 = Inl ZeroDivisionError"
  by (simp_all add: fdivide_def)

text \<open>An integer as a float.\<close>

definition of_pyint :: "int \<Rightarrow> pyfloat" where
  "of_pyint i = fl (of_int i)"

text \<open>Floats with infinity, where a ratio may have no denominator.\<close>

datatype xfloat = Fin pyfloat | Infinity

fun xless :: "xfloat \<Rightarrow> pyfloat \<Rightarrow> bool" where
  "xless (Fin x) y = (x < y)"
| "xless Infinity y = False"

text \<open>
  A value of an untyped mapping.  A text is what \<^verbatim>\<open>float()\<close>,
  \<^verbatim>\<open>int()\<close> and \<^verbatim>\<open>isdigit()\<close> make of it, \<open>None\<close> when
  they raise.
\<close>

record text_value =
  tx_chars :: string
  tx_float :: "pyfloat option"
  tx_int :: "int option"
  tx_isdigit :: bool

datatype raw_value = RNone | RBool bool | RInt int | RFloat pyfloat | RText text_value | ROther

definition dict_get :: "(string \<times> raw_value) list \<Rightarrow> string \<Rightarrow> raw_value" where
  "dict_get m k = (case map_of m k of Some v \<Rightarrow> v | None \<Rightarrow> RNone)"

definition or_raise :: "'a option \<Rightarrow> exc \<Rightarrow> exc + 'a" where
  "or_raise v x = (case v of Some a \<Rightarrow> Inr a | None \<Rightarrow> Inl x)"

lemma or_raise_simps [simp]: "or_raise None x = Inl x" "or_raise (Some a) x = Inr a"
  by (simp_all add: or_raise_def)

end
