(* ===== verification/GridEngine.thy ===== *)
theory GridEngine
  imports Results
begin

text \<open>
  \<^verbatim>\<open>backend/grid_engine/\<close>, the offline part: the grid's configuration, the
  backtester over candles, the metrics that decide whether a grid may run, and the advisor that
  proposes a grid from the recent range.
\<close>

subsection \<open>Configuration\<close>

record grid_config =
  gc_symbol :: string
  gc_p_min :: pyfloat
  gc_p_max :: pyfloat
  gc_n_levels :: int
  gc_capital_usdt :: pyfloat
  gc_maker_fee_pct :: pyfloat
  gc_min_lot_size :: pyfloat

text \<open>\<^verbatim>\<open>GridConfig(...)\<close> with its \<^verbatim>\<open>__post_init__\<close>.\<close>

definition new_grid_config ::
  "string \<Rightarrow> pyfloat \<Rightarrow> pyfloat \<Rightarrow> int \<Rightarrow> pyfloat \<Rightarrow> pyfloat \<Rightarrow> pyfloat \<Rightarrow> exc + grid_config"
where
  "new_grid_config symbol p_min p_max n_levels capital fee lot =
     (if p_max \<le> p_min then Inl ValueError
      else Inr \<lparr>gc_symbol = symbol, gc_p_min = p_min, gc_p_max = p_max, gc_n_levels = n_levels,
        gc_capital_usdt = capital, gc_maker_fee_pct = fee, gc_min_lot_size = lot\<rparr>)"

definition default_maker_fee :: pyfloat where "default_maker_fee = fl (1 / 1000)"

definition grid_step :: "grid_config \<Rightarrow> exc + pyfloat" where
  "grid_step c = fdivide (fsub (gc_p_max c) (gc_p_min c)) (of_pyint (gc_n_levels c))"

definition step_pct :: "grid_config \<Rightarrow> exc + pyfloat" where
  "step_pct c = ebind (grid_step c) (\<lambda>s. fdivide s (gc_p_min c))"

definition capital_per_level :: "grid_config \<Rightarrow> exc + pyfloat" where
  "capital_per_level c = fdivide (gc_capital_usdt c) (of_pyint (gc_n_levels c))"

definition buy_prices :: "grid_config \<Rightarrow> exc + pyfloat list" where
  "buy_prices c = emap (\<lambda>i. ebind (grid_step c) (\<lambda>s. Inr (fadd (gc_p_min c) (fmul (of_pyint (int i)) s))))
     [0..<nat (gc_n_levels c)]"

definition grid_sell_price :: "grid_config \<Rightarrow> pyfloat \<Rightarrow> exc + pyfloat" where
  "grid_sell_price c b = ebind (grid_step c) (\<lambda>s. Inr (fadd b s))"

subsection \<open>State\<close>

text \<open>\<^verbatim>\<open>SlotStatus.HOLDING\<close> is declared and never used.\<close>

datatype slot_status = WAITING_BUY | HOLDING | WAITING_SELL

record grid_slot =
  gs_level :: nat
  gs_buy_price :: pyfloat
  gs_sell_price :: pyfloat
  gs_units :: pyfloat
  gs_status :: slot_status
  gs_buy_fill_price :: pyfloat
  gs_sell_fill_price :: pyfloat
  gs_completed_cycles :: int
  gs_realized_pnl :: pyfloat

record candle_snapshot =
  cs_open_time_ms :: int
  cs_close :: pyfloat
  cs_unrealized_inventory :: pyfloat
  cs_unrealized_loss :: pyfloat
  cs_active_buy_orders :: int

record grid_state =
  st_config :: grid_config
  st_slots :: "grid_slot list"
  st_total_fees :: pyfloat
  st_gross_profit :: pyfloat
  st_unrealized_inventory :: pyfloat
  st_snapshots :: "candle_snapshot list"

definition grid_net_pnl :: "grid_state \<Rightarrow> pyfloat" where
  "grid_net_pnl s = fsub (st_gross_profit s) (st_total_fees s)"

definition grid_completed_cycles :: "grid_state \<Rightarrow> int" where
  "grid_completed_cycles s = sum_list (map gs_completed_cycles (st_slots s))"

subsection \<open>Candles\<close>

record grid_candle =
  gk_open_time_ms :: int
  gk_open :: pyfloat
  gk_high :: pyfloat
  gk_low :: pyfloat
  gk_close :: pyfloat
  gk_volume :: pyfloat

datatype raw_candle = SeqCandle "raw_value list" | MapCandle "(string \<times> raw_value) list"

fun raw_to_float :: "raw_value \<Rightarrow> exc + pyfloat" where
  "raw_to_float (RBool b) = Inl TypeError"
| "raw_to_float (RInt i) = Inr (of_pyint i)"
| "raw_to_float (RFloat x) = Inr x"
| "raw_to_float (RText t) = or_raise (tx_float t) ValueError"
| "raw_to_float _ = Inl ValueError"

fun raw_to_int :: "raw_value \<Rightarrow> exc + int" where
  "raw_to_int (RBool b) = Inl TypeError"
| "raw_to_int (RInt i) = Inr i"
| "raw_to_int (RFloat x) = Inr (trunc0 x)"
| "raw_to_int (RText t) = or_raise (tx_int t) ValueError"
| "raw_to_int _ = Inl ValueError"

definition float_from_mapping :: "(string \<times> raw_value) list \<Rightarrow> string \<Rightarrow> exc + pyfloat" where
  "float_from_mapping m k = (if dict_get m k = RNone then Inl ValueError else raw_to_float (dict_get m k))"

definition mapping_open_time_ms :: "(string \<times> raw_value) list \<Rightarrow> exc + int" where
  "mapping_open_time_ms m =
     (let v = (if dict_get m ''open_time_ms'' = RNone then dict_get m ''opened_at''
               else dict_get m ''open_time_ms'')
      in case v of
           RNone \<Rightarrow> Inr 0
         | RText t \<Rightarrow> if \<not> tx_isdigit t then Inr 0 else raw_to_int v
         | _ \<Rightarrow> raw_to_int v)"

definition new_candle ::
  "exc + int \<Rightarrow> exc + pyfloat \<Rightarrow> exc + pyfloat \<Rightarrow> exc + pyfloat \<Rightarrow> exc + pyfloat \<Rightarrow> exc + pyfloat
    \<Rightarrow> exc + grid_candle"
where
  "new_candle t op hi lo cl vol =
     ebind t (\<lambda>t. ebind op (\<lambda>op. ebind hi (\<lambda>hi. ebind lo (\<lambda>lo. ebind cl (\<lambda>cl. ebind vol (\<lambda>vol.
       Inr \<lparr>gk_open_time_ms = t, gk_open = op, gk_high = hi, gk_low = lo, gk_close = cl, gk_volume = vol\<rparr>))))))"

fun parse_candle :: "raw_candle \<Rightarrow> exc + grid_candle" where
  "parse_candle (MapCandle m) = new_candle (mapping_open_time_ms m) (float_from_mapping m ''open'')
     (float_from_mapping m ''high'') (float_from_mapping m ''low'') (float_from_mapping m ''close'')
     (float_from_mapping m ''volume'')"
| "parse_candle (SeqCandle xs) =
     (if length xs < 6 then Inl ValueError
      else new_candle (raw_to_int (xs ! 0)) (raw_to_float (xs ! 1)) (raw_to_float (xs ! 2))
             (raw_to_float (xs ! 3)) (raw_to_float (xs ! 4)) (raw_to_float (xs ! 5)))"

subsection \<open>The backtester\<close>

definition units_for_level :: "grid_config \<Rightarrow> pyfloat \<Rightarrow> exc + pyfloat" where
  "units_for_level c b =
     ebind (capital_per_level c) (\<lambda>k.
     ebind (fdivide k b) (\<lambda>raw.
     if gc_min_lot_size c = 0 then Inr raw
     else ebind (fdivide raw (gc_min_lot_size c)) (\<lambda>q.
       Inr (fmul (of_pyint \<lfloor>q\<rfloor>) (gc_min_lot_size c)))))"

text \<open>\<^verbatim>\<open>slot.units * price * maker_fee_pct\<close>\<close>

definition maker_fee :: "grid_config \<Rightarrow> pyfloat \<Rightarrow> pyfloat \<Rightarrow> pyfloat" where
  "maker_fee c units price = fmul (fmul units price) (gc_maker_fee_pct c)"

definition new_slot :: "nat \<Rightarrow> pyfloat \<Rightarrow> pyfloat \<Rightarrow> pyfloat \<Rightarrow> grid_slot" where
  "new_slot level b s u = \<lparr>gs_level = level, gs_buy_price = b, gs_sell_price = s, gs_units = u,
     gs_status = WAITING_BUY, gs_buy_fill_price = 0, gs_sell_fill_price = 0,
     gs_completed_cycles = 0, gs_realized_pnl = 0\<rparr>"

definition empty_state :: "grid_config \<Rightarrow> grid_state" where
  "empty_state c = \<lparr>st_config = c, st_slots = [], st_total_fees = 0, st_gross_profit = 0,
     st_unrealized_inventory = 0, st_snapshots = []\<rparr>"

definition init_slot :: "pyfloat \<Rightarrow> grid_state \<Rightarrow> nat \<times> pyfloat \<Rightarrow> exc + grid_state" where
  "init_slot start s lb = (case lb of (level, b) \<Rightarrow>
     ebind (units_for_level (st_config s) b) (\<lambda>u.
     ebind (grid_sell_price (st_config s) b) (\<lambda>sp.
     let slot = new_slot level b sp u in
     Inr (if start \<le> b
          then s\<lparr>st_slots := st_slots s @ [slot\<lparr>gs_status := WAITING_SELL, gs_buy_fill_price := b\<rparr>],
                 st_total_fees := fadd (st_total_fees s) (maker_fee (st_config s) u b)\<rparr>
          else s\<lparr>st_slots := st_slots s @ [slot]\<rparr>))))"

definition initialize_state :: "grid_config \<Rightarrow> grid_candle list \<Rightarrow> exc + grid_state" where
  "initialize_state c ks =
     (let start = (case ks of [] \<Rightarrow> gc_p_min c | k # _ \<Rightarrow> gk_open k) in
      ebind (buy_prices c) (\<lambda>bs. efold (init_slot start) (enumerate 0 bs) (empty_state c)))"

text \<open>The two loops over the slots, with the totals they change.\<close>

definition slot_gross :: "grid_slot \<Rightarrow> pyfloat" where
  "slot_gross s = fmul (gs_units s) (fsub (gs_sell_price s) (gs_buy_price s))"

definition slot_bought :: "grid_slot \<Rightarrow> grid_slot" where
  "slot_bought s = s\<lparr>gs_status := WAITING_SELL, gs_buy_fill_price := gs_buy_price s\<rparr>"

definition slot_sold :: "grid_config \<Rightarrow> grid_slot \<Rightarrow> grid_slot" where
  "slot_sold c s = s\<lparr>gs_status := WAITING_BUY, gs_sell_fill_price := gs_sell_price s,
     gs_completed_cycles := gs_completed_cycles s + 1,
     gs_realized_pnl := fadd (gs_realized_pnl s)
       (fsub (slot_gross s) (maker_fee c (gs_units s) (gs_sell_price s)))\<rparr>"

fun buy_loop :: "grid_config \<Rightarrow> grid_candle \<Rightarrow> grid_slot list \<Rightarrow> pyfloat \<Rightarrow> grid_slot list \<times> pyfloat" where
  "buy_loop c k [] fees = ([], fees)"
| "buy_loop c k (s # ss) fees =
     (if gs_status s \<noteq> WAITING_BUY \<or> gs_buy_price s < gk_low k
      then (case buy_loop c k ss fees of (ss', f) \<Rightarrow> (s # ss', f))
      else case buy_loop c k ss (fadd fees (maker_fee c (gs_units s) (gs_buy_price s))) of
             (ss', f) \<Rightarrow> (slot_bought s # ss', f))"

fun sell_loop ::
  "grid_config \<Rightarrow> grid_candle \<Rightarrow> grid_slot list \<Rightarrow> pyfloat \<Rightarrow> pyfloat \<Rightarrow> grid_slot list \<times> pyfloat \<times> pyfloat"
where
  "sell_loop c k [] gross fees = ([], gross, fees)"
| "sell_loop c k (s # ss) gross fees =
     (if gs_status s \<noteq> WAITING_SELL \<or> gk_high k < gs_sell_price s
      then (case sell_loop c k ss gross fees of (ss', r) \<Rightarrow> (s # ss', r))
      else case sell_loop c k ss (fadd gross (slot_gross s))
                  (fadd fees (maker_fee c (gs_units s) (gs_sell_price s))) of
             (ss', r) \<Rightarrow> (slot_sold c s # ss', r))"

definition process_buy_fills :: "grid_candle \<Rightarrow> grid_state \<Rightarrow> grid_state" where
  "process_buy_fills k s = (case buy_loop (st_config s) k (st_slots s) (st_total_fees s) of
     (ss, fees) \<Rightarrow> s\<lparr>st_slots := ss, st_total_fees := fees\<rparr>)"

definition process_sell_fills :: "grid_candle \<Rightarrow> grid_state \<Rightarrow> grid_state" where
  "process_sell_fills k s =
     (case sell_loop (st_config s) k (st_slots s) (st_gross_profit s) (st_total_fees s) of
        (ss, gross, fees) \<Rightarrow> s\<lparr>st_slots := ss, st_gross_profit := gross, st_total_fees := fees\<rparr>)"

definition inventory_at :: "(grid_slot \<Rightarrow> pyfloat) \<Rightarrow> grid_slot list \<Rightarrow> pyfloat" where
  "inventory_at price slots = foldl (\<lambda>a x. if gs_status x = WAITING_SELL
     then fadd a (fmul (price x) (gs_units x)) else a) 0 slots"

definition record_snapshot :: "grid_candle \<Rightarrow> grid_state \<Rightarrow> grid_state" where
  "record_snapshot k s =
     (let cost = inventory_at gs_buy_price (st_slots s);
          val = inventory_at (\<lambda>_. gk_close k) (st_slots s)
      in s\<lparr>st_unrealized_inventory := cost,
           st_snapshots := st_snapshots s @ [\<lparr>cs_open_time_ms = gk_open_time_ms k, cs_close = gk_close k,
             cs_unrealized_inventory = cost, cs_unrealized_loss = max 0 (fsub cost val),
             cs_active_buy_orders = int (length (filter (\<lambda>x. gs_status x = WAITING_BUY) (st_slots s)))\<rparr>]\<rparr>)"

definition grid_candle_step :: "grid_state \<Rightarrow> grid_candle \<Rightarrow> grid_state" where
  "grid_candle_step s k = record_snapshot k (process_sell_fills k (process_buy_fills k s))"

definition run_grid_backtest :: "grid_config \<Rightarrow> raw_candle list \<Rightarrow> exc + grid_state" where
  "run_grid_backtest c raw =
     ebind (emap parse_candle raw) (\<lambda>ks.
     ebind (initialize_state c ks) (\<lambda>s. Inr (foldl grid_candle_step s ks)))"

subsection \<open>Metrics\<close>

text \<open>The reasons without their text; each names the measured value.\<close>

datatype fail_reason = NetPnlNotPositive pyfloat | FeeCoverageLow xfloat | AnnualizedYieldLow pyfloat
  | DrawdownHigh pyfloat | TooFewCycles int

record grid_result =
  gr_symbol :: string
  gr_backtest_days :: int
  gr_config_step_pct :: pyfloat
  gr_completed_cycles :: int
  gr_gross_profit :: pyfloat
  gr_total_fees :: pyfloat
  gr_net_pnl :: pyfloat
  gr_fee_coverage_ratio :: xfloat
  gr_annualized_yield_pct :: pyfloat
  gr_max_unrealized_drawdown_pct :: pyfloat
  gr_capital_utilization_pct :: pyfloat
  gr_avg_cycle_profit_pct :: pyfloat
  gr_days_to_breakeven :: xfloat
  gr_pass_regression :: bool
  gr_fail_reasons :: "fail_reason list"

definition regression_fail_reasons ::
  "int \<Rightarrow> pyfloat \<Rightarrow> xfloat \<Rightarrow> pyfloat \<Rightarrow> pyfloat \<Rightarrow> fail_reason list"
where
  "regression_fail_reasons cycles net cover yield dd =
     (if net \<le> 0 then [NetPnlNotPositive net] else [])
     @ (if xless cover 2 then [FeeCoverageLow cover] else [])
     @ (if yield < 10 then [AnnualizedYieldLow yield] else [])
     @ (if 55 < dd then [DrawdownHigh dd] else [])
     @ (if cycles < 30 then [TooFewCycles cycles] else [])"

definition safe_ratio :: "pyfloat \<Rightarrow> pyfloat \<Rightarrow> xfloat" where
  "safe_ratio x y = (if y = 0 then (if 0 < x then Infinity else Fin 0) else Fin (fdiv x y))"

definition annualized_yield_pct :: "pyfloat \<Rightarrow> pyfloat \<Rightarrow> int \<Rightarrow> pyfloat" where
  "annualized_yield_pct net capital days =
     (if capital = 0 \<or> days \<le> 0 then 0
      else fmul (fmul (fdiv net capital) (fdiv 365 (of_int days))) 100)"

definition percentage :: "pyfloat \<Rightarrow> pyfloat \<Rightarrow> pyfloat" where
  "percentage x y = (if y = 0 then 0 else fmul (fdiv x y) 100)"

definition average_cycle_profit_pct :: "grid_state \<Rightarrow> grid_config \<Rightarrow> exc + pyfloat" where
  "average_cycle_profit_pct s c =
     (if grid_completed_cycles s = 0 then Inr 0
      else ebind (capital_per_level c) (\<lambda>k.
        if k = 0 then Inr 0
        else Inr (fmul (fdiv (fdiv (grid_net_pnl s) (of_pyint (grid_completed_cycles s))) k) 100)))"

definition days_to_breakeven :: "pyfloat \<Rightarrow> pyfloat \<Rightarrow> int \<Rightarrow> xfloat" where
  "days_to_breakeven loss net days =
     (if loss = 0 then Fin 0
      else if net \<le> 0 \<or> days \<le> 0 then Infinity
      else Fin (fdiv loss (fdiv net (of_pyint days))))"

definition max_unrealized_loss :: "grid_state \<Rightarrow> pyfloat" where
  "max_unrealized_loss s = (case map cs_unrealized_loss (st_snapshots s) of
     [] \<Rightarrow> 0 | x # xs \<Rightarrow> foldl max x xs)"

definition evaluate_grid_backtest :: "grid_state \<Rightarrow> grid_config \<Rightarrow> int \<Rightarrow> exc + grid_result" where
  "evaluate_grid_backtest s c days =
     (let loss = max_unrealized_loss s;
          active = length (filter (\<lambda>x. 1 \<le> cs_active_buy_orders x) (st_snapshots s));
          net = grid_net_pnl s;
          cover = safe_ratio (st_gross_profit s) (st_total_fees s);
          yield = annualized_yield_pct net (gc_capital_usdt c) days;
          dd = percentage loss (gc_capital_usdt c);
          util = percentage (of_pyint (int active)) (of_pyint (int (length (st_snapshots s))))
      in ebind (average_cycle_profit_pct s c) (\<lambda>avg.
         let reasons = regression_fail_reasons (grid_completed_cycles s) net cover yield dd in
         ebind (step_pct c) (\<lambda>sp.
         Inr \<lparr>gr_symbol = gc_symbol c, gr_backtest_days = days, gr_config_step_pct = sp,
           gr_completed_cycles = grid_completed_cycles s, gr_gross_profit = st_gross_profit s,
           gr_total_fees = st_total_fees s, gr_net_pnl = net, gr_fee_coverage_ratio = cover,
           gr_annualized_yield_pct = yield, gr_max_unrealized_drawdown_pct = dd,
           gr_capital_utilization_pct = util, gr_avg_cycle_profit_pct = avg,
           gr_days_to_breakeven = days_to_breakeven loss net days,
           gr_pass_regression = (reasons = []), gr_fail_reasons = reasons\<rparr>)))"

subsection \<open>The advisor\<close>

record advisor_candle =
  ac_high :: pyfloat
  ac_low :: pyfloat
  ac_close :: pyfloat

definition new_advisor_candle ::
  "exc + pyfloat \<Rightarrow> exc + pyfloat \<Rightarrow> exc + pyfloat \<Rightarrow> exc + advisor_candle"
where
  "new_advisor_candle h l c = ebind h (\<lambda>h. ebind l (\<lambda>l. ebind c (\<lambda>c.
     Inr \<lparr>ac_high = h, ac_low = l, ac_close = c\<rparr>)))"

fun parse_advisor_candle :: "raw_candle \<Rightarrow> exc + advisor_candle" where
  "parse_advisor_candle (MapCandle m) = new_advisor_candle (float_from_mapping m ''high'')
     (float_from_mapping m ''low'') (float_from_mapping m ''close'')"
| "parse_advisor_candle (SeqCandle xs) =
     (if length xs < 5 then Inl ValueError
      else new_advisor_candle (raw_to_float (xs ! 2)) (raw_to_float (xs ! 3)) (raw_to_float (xs ! 4)))"

text \<open>The candle before index 0 is the last one, as Python's index \<open>-1\<close> reads it.\<close>

definition advisor_true_range :: "advisor_candle list \<Rightarrow> nat \<Rightarrow> pyfloat" where
  "advisor_true_range ks i =
     (let k = ks ! i; prev = ac_close (if i = 0 then last ks else ks ! (i - 1)) in
      max (max (fsub (ac_high k) (ac_low k)) \<bar>fsub (ac_high k) prev\<bar>) \<bar>fsub (ac_low k) prev\<bar>)"

definition calculate_atr :: "advisor_candle list \<Rightarrow> nat \<Rightarrow> exc + pyfloat" where
  "calculate_atr ks period =
     fdivide (fsum (map (advisor_true_range ks) [length ks - period..<length ks])) (of_pyint (int period))"

definition minimum_half_range :: "pyfloat \<Rightarrow> int \<Rightarrow> pyfloat \<Rightarrow> exc + pyfloat" where
  "minimum_half_range price n min_step =
     (let t = fmul min_step (fadd 1 (fl (1 / 10 ^ 12))) in
      fdivide (fmul (fmul t (of_pyint n)) price) (fadd 2 (fmul t (of_pyint n))))"

definition level_step_pct :: "pyfloat \<Rightarrow> pyfloat \<Rightarrow> int \<Rightarrow> pyfloat" where
  "level_step_pct lo hi n = fdiv (fdiv (fsub hi lo) (of_pyint n)) lo"

text \<open>\<^verbatim>\<open>while n_levels > 4 and step < min_step: n_levels -= 1\<close>\<close>

function fewer_levels :: "pyfloat \<Rightarrow> pyfloat \<Rightarrow> pyfloat \<Rightarrow> int \<Rightarrow> int" where
  "fewer_levels lo hi min_step n =
     (if 4 < n \<and> level_step_pct lo hi n < min_step then fewer_levels lo hi min_step (n - 1) else n)"
  by pat_completeness auto
termination by (relation "measure (\<lambda>(_, _, _, n). nat n)") auto

declare fewer_levels.simps [simp del]

text \<open>The period is a count of candles; the range tests divide by numbers that are positive.\<close>

definition suggest_grid ::
  "raw_candle list \<Rightarrow> pyfloat \<Rightarrow> pyfloat \<Rightarrow> int \<Rightarrow> nat \<Rightarrow> pyfloat \<Rightarrow> string \<Rightarrow> exc + grid_config"
where
  "suggest_grid raw capital min_step target period mult symbol =
     (if length raw < period + 1 then Inl ValueError
      else ebind (emap parse_advisor_candle raw) (\<lambda>ks.
        ebind (calculate_atr ks period) (\<lambda>atr.
        let price = ac_close (last ks);
            lo = fsub price (fmul mult atr);
            hi = fadd price (fmul mult atr) in
        if lo \<le> 0 then Inl ValueError
        else
          let n = fewer_levels lo hi min_step (max 4 target) in
          if level_step_pct lo hi n < min_step
          then ebind (minimum_half_range price n min_step) (\<lambda>half.
               new_grid_config symbol (fsub price half) (fadd price half) n capital default_maker_fee 0)
          else new_grid_config symbol lo hi n capital default_maker_fee 0)))"

subsection \<open>The backtest, slot by slot\<close>

text \<open>
  The specification: each slot is a machine of its own that a candle moves by at most one buy and
  then at most one sell.
\<close>

definition buy_fills :: "grid_candle \<Rightarrow> grid_slot \<Rightarrow> bool" where
  "buy_fills k s \<longleftrightarrow> gs_status s = WAITING_BUY \<and> gk_low k \<le> gs_buy_price s"

definition sell_fills :: "grid_candle \<Rightarrow> grid_slot \<Rightarrow> bool" where
  "sell_fills k s \<longleftrightarrow> gs_status s = WAITING_SELL \<and> gs_sell_price s \<le> gk_high k"

definition slot_buys :: "grid_candle \<Rightarrow> grid_slot \<Rightarrow> grid_slot" where
  "slot_buys k s = (if buy_fills k s then slot_bought s else s)"

definition slot_sells :: "grid_config \<Rightarrow> grid_candle \<Rightarrow> grid_slot \<Rightarrow> grid_slot" where
  "slot_sells c k s = (if sell_fills k s then slot_sold c s else s)"

definition slot_step :: "grid_config \<Rightarrow> grid_slot \<Rightarrow> grid_candle \<Rightarrow> grid_slot" where
  "slot_step c s k = slot_sells c k (slot_buys k s)"

lemma buy_loop_slots:
  "buy_loop c k ss fees = (map (slot_buys k) ss,
     foldl (\<lambda>f s. if buy_fills k s then fadd f (maker_fee c (gs_units s) (gs_buy_price s)) else f) fees ss)"
  by (induction ss arbitrary: fees) (auto simp: slot_buys_def buy_fills_def)

lemma sell_loop_slots:
  "sell_loop c k ss gross fees = (map (slot_sells c k) ss,
     foldl (\<lambda>g s. if sell_fills k s then fadd g (slot_gross s) else g) gross ss,
     foldl (\<lambda>f s. if sell_fills k s then fadd f (maker_fee c (gs_units s) (gs_sell_price s)) else f) fees ss)"
  by (induction ss arbitrary: gross fees) (auto simp: slot_sells_def sell_fills_def)

lemma candle_step_slots:
  "st_slots (grid_candle_step s k) = map (\<lambda>x. slot_step (st_config s) x k) (st_slots s)"
  "st_config (grid_candle_step s k) = st_config s"
  "\<exists>x. st_snapshots (grid_candle_step s k) = st_snapshots s @ [x]"
  by (simp_all add: grid_candle_step_def record_snapshot_def process_sell_fills_def process_buy_fills_def
      buy_loop_slots sell_loop_slots Let_def slot_step_def o_def)

lemma candles_slots:
  "st_slots (foldl grid_candle_step s ks) = map (\<lambda>x. foldl (slot_step (st_config s)) x ks) (st_slots s)
    \<and> st_config (foldl grid_candle_step s ks) = st_config s"
  by (induction ks arbitrary: s) (simp_all add: candle_step_slots o_def)

lemma init_slot_config: "init_slot p s lb = Inr s' \<Longrightarrow> st_config s' = st_config s"
  by (auto simp: init_slot_def ebind_Inr_iff Let_def split: prod.splits if_splits)

lemma initial_config: "initialize_state c ks = Inr s \<Longrightarrow> st_config s = c"
  unfolding initialize_state_def Let_def ebind_Inr_iff
  by (elim exE conjE, erule efold_invariant[where P = "\<lambda>s. st_config s = c"])
    (simp_all add: empty_state_def init_slot_config)

text \<open>
  C13: the backtest is slot-wise.  However the two loops interleave the slots and their totals,
  each slot of the result is what its own machine, one buy and one sell a candle at most, makes
  of the candles from the slot's initial state; the slots do not influence each other.
\<close>

theorem backtest_is_slotwise:
  assumes "run_grid_backtest c raw = Inr s"
  shows "\<exists>ks s0. emap parse_candle raw = Inr ks \<and> initialize_state c ks = Inr s0
    \<and> st_slots s = map (\<lambda>x. foldl (slot_step c) x ks) (st_slots s0)"
proof -
  obtain ks s0 where k: "emap parse_candle raw = Inr ks" "initialize_state c ks = Inr s0"
    "s = foldl grid_candle_step s0 ks"
    using assms by (auto simp: run_grid_backtest_def ebind_Inr_iff)
  then show ?thesis using candles_slots[of s0 ks] initial_config[OF k(2)] by auto
qed

definition demo_grid :: grid_config where
  "demo_grid = \<lparr>gc_symbol = ''XRPUSDT'', gc_p_min = 8, gc_p_max = 16, gc_n_levels = 2,
     gc_capital_usdt = 96, gc_maker_fee_pct = 1 / 1024, gc_min_lot_size = 0\<rparr>"

definition flat_candle :: "rat \<Rightarrow> rat \<Rightarrow> raw_candle" where
  "flat_candle lo hi = SeqCandle [RInt 0, RFloat lo, RFloat hi, RFloat lo, RFloat hi, RInt 1]"

lemma demo_run: "\<exists>s. run_grid_backtest demo_grid [flat_candle 10 12, flat_candle 7 16] = Inr s"
proof -
  have "\<not> isl (run_grid_backtest demo_grid [flat_candle 10 12, flat_candle 7 16])" by code_simp
  then show ?thesis by (simp add: isl_def) (metis sum.exhaust)
qed

theorem backtest_is_slotwise_witness:
  "\<exists>s. run_grid_backtest demo_grid [flat_candle 10 12, flat_candle 7 16] = Inr s
    \<and> length (st_slots s) = 2"
proof -
  obtain s where run: "run_grid_backtest demo_grid [flat_candle 10 12, flat_candle 7 16] = Inr s"
    using demo_run by blast
  obtain ks s0 where k: "emap parse_candle [flat_candle 10 12, flat_candle 7 16] = Inr ks"
    "initialize_state demo_grid ks = Inr s0" "st_slots s = map (\<lambda>x. foldl (slot_step demo_grid) x ks) (st_slots s0)"
    using backtest_is_slotwise[OF run] by blast
  have "emap parse_candle [flat_candle 10 12, flat_candle 7 16] = Inr
      [\<lparr>gk_open_time_ms = 0, gk_open = 10, gk_high = 12, gk_low = 10, gk_close = 12, gk_volume = 1\<rparr>,
       \<lparr>gk_open_time_ms = 0, gk_open = 7, gk_high = 16, gk_low = 7, gk_close = 16, gk_volume = 1\<rparr>]"
    by code_simp
  then have ks: "ks = [\<lparr>gk_open_time_ms = 0, gk_open = 10, gk_high = 12, gk_low = 10, gk_close = 12, gk_volume = 1\<rparr>,
       \<lparr>gk_open_time_ms = 0, gk_open = 7, gk_high = 16, gk_low = 7, gk_close = 16, gk_volume = 1\<rparr>]"
    using k(1) by simp
  have "(case initialize_state demo_grid [\<lparr>gk_open_time_ms = 0, gk_open = 10, gk_high = 12, gk_low = 10, gk_close = 12, gk_volume = 1\<rparr>,
       \<lparr>gk_open_time_ms = 0, gk_open = 7, gk_high = 16, gk_low = 7, gk_close = 16, gk_volume = 1\<rparr>] of
      Inr s0 \<Rightarrow> length (st_slots s0) = 2 | Inl _ \<Rightarrow> False)" by code_simp
  with k(2,3) run show ?thesis by (auto simp: ks)
qed

subsection \<open>The ledger of a slot\<close>

text \<open>The profit a slot books for each completed cycle.\<close>

definition cycle_profit :: "grid_config \<Rightarrow> grid_slot \<Rightarrow> pyfloat" where
  "cycle_profit c s = fsub (slot_gross s) (maker_fee c (gs_units s) (gs_sell_price s))"

definition slot_ledger :: "grid_config \<Rightarrow> grid_slot \<Rightarrow> nat \<Rightarrow> grid_slot \<Rightarrow> bool" where
  "slot_ledger c s0 n s \<longleftrightarrow>
     gs_level s = gs_level s0 \<and> gs_buy_price s = gs_buy_price s0 \<and> gs_sell_price s = gs_sell_price s0
   \<and> gs_units s = gs_units s0 \<and> gs_status s \<in> {WAITING_BUY, WAITING_SELL}
   \<and> 0 \<le> gs_completed_cycles s \<and> gs_completed_cycles s \<le> int n
   \<and> gs_realized_pnl s = ((\<lambda>p. fadd p (cycle_profit c s0)) ^^ nat (gs_completed_cycles s)) 0"

lemma slot_ledger_step:
  assumes "slot_ledger c s0 n s"
  shows "slot_ledger c s0 (Suc n) (slot_step c s k)"
proof -
  have cp: "cycle_profit c s = cycle_profit c s0" "cycle_profit c (slot_bought s) = cycle_profit c s0"
    using assms by (simp_all add: slot_ledger_def cycle_profit_def slot_gross_def slot_bought_def)
  define s1 where "s1 = slot_buys k s"
  have s1: "slot_ledger c s0 n s1" "cycle_profit c s1 = cycle_profit c s0"
    using assms cp by (auto simp: slot_ledger_def s1_def slot_buys_def slot_bought_def)
  have "slot_ledger c s0 (Suc n) (slot_sold c s1)"
  proof -
    have "nat (gs_completed_cycles s1 + 1) = Suc (nat (gs_completed_cycles s1))"
      using s1 by (simp add: slot_ledger_def nat_add_distrib)
    moreover have "fsub (slot_gross s1) (maker_fee c (gs_units s1) (gs_sell_price s1)) = cycle_profit c s0"
      using s1(2) by (simp add: cycle_profit_def)
    ultimately show ?thesis using s1(1) by (simp add: slot_ledger_def slot_sold_def)
  qed
  moreover have "slot_ledger c s0 (Suc n) s1" using s1(1) by (simp add: slot_ledger_def)
  ultimately show ?thesis by (simp add: slot_step_def slot_sells_def s1_def[symmetric])
qed

lemma slot_ledger_run:
  "slot_ledger c s0 n s \<Longrightarrow> slot_ledger c s0 (n + length ks) (foldl (slot_step c) s ks)"
proof (induction ks arbitrary: n s)
  case (Cons k ks)
  from Cons.IH[OF slot_ledger_step[OF Cons.prems]] show ?case by simp
qed simp

text \<open>The initial slots: one for each price of the ladder, in order.\<close>

definition fresh_slot :: "grid_config \<Rightarrow> nat \<times> pyfloat \<Rightarrow> grid_slot \<Rightarrow> bool" where
  "fresh_slot c lb s \<longleftrightarrow> gs_level s = fst lb \<and> gs_buy_price s = snd lb
     \<and> grid_sell_price c (snd lb) = Inr (gs_sell_price s) \<and> units_for_level c (snd lb) = Inr (gs_units s)
     \<and> gs_status s \<in> {WAITING_BUY, WAITING_SELL} \<and> gs_completed_cycles s = 0 \<and> gs_realized_pnl s = 0"

lemma init_slot_fresh:
  assumes "init_slot p s lb = Inr s1" "st_config s = c"
  shows "\<exists>x. st_slots s1 = st_slots s @ [x] \<and> fresh_slot c lb x"
proof -
  obtain level b where lb: "lb = (level, b)" by (cases lb)
  obtain u sp where u: "units_for_level c b = Inr u" "grid_sell_price c b = Inr sp"
    using assms by (auto simp: init_slot_def lb ebind_Inr_iff)
  show ?thesis
  proof (cases "p \<le> b")
    case True
    then have "st_slots s1 = st_slots s @ [(new_slot level b sp u)\<lparr>gs_status := WAITING_SELL, gs_buy_fill_price := b\<rparr>]"
      using assms u by (auto simp: init_slot_def lb Let_def)
    then show ?thesis using u by (auto simp: fresh_slot_def lb new_slot_def)
  next
    case False
    then have "st_slots s1 = st_slots s @ [new_slot level b sp u]"
      using assms u by (auto simp: init_slot_def lb Let_def)
    then show ?thesis using u by (auto simp: fresh_slot_def lb new_slot_def)
  qed
qed

lemma init_slots_fresh:
  assumes "efold (init_slot p) lbs s = Inr s'" "st_config s = c"
  shows "\<exists>new. st_slots s' = st_slots s @ new \<and> list_all2 (fresh_slot c) lbs new"
  using assms
proof (induction lbs arbitrary: s)
  case Nil
  then show ?case by simp
next
  case (Cons lb lbs)
  obtain s1 where s1: "init_slot p s lb = Inr s1" "efold (init_slot p) lbs s1 = Inr s'"
    using Cons.prems by (auto simp: ebind_Inr_iff)
  obtain x where "st_slots s1 = st_slots s @ [x]" "fresh_slot c lb x"
    using init_slot_fresh[OF s1(1) Cons.prems(2)] by blast
  moreover obtain new where "st_slots s' = st_slots s1 @ new" "list_all2 (fresh_slot c) lbs new"
    using Cons.IH[OF s1(2)] init_slot_config[OF s1(1)] Cons.prems(2) by auto
  ultimately show ?case by (intro exI[of _ "x # new"]) simp
qed

lemma fresh_slot_ledger: "fresh_slot c lb s \<Longrightarrow> slot_ledger c s 0 s"
  by (auto simp: fresh_slot_def slot_ledger_def)

lemma initial_slots:
  assumes "initialize_state c ks = Inr s" "buy_prices c = Inr bs"
  shows "list_all2 (fresh_slot c) (enumerate 0 bs) (st_slots s)"
proof -
  obtain p where "efold (init_slot p) (enumerate 0 bs) (empty_state c) = Inr s"
    using assms by (auto simp: initialize_state_def Let_def)
  then show ?thesis using init_slots_fresh[of p "enumerate 0 bs" "empty_state c" s c]
    by (auto simp: empty_state_def)
qed

text \<open>
  C12: the ledger of every slot is consistent at the end of a backtest.  The slots are the levels
  of the ladder in order, each with its own price and the price one step above; a slot's realized
  result is exactly its completed cycles times the cycle's profit after the selling fee, added
  up one by one as floats; a slot completes at most one cycle per candle, and so do all of them
  together at most one per level and candle.
\<close>

theorem backtest_ledger:
  assumes run: "run_grid_backtest c raw = Inr s" and bs: "buy_prices c = Inr bs"
  shows "length (st_slots s) = length bs \<and> grid_completed_cycles s \<le> int (length bs * length raw)
    \<and> (\<forall>i < length bs. let x = st_slots s ! i in gs_level x = i \<and> gs_buy_price x = bs ! i
         \<and> grid_sell_price c (bs ! i) = Inr (gs_sell_price x)
         \<and> 0 \<le> gs_completed_cycles x \<and> gs_completed_cycles x \<le> int (length raw)
         \<and> gs_realized_pnl x = ((\<lambda>p. fadd p (cycle_profit c x)) ^^ nat (gs_completed_cycles x)) 0)"
proof -
  obtain ks s0 where k: "emap parse_candle raw = Inr ks" "initialize_state c ks = Inr s0"
    "s = foldl grid_candle_step s0 ks"
    using run by (auto simp: run_grid_backtest_def ebind_Inr_iff)
  have n: "length ks = length raw" by (rule emap_length[OF k(1)])
  have sl: "st_slots s = map (\<lambda>x. foldl (slot_step c) x ks) (st_slots s0)"
    using candles_slots[of s0 ks] initial_config[OF k(2)] by (simp add: k(3))
  note fresh = initial_slots[OF k(2) bs]
  have len: "length (st_slots s0) = length bs" using list_all2_lengthD[OF fresh] by simp
  have led: "slot_ledger c (st_slots s0 ! i) (length raw) (st_slots s ! i) \<and> fresh_slot c (i, bs ! i) (st_slots s0 ! i)"
    if "i < length bs" for i
  proof -
    have f: "fresh_slot c (i, bs ! i) (st_slots s0 ! i)"
      using list_all2_nthD[OF fresh, of i] that by (simp add: nth_enumerate_eq)
    from slot_ledger_run[OF fresh_slot_ledger[OF f], of ks] f show ?thesis
      using that len n by (simp add: sl)
  qed
  have "gs_completed_cycles x \<le> int (length raw)" if "x \<in> set (st_slots s)" for x
    using that led len sl by (auto simp: in_set_conv_nth slot_ledger_def)
  then have "sum_list (map gs_completed_cycles (st_slots s)) \<le> sum_list (map (\<lambda>_. int (length raw)) (st_slots s))"
    by (intro sum_list_mono) auto
  also have "\<dots> = int (length bs * length raw)" using len sl by (simp add: sum_list_triv o_def)
  finally have tot: "grid_completed_cycles s \<le> int (length bs * length raw)"
    by (simp add: grid_completed_cycles_def)
  have "let x = st_slots s ! i in gs_level x = i \<and> gs_buy_price x = bs ! i
         \<and> grid_sell_price c (bs ! i) = Inr (gs_sell_price x)
         \<and> 0 \<le> gs_completed_cycles x \<and> gs_completed_cycles x \<le> int (length raw)
         \<and> gs_realized_pnl x = ((\<lambda>p. fadd p (cycle_profit c x)) ^^ nat (gs_completed_cycles x)) 0"
    if "i < length bs" for i
  proof -
    have "cycle_profit c (st_slots s ! i) = cycle_profit c (st_slots s0 ! i)"
      using led[OF that] by (simp add: slot_ledger_def cycle_profit_def slot_gross_def)
    with led[OF that] show ?thesis by (auto simp: slot_ledger_def fresh_slot_def Let_def)
  qed
  with tot len sl show ?thesis by simp
qed

theorem backtest_ledger_witness:
  "\<exists>s. run_grid_backtest demo_grid [flat_candle 10 12, flat_candle 7 16] = Inr s
    \<and> gs_buy_price (st_slots s ! 1) = 12"
proof -
  obtain s where run: "run_grid_backtest demo_grid [flat_candle 10 12, flat_candle 7 16] = Inr s"
    using demo_run by blast
  have bs: "buy_prices demo_grid = Inr [8, 12]" by code_simp
  from backtest_ledger[OF run bs] run show ?thesis by (auto simp: Let_def)
qed

subsection \<open>No look-ahead\<close>

lemma candles_snapshots: "\<exists>new. st_snapshots (foldl grid_candle_step s ks) = st_snapshots s @ new \<and> length new = length ks"
proof (induction ks arbitrary: s)
  case (Cons k ks)
  obtain x where x: "st_snapshots (grid_candle_step s k) = st_snapshots s @ [x]" using candle_step_slots(3) by blast
  obtain new where "st_snapshots (foldl grid_candle_step (grid_candle_step s k) ks) = st_snapshots (grid_candle_step s k) @ new"
    "length new = length ks" using Cons.IH by blast
  with x show ?case by (intro exI[of _ "x # new"]) simp
qed simp

lemma emap_append:
  "emap f (xs @ ys) = ebind (emap f xs) (\<lambda>as. ebind (emap f ys) (\<lambda>bs. Inr (as @ bs)))"
proof (induction xs)
  case Nil
  show ?case by (cases "emap f ys") simp_all
next
  case (Cons x xs)
  then show ?case by (cases "f x"; cases "emap f xs"; cases "emap f ys") simp_all
qed

text \<open>
  The backtest does not look ahead.  What it reports about the candles it has seen is not
  changed by candles that come later: the snapshots of a run over later candles start with the
  snapshots of the run over the first ones, one per candle.
\<close>

theorem backtest_is_causal:
  assumes run: "run_grid_backtest c raw = Inr s" "run_grid_backtest c (raw @ later) = Inr s'" and ne: "raw \<noteq> []"
  shows "take (length raw) (st_snapshots s') = st_snapshots s \<and> length (st_snapshots s) = length raw
    \<and> length (st_snapshots s') = length raw + length later"
proof -
  obtain ks s0 where k: "emap parse_candle raw = Inr ks" "initialize_state c ks = Inr s0"
    "s = foldl grid_candle_step s0 ks"
    using run(1) by (auto simp: run_grid_backtest_def ebind_Inr_iff)
  obtain ls s1 where l: "emap parse_candle later = Inr ls" "initialize_state c (ks @ ls) = Inr s1"
    "s' = foldl grid_candle_step s1 (ks @ ls)"
    using run(2) k(1) by (auto simp: run_grid_backtest_def ebind_Inr_iff emap_append)
  have len: "length ks = length raw" "length ls = length later"
    using emap_length[OF k(1)] emap_length[OF l(1)] by simp_all
  have "initialize_state c (ks @ ls) = initialize_state c ks"
    using ne len(1) by (cases ks) (simp_all add: initialize_state_def)
  then have s': "s' = foldl grid_candle_step s ls" using k l by simp
  have "st_snapshots s0 = []"
    using k(2) unfolding initialize_state_def Let_def ebind_Inr_iff
    by (elim exE conjE, erule_tac efold_invariant[where P = "\<lambda>s. st_snapshots s = []"])
      (auto simp: empty_state_def init_slot_def ebind_Inr_iff Let_def split: prod.splits if_splits)
  then show ?thesis using candles_snapshots[of s0 ks] candles_snapshots[of s ls] len by (auto simp: k(3) s')
qed

theorem backtest_is_causal_witness:
  "\<exists>s s'. run_grid_backtest demo_grid [flat_candle 10 12] = Inr s
    \<and> run_grid_backtest demo_grid ([flat_candle 10 12] @ [flat_candle 7 16]) = Inr s'
    \<and> take 1 (st_snapshots s') = st_snapshots s"
proof -
  have "\<not> isl (run_grid_backtest demo_grid [flat_candle 10 12])" by code_simp
  then obtain s where s: "run_grid_backtest demo_grid [flat_candle 10 12] = Inr s"
    by (cases "run_grid_backtest demo_grid [flat_candle 10 12]") simp_all
  obtain s' where "run_grid_backtest demo_grid ([flat_candle 10 12] @ [flat_candle 7 16]) = Inr s'"
    using demo_run by auto
  note run = s this
  from backtest_is_causal[OF run] run show ?thesis by simp
qed

subsection \<open>The gate\<close>

lemma product_near:
  assumes "0 \<le> x" "a \<le> fmul x y" "0 \<le> y"
  shows "a \<le> x * y * (1 + unit_roundoff)"
  using assms fl_near(2)[of "x * y"] by (simp add: fmul_def)

lemma quotient_near:
  assumes "0 \<le> x" "0 < y"
  shows "fdiv x y \<le> x / y * (1 + unit_roundoff)" "x / y * (1 - unit_roundoff) \<le> fdiv x y"
  using assms fl_near[of "x / y"] by (simp_all add: fdiv_def)

lemma gate_yield:
  assumes y: "10 \<le> annualized_yield_pct net cap days" and net: "0 < net"
  shows "0 < cap \<and> 0 < days \<and> 10 * cap * of_int days \<le> net * 36500 * (1 + unit_roundoff) ^ 4"
proof -
  have nz: "cap \<noteq> 0" "0 < days" using y by (auto simp: annualized_yield_pct_def split: if_splits)
  define u where "u = unit_roundoff"
  define q where "q = fdiv net cap"
  define r where "r = fdiv 365 (of_int days)"
  have u: "0 < u" using unit_roundoff_bounds by (simp add: u_def)
  have r: "0 < r" using nz by (simp add: r_def fdiv_def flo.signs)
  have ten: "10 \<le> fmul (fmul q r) 100" using y nz by (simp add: annualized_yield_pct_def q_def r_def)
  then have "0 < fmul (fmul q r) 100" by linarith
  then have "0 < q" using r by (simp add: fmul_def flo.signs zero_less_mult_iff)
  then have cap: "0 < cap" using net by (simp add: q_def fdiv_def flo.signs zero_less_divide_iff)
  have q: "q \<le> net / cap * (1 + u)" "0 < q" using quotient_near(1)[of net cap] net cap \<open>0 < q\<close> by (simp_all add: q_def u_def)
  have r': "r \<le> 365 / of_int days * (1 + u)" using quotient_near(1)[of 365 "of_int days"] nz by (simp add: r_def u_def)
  have "fmul q r \<le> q * r * (1 + u)" using product_near[of q "fmul q r" r] q r by (simp add: u_def)
  also have "q * r * (1 + u) \<le> (net / cap * (1 + u)) * (365 / of_int days * (1 + u)) * (1 + u)"
    using q r r' u net cap by (intro mult_right_mono mult_mono) simp_all
  finally have m: "fmul q r \<le> net / cap * (1 + u) * (365 / of_int days * (1 + u)) * (1 + u)" .
  have "0 \<le> fmul q r" using q r by (simp add: fmul_def flo.signs)
  from product_near[OF this ten] have "10 \<le> fmul q r * 100 * (1 + u)" by (simp add: u_def)
  also have "\<dots> \<le> (net / cap * (1 + u) * (365 / of_int days * (1 + u)) * (1 + u)) * 100 * (1 + u)"
    using m u by (intro mult_right_mono) simp_all
  also have "\<dots> = net * 36500 * (1 + u) ^ 4 / (cap * of_int days)"
  proof -
    have "net / cap * v * (365 / of_int days * v) * v * 100 * v = net * 36500 * v ^ 4 / (cap * of_int days)"
      for v :: rat by (simp add: power4_eq_xxxx)
    then show ?thesis .
  qed
  finally have "10 \<le> net * 36500 * (1 + u) ^ 4 / (cap * of_int days)" .
  then have "10 * (cap * of_int days) \<le> net * 36500 * (1 + u) ^ 4"
    using cap nz by (simp add: pos_le_divide_eq)
  with cap nz show ?thesis by (simp add: u_def mult.assoc)
qed

lemma gate_drawdown:
  assumes "percentage loss cap \<le> 55" "0 < cap" "0 \<le> loss"
  shows "loss * 100 * (1 - unit_roundoff) ^ 2 \<le> 55 * cap"
proof -
  define u where "u = unit_roundoff"
  have u: "0 < u" "u < 1" using unit_roundoff_bounds by (simp_all add: u_def)
  have q: "loss / cap * (1 - u) \<le> fdiv loss cap" using quotient_near(2)[of loss cap] assms by (simp add: u_def)
  have q0: "0 \<le> fdiv loss cap" using assms by (simp add: fdiv_def flo.signs)
  have "loss / cap * (1 - u) * 100 * (1 - u) \<le> fdiv loss cap * 100 * (1 - u)"
    using q u by (intro mult_right_mono) simp_all
  also have "\<dots> \<le> fmul (fdiv loss cap) 100" using fl_near(1)[of "fdiv loss cap * 100"] q0 by (simp add: fmul_def u_def)
  also have "\<dots> \<le> 55" using assms by (simp add: percentage_def)
  finally have "loss / cap * (1 - u) * 100 * (1 - u) \<le> 55" .
  then have "loss * 100 * (1 - u) ^ 2 / cap \<le> 55" by (simp add: power2_eq_square algebra_simps)
  then show ?thesis using assms(2) by (simp add: pos_divide_le_eq u_def)
qed

text \<open>
  C11: what passing the regression gate guarantees, in exact numbers.  A passing grid has a
  positive capital and duration and at least thirty completed cycles; its gross profit exceeds
  the fees and is at least twice the fees, its net result is at least ten percent of the capital
  a year, and its worst unrealized loss at most 55 percent of the capital, each up to the
  rounding of the few float operations that compute the ratio.
\<close>

theorem grid_gate_guarantees:
  assumes ev: "evaluate_grid_backtest s c days = Inr r" and pass: "gr_pass_regression r"
    and fees: "0 \<le> st_total_fees s" and loss: "0 \<le> max_unrealized_loss s"
  shows "0 < gc_capital_usdt c \<and> 0 < days \<and> 30 \<le> grid_completed_cycles s \<and> st_total_fees s < st_gross_profit s
    \<and> 2 * st_total_fees s \<le> st_gross_profit s * (1 + unit_roundoff)
    \<and> 10 * gc_capital_usdt c * of_int days \<le> grid_net_pnl s * 36500 * (1 + unit_roundoff) ^ 4
    \<and> max_unrealized_loss s * 100 * (1 - unit_roundoff) ^ 2 \<le> 55 * gc_capital_usdt c"
proof -
  define reasons where "reasons = regression_fail_reasons (grid_completed_cycles s) (grid_net_pnl s)
    (safe_ratio (st_gross_profit s) (st_total_fees s)) (annualized_yield_pct (grid_net_pnl s) (gc_capital_usdt c) days)
    (percentage (max_unrealized_loss s) (gc_capital_usdt c))"
  have "reasons = []" using ev pass by (auto simp: evaluate_grid_backtest_def Let_def ebind_Inr_iff reasons_def)
  then have g: "0 < grid_net_pnl s" "\<not> xless (safe_ratio (st_gross_profit s) (st_total_fees s)) 2"
    "10 \<le> annualized_yield_pct (grid_net_pnl s) (gc_capital_usdt c) days"
    "percentage (max_unrealized_loss s) (gc_capital_usdt c) \<le> 55" "30 \<le> grid_completed_cycles s"
    by (auto simp: reasons_def regression_fail_reasons_def not_less not_le split: if_splits)
  have gf: "st_total_fees s < st_gross_profit s" using g(1) by (simp add: grid_net_pnl_def fsub_def flo.signs)
  have "2 * st_total_fees s \<le> st_gross_profit s * (1 + unit_roundoff)"
  proof (cases "st_total_fees s = 0")
    case True
    then show ?thesis using gf unit_roundoff_bounds by simp
  next
    case False
    then have f: "0 < st_total_fees s" using fees by simp
    have "2 \<le> st_gross_profit s / st_total_fees s * (1 + unit_roundoff)"
      using g(2) False quotient_near(1)[of "st_gross_profit s" "st_total_fees s"] f gf
      by (simp add: safe_ratio_def not_less)
    then show ?thesis using f by (simp add: field_simps)
  qed
  then show ?thesis using gate_yield[OF g(3,1)] gate_drawdown[OF g(4) _ loss] gf g(5) by simp
qed

definition good_run :: grid_state where
  "good_run = (empty_state demo_grid)\<lparr>st_slots := [(new_slot 0 8 12 6)\<lparr>gs_completed_cycles := 40\<rparr>],
     st_total_fees := 8, st_gross_profit := 960\<rparr>"

theorem grid_gate_guarantees_witness:
  "2 * st_total_fees good_run \<le> st_gross_profit good_run * (1 + unit_roundoff)"
proof -
  have "case evaluate_grid_backtest good_run demo_grid 365 of Inr r \<Rightarrow> gr_pass_regression r | Inl _ \<Rightarrow> False"
    by code_simp
  then obtain r where ev: "evaluate_grid_backtest good_run demo_grid 365 = Inr r" and pass: "gr_pass_regression r"
    by (cases "evaluate_grid_backtest good_run demo_grid 365") auto
  have pos: "0 \<le> st_total_fees good_run" "0 \<le> max_unrealized_loss good_run" by code_simp+
  from grid_gate_guarantees[OF ev pass pos] show ?thesis by simp
qed

subsection \<open>The advisor's grid\<close>

lemma fewer_levels_bounds:
  "4 \<le> n \<Longrightarrow> 4 \<le> fewer_levels lo hi ms n \<and> fewer_levels lo hi ms n \<le> n
    \<and> (\<forall>m. fewer_levels lo hi ms n < m \<and> m \<le> n \<longrightarrow> level_step_pct lo hi m < ms)
    \<and> (ms \<le> level_step_pct lo hi (fewer_levels lo hi ms n) \<or> fewer_levels lo hi ms n = 4)"
proof (induction lo hi ms n rule: fewer_levels.induct)
  case (1 lo hi ms n)
  show ?case
  proof (cases "4 < n \<and> level_step_pct lo hi n < ms")
    case True
    then have IH: "4 \<le> fewer_levels lo hi ms (n - 1)" "fewer_levels lo hi ms (n - 1) \<le> n - 1"
      "\<forall>m. fewer_levels lo hi ms (n - 1) < m \<and> m \<le> n - 1 \<longrightarrow> level_step_pct lo hi m < ms"
      "ms \<le> level_step_pct lo hi (fewer_levels lo hi ms (n - 1)) \<or> fewer_levels lo hi ms (n - 1) = 4"
      using 1 by simp_all
    have "level_step_pct lo hi m < ms" if "fewer_levels lo hi ms (n - 1) < m" "m \<le> n" for m
      using IH(3) that True by (cases "m = n") auto
    with IH True show ?thesis by (simp add: fewer_levels.simps[of lo hi ms n])
  next
    case False
    then have "fewer_levels lo hi ms n = n" by (subst fewer_levels.simps) (simp only: if_False)
    with False 1(2) show ?thesis by auto
  qed
qed

text \<open>
  The advisor takes as many levels as the minimum step allows.  A proposed grid has between
  four and the target number of levels and a proper range; every larger number of levels within
  the target would have made the step of the measured range too small; and either the grid is the
  measured range with a sufficient step, or even four levels were too many for it.
\<close>

theorem advisor_takes_the_most_levels:
  assumes "suggest_grid raw capital ms target period mult symbol = Inr c"
  shows "4 \<le> gc_n_levels c \<and> gc_n_levels c \<le> max 4 target \<and> gc_p_min c < gc_p_max c
    \<and> gc_symbol c = symbol \<and> gc_capital_usdt c = capital
    \<and> (\<exists>lo hi. 0 < lo
       \<and> (\<forall>m. gc_n_levels c < m \<and> m \<le> max 4 target \<longrightarrow> level_step_pct lo hi m < ms)
       \<and> (gc_p_min c = lo \<and> gc_p_max c = hi \<and> ms \<le> level_step_pct lo hi (gc_n_levels c)
          \<or> gc_n_levels c = 4 \<and> level_step_pct lo hi 4 < ms))"
proof -
  obtain ks atr where k: "emap parse_advisor_candle raw = Inr ks" "calculate_atr ks period = Inr atr"
    using assms by (auto simp: suggest_grid_def ebind_Inr_iff split: if_splits)
  define lo where "lo = fsub (ac_close (last ks)) (fmul mult atr)"
  define hi where "hi = fadd (ac_close (last ks)) (fmul mult atr)"
  define n where "n = fewer_levels lo hi ms (max 4 target)"
  have lo: "0 < lo" using assms k by (auto simp: suggest_grid_def Let_def lo_def split: if_splits)
  have c: "(if level_step_pct lo hi n < ms
      then ebind (minimum_half_range (ac_close (last ks)) n ms) (\<lambda>half.
             new_grid_config symbol (fsub (ac_close (last ks)) half) (fadd (ac_close (last ks)) half) n capital default_maker_fee 0)
      else new_grid_config symbol lo hi n capital default_maker_fee 0) = Inr c"
    using assms k lo by (simp add: suggest_grid_def Let_def lo_def hi_def n_def split: if_splits)
  have n: "4 \<le> n" "n \<le> max 4 target" "\<forall>m. n < m \<and> m \<le> max 4 target \<longrightarrow> level_step_pct lo hi m < ms"
    "ms \<le> level_step_pct lo hi n \<or> n = 4"
    using fewer_levels_bounds[of "max 4 target" lo hi ms] by (simp_all add: n_def)
  have cc: "gc_n_levels c = n" "gc_p_min c < gc_p_max c" "gc_symbol c = symbol" "gc_capital_usdt c = capital"
    "ms \<le> level_step_pct lo hi n \<longrightarrow> gc_p_min c = lo \<and> gc_p_max c = hi"
    using c by (auto simp: new_grid_config_def ebind_Inr_iff split: if_splits)
  have "gc_p_min c = lo \<and> gc_p_max c = hi \<and> ms \<le> level_step_pct lo hi (gc_n_levels c)
      \<or> gc_n_levels c = 4 \<and> level_step_pct lo hi 4 < ms"
    using n(4) cc by (cases "ms \<le> level_step_pct lo hi n") auto
  with lo n cc show ?thesis by (intro conjI exI[of _ lo] exI[of _ hi]) simp_all
qed

definition wide_candle :: raw_candle where
  "wide_candle = SeqCandle [RInt 0, RInt 96, RInt 112, RInt 80, RInt 96, RInt 1]"

theorem advisor_takes_the_most_levels_witness:
  "\<exists>c. suggest_grid [wide_candle, wide_candle, wide_candle] 1000 (1 / 8) 8 2 1 ''XRPUSDT'' = Inr c
    \<and> gc_n_levels c \<le> 8"
proof -
  define k where "k = \<lparr>ac_high = 112, ac_low = 80, ac_close = (96 :: pyfloat)\<rparr>"
  have ks: "parse_advisor_candle wide_candle = Inr k" unfolding k_def by code_simp
  have atr: "calculate_atr [k, k, k] 2 = Inr 32" unfolding k_def by code_simp
  have r: "ac_close k = 96" "fsub 96 (fmul 1 32) = 64" "fadd 96 (fmul 1 32) = 128"
    unfolding k_def by code_simp+
  have n: "fewer_levels 64 128 (1 / 8) 8 = 8" "level_step_pct 64 128 8 = 1 / 8" by code_simp+
  obtain c where c: "suggest_grid [wide_candle, wide_candle, wide_candle] 1000 (1 / 8) 8 2 1 ''XRPUSDT'' = Inr c"
    using r n by (simp add: suggest_grid_def ks atr Let_def new_grid_config_def)
  from advisor_takes_the_most_levels[OF c] c show ?thesis by auto
qed

end
