(* ===== verification/Journal_Models.thy ===== *)
theory Journal_Models
  imports PyNum
begin

text \<open>
  The rows of \<^verbatim>\<open>backend/trade_journal/models.py\<close>: one datatype per enumeration and
  one record per table.  UUID and serial keys are natural numbers, timestamps are microseconds
  since the epoch in UTC, dates are days since the epoch, nullable columns are options.  The
  column precision (\<^verbatim>\<open>Numeric(18, 8)\<close> and so on) that the database applies
  when a row is read back is not modelled; the values are those of the session's objects.  Columns
  that no modelled code reads or writes (\<^verbatim>\<open>created_at\<close>, \<^verbatim>\<open>mae\<close>,
  \<^verbatim>\<open>mfe\<close>, \<^verbatim>\<open>is_reduce_only\<close>, averages of a day) are left out, and
  the JSON snapshot of indicators is its text.
\<close>

datatype signal_direction = LONG | SHORT
datatype exchange_side = BUY | SELL
datatype market_type = SPOT | SPOT_MARGIN | LINEAR
datatype trading_mode = SHADOW | DEMO | REAL
datatype exit_reason = TP_HIT | SL_HIT | MANUAL | KILL_SWITCH_EXIT

datatype trade_status =
    SIGNAL_GENERATED | RISK_CALCULATED | SAFETY_CHECKED | ORDER_SUBMITTED
  | ORDER_PENDING_UNKNOWN | ORDER_CONFIRMED | ORDER_REJECTED | ORDER_CANCELLED
  | ORDER_PARTIALLY_FILLED | POSITION_OPEN | POSITION_CLOSE_PENDING | POSITION_CLOSED
  | POSITION_CLOSE_FAILED | PNL_RECORDED

datatype system_event_type = EV_KILL_SWITCH | EV_CIRCUIT_BREAKER | EV_COOLDOWN | EV_ERROR
datatype pause_reason = DAILY_LOSS | WEEKLY_LOSS | COOLDOWN | HARD_LOSS_STREAK

type_synonym timestamp = int
type_synonym date = int

definition date_of :: "timestamp \<Rightarrow> date" where
  "date_of t = t div 86400000000"

record signal =
  sig_id :: nat
  sig_symbol :: string
  sig_direction :: signal_direction
  sig_reason :: "string option"
  sig_strategy_version :: "string option"
  sig_indicators_snapshot :: "string option"

record signal_submission =
  sub_id :: nat
  sub_fingerprint :: string
  sub_signal_id :: "nat option"
  sub_trade_id :: "nat option"

record trade =
  t_id :: nat
  t_signal_id :: "nat option"
  t_order_link_id :: "string option"
  t_exchange_order_id :: "string option"
  t_close_order_link_id :: "string option"
  t_close_exchange_order_id :: "string option"
  t_stop_order_link_id :: "string option"
  t_stop_exchange_order_id :: "string option"
  t_take_profit_order_link_id :: "string option"
  t_take_profit_exchange_order_id :: "string option"
  t_symbol :: string
  t_signal_direction :: signal_direction
  t_exchange_side :: exchange_side
  t_market_type :: market_type
  t_mode :: trading_mode
  t_equity_at_entry :: "decimal option"
  t_risk_amount_usd :: "decimal option"
  t_risk_pct :: "decimal option"
  t_entry_price :: "decimal option"
  t_stop_price :: "decimal option"
  t_target_price :: "decimal option"
  t_expected_rrr :: "decimal option"
  t_qty :: "decimal option"
  t_order_type :: "string option"
  t_is_post_only :: bool
  t_avg_fill_price :: "decimal option"
  t_filled_qty :: "decimal option"
  t_fee_paid :: "decimal option"
  t_slippage :: "decimal option"
  t_avg_exit_price :: "decimal option"
  t_status :: trade_status
  t_exit_reason :: "exit_reason option"
  t_realized_pnl :: "decimal option"
  t_pnl_pct :: "decimal option"
  t_pnl_in_r :: "decimal option"
  t_hold_time_seconds :: "int option"
  t_opened_at :: "timestamp option"
  t_closed_at :: "timestamp option"

record trade_event =
  ev_trade_id :: nat
  ev_type :: string
  ev_from_status :: "trade_status option"
  ev_to_status :: "trade_status option"
  ev_metadata :: "(string \<times> string) list"

record symbol_stat =
  ss_wins :: int
  ss_losses :: int
  ss_consecutive_losses :: int

record daily_stat =
  ds_date :: date
  ds_total_trades :: int
  ds_winning_trades :: int
  ds_losing_trades :: int
  ds_consecutive_losses :: int
  ds_gross_pnl :: "decimal option"
  ds_total_fees :: "decimal option"
  ds_net_pnl :: "decimal option"
  ds_daily_loss_pct :: "decimal option"
  ds_symbol_stats :: "(string \<times> symbol_stat) list"
  ds_circuit_breaker_triggered :: bool

record safety_state =
  sf_kill_switch_active :: bool
  sf_pause_reason :: "pause_reason option"
  sf_cooldown_until :: "timestamp option"
  sf_manual_reset_required :: bool
  sf_last_triggered_at :: "timestamp option"

end
