(* ===== verification/GridLive.thy ===== *)
theory GridLive
  imports GridEngine Journal_Models
begin

text \<open>
  The live grid: \<^verbatim>\<open>grid_engine/models.py\<close>, \<^verbatim>\<open>order_manager.py\<close>,
  \<^verbatim>\<open>grid_ws_handler.py\<close>, \<^verbatim>\<open>grid_runner.py\<close>, the routes of
  \<^verbatim>\<open>api/grid_router.py\<close> and \<^verbatim>\<open>main._autostart_grid\<close>.  The
  grid has tables of its own: its world is the list of sessions as the current database session
  sees it and as it is committed, the log of requests, and the next key.  The exchange answers
  as it likes, given the requests sent so far.
\<close>

subsection \<open>Rows\<close>

datatype session_status = GRID_ACTIVE | GRID_PAUSED | GRID_STOPPED | GRID_WAITING_REENTRY
datatype slot_row_status = ROW_WAITING_BUY | ROW_WAITING_SELL

record slot_row =
  sr_id :: nat
  sr_level :: nat
  sr_buy_price :: decimal
  sr_sell_price :: decimal
  sr_status :: slot_row_status
  sr_completed_cycles :: int
  sr_realized_pnl :: decimal
  sr_units :: "decimal option"
  sr_buy_order_id :: "string option"
  sr_sell_order_id :: "string option"

record grid_session =
  gx_id :: nat
  gx_symbol :: string
  gx_config_json :: "(string \<times> raw_value) list"
  gx_status :: session_status
  gx_slots :: "slot_row list"

subsection \<open>World\<close>

datatype grid_request = GPlace string string decimal decimal | GCancel string string

record grid_exchange =
  ge_place :: "grid_request list \<Rightarrow> grid_request \<Rightarrow> exc + string option"
  ge_cancel :: "grid_request list \<Rightarrow> grid_request \<Rightarrow> exc + unit"
  ge_open_orders :: "grid_request list \<Rightarrow> string \<Rightarrow> exc + string option list"
  ge_ticker_price :: "grid_request list \<Rightarrow> string \<Rightarrow> exc + pyfloat"
  ge_candles :: "string \<Rightarrow> int \<Rightarrow> exc + raw_candle list"

record grid_world =
  g_cur :: "grid_session list"
  g_saved :: "grid_session list"
  g_sent :: "grid_request list"
  g_next :: nat

type_synonym 'a gop = "(grid_world, 'a) prog"

definition g_commit :: "unit gop" where
  "g_commit = modify (\<lambda>w. w\<lparr>g_saved := g_cur w\<rparr>)"

definition g_in_session :: "'a gop \<Rightarrow> 'a gop" where
  "g_in_session m w = (case m (w\<lparr>g_cur := g_saved w\<rparr>) of (r, w') \<Rightarrow> (r, w'\<lparr>g_cur := g_saved w'\<rparr>))"

definition g_draw :: "nat gop" where
  "g_draw w = (Inr (g_next w), w\<lparr>g_next := Suc (g_next w)\<rparr>)"

definition g_modify :: "(grid_session list \<Rightarrow> grid_session list) \<Rightarrow> unit gop" where
  "g_modify f = modify (\<lambda>w. w\<lparr>g_cur := f (g_cur w)\<rparr>)"

definition upd_session :: "nat \<Rightarrow> (grid_session \<Rightarrow> grid_session) \<Rightarrow> grid_session list \<Rightarrow> grid_session list" where
  "upd_session i f = update_where (\<lambda>g. gx_id g = i) f"

definition upd_slot :: "nat \<Rightarrow> (slot_row \<Rightarrow> slot_row) \<Rightarrow> grid_session list \<Rightarrow> grid_session list" where
  "upd_slot i f = map (\<lambda>g. g\<lparr>gx_slots := update_where (\<lambda>s. sr_id s = i) f (gx_slots g)\<rparr>)"

definition set_status :: "nat \<Rightarrow> session_status \<Rightarrow> unit gop" where
  "set_status i st = g_modify (upd_session i (\<lambda>g. g\<lparr>gx_status := st\<rparr>))"

subsection \<open>Order manager\<close>

definition price_decimals :: "pyfloat \<Rightarrow> nat" where
  "price_decimals p = (if 10 \<le> p then 2 else if 1 \<le> p then 4 else 5)"

definition qty_decimals :: "pyfloat \<Rightarrow> nat" where
  "qty_decimals p =
     (if 1000 \<le> p then 6 else if 100 \<le> p then 4 else if 10 \<le> p then 3 else if 1 \<le> p then 1 else 0)"

text \<open>\<^verbatim>\<open>f"{x:.{d}f}"\<close>: the exact value to \<open>d\<close> decimals, half to even.\<close>

definition format_fixed :: "nat \<Rightarrow> pyfloat \<Rightarrow> decimal" where
  "format_fixed d x = of_int (round_even (x * 10 ^ d)) / 10 ^ d"

definition format_price :: "pyfloat \<Rightarrow> decimal" where
  "format_price p = format_fixed (price_decimals p) p"

definition format_qty :: "pyfloat \<Rightarrow> pyfloat \<Rightarrow> decimal" where
  "format_qty q p = format_fixed (qty_decimals p) q"

definition place_grid_limit :: "grid_exchange \<Rightarrow> string \<Rightarrow> string \<Rightarrow> pyfloat \<Rightarrow> pyfloat \<Rightarrow> string gop" where
  "place_grid_limit e side symbol price qty w =
     (let rq = GPlace symbol side (format_price price) (format_qty qty price);
          w' = w\<lparr>g_sent := g_sent w @ [rq]\<rparr>
      in case ge_place e (g_sent w) rq of
           Inl x \<Rightarrow> (Inl x, w')
         | Inr None \<Rightarrow> (Inl ValueError, w')
         | Inr (Some oid) \<Rightarrow> (Inr oid, w'))"

definition place_buy_limit :: "grid_exchange \<Rightarrow> string \<Rightarrow> pyfloat \<Rightarrow> pyfloat \<Rightarrow> string gop" where
  "place_buy_limit e = place_grid_limit e ''Buy''"

definition place_sell_limit :: "grid_exchange \<Rightarrow> string \<Rightarrow> pyfloat \<Rightarrow> pyfloat \<Rightarrow> string gop" where
  "place_sell_limit e = place_grid_limit e ''Sell''"

definition grid_cancel_order :: "grid_exchange \<Rightarrow> string \<Rightarrow> string \<Rightarrow> bool gop" where
  "grid_cancel_order e symbol oid w =
     (case ge_cancel e (g_sent w) (GCancel symbol oid) of
        Inl x \<Rightarrow> (Inl x, w\<lparr>g_sent := g_sent w @ [GCancel symbol oid]\<rparr>)
      | Inr _ \<Rightarrow> (Inr True, w\<lparr>g_sent := g_sent w @ [GCancel symbol oid]\<rparr>))"

definition get_open_orders :: "grid_exchange \<Rightarrow> string \<Rightarrow> string option list gop" where
  "get_open_orders e symbol w = (ge_open_orders e (g_sent w) symbol, w)"

definition cancel_all_orders :: "grid_exchange \<Rightarrow> string \<Rightarrow> nat gop" where
  "cancel_all_orders e symbol =
     bnd (get_open_orders e symbol) (\<lambda>os.
     count_each (\<lambda>o'. case o' of None \<Rightarrow> ret False | Some oid \<Rightarrow> grid_cancel_order e symbol oid) os)"

subsection \<open>Configuration as JSON\<close>

definition text_of :: "string \<Rightarrow> text_value" where
  "text_of s = \<lparr>tx_chars = s, tx_float = None, tx_int = None, tx_isdigit = False\<rparr>"

definition config_to_json :: "grid_config \<Rightarrow> (string \<times> raw_value) list" where
  "config_to_json c = [(''symbol'', RText (text_of (gc_symbol c))), (''p_min'', RFloat (gc_p_min c)),
     (''p_max'', RFloat (gc_p_max c)), (''n_levels'', RInt (gc_n_levels c)),
     (''capital_usdt'', RFloat (gc_capital_usdt c)), (''maker_fee_pct'', RFloat (gc_maker_fee_pct c)),
     (''min_lot_size'', RFloat (gc_min_lot_size c))]"

fun config_float :: "raw_value \<Rightarrow> exc + pyfloat" where
  "config_float (RInt i) = Inr (of_pyint i)"
| "config_float (RFloat x) = Inr x"
| "config_float (RText t) = or_raise (tx_float t) ValueError"
| "config_float _ = Inl TypeError"

fun config_int :: "raw_value \<Rightarrow> exc + int" where
  "config_int (RInt i) = Inr i"
| "config_int (RText t) = or_raise (tx_int t) ValueError"
| "config_int _ = Inl TypeError"

text \<open>\<^verbatim>\<open>config_json[key]\<close>, and the text of the symbol (which the runner never reads).\<close>

definition json_item :: "(string \<times> raw_value) list \<Rightarrow> string \<Rightarrow> exc + raw_value" where
  "json_item m k = or_raise (map_of m k) KeyError"

fun symbol_text :: "raw_value \<Rightarrow> string" where
  "symbol_text (RText t) = tx_chars t"
| "symbol_text _ = []"

definition config_from_json :: "(string \<times> raw_value) list \<Rightarrow> exc + grid_config" where
  "config_from_json m =
     ebind (json_item m ''symbol'') (\<lambda>s.
     ebind (ebind (json_item m ''p_min'') config_float) (\<lambda>lo.
     ebind (ebind (json_item m ''p_max'') config_float) (\<lambda>hi.
     ebind (ebind (json_item m ''n_levels'') config_int) (\<lambda>n.
     ebind (ebind (json_item m ''capital_usdt'') config_float) (\<lambda>cap.
     ebind (case map_of m ''maker_fee_pct'' of Some v \<Rightarrow> config_float v | None \<Rightarrow> Inr default_maker_fee) (\<lambda>fee.
     ebind (case map_of m ''min_lot_size'' of Some v \<Rightarrow> config_float v | None \<Rightarrow> Inr 0) (\<lambda>lot.
       new_grid_config (symbol_text s) lo hi n cap fee lot)))))))"

subsection \<open>Runner\<close>

definition load_session :: "nat \<Rightarrow> grid_session gop" where
  "load_session i = bnd (reads (\<lambda>w. find (\<lambda>g. gx_id g = i) (g_cur w))) (\<lambda>og.
     case og of None \<Rightarrow> throw GridSessionNotFoundError | Some g \<Rightarrow> ret g)"

definition get_current_price :: "grid_exchange \<Rightarrow> string \<Rightarrow> pyfloat gop" where
  "get_current_price e symbol w = (ge_ticker_price e (g_sent w) symbol, w)"

definition no_order :: "string option \<Rightarrow> bool" where
  "no_order o' \<longleftrightarrow> o' = None \<or> o' = Some []"

definition start_slot :: "grid_exchange \<Rightarrow> grid_config \<Rightarrow> string \<Rightarrow> pyfloat \<Rightarrow> slot_row \<Rightarrow> unit gop" where
  "start_slot e c symbol price s =
     bnd (from_sum (ebind (capital_per_level c) (\<lambda>k. fdivide k (fl (sr_buy_price s))))) (\<lambda>q.
     let units = dec_of_float q in
     andthen (g_modify (upd_slot (sr_id s) (\<lambda>s. s\<lparr>sr_units := Some units\<rparr>)))
     (if price \<le> fl (sr_buy_price s)
      then g_modify (upd_slot (sr_id s) (\<lambda>s. s\<lparr>sr_status := ROW_WAITING_SELL\<rparr>))
      else if sr_status s = ROW_WAITING_BUY \<and> no_order (sr_buy_order_id s)
      then bnd (place_buy_limit e symbol (fl (sr_buy_price s)) (fl units)) (\<lambda>oid.
             g_modify (upd_slot (sr_id s) (\<lambda>s. s\<lparr>sr_buy_order_id := Some oid\<rparr>)))
      else ret ()))"

definition start_grid :: "grid_exchange \<Rightarrow> nat \<Rightarrow> unit gop" where
  "start_grid e i = g_in_session (
     bnd (load_session i) (\<lambda>g.
     andthen (raise_if (gx_status g = GRID_ACTIVE) GridSessionAlreadyActiveError)
     (bnd (get_current_price e (gx_symbol g)) (\<lambda>price.
      bnd (from_sum (config_from_json (gx_config_json g))) (\<lambda>c.
      andthen (each (start_slot e c (gx_symbol g) price) (gx_slots g))
      (andthen (set_status i GRID_ACTIVE)
        g_commit))))))"

definition stop_grid :: "grid_exchange \<Rightarrow> nat \<Rightarrow> unit gop" where
  "stop_grid e i = g_in_session (
     bnd (load_session i) (\<lambda>g.
     bnd (cancel_all_orders e (gx_symbol g)) (\<lambda>_.
     andthen (set_status i GRID_STOPPED)
       g_commit)))"

definition pause_grid :: "nat \<Rightarrow> unit gop" where
  "pause_grid i = g_in_session (
     bnd (load_session i) (\<lambda>_.
     andthen (set_status i GRID_PAUSED)
       g_commit))"

text \<open>\<^verbatim>\<open>float(slot.units or Decimal(0))\<close>\<close>

definition slot_units :: "slot_row \<Rightarrow> pyfloat" where
  "slot_units s = fl (or_zero (sr_units s))"

definition holding_value :: "(slot_row \<Rightarrow> pyfloat) \<Rightarrow> slot_row list \<Rightarrow> pyfloat" where
  "holding_value price ss = foldl (\<lambda>a s. if sr_status s = ROW_WAITING_SELL
     then fadd a (fmul (price s) (slot_units s)) else a) 0 ss"

definition unrealized_drawdown_pct :: "grid_session \<Rightarrow> pyfloat \<Rightarrow> exc + pyfloat" where
  "unrealized_drawdown_pct g price =
     (let cost = holding_value (\<lambda>s. fl (sr_buy_price s)) (gx_slots g);
          val = holding_value (\<lambda>_. price) (gx_slots g)
      in ebind (ebind (json_item (gx_config_json g) ''capital_usdt'') config_float) (\<lambda>cap.
         Inr (if cap = 0 then 0 else fmul (fdiv (max 0 (fsub cost val)) cap) 100)))"

definition unrealized_position_value :: "grid_session \<Rightarrow> pyfloat \<Rightarrow> pyfloat" where
  "unrealized_position_value g price = holding_value (\<lambda>_. price) (gx_slots g)"

definition evaluate_risk :: "grid_exchange \<Rightarrow> nat \<Rightarrow> pyfloat \<Rightarrow> pyfloat \<Rightarrow> unit gop" where
  "evaluate_risk e i price max_dd = g_in_session (
     bnd (load_session i) (\<lambda>g.
     bnd (from_sum (config_from_json (gx_config_json g))) (\<lambda>c.
     bnd (from_sum (unrealized_drawdown_pct g price)) (\<lambda>dd.
     if max_dd < dd then pause_grid i
     else if price < fmul (gc_p_min c) (fl (95 / 100)) then stop_grid e i
     else ret ()))))"

definition handle_upside_breakout :: "nat \<Rightarrow> bool gop" where
  "handle_upside_breakout i = g_in_session (
     bnd (load_session i) (\<lambda>g.
     if gx_slots g = [] then ret False
     else if (\<exists>s \<in> set (gx_slots g). sr_status s \<noteq> ROW_WAITING_BUY) then ret False
     else andthen (set_status i GRID_WAITING_REENTRY) (andthen g_commit (ret True))))"

record daily_report =
  dr_session_id :: nat
  dr_completed_cycles_24h :: int
  dr_net_pnl_24h :: pyfloat
  dr_unrealized_position_value :: pyfloat
  dr_fee_coverage_ratio :: pyfloat

definition session_cycles :: "grid_session \<Rightarrow> int" where
  "session_cycles g = sum_list (map sr_completed_cycles (gx_slots g))"

definition session_pnl :: "grid_session \<Rightarrow> pyfloat" where
  "session_pnl g = fsum (map (\<lambda>s. fl (sr_realized_pnl s)) (gx_slots g))"

definition build_daily_report :: "nat \<Rightarrow> pyfloat \<Rightarrow> daily_report gop" where
  "build_daily_report i price = g_in_session (
     bnd (load_session i) (\<lambda>g.
     ret \<lparr>dr_session_id = i, dr_completed_cycles_24h = session_cycles g, dr_net_pnl_24h = session_pnl g,
       dr_unrealized_position_value = unrealized_position_value g price, dr_fee_coverage_ratio = 0\<rparr>))"

subsection \<open>Order fills\<close>

datatype fill_side = FillBuy | FillSell | FillOther

record grid_fill_event =
  fe_order_id :: string
  fe_side :: fill_side
  fe_symbol :: string

definition holds_order :: "string \<Rightarrow> slot_row \<Rightarrow> bool" where
  "holds_order oid s \<longleftrightarrow> sr_buy_order_id s = Some oid \<or> sr_sell_order_id s = Some oid"

definition slot_for_order_id :: "string \<Rightarrow> grid_session list \<Rightarrow> exc + slot_row option" where
  "slot_for_order_id oid gs = (case filter (holds_order oid) (concat (map gx_slots gs)) of
     [] \<Rightarrow> Inr None | [s] \<Rightarrow> Inr (Some s) | _ \<Rightarrow> Inl MultipleResultsFound)"

definition after_buy :: "string \<Rightarrow> slot_row \<Rightarrow> slot_row" where
  "after_buy oid s = s\<lparr>sr_status := ROW_WAITING_SELL, sr_buy_order_id := None, sr_sell_order_id := Some oid\<rparr>"

definition after_sell :: "string \<Rightarrow> slot_row \<Rightarrow> slot_row" where
  "after_sell oid s = s\<lparr>sr_status := ROW_WAITING_BUY, sr_sell_order_id := None, sr_buy_order_id := Some oid,
     sr_completed_cycles := sr_completed_cycles s + 1,
     sr_realized_pnl := dadd (sr_realized_pnl s)
       (dmul (dsub (sr_sell_price s) (sr_buy_price s)) (or_zero (sr_units s)))\<rparr>"

definition handle_order_fill :: "grid_exchange \<Rightarrow> grid_fill_event \<Rightarrow> unit gop" where
  "handle_order_fill e ev = g_in_session (
     bnd (reads (\<lambda>w. slot_for_order_id (fe_order_id ev) (g_cur w))) (\<lambda>r.
     bnd (from_sum r) (\<lambda>os.
     case os of
       None \<Rightarrow> ret ()
     | Some s \<Rightarrow>
         andthen
           (case fe_side ev of
              FillBuy \<Rightarrow> bnd (place_sell_limit e (fe_symbol ev) (fl (sr_sell_price s)) (slot_units s)) (\<lambda>oid.
                g_modify (upd_slot (sr_id s) (after_buy oid)))
            | FillSell \<Rightarrow> bnd (place_buy_limit e (fe_symbol ev) (fl (sr_buy_price s)) (slot_units s)) (\<lambda>oid.
                g_modify (upd_slot (sr_id s) (after_sell oid)))
            | FillOther \<Rightarrow> ret ())
           g_commit)))"

subsection \<open>Creating a session\<close>

record create_request =
  cr_symbol :: string
  cr_p_min :: pyfloat
  cr_p_max :: pyfloat
  cr_n_levels :: int
  cr_capital_usdt :: pyfloat

text \<open>The field bounds and the validator of the request model; a request that fails them is a 422.\<close>

definition valid_create :: "create_request \<Rightarrow> bool" where
  "valid_create p \<longleftrightarrow> 0 < cr_p_min p \<and> 0 < cr_p_max p \<and> 1 \<le> cr_n_levels p \<and> 0 < cr_capital_usdt p
     \<and> cr_p_min p < cr_p_max p"

definition new_slot_row :: "nat \<Rightarrow> nat \<times> pyfloat \<times> pyfloat \<Rightarrow> slot_row" where
  "new_slot_row i lbs = (case lbs of (level, b, s) \<Rightarrow>
     \<lparr>sr_id = i + level, sr_level = level, sr_buy_price = dec_of_float b, sr_sell_price = dec_of_float s,
      sr_status = ROW_WAITING_BUY, sr_completed_cycles = 0, sr_realized_pnl = 0, sr_units = None,
      sr_buy_order_id = None, sr_sell_order_id = None\<rparr>)"

text \<open>The ladder: each buy price with its selling price.\<close>

definition ladder :: "grid_config \<Rightarrow> exc + (pyfloat \<times> pyfloat) list" where
  "ladder c = ebind (buy_prices c) (\<lambda>bs. emap (\<lambda>b. ebind (grid_sell_price c b) (\<lambda>s. Inr (b, s))) bs)"

text \<open>\<^verbatim>\<open>session.add(GridSession(...)); commit\<close>: keys for the session and its slots.\<close>

definition insert_session ::
  "string \<Rightarrow> (string \<times> raw_value) list \<Rightarrow> (pyfloat \<times> pyfloat) list \<Rightarrow> nat gop"
where
  "insert_session symbol json bss = g_in_session (\<lambda>w.
     let i = g_next w;
         g = \<lparr>gx_id = i, gx_symbol = symbol, gx_config_json = json, gx_status = GRID_PAUSED,
              gx_slots = map (new_slot_row (Suc i)) (enumerate 0 bss)\<rparr>
     in andthen g_commit (ret i) (w\<lparr>g_cur := g_cur w @ [g], g_next := Suc i + length bss\<rparr>))"

definition create_grid_session :: "create_request \<Rightarrow> (nat \<times> pyfloat \<times> bool) gop" where
  "create_grid_session p =
     bnd (from_sum (new_grid_config (py_upper (py_strip (cr_symbol p))) (cr_p_min p) (cr_p_max p)
            (cr_n_levels p) (cr_capital_usdt p) default_maker_fee 0)) (\<lambda>c.
     bnd (from_sum (ladder c)) (\<lambda>bss.
     bnd (insert_session (gc_symbol c) (config_to_json c) bss) (\<lambda>i.
     bnd (from_sum (step_pct c)) (\<lambda>sp.
     ret (i, sp, sp < fl (5 / 1000))))))"

definition create_grid_status :: "create_request \<Rightarrow> (exc + 'a) \<Rightarrow> nat" where
  "create_grid_status p r = (if \<not> valid_create p then 422 else case r of Inr _ \<Rightarrow> 200 | Inl _ \<Rightarrow> 500)"

subsection \<open>Other routes\<close>

record grid_status_response =
  gr_session :: grid_session
  gr_cycles :: int
  gr_net_pnl_usdt :: pyfloat
  gr_fee_coverage :: pyfloat
  gr_max_drawdown :: pyfloat

definition get_grid_status :: "nat \<Rightarrow> grid_status_response gop" where
  "get_grid_status i = g_in_session (
     bnd (load_session i) (\<lambda>g.
     ret \<lparr>gr_session = g, gr_cycles = session_cycles g, gr_net_pnl_usdt = session_pnl g,
       gr_fee_coverage = 0, gr_max_drawdown = 0\<rparr>))"

definition set_session_status :: "nat \<Rightarrow> session_status \<Rightarrow> unit gop" where
  "set_session_status i st = g_in_session (
     bnd (load_session i) (\<lambda>_. andthen (set_status i st) g_commit))"

definition start_grid_status :: "exc + unit \<Rightarrow> nat" where
  "start_grid_status r = (case r of Inr _ \<Rightarrow> 200
     | Inl x \<Rightarrow> if x = GridSessionAlreadyActiveError then 409
               else if x = GridSessionNotFoundError then 404 else 500)"

text \<open>\<^verbatim>\<open>suggest_for_symbol\<close> with its defaults; 15-minute candles, 96 a day.\<close>

definition suggest_for_symbol :: "grid_exchange \<Rightarrow> string \<Rightarrow> pyfloat \<Rightarrow> int \<Rightarrow> int \<Rightarrow> exc + grid_config" where
  "suggest_for_symbol e symbol capital lookback_days target =
     ebind (ge_candles e symbol (lookback_days * 96)) (\<lambda>raw.
     suggest_grid raw capital (fl (5 / 1000)) target 20 2 symbol)"

subsection \<open>Starting the grid with the application\<close>

text \<open>The newest session of a symbol: keys grow with every insert.\<close>

definition newest_session :: "string \<Rightarrow> grid_session list \<Rightarrow> grid_session option" where
  "newest_session symbol gs = (case filter (\<lambda>g. gx_symbol g = symbol) gs of [] \<Rightarrow> None | hs \<Rightarrow> Some (last hs))"

definition autostart_symbol :: "grid_exchange \<Rightarrow> pyfloat \<Rightarrow> int \<Rightarrow> int \<Rightarrow> string \<Rightarrow> unit gop" where
  "autostart_symbol e capital lookback_days target symbol =
     bnd (g_in_session (reads (\<lambda>w. newest_session symbol (g_cur w)))) (\<lambda>og.
     let fresh = (case suggest_for_symbol e symbol capital lookback_days target of
           Inl _ \<Rightarrow> ret ()
         | Inr c \<Rightarrow>
             bnd (from_sum (ladder c)) (\<lambda>bss.
             bnd (insert_session (gc_symbol c) (take 5 (config_to_json c)) bss) (\<lambda>i.
             start_grid e i)))
     in case og of
          None \<Rightarrow> fresh
        | Some g \<Rightarrow> if gx_status g = GRID_ACTIVE then ret ()
                    else if gx_status g = GRID_PAUSED then start_grid e (gx_id g)
                    else fresh)"

definition autostart_grid :: "grid_exchange \<Rightarrow> pyfloat \<Rightarrow> int \<Rightarrow> int \<Rightarrow> string list \<Rightarrow> unit gop" where
  "autostart_grid e capital lookback_days target symbols =
     each (autostart_symbol e capital lookback_days target) symbols"

subsection \<open>The configuration survives its JSON form\<close>

text \<open>
  C18: a session's configuration survives storage: reading back the JSON form of a valid
  configuration gives that configuration, and the shorter form that the automatic start stores
  gives it with the default fee and no lot size.
\<close>

theorem config_json_roundtrip:
  assumes "gc_p_min c < gc_p_max c"
  shows "config_from_json (config_to_json c) = Inr c
    \<and> config_from_json (take 5 (config_to_json c))
        = Inr (c\<lparr>gc_maker_fee_pct := default_maker_fee, gc_min_lot_size := 0\<rparr>)"
  using assms by (cases c) (simp add: config_from_json_def config_to_json_def json_item_def
      new_grid_config_def text_of_def take_Cons')

theorem config_json_roundtrip_witness: "config_from_json (config_to_json demo_grid) = Inr demo_grid"
proof -
  have "gc_p_min demo_grid < gc_p_max demo_grid" by code_simp
  then show ?thesis using config_json_roundtrip[of demo_grid] by simp
qed

subsection \<open>The books of the grid\<close>

text \<open>
  What holds of every slot of every session: prices are positive and the selling price is not
  below the buying price, a slot that waits to buy has no open sell order, and its books are
  never negative.
\<close>

definition slot_ok :: "slot_row \<Rightarrow> bool" where
  "slot_ok s \<longleftrightarrow> 0 < sr_buy_price s \<and> sr_buy_price s \<le> sr_sell_price s \<and> 0 \<le> sr_completed_cycles s
     \<and> 0 \<le> sr_realized_pnl s \<and> is_dec (sr_realized_pnl s) \<and> 0 \<le> or_zero (sr_units s)
     \<and> (sr_status s = ROW_WAITING_SELL \<or> sr_sell_order_id s = None)"

definition config_ok :: "(string \<times> raw_value) list \<Rightarrow> bool" where
  "config_ok json \<longleftrightarrow> (case config_from_json json of
     Inl _ \<Rightarrow> False | Inr c \<Rightarrow> 0 < gc_capital_usdt c \<and> 1 \<le> gc_n_levels c)"

definition books :: "grid_session list \<Rightarrow> bool" where
  "books gs \<longleftrightarrow> (\<forall>g \<in> set gs. config_ok (gx_config_json g) \<and> (\<forall>s \<in> set (gx_slots g). slot_ok s))"

definition grid_inv :: "grid_world \<Rightarrow> bool" where
  "grid_inv w \<longleftrightarrow> books (g_cur w) \<and> books (g_saved w)"

abbreviation gkeeps :: "'a gop \<Rightarrow> bool" where
  "gkeeps m \<equiv> steps (preserves grid_inv) m"

lemma books_upd_slot: "books gs \<Longrightarrow> (\<And>s. slot_ok s \<Longrightarrow> slot_ok (f s)) \<Longrightarrow> books (upd_slot i f gs)"
  by (auto simp: books_def upd_slot_def set_update_where)

lemma books_set_status: "books gs \<Longrightarrow> books (upd_session i (\<lambda>g. g\<lparr>gx_status := st\<rparr>) gs)"
  by (auto simp: books_def upd_session_def set_update_where)

lemma gkeep_modify: "(\<And>gs. books gs \<Longrightarrow> books (f gs)) \<Longrightarrow> gkeeps (g_modify f)"
  by (auto simp: steps_def preserves_def grid_inv_def g_modify_def)

lemma gkeep_session:
  fixes m :: "'a gop"
  assumes m: "gkeeps m"
  shows "gkeeps (g_in_session m)"
proof (rule stepsI)
  fix w :: grid_world
  obtain r w' where mw: "m (w\<lparr>g_cur := g_saved w\<rparr>) = (r, w')" by (cases "m (w\<lparr>g_cur := g_saved w\<rparr>)")
  show "preserves grid_inv w (snd (g_in_session m w))"
    using stepsD[OF m mw] by (simp add: preserves_def grid_inv_def g_in_session_def mw)
qed

lemma gkeep_basic:
  "gkeeps g_commit" "gkeeps (set_status i st)" "gkeeps (get_current_price e s)"
  "gkeeps (get_open_orders e s)" "gkeeps (load_session i)" "gkeeps (place_grid_limit e sd s p q)"
  "gkeeps (grid_cancel_order e s oid)"
proof -
  show "gkeeps (set_status i st)" unfolding set_status_def by (intro gkeep_modify books_set_status)
qed (auto simp: steps_def preserves_def grid_inv_def g_commit_def get_current_price_def
      get_open_orders_def load_session_def place_grid_limit_def grid_cancel_order_def Let_def
      split: option.splits sum.splits)

lemmas gkeep_rules = kp.rules gkeep_modify gkeep_session gkeep_basic

text \<open>What a program read may be used after it.\<close>

lemma gkeep_bnd_known:
  assumes "gkeeps m" "\<And>w a w'. grid_inv w \<Longrightarrow> m w = (Inr a, w') \<Longrightarrow> Q a" "\<And>a. Q a \<Longrightarrow> gkeeps (f a)"
  shows "gkeeps (bnd m f)"
proof (rule stepsI)
  fix w
  obtain r w1 where mw: "m w = (r, w1)" by (cases "m w")
  show "preserves grid_inv w (snd (bnd m f w))"
  proof (cases r)
    case (Inl e)
    then show ?thesis using stepsD[OF assms(1) mw] by (simp add: bnd_def mw)
  next
    case (Inr a)
    have "grid_inv w \<Longrightarrow> preserves grid_inv w1 (snd (f a w1))"
      using assms(2)[OF _ mw[unfolded Inr]] assms(3)[of a] by (simp add: steps_def)
    then show ?thesis using stepsD[OF assms(1) mw] by (auto simp: bnd_def mw Inr preserves_def)
  qed
qed

lemma gkeep_each: "(\<And>x. x \<in> set xs \<Longrightarrow> gkeeps (f x)) \<Longrightarrow> gkeeps (each f xs)"
  by (induction xs) (simp_all add: kp.ret kp.andthen)

definition session_ok :: "grid_session \<Rightarrow> bool" where
  "session_ok g \<longleftrightarrow> config_ok (gx_config_json g) \<and> (\<forall>s \<in> set (gx_slots g). slot_ok s)"

lemma load_known: "grid_inv w \<Longrightarrow> load_session i w = (Inr g, w') \<Longrightarrow> session_ok g"
  by (auto simp: load_session_def grid_inv_def books_def session_ok_def find_Some_iff split: option.splits)

lemma slot_ok_simps:
  "slot_ok s \<Longrightarrow> 0 \<le> u \<Longrightarrow> slot_ok (s\<lparr>sr_units := Some u\<rparr>)"
  "slot_ok s \<Longrightarrow> slot_ok (s\<lparr>sr_status := ROW_WAITING_SELL\<rparr>)"
  "slot_ok s \<Longrightarrow> slot_ok (s\<lparr>sr_buy_order_id := b\<rparr>)" "slot_ok s \<Longrightarrow> slot_ok (after_buy oid s)"
  by (simp_all add: slot_ok_def after_buy_def)

lemma slot_ok_after_sell: "slot_ok s \<Longrightarrow> slot_ok (after_sell oid s)"
proof -
  assume s: "slot_ok s"
  have "0 \<le> dmul (dsub (sr_sell_price s) (sr_buy_price s)) (or_zero (sr_units s))"
    using s by (simp add: slot_ok_def dec_ops dco.signs)
  then have "sr_realized_pnl s \<le> dadd (sr_realized_pnl s)
      (dmul (dsub (sr_sell_price s) (sr_buy_price s)) (or_zero (sr_units s)))"
    using s by (simp add: slot_ok_def dadd_def is_dec_def dco.add_mono_rep)
  then show ?thesis using s by (simp add: slot_ok_def after_sell_def)
qed

lemma gkeep_start_slot:
  assumes c: "0 < gc_capital_usdt c" "1 \<le> gc_n_levels c" and s: "slot_ok s"
  shows "gkeeps (start_slot e c sy p s)"
proof -
  have n: "0 < of_pyint (gc_n_levels c)" using c by (simp add: of_pyint_def flo.signs)
  have q: "0 \<le> dec_of_float q" if "ebind (capital_per_level c) (\<lambda>k. fdivide k (fl (sr_buy_price s))) = Inr q" for q
  proof -
    have "q = fdiv (fdiv (gc_capital_usdt c) (of_pyint (gc_n_levels c))) (fl (sr_buy_price s))"
      using that n s by (simp add: capital_per_level_def fdivide_def split: if_splits)
    then show ?thesis using c n s by (simp add: dec_of_float_nonneg fdiv_def flo.signs slot_ok_def)
  qed
  show ?thesis
    unfolding start_slot_def Let_def place_buy_limit_def
    by (rule gkeep_bnd_known[where Q = "\<lambda>q. 0 \<le> dec_of_float q"])
      (auto intro!: gkeep_rules books_upd_slot slot_ok_simps intro: q)
qed

lemma gkeep_start: "gkeeps (start_grid e i)"
proof -
  have "gkeeps (bnd (from_sum (config_from_json (gx_config_json g))) (\<lambda>c.
      andthen (each (start_slot e c (gx_symbol g) price) (gx_slots g)) (andthen (set_status i GRID_ACTIVE) g_commit)))"
    if "session_ok g" for g price
    using that
    by (intro gkeep_bnd_known[where Q = "\<lambda>c. 0 < gc_capital_usdt c \<and> 1 \<le> gc_n_levels c"] gkeep_rules gkeep_each gkeep_start_slot)
      (auto simp: session_ok_def config_ok_def)
  then have main: "gkeeps (andthen (raise_if (gx_status g = GRID_ACTIVE) GridSessionAlreadyActiveError)
      (bnd (get_current_price e (gx_symbol g)) (\<lambda>price.
       bnd (from_sum (config_from_json (gx_config_json g))) (\<lambda>c.
       andthen (each (start_slot e c (gx_symbol g) price) (gx_slots g))
         (andthen (set_status i GRID_ACTIVE) g_commit)))))" if "session_ok g" for g
    using that by (intro kp.andthen[OF kp.raise_if] kp.bnd[OF gkeep_basic(3)])
  show ?thesis unfolding start_grid_def
    by (rule gkeep_session[OF gkeep_bnd_known[OF gkeep_basic(5) load_known main]])
qed

lemma gkeep_cancel_all: "gkeeps (cancel_all_orders e s)"
  unfolding cancel_all_orders_def by (intro gkeep_rules)

lemma gkeep_pause: "gkeeps (pause_grid i)" "gkeeps (set_session_status i st)"
  unfolding pause_grid_def set_session_status_def by (intro gkeep_rules)+

lemma gkeep_stop: "gkeeps (stop_grid e i)"
  unfolding stop_grid_def by (intro gkeep_rules gkeep_cancel_all)

lemma gkeep_risk: "gkeeps (evaluate_risk e i p d)"
  unfolding evaluate_risk_def by (intro gkeep_rules gkeep_pause gkeep_stop)

lemma gkeep_breakout: "gkeeps (handle_upside_breakout i)"
  unfolding handle_upside_breakout_def by (intro gkeep_rules)

lemma gkeep_fill: "gkeeps (handle_order_fill e ev)"
  unfolding handle_order_fill_def place_buy_limit_def place_sell_limit_def
  by (cases "fe_side ev"; simp only: fill_side.case; intro gkeep_rules books_upd_slot slot_ok_simps slot_ok_after_sell)

text \<open>A new session: the ladder of a valid configuration.\<close>

definition valid_config :: "grid_config \<Rightarrow> bool" where
  "valid_config c \<longleftrightarrow> is_float (gc_p_min c) \<and> 0 < gc_p_min c \<and> gc_p_min c < gc_p_max c
     \<and> 1 \<le> gc_n_levels c \<and> 0 < gc_capital_usdt c"

lemma ladder_sound:
  assumes v: "valid_config c" and l: "ladder c = Inr bss"
  shows "\<forall>(b, s) \<in> set bss. is_float b \<and> is_float s \<and> 0 < b \<and> b \<le> s"
proof -
  obtain bs where bs: "buy_prices c = Inr bs" "emap (\<lambda>b. ebind (grid_sell_price c b) (\<lambda>s. Inr (b, s))) bs = Inr bss"
    using l by (auto simp: ladder_def ebind_Inr_iff)
  define st where "st = fdiv (fsub (gc_p_max c) (gc_p_min c)) (of_pyint (gc_n_levels c))"
  have n: "of_pyint (gc_n_levels c) \<noteq> 0" "0 < of_pyint (gc_n_levels c)"
    using v by (simp_all add: valid_config_def of_pyint_def flo.signs)
  have st: "grid_step c = Inr st" "0 \<le> st"
    using n v by (simp_all add: grid_step_def st_def fdiv_def fsub_def flo.signs valid_config_def)
  have bp: "buy_prices c = Inr (map (\<lambda>i. fadd (gc_p_min c) (fmul (of_pyint (int i)) st)) [0..<nat (gc_n_levels c)])"
    unfolding buy_prices_def by (rule emap_total) (simp add: st)
  have b: "is_float b \<and> 0 < b" if mem: "b \<in> set bs" for b
  proof -
    obtain i where i: "b = fadd (gc_p_min c) (fmul (of_pyint (int i)) st)"
      using mem bs(1) bp by auto
    have "0 \<le> fmul (of_pyint (int i)) st" using st by (simp add: fmul_def of_pyint_def flo.signs)
    then have "gc_p_min c \<le> b" using v by (simp add: i fadd_def valid_config_def is_float_def flo.add_mono_rep)
    with v i show ?thesis by (simp add: valid_config_def)
  qed
  have "emap (\<lambda>b. ebind (grid_sell_price c b) (\<lambda>s. Inr (b, s))) bs = Inr (map (\<lambda>b. (b, fadd b st)) bs)"
    by (rule emap_total) (simp add: grid_sell_price_def st)
  then have "bss = map (\<lambda>b. (b, fadd b st)) bs" using bs(2) by simp
  then show ?thesis using b st(2) by (auto simp: is_float_def fadd_def flo.add_mono_rep flo.idem)
qed

lemma gkeep_insert:
  assumes "\<forall>(b, s) \<in> set bss. is_float b \<and> is_float s \<and> 0 < b \<and> b \<le> s" "config_ok json"
  shows "gkeeps (insert_session sy json bss)"
proof -
  have "slot_ok (new_slot_row i (l, b, s))" if "(b, s) \<in> set bss" for i l b s
    using that assms(1) by (auto simp: slot_ok_def new_slot_row_def dec_of_float_pos dec_of_float_le)
  then have ok: "slot_ok x" if "x \<in> new_slot_row i ` set (enumerate 0 bss)" for x i
    using that by (auto simp: in_set_enumerate_eq) (metis nth_mem prod.collapse)
  show ?thesis unfolding insert_session_def
    by (rule gkeep_session) (auto simp: steps_def preserves_def grid_inv_def books_def Let_def
        g_commit_def assms(2) ok)
qed

subsection \<open>Every reachable grid\<close>

text \<open>
  One step of the live grid: any operation of the runner, the fill handler or the routes, with
  any exchange, however it ends; sessions are created with the configurations that the create
  route accepts, in either JSON form.
\<close>

definition no_grids :: grid_world where
  "no_grids = \<lparr>g_cur = [], g_saved = [], g_sent = [], g_next = 0\<rparr>"

inductive grid_step_rel :: "grid_world \<Rightarrow> grid_world \<Rightarrow> bool" where
  created: "valid_config c \<Longrightarrow> ladder c = Inr bss \<Longrightarrow> json \<in> {config_to_json c, take 5 (config_to_json c)}
    \<Longrightarrow> grid_step_rel w (snd (insert_session sy json bss w))"
| started: "grid_step_rel w (snd (start_grid e i w))"
| stopped: "grid_step_rel w (snd (stop_grid e i w))"
| paused: "grid_step_rel w (snd (pause_grid i w))"
| set_by_route: "grid_step_rel w (snd (set_session_status i st w))"
| risk_checked: "grid_step_rel w (snd (evaluate_risk e i price max_dd w))"
| broken_out: "grid_step_rel w (snd (handle_upside_breakout i w))"
| filled: "grid_step_rel w (snd (handle_order_fill e ev w))"

inductive grid_reachable :: "grid_world \<Rightarrow> bool" where
  start: "grid_reachable no_grids"
| step: "grid_reachable w \<Longrightarrow> grid_step_rel w w' \<Longrightarrow> grid_reachable w'"

lemma config_ok_stored:
  assumes "valid_config c" "json \<in> {config_to_json c, take 5 (config_to_json c)}"
  shows "config_ok json"
  using assms by (cases c) (auto simp: config_ok_def valid_config_def config_from_json_def config_to_json_def
      json_item_def new_grid_config_def text_of_def take_Cons')

lemma grid_step_inv:
  assumes "grid_step_rel w w'" "grid_inv w"
  shows "grid_inv w'"
  using assms(1)
proof (cases rule: grid_step_rel.cases)
  case (created c bss json sy)
  then show ?thesis
    using keeps_run[OF gkeep_insert[OF ladder_sound config_ok_stored] assms(2)] by blast
next
  case (started e i) then show ?thesis using keeps_run[OF gkeep_start assms(2)] by simp
next
  case (stopped e i) then show ?thesis using keeps_run[OF gkeep_stop assms(2)] by simp
next
  case (paused i) then show ?thesis using keeps_run[OF gkeep_pause(1) assms(2)] by simp
next
  case (set_by_route i st) then show ?thesis using keeps_run[OF gkeep_pause(2) assms(2)] by simp
next
  case (risk_checked e i price max_dd) then show ?thesis using keeps_run[OF gkeep_risk assms(2)] by simp
next
  case (broken_out i) then show ?thesis using keeps_run[OF gkeep_breakout assms(2)] by simp
next
  case (filled e ev) then show ?thesis using keeps_run[OF gkeep_fill assms(2)] by simp
qed

lemma grid_reachable_inv: "grid_reachable w \<Longrightarrow> grid_inv w"
proof (induction rule: grid_reachable.induct)
  case start
  show ?case by (simp add: grid_inv_def no_grids_def books_def)
next
  case (step w w')
  then show ?case using grid_step_inv by blast
qed

text \<open>
  C14: the books of the live grid never show a loss.  In every world the operations can reach, in
  any order and with any answers of the exchange, every committed slot has a positive buying
  price not above its selling price, a non-negative number of cycles, a realized result that is
  not negative (fees are not booked), and no open sell order while it waits to buy.
\<close>

theorem grid_books_never_lose:
  assumes "grid_reachable w" "g \<in> set (g_saved w)" "s \<in> set (gx_slots g)"
  shows "0 < sr_buy_price s \<and> sr_buy_price s \<le> sr_sell_price s \<and> 0 \<le> sr_completed_cycles s
    \<and> 0 \<le> sr_realized_pnl s \<and> (sr_status s = ROW_WAITING_SELL \<or> sr_sell_order_id s = None)"
  using grid_reachable_inv[OF assms(1)] assms(2,3) by (auto simp: grid_inv_def books_def slot_ok_def)

subsection \<open>Starting\<close>

lemma load_session_run [simp]:
  "bnd (load_session i) f w = (case find (\<lambda>g. gx_id g = i) (g_cur w) of
     None \<Rightarrow> (Inl GridSessionNotFoundError, w) | Some g \<Rightarrow> f g w)"
  by (simp add: load_session_def bnd_def ret_def throw_def reads_def split: option.splits)

text \<open>Up to its commit, a start leaves the committed sessions and the keys alone.\<close>

lemma start_slots_frame:
  "steps (\<lambda>w w'. (g_saved w', map gx_id (g_cur w')) = (g_saved w, map gx_id (g_cur w)))
     (each (start_slot e c sy p) ss)"
proof -
  have m: "steps (\<lambda>w w'. (g_saved w', map gx_id (g_cur w')) = (g_saved w, map gx_id (g_cur w)))
      (g_modify (upd_slot i f))" for i f
    by (simp add: steps_def g_modify_def upd_slot_def o_def)
  have p: "steps (\<lambda>w w'. (g_saved w', map gx_id (g_cur w')) = (g_saved w, map gx_id (g_cur w)))
      (place_buy_limit e sy p q)" for p q
    by (auto simp: steps_def place_buy_limit_def place_grid_limit_def Let_def split: sum.splits option.splits)
  show ?thesis unfolding start_slot_def Let_def
    by (intro eqf.rules m p)
qed

lemma find_id: "(\<exists>g. find (\<lambda>g. gx_id g = i) gs = Some g) \<longleftrightarrow> i \<in> set (map gx_id gs)"
  by (cases "find (\<lambda>g. gx_id g = i) gs") (auto simp: find_None_iff find_Some_iff)

lemma set_status_find:
  assumes "i \<in> set (map gx_id gs)"
  shows "\<exists>g. find (\<lambda>g. gx_id g = i) (upd_session i (\<lambda>g. g\<lparr>gx_status := st\<rparr>) gs) = Some g \<and> gx_status g = st"
proof -
  obtain g where "find (\<lambda>g. gx_id g = i) gs = Some g" using assms find_id by blast
  then show ?thesis by (simp add: upd_session_def find_update_where)
qed

lemma start_grid_places:
  assumes "find (\<lambda>g. gx_id g = i) (g_saved w) = Some g" "gx_status g \<noteq> GRID_ACTIVE"
    and "ge_ticker_price e (g_sent w) (gx_symbol g) = Inr price" "config_from_json (gx_config_json g) = Inr c"
  shows "start_grid e i w = g_in_session (\<lambda>_. andthen (each (start_slot e c (gx_symbol g) price) (gx_slots g))
            (andthen (set_status i GRID_ACTIVE) g_commit) (w\<lparr>g_cur := g_saved w\<rparr>)) w"
  using assms by (simp add: start_grid_def g_in_session_def bnd_def[of "get_current_price _ _"] get_current_price_def)

lemma start_grid_activates:
  assumes found: "find (\<lambda>g. gx_id g = i) (g_saved w) = Some g" and inactive: "gx_status g \<noteq> GRID_ACTIVE"
    and price: "ge_ticker_price e (g_sent w) (gx_symbol g) = Inr price"
    and config: "config_from_json (gx_config_json g) = Inr c"
  shows "case start_grid e i w of
     (Inl x, w') \<Rightarrow> g_saved w' = g_saved w
   | (Inr u, w') \<Rightarrow> (\<exists>g. find (\<lambda>g. gx_id g = i) (g_saved w') = Some g \<and> gx_status g = GRID_ACTIVE)
       \<and> start_grid e' i w' = (Inl GridSessionAlreadyActiveError, w')"
proof -
  obtain r w1 where run: "each (start_slot e c (gx_symbol g) price) (gx_slots g) (w\<lparr>g_cur := g_saved w\<rparr>) = (r, w1)"
    by fastforce
  have fr: "g_saved w1 = g_saved w" "map gx_id (g_cur w1) = map gx_id (g_saved w)"
    using stepsD[OF start_slots_frame run] by simp_all
  note main = start_grid_places[OF found inactive price config]
  show ?thesis
  proof (cases r)
    case (Inl x)
    then show ?thesis using fr by (simp add: main g_in_session_def andthen_def bnd_def run)
  next
    case (Inr u)
    define gs where "gs = upd_session i (\<lambda>g. g\<lparr>gx_status := GRID_ACTIVE\<rparr>) (g_cur w1)"
    have "i \<in> set (map gx_id (g_cur w1))" unfolding fr(2) using found find_id by metis
    then obtain g' where g': "find (\<lambda>g. gx_id g = i) gs = Some g'" "gx_status g' = GRID_ACTIVE"
      using set_status_find unfolding gs_def by blast
    have res: "start_grid e i w = (Inr (), w1\<lparr>g_cur := gs, g_saved := gs\<rparr>)"
      using Inr by (simp add: main g_in_session_def andthen_def bnd_def run set_status_def g_modify_def
          g_commit_def gs_def)
    show ?thesis using g' by (simp add: res) (simp add: start_grid_def g_in_session_def)
  qed
qed

text \<open>
  C16: a start is all or nothing in the database.  Either every order was placed, the session is
  committed as active and a second start is refused; or an error is raised, whatever the
  position of the failing order, and the committed sessions are as before, so that the ids of
  the orders placed until then are lost.
\<close>

theorem grid_start_all_or_nothing:
  "case start_grid e i w of
     (Inl x, w') \<Rightarrow> g_saved w' = g_saved w
   | (Inr u, w') \<Rightarrow> (\<exists>g. find (\<lambda>g. gx_id g = i) (g_saved w') = Some g \<and> gx_status g = GRID_ACTIVE)
       \<and> start_grid e' i w' = (Inl GridSessionAlreadyActiveError, w')"
proof (cases "find (\<lambda>g. gx_id g = i) (g_saved w)")
  case None
  then show ?thesis by (simp add: start_grid_def g_in_session_def)
next
  case (Some g)
  consider "gx_status g = GRID_ACTIVE" | x where "gx_status g \<noteq> GRID_ACTIVE" "ge_ticker_price e (g_sent w) (gx_symbol g) = Inl x"
    | price x where "gx_status g \<noteq> GRID_ACTIVE" "ge_ticker_price e (g_sent w) (gx_symbol g) = Inr price"
        "config_from_json (gx_config_json g) = Inl x"
    | price c where "gx_status g \<noteq> GRID_ACTIVE" "ge_ticker_price e (g_sent w) (gx_symbol g) = Inr price"
        "config_from_json (gx_config_json g) = Inr c"
    by (meson sum.exhaust)
  then show ?thesis
  proof cases
    case 4
    then show ?thesis by (rule start_grid_activates[OF Some])
  qed (use Some in \<open>simp_all add: start_grid_def g_in_session_def bnd_def[of "get_current_price _ _"] get_current_price_def\<close>)
qed

subsection \<open>Order fills are handled once\<close>

lemma slots_of_upd_slot:
  "concat (map gx_slots (upd_slot i f gs)) = update_where (\<lambda>s. sr_id s = i) f (concat (map gx_slots gs))"
  by (induction gs) (simp_all add: upd_slot_def update_where_def)

lemma slot_gone:
  assumes "slot_for_order_id oid gs = Inr (Some s)" "\<And>s. \<not> holds_order oid (f s)"
  shows "slot_for_order_id oid (upd_slot (sr_id s) f gs) = Inr None"
proof -
  have own: "filter (holds_order oid) (concat (map gx_slots gs)) = [s]"
    using assms(1) by (auto simp: slot_for_order_id_def split: list.splits)
  have "\<not> holds_order oid u" if "u \<in> set (concat (map gx_slots (upd_slot (sr_id s) f gs)))" for u
  proof -
    from that obtain v where v: "v \<in> set (concat (map gx_slots gs))" "u = (if sr_id v = sr_id s then f v else v)"
      unfolding slots_of_upd_slot set_update_where by (elim imageE)
    have "v = s" if "holds_order oid v"
    proof -
      have "v \<in> set (filter (holds_order oid) (concat (map gx_slots gs)))" using v(1) that by simp
      then show ?thesis unfolding own by simp
    qed
    then show ?thesis using v assms(2) by (cases "holds_order oid v") auto
  qed
  then have "filter (holds_order oid) (concat (map gx_slots (upd_slot (sr_id s) f gs))) = []"
    by (auto simp: filter_empty_conv)
  then show ?thesis by (simp add: slot_for_order_id_def)
qed

text \<open>The order that answers a fill, and the row it leaves.\<close>

definition counter_order :: "grid_fill_event \<Rightarrow> slot_row \<Rightarrow> grid_request" where
  "counter_order ev s = (let price = fl (case fe_side ev of FillSell \<Rightarrow> sr_buy_price s | _ \<Rightarrow> sr_sell_price s) in
     GPlace (fe_symbol ev) (case fe_side ev of FillSell \<Rightarrow> ''Buy'' | _ \<Rightarrow> ''Sell'')
       (format_price price) (format_qty (slot_units s) price))"

definition filled_slot :: "grid_fill_event \<Rightarrow> string \<Rightarrow> slot_row \<Rightarrow> slot_row" where
  "filled_slot ev = (case fe_side ev of FillSell \<Rightarrow> after_sell | _ \<Rightarrow> after_buy)"

lemma filled_slot_order: "holds_order oid (filled_slot ev new s) \<longleftrightarrow> oid = new"
  by (auto simp: filled_slot_def holds_order_def after_buy_def after_sell_def split: fill_side.splits)

lemma fill_run:
  assumes "slot_for_order_id (fe_order_id ev) (g_saved w) = Inr (Some s)" "fe_side ev \<noteq> FillOther"
    and "ge_place e (g_sent w) (counter_order ev s) = Inr (Some new)"
  shows "handle_order_fill e ev w = (Inr (), w\<lparr>g_cur := upd_slot (sr_id s) (filled_slot ev new) (g_saved w),
     g_saved := upd_slot (sr_id s) (filled_slot ev new) (g_saved w), g_sent := g_sent w @ [counter_order ev s]\<rparr>)"
  using assms
  by (cases "fe_side ev") (simp_all add: handle_order_fill_def g_in_session_def place_sell_limit_def
      place_buy_limit_def place_grid_limit_def counter_order_def filled_slot_def Let_def bnd_def andthen_def
      g_modify_def g_commit_def)

text \<open>
  C15: an order fill is answered once.  When the order belongs to one slot and the exchange takes
  the counter order, the handler sends exactly that order (the sale one step above a filled buy,
  the purchase below a filled sale, over the slot's units), commits the slot's new state, and a
  second delivery of the same fill finds no slot and changes nothing.
\<close>

theorem grid_fill_is_handled_once:
  assumes slot: "slot_for_order_id (fe_order_id ev) (g_saved w) = Inr (Some s)" and side: "fe_side ev \<noteq> FillOther"
    and ans: "ge_place e (g_sent w) (counter_order ev s) = Inr (Some new)" and fresh: "new \<noteq> fe_order_id ev"
  shows "case handle_order_fill e ev w of (r, w') \<Rightarrow> r = Inr () \<and> g_sent w' = g_sent w @ [counter_order ev s]
    \<and> g_saved w' = upd_slot (sr_id s) (filled_slot ev new) (g_saved w)
    \<and> handle_order_fill e' ev w' = (Inr (), w')"
proof -
  have "slot_for_order_id (fe_order_id ev) (upd_slot (sr_id s) (filled_slot ev new) (g_saved w)) = Inr None"
    using fresh by (intro slot_gone[OF slot]) (auto simp: filled_slot_order)
  then show ?thesis
    by (simp add: fill_run[OF slot side ans]) (simp add: handle_order_fill_def g_in_session_def)
qed

text \<open>
  A slot goes round.  The fill of its buy order and then the fill of the sell order placed in
  answer bring the slot back to waiting for its buying price, with one more completed cycle and
  the step times the units added to its result, and exactly the two counter orders were sent.
\<close>

theorem grid_cycle_completes:
  assumes slot: "slot_for_order_id b (g_saved w) = Inr (Some s)"
    and ids: "distinct (map sr_id (concat (map gx_slots (g_saved w))))"
    and a1: "ge_place e (g_sent w) (counter_order \<lparr>fe_order_id = b, fe_side = FillBuy, fe_symbol = sy\<rparr> s) = Inr (Some o1)"
    and fresh: "slot_for_order_id o1 (g_saved w) = Inr None" "slot_for_order_id o2 (g_saved w) = Inr None"
    and a2: "ge_place e' (g_sent w @ [counter_order \<lparr>fe_order_id = b, fe_side = FillBuy, fe_symbol = sy\<rparr> s])
      (counter_order \<lparr>fe_order_id = o1, fe_side = FillSell, fe_symbol = sy\<rparr> s) = Inr (Some o2)"
  shows "case handle_order_fill e \<lparr>fe_order_id = b, fe_side = FillBuy, fe_symbol = sy\<rparr> w of (_, w1) \<Rightarrow>
    case handle_order_fill e' \<lparr>fe_order_id = o1, fe_side = FillSell, fe_symbol = sy\<rparr> w1 of (r, w2) \<Rightarrow>
      r = Inr ()
    \<and> g_sent w2 = g_sent w @ [counter_order \<lparr>fe_order_id = b, fe_side = FillBuy, fe_symbol = sy\<rparr> s,
        counter_order \<lparr>fe_order_id = o1, fe_side = FillSell, fe_symbol = sy\<rparr> s]
    \<and> slot_for_order_id o2 (g_saved w2) = Inr (Some (s\<lparr>sr_status := ROW_WAITING_BUY, sr_buy_order_id := Some o2,
        sr_sell_order_id := None, sr_completed_cycles := sr_completed_cycles s + 1,
        sr_realized_pnl := dadd (sr_realized_pnl s) (dmul (dsub (sr_sell_price s) (sr_buy_price s)) (or_zero (sr_units s)))\<rparr>))"
proof -
  let ?e1 = "\<lparr>fe_order_id = b, fe_side = FillBuy, fe_symbol = sy\<rparr>"
  let ?e2 = "\<lparr>fe_order_id = o1, fe_side = FillSell, fe_symbol = sy\<rparr>"
  let ?ss = "concat (map gx_slots (g_saved w))"
  define w1 where "w1 = w\<lparr>g_cur := upd_slot (sr_id s) (after_buy o1) (g_saved w),
     g_saved := upd_slot (sr_id s) (after_buy o1) (g_saved w), g_sent := g_sent w @ [counter_order ?e1 s]\<rparr>"
  have run1: "handle_order_fill e ?e1 w = (Inr (), w1)"
    using fill_run[of ?e1 w s e o1] slot a1 by (simp add: w1_def filled_slot_def)
  have none: "\<not> holds_order o1 v \<and> \<not> holds_order o2 v" if "v \<in> set ?ss" for v
    using fresh that by (auto simp: slot_for_order_id_def filter_empty_conv split: list.splits)
  have own: "filter (holds_order b) ?ss = [s]"
    using slot by (auto simp: slot_for_order_id_def split: list.splits)
  have "s \<in> set (filter (holds_order b) ?ss)" unfolding own by simp
  then have mem: "s \<in> set ?ss" by (simp only: set_filter mem_Collect_eq)
  have keep: "v = s" if "v \<in> set ?ss" "sr_id v = sr_id s" for v
    using ids that mem by (metis (no_types) distinct_map inj_onD)
  have upd: "update_where (\<lambda>v. sr_id v = sr_id s) f ?ss = map (\<lambda>v. if v = s then f s else v) ?ss" for f
    using keep by (auto simp: update_where_def)
  have dist: "distinct ?ss" using ids by (simp add: distinct_map)
  have one: "filter P (map (\<lambda>v. if v = s then x else v) xs) = [x]"
    if "distinct xs" "s \<in> set xs" "P x" "\<And>v. v \<in> set xs \<Longrightarrow> v \<noteq> s \<Longrightarrow> \<not> P v" for P x and xs :: "slot_row list"
    using that
  proof (induction xs)
    case (Cons y ys)
    show ?case
    proof (cases "y = s")
      case True
      then have "filter P (map (\<lambda>v. if v = s then x else v) ys) = []"
        using Cons.prems by (auto simp: filter_empty_conv)
      with True Cons.prems show ?thesis by simp
    next
      case False
      with Cons show ?thesis by simp
    qed
  qed simp
  have h1: "slot_for_order_id o1 (g_saved w1) = Inr (Some (after_buy o1 s))"
    using one[OF dist mem, of "holds_order o1" "after_buy o1 s"] none
    by (simp add: slot_for_order_id_def w1_def slots_of_upd_slot upd) (simp add: holds_order_def after_buy_def)
  have same: "counter_order ?e2 (after_buy o1 s) = counter_order ?e2 s" "sr_id (after_buy o1 s) = sr_id s"
    by (simp_all add: counter_order_def after_buy_def slot_units_def)
  define w2 where "w2 = w1\<lparr>g_cur := upd_slot (sr_id s) (after_sell o2) (g_saved w1),
     g_saved := upd_slot (sr_id s) (after_sell o2) (g_saved w1), g_sent := g_sent w1 @ [counter_order ?e2 s]\<rparr>"
  have run2: "handle_order_fill e' ?e2 w1 = (Inr (), w2)"
    using fill_run[of ?e2 w1 "after_buy o1 s" e' o2] h1 a2 same by (simp add: w2_def filled_slot_def w1_def)
  define x where "x = after_sell o2 (after_buy o1 s)"
  have x: "x = s\<lparr>sr_status := ROW_WAITING_BUY, sr_buy_order_id := Some o2,
        sr_sell_order_id := None, sr_completed_cycles := sr_completed_cycles s + 1,
        sr_realized_pnl := dadd (sr_realized_pnl s) (dmul (dsub (sr_sell_price s) (sr_buy_price s)) (or_zero (sr_units s)))\<rparr>"
    by (cases s) (simp add: x_def after_sell_def after_buy_def)
  have s2: "concat (map gx_slots (g_saved w2)) = map (\<lambda>v. if v = s then x else v) ?ss"
  proof -
    have "concat (map gx_slots (g_saved w2)) = update_where (\<lambda>v. sr_id v = sr_id s) (\<lambda>v. after_sell o2 (after_buy o1 v)) ?ss"
      by (simp add: w2_def w1_def slots_of_upd_slot update_where_twice after_buy_def)
    then show ?thesis by (simp add: upd x_def)
  qed
  have "filter (holds_order o2) (concat (map gx_slots (g_saved w2))) = [x]"
    unfolding s2 using none by (intro one[OF dist mem]) (auto simp: x holds_order_def)
  then show ?thesis by (simp add: run1 run2 slot_for_order_id_def x) (simp add: w2_def w1_def)
qed

subsection \<open>A grid of two slots\<close>

definition two_slots :: "grid_session" where
  "two_slots = \<lparr>gx_id = 0, gx_symbol = ''XRPUSDT'', gx_config_json = config_to_json demo_grid,
     gx_status = GRID_PAUSED,
     gx_slots = [(new_slot_row 1 (0, 8, 12))\<lparr>sr_buy_order_id := Some ''b0''\<rparr>, new_slot_row 1 (1, 12, 16)]\<rparr>"

definition two_slot_world :: grid_world where
  "two_slot_world = \<lparr>g_cur = [two_slots], g_saved = [two_slots], g_sent = [], g_next = 3\<rparr>"

text \<open>An exchange that numbers the orders by their count; with \<open>k\<close> it refuses the \<open>k\<close>-th.\<close>

definition counting_exchange :: "nat option \<Rightarrow> grid_exchange" where
  "counting_exchange k = \<lparr>ge_place = \<lambda>rs _. if k = Some (length rs) then Inl BybitConnectionError
       else Inr (Some (replicate (Suc (length rs)) CHR ''n'')),
     ge_cancel = \<lambda>_ _. Inr (), ge_open_orders = \<lambda>_ _. Inr [], ge_ticker_price = \<lambda>_ _. Inr 20,
     ge_candles = \<lambda>_ _. Inl ValueError\<rparr>"

theorem grid_fill_is_handled_once_witness:
  "fst (handle_order_fill (counting_exchange None) \<lparr>fe_order_id = ''b0'', fe_side = FillBuy, fe_symbol = ''XRPUSDT''\<rparr>
      two_slot_world) = Inr ()"
proof -
  define ev where "ev = \<lparr>fe_order_id = ''b0'', fe_side = FillBuy, fe_symbol = ''XRPUSDT''\<rparr>"
  define s where "s = (new_slot_row 1 (0, 8, 12))\<lparr>sr_buy_order_id := Some ''b0''\<rparr>"
  have slot: "slot_for_order_id (fe_order_id ev) (g_saved two_slot_world) = Inr (Some s)"
    unfolding ev_def s_def by code_simp
  have side: "fe_side ev \<noteq> FillOther" by (simp add: ev_def)
  have ans: "ge_place (counting_exchange None) (g_sent two_slot_world) (counter_order ev s) = Inr (Some ''n'')"
    by (simp add: counting_exchange_def two_slot_world_def)
  have fresh: "''n'' \<noteq> fe_order_id ev" by (simp add: ev_def)
  from grid_fill_is_handled_once[OF slot side ans fresh, of "counting_exchange None"] show ?thesis
    by (simp add: ev_def split_beta)
qed

theorem grid_cycle_completes_witness:
  "\<exists>x. slot_for_order_id ''nn'' (g_saved (snd (handle_order_fill (counting_exchange None)
       \<lparr>fe_order_id = ''n'', fe_side = FillSell, fe_symbol = ''XRPUSDT''\<rparr>
       (snd (handle_order_fill (counting_exchange None)
         \<lparr>fe_order_id = ''b0'', fe_side = FillBuy, fe_symbol = ''XRPUSDT''\<rparr> two_slot_world))))) = Inr (Some x)
    \<and> sr_completed_cycles x = 1"
proof -
  define s where "s = (new_slot_row 1 (0, 8, 12))\<lparr>sr_buy_order_id := Some ''b0''\<rparr>"
  have slot: "slot_for_order_id ''b0'' (g_saved two_slot_world) = Inr (Some s)" unfolding s_def by code_simp
  have ids: "distinct (map sr_id (concat (map gx_slots (g_saved two_slot_world))))" by code_simp
  have fresh: "slot_for_order_id ''n'' (g_saved two_slot_world) = Inr None"
    "slot_for_order_id ''nn'' (g_saved two_slot_world) = Inr None" by code_simp+
  have place: "ge_place (counting_exchange None) (g_sent two_slot_world) rq = Inr (Some ''n'')"
    "ge_place (counting_exchange None) (g_sent two_slot_world @ [rq']) rq = Inr (Some ''nn'')" for rq rq'
    by (simp_all add: counting_exchange_def two_slot_world_def)
  have "sr_completed_cycles s = 0" by (simp add: s_def new_slot_row_def)
  with grid_cycle_completes[OF slot ids place(1) fresh place(2), of "''XRPUSDT''"] show ?thesis
    by (simp add: split_beta)
qed

text \<open>
  A start that fails halfway is repeated in full.  There is a grid whose first start places
  one order, fails at the second one and is rolled back; the next start, with the exchange in
  order again, places both, so the first order exists twice.
\<close>

theorem failed_start_repeats_orders:
  "\<exists>w e e' rq. fst (start_grid e 0 w) = Inl BybitConnectionError
    \<and> fst (start_grid e' 0 (snd (start_grid e 0 w))) = Inr ()
    \<and> length (filter (\<lambda>r. r = rq) (g_sent (snd (start_grid e' 0 (snd (start_grid e 0 w)))))) = 2"
proof -
  define w where "w = two_slot_world\<lparr>g_saved := [two_slots\<lparr>gx_slots := [new_slot_row 1 (0, 8, 12), new_slot_row 1 (1, 12, 16)]\<rparr>]\<rparr>"
  define rq where "rq = GPlace ''XRPUSDT'' ''Buy'' 8 6"
  have "case start_grid (counting_exchange (Some 1)) 0 w of (r, w1) \<Rightarrow> r = Inl BybitConnectionError
      \<and> (case start_grid (counting_exchange None) 0 w1 of (r', w2) \<Rightarrow> r' = Inr ()
           \<and> length (filter (\<lambda>r. r = rq) (g_sent w2)) = 2)"
    unfolding w_def rq_def by code_simp
  then show ?thesis
    by (intro exI[of _ w] exI[of _ "counting_exchange (Some 1)"] exI[of _ "counting_exchange None"] exI[of _ rq])
      (simp add: split_beta)
qed

theorem grid_books_never_lose_witness:
  "\<exists>w. grid_reachable w \<and> (\<exists>g \<in> set (g_saved w). \<exists>s \<in> set (gx_slots g). 0 \<le> sr_realized_pnl s)"
proof -
  define w where "w = snd (insert_session ''XRPUSDT'' (config_to_json demo_grid) [(8, 12), (12, 16)] no_grids)"
  have l: "ladder demo_grid = Inr [(8, 12), (12, 16)]" by code_simp
  have v: "valid_config demo_grid" by code_simp
  have "grid_step_rel no_grids w"
    unfolding w_def by (rule grid_step_rel.created[OF v l]) simp
  then have r: "grid_reachable w" using grid_reachable.step[OF grid_reachable.start] by blast
  obtain g where g: "g_saved w = [g]" "gx_slots g = map (new_slot_row 1) (enumerate 0 [(8, 12), (12, 16)])"
    by (simp add: w_def insert_session_def g_in_session_def g_commit_def no_grids_def Let_def)
  then have s: "new_slot_row 1 (0, 8, 12) \<in> set (gx_slots g)" by simp
  have gm: "g \<in> set (g_saved w)" using g by simp
  from grid_books_never_lose[OF r gm s] gm s r show ?thesis by blast
qed

subsection \<open>Risk\<close>

lemma pause_run:
  assumes "find (\<lambda>g. gx_id g = i) (g_saved w) = Some g"
  shows "pause_grid i w = (let gs = upd_session i (\<lambda>g. g\<lparr>gx_status := GRID_PAUSED\<rparr>) (g_saved w)
    in (Inr (), w\<lparr>g_cur := gs, g_saved := gs\<rparr>))"
  using assms by (simp add: pause_grid_def g_in_session_def set_status_def g_modify_def g_commit_def Let_def)

lemma cancel_all_frame: "steps (\<lambda>w w'. (g_saved w', g_cur w') = (g_saved w, g_cur w)) (cancel_all_orders e s)"
proof -
  have "steps (\<lambda>w w'. (g_saved w', g_cur w') = (g_saved w, g_cur w)) (grid_cancel_order e s oid)"
    "steps (\<lambda>w w'. (g_saved w', g_cur w') = (g_saved w, g_cur w)) (get_open_orders e s)" for oid
    by (auto simp: steps_def grid_cancel_order_def get_open_orders_def split: sum.splits)
  then show ?thesis unfolding cancel_all_orders_def by (intro eqf.rules)
qed

lemma stop_run:
  assumes "find (\<lambda>g. gx_id g = i) (g_saved w) = Some g"
  shows "case stop_grid e i w of
      (Inl x, w') \<Rightarrow> g_saved w' = g_saved w
    | (Inr u, w') \<Rightarrow> g_saved w' = upd_session i (\<lambda>g. g\<lparr>gx_status := GRID_STOPPED\<rparr>) (g_saved w)"
proof -
  obtain r w1 where run: "cancel_all_orders e (gx_symbol g) (w\<lparr>g_cur := g_saved w\<rparr>) = (r, w1)"
    by (cases "cancel_all_orders e (gx_symbol g) (w\<lparr>g_cur := g_saved w\<rparr>)")
  have fr: "g_saved w1 = g_saved w" "g_cur w1 = g_saved w" using stepsD[OF cancel_all_frame run] by simp_all
  show ?thesis using assms fr
    by (cases r) (simp_all add: stop_grid_def g_in_session_def bnd_def[of "cancel_all_orders _ _"] run
        set_status_def g_modify_def g_commit_def)
qed

text \<open>
  C17: the risk check stops a grid exactly at its two limits.  Above the drawdown limit the
  session is paused, without a request to the exchange; otherwise, below 95 percent of the lowest
  price, it is stopped, or an error of the exchange leaves it as it was; between the limits
  nothing changes.
\<close>

theorem risk_check_acts_at_its_limits:
  assumes g: "find (\<lambda>g. gx_id g = i) (g_saved w) = Some g" and c: "config_from_json (gx_config_json g) = Inr c"
    and dd: "unrealized_drawdown_pct g price = Inr d"
  shows "case evaluate_risk e i price max_dd w of (r, w') \<Rightarrow>
    if max_dd < d then r = Inr () \<and> g_sent w' = g_sent w
        \<and> g_saved w' = upd_session i (\<lambda>g. g\<lparr>gx_status := GRID_PAUSED\<rparr>) (g_saved w)
    else if price < fmul (gc_p_min c) (fl (95 / 100)) then
      g_saved w' = (case r of Inl x \<Rightarrow> g_saved w
        | Inr u \<Rightarrow> upd_session i (\<lambda>g. g\<lparr>gx_status := GRID_STOPPED\<rparr>) (g_saved w))
    else r = Inr () \<and> g_sent w' = g_sent w \<and> g_saved w' = g_saved w"
proof -
  define w0 where "w0 = w\<lparr>g_cur := g_saved w\<rparr>"
  have g0: "find (\<lambda>g. gx_id g = i) (g_saved w0) = Some g" "find (\<lambda>g. gx_id g = i) (g_cur w0) = Some g"
    using g by (simp_all add: w0_def)
  have run: "evaluate_risk e i price max_dd w = g_in_session (\<lambda>_.
      (if max_dd < d then pause_grid i
       else if price < fmul (gc_p_min c) (fl (95 / 100)) then stop_grid e i else ret ()) w0) w"
    using g0 c dd by (simp add: evaluate_risk_def g_in_session_def w0_def[symmetric])
  show ?thesis
  proof (cases "max_dd < d")
    case True
    then show ?thesis
      by (simp add: run g_in_session_def pause_run[OF g0(1)] Let_def) (simp add: w0_def)
  next
    case False
    show ?thesis
    proof (cases "price < fmul (gc_p_min c) (fl (95 / 100))")
      case True
      obtain r w1 where s: "stop_grid e i w0 = (r, w1)" by (cases "stop_grid e i w0")
      have sv: "g_saved w0 = g_saved w" by (simp add: w0_def)
      from stop_run[OF g0(1), of e] False True show ?thesis
        by (cases r) (simp_all add: run g_in_session_def s sv)
    next
      case F: False
      with False show ?thesis by (simp add: run g_in_session_def w0_def)
    qed
  qed
qed

theorem risk_check_acts_at_its_limits_witness:
  "g_saved (snd (evaluate_risk (counting_exchange None) 0 20 35 two_slot_world)) = [two_slots]"
proof -
  have g: "find (\<lambda>g. gx_id g = 0) (g_saved two_slot_world) = Some two_slots" by code_simp
  have c: "config_from_json (gx_config_json two_slots) = Inr demo_grid"
    unfolding two_slots_def by code_simp
  have dd: "unrealized_drawdown_pct two_slots 20 = Inr 0" by code_simp
  have p: "\<not> 20 < fmul (gc_p_min demo_grid) (fl (95 / 100))" by code_simp
  from risk_check_acts_at_its_limits[OF g c dd, where e = "counting_exchange None" and max_dd = 35] p show ?thesis
    by (simp add: two_slot_world_def split_beta)
qed

end
