(* ===== verification/Journal_Store.thy ===== *)
theory Journal_Store
  imports Prelude Journal_Models
begin

text \<open>
  \<^verbatim>\<open>backend/trade_journal/store.py\<close>: the tables as lists in insertion order and
  one definition per method of \<^verbatim>\<open>TradeJournalStore\<close>.  A row object is passed as
  its key and looked up in the current state, so two references to a row see each other's
  writes.  \<open>now\<close> is the value of \<^verbatim>\<open>datetime.now(UTC)\<close> in the call.
\<close>

text \<open>
  A system event is its type with a tag that stands for its description and metadata.
\<close>

datatype system_note =
    DailyLossReached decimal | WeeklyLossReached decimal | HardStreakPause int
  | CooldownTriggered int | KillSwitchActivated | SafetyStateReset bool
  | CloseOrderFailed nat string | StopLossNotArmed nat | TakeProfitNotArmed nat
  | EmergencyCloseFailed nat

record system_event =
  se_type :: system_event_type
  se_note :: system_note

record db =
  trades :: "trade list"
  trade_events :: "trade_event list"
  daily_stats :: "daily_stat list"
  system_events :: "system_event list"
  safety :: "safety_state option"
  submissions :: "signal_submission list"
  signals :: "signal list"

definition empty_db :: db where
  "empty_db = \<lparr>trades = [], trade_events = [], daily_stats = [], system_events = [],
     safety = None, submissions = [], signals = []\<rparr>"

subsection \<open>Row access\<close>

definition get_trade :: "nat \<Rightarrow> db \<Rightarrow> trade option" where
  "get_trade i d = find (\<lambda>t. t_id t = i) (trades d)"

definition upd_trade :: "nat \<Rightarrow> (trade \<Rightarrow> trade) \<Rightarrow> db \<Rightarrow> db" where
  "upd_trade i f d = d\<lparr>trades := update_where (\<lambda>t. t_id t = i) f (trades d)\<rparr>"

definition get_stat :: "date \<Rightarrow> db \<Rightarrow> daily_stat option" where
  "get_stat x d = find (\<lambda>s. ds_date s = x) (daily_stats d)"

definition upd_stat :: "date \<Rightarrow> (daily_stat \<Rightarrow> daily_stat) \<Rightarrow> db \<Rightarrow> db" where
  "upd_stat x f d = d\<lparr>daily_stats := update_where (\<lambda>s. ds_date s = x) f (daily_stats d)\<rparr>"

subsection \<open>Signals and submissions\<close>

definition create_signal :: "signal \<Rightarrow> db \<Rightarrow> db" where
  "create_signal s d = d\<lparr>signals := signals d @ [s]\<rparr>"

definition get_signal_submission :: "string \<Rightarrow> db \<Rightarrow> signal_submission option" where
  "get_signal_submission fp d = find (\<lambda>s. sub_fingerprint s = fp) (submissions d)"

definition create_signal_submission :: "nat \<Rightarrow> string \<Rightarrow> db \<Rightarrow> db" where
  "create_signal_submission i fp d = d\<lparr>submissions := submissions d @
     [\<lparr>sub_id = i, sub_fingerprint = fp, sub_signal_id = None, sub_trade_id = None\<rparr>]\<rparr>"

definition upd_submission :: "nat \<Rightarrow> (signal_submission \<Rightarrow> signal_submission) \<Rightarrow> db \<Rightarrow> db" where
  "upd_submission i f d = d\<lparr>submissions := update_where (\<lambda>s. sub_id s = i) f (submissions d)\<rparr>"

text \<open>
  The newest trade of a signal: rows are kept in creation order, so the first of
  \<^verbatim>\<open>ORDER BY created_at DESC\<close> is the last of the list.
\<close>

definition get_trade_for_submission :: "signal_submission \<Rightarrow> db \<Rightarrow> trade option" where
  "get_trade_for_submission s d =
     (let by_signal = (case sub_signal_id s of
          None \<Rightarrow> None
        | Some sid \<Rightarrow> find (\<lambda>t. t_signal_id t = Some sid) (rev (trades d)))
      in case sub_trade_id s of
           None \<Rightarrow> by_signal
         | Some tid \<Rightarrow> (case get_trade tid d of Some t \<Rightarrow> Some t | None \<Rightarrow> by_signal))"

definition owns_link :: "string \<Rightarrow> trade \<Rightarrow> bool" where
  "owns_link l t \<longleftrightarrow> t_order_link_id t = Some l \<or> t_close_order_link_id t = Some l
     \<or> t_stop_order_link_id t = Some l \<or> t_take_profit_order_link_id t = Some l"

definition get_trade_by_order_link_id :: "string \<Rightarrow> db \<Rightarrow> exc + trade option" where
  "get_trade_by_order_link_id l d = (case filter (owns_link l) (trades d) of
     [] \<Rightarrow> Inr None | [t] \<Rightarrow> Inr (Some t) | _ \<Rightarrow> Inl MultipleResultsFound)"

subsection \<open>Daily statistics\<close>

definition new_daily_stat :: "date \<Rightarrow> daily_stat" where
  "new_daily_stat x = \<lparr>ds_date = x, ds_total_trades = 0, ds_winning_trades = 0,
     ds_losing_trades = 0, ds_consecutive_losses = 0, ds_gross_pnl = None, ds_total_fees = None,
     ds_net_pnl = None, ds_daily_loss_pct = None, ds_symbol_stats = [],
     ds_circuit_breaker_triggered = False\<rparr>"

definition ensure_daily_stat :: "date \<Rightarrow> db \<Rightarrow> db" where
  "ensure_daily_stat x d = (case get_stat x d of
     Some _ \<Rightarrow> d | None \<Rightarrow> d\<lparr>daily_stats := daily_stats d @ [new_daily_stat x]\<rparr>)"

definition stat_of :: "date \<Rightarrow> db \<Rightarrow> daily_stat" where
  "stat_of x d = (case get_stat x d of Some s \<Rightarrow> s | None \<Rightarrow> new_daily_stat x)"

definition get_or_create_daily_stat :: "date \<Rightarrow> db \<Rightarrow> daily_stat \<times> db" where
  "get_or_create_daily_stat x d = (let d' = ensure_daily_stat x d in (stat_of x d', d'))"

definition symbol_stat_of :: "daily_stat \<Rightarrow> string \<Rightarrow> symbol_stat" where
  "symbol_stat_of s k = (case map_of (ds_symbol_stats s) k of
     Some r \<Rightarrow> r | None \<Rightarrow> \<lparr>ss_wins = 0, ss_losses = 0, ss_consecutive_losses = 0\<rparr>)"

definition symbol_consecutive_losses :: "daily_stat \<Rightarrow> string \<Rightarrow> int" where
  "symbol_consecutive_losses s k = ss_consecutive_losses (symbol_stat_of s k)"

definition update_symbol_stats :: "string \<Rightarrow> bool \<Rightarrow> daily_stat \<Rightarrow> daily_stat" where
  "update_symbol_stats raw is_win s =
     (let k = py_upper (py_strip raw); c = symbol_stat_of s k;
          c' = (if is_win
                then c\<lparr>ss_wins := ss_wins c + 1, ss_consecutive_losses := 0\<rparr>
                else c\<lparr>ss_losses := ss_losses c + 1,
                       ss_consecutive_losses := ss_consecutive_losses c + 1\<rparr>)
      in s\<lparr>ds_symbol_stats := AList.update k c' (ds_symbol_stats s)\<rparr>)"

definition increment_daily_trade_count :: "date \<Rightarrow> db \<Rightarrow> db" where
  "increment_daily_trade_count x d =
     upd_stat x (\<lambda>s. s\<lparr>ds_total_trades := ds_total_trades s + 1\<rparr>) (ensure_daily_stat x d)"

text \<open>
  \<^verbatim>\<open>record_daily_loss\<close> and \<^verbatim>\<open>record_daily_win\<close> add inside the database,
  where NUMERIC addition is exact.
\<close>

definition record_daily_loss :: "date \<Rightarrow> decimal \<Rightarrow> db \<Rightarrow> db" where
  "record_daily_loss x loss d = upd_stat x
     (\<lambda>s. s\<lparr>ds_losing_trades := ds_losing_trades s + 1,
            ds_consecutive_losses := ds_consecutive_losses s + 1,
            ds_daily_loss_pct := Some (or_zero (ds_daily_loss_pct s) + loss)\<rparr>)
     (ensure_daily_stat x d)"

definition record_daily_win :: "date \<Rightarrow> db \<Rightarrow> db" where
  "record_daily_win x d = upd_stat x
     (\<lambda>s. s\<lparr>ds_winning_trades := ds_winning_trades s + 1, ds_consecutive_losses := 0\<rparr>)
     (ensure_daily_stat x d)"

definition reset_consecutive_losses :: "date \<Rightarrow> db \<Rightarrow> db" where
  "reset_consecutive_losses x d =
     upd_stat x (\<lambda>s. s\<lparr>ds_consecutive_losses := 0\<rparr>) (ensure_daily_stat x d)"

subsection \<open>Trades and their events\<close>

definition append_trade_event ::
  "nat \<Rightarrow> string \<Rightarrow> trade_status option \<Rightarrow> trade_status option \<Rightarrow> (string \<times> string) list \<Rightarrow> db \<Rightarrow> db"
where
  "append_trade_event i ty from_s to_s meta d = d\<lparr>trade_events := trade_events d @
     [\<lparr>ev_trade_id = i, ev_type = ty, ev_from_status = from_s, ev_to_status = to_s,
       ev_metadata = meta\<rparr>]\<rparr>"

definition record_trade_created :: "nat \<Rightarrow> (string \<times> string) list \<Rightarrow> db \<Rightarrow> db" where
  "record_trade_created i meta d = (case get_trade i d of
     None \<Rightarrow> d
   | Some t \<Rightarrow> append_trade_event i ''trade_created'' None (Some (t_status t)) meta d)"

definition transition_trade_status ::
  "nat \<Rightarrow> trade_status \<Rightarrow> (string \<times> string) list \<Rightarrow> db \<Rightarrow> db"
where
  "transition_trade_status i new meta d = (case get_trade i d of
     None \<Rightarrow> d
   | Some t \<Rightarrow>
       if t_status t = new then d
       else append_trade_event i ''status_transition'' (Some (t_status t)) (Some new) meta
              (upd_trade i (\<lambda>t. t\<lparr>t_status := new\<rparr>) d))"

definition calculate_realized_pnl :: "trade \<Rightarrow> decimal \<Rightarrow> decimal" where
  "calculate_realized_pnl t exit_price =
     (let entry = or_zero (dec_or (t_avg_fill_price t) (t_entry_price t));
          filled = or_zero (dec_or (t_filled_qty t) (t_qty t))
      in if t_signal_direction t = LONG then dmul (dsub exit_price entry) filled
         else dmul (dsub entry exit_price) filled)"

definition calculate_pnl_pct :: "trade \<Rightarrow> decimal \<Rightarrow> decimal option" where
  "calculate_pnl_pct t pnl =
     (if t_equity_at_entry t \<in> {None, Some 0} then None
      else Some (ddiv pnl (or_zero (t_equity_at_entry t))))"

definition calculate_pnl_in_r :: "trade \<Rightarrow> decimal \<Rightarrow> decimal option" where
  "calculate_pnl_in_r t pnl =
     (if t_risk_amount_usd t \<in> {None, Some 0} then None
      else Some (ddiv pnl (or_zero (t_risk_amount_usd t))))"

text \<open>The update of the day's row in \<^verbatim>\<open>apply_trade_outcome_analytics\<close>.\<close>

definition outcome_stat :: "trade \<Rightarrow> decimal \<Rightarrow> daily_stat \<Rightarrow> daily_stat" where
  "outcome_stat t pnl s0 =
     (let fee = or_zero (t_fee_paid t);
          net = dsub pnl fee;
          closed = ds_winning_trades s0 + ds_losing_trades s0;
          s1 = (if ds_total_trades s0 \<le> closed
                then s0\<lparr>ds_total_trades := ds_total_trades s0 + 1\<rparr> else s0);
          s2 = s1\<lparr>ds_gross_pnl := Some (dadd (or_zero (ds_gross_pnl s1)) pnl),
                  ds_total_fees := Some (dadd (or_zero (ds_total_fees s1)) fee),
                  ds_net_pnl := Some (dadd (or_zero (ds_net_pnl s1)) net)\<rparr>
      in if pnl < 0 then
           let s3 = s2\<lparr>ds_losing_trades := ds_losing_trades s2 + 1,
                       ds_consecutive_losses := ds_consecutive_losses s2 + 1\<rparr>;
               s4 = (case t_pnl_pct t of None \<Rightarrow> s3
                     | Some p \<Rightarrow> s3\<lparr>ds_daily_loss_pct :=
                                      Some (dadd (or_zero (ds_daily_loss_pct s3)) (dc \<bar>p\<bar>))\<rparr>)
           in update_symbol_stats (t_symbol t) False s4
         else
           update_symbol_stats (t_symbol t) True
             (s2\<lparr>ds_winning_trades := ds_winning_trades s2 + 1, ds_consecutive_losses := 0\<rparr>))"

definition apply_trade_outcome_analytics :: "timestamp \<Rightarrow> nat \<Rightarrow> (db, unit) prog" where
  "apply_trade_outcome_analytics now i =
     bnd (reads (get_trade i)) (\<lambda>ot. case ot of
       None \<Rightarrow> ret ()
     | Some t \<Rightarrow> (case t_realized_pnl t of
         None \<Rightarrow> throw ValueError
       | Some pnl \<Rightarrow>
           let day = date_of (case t_closed_at t of Some c \<Rightarrow> c | None \<Rightarrow> now)
           in modify (\<lambda>d. upd_stat day (outcome_stat t pnl) (ensure_daily_stat day d))))"

definition list_trades_by_status :: "trade_status list \<Rightarrow> db \<Rightarrow> trade list" where
  "list_trades_by_status sts d = filter (\<lambda>t. t_status t \<in> set sts) (trades d)"

definition missing_protection :: "trade \<Rightarrow> bool" where
  "missing_protection t \<longleftrightarrow>
     t_market_type t = SPOT \<and> t_order_type t = Some ''Market''
     \<and> t_status t \<in> {ORDER_CONFIRMED, POSITION_OPEN}
     \<and> t_filled_qty t \<notin> {None, Some 0}
     \<and> (t_stop_order_link_id t = None
        \<or> (t_target_price t \<noteq> None \<and> t_take_profit_order_link_id t = None))"

definition list_spot_market_trades_missing_protection :: "db \<Rightarrow> trade list" where
  "list_spot_market_trades_missing_protection d = filter missing_protection (trades d)"

definition add_execution_fee :: "string \<Rightarrow> decimal \<Rightarrow> (db, bool) prog" where
  "add_execution_fee l fee d = (case filter (owns_link l) (trades d) of
     [] \<Rightarrow> (Inr False, d)
   | [_] \<Rightarrow> (Inr True, d\<lparr>trades := update_where (owns_link l)
              (\<lambda>t. t\<lparr>t_fee_paid := Some (or_zero (t_fee_paid t) + fee)\<rparr>) (trades d)\<rparr>)
   | _ \<Rightarrow> (Inl MultipleResultsFound, d))"

subsection \<open>Safety state\<close>

definition new_safety_state :: safety_state where
  "new_safety_state = \<lparr>sf_kill_switch_active = False, sf_pause_reason = None,
     sf_cooldown_until = None, sf_manual_reset_required = False, sf_last_triggered_at = None\<rparr>"

definition safety_of :: "db \<Rightarrow> safety_state" where
  "safety_of d = (case safety d of Some s \<Rightarrow> s | None \<Rightarrow> new_safety_state)"

definition get_or_create_safety_state :: "db \<Rightarrow> db" where
  "get_or_create_safety_state d = d\<lparr>safety := Some (safety_of d)\<rparr>"

definition upd_safety :: "(safety_state \<Rightarrow> safety_state) \<Rightarrow> db \<Rightarrow> db" where
  "upd_safety f d = d\<lparr>safety := Some (f (safety_of d))\<rparr>"

definition activate_kill_switch :: "timestamp \<Rightarrow> db \<Rightarrow> db" where
  "activate_kill_switch now =
     upd_safety (\<lambda>s. s\<lparr>sf_kill_switch_active := True, sf_last_triggered_at := Some now\<rparr>)"

definition set_pause :: "timestamp \<Rightarrow> pause_reason \<Rightarrow> bool \<Rightarrow> timestamp option \<Rightarrow> db \<Rightarrow> db" where
  "set_pause now r manual until = upd_safety (\<lambda>s. s\<lparr>sf_pause_reason := Some r,
     sf_manual_reset_required := manual, sf_cooldown_until := until,
     sf_last_triggered_at := Some now\<rparr>)"

definition loss_streak_stat_date :: "timestamp \<Rightarrow> safety_state \<Rightarrow> date" where
  "loss_streak_stat_date now s =
     date_of (case sf_last_triggered_at s of None \<Rightarrow> now | Some t \<Rightarrow> t)"

definition cooldown_expired :: "timestamp \<Rightarrow> safety_state \<Rightarrow> bool" where
  "cooldown_expired now s \<longleftrightarrow> sf_pause_reason s = Some COOLDOWN
     \<and> (case sf_cooldown_until s of None \<Rightarrow> False | Some u \<Rightarrow> u \<le> now)"

definition clear_pause_if_expired :: "timestamp \<Rightarrow> db \<Rightarrow> db" where
  "clear_pause_if_expired now d0 =
     (let d = get_or_create_safety_state d0; s = safety_of d in
      if cooldown_expired now s
      then upd_safety (\<lambda>s. s\<lparr>sf_pause_reason := None, sf_cooldown_until := None,
                             sf_manual_reset_required := False\<rparr>)
             (reset_consecutive_losses (loss_streak_stat_date now s) d)
      else d)"

definition reset_safety_state :: "timestamp \<Rightarrow> bool \<Rightarrow> db \<Rightarrow> db" where
  "reset_safety_state now reset_losses d0 =
     (let d = get_or_create_safety_state d0; s = safety_of d;
          d' = (if reset_losses then reset_consecutive_losses (loss_streak_stat_date now s) d else d)
      in upd_safety (\<lambda>s. s\<lparr>sf_kill_switch_active := False, sf_pause_reason := None,
                          sf_cooldown_until := None, sf_manual_reset_required := False\<rparr>) d')"

definition append_system_event :: "system_event_type \<Rightarrow> system_note \<Rightarrow> db \<Rightarrow> db" where
  "append_system_event ty n d =
     d\<lparr>system_events := system_events d @ [\<lparr>se_type = ty, se_note = n\<rparr>]\<rparr>"

end
