(* ===== verification/Runtime.thy ===== *)
theory Runtime
  imports Journal_Store
begin

text \<open>
  The world the services run in: the database session (\<open>cur\<close>, what the code sees, and \<open>saved\<close>,
  what is committed), the requests sent to the exchange, the kill switch's in-memory flag and a
  counter for fresh identifiers; the settings of \<^verbatim>\<open>backend/config.py\<close>; and the
  exchange, which is not part of the repository and enters as functions that may answer
  anything, given the requests sent so far.
\<close>

subsection \<open>Settings\<close>

datatype order_mode = Maker_Only | Maker_Preferred | Taker_Allowed

record settings =
  trading_mode :: trading_mode
  order_mode :: order_mode
  shadow_equity :: pyfloat
  risk_per_trade_pct :: pyfloat
  canary_mode :: bool
  canary_risk_multiplier :: pyfloat
  min_rrr :: pyfloat
  max_open_positions :: int
  max_total_risk_exposure_pct :: pyfloat
  max_trades_per_day :: int
  max_daily_loss_pct :: pyfloat
  max_weekly_loss_pct :: pyfloat
  max_consecutive_losses :: int
  hard_pause_consecutive_losses :: int
  cooldown_hours :: int

definition default_settings :: settings where
  "default_settings = \<lparr>trading_mode = SHADOW, order_mode = Maker_Preferred,
     shadow_equity = 10000, risk_per_trade_pct = fl (1 / 100), canary_mode = False,
     canary_risk_multiplier = fl (1 / 4), min_rrr = 2, max_open_positions = 1,
     max_total_risk_exposure_pct = fl (3 / 100), max_trades_per_day = 10,
     max_daily_loss_pct = fl (3 / 100), max_weekly_loss_pct = fl (5 / 100),
     max_consecutive_losses = 3, hard_pause_consecutive_losses = 5, cooldown_hours = 4\<rparr>"

subsection \<open>The exchange\<close>

text \<open>
  The keyword arguments of \<^verbatim>\<open>place_order\<close>; numbers passed as text are the
  numbers the text denotes.
\<close>

record order_req =
  rq_category :: string
  rq_symbol :: string
  rq_side :: exchange_side
  rq_order_type :: string
  rq_qty :: rat
  rq_price :: "rat option"
  rq_order_link_id :: "string option"
  rq_is_post_only :: bool
  rq_sl_price :: "rat option"
  rq_tp_price :: "rat option"
  rq_market_unit :: "string option"
  rq_trigger_price :: "rat option"
  rq_order_filter :: "string option"
  rq_reduce_only :: bool

datatype request = Place order_req | Cancel string "string option" "string option"

text \<open>An order as the exchange reports it, by REST or by WebSocket.\<close>

datatype remote_status = Filled | Cancelled | PartiallyFilled | Rejected | OtherStatus

record remote_order =
  ro_link_id :: "string option"
  ro_status :: remote_status
  ro_order_id :: "string option"
  ro_avg_price :: "decimal option"
  ro_cum_exec_qty :: "decimal option"
  ro_leaves_zero :: bool

text \<open>
  A coin of the wallet and an instrument's lot rules as the exchange sends them: absent keys are
  \<open>None\<close>, and an absent coin name is empty.
\<close>

record wallet_item =
  wi_coin :: string
  wi_equity :: "decimal option"
  wi_wallet_balance :: "decimal option"

record instrument =
  in_qty_step :: "pyfloat option"
  in_base_precision :: "pyfloat option"
  in_min_order_qty :: "pyfloat option"
  in_min_order_amt :: "pyfloat option"
  in_base_coin :: string
  in_quote_coin :: string

record exchange =
  ex_place :: "request list \<Rightarrow> order_req \<Rightarrow> exc + string option"
  ex_cancel :: "request list \<Rightarrow> string \<Rightarrow> string option \<Rightarrow> string option \<Rightarrow> exc + unit"
  ex_order_status :: "request list \<Rightarrow> string \<Rightarrow> string \<Rightarrow> string \<Rightarrow> exc + remote_order option"
  ex_wallet :: "request list \<Rightarrow> exc + wallet_item list"
  ex_instrument :: "request list \<Rightarrow> string \<Rightarrow> exc + instrument"
  ex_ticker_price :: "request list \<Rightarrow> string \<Rightarrow> exc + pyfloat"

text \<open>
  What one call sees of its surroundings: settings, exchange, the clock, and the text of the
  random identifiers that \<^verbatim>\<open>uuid4\<close> yields (by the number of the draw).
\<close>

record env =
  cfg :: settings
  exch :: exchange
  now :: timestamp
  hex_of :: "nat \<Rightarrow> string"
  uuid_str :: "nat \<Rightarrow> string"

subsection \<open>World and session\<close>

record world =
  cur :: db
  saved :: db
  sent :: "request list"
  draws :: nat
  ks_flag :: bool

type_synonym 'a op = "(world, 'a) prog"

definition on_cur :: "(db \<Rightarrow> db) \<Rightarrow> unit op" where
  "on_cur f = modify (\<lambda>w. w\<lparr>cur := f (cur w)\<rparr>)"

definition on_db :: "(db, 'a) prog \<Rightarrow> 'a op" where
  "on_db m w = (case m (cur w) of (r, d) \<Rightarrow> (r, w\<lparr>cur := d\<rparr>))"

definition commit :: "unit op" where
  "commit = modify (\<lambda>w. w\<lparr>saved := cur w\<rparr>)"

text \<open>
  \<^verbatim>\<open>async with session_factory() as session: m\<close>: a new session sees the committed
  state, and closing it drops what was not committed.
\<close>

definition in_session :: "'a op \<Rightarrow> 'a op" where
  "in_session m w = (case m (w\<lparr>cur := saved w\<rparr>) of (r, w') \<Rightarrow> (r, w'\<lparr>cur := saved w'\<rparr>))"

definition draw :: "nat op" where
  "draw w = (Inr (draws w), w\<lparr>draws := Suc (draws w)\<rparr>)"

text \<open>A request is logged as sent whatever the exchange answers: it may have arrived.\<close>

definition place_order :: "env \<Rightarrow> order_req \<Rightarrow> string option op" where
  "place_order e rq w =
     (ex_place (exch e) (sent w) rq, w\<lparr>sent := sent w @ [Place rq]\<rparr>)"

definition cancel_order :: "env \<Rightarrow> string \<Rightarrow> string option \<Rightarrow> string option \<Rightarrow> unit op" where
  "cancel_order e s oid link w =
     (ex_cancel (exch e) (sent w) s oid link, w\<lparr>sent := sent w @ [Cancel s oid link]\<rparr>)"

definition get_order_status :: "env \<Rightarrow> string \<Rightarrow> string \<Rightarrow> string \<Rightarrow> remote_order option op" where
  "get_order_status e category s link w = (ex_order_status (exch e) (sent w) category s link, w)"

definition get_wallet_balance :: "env \<Rightarrow> wallet_item list op" where
  "get_wallet_balance e w = (ex_wallet (exch e) (sent w), w)"

definition get_instruments_info :: "env \<Rightarrow> string \<Rightarrow> instrument op" where
  "get_instruments_info e s w = (ex_instrument (exch e) (sent w) s, w)"

definition get_ticker_price :: "env \<Rightarrow> string \<Rightarrow> pyfloat op" where
  "get_ticker_price e s w = (ex_ticker_price (exch e) (sent w) s, w)"

text \<open>A row object in the current session; \<open>blank_trade\<close> stands for a key that has no row.\<close>

definition blank_trade :: trade where
  "blank_trade = \<lparr>t_id = 0, t_signal_id = None, t_order_link_id = None,
     t_exchange_order_id = None, t_close_order_link_id = None, t_close_exchange_order_id = None,
     t_stop_order_link_id = None, t_stop_exchange_order_id = None,
     t_take_profit_order_link_id = None, t_take_profit_exchange_order_id = None,
     t_symbol = [], t_signal_direction = LONG, t_exchange_side = BUY, t_market_type = SPOT,
     t_mode = SHADOW, t_equity_at_entry = None, t_risk_amount_usd = None, t_risk_pct = None,
     t_entry_price = None, t_stop_price = None, t_target_price = None, t_expected_rrr = None,
     t_qty = None, t_order_type = None, t_is_post_only = False, t_avg_fill_price = None,
     t_filled_qty = None, t_fee_paid = None, t_slippage = None, t_avg_exit_price = None,
     t_status = SIGNAL_GENERATED, t_exit_reason = None, t_realized_pnl = None, t_pnl_pct = None,
     t_pnl_in_r = None, t_hold_time_seconds = None, t_opened_at = None, t_closed_at = None\<rparr>"

definition trade_of :: "nat \<Rightarrow> db \<Rightarrow> trade" where
  "trade_of i d = (case get_trade i d of Some t \<Rightarrow> t | None \<Rightarrow> blank_trade)"

definition the_trade :: "nat \<Rightarrow> trade op" where
  "the_trade i = reads (\<lambda>w. trade_of i (cur w))"

subsection \<open>Invariants of the store\<close>

text \<open>
  A trade's own columns: what \<open>upd_trade\<close> may write without a status transition.
\<close>

definition keeps_status :: "(trade \<Rightarrow> trade) \<Rightarrow> bool" where
  "keeps_status f \<longleftrightarrow> (\<forall>t. t_id (f t) = t_id t \<and> t_status (f t) = t_status t)"

definition keeps_date :: "(daily_stat \<Rightarrow> daily_stat) \<Rightarrow> bool" where
  "keeps_date f \<longleftrightarrow> (\<forall>s. ds_date (f s) = ds_date s)"

definition ids_below :: "nat \<Rightarrow> db \<Rightarrow> bool" where
  "ids_below n d \<longleftrightarrow> (\<forall>t \<in> set (trades d). t_id t < n)"

definition add_trade :: "trade \<Rightarrow> db \<Rightarrow> db" where
  "add_trade t d = d\<lparr>trades := trades d @ [t]\<rparr>"

lemma ids_below_mono: "ids_below n d \<Longrightarrow> n \<le> m \<Longrightarrow> ids_below m d"
  by (auto simp: ids_below_def)

text \<open>
  The contract between the store and its clients.  A client writes the database through these
  methods only, so an invariant that each of them keeps is kept by every service; the services'
  lemmas are proved once, in this locale, and hold for each invariant that interprets it.  A
  client may move a trade to \<open>POSITION_CLOSED\<close> only on its way to \<open>PNL_RECORDED\<close>.
\<close>

locale store_invariant =
  fixes I :: "db \<Rightarrow> bool"
  assumes transition: "s \<noteq> POSITION_CLOSED \<Longrightarrow> I d \<Longrightarrow> I (transition_trade_status i s m d)"
    and closing: "I d \<Longrightarrow> keeps_status f \<Longrightarrow> keeps_status f' \<Longrightarrow> keeps_status f'' \<Longrightarrow>
        I (transition_trade_status i PNL_RECORDED m
            (upd_trade i f (upd_trade i f' (upd_trade i f''
              (transition_trade_status i POSITION_CLOSED m' d)))))"
    and trade_fields: "I d \<Longrightarrow> keeps_status f \<Longrightarrow> I (upd_trade i f d)"
    and new_trade: "I d \<Longrightarrow> (\<forall>t' \<in> set (trades d). t_id t' < t_id t) \<Longrightarrow>
        t_status t \<noteq> POSITION_CLOSED \<Longrightarrow> I (record_trade_created (t_id t) m (add_trade t d))"
    and fees: "I d \<Longrightarrow> keeps_status f \<Longrightarrow> I (d\<lparr>trades := update_where p f (trades d)\<rparr>)"
    and stat: "I d \<Longrightarrow> keeps_date g \<Longrightarrow> I (upd_stat x g d)"
    and stat_row: "I d \<Longrightarrow> I (ensure_daily_stat x d)"
    and safety_row: "I d \<Longrightarrow> I (get_or_create_safety_state d)"
    and kill: "I d \<Longrightarrow> I (activate_kill_switch tm d)"
    and pause: "I d \<Longrightarrow> I (set_pause tm r b u d)"
    and clear_pause: "I d \<Longrightarrow> I (clear_pause_if_expired tm d)"
    and system_event: "I d \<Longrightarrow> I (append_system_event ty n d)"
    and rows: "I d \<Longrightarrow> I (d\<lparr>submissions := ss, signals := sg\<rparr>)"

text \<open>The reset of the safety state is the kill switch's alone.\<close>

locale reset_invariant = store_invariant +
  assumes reset_safety: "I d \<Longrightarrow> I (reset_safety_state tm b d)"

text \<open>The world invariant of a store invariant: both views have it, and ids are not reused.\<close>

definition winv :: "(db \<Rightarrow> bool) \<Rightarrow> world \<Rightarrow> bool" where
  "winv I w \<longleftrightarrow> I (cur w) \<and> I (saved w) \<and> ids_below (draws w) (cur w) \<and> ids_below (draws w) (saved w)"

abbreviation keeps :: "(db \<Rightarrow> bool) \<Rightarrow> 'a op \<Rightarrow> bool" where
  "keeps I m \<equiv> steps (preserves (winv I)) m"

text \<open>
  \<^verbatim>\<open>session.add(Trade(...)); flush; record_trade_created\<close>: the row gets its
  key and its first event.
\<close>

definition insert_trade :: "(nat \<Rightarrow> trade) \<Rightarrow> (string \<times> string) list \<Rightarrow> nat op" where
  "insert_trade mk meta w = (let i = draws w in
     (Inr i, w\<lparr>cur := record_trade_created i meta (add_trade ((mk i)\<lparr>t_id := i\<rparr>) (cur w)),
               draws := Suc i\<rparr>))"

subsection \<open>Which ids a method leaves\<close>

text \<open>Most methods write the safety row or a day's row only.\<close>

lemma stat_rows_only [simp]:
  "trades (upd_stat x g d) = trades d" "trades (ensure_daily_stat x d) = trades d"
  "trade_events (upd_stat x g d) = trade_events d"
  "trade_events (ensure_daily_stat x d) = trade_events d"
  "safety (upd_stat x g d) = safety d" "safety (ensure_daily_stat x d) = safety d"
  by (simp_all add: upd_stat_def ensure_daily_stat_def split: option.splits)

lemma reset_losses_only [simp]:
  "trades (reset_consecutive_losses x d) = trades d"
  "trade_events (reset_consecutive_losses x d) = trade_events d"
  "safety (reset_consecutive_losses x d) = safety d"
  by (simp_all add: reset_consecutive_losses_def)

lemma safety_methods_only [simp]:
  "trades (upd_safety h d) = trades d" "trade_events (upd_safety h d) = trade_events d"
  "trades (get_or_create_safety_state d) = trades d"
  "trade_events (get_or_create_safety_state d) = trade_events d"
  "trades (activate_kill_switch t d) = trades d"
  "trade_events (activate_kill_switch t d) = trade_events d"
  "trades (set_pause t r b u d) = trades d" "trade_events (set_pause t r b u d) = trade_events d"
  "trades (clear_pause_if_expired t d) = trades d"
  "trade_events (clear_pause_if_expired t d) = trade_events d"
  "trades (reset_safety_state t b d) = trades d"
  "trade_events (reset_safety_state t b d) = trade_events d"
  by (simp_all add: upd_safety_def get_or_create_safety_state_def activate_kill_switch_def
      set_pause_def clear_pause_if_expired_def reset_safety_state_def Let_def)

lemma safety_of_simps [simp]:
  "safety_of (upd_safety h d) = h (safety_of d)"
  "safety_of (get_or_create_safety_state d) = safety_of d"
  "safety_of (reset_consecutive_losses x d) = safety_of d"
  "safety_of (upd_stat x g d) = safety_of d" "safety_of (ensure_daily_stat x d) = safety_of d"
  "safety_of (append_system_event ty n d) = safety_of d"
  by (simp_all add: safety_of_def upd_safety_def get_or_create_safety_state_def
      append_system_event_def)

lemma trades_ids [simp]:
  "map t_id (trades (transition_trade_status i s m d)) = map t_id (trades d)"
  "map t_id (trades (append_trade_event i ty a b m d)) = map t_id (trades d)"
  "map t_id (trades (record_trade_created i m d)) = map t_id (trades d)"
  "map t_id (trades (append_system_event et n d)) = map t_id (trades d)"
  "map t_id (trades (increment_daily_trade_count x d)) = map t_id (trades d)"
  by (simp_all add: transition_trade_status_def append_trade_event_def upd_trade_def
      record_trade_created_def append_system_event_def increment_daily_trade_count_def
      map_update_where split: option.splits)

lemma ids_below_map: "ids_below n d \<longleftrightarrow> (\<forall>i \<in> set (map t_id (trades d)). i < n)"
  by (simp add: ids_below_def)

lemma ids_below_cong: "map t_id (trades d') = map t_id (trades d) \<Longrightarrow> ids_below n d' = ids_below n d"
  by (simp only: ids_below_map)

text \<open>The statuses a client may move to directly.\<close>

lemma open_statuses:
  "RISK_CALCULATED \<noteq> POSITION_CLOSED" "SAFETY_CHECKED \<noteq> POSITION_CLOSED"
  "ORDER_SUBMITTED \<noteq> POSITION_CLOSED" "ORDER_PENDING_UNKNOWN \<noteq> POSITION_CLOSED"
  "ORDER_CONFIRMED \<noteq> POSITION_CLOSED" "ORDER_REJECTED \<noteq> POSITION_CLOSED"
  "ORDER_CANCELLED \<noteq> POSITION_CLOSED" "ORDER_PARTIALLY_FILLED \<noteq> POSITION_CLOSED"
  "POSITION_OPEN \<noteq> POSITION_CLOSED" "POSITION_CLOSE_PENDING \<noteq> POSITION_CLOSED"
  "POSITION_CLOSE_FAILED \<noteq> POSITION_CLOSED" "PNL_RECORDED \<noteq> POSITION_CLOSED"
  by simp_all

lemma trades_ids_upd: "keeps_status f \<Longrightarrow> map t_id (trades (upd_trade i f d)) = map t_id (trades d)"
  by (simp add: upd_trade_def keeps_status_def map_update_where)

text \<open>A method of the store as a client may use it: it keeps \<open>I\<close> and the trades' keys.\<close>

definition lawful :: "(db \<Rightarrow> bool) \<Rightarrow> (db \<Rightarrow> db) \<Rightarrow> bool" where
  "lawful I f \<longleftrightarrow> (\<forall>d. I d \<longrightarrow> I (f d) \<and> map t_id (trades (f d)) = map t_id (trades d))"

lemma lawful_comp: "lawful I f \<Longrightarrow> lawful I g \<Longrightarrow> lawful I (\<lambda>d. f (g d))"
  by (simp add: lawful_def)

context store_invariant
begin

lemma lawful_transition: "s \<noteq> POSITION_CLOSED \<Longrightarrow> lawful I (transition_trade_status i s m)"
  by (simp add: lawful_def transition)

lemma lawful_closing:
  "keeps_status f \<Longrightarrow> keeps_status g \<Longrightarrow> keeps_status h \<Longrightarrow>
    lawful I (\<lambda>d. transition_trade_status i PNL_RECORDED m
       (upd_trade i f (upd_trade i g (upd_trade i h (transition_trade_status i POSITION_CLOSED m' d)))))"
  by (simp add: lawful_def closing trades_ids_upd)

lemma lawful_fields: "keeps_status f \<Longrightarrow> lawful I (upd_trade i f)"
  by (simp add: lawful_def trade_fields trades_ids_upd)

lemma lawful_fees:
  "keeps_status f \<Longrightarrow> lawful I (\<lambda>d. d\<lparr>trades := update_where p f (trades d)\<rparr>)"
  by (auto simp: lawful_def fees keeps_status_def map_update_where)

lemma lawful_stat: "keeps_date g \<Longrightarrow> lawful I (upd_stat x g)"
  by (simp add: lawful_def stat)

lemma lawful_stat_row: "lawful I (ensure_daily_stat x)"
  by (simp add: lawful_def stat_row)

lemma lawful_stat_in_row: "keeps_date g \<Longrightarrow> lawful I (\<lambda>d. upd_stat x g (ensure_daily_stat x d))"
  by (simp add: lawful_def stat stat_row)

lemma lawful_event: "lawful I (append_system_event ty n)"
  by (simp add: lawful_def system_event)

lemma lawful_safety_row: "lawful I get_or_create_safety_state"
  by (simp add: lawful_def safety_row)

lemma lawful_clear_pause: "lawful I (clear_pause_if_expired t)"
  by (simp add: lawful_def clear_pause)

lemma lawful_kill: "lawful I (activate_kill_switch t)"
  by (simp add: lawful_def kill)

lemma lawful_pause: "lawful I (set_pause t r b u)"
  by (simp add: lawful_def pause)

lemma lawful_trade_count: "lawful I (increment_daily_trade_count x)"
  unfolding increment_daily_trade_count_def by (rule lawful_stat_in_row) (simp add: keeps_date_def)

lemma lawful_signal: "lawful I (create_signal s)"
proof -
  have "I (d\<lparr>submissions := submissions d, signals := signals d @ [s]\<rparr>)" if "I d" for d
    using that by (rule rows)
  then show ?thesis by (simp add: lawful_def create_signal_def)
qed

lemma submission_rows: "I d \<Longrightarrow> I (d\<lparr>submissions := ss\<rparr>)"
  using rows[where d = d and sg = "signals d"] by simp

lemma lawful_submission: "lawful I (create_signal_submission i fp)"
  by (simp add: lawful_def create_signal_submission_def submission_rows)

lemma lawful_upd_submission: "lawful I (upd_submission i f)"
  by (simp add: lawful_def upd_submission_def submission_rows)

lemmas lawful_rules = open_statuses lawful_transition lawful_stat_row lawful_event lawful_safety_row
  lawful_clear_pause lawful_kill lawful_pause lawful_trade_count lawful_signal lawful_submission
  lawful_upd_submission

lemma keep_on_cur: "lawful I f \<Longrightarrow> keeps I (on_cur f)"
  by (auto simp: steps_def preserves_def winv_def on_cur_def lawful_def ids_below_map)

lemma keep_on_db:
  assumes m: "\<And>d. I d \<Longrightarrow> I (snd (m d)) \<and> map t_id (trades (snd (m d))) = map t_id (trades d)"
  shows "keeps I (on_db m)"
proof (rule stepsI)
  fix w :: world
  obtain r d where md: "m (cur w) = (r, d)" by (cases "m (cur w)")
  show "preserves (winv I) w (snd (on_db m w))"
    using m[of "cur w"] ids_below_cong[of d "cur w"]
    by (auto simp: preserves_def winv_def on_db_def md)
qed

lemma keep_commit: "keeps I commit"
  by (auto simp: steps_def preserves_def winv_def commit_def)

lemma keep_draw: "keeps I draw"
  by (auto simp: steps_def preserves_def winv_def draw_def intro: ids_below_mono)

lemma keep_place: "keeps I (place_order e rq)"
  by (auto simp: steps_def preserves_def winv_def place_order_def)

lemma keep_cancel: "keeps I (cancel_order e s oid l)"
  by (auto simp: steps_def preserves_def winv_def cancel_order_def)

lemma keep_insert:
  assumes st: "\<And>i. t_status (mk i) \<noteq> POSITION_CLOSED"
  shows "keeps I (insert_trade mk m)"
proof (rule stepsI)
  fix w :: world
  have "I (record_trade_created (draws w) m (add_trade ((mk (draws w))\<lparr>t_id := draws w\<rparr>) (cur w)))"
    if "I (cur w)" "ids_below (draws w) (cur w)"
    using new_trade[of "cur w" "(mk (draws w))\<lparr>t_id := draws w\<rparr>" m] st that
    by (simp add: ids_below_def)
  then show "preserves (winv I) w (snd (insert_trade mk m w))"
    by (auto simp: preserves_def winv_def insert_trade_def Let_def ids_below_map add_trade_def
        less_Suc_eq)
qed

lemma keep_reads_exchange:
  "keeps I (get_order_status e c s l)" "keeps I (get_wallet_balance e)"
  "keeps I (get_instruments_info e s)" "keeps I (get_ticker_price e s)" "keeps I (the_trade i)"
  by (simp_all add: steps_def preserves_def get_order_status_def get_wallet_balance_def
      get_instruments_info_def get_ticker_price_def the_trade_def)

lemma keep_session:
  fixes m :: "'a op"
  assumes m: "keeps I m"
  shows "keeps I (in_session m)"
proof (rule stepsI)
  fix w :: world
  obtain r w' where mw: "m (w\<lparr>cur := saved w\<rparr>) = (r, w')" by (cases "m (w\<lparr>cur := saved w\<rparr>)")
  show "preserves (winv I) w (snd (in_session m w))"
    using stepsD[OF m mw] by (simp add: preserves_def winv_def in_session_def mw)
qed

lemma keep_flag: "keeps I (modify (ks_flag_update f))"
  by (auto simp: steps_def preserves_def winv_def)

lemmas keep_rules = kp.rules keep_on_cur keep_commit keep_draw keep_place keep_cancel keep_insert
  keep_session keep_flag keep_reads_exchange

end

context reset_invariant
begin

lemma lawful_reset_safety: "lawful I (reset_safety_state t b)"
  by (simp add: lawful_def reset_safety)

end

text \<open>A session keeps the two views apart, and starts and ends with them equal.\<close>

lemma in_session_run:
  "m (w\<lparr>cur := saved w\<rparr>) = (r, w') \<Longrightarrow> in_session m w = (r, w'\<lparr>cur := saved w'\<rparr>)"
  by (simp add: in_session_def)

lemma in_session_clean: "in_session m w = (r, w') \<Longrightarrow> cur w' = saved w'"
  by (auto simp: in_session_def split: prod.splits)

subsection \<open>What a program sends\<close>

text \<open>
  \<open>sends P\<close>: whatever is added to the log of requests satisfies \<open>P\<close>; \<open>quiet\<close> programs add nothing.
\<close>

definition sends :: "(request \<Rightarrow> bool) \<Rightarrow> world \<Rightarrow> world \<Rightarrow> bool" where
  "sends P w w' \<longleftrightarrow> (\<exists>rs. sent w' = sent w @ rs \<and> (\<forall>r \<in> set rs. P r))"

interpretation sd: frame "sends P" for P
proof
  show "sends P w w" for w by (simp add: sends_def)
next
  fix u v w assume "sends P u v" "sends P v w"
  then obtain rs rs' where "sent v = sent u @ rs" "sent w = sent v @ rs'"
    "\<forall>r \<in> set rs. P r" "\<forall>r \<in> set rs'. P r" by (auto simp: sends_def)
  then show "sends P u w" unfolding sends_def by (intro exI[of _ "rs @ rs'"]) auto
qed

abbreviation quiet :: "'a op \<Rightarrow> bool" where
  "quiet m \<equiv> steps (sends (\<lambda>_. False)) m"

lemma quiet_run: "quiet m \<Longrightarrow> m w = (r, w') \<Longrightarrow> sent w' = sent w"
  by (auto simp: sends_def dest: stepsD)

lemma sends_mono: "steps (sends P) m \<Longrightarrow> (\<And>r. P r \<Longrightarrow> Q r) \<Longrightarrow> steps (sends Q) m"
  unfolding steps_def sends_def by blast

lemma quiet_sends: "quiet m \<Longrightarrow> steps (sends P) m"
  by (erule sends_mono) simp

lemma sends_basic:
  "steps (sends P) (on_cur f)" "steps (sends P) (on_db d)" "steps (sends P) commit"
  "steps (sends P) draw" "steps (sends P) (insert_trade mk m)"
  "steps (sends P) (modify (ks_flag_update g))"
  by (auto simp: steps_def sends_def on_cur_def on_db_def commit_def draw_def insert_trade_def
      Let_def split: prod.splits)

lemma sends_reads_exchange:
  "steps (sends P) (get_order_status e c s l)" "steps (sends P) (get_wallet_balance e)"
  "steps (sends P) (get_instruments_info e s)" "steps (sends P) (get_ticker_price e s)"
  "steps (sends P) (the_trade i)"
  by (auto simp: steps_def sends_def get_order_status_def get_wallet_balance_def
      get_instruments_info_def get_ticker_price_def the_trade_def)

lemma sends_session:
  fixes m :: "'a op"
  assumes m: "steps (sends P) m"
  shows "steps (sends P) (in_session m)"
proof (rule stepsI)
  fix w :: world
  obtain r w' where mw: "m (w\<lparr>cur := saved w\<rparr>) = (r, w')" by (cases "m (w\<lparr>cur := saved w\<rparr>)")
  show "sends P w (snd (in_session m w))"
    using stepsD[OF m mw] by (simp add: sends_def in_session_def mw)
qed

lemma sends_place: "P (Place rq) \<Longrightarrow> steps (sends P) (place_order e rq)"
  by (auto simp: steps_def sends_def place_order_def)

lemma sends_cancel: "P (Cancel s oid l) \<Longrightarrow> steps (sends P) (cancel_order e s oid l)"
  by (auto simp: steps_def sends_def cancel_order_def)

lemmas send_rules = sd.rules sends_basic sends_reads_exchange sends_session sends_place sends_cancel

subsection \<open>Running\<close>

lemma bnd_draw: "bnd draw f w = f (draws w) (w\<lparr>draws := Suc (draws w)\<rparr>)"
  by (simp add: bnd_def draw_def)

lemma bnd_the_trade [simp]: "bnd (the_trade i) f w = f (trade_of i (cur w)) w"
  by (simp add: the_trade_def)

lemma trade_of_Some [simp]: "get_trade i d = Some t \<Longrightarrow> trade_of i d = t"
  by (simp add: trade_of_def)

end
