(* ===== verification/Journal_Invariants.thy ===== *)
theory Journal_Invariants
  imports Runtime
begin

text \<open>
  What the store's methods keep, as interpretations of \<open>store_invariant\<close>: the audit trail
  (\<^verbatim>\<open>trade_events\<close> of each trade starts with its creation, every later event
  leaves the status the one before it reached, and the last one reached the trade's current
  status) and the uniqueness of a day's statistics row.  Then the bookkeeping of
  \<^verbatim>\<open>apply_trade_outcome_analytics\<close> against the plain statistics of the list of
  outcomes.
\<close>

subsection \<open>The audit trail\<close>

definition events_of :: "nat \<Rightarrow> db \<Rightarrow> trade_event list" where
  "events_of i d = filter (\<lambda>e. ev_trade_id e = i) (trade_events d)"

text \<open>\<open>replay es\<close> is the status the events lead to, if they form a trail.\<close>

fun replay_from :: "trade_status \<Rightarrow> trade_event list \<Rightarrow> trade_status option" where
  "replay_from s [] = Some s"
| "replay_from s (e # es) =
     (case ev_to_status e of
        None \<Rightarrow> None
      | Some s' \<Rightarrow> if ev_from_status e = Some s \<and> s' \<noteq> s \<and> ev_type e = ''status_transition''
                   then replay_from s' es else None)"

fun replay :: "trade_event list \<Rightarrow> trade_status option" where
  "replay [] = None"
| "replay (e # es) =
     (case ev_to_status e of
        None \<Rightarrow> None
      | Some s \<Rightarrow> if ev_from_status e = None \<and> ev_type e = ''trade_created''
                  then replay_from s es else None)"

definition audited :: "db \<Rightarrow> bool" where
  "audited d \<longleftrightarrow> distinct (map t_id (trades d))
     \<and> (\<forall>t \<in> set (trades d). replay (events_of (t_id t) d) = Some (t_status t))
     \<and> (\<forall>e \<in> set (trade_events d). ev_trade_id e \<in> t_id ` set (trades d))"

lemma replay_from_snoc:
  "replay_from s es = Some s' \<Longrightarrow> ev_from_status e = Some s' \<Longrightarrow> ev_to_status e = Some s''
    \<Longrightarrow> s'' \<noteq> s' \<Longrightarrow> ev_type e = ''status_transition'' \<Longrightarrow> replay_from s (es @ [e]) = Some s''"
  by (induction es arbitrary: s) (auto split: option.splits if_splits)

lemma replay_snoc:
  "replay es = Some s' \<Longrightarrow> ev_from_status e = Some s' \<Longrightarrow> ev_to_status e = Some s''
    \<Longrightarrow> s'' \<noteq> s' \<Longrightarrow> ev_type e = ''status_transition'' \<Longrightarrow> replay (es @ [e]) = Some s''"
  by (cases es) (auto intro: replay_from_snoc split: option.splits if_splits)

lemma get_trade_Some:
  assumes "get_trade i d = Some t"
  shows "t \<in> set (trades d)" "t_id t = i"
  using assms by (auto simp: get_trade_def find_Some_iff)

lemma get_trade_unique:
  assumes "distinct (map t_id (trades d))" "t \<in> set (trades d)"
  shows "get_trade (t_id t) d = Some t"
proof -
  have "\<exists>u. get_trade (t_id t) d = Some u"
    using assms(2) by (cases "get_trade (t_id t) d") (auto simp: get_trade_def find_None_iff)
  then obtain u where u: "get_trade (t_id t) d = Some u" ..
  from get_trade_Some[OF this] assms have "u = t" by (metis (no_types) distinct_map inj_onD)
  with u show ?thesis by simp
qed

lemma audited_cong:
  assumes "audited d" "trade_events d' = trade_events d"
    "map (\<lambda>t. (t_id t, t_status t)) (trades d') = map (\<lambda>t. (t_id t, t_status t)) (trades d)"
  shows "audited d'"
proof -
  have ids: "map t_id (trades d') = map t_id (trades d)"
    using arg_cong[OF assms(3), of "map fst"] by (simp add: o_def)
  then have im: "t_id ` set (trades d') = t_id ` set (trades d)" by (metis set_map)
  have "(t_id t, t_status t) \<in> (\<lambda>t. (t_id t, t_status t)) ` set (trades d)" if "t \<in> set (trades d')" for t
    using arg_cong[OF assms(3), of set] that by auto
  then have "replay (events_of (t_id t) d') = Some (t_status t)" if "t \<in> set (trades d')" for t
    using that assms(1,2) by (fastforce simp: audited_def events_of_def)
  with assms ids im show ?thesis by (simp add: audited_def)
qed

lemma audited_transition: "audited d \<Longrightarrow> audited (transition_trade_status i s m d)"
proof -
  assume a: "audited d"
  show ?thesis
  proof (cases "get_trade i d")
    case None
    with a show ?thesis by (simp add: transition_trade_status_def)
  next
    case (Some t)
    note t = get_trade_Some[OF Some]
    define d' where "d' = transition_trade_status i s m d"
    show ?thesis
    proof (cases "t_status t = s")
      case True
      with a Some show ?thesis by (simp add: transition_trade_status_def)
    next
      case False
      define e where "e = \<lparr>ev_trade_id = i, ev_type = ''status_transition'',
        ev_from_status = Some (t_status t), ev_to_status = Some s, ev_metadata = m\<rparr>"
      have ev: "trade_events d' = trade_events d @ [e]"
        and tr: "trades d' = update_where (\<lambda>t. t_id t = i) (\<lambda>t. t\<lparr>t_status := s\<rparr>) (trades d)"
        using False Some by (simp_all add: d'_def transition_trade_status_def append_trade_event_def
            upd_trade_def e_def)
      have ids: "map t_id (trades d') = map t_id (trades d)" by (simp add: d'_def)
      then have im: "t_id ` set (trades d') = t_id ` set (trades d)" by (metis set_map)
      have rep: "replay (events_of (t_id u) d') = Some (t_status u)" if u: "u \<in> set (trades d')" for u
      proof -
        obtain u0 where u0: "u0 \<in> set (trades d)" "u = (if t_id u0 = i then u0\<lparr>t_status := s\<rparr> else u0)"
          using u by (auto simp: tr set_update_where)
        have r0: "replay (events_of (t_id u0) d) = Some (t_status u0)" using a u0 by (simp add: audited_def)
        show ?thesis
        proof (cases "t_id u0 = i")
          case True
          then have "u0 = t" using get_trade_unique[of d u0] a u0(1) Some by (simp add: audited_def)
          with r0 t False u0 True show ?thesis
            by (auto simp: events_of_def ev e_def intro!: replay_snoc)
        next
          case False
          with r0 u0 show ?thesis by (simp add: events_of_def ev e_def)
        qed
      qed
      have "\<forall>e \<in> set (trade_events d'). ev_trade_id e \<in> t_id ` set (trades d')"
        using a t im by (auto simp: ev e_def audited_def)
      moreover have "distinct (map t_id (trades d'))" unfolding ids using a by (simp add: audited_def)
      ultimately have "audited d'" using rep by (simp add: audited_def)
      then show ?thesis by (simp add: d'_def)
    qed
  qed
qed

lemma audited_new_trade:
  assumes "audited d" "\<forall>t' \<in> set (trades d). t_id t' < t_id t"
  shows "audited (record_trade_created (t_id t) m (add_trade t d))"
proof -
  define d' where "d' = record_trade_created (t_id t) m (add_trade t d)"
  have "distinct (map t_id (trades (add_trade t d)))"
    using assms by (force simp: add_trade_def audited_def)
  then have "get_trade (t_id t) (add_trade t d) = Some t"
    by (rule get_trade_unique) (simp add: add_trade_def)
  then have ev: "trade_events d' = trade_events d @ [\<lparr>ev_trade_id = t_id t, ev_type = ''trade_created'',
      ev_from_status = None, ev_to_status = Some (t_status t), ev_metadata = m\<rparr>]"
    and tr: "trades d' = trades d @ [t]"
    by (simp_all add: d'_def record_trade_created_def append_trade_event_def add_trade_def)
  have none: "events_of (t_id t) d = []"
    using assms by (fastforce simp: events_of_def audited_def filter_empty_conv)
  have "replay (events_of (t_id u) d') = Some (t_status u)" if "u \<in> set (trades d')" for u
  proof (cases "u = t")
    case True
    with none show ?thesis by (simp add: events_of_def ev)
  next
    case False
    with that have "u \<in> set (trades d)" by (simp add: tr)
    with assms show ?thesis by (auto simp: events_of_def ev audited_def)
  qed
  moreover have "distinct (map t_id (trades d'))" using assms by (force simp: tr audited_def)
  moreover have "\<forall>e \<in> set (trade_events d'). ev_trade_id e \<in> t_id ` set (trades d')"
    using assms by (auto simp: ev tr audited_def)
  ultimately have "audited d'" by (simp add: audited_def)
  then show ?thesis by (simp add: d'_def)
qed

lemma audited_fields: "audited d \<Longrightarrow> keeps_status f \<Longrightarrow> audited (upd_trade i f d)"
  by (elim audited_cong) (simp_all add: upd_trade_def map_update_where keeps_status_def)

interpretation audit: reset_invariant audited
proof unfold_locales
  fix d i s m assume "audited d" then show "audited (transition_trade_status i s m d)"
    by (rule audited_transition)
next
  fix d i f g h m m' assume "audited d" "keeps_status f" "keeps_status g" "keeps_status h"
  then show "audited (transition_trade_status i PNL_RECORDED m
      (upd_trade i f (upd_trade i g (upd_trade i h (transition_trade_status i POSITION_CLOSED m' d)))))"
    by (intro audited_transition audited_fields)
next
  fix d i f assume "audited d" "keeps_status f" then show "audited (upd_trade i f d)"
    by (rule audited_fields)
next
  fix d m and t :: trade assume "audited d" "\<forall>t' \<in> set (trades d). t_id t' < t_id t"
  then show "audited (record_trade_created (t_id t) m (add_trade t d))" by (rule audited_new_trade)
next
  fix d f p assume "audited d" "keeps_status f"
  then show "audited (d\<lparr>trades := update_where p f (trades d)\<rparr>)"
    by (elim audited_cong) (simp_all add: map_update_where keeps_status_def)
qed (auto elim: audited_cong simp: append_system_event_def)

subsection \<open>One row per day\<close>

definition unique_dates :: "db \<Rightarrow> bool" where
  "unique_dates d \<longleftrightarrow> distinct (map ds_date (daily_stats d))"

lemma unique_dates_cong:
  "unique_dates d \<Longrightarrow> map ds_date (daily_stats d') = map ds_date (daily_stats d) \<Longrightarrow> unique_dates d'"
  by (simp add: unique_dates_def)

lemma daily_stats_only [simp]:
  "daily_stats (transition_trade_status i s m d) = daily_stats d"
  "daily_stats (upd_trade i f d) = daily_stats d"
  "daily_stats (record_trade_created i m d) = daily_stats d"
  "daily_stats (add_trade t d) = daily_stats d"
  by (simp_all add: transition_trade_status_def upd_trade_def append_trade_event_def
      record_trade_created_def add_trade_def split: option.splits)

lemma unique_dates_row: "unique_dates d \<Longrightarrow> unique_dates (ensure_daily_stat x d)"
  by (auto simp: unique_dates_def ensure_daily_stat_def new_daily_stat_def get_stat_def
      find_None_iff split: option.splits)

lemma unique_dates_upd: "unique_dates d \<Longrightarrow> keeps_date g \<Longrightarrow> unique_dates (upd_stat x g d)"
  by (elim unique_dates_cong) (simp add: upd_stat_def map_update_where keeps_date_def)

lemma unique_dates_reset: "unique_dates d \<Longrightarrow> unique_dates (reset_consecutive_losses x d)"
  by (simp add: reset_consecutive_losses_def unique_dates_upd unique_dates_row keeps_date_def)

lemma unique_dates_safety:
  "unique_dates (upd_safety h d) = unique_dates d"
  "unique_dates (get_or_create_safety_state d) = unique_dates d"
  by (simp_all add: unique_dates_def upd_safety_def get_or_create_safety_state_def)

lemmas date_defs = activate_kill_switch_def set_pause_def clear_pause_if_expired_def
  reset_safety_state_def Let_def

interpretation dates: reset_invariant unique_dates
  by unfold_locales (auto elim: unique_dates_cong simp: append_system_event_def unique_dates_row
      unique_dates_upd unique_dates_reset unique_dates_safety date_defs)

subsection \<open>The kill switch stays on\<close>

definition killed :: "db \<Rightarrow> bool" where
  "killed d \<longleftrightarrow> sf_kill_switch_active (safety_of d)"

lemma killed_simps [simp]:
  "killed (append_trade_event i ty a b m d) = killed d"
  "killed (upd_trade i f d) = killed d" "killed (add_trade t d) = killed d"
  "killed (d\<lparr>trades := ts\<rparr>) = killed d" "killed (d\<lparr>submissions := ss, signals := sg\<rparr>) = killed d"
  "killed (upd_stat x g d) = killed d" "killed (ensure_daily_stat x d) = killed d"
  "killed (get_or_create_safety_state d) = killed d"
  "killed (reset_consecutive_losses x d) = killed d"
  "killed (append_system_event et n d) = killed d"
  by (simp_all add: killed_def safety_of_def append_trade_event_def upd_trade_def add_trade_def
      get_or_create_safety_state_def append_system_event_def)

lemma killed_upd_safety: "killed (upd_safety h d) = sf_kill_switch_active (h (safety_of d))"
  by (simp add: killed_def)

lemma killed_of: "sf_kill_switch_active (safety_of d) = killed d"
  by (simp add: killed_def)

interpretation ks: store_invariant killed
  by unfold_locales (auto simp: transition_trade_status_def record_trade_created_def
      killed_upd_safety date_defs killed_of split: option.splits)

subsection \<open>No trade rests in \<open>POSITION_CLOSED\<close>\<close>

definition none_closed :: "db \<Rightarrow> bool" where
  "none_closed d \<longleftrightarrow> (\<forall>t \<in> set (trades d). t_status t \<noteq> POSITION_CLOSED)"

lemma none_closed_cong: "none_closed d \<Longrightarrow> trades d' = trades d \<Longrightarrow> none_closed d'"
  by (simp add: none_closed_def)

lemma none_closed_update:
  "none_closed d \<Longrightarrow> trades d' = update_where p f (trades d)
    \<Longrightarrow> (\<And>t. t_status t \<noteq> POSITION_CLOSED \<Longrightarrow> t_status (f t) \<noteq> POSITION_CLOSED) \<Longrightarrow> none_closed d'"
  by (auto simp: none_closed_def set_update_where)

lemma none_closed_fields:
  "none_closed d \<Longrightarrow> keeps_status f \<Longrightarrow> none_closed (d\<lparr>trades := update_where p f (trades d)\<rparr>)"
  by (rule none_closed_update[where p = p and f = f]) (simp_all add: keeps_status_def)

text \<open>Every row of key \<open>i\<close> is moved, when the first is not there already.\<close>

lemma transition_rows:
  "get_trade i d = Some t \<Longrightarrow> t_status t \<noteq> s \<Longrightarrow>
    trades (transition_trade_status i s m d) = update_where (\<lambda>t. t_id t = i) (\<lambda>t. t\<lparr>t_status := s\<rparr>) (trades d)"
  by (simp add: transition_trade_status_def append_trade_event_def upd_trade_def)

lemma none_closed_transition:
  assumes "none_closed d" "s \<noteq> POSITION_CLOSED"
  shows "none_closed (transition_trade_status i s m d)"
proof (cases "get_trade i d")
  case None
  with assms show ?thesis by (simp add: transition_trade_status_def)
next
  case (Some t)
  show ?thesis
  proof (cases "t_status t = s")
    case True
    with Some assms show ?thesis by (simp add: transition_trade_status_def)
  next
    case False
    from none_closed_update[OF assms(1) transition_rows[OF Some this]] assms(2) show ?thesis by simp
  qed
qed

lemma none_closed_closing:
  assumes "none_closed d" "keeps_status f" "keeps_status g" "keeps_status h"
  shows "none_closed (transition_trade_status i PNL_RECORDED m
      (upd_trade i f (upd_trade i g (upd_trade i h (transition_trade_status i POSITION_CLOSED m' d)))))"
    (is "none_closed (transition_trade_status i PNL_RECORDED m ?d)")
proof (cases "get_trade i d")
  case None
  then have "\<forall>t \<in> set (trades d). t_id t \<noteq> i" by (simp add: get_trade_def find_None_iff)
  then have same: "update_where (\<lambda>t. t_id t = i) f' (trades d) = trades d" for f'
    by (auto simp: update_where_def intro: map_idI)
  have "?d = d" using None same by (simp add: transition_trade_status_def upd_trade_def)
  with assms(1) show ?thesis by (simp add: none_closed_transition)
next
  case (Some t)
  let ?p = "\<lambda>t. t_id t = i"
  have st: "t_status t \<noteq> POSITION_CLOSED" using assms(1) get_trade_Some[OF Some] by (simp add: none_closed_def)
  define F where "F = (\<lambda>t. f (g (h (t\<lparr>t_status := POSITION_CLOSED\<rparr>))))"
  have F: "t_id (F u) = t_id u" "t_status (F u) = POSITION_CLOSED" for u
    using assms(2-4) by (simp_all add: F_def keeps_status_def)
  have tr: "trades ?d = update_where ?p F (trades d)"
    using assms(3,4) transition_rows[OF Some st]
    by (auto simp: upd_trade_def update_where_def F_def keeps_status_def)
  then have g: "get_trade i ?d = Some (F t)"
    using Some F by (simp add: get_trade_def find_update_where)
  have "t_status (F t) \<noteq> PNL_RECORDED" by (simp only: F trade_status.simps not_False_eq_True)
  from transition_rows[OF g this]
  have "trades (transition_trade_status i PNL_RECORDED m ?d)
      = update_where ?p (\<lambda>t. t\<lparr>t_status := PNL_RECORDED\<rparr>) (update_where ?p F (trades d))"
    by (simp only: tr)
  also have "\<dots> = update_where ?p (\<lambda>u. F u\<lparr>t_status := PNL_RECORDED\<rparr>) (trades d)"
    by (rule update_where_twice) (simp only: F)
  finally show ?thesis by (rule none_closed_update[OF assms(1)]) simp
qed

interpretation nc: reset_invariant none_closed
proof unfold_locales
  fix s d i m assume "s \<noteq> POSITION_CLOSED" "none_closed d"
  then show "none_closed (transition_trade_status i s m d)" by (simp add: none_closed_transition)
next
  fix d i f assume "none_closed d" "keeps_status f" then show "none_closed (upd_trade i f d)"
    by (simp add: upd_trade_def none_closed_fields)
next
  fix d p f assume "none_closed d" "keeps_status f"
  then show "none_closed (d\<lparr>trades := update_where p f (trades d)\<rparr>)"
    by (rule none_closed_fields)
next
  fix d m and t :: trade assume "none_closed d" "t_status t \<noteq> POSITION_CLOSED"
  then show "none_closed (record_trade_created (t_id t) m (add_trade t d))"
    by (simp add: none_closed_def record_trade_created_def append_trade_event_def add_trade_def
        split: option.splits)
next
  fix d f g h i m m' assume "none_closed d" "keeps_status f" "keeps_status g" "keeps_status h"
  then show "none_closed (transition_trade_status i PNL_RECORDED m
      (upd_trade i f (upd_trade i g (upd_trade i h (transition_trade_status i POSITION_CLOSED m' d)))))"
    by (rule none_closed_closing)
qed (auto elim: none_closed_cong simp: append_system_event_def)

text \<open>The trivial invariant: what is left of \<open>winv\<close> is that keys are not reused.\<close>

interpretation any: store_invariant "\<lambda>_. True"
  by unfold_locales

subsection \<open>Rows of a day\<close>

lemma get_stat_ensure_other:
  "get_stat y (ensure_daily_stat x d) =
    (case get_stat y d of Some s \<Rightarrow> Some s | None \<Rightarrow> if x = y then Some (new_daily_stat x) else None)"
  by (cases "get_stat x d") (auto simp: ensure_daily_stat_def get_stat_def find_append
      new_daily_stat_def split: option.splits)

lemma get_stat_ensure: "get_stat x (ensure_daily_stat x d) = Some (stat_of x d)"
  by (simp add: get_stat_ensure_other stat_of_def split: option.splits)

lemma stat_of_ensure [simp]: "stat_of y (ensure_daily_stat x d) = stat_of y d"
  by (simp add: stat_of_def get_stat_ensure_other split: option.splits)

lemma get_stat_upd:
  assumes "keeps_date g"
  shows "get_stat y (upd_stat x g d) =
    (if y = x then map_option g (get_stat x d) else get_stat y d)"
proof (cases "y = x")
  case True
  with assms show ?thesis
    by (simp add: get_stat_def upd_stat_def keeps_date_def find_update_where)
next
  case False
  then have "find (\<lambda>s. ds_date s = y) (update_where (\<lambda>s. ds_date s = x) g (daily_stats d))
      = find (\<lambda>s. ds_date s = y) (daily_stats d)"
    using assms by (intro find_update_where_other) (auto simp: keeps_date_def)
  with False show ?thesis by (simp add: get_stat_def upd_stat_def)
qed

lemma stat_of_upd:
  "keeps_date g \<Longrightarrow> stat_of y (upd_stat x g (ensure_daily_stat x d)) =
     (if y = x then g (stat_of x d) else stat_of y d)"
  by (auto simp: stat_of_def get_stat_upd get_stat_ensure get_stat_ensure_other split: option.splits)

subsection \<open>The day's statistics\<close>

lemma update_symbol_stats_only [simp]:
  "ds_date (update_symbol_stats k b s) = ds_date s"
  "ds_total_trades (update_symbol_stats k b s) = ds_total_trades s"
  "ds_winning_trades (update_symbol_stats k b s) = ds_winning_trades s"
  "ds_losing_trades (update_symbol_stats k b s) = ds_losing_trades s"
  "ds_consecutive_losses (update_symbol_stats k b s) = ds_consecutive_losses s"
  "ds_gross_pnl (update_symbol_stats k b s) = ds_gross_pnl s"
  "ds_total_fees (update_symbol_stats k b s) = ds_total_fees s"
  "ds_net_pnl (update_symbol_stats k b s) = ds_net_pnl s"
  "ds_daily_loss_pct (update_symbol_stats k b s) = ds_daily_loss_pct s"
  by (simp_all add: update_symbol_stats_def Let_def)

lemma symbol_stat_of_update:
  "symbol_stat_of (update_symbol_stats raw w s) k =
    (if k = py_upper (py_strip raw)
     then (if w then (symbol_stat_of s k)\<lparr>ss_wins := ss_wins (symbol_stat_of s k) + 1,
                                           ss_consecutive_losses := 0\<rparr>
           else (symbol_stat_of s k)\<lparr>ss_losses := ss_losses (symbol_stat_of s k) + 1,
                   ss_consecutive_losses := ss_consecutive_losses (symbol_stat_of s k) + 1\<rparr>)
     else symbol_stat_of s k)"
  by (auto simp: update_symbol_stats_def Let_def symbol_stat_of_def update_conv' split: option.splits)

lemma symbol_stat_of_cong:
  "ds_symbol_stats s = ds_symbol_stats s' \<Longrightarrow> symbol_stat_of s k = symbol_stat_of s' k"
  by (simp add: symbol_stat_of_def)

lemma outcome_stat_fields:
  fixes s :: daily_stat
  defines "s' \<equiv> \<lambda>t pnl. outcome_stat t pnl s"
  shows "ds_date (s' t pnl) = ds_date s"
    "ds_total_trades (s' t pnl) =
       (if ds_total_trades s \<le> ds_winning_trades s + ds_losing_trades s
        then ds_total_trades s + 1 else ds_total_trades s)"
    "ds_winning_trades (s' t pnl) = ds_winning_trades s + (if pnl < 0 then 0 else 1)"
    "ds_losing_trades (s' t pnl) = ds_losing_trades s + (if pnl < 0 then 1 else 0)"
    "ds_consecutive_losses (s' t pnl) = (if pnl < 0 then ds_consecutive_losses s + 1 else 0)"
    "ds_gross_pnl (s' t pnl) = Some (dadd (or_zero (ds_gross_pnl s)) pnl)"
    "ds_total_fees (s' t pnl) = Some (dadd (or_zero (ds_total_fees s)) (or_zero (t_fee_paid t)))"
    "ds_net_pnl (s' t pnl) =
       Some (dadd (or_zero (ds_net_pnl s)) (dsub pnl (or_zero (t_fee_paid t))))"
  unfolding s'_def by (simp_all add: outcome_stat_def Let_def split: option.splits)

lemma outcome_stat_symbol:
  "symbol_stat_of (outcome_stat t pnl s) k =
     (let c = symbol_stat_of s k in
      if k = py_upper (py_strip (t_symbol t))
      then (if pnl < 0
            then c\<lparr>ss_losses := ss_losses c + 1, ss_consecutive_losses := ss_consecutive_losses c + 1\<rparr>
            else c\<lparr>ss_wins := ss_wins c + 1, ss_consecutive_losses := 0\<rparr>)
      else c)"
proof -
  obtain s4 where s4: "outcome_stat t pnl s = update_symbol_stats (t_symbol t) (\<not> pnl < 0) s4"
    and same: "ds_symbol_stats s4 = ds_symbol_stats s"
    by (cases "pnl < 0"; cases "t_pnl_pct t") (auto simp: outcome_stat_def Let_def)
  show ?thesis
    unfolding s4 symbol_stat_of_update symbol_stat_of_cong[OF same] by (simp add: Let_def)
qed

lemma keeps_date_outcome: "keeps_date (outcome_stat t pnl)"
  by (simp add: keeps_date_def outcome_stat_fields)

text \<open>The statistics of one day's closed trades with their results, oldest first.\<close>

definition day_stats :: "date \<Rightarrow> (trade \<times> decimal) list \<Rightarrow> daily_stat" where
  "day_stats x outs = foldl (\<lambda>s (t, pnl). outcome_stat t pnl s) (new_daily_stat x) outs"

text \<open>The specification: counts, and the length of the losing run at the end.\<close>

definition wins_of :: "decimal list \<Rightarrow> int" where
  "wins_of ps = int (length (filter (\<lambda>p. 0 \<le> p) ps))"

definition losses_of :: "decimal list \<Rightarrow> int" where
  "losses_of ps = int (length (filter (\<lambda>p. p < 0) ps))"

definition losing_run :: "decimal list \<Rightarrow> int" where
  "losing_run ps = int (length (takeWhile (\<lambda>p. p < 0) (rev ps)))"

definition results_of :: "string \<Rightarrow> (trade \<times> decimal) list \<Rightarrow> decimal list" where
  "results_of k outs = map snd (filter (\<lambda>(t, _). py_upper (py_strip (t_symbol t)) = k) outs)"

lemma run_snoc [simp]:
  "wins_of (ps @ [p]) = wins_of ps + (if p < 0 then 0 else 1)"
  "losses_of (ps @ [p]) = losses_of ps + (if p < 0 then 1 else 0)"
  "losing_run (ps @ [p]) = (if p < 0 then losing_run ps + 1 else 0)"
  "wins_of [] = 0" "losses_of [] = 0" "losing_run [] = 0"
  by (auto simp: wins_of_def losses_of_def losing_run_def)

lemma results_snoc [simp]:
  "results_of k (outs @ [(t, p)]) =
     (if py_upper (py_strip (t_symbol t)) = k then results_of k outs @ [p] else results_of k outs)"
  "results_of k [] = []"
  by (simp_all add: results_of_def)

lemma day_stats_snoc [simp]:
  "day_stats x (outs @ [(t, p)]) = outcome_stat t p (day_stats x outs)"
  "day_stats x [] = new_daily_stat x"
  by (simp_all add: day_stats_def)

text \<open>
  The statistics row that the analytics build up over one day's closed trades is the
  statistics of the list of results: the trade count is its length, wins and losses its numbers
  of non-negative and negative results, the consecutive losses its trailing losing run, per
  symbol (stripped, upper case) the same three of that symbol's results, and the gross result
  and the fees are the (rounded) sums.
\<close>

theorem day_stats_are_the_statistics:
  "ds_total_trades (day_stats x outs) = int (length outs)
   \<and> ds_winning_trades (day_stats x outs) = wins_of (map snd outs)
   \<and> ds_losing_trades (day_stats x outs) = losses_of (map snd outs)
   \<and> ds_consecutive_losses (day_stats x outs) = losing_run (map snd outs)
   \<and> symbol_stat_of (day_stats x outs) k = \<lparr>ss_wins = wins_of (results_of k outs),
        ss_losses = losses_of (results_of k outs),
        ss_consecutive_losses = losing_run (results_of k outs)\<rparr>
   \<and> or_zero (ds_gross_pnl (day_stats x outs)) = dsum (map snd outs)
   \<and> or_zero (ds_total_fees (day_stats x outs)) = dsum (map (\<lambda>(t, _). or_zero (t_fee_paid t)) outs)"
proof (induction outs rule: rev_induct)
  case Nil
  show ?case by (simp add: new_daily_stat_def symbol_stat_of_def dsum_def)
next
  case (snoc o' outs)
  obtain t p where o': "o' = (t, p)" by (cases o')
  have "wins_of ps + losses_of ps = int (length ps)" for ps
    by (induction ps rule: rev_induct) simp_all
  from this[of "map snd outs"] snoc show ?case
    by (simp add: o' outcome_stat_fields outcome_stat_symbol Let_def dsum_def)
qed

end
