(* ===== verification/SafetyGuard.thy ===== *)
theory SafetyGuard
  imports Journal_Invariants
begin

text \<open>
  \<^verbatim>\<open>backend/safety_guard\<close>: the circuit breaker's checks in source order, the kill
  switch with its cancellation sweep, and the three routes.
\<close>

subsection \<open>Circuit breaker\<close>

definition today :: "env \<Rightarrow> date" where
  "today e = date_of (now e)"

definition calculate_weekly_loss_pct :: "env \<Rightarrow> db \<Rightarrow> decimal" where
  "calculate_weekly_loss_pct e d =
     sum_list (map (\<lambda>s. or_zero (ds_daily_loss_pct s))
       (filter (\<lambda>s. today e - 6 \<le> ds_date s) (daily_stats d)))"

fun pause_error :: "pause_reason \<Rightarrow> exc" where
  "pause_error DAILY_LOSS = DailyLossLimitError"
| "pause_error WEEKLY_LOSS = WeeklyLossLimitError"
| "pause_error COOLDOWN = CooldownActiveError"
| "pause_error HARD_LOSS_STREAK = HardLossStreakPauseError"

text \<open>The common shape of the tripwires: pause, event, commit, raise.\<close>

definition trip :: "env \<Rightarrow> pause_reason \<Rightarrow> bool \<Rightarrow> timestamp option \<Rightarrow> system_note \<Rightarrow> unit op" where
  "trip e r manual until note =
     andthen (on_cur (set_pause (now e) r manual until))
     (andthen (on_cur (append_system_event EV_CIRCUIT_BREAKER note))
     (andthen commit (throw (pause_error r))))"

definition daily_loss_hit :: "env \<Rightarrow> daily_stat \<Rightarrow> bool" where
  "daily_loss_hit e s = (case ds_daily_loss_pct s of
     None \<Rightarrow> False | Some p \<Rightarrow> dec_of_float (max_daily_loss_pct (cfg e)) \<le> p)"

definition cooldown_end :: "env \<Rightarrow> timestamp" where
  "cooldown_end e = now e + cooldown_hours (cfg e) * 3600000000"

definition circuit_breaker_check :: "env \<Rightarrow> unit op" where
  "circuit_breaker_check e =
     andthen (on_cur (ensure_daily_stat (today e)))
     (andthen (on_cur (clear_pause_if_expired (now e)))
     (bnd (reads cur) (\<lambda>d. let stat = stat_of (today e) d in
       case sf_pause_reason (safety_of d) of
         Some r \<Rightarrow> throw (pause_error r)
       | None \<Rightarrow>
           if max_trades_per_day (cfg e) \<le> ds_total_trades stat then throw DailyLossLimitError
           else if daily_loss_hit e stat then
             andthen (on_cur (upd_stat (today e) (\<lambda>s. s\<lparr>ds_circuit_breaker_triggered := True\<rparr>)))
               (trip e DAILY_LOSS True None (DailyLossReached (or_zero (ds_daily_loss_pct stat))))
           else if dec_of_float (max_weekly_loss_pct (cfg e)) \<le> calculate_weekly_loss_pct e d then
             trip e WEEKLY_LOSS True None (WeeklyLossReached (calculate_weekly_loss_pct e d))
           else if hard_pause_consecutive_losses (cfg e) \<le> ds_consecutive_losses stat then
             trip e HARD_LOSS_STREAK True None (HardStreakPause (ds_consecutive_losses stat))
           else if max_consecutive_losses (cfg e) \<le> ds_consecutive_losses stat then
             trip e COOLDOWN False (Some (cooldown_end e)) (CooldownTriggered (ds_consecutive_losses stat))
           else ret ())))"

definition record_loss :: "env \<Rightarrow> decimal \<Rightarrow> unit op" where
  "record_loss e pct = andthen (on_cur (record_daily_loss (today e) pct)) commit"

definition record_win :: "env \<Rightarrow> unit op" where
  "record_win e = andthen (on_cur (record_daily_win (today e))) commit"

definition increment_trade_count :: "env \<Rightarrow> unit op" where
  "increment_trade_count e = on_cur (increment_daily_trade_count (today e))"

subsection \<open>Kill switch\<close>

definition cancellable_statuses :: "trade_status list" where
  "cancellable_statuses = [ORDER_SUBMITTED, ORDER_PENDING_UNKNOWN, ORDER_PARTIALLY_FILLED]"

definition read_safety_state :: "safety_state op" where
  "read_safety_state = andthen (on_cur get_or_create_safety_state) (reads (\<lambda>w. safety_of (cur w)))"

definition kill_switch_status :: "env \<Rightarrow> safety_state op" where
  "kill_switch_status e =
     andthen (on_cur (clear_pause_if_expired (now e)))
     (andthen commit
     (andthen (modify (\<lambda>w. w\<lparr>ks_flag := sf_kill_switch_active (safety_of (cur w))\<rparr>))
       read_safety_state))"

definition kill_switch_is_active :: "env \<Rightarrow> bool op" where
  "kill_switch_is_active e = bnd (kill_switch_status e) (\<lambda>s. ret (sf_kill_switch_active s))"

definition kill_switch_guard :: "env \<Rightarrow> unit op" where
  "kill_switch_guard e = bnd (kill_switch_is_active e) (\<lambda>b. raise_if b KillSwitchActiveError)"

definition cancel_pending_orders :: "env \<Rightarrow> unit op" where
  "cancel_pending_orders e =
     bnd (reads (\<lambda>w. list_trades_by_status cancellable_statuses (cur w)))
       (each (\<lambda>t. catch (cancel_order e (t_symbol t) None (t_order_link_id t)) (\<lambda>_. True) (\<lambda>_. ret ())))"

definition kill_switch_activate :: "env \<Rightarrow> bool \<Rightarrow> unit op" where
  "kill_switch_activate e with_client =
     bnd (kill_switch_is_active e) (\<lambda>b.
       if b then ret ()
       else
         andthen (modify (\<lambda>w. w\<lparr>ks_flag := True\<rparr>))
         (andthen (on_cur (activate_kill_switch (now e)))
         (andthen (if with_client \<and> trading_mode (cfg e) \<noteq> SHADOW
                   then cancel_pending_orders e else ret ())
         (andthen (on_cur (append_system_event EV_KILL_SWITCH KillSwitchActivated)) commit))))"

definition kill_switch_reset :: "env \<Rightarrow> safety_state op" where
  "kill_switch_reset e =
     andthen (on_cur get_or_create_safety_state)
     (bnd (reads (\<lambda>w. safety_of (cur w))) (\<lambda>s.
       let losses = (sf_pause_reason s \<in> {Some COOLDOWN, Some HARD_LOSS_STREAK}) in
       andthen (on_cur (reset_safety_state (now e) losses))
       (andthen (on_cur (append_system_event EV_KILL_SWITCH (SafetyStateReset losses)))
       (andthen commit
       (andthen (modify (\<lambda>w. w\<lparr>ks_flag := False\<rparr>)) read_safety_state)))))"

text \<open>The routes of \<^verbatim>\<open>safety_guard/router.py\<close>; each request has its own session.\<close>

definition post_kill :: "env \<Rightarrow> unit op" where
  "post_kill e = in_session (kill_switch_activate e True)"

definition post_reset :: "env \<Rightarrow> safety_state op" where
  "post_reset e = in_session (kill_switch_reset e)"

definition get_safety_status :: "env \<Rightarrow> safety_state op" where
  "get_safety_status e = in_session (kill_switch_status e)"

subsection \<open>Frames\<close>

lemma trip_quiet: "quiet (trip e r m u n)"
  unfolding trip_def by (intro send_rules)

lemma check_quiet: "quiet (circuit_breaker_check e)"
  unfolding circuit_breaker_check_def Let_def
  by (intro send_rules trip_quiet)

lemma set_flag: "steps (sends P) (modify (\<lambda>w. w\<lparr>ks_flag := g w\<rparr>))"
  by (simp add: steps_def sends_def)

lemma status_quiet: "quiet (kill_switch_status e)" "quiet read_safety_state"
  unfolding kill_switch_status_def read_safety_state_def by (intro send_rules set_flag)+

lemma guard_quiet: "quiet (kill_switch_guard e)" "quiet (kill_switch_is_active e)"
  unfolding kill_switch_guard_def kill_switch_is_active_def by (intro send_rules status_quiet)+

context store_invariant
begin

lemma keep_set_flag: "keeps I (modify (\<lambda>w. w\<lparr>ks_flag := g w\<rparr>))"
  by (auto simp: steps_def preserves_def winv_def)

lemma keep_trip: "keeps I (trip e r m u n)"
  unfolding trip_def by (intro keep_rules lawful_rules)

lemma keep_check: "keeps I (circuit_breaker_check e)"
  unfolding circuit_breaker_check_def Let_def
  by (intro keep_rules lawful_rules keep_trip lawful_stat) (simp add: keeps_date_def)

lemma keep_read_safety: "keeps I read_safety_state"
  unfolding read_safety_state_def by (intro keep_rules lawful_rules)

lemma keep_status: "keeps I (kill_switch_status e)"
  unfolding kill_switch_status_def by (intro keep_rules lawful_rules keep_set_flag keep_read_safety)

lemma keep_is_active: "keeps I (kill_switch_is_active e)"
  unfolding kill_switch_is_active_def by (intro keep_rules keep_status)

lemma keep_guard: "keeps I (kill_switch_guard e)"
  unfolding kill_switch_guard_def by (intro keep_rules keep_is_active)

lemma keep_activate: "keeps I (kill_switch_activate e c)"
  unfolding kill_switch_activate_def cancel_pending_orders_def
  by (intro keep_rules lawful_rules keep_set_flag keep_is_active)

lemma keep_trade_count: "keeps I (increment_trade_count e)"
  unfolding increment_trade_count_def by (intro keep_rules lawful_rules)

lemmas keep_safety = keep_check keep_guard keep_is_active keep_status keep_activate keep_trade_count

end

context reset_invariant
begin

lemma keep_reset: "keeps I (kill_switch_reset e)"
  unfolding kill_switch_reset_def Let_def
  by (intro keep_rules lawful_rules lawful_reset_safety keep_set_flag keep_read_safety)

end

subsection \<open>Properties of the circuit breaker\<close>

text \<open>The limits, as one condition on the day's row and the week's loss.\<close>

definition within_limits :: "env \<Rightarrow> db \<Rightarrow> bool" where
  "within_limits e d \<longleftrightarrow>
     ds_total_trades (stat_of (today e) d) < max_trades_per_day (cfg e)
   \<and> or_zero (ds_daily_loss_pct (stat_of (today e) d)) < dec_of_float (max_daily_loss_pct (cfg e))
   \<and> calculate_weekly_loss_pct e d < dec_of_float (max_weekly_loss_pct (cfg e))
   \<and> ds_consecutive_losses (stat_of (today e) d) < hard_pause_consecutive_losses (cfg e)
   \<and> ds_consecutive_losses (stat_of (today e) d) < max_consecutive_losses (cfg e)"

text \<open>The state the limits are checked in: today's row exists, an expired cooldown is over.\<close>

definition refreshed :: "env \<Rightarrow> db \<Rightarrow> db" where
  "refreshed e d = clear_pause_if_expired (now e) (ensure_daily_stat (today e) d)"

lemma on_cur_simps [simp]:
  "bnd (on_cur h) f w = f () (w\<lparr>cur := h (cur w)\<rparr>)"
  "andthen (on_cur h) m w = m (w\<lparr>cur := h (cur w)\<rparr>)"
  "on_cur h w = (Inr (), w\<lparr>cur := h (cur w)\<rparr>)"
  by (simp_all add: on_cur_def)

lemma commit_simps [simp]:
  "andthen commit m w = m (w\<lparr>saved := cur w\<rparr>)" "commit w = (Inr (), w\<lparr>saved := cur w\<rparr>)"
  by (simp_all add: commit_def)

lemma trip_run:
  "trip e r m u n w = (Inl (pause_error r),
     w\<lparr>cur := append_system_event EV_CIRCUIT_BREAKER n (set_pause (now e) r m u (cur w)),
       saved := append_system_event EV_CIRCUIT_BREAKER n (set_pause (now e) r m u (cur w))\<rparr>)"
  by (simp add: trip_def)

lemma check_iff:
  assumes "0 < dec_of_float (max_daily_loss_pct (cfg e))" "d = refreshed e (cur w)"
  shows "fst (circuit_breaker_check e w) = Inr ()
            \<longleftrightarrow> sf_pause_reason (safety_of d) = None \<and> within_limits e d"
    and "fst (circuit_breaker_check e w) = Inl x \<Longrightarrow> is_safety_guard_error x"
proof -
  have hit: "daily_loss_hit e (stat_of (today e) d) \<longleftrightarrow>
      \<not> or_zero (ds_daily_loss_pct (stat_of (today e) d)) < dec_of_float (max_daily_loss_pct (cfg e))"
    using assms(1) by (simp add: daily_loss_hit_def or_zero_def not_less split: option.splits)
  show "fst (circuit_breaker_check e w) = Inr ()
            \<longleftrightarrow> sf_pause_reason (safety_of d) = None \<and> within_limits e d"
    using hit by (cases "sf_pause_reason (safety_of d)")
      (auto simp: circuit_breaker_check_def Let_def assms(2) refreshed_def within_limits_def trip_run)
  show "fst (circuit_breaker_check e w) = Inl x \<Longrightarrow> is_safety_guard_error x"
    by (cases "sf_pause_reason (safety_of d)"; cases "the (sf_pause_reason (safety_of d))")
      (auto simp: circuit_breaker_check_def Let_def assms(2) refreshed_def trip_run split: if_splits)
qed

text \<open>
  C8: the check lets an order through exactly when no pause is in force (an expired cooldown
  counts as over) and every limit holds, and otherwise raises one of the safety errors, provided
  the daily loss limit is positive (the row of a day without losses has no loss to compare).
\<close>

theorem circuit_breaker_check_iff:
  assumes "0 < dec_of_float (max_daily_loss_pct (cfg e))"
  shows "case fst (circuit_breaker_check e w) of
      Inr _ \<Rightarrow> sf_pause_reason (safety_of (refreshed e (cur w))) = None
                \<and> within_limits e (refreshed e (cur w))
    | Inl x \<Rightarrow> is_safety_guard_error x
                \<and> (sf_pause_reason (safety_of (refreshed e (cur w))) \<noteq> None
                   \<or> \<not> within_limits e (refreshed e (cur w)))"
  using check_iff[OF assms HOL.refl, of w]
  by (cases "fst (circuit_breaker_check e w)") auto

definition plain_settings :: settings where
  "plain_settings = \<lparr>trading_mode = DEMO, order_mode = Maker_Preferred,
     shadow_equity = 10000, risk_per_trade_pct = 1 / 8, canary_mode = False,
     canary_risk_multiplier = 1 / 4, min_rrr = 2, max_open_positions = 1,
     max_total_risk_exposure_pct = 1 / 4, max_trades_per_day = 10,
     max_daily_loss_pct = 1 / 4, max_weekly_loss_pct = 1 / 2,
     max_consecutive_losses = 3, hard_pause_consecutive_losses = 5, cooldown_hours = 4\<rparr>"

definition calm_env :: env where
  "calm_env = \<lparr>cfg = plain_settings,
     exch = \<lparr>ex_place = \<lambda>_ _. Inr (Some ''oid''), ex_cancel = \<lambda>_ _ _ _. Inl BybitConnectionError,
       ex_order_status = \<lambda>_ _ _ _. Inr None, ex_wallet = \<lambda>_. Inr [\<lparr>wi_coin = ''USDT'', wi_equity = Some 1000, wi_wallet_balance = None\<rparr>],
       ex_instrument = \<lambda>_ _. Inr \<lparr>in_qty_step = None, in_base_precision = Some 1,
         in_min_order_qty = Some 1, in_min_order_amt = Some 1,
         in_base_coin = ''BTC'', in_quote_coin = ''USDT''\<rparr>,
       ex_ticker_price = \<lambda>_ _. Inr 100\<rparr>,
     now = 86400000000, hex_of = \<lambda>n. replicate n CHR ''1'', uuid_str = \<lambda>n. replicate n CHR ''0''\<rparr>"

definition fresh_world :: world where
  "fresh_world = \<lparr>cur = empty_db, saved = empty_db, sent = [], draws = 0, ks_flag = False\<rparr>"

theorem circuit_breaker_check_iff_witness:
  "within_limits calm_env (refreshed calm_env (cur fresh_world))"
proof -
  have "0 < dec_of_float (max_daily_loss_pct (cfg calm_env))" by code_simp
  moreover have "fst (circuit_breaker_check calm_env fresh_world) = Inr ()" by code_simp
  ultimately show ?thesis using circuit_breaker_check_iff[of calm_env fresh_world] by simp
qed

text \<open>
  A daily, weekly or hard loss-streak pause that is committed blocks every later check, at
  any time, with its own error and stays committed, until the safety state is reset; the reset
  ends the pause and the kill switch, and after a hard loss streak it clears the day's count.
\<close>

theorem manual_pause_blocks_until_reset:
  assumes "sf_pause_reason (safety_of (saved w)) = Some r" "r \<noteq> COOLDOWN"
  shows "fst (in_session (circuit_breaker_check e) w) = Inl (pause_error r)
    \<and> safety_of (saved (snd (in_session (circuit_breaker_check e) w))) = safety_of (saved w)
    \<and> fst (post_reset e w) = Inr (safety_of (saved (snd (post_reset e w))))
    \<and> sf_pause_reason (safety_of (saved (snd (post_reset e w)))) = None
    \<and> \<not> killed (saved (snd (post_reset e w)))
    \<and> (r = HARD_LOSS_STREAK \<longrightarrow>
         ds_consecutive_losses (stat_of (loss_streak_stat_date (now e) (safety_of (saved w)))
           (saved (snd (post_reset e w)))) = 0)"
proof -
  have "\<not> cooldown_expired (now e) (safety_of (saved w))"
    using assms by (simp add: cooldown_expired_def)
  then have chk: "in_session (circuit_breaker_check e) w = (Inl (pause_error r), w\<lparr>cur := saved w\<rparr>)"
    using assms by (simp add: in_session_def circuit_breaker_check_def clear_pause_if_expired_def Let_def)
  have stat: "stat_of x (upd_safety h d) = stat_of x d" "stat_of x (append_system_event ty n d) = stat_of x d"
    "stat_of x (get_or_create_safety_state d) = stat_of x d" for x h d ty n
    by (simp_all add: stat_of_def get_stat_def upd_safety_def append_system_event_def
        get_or_create_safety_state_def)
  have "keeps_date (\<lambda>s. s\<lparr>ds_consecutive_losses := 0\<rparr>)" by (simp add: keeps_date_def)
  then have "ds_consecutive_losses (stat_of x (reset_consecutive_losses x d)) = 0" for x d
    by (simp add: reset_consecutive_losses_def stat_of_upd)
  then show ?thesis using assms(1) chk
    by (simp add: post_reset_def in_session_def kill_switch_reset_def read_safety_state_def Let_def
        reset_safety_state_def killed_def stat)
qed

theorem manual_pause_blocks_until_reset_witness:
  "fst (in_session (circuit_breaker_check calm_env)
     (fresh_world\<lparr>saved := set_pause 5 DAILY_LOSS True None empty_db\<rparr>)) = Inl DailyLossLimitError"
proof -
  have "sf_pause_reason (safety_of (saved (fresh_world\<lparr>saved := set_pause 5 DAILY_LOSS True None empty_db\<rparr>)))
      = Some DAILY_LOSS" by code_simp
  from manual_pause_blocks_until_reset[OF this] show ?thesis by simp
qed

lemma weekly_upd:
  "(\<And>s. ds_date (g s) = ds_date s \<and> ds_daily_loss_pct (g s) = ds_daily_loss_pct s) \<Longrightarrow>
    calculate_weekly_loss_pct e (upd_stat x g d) = calculate_weekly_loss_pct e d"
proof -
  assume g: "\<And>s. ds_date (g s) = ds_date s \<and> ds_daily_loss_pct (g s) = ds_daily_loss_pct s"
  have "map (\<lambda>s. or_zero (ds_daily_loss_pct s)) (filter (\<lambda>s. a \<le> ds_date s)
        (update_where (\<lambda>s. ds_date s = x) g ss))
      = map (\<lambda>s. or_zero (ds_daily_loss_pct s)) (filter (\<lambda>s. a \<le> ds_date s) ss)" for a ss
    by (induction ss) (auto simp: update_where_def g)
  then show ?thesis by (simp add: calculate_weekly_loss_pct_def upd_stat_def)
qed

lemma weekly_row: "calculate_weekly_loss_pct e (ensure_daily_stat x d) = calculate_weekly_loss_pct e d"
  by (simp add: calculate_weekly_loss_pct_def ensure_daily_stat_def new_daily_stat_def split: option.splits)

lemma weekly_other:
  "calculate_weekly_loss_pct e (upd_safety h d) = calculate_weekly_loss_pct e d"
  "calculate_weekly_loss_pct e (append_system_event ty n d) = calculate_weekly_loss_pct e d"
  "calculate_weekly_loss_pct e (get_or_create_safety_state d) = calculate_weekly_loss_pct e d"
  by (simp_all add: calculate_weekly_loss_pct_def upd_safety_def append_system_event_def
      get_or_create_safety_state_def)

lemma stat_of_other [simp]:
  "stat_of x (upd_safety h d) = stat_of x d" "stat_of x (append_system_event ty n d) = stat_of x d"
  "stat_of x (get_or_create_safety_state d) = stat_of x d"
  by (simp_all add: stat_of_def get_stat_def upd_safety_def append_system_event_def
      get_or_create_safety_state_def)

lemma stat_of_reset:
  "stat_of y (reset_consecutive_losses x d) =
    (if y = x then (stat_of x d)\<lparr>ds_consecutive_losses := 0\<rparr> else stat_of y d)"
  unfolding reset_consecutive_losses_def by (rule stat_of_upd) (simp add: keeps_date_def)

lemma weekly_reset:
  "calculate_weekly_loss_pct e (reset_consecutive_losses x d) = calculate_weekly_loss_pct e d"
  by (simp add: reset_consecutive_losses_def weekly_upd weekly_row)

lemma check_trips_cooldown:
  assumes "circuit_breaker_check e w = (Inl CooldownActiveError, w1)"
    and "d = refreshed e (cur w)" "sf_pause_reason (safety_of d) = None"
    and "0 < dec_of_float (max_daily_loss_pct (cfg e))"
  shows "saved w1 = append_system_event EV_CIRCUIT_BREAKER
           (CooldownTriggered (ds_consecutive_losses (stat_of (today e) d)))
           (set_pause (now e) COOLDOWN False (Some (cooldown_end e)) d)
    \<and> ds_total_trades (stat_of (today e) d) < max_trades_per_day (cfg e)
    \<and> or_zero (ds_daily_loss_pct (stat_of (today e) d)) < dec_of_float (max_daily_loss_pct (cfg e))
    \<and> calculate_weekly_loss_pct e d < dec_of_float (max_weekly_loss_pct (cfg e))"
proof -
  have hit: "daily_loss_hit e (stat_of (today e) d) \<longleftrightarrow>
      \<not> or_zero (ds_daily_loss_pct (stat_of (today e) d)) < dec_of_float (max_daily_loss_pct (cfg e))"
    using assms(4) by (simp add: daily_loss_hit_def or_zero_def not_less split: option.splits)
  show ?thesis using assms(1,3) hit unfolding assms(2)
    by (auto simp: circuit_breaker_check_def Let_def refreshed_def trip_run split: if_splits)
qed

text \<open>
  A cooldown that a check starts blocks every check before its end, and ends by itself: at
  its end, on the same day, the next check lets the order through again, since it clears the
  streak that started it and the other limits were met when it was started.
\<close>

theorem cooldown_blocks_then_ends:
  assumes trip: "circuit_breaker_check e w = (Inl CooldownActiveError, w1)"
    and pause: "sf_pause_reason (safety_of (refreshed e (cur w))) = None"
    and pos: "0 < dec_of_float (max_daily_loss_pct (cfg e))"
      "0 < hard_pause_consecutive_losses (cfg e)" "0 < max_consecutive_losses (cfg e)"
    and cfg: "cfg e' = cfg e"
  shows "(now e' < cooldown_end e \<longrightarrow>
            fst (in_session (circuit_breaker_check e') w1) = Inl CooldownActiveError)
    \<and> (cooldown_end e \<le> now e' \<and> today e' = today e \<longrightarrow>
            fst (in_session (circuit_breaker_check e') w1) = Inr ())"
proof -
  define d where "d = refreshed e (cur w)"
  note tr = check_trips_cooldown[OF trip d_def pause[folded d_def] pos(1)]
  define d1 where "d1 = ensure_daily_stat (today e') (saved w1)"
  have sf: "sf_pause_reason (safety_of d1) = Some COOLDOWN"
    "sf_cooldown_until (safety_of d1) = Some (cooldown_end e)"
    "sf_last_triggered_at (safety_of d1) = Some (now e)"
    using tr by (simp_all add: d1_def set_pause_def)
  have st: "stat_of x d1 = stat_of x d" for x using tr by (simp add: d1_def set_pause_def)
  have wk: "calculate_weekly_loss_pct e' d1 = calculate_weekly_loss_pct e d" if "today e' = today e"
    using tr that by (simp add: d1_def weekly_row weekly_other set_pause_def)
      (simp add: calculate_weekly_loss_pct_def)
  have exp: "cooldown_expired (now e') (safety_of d1) \<longleftrightarrow> cooldown_end e \<le> now e'"
    by (simp add: cooldown_expired_def sf)
  have run: "fst (in_session (circuit_breaker_check e') w1)
      = fst (circuit_breaker_check e' (w1\<lparr>cur := saved w1\<rparr>))"
    by (simp add: in_session_def split: prod.splits)
  have "fst (in_session (circuit_breaker_check e') w1) = Inl CooldownActiveError"
    if "now e' < cooldown_end e"
    using that exp sf unfolding run by (simp add: circuit_breaker_check_def Let_def clear_pause_if_expired_def d1_def)
  moreover have "fst (in_session (circuit_breaker_check e') w1) = Inr ()"
    if "cooldown_end e \<le> now e' \<and> today e' = today e"
  proof -
    define d2 where "d2 = refreshed e' (saved w1)"
    have d2: "d2 = upd_safety (\<lambda>s. s\<lparr>sf_pause_reason := None, sf_cooldown_until := None,
        sf_manual_reset_required := False\<rparr>)
        (reset_consecutive_losses (today e') (get_or_create_safety_state d1))"
    proof -
      have "d2 = clear_pause_if_expired (now e') d1" by (simp add: d2_def refreshed_def d1_def)
      then show ?thesis using that exp sf
        by (simp add: clear_pause_if_expired_def Let_def loss_streak_stat_date_def today_def)
    qed
    have "within_limits e' d2"
      using tr pos cfg wk that by (simp add: within_limits_def d2 stat_of_reset st weekly_other weekly_reset)
    moreover have "sf_pause_reason (safety_of d2) = None" by (simp add: d2)
    ultimately show ?thesis using check_iff(1)[of e' d2 "w1\<lparr>cur := saved w1\<rparr>"] pos cfg
      by (simp add: run d2_def)
  qed
  ultimately show ?thesis by blast
qed

definition streak_world :: world where
  "streak_world = fresh_world\<lparr>cur := empty_db\<lparr>daily_stats := [(new_daily_stat 1)\<lparr>ds_consecutive_losses := 3\<rparr>]\<rparr>\<rparr>"

theorem cooldown_blocks_then_ends_witness:
  "fst (in_session (circuit_breaker_check (calm_env\<lparr>now := 86400000000 + 4 * 3600000000\<rparr>))
      (snd (circuit_breaker_check calm_env streak_world))) = Inr ()"
proof -
  have trip: "circuit_breaker_check calm_env streak_world
      = (Inl CooldownActiveError, snd (circuit_breaker_check calm_env streak_world))" by code_simp
  have pause: "sf_pause_reason (safety_of (refreshed calm_env (cur streak_world))) = None" by code_simp
  have pos: "0 < dec_of_float (max_daily_loss_pct (cfg calm_env))"
    "0 < hard_pause_consecutive_losses (cfg calm_env)" "0 < max_consecutive_losses (cfg calm_env)"
    by code_simp+
  have at_end: "cooldown_end calm_env \<le> now (calm_env\<lparr>now := 86400000000 + 4 * 3600000000\<rparr>)
      \<and> today (calm_env\<lparr>now := 86400000000 + 4 * 3600000000\<rparr>) = today calm_env" by code_simp
  show ?thesis
    using cooldown_blocks_then_ends[OF trip pause pos, of "calm_env\<lparr>now := 86400000000 + 4 * 3600000000\<rparr>"]
      at_end by simp
qed

subsection \<open>Properties of the kill switch\<close>

lemma status_run:
  "kill_switch_is_active e w = (Inr (killed (cur w)),
     w\<lparr>saved := clear_pause_if_expired (now e) (cur w), ks_flag := killed (cur w),
       cur := get_or_create_safety_state (clear_pause_if_expired (now e) (cur w))\<rparr>)"
  by (simp add: kill_switch_is_active_def kill_switch_status_def read_safety_state_def bnd_def
      andthen_def on_cur_def commit_def modify_def reads_def ret_def killed_def
      clear_pause_if_expired_def Let_def)

lemma cancel_sweep:
  "each (\<lambda>t. catch (cancel_order e (f t) None (g t)) (\<lambda>_. True) (\<lambda>_. ret ())) ts w
    = (Inr (), w\<lparr>sent := sent w @ map (\<lambda>t. Cancel (f t) None (g t)) ts\<rparr>)"
proof (induction ts arbitrary: w)
  case Nil
  show ?case by simp
next
  case (Cons t ts)
  have c: "catch (cancel_order e (f t) None (g t)) (\<lambda>_. True) (\<lambda>_. ret ()) w
      = (Inr (), w\<lparr>sent := sent w @ [Cancel (f t) None (g t)]\<rparr>)"
    by (simp add: catch_def cancel_order_def split: sum.splits)
  then show ?case unfolding each.simps andthen_def bnd_def c prod.case sum.case Cons.IH by simp
qed

lemma cancel_pending_run:
  "cancel_pending_orders e w = (Inr (), w\<lparr>sent := sent w @
     map (\<lambda>t. Cancel (t_symbol t) None (t_order_link_id t))
       (list_trades_by_status cancellable_statuses (cur w))\<rparr>)"
  unfolding cancel_pending_orders_def bnd_simps cancel_sweep by simp

lemma trades_list_by_status [simp]:
  "list_trades_by_status ss (clear_pause_if_expired t d) = list_trades_by_status ss d"
  "list_trades_by_status ss (get_or_create_safety_state d) = list_trades_by_status ss d"
  "list_trades_by_status ss (activate_kill_switch t d) = list_trades_by_status ss d"
  by (simp_all add: list_trades_by_status_def)

text \<open>
  C9: activating the kill switch never fails, whatever the exchange answers: a cancellation of
  every pending order (submitted, unknown, partially filled) is sent, in order and exactly once
  each, also after one of them fails; the committed state has the switch on and the in-memory
  flag is set; in shadow mode, or without a client, nothing is sent; and a second activation
  sends nothing.
\<close>

theorem kill_switch_activate_sweeps:
  "case kill_switch_activate e c w of (r, w') \<Rightarrow> r = Inr ()
    \<and> sent w' = sent w @ (if c \<and> \<not> killed (cur w) \<and> trading_mode (cfg e) \<noteq> SHADOW
        then map (\<lambda>t. Cancel (t_symbol t) None (t_order_link_id t))
               (filter (\<lambda>t. t_status t \<in> {ORDER_SUBMITTED, ORDER_PENDING_UNKNOWN, ORDER_PARTIALLY_FILLED})
                 (trades (cur w)))
        else [])
    \<and> killed (saved w') \<and> ks_flag w' \<and> trades (saved w') = trades (cur w)"
proof -
  have keep: "trades (append_system_event ty n d) = trades d" for ty n d
    by (simp add: append_system_event_def)
  have kill: "killed (activate_kill_switch t d)" for t d
    by (simp add: killed_def activate_kill_switch_def)
  have clear: "killed (clear_pause_if_expired t d) = killed d" for t d
    by (simp add: killed_def clear_pause_if_expired_def Let_def)
  have sts: "list_trades_by_status cancellable_statuses d =
      filter (\<lambda>t. t_status t \<in> {ORDER_SUBMITTED, ORDER_PENDING_UNKNOWN, ORDER_PARTIALLY_FILLED}) (trades d)" for d
    by (simp add: list_trades_by_status_def cancellable_statuses_def)
  show ?thesis
  proof (cases "killed (cur w)")
    case True
    then show ?thesis by (simp add: kill_switch_activate_def bnd_def status_run clear)
  next
    case False
    show ?thesis
    proof (cases "c \<and> trading_mode (cfg e) \<noteq> SHADOW")
      case True
      with False show ?thesis
        by (simp add: kill_switch_activate_def bnd_Inr[OF status_run] andthen_Inr[OF cancel_pending_run]
            sts keep kill)
    next
      case other: False
      with False show ?thesis
        by (auto simp: kill_switch_activate_def bnd_Inr[OF status_run] keep kill)
    qed
  qed
qed

text \<open>
  While the committed state has the kill switch on, the guard of every order raises in every
  session at any time and sends nothing, and the switch is still on afterwards.
\<close>

theorem kill_switch_guard_blocks:
  assumes "killed (saved w)"
  shows "fst (in_session (kill_switch_guard e) w) = Inl KillSwitchActiveError
    \<and> sent (snd (in_session (kill_switch_guard e) w)) = sent w
    \<and> killed (saved (snd (in_session (kill_switch_guard e) w)))"
  using assms by (simp add: in_session_def kill_switch_guard_def bnd_Inr[OF status_run])
    (simp add: killed_def clear_pause_if_expired_def Let_def)

theorem kill_switch_guard_blocks_witness:
  "fst (in_session (kill_switch_guard calm_env)
     (snd (post_kill calm_env fresh_world))) = Inl KillSwitchActiveError"
proof -
  have "killed (saved (snd (post_kill calm_env fresh_world)))" by code_simp
  from kill_switch_guard_blocks[OF this] show ?thesis by simp
qed

end
