(* ===== verification/RiskManager.thy ===== *)
theory RiskManager
  imports Prelude
begin

text \<open>
  \<^verbatim>\<open>backend/risk_manager/calculator.py\<close>: the reward/risk test, the raw position
  size (floats) and the rounding to the exchange's lot rules (Decimals of the floats' shortest
  text, 28 significant digits, half-even; \<open>ROUND_DOWN\<close> for the number of steps).
\<close>

subsection \<open>Operations\<close>

definition check_rrr :: "pyfloat \<Rightarrow> pyfloat \<Rightarrow> pyfloat \<Rightarrow> pyfloat \<Rightarrow> exc + bool" where
  "check_rrr entry stop target min_rrr =
     (let potential_risk = \<bar>fsub entry stop\<bar>; potential_profit = \<bar>fsub target entry\<bar>
      in if potential_risk = 0 then Inl ZeroRiskDistanceError
         else Inr (min_rrr \<le> fdiv potential_profit potential_risk))"

definition calculate_position_raw :: "pyfloat \<Rightarrow> pyfloat \<Rightarrow> pyfloat \<Rightarrow> pyfloat \<Rightarrow> exc + pyfloat" where
  "calculate_position_raw equity entry stop risk_pct =
     (if equity \<le> 0 then Inl InvalidRiskInputError
      else if risk_pct \<le> 0 then Inl InvalidRiskInputError
      else if entry = stop then Inl ZeroRiskDistanceError
      else Inr (fdiv (fmul equity risk_pct) \<bar>fsub entry stop\<bar>))"

definition round_down_to_step :: "decimal \<Rightarrow> decimal \<Rightarrow> decimal" where
  "round_down_to_step qty step = dmul (of_int (trunc0 (ddiv qty step))) step"

definition apply_exchange_constraints ::
  "pyfloat \<Rightarrow> pyfloat \<Rightarrow> pyfloat \<Rightarrow> pyfloat \<Rightarrow> pyfloat \<Rightarrow> exc + pyfloat"
where
  "apply_exchange_constraints qty entry_price qty_step min_qty min_notional =
     (if qty \<le> 0 then Inl InvalidRiskInputError
      else if dec_of_float qty_step = 0 then Inl ZeroDivisionError
      else
        let round_qty = round_down_to_step (dec_of_float qty) (dec_of_float qty_step);
            notional = dmul round_qty (dec_of_float entry_price)
        in if round_qty < dec_of_float min_qty then Inl BelowMinQtyError
           else if notional < dec_of_float min_notional then Inl BelowMinNotionalError
           else Inr (fl round_qty))"

subsection \<open>Decimal scaling\<close>

lemma ilog_unique:
  assumes "1 < b" "0 < x" "rat_of_nat b powi k \<le> x" "x < rat_of_nat b powi (k + 1)"
  shows "ilog b x = k"
proof -
  have b: "1 < rat_of_nat b" using assms(1) by simp
  have "rat_of_nat b powi k < rat_of_nat b powi (ilog b x + 1)"
    using assms(3) ilog_bounds(2)[OF assms(1,2)] by simp
  then have "k < ilog b x + 1" by (rule powi_less[OF b])
  moreover have "rat_of_nat b powi ilog b x < rat_of_nat b powi (k + 1)"
    using assms(4) ilog_bounds(1)[OF assms(1,2)] by simp
  then have "ilog b x < k + 1" by (rule powi_less[OF b])
  ultimately show ?thesis by simp
qed

lemma ilog_scale:
  assumes "1 < b" "0 < x"
  shows "ilog b (x * rat_of_nat b powi j) = ilog b x + j"
proof (rule ilog_unique[OF assms(1)])
  have p: "0 < rat_of_nat b powi j" using assms(1) by (intro powi_pos) simp
  then show "0 < x * rat_of_nat b powi j" using assms(2) by simp
  have b: "rat_of_nat b \<noteq> 0" using assms(1) by simp
  show "rat_of_nat b powi (ilog b x + j) \<le> x * rat_of_nat b powi j"
    using ilog_bounds(1)[OF assms] p b by (simp add: power_int_add)
  have "rat_of_nat b powi (ilog b x + 1) * rat_of_nat b powi j
      = rat_of_nat b powi (ilog b x + j + 1)"
    using b by (simp add: power_int_add)
  then show "x * rat_of_nat b powi j < rat_of_nat b powi (ilog b x + j + 1)"
    using ilog_bounds(2)[OF assms] p by (metis mult_strict_right_mono)
qed

lemma round_digits_scale:
  assumes "1 < b" "0 < x"
  shows "round_digits b p (x * rat_of_nat b powi j) = round_digits b p x * rat_of_nat b powi j"
proof -
  have b: "rat_of_nat b \<noteq> 0" using assms(1) by simp
  have p: "0 < rat_of_nat b powi j" using assms(1) by (intro powi_pos) simp
  have u: "ulp b p (x * rat_of_nat b powi j) = ulp b p x * rat_of_nat b powi j"
    using assms p b by (simp add: ulp_def abs_mult ilog_scale power_int_add power_int_diff)
  show ?thesis using assms(2) p by (simp add: round_digits_pos u)
qed

lemma dc_scale: "0 < x \<Longrightarrow> dc (x * 10 powi j) = dc x * 10 powi j"
  using round_digits_scale[of 10 x 28 j] by (simp add: dc_def)

text \<open>An integer part needs no more digits than the number it is taken from.\<close>

lemma is_dec_floor:
  assumes "is_dec x" "0 \<le> x"
  shows "is_dec (of_int \<lfloor>x\<rfloor>)"
proof -
  have "of_int \<lfloor>x\<rfloor> \<le> x" by simp
  then have le: "dc (of_int \<lfloor>x\<rfloor>) \<le> x" using assms(1) by (metis dco.mono is_dec_def)
  show ?thesis
  proof (cases "\<lfloor>x\<rfloor> = 0")
    case True
    then show ?thesis by simp
  next
    case False
    define n where "n = \<lfloor>x\<rfloor>"
    have n1: "0 < n" using False assms(2) by (simp add: n_def less_le)
    then have n: "0 < n" "0 < x" using \<open>of_int \<lfloor>x\<rfloor> \<le> x\<close> by (simp_all add: n_def)
    have nx: "rat_of_int n \<le> x" "x < rat_of_int n + 1" unfolding n_def by linarith+
    have lg: "ilog 10 (of_int n) = ilog 10 x"
    proof -
      have a: "rat_of_nat 10 powi ilog 10 (of_int n) \<le> of_int n"
        and c: "rat_of_int n < rat_of_nat 10 powi (ilog 10 (of_int n) + 1)"
        using ilog_bounds[of 10 "of_int n"] n by simp_all
      have k0: "0 \<le> ilog 10 (of_int n)"
      proof (rule ccontr)
        assume "\<not> ?thesis"
        then have "rat_of_nat 10 powi (ilog 10 (of_int n) + 1) \<le> rat_of_nat 10 powi 0"
          by (intro power_int_increasing) auto
        with c n show False by simp
      qed
      have "x < rat_of_nat 10 powi (ilog 10 (of_int n) + 1)"
      proof -
        define m where "m = (10::int) ^ nat (ilog 10 (of_int n) + 1)"
        have "rat_of_nat 10 powi (ilog 10 (of_int n) + 1) = of_int m"
          using k0 by (simp add: m_def power_int_def)
        moreover from this c have "n < m" by simp
        then have "rat_of_int n + 1 \<le> of_int m" by (metis of_int_1 of_int_add of_int_le_iff zless_imp_add1_zle)
        ultimately show ?thesis using nx by simp
      qed
      moreover have "rat_of_nat 10 powi ilog 10 (of_int n) \<le> x" using a nx by simp
      ultimately show ?thesis using ilog_unique[of 10 x "ilog 10 (of_int n)"] n by simp
    qed
    have dx: "dc x = x" using assms(1) by (simp add: is_dec_def)
    show ?thesis
    proof (cases "ulp 10 28 x \<le> 1")
      case True
      have e: "ilog 10 x - 28 + 1 \<le> 0"
      proof (rule ccontr)
        assume "\<not> ?thesis"
        then have "rat_of_nat 10 powi 1 \<le> rat_of_nat 10 powi (ilog 10 x - 28 + 1)"
          by (intro power_int_increasing) auto
        with True n show False by (simp add: ulp_def)
      qed
      define j where "j = nat (28 - 1 - ilog 10 x)"
      have u: "ulp 10 28 (of_int n) = 1 / 10 ^ j"
        using n e by (simp add: ulp_def lg j_def power_int_def field_simps)
      have "round_even (of_int n / ulp 10 28 (of_int n)) = n * 10 ^ j"
        using round_even_int[of "n * 10 ^ j"] by (simp add: u)
      then have "dc (of_int n) = of_int n"
        using n by (simp add: dc_def round_digits_pos u)
      then show ?thesis by (simp add: is_dec_def n_def)
    next
      case False
      have e: "1 \<le> ilog 10 x - 28 + 1"
      proof (rule ccontr)
        assume "\<not> ?thesis"
        then have "rat_of_nat 10 powi (ilog 10 x - 28 + 1) \<le> rat_of_nat 10 powi 0"
          by (intro power_int_increasing) auto
        with False n show False by (simp add: ulp_def)
      qed
      define k where "k = round_even (x / ulp 10 28 x)"
      have "x = of_int k * ulp 10 28 x"
        using dx n by (simp add: dc_def round_digits_pos k_def)
      also have "ulp 10 28 x = of_int (10 ^ nat (ilog 10 x - 28 + 1))"
        using n e by (simp add: ulp_def power_int_def)
      finally have "x = of_int (k * 10 ^ nat (ilog 10 x - 28 + 1))" by simp
      then obtain m where m: "x = of_int m" by blast
      show ?thesis using assms(1) unfolding m floor_of_int .
    qed
  qed
qed

lemma is_dec_scale: "is_dec x \<Longrightarrow> 0 \<le> x \<Longrightarrow> is_dec (x * 10 powi j)"
  using dc_scale[of x j] by (cases "x = 0") (auto simp: is_dec_def dco.zero)

text \<open>Rounding down to a power of ten is exact.\<close>

lemma round_down_power_of_ten:
  assumes "is_dec q" "0 \<le> q"
  shows "round_down_to_step q (10 powi (- k)) = of_int \<lfloor>q * 10 powi k\<rfloor> * 10 powi (- k)"
proof -
  have d: "ddiv q (10 powi (- k)) = q * 10 powi k"
    using is_dec_scale[OF assms, of k]
    by (simp add: ddiv_def is_dec_def power_int_minus field_simps)
  have nn: "0 \<le> q * 10 powi k" using assms(2) by simp
  have "is_dec (of_int \<lfloor>q * 10 powi k\<rfloor>)"
    using is_dec_floor[OF is_dec_scale[OF assms] nn] .
  then have "is_dec (of_int \<lfloor>q * 10 powi k\<rfloor> * 10 powi (- k))"
    using nn by (intro is_dec_scale) simp_all
  then show ?thesis
    using nn by (simp add: round_down_to_step_def d trunc0_def dmul_def is_dec_def)
qed

lemma round_down_bounds:
  assumes "is_dec q" "0 \<le> q"
  shows "round_down_to_step q (10 powi (- k)) \<le> q"
    and "q < round_down_to_step q (10 powi (- k)) + 10 powi (- k)"
proof -
  have p: "(10 :: rat) powi k * 10 powi (- k) = 1"
    by (simp add: power_int_minus)
  have "of_int \<lfloor>q * 10 powi k\<rfloor> * 10 powi (- k) \<le> q * 10 powi k * (10 powi (- k) :: rat)"
    by (intro mult_right_mono) simp_all
  then show "round_down_to_step q (10 powi (- k)) \<le> q"
    by (simp add: round_down_power_of_ten[OF assms] mult.assoc p)
  have "q * 10 powi k * 10 powi (- k) < (of_int \<lfloor>q * 10 powi k\<rfloor> + 1) * (10 powi (- k) :: rat)"
    by (intro mult_strict_right_mono) (linarith, simp add: powi_pos)
  then show "q < round_down_to_step q (10 powi (- k)) + 10 powi (- k)"
    by (simp add: round_down_power_of_ten[OF assms] mult.assoc p distrib_right)
qed

subsection \<open>Properties\<close>

text \<open>
  C10: an accepted quantity is the largest multiple of the (power of ten) lot step that does not
  exceed the requested one, rounded to a float; it is at least the exchange's minimum, its
  notional value at the entry price is at least the minimum notional, and it never exceeds the
  requested quantity.
\<close>

theorem apply_exchange_constraints_sound:
  assumes "apply_exchange_constraints qty price step mq mn = Inr r"
    and "dec_of_float step = 10 powi (- k)"
    and "is_float qty" "is_float mq" "is_dec (dec_of_float qty)"
  shows "r = fl (of_int \<lfloor>dec_of_float qty * 10 powi k\<rfloor> * 10 powi (- k))
    \<and> dec_of_float qty < of_int \<lfloor>dec_of_float qty * 10 powi k\<rfloor> * 10 powi (- k) + dec_of_float step
    \<and> mq \<le> r \<and> r \<le> qty
    \<and> dec_of_float mn \<le> dmul (of_int \<lfloor>dec_of_float qty * 10 powi k\<rfloor> * 10 powi (- k)) (dec_of_float price)"
proof -
  define q where "q = dec_of_float qty"
  define w where "w = round_down_to_step q (10 powi (- k))"
  have qty: "0 < qty" "dec_of_float step \<noteq> 0" and r: "r = fl w"
    and mq: "dec_of_float mq \<le> w" and mn: "dec_of_float mn \<le> dmul w (dec_of_float price)"
    using assms(1,2) by (auto simp: apply_exchange_constraints_def q_def w_def Let_def split: if_splits)
  have q: "is_dec q" "0 \<le> q" using assms(3,5) qty by (simp_all add: q_def dec_of_float_nonneg)
  have w: "w = of_int \<lfloor>q * 10 powi k\<rfloor> * 10 powi (- k)"
    unfolding w_def by (rule round_down_power_of_ten[OF q])
  have "mq \<le> r" using flo.mono[OF mq] assms(4) by (simp add: r fl_dec_of_float)
  moreover have "r \<le> qty"
    using flo.mono[OF round_down_bounds(1)[OF q, of k]] assms(3) by (simp add: r w_def q_def fl_dec_of_float)
  moreover have "q < w + dec_of_float step"
    using round_down_bounds(2)[OF q, of k] assms(2) by (simp add: w_def)
  ultimately show ?thesis using r mn by (simp add: w q_def)
qed

theorem apply_exchange_constraints_sound_witness:
  "apply_exchange_constraints (5 / 2) 100 1 2 5 = Inr 2
    \<and> (2 :: rat) \<le> 5 / 2"
proof -
  have run: "apply_exchange_constraints (5 / 2) 100 1 2 5 = Inr 2"
    by code_simp
  have step: "dec_of_float 1 = 10 powi (- 0)" by code_simp
  have "is_float (5 / 2)" "is_float 2" "is_dec (dec_of_float (5 / 2))" by code_simp+
  from apply_exchange_constraints_sound[OF run step this] run show ?thesis by simp
qed

text \<open>
  The position is sized so that a stop-out loses the configured fraction of the equity: the
  quantity times the distance between entry and stop is the fraction times the equity, up to
  four units of float rounding, and equity, fraction and distance are all positive.
\<close>

theorem calculate_position_raw_risks_fraction:
  assumes "calculate_position_raw equity entry stop pct = Inr q"
  shows "0 < q \<and> 0 < equity \<and> 0 < pct \<and> entry \<noteq> stop
    \<and> \<bar>q * \<bar>entry - stop\<bar> - equity * pct\<bar> \<le> equity * pct * (1 / 2 ^ 51)"
proof -
  have p: "0 < equity" "0 < pct" "entry \<noteq> stop"
    and q: "q = fdiv (fl (equity * pct)) (fl \<bar>entry - stop\<bar>)"
    using assms by (auto simp: calculate_position_raw_def abs_fsub fmul_def split: if_splits)
  have a: "0 \<le> equity * pct" "0 < equity * pct" and d: "0 < \<bar>entry - stop\<bar>" using p by simp_all
  have "0 < q" using a d by (simp add: q fdiv_def flo.signs)
  moreover have "\<bar>q * \<bar>entry - stop\<bar> - equity * pct\<bar> \<le> equity * pct * (1 / 2 ^ 51)"
  proof -
    have "equity * pct * (1 - 1 / 2 ^ 51) \<le> q * \<bar>entry - stop\<bar>"
      "q * \<bar>entry - stop\<bar> \<le> equity * pct * (1 + 1 / 2 ^ 51)"
      using fdiv_near[OF a(1) d] by (simp_all add: q unit_roundoff_def)
    then show ?thesis by (rule within_relative)
  qed
  ultimately show ?thesis using p by simp
qed

theorem calculate_position_raw_risks_fraction_witness:
  "calculate_position_raw 4 100 98 (1 / 2) = Inr 1 \<and> \<bar>1 * \<bar>100 - 98\<bar> - 4 * (1 / 2)\<bar> \<le> 4 * (1 / 2) * (1 / (2 :: rat) ^ 51)"
proof -
  have run: "calculate_position_raw 4 100 98 (1 / 2) = Inr 1" by code_simp
  from calculate_position_raw_risks_fraction[OF run] run show ?thesis by simp
qed

text \<open>
  The reward/risk test decides the exact ratio up to four units of float rounding: an
  accepted signal has at least \<open>min_rrr\<close> times its risk as reward, a refused one at most that,
  and the only error is a stop at the entry price.
\<close>

theorem check_rrr_decides:
  assumes "0 \<le> min_rrr"
  shows "case check_rrr entry stop target min_rrr of
      Inl e \<Rightarrow> e = ZeroRiskDistanceError \<and> entry = stop
    | Inr True \<Rightarrow> min_rrr * \<bar>entry - stop\<bar> \<le> \<bar>target - entry\<bar> * (1 + 1 / 2 ^ 51)
    | Inr False \<Rightarrow> \<bar>target - entry\<bar> * (1 - 1 / 2 ^ 51) \<le> min_rrr * \<bar>entry - stop\<bar>"
proof (cases "entry = stop")
  case True
  then show ?thesis by (simp add: check_rrr_def abs_fsub flo.zero)
next
  case False
  define a where "a = \<bar>target - entry\<bar>"
  define d where "d = \<bar>entry - stop\<bar>"
  define q where "q = fdiv (fl a) (fl d)"
  have a: "0 \<le> a" and d: "0 < d" using False by (simp_all add: a_def d_def)
  have c: "check_rrr entry stop target min_rrr = Inr (min_rrr \<le> q)"
    using False d by (simp add: check_rrr_def abs_fsub q_def a_def d_def flo.signs)
  have near: "a * (1 - 1 / 2 ^ 51) \<le> q * d" "q * d \<le> a * (1 + 1 / 2 ^ 51)"
    using fdiv_near[OF a d] by (simp_all add: q_def unit_roundoff_def)
  show ?thesis
  proof (cases "min_rrr \<le> q")
    case True
    then have "min_rrr * d \<le> q * d" using d by (intro mult_right_mono) simp_all
    with near(2) have "min_rrr * d \<le> a * (1 + 1 / 2 ^ 51)" by (rule order_trans[rotated])
    with True show ?thesis by (simp add: c a_def d_def)
  next
    case False
    then have "q * d \<le> min_rrr * d" using d by (intro mult_right_mono) simp_all
    with near(1) have "a * (1 - 1 / 2 ^ 51) \<le> min_rrr * d" by (rule order_trans)
    with False show ?thesis by (simp add: c a_def d_def)
  qed
qed

theorem check_rrr_decides_witness:
  "check_rrr 100 98 104 2 = Inr True \<and> (2 :: rat) * \<bar>100 - 98\<bar> \<le> \<bar>104 - 100\<bar> * (1 + 1 / 2 ^ 51)"
proof -
  have run: "check_rrr 100 98 104 2 = Inr True" by code_simp
  show ?thesis using check_rrr_decides[of 2 100 98 104] by (simp add: run)
qed

end
