(* ===== verification/OrderExecutor.thy ===== *)
theory OrderExecutor
  imports SafetyGuard RiskManager
begin

text \<open>
  \<^verbatim>\<open>backend/order_executor\<close>: the pipeline from a signal to an order.  The
  \<^verbatim>\<open>execute\<close> method is the composition of its numbered steps, each a definition
  here; \<^verbatim>\<open>category\<close> is the argument of the same name.
\<close>

subsection \<open>Idempotency\<close>

fun is_trade_terminal :: "trade_status \<Rightarrow> bool" where
  "is_trade_terminal ORDER_REJECTED = True"
| "is_trade_terminal ORDER_CANCELLED = True"
| "is_trade_terminal POSITION_CLOSED = True"
| "is_trade_terminal POSITION_CLOSE_FAILED = True"
| "is_trade_terminal PNL_RECORDED = True"
| "is_trade_terminal _ = False"

definition generate_order_link_id :: "env \<Rightarrow> string \<Rightarrow> string op" where
  "generate_order_link_id e signal_id =
     bnd draw (\<lambda>n. ret (signal_id @ ''_'' @ take 8 (hex_of e n)))"

text \<open>\<^verbatim>\<open>str(trade.signal_id)\<close>\<close>

definition signal_text :: "env \<Rightarrow> trade \<Rightarrow> string" where
  "signal_text e t = (case t_signal_id t of Some s \<Rightarrow> uuid_str e s | None \<Rightarrow> ''None'')"

definition is_order_already_submitted :: "nat \<Rightarrow> db \<Rightarrow> bool" where
  "is_order_already_submitted sid d =
     list_ex (\<lambda>t. t_signal_id t = Some sid \<and> \<not> is_trade_terminal (t_status t)) (trades d)"

subsection \<open>Helpers of the executor\<close>

fun is_api_error :: "exc \<Rightarrow> bool" where
  "is_api_error (BybitAPIError _) = True"
| "is_api_error _ = False"

fun is_uncertain_error :: "exc \<Rightarrow> bool" where
  "is_uncertain_error BybitConnectionError = True"
| "is_uncertain_error TimeoutError = True"
| "is_uncertain_error _ = False"

definition lower_char :: "char \<Rightarrow> char" where
  "lower_char c = (if 65 \<le> (of_char c :: nat) \<and> (of_char c :: nat) \<le> 90
     then char_of ((of_char c :: nat) + 32) else c)"

fun contains :: "string \<Rightarrow> string \<Rightarrow> bool" where
  "contains p [] = (p = [])"
| "contains p (c # s) = (take (length p) (c # s) = p \<or> contains p s)"

fun looks_like_post_only_rejection :: "exc \<Rightarrow> bool" where
  "looks_like_post_only_rejection (BybitAPIError m) =
     (contains ''postonly'' (map lower_char m) \<or> contains ''post only'' (map lower_char m))"
| "looks_like_post_only_rejection _ = False"

fun map_remote_order_status :: "remote_status \<Rightarrow> trade_status" where
  "map_remote_order_status Filled = ORDER_CONFIRMED"
| "map_remote_order_status Cancelled = ORDER_CANCELLED"
| "map_remote_order_status PartiallyFilled = ORDER_PARTIALLY_FILLED"
| "map_remote_order_status Rejected = ORDER_REJECTED"
| "map_remote_order_status OtherStatus = ORDER_PENDING_UNKNOWN"

definition effective_risk_per_trade_pct :: "env \<Rightarrow> pyfloat" where
  "effective_risk_per_trade_pct e =
     (if canary_mode (cfg e) \<and> trading_mode (cfg e) \<noteq> SHADOW
      then fmul (risk_per_trade_pct (cfg e)) (canary_risk_multiplier (cfg e))
      else risk_per_trade_pct (cfg e))"

text \<open>A coin without a name or an amount is skipped; a later entry for a coin replaces an earlier one.\<close>

definition extract_wallet_balances :: "wallet_item list \<Rightarrow> (string \<times> decimal) list" where
  "extract_wallet_balances items =
     foldl (\<lambda>acc it.
       if wi_coin it = [] then acc
       else case (case wi_equity it of Some a \<Rightarrow> Some a | None \<Rightarrow> wi_wallet_balance it) of
              None \<Rightarrow> acc
            | Some a \<Rightarrow> AList.update (wi_coin it) a acc) [] items"

definition balance_of :: "(string \<times> decimal) list \<Rightarrow> string \<Rightarrow> decimal" where
  "balance_of bs c = or_zero (map_of bs c)"

definition validate_spot_balances ::
  "signal_direction \<Rightarrow> decimal \<Rightarrow> decimal \<Rightarrow> instrument \<Rightarrow> (string \<times> decimal) list \<Rightarrow> exc + unit"
where
  "validate_spot_balances direction entry qty inst bs =
     (if in_base_coin inst = [] \<or> in_quote_coin inst = [] then Inl RiskManagerError
      else if direction = LONG then
        (if balance_of bs (in_quote_coin inst) < dmul qty entry
         then Inl InsufficientSpotBalanceError else Inr ())
      else if balance_of bs (in_base_coin inst) < qty
        then Inl InsufficientSpotBalanceError else Inr ())"

subsection \<open>Steps 1 to 7: guards and sizing\<close>

definition fetch_equity :: "env \<Rightarrow> (pyfloat \<times> (string \<times> decimal) list) op" where
  "fetch_equity e =
     (if trading_mode (cfg e) = SHADOW then ret (shadow_equity (cfg e), [])
      else bnd (get_wallet_balance e) (\<lambda>items.
        let bs = extract_wallet_balances items in ret (fl (balance_of bs ''USDT''), bs)))"

definition lot_step :: "instrument \<Rightarrow> pyfloat" where
  "lot_step inst = (case in_qty_step inst of Some s \<Rightarrow> s
     | None \<Rightarrow> (case in_base_precision inst of Some s \<Rightarrow> s | None \<Rightarrow> fl (1 / 1000000)))"

definition constrained_quantity ::
  "env \<Rightarrow> string \<Rightarrow> string \<Rightarrow> signal_direction \<Rightarrow> pyfloat \<Rightarrow> pyfloat \<Rightarrow> (string \<times> decimal) list
    \<Rightarrow> pyfloat op"
where
  "constrained_quantity e category symbol direction entry qty_raw bs =
     (if trading_mode (cfg e) = SHADOW then ret (py_round 8 qty_raw)
      else bnd (get_instruments_info e symbol) (\<lambda>inst.
        case in_min_order_qty inst of
          None \<Rightarrow> throw KeyError
        | Some min_qty \<Rightarrow>
            bnd (from_sum (apply_exchange_constraints qty_raw entry (lot_step inst) min_qty
                   (case in_min_order_amt inst of Some a \<Rightarrow> a | None \<Rightarrow> 0))) (\<lambda>qty.
            andthen (if category = ''spot''
                     then from_sum (validate_spot_balances direction (dec_of_float entry)
                            (dec_of_float qty) inst bs)
                     else ret ())
              (ret qty))))"

definition size_order ::
  "env \<Rightarrow> string \<Rightarrow> string \<Rightarrow> signal_direction \<Rightarrow> pyfloat \<Rightarrow> pyfloat \<Rightarrow> pyfloat
    \<Rightarrow> (pyfloat \<times> pyfloat) op"
where
  "size_order e category symbol direction entry stop target =
     bnd (fetch_equity e) (\<lambda>(equity, bs).
     bnd (from_sum (calculate_position_raw equity entry stop (effective_risk_per_trade_pct e))) (\<lambda>qty_raw.
     bnd (from_sum (check_rrr entry stop target (min_rrr (cfg e)))) (\<lambda>ok.
     andthen (raise_if (\<not> ok) RiskManagerError)
     (bnd (constrained_quantity e category symbol direction entry qty_raw bs) (\<lambda>qty.
       ret (equity, qty))))))"

definition open_position_count :: "db \<Rightarrow> int" where
  "open_position_count d = int (length (filter (\<lambda>t. t_status t = POSITION_OPEN) (trades d)))"

definition trade_open_risk :: "trade \<Rightarrow> decimal" where
  "trade_open_risk t =
     (let r = or_zero (t_risk_amount_usd t) in
      if t_status t = ORDER_PARTIALLY_FILLED \<and> truthy (t_qty t) \<and> truthy (t_filled_qty t)
      then dmul r (ddiv (or_zero (t_filled_qty t)) (or_zero (t_qty t))) else r)"

definition open_risk :: "db \<Rightarrow> decimal" where
  "open_risk d = dsum (map trade_open_risk
     (list_trades_by_status [POSITION_OPEN, POSITION_CLOSE_PENDING, ORDER_PARTIALLY_FILLED] d))"

definition exposure_exceeded :: "env \<Rightarrow> decimal \<Rightarrow> db \<Rightarrow> bool" where
  "exposure_exceeded e equity d \<longleftrightarrow>
     dmul equity (dec_of_float (max_total_risk_exposure_pct (cfg e)))
       < dadd (open_risk d) (dmul equity (dec_of_float (effective_risk_per_trade_pct e)))"

definition check_position_limits :: "env \<Rightarrow> pyfloat \<Rightarrow> unit op" where
  "check_position_limits e equity =
     bnd (reads cur) (\<lambda>d.
     andthen (raise_if (max_open_positions (cfg e) \<le> open_position_count d) RiskManagerError)
       (raise_if (exposure_exceeded e (dec_of_float equity) d) RiskManagerError))"

subsection \<open>Step 8: the trade row\<close>

definition side_of :: "signal_direction \<Rightarrow> exchange_side" where
  "side_of direction = (if direction = LONG then BUY else SELL)"

definition new_trade ::
  "env \<Rightarrow> nat \<Rightarrow> string \<Rightarrow> signal_direction \<Rightarrow> pyfloat \<Rightarrow> pyfloat \<Rightarrow> pyfloat \<Rightarrow> string \<Rightarrow> pyfloat \<Rightarrow> pyfloat
    \<Rightarrow> trade"
where
  "new_trade e sid symbol direction entry stop target link equity qty =
     blank_trade\<lparr>t_signal_id := Some sid, t_order_link_id := Some link, t_symbol := symbol,
       t_signal_direction := direction, t_exchange_side := side_of direction,
       t_market_type := SPOT, t_mode := trading_mode (cfg e),
       t_equity_at_entry := Some (dec_of_float equity),
       t_risk_amount_usd := Some (dec_of_float (fmul equity (effective_risk_per_trade_pct e))),
       t_risk_pct := Some (dec_of_float (effective_risk_per_trade_pct e)),
       t_entry_price := Some (dec_of_float entry), t_stop_price := Some (dec_of_float stop),
       t_target_price := Some (dec_of_float target),
       t_expected_rrr := Some (dec_of_float (fdiv \<bar>fsub target entry\<bar> \<bar>fsub entry stop\<bar>)),
       t_qty := Some (dec_of_float qty), t_status := RISK_CALCULATED\<rparr>"

definition persist_trade ::
  "env \<Rightarrow> nat \<Rightarrow> string \<Rightarrow> signal_direction \<Rightarrow> pyfloat \<Rightarrow> pyfloat \<Rightarrow> pyfloat \<Rightarrow> pyfloat \<Rightarrow> pyfloat \<Rightarrow> nat op"
where
  "persist_trade e sid symbol direction entry stop target equity qty =
     bnd (generate_order_link_id e (uuid_str e sid)) (\<lambda>link.
     bnd (insert_trade (\<lambda>_. new_trade e sid symbol direction entry stop target link equity qty)
            [(''source'', ''order_executor'')]) (\<lambda>i.
     andthen (increment_trade_count e) (ret i)))"

subsection \<open>Steps 9 and 10: submission\<close>

definition limit_req ::
  "string \<Rightarrow> string \<Rightarrow> exchange_side \<Rightarrow> pyfloat \<Rightarrow> pyfloat \<Rightarrow> pyfloat \<Rightarrow> pyfloat \<Rightarrow> string \<Rightarrow> order_req"
where
  "limit_req category symbol side qty entry stop target link =
     \<lparr>rq_category = category, rq_symbol = symbol, rq_side = side, rq_order_type = ''Limit'',
      rq_qty = dec_of_float qty, rq_price = Some (dec_of_float entry), rq_order_link_id = Some link,
      rq_is_post_only = True, rq_sl_price = Some (dec_of_float stop),
      rq_tp_price = Some (dec_of_float target), rq_market_unit = None, rq_trigger_price = None,
      rq_order_filter = None, rq_reduce_only = False\<rparr>"

definition market_req ::
  "string \<Rightarrow> string \<Rightarrow> exchange_side \<Rightarrow> pyfloat \<Rightarrow> pyfloat \<Rightarrow> pyfloat \<Rightarrow> string \<Rightarrow> order_req"
where
  "market_req category symbol side qty stop target link =
     \<lparr>rq_category = category, rq_symbol = symbol, rq_side = side, rq_order_type = ''Market'',
      rq_qty = dec_of_float qty, rq_price = None, rq_order_link_id = Some link,
      rq_is_post_only = False,
      rq_sl_price = (if category = ''spot'' then None else Some (dec_of_float stop)),
      rq_tp_price = (if category = ''spot'' then None else Some (dec_of_float target)),
      rq_market_unit = (if side = BUY then Some ''baseCoin'' else None), rq_trigger_price = None,
      rq_order_filter = None, rq_reduce_only = False\<rparr>"

definition set_order_type :: "nat \<Rightarrow> string \<Rightarrow> bool \<Rightarrow> unit op" where
  "set_order_type i ty post_only =
     on_cur (upd_trade i (\<lambda>t. t\<lparr>t_order_type := Some ty, t_is_post_only := post_only\<rparr>))"

definition place_market ::
  "env \<Rightarrow> nat \<Rightarrow> string \<Rightarrow> string \<Rightarrow> exchange_side \<Rightarrow> pyfloat \<Rightarrow> pyfloat \<Rightarrow> pyfloat \<Rightarrow> string
    \<Rightarrow> (string option \<times> string) op"
where
  "place_market e i category symbol side qty stop target link =
     bnd (place_order e (market_req category symbol side qty stop target link)) (\<lambda>oid.
     andthen (set_order_type i ''Market'' False) (ret (oid, link)))"

definition place_limit ::
  "env \<Rightarrow> nat \<Rightarrow> string \<Rightarrow> string \<Rightarrow> exchange_side \<Rightarrow> pyfloat \<Rightarrow> pyfloat \<Rightarrow> pyfloat \<Rightarrow> pyfloat \<Rightarrow> string
    \<Rightarrow> (string option \<times> string) op"
where
  "place_limit e i category symbol side qty entry stop target link =
     bnd (place_order e (limit_req category symbol side qty entry stop target link)) (\<lambda>oid.
     andthen (set_order_type i ''Limit'' True) (ret (oid, link)))"

definition current_link :: "env \<Rightarrow> nat \<Rightarrow> string op" where
  "current_link e i = bnd (the_trade i) (\<lambda>t.
     case t_order_link_id t of
       Some l \<Rightarrow> ret l
     | None \<Rightarrow> generate_order_link_id e (signal_text e t))"

definition submit_order ::
  "env \<Rightarrow> nat \<Rightarrow> nat \<Rightarrow> string \<Rightarrow> string \<Rightarrow> exchange_side \<Rightarrow> pyfloat \<Rightarrow> pyfloat \<Rightarrow> pyfloat \<Rightarrow> pyfloat
    \<Rightarrow> unit op"
where
  "submit_order e i sid category symbol side qty entry stop target =
     bnd (current_link e i) (\<lambda>link.
     bnd (if order_mode (cfg e) = Taker_Allowed
          then place_market e i category symbol side qty stop target link
          else catch (place_limit e i category symbol side qty entry stop target link) is_api_error
            (\<lambda>x. if order_mode (cfg e) = Maker_Preferred \<and> looks_like_post_only_rejection x
                 then bnd (generate_order_link_id e (uuid_str e sid)) (\<lambda>link2.
                   andthen (on_cur (upd_trade i (\<lambda>t. t\<lparr>t_order_link_id := Some link2\<rparr>)))
                     (place_market e i category symbol side qty stop target link2))
                 else throw x)) (\<lambda>(oid, used).
     andthen (on_cur (upd_trade i (\<lambda>t. t\<lparr>t_exchange_order_id := oid\<rparr>)))
     (andthen (on_cur (transition_trade_status i ORDER_SUBMITTED [(''source'', ''order_executor'')]))
       (on_cur (upd_trade i (\<lambda>t. t\<lparr>t_order_link_id := Some used\<rparr>))))))"

definition reconcile_pending_unknown :: "env \<Rightarrow> nat \<Rightarrow> string \<Rightarrow> string option \<Rightarrow> unit op" where
  "reconcile_pending_unknown e i category symbol =
     bnd (the_trade i) (\<lambda>t.
     case t_order_link_id t of
       None \<Rightarrow> ret ()
     | Some l \<Rightarrow>
         bnd (catch (get_order_status e category
                       (case symbol of Some s \<Rightarrow> s | None \<Rightarrow> t_symbol t) l)
                is_uncertain_error (\<lambda>_. ret None)) (\<lambda>r.
         case r of
           None \<Rightarrow> ret ()
         | Some ro \<Rightarrow>
             andthen (on_cur (upd_trade i (\<lambda>t. t\<lparr>t_exchange_order_id := ro_order_id ro\<rparr>)))
               (on_cur (transition_trade_status i (map_remote_order_status (ro_status ro))
                  [(''source'', ''pending_unknown_reconciliation'')]))))"

definition handle_submit_uncertainty :: "env \<Rightarrow> nat \<Rightarrow> string \<Rightarrow> string \<Rightarrow> unit op" where
  "handle_submit_uncertainty e i category symbol =
     andthen (on_cur (transition_trade_status i ORDER_PENDING_UNKNOWN
                [(''source'', ''order_executor''), (''reason'', ''submit_uncertain'')]))
     (andthen (reconcile_pending_unknown e i category (Some symbol)) commit)"

definition submit_trade ::
  "env \<Rightarrow> nat \<Rightarrow> nat \<Rightarrow> string \<Rightarrow> string \<Rightarrow> exchange_side \<Rightarrow> pyfloat \<Rightarrow> pyfloat \<Rightarrow> pyfloat \<Rightarrow> pyfloat
    \<Rightarrow> unit op"
where
  "submit_trade e i sid category symbol side qty entry stop target =
     andthen (on_cur (transition_trade_status i SAFETY_CHECKED [(''source'', ''order_executor'')]))
     (andthen (on_cur (upd_trade i (\<lambda>t. t\<lparr>t_order_type := Some ''Limit''\<rparr>)))
     (andthen
       (catch (submit_order e i sid category symbol side qty entry stop target)
          (\<lambda>x. is_api_error x \<or> is_uncertain_error x)
          (\<lambda>x. if is_api_error x
               then andthen (on_cur (transition_trade_status i ORDER_REJECTED
                       [(''source'', ''order_executor''), (''reason'', ''exchange_rejected'')]))
                    (andthen commit (throw x))
               else handle_submit_uncertainty e i category symbol))
       commit))"

text \<open>Steps 9 and 10: shadow mode logs the order, the others send it.\<close>

definition finish_execution ::
  "env \<Rightarrow> nat \<Rightarrow> nat \<Rightarrow> string \<Rightarrow> string \<Rightarrow> exchange_side \<Rightarrow> pyfloat \<Rightarrow> pyfloat \<Rightarrow> pyfloat \<Rightarrow> pyfloat
    \<Rightarrow> nat op"
where
  "finish_execution e i sid category symbol side qty entry stop target =
     (if trading_mode (cfg e) = SHADOW
      then andthen (on_cur (transition_trade_status i ORDER_SUBMITTED
               [(''source'', ''order_executor''), (''execution_mode'', ''shadow'')]))
             (andthen commit (ret i))
      else andthen (submit_trade e i sid category symbol side qty entry stop target) (ret i))"

definition execute ::
  "env \<Rightarrow> nat \<Rightarrow> string \<Rightarrow> signal_direction \<Rightarrow> pyfloat \<Rightarrow> pyfloat \<Rightarrow> pyfloat \<Rightarrow> string \<Rightarrow> nat op"
where
  "execute e sid symbol direction entry stop target category =
     andthen (kill_switch_guard e)
     (andthen (circuit_breaker_check e)
     (bnd (reads cur) (\<lambda>d.
     andthen (raise_if (is_order_already_submitted sid d) OrderAlreadySubmittedError)
     (bnd (size_order e category symbol direction entry stop target) (\<lambda>(equity, qty).
     andthen (check_position_limits e equity)
     (bnd (persist_trade e sid symbol direction entry stop target equity qty) (\<lambda>i.
       finish_execution e i sid category symbol (side_of direction) qty entry stop target)))))))"

subsection \<open>Frames\<close>

lemma keeps_status_simps [simp]:
  "keeps_status (\<lambda>t. t\<lparr>t_order_type := a, t_is_post_only := b\<rparr>)"
  "keeps_status (\<lambda>t. t\<lparr>t_order_link_id := c\<rparr>)"
  "keeps_status (\<lambda>t. t\<lparr>t_exchange_order_id := c\<rparr>)" "keeps_status (\<lambda>t. t\<lparr>t_order_type := a\<rparr>)"
  by (simp_all add: keeps_status_def)

context store_invariant
begin

lemma keep_link: "keeps I (generate_order_link_id e sid)"
  unfolding generate_order_link_id_def by (intro keep_rules)

lemma keep_size: "keeps I (size_order e c s dir en st ta)"
  unfolding size_order_def fetch_equity_def constrained_quantity_def Let_def by (intro keep_rules)

lemma keep_limits: "keeps I (check_position_limits e q)"
  unfolding check_position_limits_def by (intro keep_rules)

lemma keep_persist: "keeps I (persist_trade e sid s dir en st ta eq q)"
  unfolding persist_trade_def by (intro keep_rules keep_link keep_trade_count) (simp add: new_trade_def)

lemma keep_place_market: "keeps I (place_market e i c s sd q st ta l)"
  unfolding place_market_def set_order_type_def by (intro keep_rules lawful_fields keeps_status_simps)

lemma keep_place_limit: "keeps I (place_limit e i c s sd q en st ta l)"
  unfolding place_limit_def set_order_type_def by (intro keep_rules lawful_fields keeps_status_simps)

lemma keep_submit_order: "keeps I (submit_order e i sid c s sd q en st ta)"
  unfolding submit_order_def current_link_def
  by (intro keep_rules keep_link keep_place_market keep_place_limit lawful_fields lawful_rules
      keeps_status_simps)

lemma map_remote_open: "map_remote_order_status r \<noteq> POSITION_CLOSED"
  by (cases r) simp_all

lemma keep_reconcile: "keeps I (reconcile_pending_unknown e i c s)"
  unfolding reconcile_pending_unknown_def
  by (intro keep_rules lawful_fields map_remote_open lawful_rules keeps_status_simps)

lemma keep_submit_trade: "keeps I (submit_trade e i sid c s sd q en st ta)"
  unfolding submit_trade_def handle_submit_uncertainty_def
  by (intro keep_rules keep_submit_order keep_reconcile lawful_fields lawful_rules keeps_status_simps)

lemma keep_execute: "keeps I (execute e sid s dir en st ta c)"
  unfolding execute_def finish_execution_def
  by (intro keep_rules keep_safety keep_size keep_limits keep_persist keep_submit_trade lawful_rules)

end

subsection \<open>What is sent\<close>

text \<open>\<open>emits S m w\<close>: from \<open>w\<close> the program sends nothing, or a sequence of requests in \<open>S\<close>.\<close>

definition emits :: "(request list \<Rightarrow> bool) \<Rightarrow> 'a op \<Rightarrow> world \<Rightarrow> bool" where
  "emits S m w \<longleftrightarrow> (\<exists>rs. sent (snd (m w)) = sent w @ rs \<and> (rs = [] \<or> S rs))"

lemma emits_quiet: "quiet m \<Longrightarrow> emits S m w"
  by (cases "m w") (simp add: emits_def quiet_run)

lemma emits_bnd_quiet:
  assumes "quiet m" "\<And>a w1. m w = (Inr a, w1) \<Longrightarrow> sent w1 = sent w \<Longrightarrow> emits S (f a) w1"
  shows "emits S (bnd m f) w"
proof -
  obtain r w1 where m: "m w = (r, w1)" by (cases "m w")
  have s: "sent w1 = sent w" by (rule quiet_run[OF assms(1) m])
  show ?thesis
  proof (cases r)
    case (Inl x)
    then show ?thesis by (simp add: emits_def bnd_def m s)
  next
    case (Inr a)
    then show ?thesis using assms(2)[of a w1] m s by (simp add: emits_def bnd_def)
  qed
qed

lemma emits_andthen_quiet:
  "quiet m \<Longrightarrow> (\<And>a w1. m w = (Inr a, w1) \<Longrightarrow> sent w1 = sent w \<Longrightarrow> emits S n w1) \<Longrightarrow> emits S (andthen m n) w"
  by (simp add: andthen_def emits_bnd_quiet)

lemma emits_then_quiet:
  assumes "emits S m w" "\<And>a. quiet (f a)"
  shows "emits S (bnd m f) w"
proof -
  obtain r w1 where m: "m w = (r, w1)" by (cases "m w")
  show ?thesis
  proof (cases r)
    case (Inl x)
    then show ?thesis using assms(1) by (simp add: emits_def bnd_def m)
  next
    case (Inr a)
    obtain r2 w2 where f: "f a w1 = (r2, w2)" by (cases "f a w1")
    have "sent w2 = sent w1" by (rule quiet_run[OF assms(2) f])
    with Inr show ?thesis using assms(1) by (simp add: emits_def bnd_def m f)
  qed
qed

lemma emits_catch:
  assumes "emits S m w" "\<And>x. quiet (h x)"
  shows "emits S (catch m p h) w"
proof -
  obtain r w1 where m: "m w = (r, w1)" by (cases "m w")
  show ?thesis
  proof (cases r)
    case (Inl x)
    obtain r2 w2 where h: "h x w1 = (r2, w2)" by (cases "h x w1")
    have "sent w2 = sent w1" by (rule quiet_run[OF assms(2) h])
    with Inl show ?thesis using assms(1) by (simp add: emits_def catch_def m h)
  next
    case (Inr a)
    then show ?thesis using assms(1) by (simp add: emits_def catch_def m)
  qed
qed

lemma link_quiet: "quiet (generate_order_link_id e sid)" "quiet (current_link e i)"
  unfolding generate_order_link_id_def current_link_def by (intro send_rules)+

lemma set_type_quiet: "quiet (set_order_type i ty b)"
  unfolding set_order_type_def by (intro send_rules)

lemma size_quiet: "quiet (size_order e c s dir en st ta)"
  unfolding size_order_def fetch_equity_def constrained_quantity_def Let_def by (intro send_rules)

lemma limits_quiet: "quiet (check_position_limits e q)"
  unfolding check_position_limits_def by (intro send_rules)

lemma persist_quiet: "quiet (persist_trade e sid s dir en st ta eq q)"
  unfolding persist_trade_def increment_trade_count_def by (intro send_rules link_quiet)

lemma reconcile_quiet: "quiet (reconcile_pending_unknown e i c s)"
  unfolding reconcile_pending_unknown_def by (intro send_rules)

lemma uncertainty_quiet: "quiet (handle_submit_uncertainty e i c s)"
  unfolding handle_submit_uncertainty_def by (intro send_rules reconcile_quiet)

text \<open>
  The order sequences an execution may produce: one market order, one post-only limit order, or
  a post-only limit order that the exchange refused for being post-only and a market order.
\<close>

definition order_sequence ::
  "env \<Rightarrow> request list \<Rightarrow> string \<Rightarrow> string \<Rightarrow> exchange_side \<Rightarrow> pyfloat \<Rightarrow> pyfloat \<Rightarrow> pyfloat \<Rightarrow> pyfloat
    \<Rightarrow> request list \<Rightarrow> bool"
where
  "order_sequence e lg c s sd qty entry stop target rs \<longleftrightarrow>
     (if order_mode (cfg e) = Taker_Allowed
      then \<exists>l. rs = [Place (market_req c s sd qty stop target l)]
      else \<exists>l. rs = [Place (limit_req c s sd qty entry stop target l)]
        \<or> (order_mode (cfg e) = Maker_Preferred
           \<and> (\<exists>x l2. ex_place (exch e) lg (limit_req c s sd qty entry stop target l) = Inl x
                 \<and> looks_like_post_only_rejection x
                 \<and> rs = [Place (limit_req c s sd qty entry stop target l),
                         Place (market_req c s sd qty stop target l2)])))"

lemma place_market_sent:
  "sent (snd (place_market e i c s sd qty st ta l w)) = sent w @ [Place (market_req c s sd qty st ta l)]"
  by (simp add: place_market_def set_order_type_def bnd_def place_order_def andthen_def on_cur_def
      modify_def ret_def split: sum.splits)

lemma place_limit_run:
  "place_limit e i c s sd qty en st ta l w =
    (case ex_place (exch e) (sent w) (limit_req c s sd qty en st ta l) of
       Inl x \<Rightarrow> (Inl x, w\<lparr>sent := sent w @ [Place (limit_req c s sd qty en st ta l)]\<rparr>)
     | Inr oid \<Rightarrow> (Inr (oid, l), w\<lparr>sent := sent w @ [Place (limit_req c s sd qty en st ta l)],
          cur := upd_trade i (\<lambda>t. t\<lparr>t_order_type := Some ''Limit'', t_is_post_only := True\<rparr>) (cur w)\<rparr>))"
  by (simp add: place_limit_def set_order_type_def bnd_def place_order_def andthen_def on_cur_def
      modify_def ret_def split: sum.splits)

lemma submit_order_emits:
  "emits (order_sequence e (sent w) c s sd qty en st ta) (submit_order e i sid c s sd qty en st ta) w"
  unfolding submit_order_def
proof (rule emits_bnd_quiet[OF link_quiet(2)], rule emits_then_quiet)
  fix link and w1 :: world
  assume w1: "sent w1 = sent w"
  show "emits (order_sequence e (sent w) c s sd qty en st ta)
     (if order_mode (cfg e) = Taker_Allowed then place_market e i c s sd qty st ta link
      else catch (place_limit e i c s sd qty en st ta link) is_api_error
            (\<lambda>x. if order_mode (cfg e) = Maker_Preferred \<and> looks_like_post_only_rejection x
                 then bnd (generate_order_link_id e (uuid_str e sid)) (\<lambda>link2.
                   andthen (on_cur (upd_trade i (\<lambda>t. t\<lparr>t_order_link_id := Some link2\<rparr>)))
                     (place_market e i c s sd qty st ta link2))
                 else throw x)) w1" (is "emits ?S (if ?t then ?m else ?l) w1")
  proof (cases ?t)
    case True
    then show ?thesis by (auto simp: emits_def place_market_sent order_sequence_def)
  next
    case False
    show ?thesis
    proof (cases "ex_place (exch e) (sent w) (limit_req c s sd qty en st ta link)")
      case (Inl x)
      with False show ?thesis
        by (auto simp: emits_def catch_def place_limit_run w1 order_sequence_def bnd_def
            generate_order_link_id_def draw_def andthen_def on_cur_def modify_def ret_def throw_def
            place_market_sent)
    next
      case (Inr oid)
      with False show ?thesis
        by (auto simp: emits_def catch_def place_limit_run w1 order_sequence_def)
    qed
  qed
next
  fix a
  show "quiet (case a of (oid, used) \<Rightarrow>
     andthen (on_cur (upd_trade i (\<lambda>t. t\<lparr>t_exchange_order_id := oid\<rparr>)))
     (andthen (on_cur (transition_trade_status i ORDER_SUBMITTED [(''source'', ''order_executor'')]))
       (on_cur (upd_trade i (\<lambda>t. t\<lparr>t_order_link_id := Some used\<rparr>)))))"
    by (intro send_rules)
qed

lemma submit_trade_emits:
  "emits (order_sequence e (sent w) c s sd qty en st ta) (submit_trade e i sid c s sd qty en st ta) w"
proof -
  have h: "quiet (if is_api_error x
               then andthen (on_cur (transition_trade_status i ORDER_REJECTED
                       [(''source'', ''order_executor''), (''reason'', ''exchange_rejected'')]))
                    (andthen commit (throw x))
               else handle_submit_uncertainty e i c s)" for x
    by (intro send_rules uncertainty_quiet)
  have *: "emits (order_sequence e (sent w1) c s sd qty en st ta)
      (andthen (catch (submit_order e i sid c s sd qty en st ta)
          (\<lambda>x. is_api_error x \<or> is_uncertain_error x)
          (\<lambda>x. if is_api_error x
               then andthen (on_cur (transition_trade_status i ORDER_REJECTED
                       [(''source'', ''order_executor''), (''reason'', ''exchange_rejected'')]))
                    (andthen commit (throw x))
               else handle_submit_uncertainty e i c s)) commit) w1" for w1
    unfolding andthen_def[of _ commit]
    by (intro emits_then_quiet emits_catch submit_order_emits h send_rules)
  show ?thesis unfolding submit_trade_def
    using *[of "w\<lparr>cur := upd_trade i (\<lambda>t. t\<lparr>t_order_type := Some ''Limit''\<rparr>)
       (transition_trade_status i SAFETY_CHECKED [(''source'', ''order_executor'')] (cur w))\<rparr>"]
    by (simp add: emits_def)
qed

lemma finish_execution_emits:
  assumes "trading_mode (cfg e) \<noteq> SHADOW \<Longrightarrow>
      (\<And>rs. order_sequence e (sent w) c s sd qty en st ta rs \<Longrightarrow> S rs)"
  shows "emits S (finish_execution e i sid c s sd qty en st ta) w"
proof (cases "trading_mode (cfg e) = SHADOW")
  case True
  have "quiet (andthen (on_cur (transition_trade_status i ORDER_SUBMITTED
              [(''source'', ''order_executor''), (''execution_mode'', ''shadow'')]))
            (andthen commit (ret i)))" by (intro send_rules)
  with True show ?thesis by (simp add: finish_execution_def emits_quiet)
next
  case False
  have "emits S (submit_trade e i sid c s sd qty en st ta) w"
    using submit_trade_emits[of e w c s sd qty en st ta i sid] assms False
    by (auto simp: emits_def)
  with False show ?thesis
    unfolding finish_execution_def andthen_def by (simp add: emits_then_quiet send_rules)
qed

lemma size_keeps_cur: "size_order e c s dir en st ta w = (r, w') \<Longrightarrow> cur w' = cur w"
proof -
  have "steps (\<lambda>w w'. cur w' = cur w) (size_order e c s dir en st ta)"
    unfolding size_order_def fetch_equity_def constrained_quantity_def Let_def
    by (intro eqf.rules) (simp_all add: steps_def get_wallet_balance_def get_instruments_info_def)
  then show "size_order e c s dir en st ta w = (r, w') \<Longrightarrow> cur w' = cur w" by (rule stepsD)
qed

text \<open>The world after the two guards, in which the executor reads the journal.\<close>

definition after_guards :: "env \<Rightarrow> world \<Rightarrow> world" where
  "after_guards e w = snd (circuit_breaker_check e (snd (kill_switch_guard e w)))"


subsection \<open>What is committed\<close>

text \<open>\<open>newest ts i P w\<close>: the session's trades are \<open>ts\<close> and then one trade \<open>i\<close> with \<open>P\<close>.\<close>

definition newest :: "trade list \<Rightarrow> nat \<Rightarrow> (trade \<Rightarrow> bool) \<Rightarrow> db \<Rightarrow> bool" where
  "newest ts i P d \<longleftrightarrow> (\<forall>t \<in> set ts. t_id t \<noteq> i) \<and> (\<exists>t. trades d = ts @ [t] \<and> t_id t = i \<and> P t)"

lemma newest_upd:
  assumes "newest ts i P d" "\<And>t. P t \<Longrightarrow> t_id (f t) = t_id t \<and> Q (f t)"
  shows "newest ts i Q (upd_trade i f d)"
proof -
  have "update_where (\<lambda>t. t_id t = i) f ts = ts" if "\<forall>t \<in> set ts. t_id t \<noteq> i" for ts
    using that by (induction ts) (auto simp: update_where_def)
  with assms show ?thesis by (auto simp: newest_def upd_trade_def) (simp add: update_where_def)
qed

lemma newest_get:
  assumes "newest ts i P d"
  obtains t where "get_trade i d = Some t" "P t" "trades d = ts @ [t]" "t_id t = i"
    "\<forall>t \<in> set ts. t_id t \<noteq> i"
proof -
  obtain t where t: "trades d = ts @ [t]" "t_id t = i" "P t" "\<forall>t \<in> set ts. t_id t \<noteq> i"
    using assms by (auto simp: newest_def)
  then have "find (\<lambda>t. t_id t = i) ts = None" by (simp add: find_None_iff)
  with t have "get_trade i d = Some t" by (simp add: get_trade_def find_append)
  with t that show ?thesis by blast
qed

lemma newest_trades: "trades d' = trades d \<Longrightarrow> newest ts i P d' = newest ts i P d"
  by (simp add: newest_def)

lemma newest_transition:
  assumes "newest ts i P d" "\<And>t. P t \<Longrightarrow> Q (t\<lparr>t_status := s\<rparr>)"
  shows "newest ts i Q (transition_trade_status i s m d)"
proof -
  obtain t where t: "get_trade i d = Some t" "P t" "trades d = ts @ [t]" "t_id t = i"
    "\<forall>t \<in> set ts. t_id t \<noteq> i" using assms(1) by (rule newest_get)
  show ?thesis
  proof (cases "t_status t = s")
    case True
    have "t\<lparr>t_status := s\<rparr> = t" using True by simp
    with assms(2)[OF t(2)] have "Q t" by simp
    with True t show ?thesis by (simp add: transition_trade_status_def newest_def)
  next
    case False
    have "newest ts i Q (upd_trade i (\<lambda>t. t\<lparr>t_status := s\<rparr>) d)"
      using assms by (intro newest_upd[OF assms(1)]) simp
    with False t show ?thesis
      by (simp add: transition_trade_status_def append_trade_event_def newest_def)
  qed
qed

text \<open>The session's and the committed trades agree, and new keys are fresh.\<close>

definition synced :: "trade list \<Rightarrow> world \<Rightarrow> bool" where
  "synced ts w \<longleftrightarrow> trades (cur w) = ts \<and> trades (saved w) = ts \<and> (\<forall>t \<in> set ts. t_id t < draws w)"

abbreviation syncs :: "trade list \<Rightarrow> 'a op \<Rightarrow> bool" where
  "syncs ts m \<equiv> steps (preserves (synced ts)) m"

lemma sync_basic:
  "(\<And>d. trades (h d) = trades d) \<Longrightarrow> syncs ts (on_cur h)" "syncs ts commit"
  "syncs ts (modify (\<lambda>w. w\<lparr>ks_flag := g w\<rparr>))" "syncs ts (get_wallet_balance e)"
  "syncs ts (get_instruments_info e s)" "syncs ts draw"
  by (auto simp: steps_def preserves_def synced_def on_cur_def commit_def get_wallet_balance_def
      get_instruments_info_def draw_def)

lemma sync_event: "trades (append_system_event ty n d) = trades d"
  by (simp add: append_system_event_def)

lemma sync_check: "syncs ts (circuit_breaker_check e)"
  unfolding circuit_breaker_check_def trip_def Let_def
  by (intro kp.rules sync_basic) (simp_all add: sync_event)

lemma sync_size: "syncs ts (size_order e c s dir en st ta)"
  unfolding size_order_def fetch_equity_def constrained_quantity_def Let_def
  by (intro kp.rules sync_basic)

lemma sync_limits: "syncs ts (check_position_limits e q)"
  unfolding check_position_limits_def by (intro kp.rules sync_basic)

lemma guard_run:
  "kill_switch_guard e w = (if killed (cur w) then Inl KillSwitchActiveError else Inr (),
     w\<lparr>saved := clear_pause_if_expired (now e) (cur w), ks_flag := killed (cur w),
       cur := get_or_create_safety_state (clear_pause_if_expired (now e) (cur w))\<rparr>)"
  by (simp add: kill_switch_guard_def bnd_Inr[OF status_run] raise_if_run)

text \<open>\<open>pending ts i P\<close>: trade \<open>i\<close> is new in the session and not yet committed.\<close>

definition pending :: "trade list \<Rightarrow> nat \<Rightarrow> (trade \<Rightarrow> bool) \<Rightarrow> world \<Rightarrow> bool" where
  "pending ts i P w \<longleftrightarrow> newest ts i P (cur w) \<and> trades (saved w) = ts"

abbreviation stays_pending :: "trade list \<Rightarrow> nat \<Rightarrow> (trade \<Rightarrow> bool) \<Rightarrow> 'a op \<Rightarrow> bool" where
  "stays_pending ts i P m \<equiv> steps (preserves (pending ts i P)) m"

lemma pending_basic:
  "(\<And>d. newest ts i P d \<Longrightarrow> newest ts i P (h d)) \<Longrightarrow> stays_pending ts i P (on_cur h)"
  "stays_pending ts i P draw" "stays_pending ts i P (the_trade j)"
  "stays_pending ts i P (place_order e rq)" "stays_pending ts i P (get_order_status e c s l)"
  by (auto simp: steps_def preserves_def pending_def on_cur_def draw_def the_trade_def
      place_order_def get_order_status_def)

lemma pending_upd:
  "(\<And>t. P t \<Longrightarrow> t_id (f t) = t_id t \<and> P (f t)) \<Longrightarrow> stays_pending ts i P (on_cur (upd_trade i f))"
  by (rule pending_basic(1)) (rule newest_upd)

lemma pending_transition:
  "(\<And>t. P t \<Longrightarrow> P (t\<lparr>t_status := s\<rparr>)) \<Longrightarrow>
    stays_pending ts i P (on_cur (transition_trade_status i s m))"
  by (rule pending_basic(1)) (rule newest_transition)

lemmas pending_rules = kp.rules pending_upd pending_transition pending_basic(2-)

lemma pending_link: "stays_pending ts i P (generate_order_link_id e sid)"
  unfolding generate_order_link_id_def by (intro kp.rules pending_basic)

definition signalled :: "nat \<Rightarrow> trade \<Rightarrow> bool" where
  "signalled sid t \<longleftrightarrow> t_signal_id t = Some sid"

definition submitted_statuses :: "trade_status set" where
  "submitted_statuses = {ORDER_SUBMITTED, ORDER_PENDING_UNKNOWN, ORDER_CONFIRMED, ORDER_CANCELLED,
     ORDER_PARTIALLY_FILLED, ORDER_REJECTED}"

definition outcome_ok :: "nat \<Rightarrow> trade \<Rightarrow> bool" where
  "outcome_ok sid t \<longleftrightarrow> signalled sid t \<and> t_status t \<in> submitted_statuses"

lemma map_remote_submitted: "map_remote_order_status r \<in> submitted_statuses"
  by (cases r) (simp_all add: submitted_statuses_def)

lemma pending_market: "stays_pending ts i (signalled sid) (place_market e i c s sd q st ta l)"
  unfolding place_market_def set_order_type_def
  by (intro pending_rules) (auto simp: signalled_def)

lemma pending_limit: "stays_pending ts i (signalled sid) (place_limit e i c s sd q en st ta l)"
  unfolding place_limit_def set_order_type_def
  by (intro pending_rules) (auto simp: signalled_def)

lemma pending_current_link: "stays_pending ts i P (current_link e i)"
  unfolding current_link_def by (intro kp.rules pending_basic pending_link)

text \<open>The placing of the order, up to the answer that is kept.\<close>

definition place_attempts ::
  "env \<Rightarrow> nat \<Rightarrow> nat \<Rightarrow> string \<Rightarrow> string \<Rightarrow> exchange_side \<Rightarrow> pyfloat \<Rightarrow> pyfloat \<Rightarrow> pyfloat \<Rightarrow> pyfloat
    \<Rightarrow> (string option \<times> string) op"
where
  "place_attempts e i sid c s sd q en st ta = bnd (current_link e i) (\<lambda>link.
     if order_mode (cfg e) = Taker_Allowed then place_market e i c s sd q st ta link
     else catch (place_limit e i c s sd q en st ta link) is_api_error
            (\<lambda>x. if order_mode (cfg e) = Maker_Preferred \<and> looks_like_post_only_rejection x
                 then bnd (generate_order_link_id e (uuid_str e sid)) (\<lambda>link2.
                   andthen (on_cur (upd_trade i (\<lambda>t. t\<lparr>t_order_link_id := Some link2\<rparr>)))
                     (place_market e i c s sd q st ta link2))
                 else throw x))"

lemma submit_order_split:
  "submit_order e i sid c s sd q en st ta = bnd (place_attempts e i sid c s sd q en st ta) (\<lambda>(oid, used).
     andthen (on_cur (upd_trade i (\<lambda>t. t\<lparr>t_exchange_order_id := oid\<rparr>)))
     (andthen (on_cur (transition_trade_status i ORDER_SUBMITTED [(''source'', ''order_executor'')]))
       (on_cur (upd_trade i (\<lambda>t. t\<lparr>t_order_link_id := Some used\<rparr>)))))"
  by (simp add: submit_order_def place_attempts_def bnd_assoc)

lemma pending_attempts: "stays_pending ts i (signalled sid) (place_attempts e i sid' c s sd q en st ta)"
  unfolding place_attempts_def
  by (intro pending_rules pending_link pending_current_link pending_market pending_limit)
    (auto simp: signalled_def)

lemma pending_submit_order:
  "stays_pending ts i (signalled sid) (submit_order e i sid' c s sd q en st ta)"
  unfolding submit_order_split
  by (intro pending_rules pending_attempts) (auto simp: signalled_def)

lemma submit_order_Inr:
  assumes "submit_order e i sid' c s sd q en st ta w = (Inr (), w')" "pending ts i (signalled sid) w"
  shows "newest ts i (outcome_ok sid) (cur w')"
proof -
  obtain oid used w1 where p: "place_attempts e i sid' c s sd q en st ta w = (Inr (oid, used), w1)"
    and t: "w' = w1\<lparr>cur := upd_trade i (\<lambda>t. t\<lparr>t_order_link_id := Some used\<rparr>)
       (transition_trade_status i ORDER_SUBMITTED [(''source'', ''order_executor'')]
         (upd_trade i (\<lambda>t. t\<lparr>t_exchange_order_id := oid\<rparr>) (cur w1)))\<rparr>"
    using assms(1) unfolding submit_order_split
    by (elim bnd_InrE) (auto split: prod.splits)
  have "newest ts i (signalled sid) (cur w1)"
    using keeps_run[OF pending_attempts, of ts i sid w e sid' c s sd q en st ta] assms(2) p
    by (simp add: pending_def)
  then have "newest ts i (signalled sid) (upd_trade i (\<lambda>t. t\<lparr>t_exchange_order_id := oid\<rparr>) (cur w1))"
    by (rule newest_upd) (simp add: signalled_def)
  then have "newest ts i (outcome_ok sid)
      (transition_trade_status i ORDER_SUBMITTED [(''source'', ''order_executor'')]
         (upd_trade i (\<lambda>t. t\<lparr>t_exchange_order_id := oid\<rparr>) (cur w1)))"
    by (rule newest_transition) (simp add: outcome_ok_def signalled_def submitted_statuses_def)
  then show ?thesis unfolding t
    by (simp, elim newest_upd) (simp add: outcome_ok_def signalled_def)
qed

lemma pending_reconcile: "stays_pending ts i (outcome_ok sid) (reconcile_pending_unknown e i c s)"
  unfolding reconcile_pending_unknown_def
  by (intro pending_rules) (auto simp: outcome_ok_def signalled_def map_remote_submitted)

text \<open>What a submission leaves: a committed outcome, a committed rejection, or nothing.\<close>

definition settled :: "trade list \<Rightarrow> nat \<Rightarrow> nat \<Rightarrow> (exc + 'a) \<times> world \<Rightarrow> bool" where
  "settled ts i sid res = (case res of
     (Inr _, w') \<Rightarrow> newest ts i (outcome_ok sid) (saved w') \<and> cur w' = saved w'
   | (Inl x, w') \<Rightarrow> trades (saved w') = ts
        \<or> is_api_error x \<and> newest ts i (\<lambda>t. signalled sid t \<and> t_status t = ORDER_REJECTED) (saved w'))"

lemma uncertainty_settled:
  assumes "pending ts i (signalled sid) w"
  shows "settled ts i sid (handle_submit_uncertainty e i c s w)"
proof -
  define w1 where "w1 = w\<lparr>cur := transition_trade_status i ORDER_PENDING_UNKNOWN
    [(''source'', ''order_executor''), (''reason'', ''submit_uncertain'')] (cur w)\<rparr>"
  have p: "pending ts i (outcome_ok sid) w1"
    using assms by (auto simp: pending_def w1_def outcome_ok_def signalled_def submitted_statuses_def
        elim!: newest_transition)
  obtain r w2 where r: "reconcile_pending_unknown e i c (Some s) w1 = (r, w2)"
    by (cases "reconcile_pending_unknown e i c (Some s) w1")
  have "pending ts i (outcome_ok sid) w2" using keeps_run[OF pending_reconcile p, of e c "Some s"] r by simp
  then show ?thesis
    by (cases r) (simp_all add: handle_submit_uncertainty_def w1_def[symmetric] andthen_def[of "reconcile_pending_unknown e i c (Some s)"]
        bnd_def r settled_def pending_def)
qed

lemma submit_trade_settled:
  assumes "pending ts i (signalled sid) w"
  shows "settled ts i sid (submit_trade e i sid' c s sd q en st ta w)"
proof -
  define w1 where "w1 = w\<lparr>cur := upd_trade i (\<lambda>t. t\<lparr>t_order_type := Some ''Limit''\<rparr>)
       (transition_trade_status i SAFETY_CHECKED [(''source'', ''order_executor'')] (cur w))\<rparr>"
  have p1: "pending ts i (signalled sid) w1"
  proof -
    have "newest ts i (signalled sid)
        (transition_trade_status i SAFETY_CHECKED [(''source'', ''order_executor'')] (cur w))"
      using assms by (auto simp: pending_def signalled_def elim!: newest_transition)
    then show ?thesis using assms
      by (auto simp: pending_def w1_def signalled_def elim!: newest_upd)
  qed
  obtain r w2 where r: "submit_order e i sid' c s sd q en st ta w1 = (r, w2)"
    by (cases "submit_order e i sid' c s sd q en st ta w1")
  have p2: "pending ts i (signalled sid) w2"
    using keeps_run[OF pending_submit_order p1, of e sid' c s sd q en st ta] r by simp
  have run: "submit_trade e i sid' c s sd q en st ta w = (case r of
      Inr _ \<Rightarrow> (Inr (), w2\<lparr>saved := cur w2\<rparr>)
    | Inl x \<Rightarrow> if is_api_error x
        then (Inl x, w2\<lparr>cur := transition_trade_status i ORDER_REJECTED
                [(''source'', ''order_executor''), (''reason'', ''exchange_rejected'')] (cur w2),
             saved := transition_trade_status i ORDER_REJECTED
                [(''source'', ''order_executor''), (''reason'', ''exchange_rejected'')] (cur w2)\<rparr>)
        else if is_uncertain_error x
        then andthen (handle_submit_uncertainty e i c s) commit w2
        else (Inl x, w2))"
    by (cases r) (simp_all add: submit_trade_def w1_def[symmetric] andthen_def bnd_def catch_def r
        on_cur_def commit_def modify_def throw_def)
  show ?thesis
  proof (cases r)
    case (Inr u)
    then show ?thesis using submit_order_Inr[of e i sid' c s sd q en st ta w1 w2 ts sid] r p1
      by (simp add: run settled_def)
  next
    case (Inl x)
    have "newest ts i (\<lambda>t. signalled sid t \<and> t_status t = ORDER_REJECTED)
        (transition_trade_status i ORDER_REJECTED
           [(''source'', ''order_executor''), (''reason'', ''exchange_rejected'')] (cur w2))"
      using p2 by (auto simp: pending_def signalled_def elim!: newest_transition)
    moreover have "settled ts i sid (andthen (handle_submit_uncertainty e i c s) commit w2)"
      using uncertainty_settled[OF p2, of e c s]
      by (cases "handle_submit_uncertainty e i c s w2"; cases "fst (handle_submit_uncertainty e i c s w2)")
        (auto simp: andthen_def bnd_def settled_def)
    ultimately show ?thesis using Inl p2 by (auto simp: run settled_def pending_def)
  qed
qed

lemma persist_pending:
  assumes "synced ts w" "persist_trade e sid s dir en st ta eq q w = (r, w')"
  shows "\<exists>i. r = Inr i \<and> pending ts i (signalled sid) w'"
proof -
  define i where "i = Suc (draws w)"
  define t where "t = (new_trade e sid s dir en st ta (uuid_str e sid @ ''_'' @ take 8 (hex_of e (draws w))) eq q)\<lparr>t_id := i\<rparr>"
  have r: "r = Inr i" and tr: "trades (cur w') = ts @ [t]" "trades (saved w') = ts"
    using assms by (auto simp: persist_trade_def generate_order_link_id_def insert_trade_def Let_def
        bnd_def draw_def ret_def increment_trade_count_def increment_daily_trade_count_def andthen_def
        on_cur_def modify_def i_def t_def synced_def record_trade_created_def append_trade_event_def
        add_trade_def split: option.splits)
  have "t_id t = i" "signalled sid t" by (simp_all add: t_def signalled_def new_trade_def)
  then show ?thesis using r tr assms(1) by (fastforce simp: pending_def newest_def synced_def i_def)
qed

lemma finish_settled:
  assumes "pending ts i (signalled sid) w"
  shows "settled ts i sid (finish_execution e i sid' c s sd q en st ta w)
    \<and> (\<forall>j w'. finish_execution e i sid' c s sd q en st ta w = (Inr j, w') \<longrightarrow> j = i)"
proof (cases "trading_mode (cfg e) = SHADOW")
  case True
  have "newest ts i (outcome_ok sid) (transition_trade_status i ORDER_SUBMITTED m (cur w))" for m
    using assms by (auto simp: pending_def outcome_ok_def signalled_def submitted_statuses_def
        elim!: newest_transition)
  with True show ?thesis by (simp add: finish_execution_def settled_def)
next
  case False
  obtain r w1 where r: "submit_trade e i sid' c s sd q en st ta w = (r, w1)"
    by (cases "submit_trade e i sid' c s sd q en st ta w")
  from submit_trade_settled[OF assms, of e sid' c s sd q en st ta] False show ?thesis
    by (cases r) (auto simp: finish_execution_def andthen_def bnd_def r settled_def ret_def)
qed

lemma persist_finish_settled:
  assumes "synced ts w"
  shows "\<exists>i. settled ts i sid (bnd (persist_trade e sid s dir en st ta eq q) (\<lambda>i.
      finish_execution e i sid c s (side_of dir) q en st ta) w)
    \<and> (\<forall>j w'. bnd (persist_trade e sid s dir en st ta eq q) (\<lambda>i.
      finish_execution e i sid c s (side_of dir) q en st ta) w = (Inr j, w') \<longrightarrow> j = i)"
proof -
  obtain r w1 where r: "persist_trade e sid s dir en st ta eq q w = (r, w1)"
    by (cases "persist_trade e sid s dir en st ta eq q w")
  from persist_pending[OF assms r] obtain i where i: "r = Inr i" "pending ts i (signalled sid) w1" by auto
  from finish_settled[OF i(2), of e sid c s "side_of dir" q en st ta] show ?thesis
    by (auto simp: bnd_def r i(1))
qed

text \<open>Before the trade row is written, an error leaves the journal as it was.\<close>

lemma settled_bnd:
  assumes "syncs ts m" "synced ts w"
    and "\<And>a w'. synced ts w' \<Longrightarrow> \<exists>i. settled ts i sid (f a w') \<and> (\<forall>j w''. f a w' = (Inr j, w'') \<longrightarrow> j = i)"
  shows "\<exists>i. settled ts i sid (bnd m f w) \<and> (\<forall>j w''. bnd m f w = (Inr j, w'') \<longrightarrow> j = i)"
proof -
  obtain r w1 where r: "m w = (r, w1)" by (cases "m w")
  have s: "synced ts w1" using keeps_run[OF assms(1,2)] r by simp
  show ?thesis
  proof (cases r)
    case (Inl x)
    with s show ?thesis by (simp add: bnd_def r settled_def synced_def)
  next
    case (Inr a)
    with assms(3)[OF s, of a] show ?thesis by (simp add: bnd_def r)
  qed
qed

lemma execute_settled:
  assumes "ids_below (draws w) (cur w)"
  shows "\<exists>i. settled (trades (cur w)) i sid (execute e sid s dir en st ta c w)
      \<and> (\<forall>j w''. execute e sid s dir en st ta c w = (Inr j, w'') \<longrightarrow> j = i)"
proof -
  define ts where "ts = trades (cur w)"
  show ?thesis
  proof (cases "killed (cur w)")
    case True
    then show ?thesis
      by (simp add: execute_def andthen_def[of "kill_switch_guard e"] bnd_def guard_run settled_def ts_def)
  next
    case False
    define w1 where "w1 = snd (kill_switch_guard e w)"
    have g: "kill_switch_guard e w = (Inr (), w1)" and s1: "synced ts w1"
      using False assms by (auto simp: guard_run w1_def synced_def ts_def ids_below_def)
    have "\<exists>i. settled ts i sid (andthen (circuit_breaker_check e)
        (bnd (reads cur) (\<lambda>d. andthen (raise_if (is_order_already_submitted sid d) OrderAlreadySubmittedError)
        (bnd (size_order e c s dir en st ta) (\<lambda>(equity, qty). andthen (check_position_limits e equity)
        (bnd (persist_trade e sid s dir en st ta equity qty) (\<lambda>i.
          finish_execution e i sid c s (side_of dir) qty en st ta)))))) w1)
      \<and> (\<forall>j w''. andthen (circuit_breaker_check e)
        (bnd (reads cur) (\<lambda>d. andthen (raise_if (is_order_already_submitted sid d) OrderAlreadySubmittedError)
        (bnd (size_order e c s dir en st ta) (\<lambda>(equity, qty). andthen (check_position_limits e equity)
        (bnd (persist_trade e sid s dir en st ta equity qty) (\<lambda>i.
          finish_execution e i sid c s (side_of dir) qty en st ta)))))) w1 = (Inr j, w'') \<longrightarrow> j = i)"
      unfolding andthen_def
      by (rule settled_bnd[OF sync_check s1], rule settled_bnd[OF kp.reads], assumption,
          rule settled_bnd[OF kp.raise_if], assumption, rule settled_bnd[OF sync_size], assumption,
          clarify, rule settled_bnd[OF sync_limits], assumption, rule persist_finish_settled)
    then show ?thesis by (simp add: execute_def andthen_Inr[of "kill_switch_guard e", OF g] ts_def)
  qed
qed

lemma execute_committed:
  assumes "ids_below (draws w) (cur w)" "execute e sid s dir en st ta c w = (Inr i, w')"
  shows "cur w' = saved w' \<and> (\<forall>t \<in> set (trades (cur w)). t_id t \<noteq> i)
    \<and> (\<exists>t. trades (cur w') = trades (cur w) @ [t] \<and> t_id t = i \<and> outcome_ok sid t)"
  using execute_settled[OF assms(1), of sid e s dir en st ta c] assms(2)
  by (auto simp: settled_def newest_def)



subsection \<open>An order the journal forgets\<close>

definition first_request ::
  "env \<Rightarrow> string \<Rightarrow> string \<Rightarrow> exchange_side \<Rightarrow> pyfloat \<Rightarrow> pyfloat \<Rightarrow> pyfloat \<Rightarrow> pyfloat \<Rightarrow> string \<Rightarrow> order_req"
where
  "first_request e c s sd q en st ta l =
     (if order_mode (cfg e) = Taker_Allowed then market_req c s sd q st ta l
      else limit_req c s sd q en st ta l)"

text \<open>
  When the placement ends in a timeout or a connection error, and the exchange then answers
  the status query with an API error, the submission raises that error and nothing of the trade
  is committed, although the order was sent and may be live.
\<close>

theorem uncertain_submission_can_be_lost:
  assumes "get_trade i (cur w) = Some t" "t_order_link_id t = Some l"
    and "ex_place (exch e) (sent w) (first_request e c s sd q en st ta l) = Inl x" "is_uncertain_error x"
    and "ex_order_status (exch e) (sent w @ [Place (first_request e c s sd q en st ta l)]) c s l
           = Inl (BybitAPIError m)"
  shows "fst (submit_trade e i sid c s sd q en st ta w) = Inl (BybitAPIError m)
    \<and> saved (snd (submit_trade e i sid c s sd q en st ta w)) = saved w
    \<and> sent (snd (submit_trade e i sid c s sd q en st ta w))
        = sent w @ [Place (first_request e c s sd q en st ta l)]"
proof -
  have nx: "\<not> is_api_error x" "\<not> looks_like_post_only_rejection x" using assms(4) by (cases x; simp)+
  define w1 where "w1 = w\<lparr>cur := upd_trade i (\<lambda>t. t\<lparr>t_order_type := Some ''Limit''\<rparr>)
       (transition_trade_status i SAFETY_CHECKED [(''source'', ''order_executor'')] (cur w))\<rparr>"
  have link_upd: "\<exists>u. get_trade i (upd_trade i f d) = Some u \<and> t_order_link_id u = Some l"
    if "\<exists>u. get_trade i d = Some u \<and> t_order_link_id u = Some l"
      "\<And>t. t_id (f t) = t_id t \<and> t_order_link_id (f t) = t_order_link_id t" for f d
    using that by (auto simp: get_trade_def upd_trade_def find_update_where)
  have link_tr: "\<exists>u. get_trade i (transition_trade_status i s' m' d) = Some u \<and> t_order_link_id u = Some l"
    if u: "\<exists>u. get_trade i d = Some u \<and> t_order_link_id u = Some l" for s' m' d
    using u link_upd[OF u, of "\<lambda>t. t\<lparr>t_status := s'\<rparr>"]
    by (auto simp: transition_trade_status_def append_trade_event_def get_trade_def)
  have l1: "\<exists>u. get_trade i (cur w1) = Some u \<and> t_order_link_id u = Some l"
    using assms(1,2) unfolding w1_def by (simp, intro link_upd link_tr) auto
  define w2 where "w2 = w1\<lparr>sent := sent w @ [Place (first_request e c s sd q en st ta l)]\<rparr>"
  have sub: "submit_order e i sid c s sd q en st ta w1 = (Inl x, w2)"
  proof -
    have link: "current_link e i w1 = (Inr l, w1)"
      using l1 by (auto simp: current_link_def the_trade_def trade_of_def)
    have s1: "sent w1 = sent w" by (simp add: w1_def)
    show ?thesis using assms(3) nx
      by (auto simp: submit_order_def bnd_def link place_market_def place_order_def catch_def
          place_limit_run first_request_def w2_def s1)
  qed
  define w3 where "w3 = w2\<lparr>cur := transition_trade_status i ORDER_PENDING_UNKNOWN
    [(''source'', ''order_executor''), (''reason'', ''submit_uncertain'')] (cur w2)\<rparr>"
  have l3: "\<exists>u. get_trade i (cur w3) = Some u \<and> t_order_link_id u = Some l"
    using l1 link_tr by (simp add: w3_def w2_def)
  have rec: "reconcile_pending_unknown e i c (Some s) w3 = (Inl (BybitAPIError m), w3)"
    using l3 assms(5) by (auto simp: reconcile_pending_unknown_def the_trade_def trade_of_def
        bnd_def catch_def get_order_status_def w3_def w2_def)
  have "submit_trade e i sid c s sd q en st ta w = (Inl (BybitAPIError m), w3)"
    using nx assms(4) rec
    by (simp add: submit_trade_def w1_def[symmetric] andthen_def bnd_def catch_def sub
        handle_submit_uncertainty_def on_cur_def modify_def w3_def[symmetric])
  then show ?thesis by (simp add: w3_def w2_def w1_def)
qed

definition flaky_env :: env where
  "flaky_env = calm_env\<lparr>exch := (exch calm_env)\<lparr>ex_place := \<lambda>_ _. Inl TimeoutError,
     ex_order_status := \<lambda>_ _ _ _. Inl (BybitAPIError ''rate limit'')\<rparr>\<rparr>"

definition one_trade_world :: world where
  "one_trade_world = fresh_world\<lparr>cur := add_trade
     (blank_trade\<lparr>t_id := 1, t_order_link_id := Some ''a''\<rparr>) empty_db\<rparr>"

theorem uncertain_submission_can_be_lost_witness:
  "fst (submit_trade flaky_env 1 0 ''spot'' ''BTCUSDT'' BUY 1 100 98 104 one_trade_world)
      = Inl (BybitAPIError ''rate limit'')
    \<and> saved (snd (submit_trade flaky_env 1 0 ''spot'' ''BTCUSDT'' BUY 1 100 98 104 one_trade_world))
      = empty_db"
proof -
  have t: "get_trade 1 (cur one_trade_world)
      = Some (blank_trade\<lparr>t_id := 1, t_order_link_id := Some ''a''\<rparr>)"
    by (simp add: one_trade_world_def add_trade_def get_trade_def empty_db_def fresh_world_def)
  have s: "saved one_trade_world = empty_db" by (simp add: one_trade_world_def fresh_world_def)
  have "ex_place (exch flaky_env) lg rq = Inl TimeoutError"
    "ex_order_status (exch flaky_env) lg c' s' l' = Inl (BybitAPIError ''rate limit'')" for lg rq c' s' l'
    by (simp_all add: flaky_env_def calm_env_def)
  then show ?thesis
    using uncertain_submission_can_be_lost[OF t, where l = "''a''" and e = flaky_env and x = TimeoutError
        and m = "''rate limit''" and c = "''spot''" and s = "''BTCUSDT''" and sd = BUY and q = 1
        and en = 100 and st = 98 and ta = 104 and sid = 0] by (simp add: s)
qed

end
