(* ===== verification/SignalExecution.thy ===== *)
theory SignalExecution
  imports OrderExecutor
begin

text \<open>
  \<^verbatim>\<open>backend/signal_execution\<close>: the normal form of a request, its fingerprint, the
  service that replays or executes it, and the status code of its route.  SHA-256 of the
  canonical JSON is a parameter \<open>digest\<close> on the canonical payload; the Decimal texts of the
  payload denote the numbers \<open>canon\<close> keeps.
\<close>

subsection \<open>Normal form and fingerprint\<close>

record signal_request =
  rs_symbol :: string
  rs_direction :: signal_direction
  rs_entry :: pyfloat
  rs_stop :: pyfloat
  rs_target :: pyfloat
  rs_reason :: "string option"
  rs_strategy_version :: "string option"
  rs_indicators_snapshot :: "string option"

definition normalize_decimal :: "pyfloat \<Rightarrow> decimal" where
  "normalize_decimal x = dc (dec_of_float x)"

definition normalize_optional_text :: "string option \<Rightarrow> string option" where
  "normalize_optional_text v = (case v of None \<Rightarrow> None
     | Some s \<Rightarrow> if py_strip s = [] then None else Some (py_strip s))"

definition normalize_execute_signal_request :: "signal_request \<Rightarrow> signal_request" where
  "normalize_execute_signal_request p =
     \<lparr>rs_symbol = py_upper (py_strip (rs_symbol p)), rs_direction = rs_direction p,
      rs_entry = fl (normalize_decimal (rs_entry p)), rs_stop = fl (normalize_decimal (rs_stop p)),
      rs_target = fl (normalize_decimal (rs_target p)),
      rs_reason = normalize_optional_text (rs_reason p),
      rs_strategy_version = normalize_optional_text (rs_strategy_version p),
      rs_indicators_snapshot = rs_indicators_snapshot p\<rparr>"

record canonical_payload =
  cp_direction :: signal_direction
  cp_entry :: decimal
  cp_indicators_snapshot :: "string option"
  cp_reason :: "string option"
  cp_stop :: decimal
  cp_strategy_version :: "string option"
  cp_symbol :: string
  cp_target :: decimal

definition canon :: "signal_request \<Rightarrow> canonical_payload" where
  "canon p = \<lparr>cp_direction = rs_direction p, cp_entry = normalize_decimal (rs_entry p),
     cp_indicators_snapshot = rs_indicators_snapshot p, cp_reason = rs_reason p,
     cp_stop = normalize_decimal (rs_stop p), cp_strategy_version = rs_strategy_version p,
     cp_symbol = rs_symbol p, cp_target = normalize_decimal (rs_target p)\<rparr>"

definition fingerprint_signal_request :: "(canonical_payload \<Rightarrow> string) \<Rightarrow> signal_request \<Rightarrow> string" where
  "fingerprint_signal_request digest p = digest (canon p)"

subsection \<open>The service\<close>

record execution_result =
  er_signal_id :: nat
  er_trade_id :: nat
  er_order_link_id :: "string option"
  er_status :: trade_status
  er_mode :: trading_mode
  er_replayed :: bool

definition build_result :: "nat \<Rightarrow> nat \<Rightarrow> bool \<Rightarrow> execution_result op" where
  "build_result sid i replayed = bnd (the_trade i) (\<lambda>t. ret
     \<lparr>er_signal_id = sid, er_trade_id = i, er_order_link_id = t_order_link_id t,
      er_status = t_status t, er_mode = t_mode t, er_replayed = replayed\<rparr>)"

text \<open>
  The replay of an earlier submission: \<open>Some\<close> result, or \<open>None\<close> when there is no live trade and
  the signal is executed anew.
\<close>

definition replay_submission :: "env \<Rightarrow> signal_submission \<Rightarrow> execution_result option op" where
  "replay_submission e sub =
     bnd (reads (\<lambda>w. get_trade_for_submission sub (cur w))) (\<lambda>existing.
     case existing of
       None \<Rightarrow> ret None
     | Some t \<Rightarrow>
         if is_trade_terminal (t_status t) then ret None
         else
           andthen (if t_status t = ORDER_PENDING_UNKNOWN
                    then andthen (reconcile_pending_unknown e (t_id t) ''spot'' None) commit
                    else ret ())
           (bnd (the_trade (t_id t)) (\<lambda>t'.
             if is_trade_terminal (t_status t') then ret None
             else case (case sub_signal_id sub of Some s \<Rightarrow> Some s | None \<Rightarrow> t_signal_id t') of
                 None \<Rightarrow> throw RuntimeError
               | Some sid \<Rightarrow> bnd (build_result sid (t_id t) True) (\<lambda>r. ret (Some r)))))"

definition execute_for_submission :: "env \<Rightarrow> signal_request \<Rightarrow> nat \<Rightarrow> execution_result op" where
  "execute_for_submission e p k =
     bnd draw (\<lambda>sid.
     andthen (on_cur (create_signal \<lparr>sig_id = sid, sig_symbol = rs_symbol p,
                sig_direction = rs_direction p, sig_reason = rs_reason p,
                sig_strategy_version = rs_strategy_version p,
                sig_indicators_snapshot = rs_indicators_snapshot p\<rparr>))
     (andthen (on_cur (upd_submission k (\<lambda>s. s\<lparr>sub_signal_id := Some sid, sub_trade_id := None\<rparr>)))
     (bnd (execute e sid (rs_symbol p) (rs_direction p) (rs_entry p) (rs_stop p) (rs_target p) ''spot'') (\<lambda>i.
     andthen (on_cur (upd_submission k (\<lambda>s. s\<lparr>sub_trade_id := Some i\<rparr>)))
     (andthen commit (build_result sid i False))))))"

definition execute_new ::
  "env \<Rightarrow> signal_request \<Rightarrow> string \<Rightarrow> signal_submission option \<Rightarrow> execution_result op"
where
  "execute_new e p fp sub =
     bnd (case sub of
            Some s \<Rightarrow> ret (sub_id s)
          | None \<Rightarrow> bnd draw (\<lambda>n. andthen (on_cur (create_signal_submission n fp)) (ret n)))
       (execute_for_submission e p)"

definition execute_signal ::
  "env \<Rightarrow> (canonical_payload \<Rightarrow> string) \<Rightarrow> signal_request \<Rightarrow> execution_result op"
where
  "execute_signal e digest payload =
     (let p = normalize_execute_signal_request payload; fp = fingerprint_signal_request digest p in
      in_session (bnd (reads (\<lambda>w. get_signal_submission fp (cur w))) (\<lambda>sub.
        bnd (case sub of None \<Rightarrow> ret None | Some s \<Rightarrow> replay_submission e s) (\<lambda>replayed.
        case replayed of
          Some r \<Rightarrow> ret r
        | None \<Rightarrow> execute_new e p fp sub))))"

text \<open>The status code of \<^verbatim>\<open>POST /signals/execute\<close>; an uncaught error is a 500.\<close>

definition execute_signal_status :: "exc + execution_result \<Rightarrow> nat" where
  "execute_signal_status r = (case r of
     Inr _ \<Rightarrow> 200
   | Inl x \<Rightarrow> if x = OrderAlreadySubmittedError then 409
             else if is_safety_guard_error x then 423
             else if is_risk_manager_error x then 422 else 500)"

subsection \<open>Frames\<close>

context store_invariant
begin

lemma keep_replay: "keeps I (replay_submission e s)"
  unfolding replay_submission_def build_result_def by (intro keep_rules keep_reconcile)

lemma keep_execute_new: "keeps I (execute_new e p fp s)"
  unfolding execute_new_def execute_for_submission_def build_result_def
  by (intro keep_rules lawful_rules keep_execute)

lemma keep_execute_signal: "keeps I (execute_signal e dg p)"
  unfolding execute_signal_def Let_def by (intro keep_rules keep_replay keep_execute_new)

end

lemma replayed_result: "replay_submission e s w = (Inr (Some r), w') \<Longrightarrow> er_replayed r"
  by (auto simp: replay_submission_def bnd_def build_result_def andthen_def the_trade_def reads_def
      ret_def throw_def split: option.splits if_splits prod.splits sum.splits)

subsection \<open>Properties\<close>

lemma normalize_float: "is_float x \<Longrightarrow> is_dec (dec_of_float x) \<Longrightarrow> fl (normalize_decimal x) = x"
  by (simp add: normalize_decimal_def is_dec_def fl_dec_of_float)

lemma normalize_text_idem: "normalize_optional_text (normalize_optional_text v) = normalize_optional_text v"
  by (cases v) (auto simp: normalize_optional_text_def py_strip_idem)

text \<open>
  The normal form is stable, and the fingerprint does not see the spelling: requests that
  differ in the case and the surrounding blanks of the symbol, or in blanks around the texts,
  have the same fingerprint.
\<close>

theorem fingerprint_ignores_spelling:
  assumes "py_upper (py_strip (rs_symbol p)) = py_upper (py_strip (rs_symbol q))"
    and "normalize_optional_text (rs_reason p) = normalize_optional_text (rs_reason q)"
    and "normalize_optional_text (rs_strategy_version p) = normalize_optional_text (rs_strategy_version q)"
    and "q\<lparr>rs_symbol := rs_symbol p, rs_reason := rs_reason p,
            rs_strategy_version := rs_strategy_version p\<rparr> = p"
    and "\<forall>x \<in> {rs_entry p, rs_stop p, rs_target p}. is_float x \<and> is_dec (dec_of_float x)"
  shows "fingerprint_signal_request digest (normalize_execute_signal_request p)
        = fingerprint_signal_request digest (normalize_execute_signal_request q)
    \<and> normalize_execute_signal_request (normalize_execute_signal_request p)
        = normalize_execute_signal_request p"
proof -
  have eq: "rs_direction p = rs_direction q" "rs_entry p = rs_entry q" "rs_stop p = rs_stop q"
    "rs_target p = rs_target q" "rs_indicators_snapshot p = rs_indicators_snapshot q"
    by (subst assms(4)[symmetric], simp)+
  have "normalize_execute_signal_request p = normalize_execute_signal_request q"
    using assms(1-3) eq by (simp add: normalize_execute_signal_request_def)
  moreover have "normalize_execute_signal_request (normalize_execute_signal_request p)
      = normalize_execute_signal_request p"
    using assms(5) by (simp add: normalize_execute_signal_request_def normalize_float
        normalize_symbol_idem normalize_text_idem)
  ultimately show ?thesis by simp
qed

definition sample_request :: signal_request where
  "sample_request = \<lparr>rs_symbol = '' btcusdt '', rs_direction = LONG, rs_entry = 2, rs_stop = 1,
     rs_target = 4, rs_reason = Some '' '', rs_strategy_version = None,
     rs_indicators_snapshot = None\<rparr>"

theorem fingerprint_ignores_spelling_witness:
  "fingerprint_signal_request cp_symbol (normalize_execute_signal_request sample_request)
    = fingerprint_signal_request cp_symbol
        (normalize_execute_signal_request (sample_request\<lparr>rs_symbol := ''BTCUSDT'', rs_reason := None\<rparr>))"
proof -
  let ?q = "sample_request\<lparr>rs_symbol := ''BTCUSDT'', rs_reason := None\<rparr>"
  have h: "py_upper (py_strip (rs_symbol sample_request)) = py_upper (py_strip (rs_symbol ?q))"
    "normalize_optional_text (rs_reason sample_request) = normalize_optional_text (rs_reason ?q)"
    "normalize_optional_text (rs_strategy_version sample_request)
       = normalize_optional_text (rs_strategy_version ?q)"
    "?q\<lparr>rs_symbol := rs_symbol sample_request, rs_reason := rs_reason sample_request,
       rs_strategy_version := rs_strategy_version sample_request\<rparr> = sample_request"
    by code_simp+
  have "\<forall>x \<in> {rs_entry sample_request, rs_stop sample_request, rs_target sample_request}.
      is_float x \<and> is_dec (dec_of_float x)" by code_simp
  from fingerprint_ignores_spelling[OF h this] show ?thesis by blast
qed

text \<open>
  A request whose fingerprint belongs to a live trade is replayed: nothing is sent to the
  exchange, the journal is left as it was, and the answer is the existing trade; only a trade
  in an unknown state is looked up on the exchange first, which this excludes.
\<close>

theorem live_submission_is_replayed:
  assumes "get_signal_submission (fingerprint_signal_request digest
             (normalize_execute_signal_request p)) (saved w) = Some sub"
    and "get_trade_for_submission sub (saved w) = Some t" "get_trade (t_id t) (saved w) = Some t"
    and "\<not> is_trade_terminal (t_status t)" "t_status t \<noteq> ORDER_PENDING_UNKNOWN"
    and "sub_signal_id sub = Some sid"
  shows "execute_signal e digest p w
    = (Inr \<lparr>er_signal_id = sid, er_trade_id = t_id t, er_order_link_id = t_order_link_id t,
         er_status = t_status t, er_mode = t_mode t, er_replayed = True\<rparr>, w\<lparr>cur := saved w\<rparr>)"
  using assms
  by (simp add: execute_signal_def Let_def in_session_def replay_submission_def the_trade_def
      trade_of_def build_result_def bnd_def reads_def ret_def)

definition live_world :: world where
  "live_world = fresh_world\<lparr>saved := empty_db\<lparr>
     trades := [blank_trade\<lparr>t_id := 1, t_status := POSITION_OPEN\<rparr>],
     submissions := [\<lparr>sub_id = 3, sub_fingerprint = ''BTCUSDT'', sub_signal_id = Some 2,
       sub_trade_id = Some 1\<rparr>]\<rparr>\<rparr>"

theorem live_submission_is_replayed_witness:
  "snd (execute_signal calm_env cp_symbol sample_request live_world) = live_world\<lparr>cur := saved live_world\<rparr>"
proof -
  let ?t = "blank_trade\<lparr>t_id := 1, t_status := POSITION_OPEN\<rparr>"
  let ?s = "\<lparr>sub_id = 3, sub_fingerprint = ''BTCUSDT'', sub_signal_id = Some 2, sub_trade_id = Some 1\<rparr>"
  have "get_signal_submission (fingerprint_signal_request cp_symbol
      (normalize_execute_signal_request sample_request)) (saved live_world) = Some ?s" by code_simp
  moreover have "get_trade_for_submission ?s (saved live_world) = Some ?t"
    "get_trade (t_id ?t) (saved live_world) = Some ?t" "\<not> is_trade_terminal (t_status ?t)"
    "t_status ?t \<noteq> ORDER_PENDING_UNKNOWN" "sub_signal_id ?s = Some 2"
    by code_simp+
  ultimately show ?thesis using live_submission_is_replayed by fastforce
qed

subsection \<open>A retry is a replay\<close>

lemma submissions_only [simp]:
  "submissions (transition_trade_status i s m d) = submissions d"
  "submissions (upd_trade i f d) = submissions d"
  "submissions (record_trade_created i m d) = submissions d"
  "submissions (add_trade t d) = submissions d"
  "submissions (upd_stat x g d) = submissions d" "submissions (ensure_daily_stat x d) = submissions d"
  "submissions (append_system_event ty n d) = submissions d"
  "submissions (upd_safety h d) = submissions d"
  "submissions (get_or_create_safety_state d) = submissions d"
  by (simp_all add: transition_trade_status_def upd_trade_def append_trade_event_def
      record_trade_created_def add_trade_def upd_stat_def ensure_daily_stat_def
      append_system_event_def upd_safety_def get_or_create_safety_state_def split: option.splits)

lemma submissions_only' [simp]:
  "submissions (clear_pause_if_expired tm d) = submissions d"
  "submissions (set_pause tm r b u d) = submissions d"
  "submissions (increment_daily_trade_count x d) = submissions d"
  by (simp_all add: clear_pause_if_expired_def reset_consecutive_losses_def Let_def set_pause_def
      increment_daily_trade_count_def)

abbreviation same_submissions :: "'a op \<Rightarrow> bool" where
  "same_submissions m \<equiv> steps (\<lambda>w w'. submissions (cur w') = submissions (cur w)) m"

lemma ss_basic:
  "(\<And>d. submissions (h d) = submissions d) \<Longrightarrow> same_submissions (on_cur h)" "same_submissions commit"
  "same_submissions draw" "same_submissions (modify (\<lambda>w. w\<lparr>ks_flag := g w\<rparr>))"
  "same_submissions (place_order e rq)" "same_submissions (get_order_status e c s l)"
  "same_submissions (get_wallet_balance e)" "same_submissions (get_instruments_info e s)"
  "same_submissions (the_trade i)" "same_submissions (insert_trade mk m)"
  by (auto simp: steps_def on_cur_def commit_def draw_def place_order_def get_order_status_def
      get_wallet_balance_def get_instruments_info_def the_trade_def insert_trade_def Let_def)

lemmas ss_rules = eqf.rules ss_basic submissions_only
  submissions_only'

lemma ss_guard: "same_submissions (kill_switch_guard e)"
  unfolding kill_switch_guard_def kill_switch_is_active_def kill_switch_status_def
    read_safety_state_def by (intro ss_rules)

lemma ss_check: "same_submissions (circuit_breaker_check e)"
  unfolding circuit_breaker_check_def trip_def Let_def by (intro ss_rules)

lemma ss_size: "same_submissions (size_order e c s dir en st ta)"
  unfolding size_order_def fetch_equity_def constrained_quantity_def Let_def by (intro ss_rules)

lemma ss_link: "same_submissions (generate_order_link_id e x)"
  unfolding generate_order_link_id_def by (intro ss_rules)

lemma ss_persist: "same_submissions (persist_trade e sid s dir en st ta eq q)"
  unfolding persist_trade_def increment_trade_count_def by (intro ss_rules ss_link)

lemma ss_market: "same_submissions (place_market e i c s sd q st ta l)"
  unfolding place_market_def set_order_type_def by (intro ss_rules)

lemma ss_limit: "same_submissions (place_limit e i c s sd q en st ta l)"
  unfolding place_limit_def set_order_type_def by (intro ss_rules)

lemma ss_submit: "same_submissions (submit_order e i sid c s sd q en st ta)"
  unfolding submit_order_def current_link_def by (intro ss_rules ss_link ss_market ss_limit)

lemma ss_finish: "same_submissions (finish_execution e i sid c s sd q en st ta)"
  unfolding finish_execution_def submit_trade_def handle_submit_uncertainty_def
    reconcile_pending_unknown_def by (intro ss_rules ss_submit)

lemma ss_execute: "same_submissions (execute e sid s dir en st ta c)"
  unfolding execute_def check_position_limits_def
  by (intro ss_rules ss_guard ss_check ss_size ss_persist ss_finish)

lemma find_update_keep:
  assumes "\<And>x. q (f x) = q x"
  shows "find q (update_where p f xs) = map_option (\<lambda>x. if p x then f x else x) (find q xs)"
  using assms by (induction xs) (auto simp: update_where_def)

lemma submission_upd:
  assumes "get_signal_submission fp d = Some s" "\<And>s. sub_fingerprint (f s) = sub_fingerprint s"
  shows "get_signal_submission fp (upd_submission (sub_id s) f d) = Some (f s)"
  using assms by (simp add: get_signal_submission_def upd_submission_def find_update_keep)

lemma submission_cong:
  "submissions d' = submissions d \<Longrightarrow> get_signal_submission fp d' = get_signal_submission fp d"
  by (simp add: get_signal_submission_def)

text \<open>What a new execution leaves: its trade, and a submission row that names it.\<close>

lemma execute_linked:
  assumes sub: "get_signal_submission fp (cur w) = Some s" and ids: "ids_below (draws w) (cur w)"
    and run: "bnd (execute e sid (rs_symbol p) (rs_direction p) (rs_entry p) (rs_stop p) (rs_target p) ''spot'') (\<lambda>i.
     andthen (on_cur (upd_submission (sub_id s) (\<lambda>s. s\<lparr>sub_trade_id := Some i\<rparr>)))
     (andthen commit (build_result sid i False))) w = (Inr r, w')"
  shows "\<exists>t. get_trade (er_trade_id r) (saved w') = Some t \<and> er_signal_id r = sid
    \<and> r = \<lparr>er_signal_id = sid, er_trade_id = t_id t, er_order_link_id = t_order_link_id t,
          er_status = t_status t, er_mode = t_mode t, er_replayed = False\<rparr>
    \<and> get_signal_submission fp (saved w') = Some (s\<lparr>sub_trade_id := Some (t_id t)\<rparr>)"
proof -
  obtain i w1 where ex: "execute e sid (rs_symbol p) (rs_direction p) (rs_entry p) (rs_stop p)
      (rs_target p) ''spot'' w = (Inr i, w1)"
    and rest: "andthen (on_cur (upd_submission (sub_id s) (\<lambda>s. s\<lparr>sub_trade_id := Some i\<rparr>)))
     (andthen commit (build_result sid i False)) w1 = (Inr r, w')"
    using run by (rule bnd_InrE)
  from execute_committed[OF ids ex] obtain t where
    t: "trades (cur w1) = trades (cur w) @ [t]" "t_id t = i" by auto
  have "\<forall>t \<in> set (trades (cur w)). t_id t \<noteq> i"
    using execute_committed[OF ids ex] by blast
  then have "find (\<lambda>t. t_id t = i) (trades (cur w)) = None" by (simp add: find_None_iff)
  then have g: "get_trade i (cur w1) = Some t"
    using t by (simp add: get_trade_def find_append)
  define d where "d = upd_submission (sub_id s) (\<lambda>s. s\<lparr>sub_trade_id := Some i\<rparr>) (cur w1)"
  have gd: "get_trade i d = Some t" using g by (simp add: d_def get_trade_def upd_submission_def)
  have "w' = w1\<lparr>cur := d, saved := d\<rparr>" and r: "r = \<lparr>er_signal_id = sid, er_trade_id = i,
      er_order_link_id = t_order_link_id t, er_status = t_status t, er_mode = t_mode t,
      er_replayed = False\<rparr>"
    using rest gd by (simp_all add: build_result_def the_trade_def trade_of_def d_def[symmetric])
  moreover have "get_signal_submission fp d = Some (s\<lparr>sub_trade_id := Some i\<rparr>)"
    unfolding d_def using submission_cong[OF stepsD[OF ss_execute ex]] sub
    by (intro submission_upd) simp_all
  ultimately show ?thesis using gd t by simp
qed

lemma bnd_on_cur: "bnd (bnd (on_cur h) m) f w = bnd (m ()) f (w\<lparr>cur := h (cur w)\<rparr>)"
  by (simp add: bnd_assoc)

lemma execute_new_linked:
  assumes sub: "case s of None \<Rightarrow> get_signal_submission fp (cur w) = None
      | Some s \<Rightarrow> get_signal_submission fp (cur w) = Some s"
    and ids: "ids_below (draws w) (cur w)" and run: "execute_new e p fp s w = (Inr r, w')"
  shows "\<exists>t sub'. get_trade (er_trade_id r) (saved w') = Some t
    \<and> r = \<lparr>er_signal_id = er_signal_id r, er_trade_id = t_id t, er_order_link_id = t_order_link_id t,
          er_status = t_status t, er_mode = t_mode t, er_replayed = False\<rparr>
    \<and> get_signal_submission fp (saved w') = Some sub'
    \<and> sub_trade_id sub' = Some (t_id t) \<and> sub_signal_id sub' = Some (er_signal_id r)"
proof -
  let ?sig = "\<lambda>sid. \<lparr>sig_id = sid, sig_symbol = rs_symbol p, sig_direction = rs_direction p,
     sig_reason = rs_reason p, sig_strategy_version = rs_strategy_version p,
     sig_indicators_snapshot = rs_indicators_snapshot p\<rparr>"
  obtain s1 w1 where s1: "get_signal_submission fp (cur w1) = Some s1"
    and w1: "trades (cur w1) = trades (cur w)" "draws w \<le> draws w1"
    and run1: "execute_for_submission e p (sub_id s1) w1 = (Inr r, w')"
  proof (cases s)
    case None
    let ?w = "w\<lparr>draws := Suc (draws w), cur := create_signal_submission (draws w) fp (cur w)\<rparr>"
    let ?s = "\<lparr>sub_id = draws w, sub_fingerprint = fp, sub_signal_id = None, sub_trade_id = None\<rparr>"
    have "get_signal_submission fp (cur ?w) = Some ?s"
      using sub None by (simp add: get_signal_submission_def create_signal_submission_def find_append)
    moreover have "execute_for_submission e p (sub_id ?s) ?w = (Inr r, w')"
      using None run by (simp add: execute_new_def bnd_assoc bnd_draw andthen_def bnd_on_cur)
    ultimately show ?thesis using that[of ?w ?s] by (simp add: create_signal_submission_def)
  next
    case (Some s1)
    with that[of w s1] sub run show ?thesis by (simp add: execute_new_def)
  qed
  define sid where "sid = draws w1"
  define s2 where "s2 = s1\<lparr>sub_signal_id := Some sid, sub_trade_id := None\<rparr>"
  define w2 where "w2 = w1\<lparr>draws := Suc (draws w1), cur := upd_submission (sub_id s1)
     (\<lambda>s. s\<lparr>sub_signal_id := Some sid, sub_trade_id := None\<rparr>) (create_signal (?sig sid) (cur w1))\<rparr>"
  have "get_signal_submission fp (create_signal (?sig sid) (cur w1)) = Some s1"
    using s1 by (simp add: get_signal_submission_def create_signal_def)
  then have s2: "get_signal_submission fp (cur w2) = Some s2"
    unfolding w2_def s2_def using submission_upd[of fp "create_signal (?sig sid) (cur w1)" s1] by simp
  have "trades (cur w2) = trades (cur w)"
    using w1 by (simp add: w2_def upd_submission_def create_signal_def)
  then have ids2: "ids_below (draws w2) (cur w2)" using ids w1(2)
    by (auto simp: ids_below_def w2_def)
  have run3: "bnd (execute e sid (rs_symbol p) (rs_direction p) (rs_entry p) (rs_stop p) (rs_target p) ''spot'') (\<lambda>i.
     andthen (on_cur (upd_submission (sub_id s2) (\<lambda>s. s\<lparr>sub_trade_id := Some i\<rparr>)))
     (andthen commit (build_result sid i False))) w2 = (Inr r, w')"
    using run1 by (simp add: execute_for_submission_def bnd_draw w2_def s2_def sid_def)
  from execute_linked[OF s2 ids2 run3] show ?thesis by (auto simp: s2_def)
qed

lemma get_trade_id: "get_trade i d = Some t \<Longrightarrow> t_id t = i"
  by (auto simp: get_trade_def find_Some_iff)

lemma executed_is_linked:
  assumes run: "execute_signal e digest p w = (Inr r, w')" "\<not> er_replayed r" and ids: "ids_below (draws w) (saved w)"
  defines "fp \<equiv> fingerprint_signal_request digest (normalize_execute_signal_request p)"
  obtains w1 t sub' where "w' = w1\<lparr>cur := saved w1\<rparr>" "get_trade (er_trade_id r) (saved w1) = Some t"
    "r = \<lparr>er_signal_id = er_signal_id r, er_trade_id = t_id t, er_order_link_id = t_order_link_id t,
          er_status = t_status t, er_mode = t_mode t, er_replayed = False\<rparr>"
    "get_signal_submission fp (saved w1) = Some sub'" "sub_trade_id sub' = Some (t_id t)"
    "sub_signal_id sub' = Some (er_signal_id r)"
proof -
  define q where "q = normalize_execute_signal_request p"
  define w0 where "w0 = w\<lparr>cur := saved w\<rparr>"
  define s where "s = get_signal_submission fp (saved w)"
  let ?replay = "case s of None \<Rightarrow> ret None | Some s \<Rightarrow> replay_submission e s"
  obtain w1 where w1: "bnd ?replay (\<lambda>replayed.
      case replayed of Some r \<Rightarrow> ret r | None \<Rightarrow> execute_new e q fp s) w0 = (Inr r, w1)"
    and w': "w' = w1\<lparr>cur := saved w1\<rparr>"
    using run(1) by (auto simp: execute_signal_def Let_def in_session_def fp_def[symmetric] q_def
        s_def w0_def split: prod.splits)
  obtain o1 w2 where o1: "?replay w0 = (Inr o1, w2)"
    and o2: "(case o1 of Some r \<Rightarrow> ret r | None \<Rightarrow> execute_new e q fp s) w2 = (Inr r, w1)"
    using w1 by (rule bnd_InrE)
  have none: "o1 = None"
  proof (rule ccontr)
    assume "o1 \<noteq> None"
    with o1 o2 have "er_replayed r" by (cases s) (auto dest: replayed_result)
    with run(2) show False by simp
  qed
  have same: "same_submissions ?replay"
    unfolding replay_submission_def build_result_def reconcile_pending_unknown_def by (intro ss_rules)
  have kp: "keeps (\<lambda>_. True) ?replay" by (intro kp.rules any.keep_replay)
  have "case s of None \<Rightarrow> get_signal_submission fp (cur w2) = None
      | Some s \<Rightarrow> get_signal_submission fp (cur w2) = Some s"
    using submission_cong[OF stepsD[OF same o1], of fp]
    by (simp add: s_def w0_def split: option.splits)
  moreover have "ids_below (draws w2) (cur w2)"
    using keeps_run[OF kp, of w0] ids o1 by (simp add: winv_def w0_def)
  moreover have "execute_new e q fp s w2 = (Inr r, w1)" using o2 none by simp
  ultimately show ?thesis using execute_new_linked w' that by blast
qed


definition shadow_env :: env where
  "shadow_env = calm_env\<lparr>cfg := plain_settings\<lparr>trading_mode := SHADOW, shadow_equity := 8,
     min_rrr := 1\<rparr>\<rparr>"


end
