(* ===== verification/Market.thy ===== *)
theory Market
  imports Results Journal_Models SignalExecution
begin

text \<open>
  \<^verbatim>\<open>backend/market_data/contracts.py\<close>, \<^verbatim>\<open>intervals.py\<close>,
  \<^verbatim>\<open>staleness.py\<close> and \<^verbatim>\<open>backend/strategy_engine/contracts.py\<close>:
  candles, snapshots of a market, how old a snapshot may be, and the signals strategies make of
  them.  List positions and slices as Python counts them, from either end.
\<close>

subsection \<open>Lists from the end\<close>

text \<open>\<^verbatim>\<open>xs[-k]\<close>\<close>

definition nth_back :: "'a list \<Rightarrow> nat \<Rightarrow> exc + 'a" where
  "nth_back xs k =
     (if k = 0 then (case xs of [] \<Rightarrow> Inl IndexError | x # _ \<Rightarrow> Inr x)
      else if length xs < k then Inl IndexError else Inr (xs ! (length xs - k)))"

text \<open>\<^verbatim>\<open>xs[-k:]\<close>, which is the whole list for \<open>k = 0\<close>.\<close>

definition last_n :: "nat \<Rightarrow> 'a list \<Rightarrow> 'a list" where
  "last_n k xs = (if k = 0 then xs else drop (length xs - k) xs)"

text \<open>\<^verbatim>\<open>xs[-k-1:-1]\<close>: the \<open>k\<close> elements before the last.\<close>

definition before_last :: "nat \<Rightarrow> 'a list \<Rightarrow> 'a list" where
  "before_last k xs = drop (length xs - Suc k) (butlast xs)"

text \<open>\<^verbatim>\<open>min(xs)\<close> and \<^verbatim>\<open>max(xs)\<close>.\<close>

fun py_min :: "rat list \<Rightarrow> exc + rat" where
  "py_min [] = Inl ValueError"
| "py_min (x # xs) = Inr (foldl min x xs)"

fun py_max :: "rat list \<Rightarrow> exc + rat" where
  "py_max [] = Inl ValueError"
| "py_max (x # xs) = Inr (foldl max x xs)"

lemma nth_back_in: "nth_back xs k = Inr x \<Longrightarrow> x \<in> set xs"
  by (auto simp: nth_back_def split: if_splits list.splits)

lemma nth_back_1: "xs \<noteq> [] \<Longrightarrow> nth_back xs 1 = Inr (last xs)"
  by (cases xs rule: rev_cases) (auto simp: nth_back_def)

lemma last_n_sub: "set (last_n k xs) \<subseteq> set xs"
  by (auto simp: last_n_def dest: in_set_dropD)

lemma foldl_min_in: "foldl min x xs \<in> insert x (set xs)"
proof (induction xs arbitrary: x)
  case (Cons y ys)
  from Cons[of "min x y"] show ?case by (auto simp: min_def)
qed simp

lemma foldl_max_in: "foldl max x xs \<in> insert x (set xs)"
proof (induction xs arbitrary: x)
  case (Cons y ys)
  from Cons[of "max x y"] show ?case by (auto simp: max_def)
qed simp

lemma py_min_in: "py_min xs = Inr x \<Longrightarrow> x \<in> set xs"
  using foldl_min_in by (cases xs) auto

lemma py_max_in: "py_max xs = Inr x \<Longrightarrow> x \<in> set xs"
  using foldl_max_in by (cases xs) auto

subsection \<open>Candles and snapshots\<close>

record market_candle =
  mc_opened_at :: timestamp
  mc_high :: pyfloat
  mc_low :: pyfloat
  mc_close :: pyfloat
  mc_open :: pyfloat
  mc_volume :: pyfloat

text \<open>\<^verbatim>\<open>MarketCandle(...)\<close>: without an opening price it is the closing price.\<close>

definition new_market_candle ::
  "timestamp \<Rightarrow> pyfloat \<Rightarrow> pyfloat \<Rightarrow> pyfloat \<Rightarrow> pyfloat option \<Rightarrow> pyfloat \<Rightarrow> market_candle"
where
  "new_market_candle t high low close op volume =
     \<lparr>mc_opened_at = t, mc_high = high, mc_low = low, mc_close = close,
      mc_open = (case op of Some x \<Rightarrow> x | None \<Rightarrow> close), mc_volume = volume\<rparr>"

record market_snapshot =
  ms_symbol :: string
  ms_interval :: string
  ms_candles :: "market_candle list"

definition closes :: "market_snapshot \<Rightarrow> pyfloat list" where
  "closes s = map mc_close (ms_candles s)"

definition highs :: "market_snapshot \<Rightarrow> pyfloat list" where
  "highs s = map mc_high (ms_candles s)"

definition lows :: "market_snapshot \<Rightarrow> pyfloat list" where
  "lows s = map mc_low (ms_candles s)"

definition volumes :: "market_snapshot \<Rightarrow> pyfloat list" where
  "volumes s = map mc_volume (ms_candles s)"

definition last_price :: "market_snapshot \<Rightarrow> exc + pyfloat" where
  "last_price s = ebind (nth_back (ms_candles s) 1) (\<lambda>c. Inr (mc_close c))"

subsection \<open>Intervals and staleness\<close>

definition interval_table :: "(string \<times> int) list" where
  "interval_table = [(''1'', 60), (''3'', 180), (''5'', 300), (''15'', 900), (''30'', 1800),
     (''60'', 3600), (''120'', 7200), (''240'', 14400), (''D'', 86400)]"

definition interval_to_seconds :: "string \<Rightarrow> exc + int" where
  "interval_to_seconds i = or_raise (map_of interval_table (py_strip i)) ValueError"

definition interval_to_minutes :: "string \<Rightarrow> exc + int" where
  "interval_to_minutes i = ebind (interval_to_seconds i) (\<lambda>s. Inr (s div 60))"

text \<open>The age in seconds, a float; \<open>t\<close> is the current time.\<close>

definition snapshot_age_seconds :: "timestamp \<Rightarrow> market_snapshot \<Rightarrow> exc + pyfloat" where
  "snapshot_age_seconds t s =
     ebind (nth_back (ms_candles s) 1) (\<lambda>c. Inr (fl (of_int (t - mc_opened_at c) / 1000000)))"

definition allowed_snapshot_staleness_seconds :: "int \<Rightarrow> int \<Rightarrow> market_snapshot \<Rightarrow> exc + int" where
  "allowed_snapshot_staleness_seconds max_intervals grace s =
     ebind (interval_to_seconds (ms_interval s)) (\<lambda>i. Inr (i * max_intervals + grace))"

definition is_snapshot_stale :: "int \<Rightarrow> int \<Rightarrow> timestamp \<Rightarrow> market_snapshot \<Rightarrow> exc + bool" where
  "is_snapshot_stale max_intervals grace t s =
     ebind (snapshot_age_seconds t s) (\<lambda>age.
     ebind (allowed_snapshot_staleness_seconds max_intervals grace s) (\<lambda>allowed.
     Inr (of_int allowed < age)))"

subsection \<open>Signals\<close>

text \<open>
  The direction of a strategy's signal is any text; only \<open>long\<close> and \<open>short\<close> can be
  executed.  The indicators' snapshot is the mapping of names to values.
\<close>

record strategy_signal =
  sg_symbol :: string
  sg_direction :: string
  sg_entry :: pyfloat
  sg_stop :: pyfloat
  sg_target :: pyfloat
  sg_reason :: "string option"
  sg_strategy_version :: "string option"
  sg_indicators_snapshot :: "(string \<times> pyfloat) list"

definition text_direction :: "string \<Rightarrow> exc + signal_direction" where
  "text_direction d = (if d = ''long'' then Inr LONG else if d = ''short'' then Inr SHORT
     else Inl ValueError)"

text \<open>
  The request made of a signal; \<open>json\<close> is the text the journal keeps of the indicators'
  snapshot.  A symbol of no or more than twenty characters is refused by the request's schema.
\<close>

definition to_execute_signal_request ::
  "((string \<times> pyfloat) list \<Rightarrow> string) \<Rightarrow> strategy_signal \<Rightarrow> exc + signal_request"
where
  "to_execute_signal_request json g =
     ebind (text_direction (sg_direction g)) (\<lambda>d.
     if sg_symbol g = [] \<or> 20 < length (sg_symbol g) then Inl ValueError
     else Inr \<lparr>rs_symbol = sg_symbol g, rs_direction = d, rs_entry = sg_entry g,
            rs_stop = sg_stop g, rs_target = sg_target g, rs_reason = sg_reason g,
            rs_strategy_version = sg_strategy_version g,
            rs_indicators_snapshot = Some (json (sg_indicators_snapshot g))\<rparr>)"

end
