(* ===== verification/Indicators.thy ===== *)
theory Indicators
  imports Market
begin

text \<open>
  The indicators of \<^verbatim>\<open>backend/strategy_engine/\<close>: moving averages, true range, RSI,
  Bollinger bands, ADX, VWAP, swings, and what the strategies use of Python's
  \<^verbatim>\<open>statistics\<close> module.  The strategies carry copies of the first three that
  compute the same values.  Periods are natural numbers.
\<close>

subsection \<open>Square root, median and standard deviation\<close>

function isqrt :: "nat \<Rightarrow> nat" where
  "isqrt n = (if n = 0 then 0 else
     let r = 2 * isqrt (n div 4) in if Suc r * Suc r \<le> n then Suc r else r)"
  by pat_completeness auto
termination by (relation "measure id") auto

declare isqrt.simps [simp del]

lemma isqrt_bounds: "isqrt n * isqrt n \<le> n \<and> n < Suc (isqrt n) * Suc (isqrt n)"
proof (induction n rule: isqrt.induct)
  case (1 n)
  show ?case
  proof (cases "n = 0")
    case True
    then show ?thesis by (simp add: isqrt.simps)
  next
    case False
    define m where "m = isqrt (n div 4)"
    have m: "m * m \<le> n div 4" "n div 4 < Suc m * Suc m" using 1 False by (simp_all add: m_def)
    then have "4 * (m * m) \<le> n" "n < 4 * (Suc m * Suc m)" by linarith+
    then have "(2 * m) * (2 * m) \<le> n" "n < Suc (Suc (2 * m)) * Suc (Suc (2 * m))"
      by (simp_all add: algebra_simps)
    then show ?thesis
      using False by (auto simp: isqrt.simps[of n] Let_def m_def[symmetric] not_le)
  qed
qed

text \<open>
  The correctly rounded square root, which \<^verbatim>\<open>statistics.stdev\<close> takes of the exact
  variance, and which stands for \<^verbatim>\<open>x ** 0.5\<close>.
\<close>

definition fsqrt :: "rat \<Rightarrow> pyfloat" where
  "fsqrt q = (if q \<le> 0 then 0 else
     let u = int_powi 2 (ilog 4 q - 52); s = q / (u * u); n = rat_of_nat (isqrt (nat \<lfloor>s\<rfloor>))
     in (if (n + 1 / 2) * (n + 1 / 2) < s then n + 1 else n) * u)"

lemma fsqrt_nonneg: "0 \<le> fsqrt q"
  using powi_pos[of 2 "ilog 4 q - 52"] by (auto simp: fsqrt_def Let_def int_powi[of 2, symmetric, simplified])

text \<open>\<^verbatim>\<open>median\<close>\<close>

definition py_median :: "pyfloat list \<Rightarrow> exc + pyfloat" where
  "py_median xs = (let ys = sort xs; n = length ys in
     if n = 0 then Inl StatisticsError
     else if n mod 2 = 1 then Inr (ys ! (n div 2))
     else Inr (fdiv (fadd (ys ! (n div 2 - 1)) (ys ! (n div 2))) 2))"

definition sample_variance :: "rat list \<Rightarrow> rat" where
  "sample_variance xs = (let n = of_nat (length xs); m = sum_list xs / n in
     sum_list (map (\<lambda>x. (x - m) * (x - m)) xs) / (n - 1))"

definition stdev :: "pyfloat list \<Rightarrow> exc + pyfloat" where
  "stdev xs = (if length xs < 2 then Inl StatisticsError else Inr (fsqrt (sample_variance xs)))"

subsection \<open>Moving average and true range\<close>

definition ema_step :: "nat \<Rightarrow> pyfloat \<Rightarrow> pyfloat \<Rightarrow> pyfloat" where
  "ema_step period prev price =
     fadd (fmul (fsub price prev) (fdiv 2 (of_pyint (int period + 1)))) prev"

fun ema_from :: "nat \<Rightarrow> pyfloat \<Rightarrow> pyfloat list \<Rightarrow> pyfloat list" where
  "ema_from period prev [] = []"
| "ema_from period prev (x # xs) =
     (let e = ema_step period prev x in e # ema_from period e xs)"

fun calculate_ema :: "pyfloat list \<Rightarrow> nat \<Rightarrow> exc + pyfloat list" where
  "calculate_ema [] period = Inl IndexError"
| "calculate_ema (x # xs) period = Inr (x # ema_from period x xs)"

text \<open>The true range of each candle but the first, against the close before it.\<close>

definition true_range :: "pyfloat \<Rightarrow> pyfloat \<Rightarrow> pyfloat \<Rightarrow> pyfloat" where
  "true_range h l c = max (max (fsub h l) \<bar>fsub h c\<bar>) \<bar>fsub l c\<bar>"

definition true_ranges :: "pyfloat list \<Rightarrow> pyfloat list \<Rightarrow> pyfloat list \<Rightarrow> pyfloat list" where
  "true_ranges hs ls cs = map (\<lambda>(h, l, c). true_range h l c) (zip (tl hs) (zip (tl ls) cs))"

text \<open>Wilder's smoothing, \<^verbatim>\<open>((prev * (period - 1)) + x) / period\<close>.\<close>

definition smooth :: "nat \<Rightarrow> pyfloat \<Rightarrow> pyfloat \<Rightarrow> pyfloat" where
  "smooth period prev x =
     fdiv (fadd (fmul prev (of_pyint (int period - 1))) x) (of_pyint (int period))"

fun smooth_from :: "nat \<Rightarrow> pyfloat \<Rightarrow> pyfloat list \<Rightarrow> pyfloat list" where
  "smooth_from period prev [] = []"
| "smooth_from period prev (x # xs) =
     (let a = smooth period prev x in a # smooth_from period a xs)"

definition calculate_strategy_atr ::
  "pyfloat list \<Rightarrow> pyfloat list \<Rightarrow> pyfloat list \<Rightarrow> nat \<Rightarrow> exc + pyfloat list"
where
  "calculate_strategy_atr hs ls cs period =
     (if length cs \<le> period then Inl ValueError
      else let trs = true_ranges hs ls cs in
        ebind (fdivide (fsum (take period trs)) (of_pyint (int period))) (\<lambda>a.
        Inr (a # smooth_from period a (drop period trs))))"

subsection \<open>RSI\<close>

definition deltas :: "pyfloat list \<Rightarrow> pyfloat list" where
  "deltas xs = map (\<lambda>(b, a). fsub b a) (zip (tl xs) xs)"

definition to_rsi :: "pyfloat \<Rightarrow> pyfloat \<Rightarrow> pyfloat" where
  "to_rsi gain loss = (if loss = 0 then 100
     else fsub 100 (fdiv 100 (fadd 1 (fdiv gain loss))))"

fun rsi_from :: "nat \<Rightarrow> pyfloat \<Rightarrow> pyfloat \<Rightarrow> (pyfloat \<times> pyfloat) list \<Rightarrow> pyfloat list" where
  "rsi_from period gain loss [] = []"
| "rsi_from period gain loss ((g, l) # xs) =
     (let gain' = smooth period gain g; loss' = smooth period loss l
      in to_rsi gain' loss' # rsi_from period gain' loss' xs)"

text \<open>The RSI of the gains and the losses, once they are separated.\<close>

definition rsi_of :: "nat \<Rightarrow> pyfloat list \<Rightarrow> pyfloat list \<Rightarrow> exc + pyfloat list" where
  "rsi_of period gains losses =
     ebind (fdivide (fsum (take period gains)) (of_pyint (int period))) (\<lambda>gain.
     ebind (fdivide (fsum (take period losses)) (of_pyint (int period))) (\<lambda>loss.
     Inr (to_rsi gain loss # rsi_from period gain loss (zip (drop period gains) (drop period losses)))))"

definition calculate_rsi :: "pyfloat list \<Rightarrow> nat \<Rightarrow> exc + pyfloat list" where
  "calculate_rsi cs period =
     (if length cs \<le> period then Inl ValueError
      else rsi_of period (map (\<lambda>d. max d 0) (deltas cs)) (map (\<lambda>d. \<bar>min d 0\<bar>) (deltas cs)))"

text \<open>The copy of the divergence strategy writes the losses the other way.\<close>

definition divergence_rsi :: "pyfloat list \<Rightarrow> nat \<Rightarrow> exc + pyfloat list" where
  "divergence_rsi values period =
     (if length values < period + 1 then Inl ValueError
      else rsi_of period (map (\<lambda>d. max d 0) (deltas values)) (map (\<lambda>d. max (- d) 0) (deltas values)))"

lemma divergence_rsi_eq: "divergence_rsi xs period = calculate_rsi xs period"
proof -
  have "(\<lambda>d. max (- d) 0) = (\<lambda>d :: rat. \<bar>min d 0\<bar>)" by (auto simp: fun_eq_iff max_def min_def)
  then show ?thesis by (simp add: divergence_rsi_def calculate_rsi_def)
qed

subsection \<open>Swings\<close>

definition find_swing_lows :: "pyfloat list \<Rightarrow> nat \<Rightarrow> nat list" where
  "find_swing_lows xs wing = filter (\<lambda>i.
      (\<forall>k \<in> set [1..<wing + 1]. xs ! i < xs ! (i - k)) \<and> (\<forall>k \<in> set [1..<wing + 1]. xs ! i < xs ! (i + k)))
     [wing..<length xs - wing]"

definition find_swing_highs :: "pyfloat list \<Rightarrow> nat \<Rightarrow> nat list" where
  "find_swing_highs xs wing = filter (\<lambda>i.
      (\<forall>k \<in> set [1..<wing + 1]. xs ! (i - k) < xs ! i) \<and> (\<forall>k \<in> set [1..<wing + 1]. xs ! (i + k) < xs ! i))
     [wing..<length xs - wing]"

subsection \<open>Bollinger bands\<close>

text \<open>One window's middle and half width; \<^verbatim>\<open>(x - mean) ** 2\<close> is the rounded square.\<close>

definition band_of :: "nat \<Rightarrow> pyfloat \<Rightarrow> pyfloat list \<Rightarrow> exc + pyfloat \<times> pyfloat \<times> pyfloat" where
  "band_of period num_std window =
     ebind (fdivide (fsum window) (of_pyint (int period))) (\<lambda>mean.
     ebind (fdivide (fsum (map (\<lambda>x. fmul (fsub x mean) (fsub x mean)) window)) (of_pyint (int period))) (\<lambda>variance.
     let width = fmul num_std (fsqrt variance) in
     Inr (fadd mean width, mean, fsub mean width)))"

text \<open>Upper, middle and lower band of every full window.\<close>

definition calculate_bollinger_bands ::
  "pyfloat list \<Rightarrow> nat \<Rightarrow> pyfloat \<Rightarrow> exc + (pyfloat \<times> pyfloat \<times> pyfloat) list"
where
  "calculate_bollinger_bands cs period num_std =
     emap (\<lambda>i. band_of period num_std (take period (drop (i + 1 - period) cs)))
       [period - 1..<length cs]"

subsection \<open>ADX and the regime\<close>

definition up_move :: "market_candle \<Rightarrow> market_candle \<Rightarrow> pyfloat" where
  "up_move p c = (let u = fsub (mc_high c) (mc_high p); d = fsub (mc_low p) (mc_low c)
     in if d < u \<and> 0 < u then u else 0)"

definition down_move :: "market_candle \<Rightarrow> market_candle \<Rightarrow> pyfloat" where
  "down_move p c = (let u = fsub (mc_high c) (mc_high p); d = fsub (mc_low p) (mc_low c)
     in if u < d \<and> 0 < d then d else 0)"

definition candle_range :: "market_candle \<Rightarrow> market_candle \<Rightarrow> pyfloat" where
  "candle_range p c = true_range (mc_high c) (mc_low c) (mc_close p)"

definition calculate_dx :: "pyfloat \<Rightarrow> pyfloat \<Rightarrow> pyfloat \<Rightarrow> pyfloat" where
  "calculate_dx tr pos neg =
     (if tr \<le> 0 then 0
      else let p = fmul (fdiv pos tr) 100; n = fmul (fdiv neg tr) 100; total = fadd p n
        in if total \<le> 0 then 0 else fmul (fdiv \<bar>fsub p n\<bar> total) 100)"

text \<open>\<^verbatim>\<open>s - s / period + x\<close>\<close>

definition wilder_sum :: "nat \<Rightarrow> pyfloat \<Rightarrow> pyfloat \<Rightarrow> pyfloat" where
  "wilder_sum period s x = fadd (fsub s (fdiv s (of_pyint (int period)))) x"

fun dx_from ::
  "nat \<Rightarrow> pyfloat \<Rightarrow> pyfloat \<Rightarrow> pyfloat \<Rightarrow> (pyfloat \<times> pyfloat \<times> pyfloat) list \<Rightarrow> pyfloat list"
where
  "dx_from period tr pos neg [] = []"
| "dx_from period tr pos neg ((t, p, n) # xs) =
     (let tr' = wilder_sum period tr t; pos' = wilder_sum period pos p; neg' = wilder_sum period neg n
      in calculate_dx tr' pos' neg' # dx_from period tr' pos' neg' xs)"

text \<open>Of at least two candles, and for a positive period.\<close>

definition calculate_adx :: "market_candle list \<Rightarrow> nat \<Rightarrow> pyfloat" where
  "calculate_adx cs period =
     (let pairs = zip cs (tl cs);
          trs = map (\<lambda>(p, c). candle_range p c) pairs;
          ups = map (\<lambda>(p, c). up_move p c) pairs;
          downs = map (\<lambda>(p, c). down_move p c) pairs;
          tr = fsum (take period trs); pos = fsum (take period ups); neg = fsum (take period downs);
          dxs = calculate_dx tr pos neg
            # dx_from period tr pos neg (drop period (zip trs (zip ups downs)));
          seed = min period (length dxs);
          adx = fdiv (fsum (take seed dxs)) (of_pyint (int seed))
      in foldl (smooth period) adx (drop seed dxs))"

datatype regime = RANGING | TRENDING

record regime_result =
  rg_adx_value :: pyfloat
  rg_regime :: regime
  rg_recommended_strategy :: string

definition detect_regime :: "market_candle list \<Rightarrow> nat \<Rightarrow> exc + regime_result" where
  "detect_regime cs period =
     (if period = 0 then Inl ValueError
      else if length cs < period + 1 then Inl ValueError
      else let adx = calculate_adx cs period in
        if adx < 25 then Inr \<lparr>rg_adx_value = adx, rg_regime = RANGING,
                            rg_recommended_strategy = ''vwap_reversion''\<rparr>
        else Inr \<lparr>rg_adx_value = adx, rg_regime = TRENDING,
                rg_recommended_strategy = ''ema_crossover''\<rparr>)"

subsection \<open>VWAP of the current day\<close>

definition candle_day :: "market_candle \<Rightarrow> date" where
  "candle_day c = date_of (mc_opened_at c)"

definition day_candles :: "market_snapshot \<Rightarrow> market_candle list" where
  "day_candles s = filter (\<lambda>c. candle_day c = candle_day (last (ms_candles s))) (ms_candles s)"

definition typical_price :: "market_candle \<Rightarrow> pyfloat" where
  "typical_price c = fdiv (fadd (fadd (mc_high c) (mc_low c)) (mc_close c)) 3"

definition calculate_intraday_vwap :: "market_snapshot \<Rightarrow> exc + pyfloat option" where
  "calculate_intraday_vwap s =
     (if ms_candles s = [] then Inl ValueError
      else let cs = filter (\<lambda>c. mc_volume c \<noteq> 0) (day_candles s);
               value = fsum (map (\<lambda>c. fmul (typical_price c) (mc_volume c)) cs);
               volume = fsum (map mc_volume cs)
        in Inr (if volume = 0 then None else Some (fdiv value volume)))"

definition count_current_utc_day_candles :: "market_snapshot \<Rightarrow> nat" where
  "count_current_utc_day_candles s = (if ms_candles s = [] then 0 else length (day_candles s))"

subsection \<open>Volatility\<close>

text \<open>
  \<^verbatim>\<open>math.log\<close>, the platform's, is the parameter \<open>lg\<close>; it raises for a number
  that is not positive.
\<close>

definition log_return :: "(pyfloat \<Rightarrow> pyfloat) \<Rightarrow> pyfloat \<times> pyfloat \<Rightarrow> exc + pyfloat" where
  "log_return lg ba = (let q = fdiv (fst ba) (snd ba) in if q \<le> 0 then Inl ValueError else Inr (lg q))"

text \<open>The pairs of a close and the one before it.\<close>

definition close_pairs :: "pyfloat list \<Rightarrow> (pyfloat \<times> pyfloat) list" where
  "close_pairs cs = zip (tl cs) cs"

text \<open>\<open>both\<close>: the momentum strategy also skips a close that is not positive itself.\<close>

definition realized_volatility :: "(pyfloat \<Rightarrow> pyfloat) \<Rightarrow> bool \<Rightarrow> market_snapshot \<Rightarrow> exc + pyfloat" where
  "realized_volatility lg both s =
     (let cs = last_n 20 (closes s) in
      if length cs < 2 then Inr 0
      else ebind (emap (log_return lg)
             (filter (\<lambda>(b, a). 0 < a \<and> (both \<longrightarrow> 0 < b)) (close_pairs cs))) (\<lambda>returns.
        if length returns < 2 then Inr 0 else stdev returns))"

subsection \<open>Bounds\<close>

lemma is_float_100: "is_float 100" "is_float 1"
  using is_float_numeral[of "num.Bit0 (num.Bit0 (num.Bit1 (num.Bit0 (num.Bit0 (num.Bit1 num.One)))))"]
    is_float_int[of 1] by simp_all

lemma of_pyint_pos: "0 < period \<Longrightarrow> 0 < of_pyint (int period)"
  by (simp add: of_pyint_def flo.pos_iff)

lemma of_pyint_nonneg: "0 \<le> n \<Longrightarrow> 0 \<le> of_pyint n"
  by (simp add: of_pyint_def flo.nonneg)

lemma smooth_nonneg: "0 \<le> prev \<Longrightarrow> 0 \<le> x \<Longrightarrow> 0 < period \<Longrightarrow> 0 \<le> smooth period prev x"
  by (simp add: smooth_def float_ops flo.nonneg of_pyint_nonneg)

lemma fdiv_nonneg: "0 \<le> x \<Longrightarrow> 0 \<le> y \<Longrightarrow> 0 \<le> fdiv x y"
  by (simp add: fdiv_def flo.nonneg)

lemma true_range_nonneg: "0 \<le> true_range h l c"
  by (simp add: true_range_def le_max_iff_disj)

lemma smooth_from_nonneg:
  "0 \<le> prev \<Longrightarrow> \<forall>x \<in> set xs. 0 \<le> x \<Longrightarrow> 0 < period \<Longrightarrow> \<forall>a \<in> set (smooth_from period prev xs). 0 \<le> a"
proof (induction xs arbitrary: prev)
  case (Cons x xs)
  then have "0 \<le> smooth period prev x" by (simp add: smooth_nonneg)
  with Cons.IH[OF this] Cons.prems show ?case by (simp add: Let_def)
qed simp

lemma length_smooth_from: "length (smooth_from period prev xs) = length xs"
  by (induction xs arbitrary: prev) (simp_all add: Let_def)

lemma set_take_drop: "\<forall>x \<in> set xs. P x \<Longrightarrow> \<forall>x \<in> set (take n xs). P x"
  "\<forall>x \<in> set xs. P x \<Longrightarrow> \<forall>x \<in> set (drop n xs). P x"
  by (auto dest: in_set_takeD in_set_dropD)

text \<open>A division by the period only succeeds for a positive period.\<close>

lemma period_pos: "fdivide x (of_pyint (int period)) = Inr y \<Longrightarrow> 0 < period \<and> y = fdiv x (of_pyint (int period))"
  by (cases "period = 0") (auto simp: fdivide_def of_pyint_def flo.zero split: if_splits)

lemma atr_nonneg:
  assumes "calculate_strategy_atr hs ls cs period = Inr as"
  shows "\<forall>a \<in> set as. 0 \<le> a"
proof -
  have tr: "\<forall>x \<in> set (true_ranges hs ls cs). 0 \<le> x"
    by (auto simp: true_ranges_def true_range_nonneg)
  from assms obtain a where a: "fdivide (fsum (take period (true_ranges hs ls cs))) (of_pyint (int period)) = Inr a"
    "as = a # smooth_from period a (drop period (true_ranges hs ls cs))"
    by (auto simp: calculate_strategy_atr_def Let_def ebind_Inr_iff split: if_splits)
  have "0 \<le> a" using period_pos[OF a(1)] fsum_nonneg[OF set_take_drop(1)[OF tr]]
    by (simp add: fdiv_nonneg of_pyint_nonneg)
  then have "\<forall>x \<in> set (smooth_from period a (drop period (true_ranges hs ls cs))). 0 \<le> x"
    using period_pos[OF a(1)] by (intro smooth_from_nonneg set_take_drop(2)[OF tr]) simp_all
  with \<open>0 \<le> a\<close> show ?thesis unfolding a(2) by simp
qed

lemma to_rsi_bounds:
  assumes "0 \<le> gain" "0 \<le> loss"
  shows "0 \<le> to_rsi gain loss \<and> to_rsi gain loss \<le> 100"
proof (cases "loss = 0")
  case False
  define q where "q = fadd 1 (fdiv gain loss)"
  have q: "1 \<le> q" unfolding q_def fadd_def
    using assms is_float_100(2) by (intro flo.add_mono_rep) (simp_all add: is_float_def fdiv_nonneg)
  have "100 / q \<le> 100" using q by (simp add: field_simps)
  then have "fdiv 100 q \<le> 100" unfolding fdiv_def
    using is_float_100(1) by (intro flo.le_rep) (simp_all add: is_float_def)
  moreover have "0 \<le> fdiv 100 q" using q by (simp add: fdiv_nonneg)
  ultimately have "0 \<le> fsub 100 (fdiv 100 q)" "fsub 100 (fdiv 100 q) \<le> 100"
    using is_float_100(1) unfolding fsub_def is_float_def
    by (simp_all add: flo.nonneg flo.sub_mono_rep)
  then show ?thesis using False by (simp add: to_rsi_def q_def)
qed (simp add: to_rsi_def)

lemma rsi_from_bounds:
  "0 \<le> gain \<Longrightarrow> 0 \<le> loss \<Longrightarrow> \<forall>(g, l) \<in> set xs. 0 \<le> g \<and> 0 \<le> l \<Longrightarrow> 0 < period \<Longrightarrow>
    \<forall>r \<in> set (rsi_from period gain loss xs). 0 \<le> r \<and> r \<le> 100"
proof (induction xs arbitrary: gain loss)
  case (Cons gl xs)
  obtain g l where gl: "gl = (g, l)" by (cases gl)
  have "0 \<le> smooth period gain g" "0 \<le> smooth period loss l" "\<forall>(g, l) \<in> set xs. 0 \<le> g \<and> 0 \<le> l"
    using Cons.prems by (simp_all add: gl smooth_nonneg)
  with Cons.IH[OF this \<open>0 < period\<close>] show ?case by (simp add: gl Let_def to_rsi_bounds)
qed simp

lemma rsi_of_bounds:
  assumes run: "rsi_of period gains losses = Inr rs"
    and g: "\<forall>x \<in> set gains. 0 \<le> x" and l: "\<forall>x \<in> set losses. 0 \<le> x"
  shows "\<forall>r \<in> set rs. 0 \<le> r \<and> r \<le> 100"
proof -
  obtain gain loss where *: "fdivide (fsum (take period gains)) (of_pyint (int period)) = Inr gain"
    "fdivide (fsum (take period losses)) (of_pyint (int period)) = Inr loss"
    "rs = to_rsi gain loss # rsi_from period gain loss (zip (drop period gains) (drop period losses))"
    using run by (auto simp: rsi_of_def ebind_Inr_iff)
  have pos: "0 \<le> gain" "0 \<le> loss" "0 < period"
    using period_pos[OF *(1)] period_pos[OF *(2)] fsum_nonneg[OF set_take_drop(1)[OF g]]
      fsum_nonneg[OF set_take_drop(1)[OF l]] by (simp_all add: fdiv_nonneg of_pyint_nonneg)
  have "0 \<le> a \<and> 0 \<le> b" if "(a, b) \<in> set (zip (drop period gains) (drop period losses))" for a b
    using in_set_dropD[OF set_zip_leftD[OF that]] in_set_dropD[OF set_zip_rightD[OF that]] g l by blast
  then have "\<forall>(a, b) \<in> set (zip (drop period gains) (drop period losses)). 0 \<le> a \<and> 0 \<le> b" by blast
  with rsi_from_bounds[OF pos(1,2) this pos(3)] to_rsi_bounds[OF pos(1,2)] *(3) show ?thesis by simp
qed

lemma rsi_bounds: "calculate_rsi cs period = Inr rs \<Longrightarrow> \<forall>r \<in> set rs. 0 \<le> r \<and> r \<le> 100"
  unfolding calculate_rsi_def by (rule rsi_of_bounds) (auto split: if_splits)

lemma dx_bounds:
  assumes "0 \<le> pos" "0 \<le> neg"
  shows "0 \<le> calculate_dx tr pos neg \<and> calculate_dx tr pos neg \<le> 100"
proof (cases "0 < tr")
  case True
  define p n where "p = fmul (fdiv pos tr) 100" and "n = fmul (fdiv neg tr) 100"
  have pn: "0 \<le> p" "0 \<le> n" using assms True by (simp_all add: p_def n_def fmul_def fdiv_nonneg flo.nonneg)
  show ?thesis
  proof (cases "0 < fadd p n")
    case True
    have "\<bar>fsub p n\<bar> \<le> fadd p n" unfolding abs_fsub fadd_def using pn by (intro flo.mono) linarith
    then have "\<bar>fsub p n\<bar> / fadd p n \<le> 1" using True by (simp add: field_simps)
    then have "fdiv \<bar>fsub p n\<bar> (fadd p n) \<le> 1" unfolding fdiv_def
      using is_float_100(2) by (intro flo.le_rep) (simp_all add: is_float_def)
    then have "fmul (fdiv \<bar>fsub p n\<bar> (fadd p n)) 100 \<le> 100" unfolding fmul_def
      using is_float_100(1) by (intro flo.le_rep) (simp_all add: is_float_def)
    moreover have "0 \<le> fmul (fdiv \<bar>fsub p n\<bar> (fadd p n)) 100"
      using True by (simp add: fmul_def fdiv_nonneg flo.nonneg)
    ultimately show ?thesis using True \<open>0 < tr\<close>
      by (simp add: calculate_dx_def Let_def p_def[symmetric] n_def[symmetric])
  qed (use \<open>0 < tr\<close> in \<open>simp add: calculate_dx_def Let_def p_def[symmetric] n_def[symmetric]\<close>)
qed (simp add: calculate_dx_def)

lemma fl_hundreds: "100 * int n < 2 ^ 53 \<Longrightarrow> fl (100 * of_nat n) = 100 * of_nat n"
  using fl_nat_int[of "100 * int n"] by simp

lemma of_pyint_small: "int n < 2 ^ 53 \<Longrightarrow> of_pyint (int n) = of_nat n"
  using fl_nat_int[of "int n"] by (simp add: of_pyint_def)

lemma fsum_hundreds:
  "\<forall>x \<in> set xs. x \<le> 100 \<Longrightarrow> 100 * int (length xs) < 2 ^ 53 \<Longrightarrow> fsum xs \<le> 100 * of_nat (length xs)"
proof (induction xs rule: rev_induct)
  case (snoc x xs)
  have "fsum (xs @ [x]) = fl (fsum xs + x)" by (simp add: fsum_def fadd_def)
  also have "\<dots> \<le> fl (100 * of_nat (length (xs @ [x])))"
    using snoc by (intro flo.mono) (simp add: algebra_simps)
  also have "\<dots> = 100 * of_nat (length (xs @ [x]))" using snoc.prems by (intro fl_hundreds) simp
  finally show ?case .
qed (simp add: fsum_def)

lemma smooth_hundred:
  assumes "prev \<le> 100" "x \<le> 100" "0 < period" "100 * int period < 2 ^ 53"
  shows "smooth period prev x \<le> 100"
proof -
  have p: "of_pyint (int period) = of_nat period" "of_pyint (int period - 1) = of_nat (period - 1)"
    using assms(3,4) of_pyint_small[of period] of_pyint_small[of "period - 1"] by (simp_all add: of_nat_diff)
  have "fmul prev (of_nat (period - 1)) \<le> fl (100 * of_nat (period - 1))"
    unfolding fmul_def using assms(1) by (intro flo.mono mult_right_mono) simp_all
  also have "\<dots> = 100 * of_nat (period - 1)" using assms(3,4) by (intro fl_hundreds) linarith
  finally have "fadd (fmul prev (of_nat (period - 1))) x \<le> fl (100 * of_nat period)"
    unfolding fadd_def using assms(2,3) by (intro flo.mono) (simp add: of_nat_diff algebra_simps)
  also have "\<dots> = 100 * of_nat period" using assms(4) by (rule fl_hundreds)
  finally have "fadd (fmul prev (of_nat (period - 1))) x / of_nat period \<le> 100"
    using assms(3) by (simp add: field_simps)
  then show ?thesis unfolding smooth_def p fdiv_def
    using is_float_100(1) by (intro flo.le_rep) (simp_all add: is_float_def)
qed

lemma smooth_fold_bounds:
  assumes "0 < period" "100 * int period < 2 ^ 53"
  shows "0 \<le> a \<Longrightarrow> a \<le> 100 \<Longrightarrow> \<forall>x \<in> set xs. 0 \<le> x \<and> x \<le> 100 \<Longrightarrow>
    0 \<le> foldl (smooth period) a xs \<and> foldl (smooth period) a xs \<le> 100"
proof (induction xs arbitrary: a)
  case (Cons x xs)
  have "0 \<le> smooth period a x" "smooth period a x \<le> 100"
    using Cons.prems assms smooth_nonneg smooth_hundred by simp_all
  with Cons.IH[OF this] Cons.prems show ?case by simp
qed simp

text \<open>The smoothed sums: they only shrink by their own part, so they stay nonnegative.\<close>

lemma wilder_sum_nonneg:
  assumes "0 \<le> s" "is_float s" "0 \<le> x" "0 < period"
  shows "0 \<le> wilder_sum period s x"
proof -
  have one: "1 \<le> of_pyint (int period)" unfolding of_pyint_def
    using is_float_100(2) assms(4) by (intro flo.ge_rep) (simp_all add: is_float_def)
  then have "s / of_pyint (int period) \<le> s"
    using assms(1) by (simp add: field_simps) (metis mult_left_mono mult.right_neutral)
  then have "fdiv s (of_pyint (int period)) \<le> s"
    unfolding fdiv_def using assms(2) by (intro flo.le_rep) (simp_all add: is_float_def)
  then show ?thesis using assms(3) by (simp add: wilder_sum_def fadd_def fsub_def flo.nonneg)
qed

lemma dx_from_bounds:
  "0 \<le> pos \<Longrightarrow> 0 \<le> neg \<Longrightarrow> is_float pos \<Longrightarrow> is_float neg \<Longrightarrow> 0 < period
    \<Longrightarrow> \<forall>(t, p, n) \<in> set xs. 0 \<le> p \<and> 0 \<le> n \<Longrightarrow>
    \<forall>d \<in> set (dx_from period tr pos neg xs). 0 \<le> d \<and> d \<le> 100"
proof (induction xs arbitrary: tr pos neg)
  case (Cons tpn xs)
  obtain t p n where e: "tpn = (t, p, n)" by (cases tpn)
  have "0 \<le> wilder_sum period pos p" "0 \<le> wilder_sum period neg n"
    using Cons.prems by (simp_all add: e wilder_sum_nonneg)
  moreover have "is_float (wilder_sum period pos p)" "is_float (wilder_sum period neg n)"
    by (simp_all add: wilder_sum_def)
  moreover have "\<forall>(t, p, n) \<in> set xs. 0 \<le> p \<and> 0 \<le> n" using Cons.prems by simp
  ultimately show ?case using Cons.IH[of "wilder_sum period pos p" "wilder_sum period neg n"
      "wilder_sum period tr t"] Cons.prems(5) dx_bounds by (simp add: e Let_def)
qed simp

lemma length_dx_from: "length (dx_from period tr pos neg xs) = length xs"
  by (induction period tr pos neg xs rule: dx_from.induct) (simp_all add: Let_def)

lemma is_float_fsum: "\<forall>x \<in> set xs. is_float x \<Longrightarrow> is_float (fsum xs)"
  by (cases xs rule: rev_cases) (simp_all add: fsum_def)

lemma moves_nonneg: "0 \<le> up_move p c" "0 \<le> down_move p c" "is_float (up_move p c)" "is_float (down_move p c)"
  by (simp_all add: up_move_def down_move_def Let_def)

lemma adx_bounds:
  assumes p: "0 < period" "100 * int period < 2 ^ 53"
  shows "0 \<le> calculate_adx cs period \<and> calculate_adx cs period \<le> 100"
proof -
  define pairs where "pairs = zip cs (tl cs)"
  define trs where "trs = map (\<lambda>(p, c). candle_range p c) pairs"
  define ups where "ups = map (\<lambda>(p, c). up_move p c) pairs"
  define downs where "downs = map (\<lambda>(p, c). down_move p c) pairs"
  define tr where "tr = fsum (take period trs)"
  define pos where "pos = fsum (take period ups)"
  define neg where "neg = fsum (take period downs)"
  define dxs where "dxs = calculate_dx tr pos neg
    # dx_from period tr pos neg (drop period (zip trs (zip ups downs)))"
  define seed where "seed = min period (length dxs)"
  define adx where "adx = fdiv (fsum (take seed dxs)) (of_pyint (int seed))"
  have e: "calculate_adx cs period = foldl (smooth period) adx (drop seed dxs)"
    by (simp only: calculate_adx_def Let_def pairs_def trs_def ups_def downs_def tr_def pos_def
        neg_def dxs_def seed_def adx_def)
  have u: "\<forall>x \<in> set ups. 0 \<le> x \<and> is_float x" and d: "\<forall>x \<in> set downs. 0 \<le> x \<and> is_float x"
    by (auto simp: ups_def downs_def moves_nonneg)
  have u': "\<forall>x \<in> set (take period ups). 0 \<le> x \<and> is_float x" by (rule set_take_drop(1)[OF u])
  have d': "\<forall>x \<in> set (take period downs). 0 \<le> x \<and> is_float x" by (rule set_take_drop(1)[OF d])
  have pos: "0 \<le> pos" "is_float pos"
    unfolding pos_def by (rule fsum_nonneg is_float_fsum, use u' in simp)+
  have neg: "0 \<le> neg" "is_float neg"
    unfolding neg_def by (rule fsum_nonneg is_float_fsum, use d' in simp)+
  note pn = pos(1) neg(1) pos(2) neg(2)
  have mem: "p \<in> set ups \<and> n \<in> set downs"
    if "(t, p, n) \<in> set (drop period (zip trs (zip ups downs)))" for t p n
  proof -
    have "(p, n) \<in> set (zip ups downs)" using in_set_dropD[OF that] by (rule set_zip_rightD)
    then show ?thesis by (blast dest: set_zip_leftD set_zip_rightD)
  qed
  have "\<forall>(t, p, n) \<in> set (drop period (zip trs (zip ups downs))). 0 \<le> p \<and> 0 \<le> n"
  proof (clarify)
    fix t p n assume "(t, p, n) \<in> set (drop period (zip trs (zip ups downs)))"
    from mem[OF this] u d show "0 \<le> p \<and> 0 \<le> n" by simp
  qed
  from dx_from_bounds[OF pn p(1) this, of tr] dx_bounds[OF pn(1,2), of tr]
  have dx: "\<forall>x \<in> set dxs. 0 \<le> x \<and> x \<le> 100" unfolding dxs_def by simp
  have "0 < seed" "seed \<le> length dxs" "seed \<le> period" using p by (auto simp: seed_def dxs_def)
  with p(2) have seed: "0 < seed" "seed \<le> length dxs" "100 * int seed < 2 ^ 53" by simp_all
  have s: "\<forall>x \<in> set (take seed dxs). 0 \<le> x \<and> x \<le> 100" using dx by (auto dest: in_set_takeD)
  have "fsum (take seed dxs) \<le> 100 * of_nat (length (take seed dxs))"
    using s seed by (intro fsum_hundreds) auto
  then have "fsum (take seed dxs) / of_nat seed \<le> 100" using seed by (simp add: field_simps)
  then have a: "adx \<le> 100" unfolding adx_def fdiv_def
    using is_float_100(1) seed(3) by (intro flo.le_rep) (simp_all add: is_float_def of_pyint_small)
  have "0 \<le> fsum (take seed dxs)" using s by (intro fsum_nonneg) blast
  then have "0 \<le> adx" by (simp add: adx_def fdiv_nonneg of_pyint_nonneg)
  then show ?thesis unfolding e using a dx by (intro smooth_fold_bounds[OF p]) (auto dest: in_set_dropD)
qed

text \<open>
  The oscillators stay on their scale whatever the prices are: every value of the RSI and the
  ADX of a detected regime lie between 0 and 100, rounding included, and a value of the average
  true range is never negative.  The copies of the RSI in the strategies agree.
\<close>

theorem oscillators_stay_on_scale:
  assumes rsi: "calculate_rsi xs period = Inr rs"
    and atr: "calculate_strategy_atr hs ls xs period = Inr as"
    and regime: "detect_regime cs period = Inr g" "100 * int period < 2 ^ 53"
  shows "(\<forall>r \<in> set rs. 0 \<le> r \<and> r \<le> 100) \<and> divergence_rsi xs period = Inr rs
    \<and> (\<forall>a \<in> set as. 0 \<le> a) \<and> 0 \<le> rg_adx_value g \<and> rg_adx_value g \<le> 100"
proof -
  have "period \<noteq> 0" "rg_adx_value g = calculate_adx cs period"
    using regime(1) by (auto simp: detect_regime_def Let_def split: if_splits)
  then have "0 \<le> rg_adx_value g \<and> rg_adx_value g \<le> 100" using adx_bounds[of period cs] regime(2) by simp
  with rsi_bounds[OF rsi] atr_nonneg[OF atr] rsi show ?thesis by (simp add: divergence_rsi_eq)
qed

definition sample_candle :: "int \<Rightarrow> rat \<Rightarrow> market_candle" where
  "sample_candle minute x = new_market_candle (minute * 60000000) (x + 1) (x - 1) x None 4"

theorem oscillators_stay_on_scale_witness:
  "\<exists>rs g. calculate_rsi [2, 4, 3] 1 = Inr rs \<and> rs = [100, 0] \<and> (\<forall>r \<in> set rs. 0 \<le> r \<and> r \<le> 100)
    \<and> detect_regime [sample_candle 0 2, sample_candle 1 4, sample_candle 2 8] 1 = Inr g
    \<and> rg_adx_value g = 100"
proof -
  have r: "calculate_rsi [2, 4, 3] 1 = Inr [100, 0]" by code_simp
  have a: "calculate_strategy_atr [3, 5, 4] [1, 3, 2] [2, 4, 3] 1 = Inr [3, 2]" by code_simp
  have g: "detect_regime [sample_candle 0 2, sample_candle 1 4, sample_candle 2 8] 1
    = Inr \<lparr>rg_adx_value = 100, rg_regime = TRENDING, rg_recommended_strategy = ''ema_crossover''\<rparr>"
    by code_simp
  show ?thesis using oscillators_stay_on_scale[OF r a g] r g by simp
qed

end
