(* ===== verification/Strategies.thy ===== *)
theory Strategies
  imports Indicators RiskManager
begin

text \<open>
  The strategies of \<^verbatim>\<open>backend/strategy_engine/\<close>, one record of parameters and one
  \<open>generate\<close> function each, the factory that builds them, the orchestrators that choose among
  them, and the service that runs one on a fresh snapshot.  A constructor's decimal literal is
  the float it denotes.  \<open>lg\<close> is the platform's logarithm, \<open>str_of_nat\<close> the decimal text.
\<close>

subsection \<open>What they share\<close>

type_synonym generator = "market_snapshot \<Rightarrow> exc + strategy_signal option"

definition digit_char :: "nat \<Rightarrow> char" where
  "digit_char d = char_of (48 + d)"

fun str_of_nat :: "nat \<Rightarrow> string" where
  "str_of_nat n = (if n < 10 then [digit_char n] else str_of_nat (n div 10) @ [digit_char (n mod 10)])"

declare str_of_nat.simps [simp del]

definition validate_snapshot :: "nat \<Rightarrow> market_snapshot \<Rightarrow> exc + unit" where
  "validate_snapshot minimum s =
     (if length (closes s) < minimum then Inl ValueError
      else if length (highs s) \<noteq> length (closes s) \<or> length (lows s) \<noteq> length (closes s)
        then Inl ValueError
      else Inr ())"

text \<open>The levels of a signal and its ratio; the callers name the reason and the indicators.\<close>

definition make_signal ::
  "market_snapshot \<Rightarrow> string \<Rightarrow> pyfloat \<Rightarrow> pyfloat \<Rightarrow> pyfloat \<Rightarrow> string \<Rightarrow> string
    \<Rightarrow> (string \<times> pyfloat) list \<Rightarrow> strategy_signal"
where
  "make_signal s direction entry stop target reason version indicators =
     \<lparr>sg_symbol = ms_symbol s, sg_direction = direction, sg_entry = entry, sg_stop = stop,
      sg_target = target, sg_reason = Some reason, sg_strategy_version = Some version,
      sg_indicators_snapshot = indicators\<rparr>"

text \<open>The test of three strategies: no risk or too small a ratio gives no signal.\<close>

definition signal_if_rewarding ::
  "pyfloat \<Rightarrow> market_snapshot \<Rightarrow> string \<Rightarrow> pyfloat \<Rightarrow> pyfloat \<Rightarrow> pyfloat \<Rightarrow> string \<Rightarrow> string
    \<Rightarrow> (string \<times> pyfloat) list \<Rightarrow> strategy_signal option"
where
  "signal_if_rewarding rrr_min s direction entry stop target reason version indicators =
     (let risk = \<bar>fsub entry stop\<bar>; rrr = fdiv \<bar>fsub target entry\<bar> risk in
      if risk = 0 then None
      else if rrr < rrr_min then None
      else Some (make_signal s direction entry stop target reason version
             (indicators @ [(''rrr'', rrr)])))"

subsection \<open>EMA crossover\<close>

record ema_crossover =
  xo_fast :: nat
  xo_slow :: nat
  xo_min_rrr :: pyfloat

definition new_ema_crossover :: "pyfloat \<Rightarrow> ema_crossover" where
  "new_ema_crossover rrr_min = \<lparr>xo_fast = 9, xo_slow = 21, xo_min_rrr = rrr_min\<rparr>"

definition crossover_build_signal ::
  "ema_crossover \<Rightarrow> market_snapshot \<Rightarrow> string \<Rightarrow> pyfloat \<Rightarrow> pyfloat \<Rightarrow> pyfloat \<Rightarrow> pyfloat \<Rightarrow> pyfloat
    \<Rightarrow> strategy_signal option"
where
  "crossover_build_signal x s direction entry stop target fast slow =
     signal_if_rewarding (xo_min_rrr x) s direction entry stop target
       (''ema_'' @ str_of_nat (xo_fast x) @ ''_'' @ str_of_nat (xo_slow x) @ ''_crossover'')
       (''ema-crossover-'' @ str_of_nat (xo_fast x) @ ''-'' @ str_of_nat (xo_slow x))
       [(''ema_fast'', fast), (''ema_slow'', slow)]"

definition crossover_generate :: "ema_crossover \<Rightarrow> generator" where
  "crossover_generate x s =
     ebind (validate_snapshot (xo_slow x + 1) s) (\<lambda>_.
     ebind (calculate_ema (closes s) (xo_fast x)) (\<lambda>ema_fast.
     ebind (calculate_ema (closes s) (xo_slow x)) (\<lambda>ema_slow.
     ebind (nth_back ema_fast 2) (\<lambda>previous_fast.
     ebind (nth_back ema_slow 2) (\<lambda>previous_slow.
     ebind (nth_back ema_fast 1) (\<lambda>current_fast.
     ebind (nth_back ema_slow 1) (\<lambda>current_slow.
     ebind (nth_back (closes s) 1) (\<lambda>entry.
     if previous_fast \<le> previous_slow \<and> current_slow < current_fast \<and> current_fast < entry then
       ebind (nth_back (lows s) 1) (\<lambda>stop.
       Inr (if entry \<le> stop then None
            else crossover_build_signal x s ''long'' entry stop
                   (fadd entry (fmul 2 (fsub entry stop))) current_fast current_slow))
     else if previous_slow \<le> previous_fast \<and> current_fast < current_slow \<and> entry < current_fast then
       ebind (nth_back (highs s) 1) (\<lambda>stop.
       Inr (if stop \<le> entry then None
            else crossover_build_signal x s ''short'' entry stop
                   (fsub entry (fmul 2 (fsub stop entry))) current_fast current_slow))
     else Inr None))))))))"

subsection \<open>Breakout\<close>

record breakout =
  bo_lookback_period :: nat
  bo_volume_multiplier :: pyfloat
  bo_atr_period :: nat
  bo_atr_stop_multiplier :: pyfloat
  bo_min_rrr :: pyfloat
  bo_trend_ema_period :: nat
  bo_volatility_skip_threshold :: pyfloat
  bo_strategy_version :: string

definition new_breakout :: "pyfloat \<Rightarrow> breakout" where
  "new_breakout rrr_min = \<lparr>bo_lookback_period = 20, bo_volume_multiplier = 2, bo_atr_period = 14,
     bo_atr_stop_multiplier = 1, bo_min_rrr = rrr_min, bo_trend_ema_period = 50,
     bo_volatility_skip_threshold = fl (4 / 100), bo_strategy_version = ''breakout-v1''\<rparr>"

definition breakout_candle_count :: "breakout \<Rightarrow> nat" where
  "breakout_candle_count b =
     max (max (bo_trend_ema_period b + 1) (bo_lookback_period b + 1)) (max (bo_atr_period b + 1) 21)"

definition breakout_build_signal ::
  "breakout \<Rightarrow> market_snapshot \<Rightarrow> string \<Rightarrow> pyfloat \<Rightarrow> pyfloat \<Rightarrow> pyfloat \<Rightarrow> pyfloat \<Rightarrow> pyfloat
    \<Rightarrow> pyfloat \<Rightarrow> pyfloat \<Rightarrow> strategy_signal option"
where
  "breakout_build_signal b s direction entry stop target range_high range_low ema atr =
     signal_if_rewarding (bo_min_rrr b) s direction entry stop target (direction @ ''_breakout'')
       (bo_strategy_version b)
       [(''range_high'', range_high), (''range_low'', range_low), (''ema'', ema), (''atr'', atr)]"

definition breakout_generate :: "(pyfloat \<Rightarrow> pyfloat) \<Rightarrow> breakout \<Rightarrow> generator" where
  "breakout_generate lg b s =
     ebind (validate_snapshot (breakout_candle_count b) s) (\<lambda>_.
     ebind (realized_volatility lg False s) (\<lambda>volatility.
     if bo_volatility_skip_threshold b \<le> volatility then Inr None
     else
       ebind (calculate_ema (closes s) (bo_trend_ema_period b)) (\<lambda>emas.
       ebind (nth_back emas 1) (\<lambda>ema.
       ebind (calculate_strategy_atr (highs s) (lows s) (closes s) (bo_atr_period b)) (\<lambda>atrs.
       ebind (nth_back atrs 1) (\<lambda>atr.
       ebind (nth_back (closes s) 1) (\<lambda>close.
       ebind (nth_back (volumes s) 1) (\<lambda>volume.
       ebind (py_max (before_last (bo_lookback_period b) (highs s))) (\<lambda>range_high.
       ebind (py_min (before_last (bo_lookback_period b) (lows s))) (\<lambda>range_low.
       ebind (py_median (if 21 \<le> length (volumes s) then before_last 20 (volumes s)
                         else last_n 20 (volumes s))) (\<lambda>m.
       let enough = fmul (bo_volume_multiplier b) m \<le> volume;
           distance = fmul (bo_atr_stop_multiplier b) atr in
       if range_high < close \<and> ema < close \<and> enough then
         let stop = fsub close distance in
         Inr (breakout_build_signal b s ''long'' close stop
                (fadd close (fmul (bo_min_rrr b) \<bar>fsub close stop\<bar>)) range_high range_low ema atr)
       else if close < range_low \<and> close < ema \<and> enough then
         let stop = fadd close distance in
         Inr (breakout_build_signal b s ''short'' close stop
                (fsub close (fmul (bo_min_rrr b) \<bar>fsub close stop\<bar>)) range_high range_low ema atr)
       else Inr None)))))))))))"

subsection \<open>EMA pullback\<close>

record ema_pullback =
  pb_fast_ema_period :: nat
  pb_slow_ema_period :: nat
  pb_rsi_period :: nat
  pb_rsi_long_entry_min :: pyfloat
  pb_rsi_short_entry_max :: pyfloat
  pb_rsi_trend_max_long :: pyfloat
  pb_rsi_trend_min_short :: pyfloat
  pb_atr_period :: nat
  pb_atr_stop_multiplier :: pyfloat
  pb_target_r_multiple :: pyfloat
  pb_min_rrr :: pyfloat
  pb_volume_confirmation_multiplier :: pyfloat
  pb_pullback_atr_tolerance :: pyfloat
  pb_min_trend_strength_candles :: nat
  pb_strategy_version :: string

definition new_ema_pullback :: "pyfloat \<Rightarrow> ema_pullback" where
  "new_ema_pullback rrr_min = \<lparr>pb_fast_ema_period = 20, pb_slow_ema_period = 50, pb_rsi_period = 14,
     pb_rsi_long_entry_min = 40, pb_rsi_short_entry_max = 60, pb_rsi_trend_max_long = 70,
     pb_rsi_trend_min_short = 30, pb_atr_period = 14, pb_atr_stop_multiplier = fl (12 / 10),
     pb_target_r_multiple = fl (18 / 10), pb_min_rrr = rrr_min,
     pb_volume_confirmation_multiplier = fl (11 / 10), pb_pullback_atr_tolerance = fl (8 / 10),
     pb_min_trend_strength_candles = 5, pb_strategy_version = ''ema-pullback-v1''\<rparr>"

definition pullback_build_signal ::
  "ema_pullback \<Rightarrow> market_snapshot \<Rightarrow> string \<Rightarrow> pyfloat \<Rightarrow> pyfloat \<Rightarrow> pyfloat \<Rightarrow> pyfloat \<Rightarrow> pyfloat
    \<Rightarrow> pyfloat \<Rightarrow> pyfloat \<Rightarrow> strategy_signal option"
where
  "pullback_build_signal p s direction entry stop target fast slow rsi atr =
     signal_if_rewarding (pb_min_rrr p) s direction entry stop target (direction @ ''_ema_pullback'')
       (pb_strategy_version p)
       [(''ema_fast'', fast), (''ema_slow'', slow), (''rsi'', rsi), (''atr'', atr)]"

definition pullback_volume_confirms :: "ema_pullback \<Rightarrow> pyfloat list \<Rightarrow> exc + bool" where
  "pullback_volume_confirms p vs =
     ebind (nth_back vs 1) (\<lambda>v. ebind (py_median (last_n 20 vs)) (\<lambda>m.
     Inr (fmul (pb_volume_confirmation_multiplier p) m \<le> v)))"

text \<open>\<open>extremes\<close> are the lows of a long setup and the highs of a short one.\<close>

definition has_pullback :: "ema_pullback \<Rightarrow> pyfloat list \<Rightarrow> pyfloat \<Rightarrow> pyfloat \<Rightarrow> bool" where
  "has_pullback p extremes fast atr = list_ex
     (\<lambda>x. \<bar>fsub x fast\<bar> \<le> fmul (pb_pullback_atr_tolerance p) atr) (last_n 3 extremes)"

definition build_long_signal ::
  "ema_pullback \<Rightarrow> market_snapshot \<Rightarrow> pyfloat \<Rightarrow> pyfloat \<Rightarrow> pyfloat \<Rightarrow> pyfloat \<Rightarrow> pyfloat
    \<Rightarrow> exc + strategy_signal option"
where
  "build_long_signal p s entry fast slow rsi atr =
     (if \<not> has_pullback p (lows s) fast atr \<or> entry \<le> fast then Inr None
      else if \<not> (pb_rsi_long_entry_min p \<le> rsi \<and> rsi \<le> pb_rsi_trend_max_long p) then Inr None
      else ebind (pullback_volume_confirms p (volumes s)) (\<lambda>ok.
        if \<not> ok then Inr None
        else ebind (py_min (last_n 5 (lows s))) (\<lambda>swing_low.
          let atr_stop = fsub entry (fmul (pb_atr_stop_multiplier p) atr);
              stop = max (fsub swing_low (fmul (fl (1 / 1000)) entry)) atr_stop in
          Inr (if entry \<le> stop then None
               else pullback_build_signal p s ''long'' entry stop
                      (fadd entry (fmul (pb_target_r_multiple p) (fsub entry stop))) fast slow rsi atr))))"

definition build_short_signal ::
  "ema_pullback \<Rightarrow> market_snapshot \<Rightarrow> pyfloat \<Rightarrow> pyfloat \<Rightarrow> pyfloat \<Rightarrow> pyfloat \<Rightarrow> pyfloat
    \<Rightarrow> exc + strategy_signal option"
where
  "build_short_signal p s entry fast slow rsi atr =
     (if \<not> has_pullback p (highs s) fast atr \<or> fast \<le> entry then Inr None
      else if \<not> (pb_rsi_trend_min_short p \<le> rsi \<and> rsi \<le> pb_rsi_short_entry_max p) then Inr None
      else ebind (pullback_volume_confirms p (volumes s)) (\<lambda>ok.
        if \<not> ok then Inr None
        else ebind (py_max (last_n 5 (highs s))) (\<lambda>swing_high.
          let atr_stop = fadd entry (fmul (pb_atr_stop_multiplier p) atr);
              stop = min (fadd swing_high (fmul (fl (1 / 1000)) entry)) atr_stop in
          Inr (if stop \<le> entry then None
               else pullback_build_signal p s ''short'' entry stop
                      (fsub entry (fmul (pb_target_r_multiple p) (fsub stop entry))) fast slow rsi atr))))"

definition pullback_candle_count :: "ema_pullback \<Rightarrow> nat" where
  "pullback_candle_count p = max 60 (pb_slow_ema_period p + pb_atr_period p + 5)"

text \<open>The averages are in this order now and were so some candles ago.\<close>

definition trend_holds ::
  "ema_pullback \<Rightarrow> (pyfloat \<Rightarrow> pyfloat \<Rightarrow> bool) \<Rightarrow> pyfloat list \<Rightarrow> pyfloat list \<Rightarrow> exc + bool"
where
  "trend_holds p order fasts slows =
     ebind (nth_back fasts 1) (\<lambda>fast.
     ebind (nth_back slows 1) (\<lambda>slow.
     if \<not> order fast slow then Inr False
     else ebind (nth_back fasts (pb_min_trend_strength_candles p)) (\<lambda>old_fast.
       ebind (nth_back slows (pb_min_trend_strength_candles p)) (\<lambda>old_slow.
       Inr (order old_fast old_slow)))))"

definition pullback_generate :: "ema_pullback \<Rightarrow> generator" where
  "pullback_generate p s =
     ebind (validate_snapshot (pullback_candle_count p) s) (\<lambda>_.
     ebind (calculate_ema (closes s) (pb_fast_ema_period p)) (\<lambda>fasts.
     ebind (calculate_ema (closes s) (pb_slow_ema_period p)) (\<lambda>slows.
     ebind (calculate_rsi (closes s) (pb_rsi_period p)) (\<lambda>rsis.
     ebind (nth_back rsis 1) (\<lambda>rsi.
     ebind (calculate_strategy_atr (highs s) (lows s) (closes s) (pb_atr_period p)) (\<lambda>atrs.
     ebind (nth_back atrs 1) (\<lambda>atr.
     ebind (nth_back fasts 1) (\<lambda>fast.
     ebind (nth_back slows 1) (\<lambda>slow.
     ebind (nth_back (closes s) 1) (\<lambda>entry.
     ebind (trend_holds p (\<lambda>f l. l < f) fasts slows) (\<lambda>is_uptrend.
     ebind (trend_holds p (\<lambda>f l. f < l) fasts slows) (\<lambda>is_downtrend.
     if is_uptrend then build_long_signal p s entry fast slow rsi atr
     else if is_downtrend then build_short_signal p s entry fast slow rsi atr
     else Inr None))))))))))))"

end
