(* ===== verification/ReversionStrategies.thy ===== *)
theory ReversionStrategies
  imports Strategies
begin

text \<open>
  The other strategies of \<^verbatim>\<open>backend/strategy_engine/\<close>: the two VWAP
  reversions, the RSI divergence, the Bollinger squeeze and the time series momentum.
\<close>

subsection \<open>VWAP reversion\<close>

record vwap_reversion =
  vr_atr_period :: nat
  vr_rsi_period :: nat
  vr_min_deviation :: pyfloat
  vr_min_current_day_candles :: nat
  vr_min_rrr :: pyfloat

definition new_vwap_reversion :: "pyfloat \<Rightarrow> vwap_reversion" where
  "new_vwap_reversion m = \<lparr>vr_atr_period = 14, vr_rsi_period = 7,
     vr_min_deviation = fl (5 / 1000), vr_min_current_day_candles = 12, vr_min_rrr = m\<rparr>"

definition rrr_meets_minimum :: "vwap_reversion \<Rightarrow> pyfloat \<Rightarrow> pyfloat \<Rightarrow> pyfloat \<Rightarrow> bool" where
  "rrr_meets_minimum v entry stop target =
     (let risk = \<bar>fsub entry stop\<bar>; reward = \<bar>fsub target entry\<bar>
      in \<not> (risk = 0 \<or> fdiv reward risk < vr_min_rrr v))"

definition vwap_signal ::
  "vwap_reversion \<Rightarrow> market_snapshot \<Rightarrow> string \<Rightarrow> pyfloat \<Rightarrow> pyfloat \<Rightarrow> pyfloat \<Rightarrow> pyfloat \<Rightarrow> pyfloat
    \<Rightarrow> strategy_signal option"
where
  "vwap_signal v s direction entry stop vwap rsi atr =
     (if rrr_meets_minimum v entry stop vwap
      then Some (make_signal s direction entry stop vwap (''vwap_reversion_'' @ direction)
             ''vwap-reversion-v1'' [(''vwap'', vwap), (''rsi'', rsi), (''atr'', atr)])
      else None)"

definition vwap_generate :: "vwap_reversion \<Rightarrow> generator" where
  "vwap_generate v s =
     (if length (ms_candles s) < 50 then Inl ValueError
      else if count_current_utc_day_candles s < vr_min_current_day_candles v then Inr None
      else
        ebind (calculate_intraday_vwap s) (\<lambda>ov.
        case ov of
          None \<Rightarrow> Inr None
        | Some vwap \<Rightarrow>
            ebind (calculate_rsi (closes s) (vr_rsi_period v)) (\<lambda>rsis.
            ebind (calculate_strategy_atr (highs s) (lows s) (closes s) (vr_atr_period v)) (\<lambda>atrs.
            ebind (nth_back (closes s) 1) (\<lambda>close.
            ebind (nth_back (closes s) 2) (\<lambda>previous_close.
            ebind (nth_back rsis 1) (\<lambda>rsi.
            ebind (nth_back atrs 1) (\<lambda>atr.
            ebind (fdivide (fsub close vwap) vwap) (\<lambda>deviation_pct.
            Inr (if close < fmul vwap (fsub 1 (vr_min_deviation v)) \<and> previous_close < close \<and> rsi < 35
                 then vwap_signal v s ''long'' close (fsub close (fmul 2 atr)) vwap rsi atr
                 else if fmul vwap (fadd 1 (vr_min_deviation v)) < close \<and> close < previous_close \<and> 65 < rsi
                 then vwap_signal v s ''short'' close (fadd close (fmul 2 atr)) vwap rsi atr
                 else None))))))))))"

subsection \<open>VWAP reversion, second version\<close>

record vwap_reversion_v2 =
  v2_min_deviation :: pyfloat
  v2_rsi_period :: nat
  v2_rsi_long_threshold :: pyfloat
  v2_rsi_short_threshold :: pyfloat
  v2_atr_period :: nat
  v2_atr_stop_multiplier :: pyfloat
  v2_min_rrr :: pyfloat
  v2_maker_fee_rate :: pyfloat
  v2_taker_fee_rate :: pyfloat
  v2_spread_bps :: pyfloat
  v2_volume_confirmation_multiplier :: pyfloat
  v2_require_reversal_bar :: bool
  v2_min_current_day_candles :: nat
  v2_regime_adx_period :: nat
  v2_regime_adx_threshold :: pyfloat
  v2_volatility_skip_threshold :: pyfloat
  v2_strategy_version :: string

definition new_vwap_reversion_v2 :: "pyfloat \<Rightarrow> vwap_reversion_v2" where
  "new_vwap_reversion_v2 m = \<lparr>v2_min_deviation = fl (5 / 1000), v2_rsi_period = 7,
     v2_rsi_long_threshold = 30, v2_rsi_short_threshold = 70, v2_atr_period = 14,
     v2_atr_stop_multiplier = fl (15 / 10), v2_min_rrr = m, v2_maker_fee_rate = fl (1 / 1000),
     v2_taker_fee_rate = fl (25 / 10000), v2_spread_bps = 2,
     v2_volume_confirmation_multiplier = fl (12 / 10), v2_require_reversal_bar = True,
     v2_min_current_day_candles = 4, v2_regime_adx_period = 14, v2_regime_adx_threshold = 25,
     v2_volatility_skip_threshold = fl (25 / 1000), v2_strategy_version = ''vwap-reversion-v2''\<rparr>"

definition v2_candle_count :: "vwap_reversion_v2 \<Rightarrow> nat" where
  "v2_candle_count v = max 50 (v2_regime_adx_period v + 15 + 1)"

definition v2_adx_value :: "vwap_reversion_v2 \<Rightarrow> market_snapshot \<Rightarrow> exc + pyfloat" where
  "v2_adx_value v s =
     ebind (detect_regime (last_n (max 30 (v2_regime_adx_period v + 1)) (ms_candles s))
              (v2_regime_adx_period v)) (\<lambda>g. Inr (rg_adx_value g))"

definition v2_direction ::
  "vwap_reversion_v2 \<Rightarrow> pyfloat \<Rightarrow> pyfloat \<Rightarrow> pyfloat \<Rightarrow> pyfloat \<Rightarrow> exc + string option"
where
  "v2_direction v entry previous_close rsi vwap =
     ebind (fdivide (fsub entry vwap) vwap) (\<lambda>d.
     Inr (if \<bar>d\<bar> < v2_min_deviation v then None
          else if entry < vwap \<and> rsi < v2_rsi_long_threshold v then
            (if v2_require_reversal_bar v \<and> entry \<le> previous_close then None else Some ''long'')
          else if vwap < entry \<and> v2_rsi_short_threshold v < rsi then
            (if v2_require_reversal_bar v \<and> previous_close \<le> entry then None else Some ''short'')
          else None))"

definition v2_volume_confirms :: "vwap_reversion_v2 \<Rightarrow> pyfloat list \<Rightarrow> exc + bool" where
  "v2_volume_confirms v vs =
     (if length vs < 20 then Inr False
      else ebind (nth_back vs 1) (\<lambda>x. ebind (py_median (last_n 20 vs)) (\<lambda>m.
        Inr (fmul (v2_volume_confirmation_multiplier v) m \<le> x))))"

definition round_trip_cost_fraction :: "vwap_reversion_v2 \<Rightarrow> pyfloat" where
  "round_trip_cost_fraction v =
     fadd (fadd (v2_maker_fee_rate v) (v2_taker_fee_rate v)) (fdiv (v2_spread_bps v) 10000)"

text \<open>Stop, target and ratio, when the target is within reach of the VWAP.\<close>

definition build_trade_levels ::
  "vwap_reversion_v2 \<Rightarrow> string \<Rightarrow> pyfloat \<Rightarrow> pyfloat \<Rightarrow> pyfloat \<Rightarrow> (pyfloat \<times> pyfloat \<times> pyfloat) option"
where
  "build_trade_levels v direction entry atr vwap =
     (let distance = fmul (v2_atr_stop_multiplier v) atr;
          stop = (if direction = ''long'' then fsub entry distance else fadd entry distance);
          risk = \<bar>fsub entry stop\<bar>;
          needed = fadd (fmul risk (v2_min_rrr v)) (fmul entry (round_trip_cost_fraction v));
          target = (if direction = ''long'' then fadd entry needed else fsub entry needed);
          final_rrr = fdiv \<bar>fsub target entry\<bar> risk
      in if risk = 0 then None
         else if direction = ''long'' \<and> fmul vwap (fl (1005 / 1000)) < target then None
         else if direction = ''short'' \<and> target < fmul vwap (fl (995 / 1000)) then None
         else if final_rrr < v2_min_rrr v then None
         else Some (stop, target, final_rrr))"

definition v2_signal ::
  "vwap_reversion_v2 \<Rightarrow> market_snapshot \<Rightarrow> string \<Rightarrow> pyfloat \<Rightarrow> pyfloat \<times> pyfloat \<times> pyfloat
    \<Rightarrow> pyfloat \<Rightarrow> pyfloat \<Rightarrow> pyfloat \<Rightarrow> pyfloat \<Rightarrow> pyfloat \<Rightarrow> strategy_signal"
where
  "v2_signal v s direction entry levels rsi atr adx volatility vwap =
     (case levels of (stop, target, final_rrr) \<Rightarrow>
        make_signal s direction entry stop target (direction @ ''_vwap_reversion_v2'')
          (v2_strategy_version v)
          [(''vwap'', vwap), (''rsi'', rsi), (''atr'', atr), (''adx'', adx),
           (''realized_volatility'', volatility), (''rrr'', final_rrr)])"

definition v2_generate :: "(pyfloat \<Rightarrow> pyfloat) \<Rightarrow> vwap_reversion_v2 \<Rightarrow> generator" where
  "v2_generate lg v s =
     (if length (ms_candles s) < v2_candle_count v then Inl ValueError
      else if count_current_utc_day_candles s < v2_min_current_day_candles v then Inr None
      else
        ebind (realized_volatility lg False s) (\<lambda>volatility.
        if \<not> volatility < v2_volatility_skip_threshold v then Inr None
        else ebind (v2_adx_value v s) (\<lambda>adx.
        if \<not> adx < v2_regime_adx_threshold v then Inr None
        else ebind (calculate_intraday_vwap s) (\<lambda>ov.
        case ov of
          None \<Rightarrow> Inr None
        | Some vwap \<Rightarrow>
            ebind (calculate_rsi (closes s) (v2_rsi_period v)) (\<lambda>rsis.
            ebind (nth_back rsis 1) (\<lambda>rsi.
            ebind (calculate_strategy_atr (highs s) (lows s) (closes s) (v2_atr_period v)) (\<lambda>atrs.
            ebind (nth_back atrs 1) (\<lambda>atr.
            ebind (nth_back (closes s) 1) (\<lambda>entry.
            ebind (nth_back (closes s) 2) (\<lambda>previous_close.
            ebind (v2_direction v entry previous_close rsi vwap) (\<lambda>od.
            case od of
              None \<Rightarrow> Inr None
            | Some direction \<Rightarrow>
                ebind (v2_volume_confirms v (volumes s)) (\<lambda>ok.
                Inr (if \<not> ok then None
                     else map_option (\<lambda>levels. v2_signal v s direction entry levels rsi atr adx volatility vwap)
                            (build_trade_levels v direction entry atr vwap))))))))))))))"

subsection \<open>RSI divergence\<close>

record rsi_divergence =
  rd_rsi_period :: nat
  rd_swing_wing :: nat
  rd_swing_lookback :: nat
  rd_min_rrr :: pyfloat
  rd_target_rrr :: pyfloat

definition item_at :: "'a list \<Rightarrow> nat \<Rightarrow> exc + 'a" where
  "item_at xs i = (if i < length xs then Inr (xs ! i) else Inl IndexError)"

definition divergence_candle_count :: "rsi_divergence \<Rightarrow> nat" where
  "divergence_candle_count r = rd_rsi_period r + rd_swing_lookback r + rd_swing_wing r * 2 + 5"

definition divergence_signal ::
  "market_snapshot \<Rightarrow> string \<Rightarrow> pyfloat \<Rightarrow> pyfloat \<Rightarrow> pyfloat \<Rightarrow> pyfloat \<Rightarrow> string
    \<Rightarrow> pyfloat list \<Rightarrow> pyfloat list \<Rightarrow> nat \<Rightarrow> nat \<Rightarrow> strategy_signal"
where
  "divergence_signal s direction entry stop target rrr reason rsi cs i1 i2 =
     make_signal s direction entry stop target reason ''rsi-divergence-v1''
       [(''rsi_at_swing1'', rsi ! i1), (''rsi_at_swing2'', rsi ! i2), (''price_at_swing1'', cs ! i1),
        (''price_at_swing2'', cs ! i2), (''rrr'', rrr)]"

text \<open>The tolerance \<^verbatim>\<open>1e-9\<close> of the ratio test.\<close>

definition divergence_levels_ok :: "rsi_divergence \<Rightarrow> pyfloat \<Rightarrow> bool" where
  "divergence_levels_ok r rrr \<longleftrightarrow> \<not> rrr < fsub (rd_min_rrr r) (fl (1 / 10 ^ 9))"

definition check_bullish_divergence ::
  "rsi_divergence \<Rightarrow> market_snapshot \<Rightarrow> pyfloat list \<Rightarrow> pyfloat list \<Rightarrow> nat list \<Rightarrow> nat \<Rightarrow> int
    \<Rightarrow> exc + strategy_signal option"
where
  "check_bullish_divergence r s cs rsi lows_at search_size near_threshold =
     (if length lows_at < 2 then Inr None
      else ebind (nth_back lows_at 2) (\<lambda>i1. ebind (nth_back lows_at 1) (\<lambda>i2.
      if int i2 < near_threshold then Inr None
      else ebind (item_at cs i2) (\<lambda>c2. ebind (item_at cs i1) (\<lambda>c1.
      ebind (item_at rsi i2) (\<lambda>r2. ebind (item_at rsi i1) (\<lambda>r1.
      if \<not> (c2 < c1 \<and> r1 < r2) then Inr None
      else ebind (item_at (lows s) (length (closes s) - search_size + i2)) (\<lambda>low.
      ebind (nth_back (closes s) 1) (\<lambda>entry.
      let stop = fmul low (fl (999 / 1000));
          risk = fsub entry stop;
          target = fadd entry (fmul (rd_target_rrr r) risk);
          rrr = fdiv (fsub target entry) risk in
      Inr (if entry \<le> stop then None
           else if \<not> divergence_levels_ok r rrr then None
           else Some (divergence_signal s ''long'' entry stop target rrr ''rsi_divergence_bullish''
                  rsi cs i1 i2)))))))))))"

definition check_bearish_divergence ::
  "rsi_divergence \<Rightarrow> market_snapshot \<Rightarrow> pyfloat list \<Rightarrow> pyfloat list \<Rightarrow> nat list \<Rightarrow> nat \<Rightarrow> int
    \<Rightarrow> exc + strategy_signal option"
where
  "check_bearish_divergence r s cs rsi highs_at search_size near_threshold =
     (if length highs_at < 2 then Inr None
      else ebind (nth_back highs_at 2) (\<lambda>i1. ebind (nth_back highs_at 1) (\<lambda>i2.
      if int i2 < near_threshold then Inr None
      else ebind (item_at cs i2) (\<lambda>c2. ebind (item_at cs i1) (\<lambda>c1.
      ebind (item_at rsi i2) (\<lambda>r2. ebind (item_at rsi i1) (\<lambda>r1.
      if \<not> (c1 < c2 \<and> r2 < r1) then Inr None
      else ebind (item_at (highs s) (length (closes s) - search_size + i2)) (\<lambda>high.
      ebind (nth_back (closes s) 1) (\<lambda>entry.
      let stop = fmul high (fl (1001 / 1000));
          risk = fsub stop entry;
          target = fsub entry (fmul (rd_target_rrr r) risk);
          rrr = fdiv (fsub entry target) risk in
      Inr (if stop \<le> entry then None
           else if \<not> divergence_levels_ok r rrr then None
           else Some (divergence_signal s ''short'' entry stop target rrr ''rsi_divergence_bearish''
                  rsi cs i1 i2)))))))))))"

definition divergence_generate :: "rsi_divergence \<Rightarrow> generator" where
  "divergence_generate r s =
     ebind (validate_snapshot (divergence_candle_count r) s) (\<lambda>_.
     ebind (divergence_rsi (closes s) (rd_rsi_period r)) (\<lambda>rsis.
     let search_size = rd_swing_lookback r + rd_swing_wing r * 2;
         cs = last_n search_size (closes s);
         rsi = last_n search_size rsis;
         near = int search_size - int (rd_swing_wing r) * 2 - 3 in
     ebind (check_bullish_divergence r s cs rsi (find_swing_lows cs (rd_swing_wing r)) search_size near) (\<lambda>bullish.
     case bullish of
       Some g \<Rightarrow> Inr (Some g)
     | None \<Rightarrow> check_bearish_divergence r s cs rsi (find_swing_highs cs (rd_swing_wing r)) search_size near)))"

subsection \<open>Bollinger squeeze\<close>

record bb_squeeze =
  bb_period :: nat
  bb_std :: pyfloat
  bb_squeeze_lookback :: nat
  bb_atr_period :: nat
  bb_min_rrr :: pyfloat

definition new_bb_squeeze :: "pyfloat \<Rightarrow> bb_squeeze" where
  "new_bb_squeeze m = \<lparr>bb_period = 20, bb_std = 2, bb_squeeze_lookback = 50, bb_atr_period = 14,
     bb_min_rrr = m\<rparr>"

definition squeeze_candle_count :: "bb_squeeze \<Rightarrow> nat" where
  "squeeze_candle_count b = bb_period b + bb_squeeze_lookback b + bb_atr_period b + 5"

definition band_width :: "pyfloat \<times> pyfloat \<times> pyfloat \<Rightarrow> pyfloat" where
  "band_width uml = (case uml of (u, m, l) \<Rightarrow> if m \<noteq> 0 then fdiv (fsub u l) m else 0)"

definition squeeze_signal ::
  "market_snapshot \<Rightarrow> string \<Rightarrow> pyfloat \<Rightarrow> pyfloat \<Rightarrow> pyfloat \<Rightarrow> pyfloat \<Rightarrow> pyfloat \<times> pyfloat \<times> pyfloat
    \<Rightarrow> pyfloat \<Rightarrow> strategy_signal"
where
  "squeeze_signal s direction close stop target rrr band atr =
     make_signal s direction close stop target (''bb_squeeze_breakout_'' @ direction) ''bb-squeeze-v1''
       [(''bb_upper'', fst band), (''bb_lower'', snd (snd band)), (''bb_width'', band_width band),
        (''atr'', atr), (''rrr'', rrr)]"

definition squeeze_generate :: "bb_squeeze \<Rightarrow> generator" where
  "squeeze_generate b s =
     ebind (validate_snapshot (squeeze_candle_count b) s) (\<lambda>_.
     ebind (calculate_bollinger_bands (closes s) (bb_period b) (bb_std b)) (\<lambda>bands.
     ebind (calculate_strategy_atr (highs s) (lows s) (closes s) (bb_atr_period b)) (\<lambda>atrs.
     let widths = map band_width bands;
         historical = drop (length widths - (bb_squeeze_lookback b + 2)) (take (length widths - 2) widths) in
     if historical = [] then Inr None
     else
       ebind (py_min historical) (\<lambda>squeeze_threshold.
       ebind (nth_back widths 2) (\<lambda>prev_width.
       if \<not> prev_width \<le> squeeze_threshold then Inr None
       else
         ebind (nth_back (closes s) 1) (\<lambda>close.
         ebind (nth_back (closes s) 2) (\<lambda>prev_close.
         ebind (nth_back atrs 1) (\<lambda>atr.
         ebind (nth_back bands 1) (\<lambda>band.
         if fst band < close \<and> prev_close < close then
           let stop = fsub close (fmul 2 atr); risk = fsub close stop;
               target = fadd close (fmul risk (bb_min_rrr b)) in
           if close \<le> stop then Inl ValueError
           else Inr (Some (squeeze_signal s ''long'' close stop target (fdiv (fsub target close) risk) band atr))
         else if close < snd (snd band) \<and> close < prev_close then
           let stop = fadd close (fmul 2 atr); risk = fsub stop close;
               target = fsub close (fmul risk (bb_min_rrr b)) in
           if stop \<le> close then Inl ValueError
           else Inr (Some (squeeze_signal s ''short'' close stop target (fdiv (fsub close target) risk) band atr))
         else Inr None)))))))))"

subsection \<open>Time series momentum\<close>

record ts_momentum =
  tm_ema_fast_period :: nat
  tm_ema_slow_period :: nat
  tm_momentum_lookback :: nat
  tm_atr_period :: nat
  tm_volume_multiplier :: pyfloat
  tm_volatility_skip_threshold :: pyfloat
  tm_entry_breakout_bars :: nat
  tm_atr_initial_stop_multiplier :: pyfloat
  tm_atr_trail_multiplier :: pyfloat
  tm_min_rrr :: pyfloat
  tm_strategy_version :: string

definition new_ts_momentum :: "pyfloat \<Rightarrow> ts_momentum" where
  "new_ts_momentum m = \<lparr>tm_ema_fast_period = 96, tm_ema_slow_period = 288, tm_momentum_lookback = 24,
     tm_atr_period = 20, tm_volume_multiplier = fl (15 / 10),
     tm_volatility_skip_threshold = fl (3 / 100), tm_entry_breakout_bars = 4,
     tm_atr_initial_stop_multiplier = fl (15 / 10), tm_atr_trail_multiplier = 2, tm_min_rrr = m,
     tm_strategy_version = ''ts-momentum-v1''\<rparr>"

definition momentum_candle_count :: "ts_momentum \<Rightarrow> nat" where
  "momentum_candle_count m =
     max (max (tm_ema_slow_period m + 5) (tm_momentum_lookback m + tm_atr_period m + 5)) 50"

definition regime_allows :: "pyfloat list \<Rightarrow> pyfloat list \<Rightarrow> pyfloat list \<Rightarrow> exc + bool" where
  "regime_allows cs fasts slows =
     ebind (nth_back cs 1) (\<lambda>c. ebind (nth_back fasts 1) (\<lambda>f. ebind (nth_back slows 1) (\<lambda>l.
     if \<not> (f < c \<and> l < f) then Inr False
     else ebind (nth_back fasts 2) (\<lambda>f'.
       if \<not> f' < f then Inr False
       else ebind (nth_back slows 2) (\<lambda>l'. Inr (l' < l))))))"

definition compute_momentum_score ::
  "(pyfloat \<Rightarrow> pyfloat) \<Rightarrow> ts_momentum \<Rightarrow> market_snapshot \<Rightarrow> exc + pyfloat option"
where
  "compute_momentum_score lg m s =
     ebind (validate_snapshot (momentum_candle_count m) s) (\<lambda>_.
     ebind (calculate_ema (closes s) (tm_ema_fast_period m)) (\<lambda>fasts.
     ebind (calculate_ema (closes s) (tm_ema_slow_period m)) (\<lambda>slows.
     ebind (regime_allows (closes s) fasts slows) (\<lambda>ok.
     if \<not> ok then Inr None
     else ebind (realized_volatility lg True s) (\<lambda>volatility.
     if tm_volatility_skip_threshold m \<le> volatility then Inr None
     else ebind (calculate_strategy_atr (highs s) (lows s) (closes s) (tm_atr_period m)) (\<lambda>atrs.
     ebind (nth_back atrs 1) (\<lambda>atr.
     if atr \<le> 0 then Inr None
     else
       let pairs = close_pairs (closes s) in
       ebind (emap (log_return lg) (filter (\<lambda>(b, a). 0 < a \<and> 0 < b)
                (drop (length pairs - tm_momentum_lookback m) pairs))) (\<lambda>returns.
       Inr (Some (fdiv (fsum returns) atr))))))))))"

definition momentum_generate :: "(pyfloat \<Rightarrow> pyfloat) \<Rightarrow> ts_momentum \<Rightarrow> generator" where
  "momentum_generate lg m s =
     ebind (compute_momentum_score lg m s) (\<lambda>o'.
     case o' of
       None \<Rightarrow> Inr None
     | Some score \<Rightarrow>
         ebind (nth_back (closes s) 1) (\<lambda>close.
         ebind (nth_back (volumes s) 1) (\<lambda>volume.
         ebind (py_median (last_n 20 (volumes s))) (\<lambda>md.
         if volume < fmul (tm_volume_multiplier m) md then Inr None
         else
           ebind (calculate_strategy_atr (highs s) (lows s) (closes s) (tm_atr_period m)) (\<lambda>atrs.
           ebind (nth_back atrs 1) (\<lambda>atr.
           let stop = fsub close (fmul (tm_atr_initial_stop_multiplier m) atr) in
           Inr (if close \<le> stop then None
                else Some (make_signal s ''long'' close stop
                       (fadd close (fmul (tm_min_rrr m) \<bar>fsub close stop\<bar>)) ''ts_momentum_long''
                       (tm_strategy_version m)
                       [(''score'', score), (''atr'', atr), (''rrr'', tm_min_rrr m)]))))))))"

end
