(* ===== verification/StrategyEngine.thy ===== *)
theory StrategyEngine
  imports ReversionStrategies
begin

text \<open>
  \<^verbatim>\<open>backend/strategy_engine/factory.py\<close>, \<^verbatim>\<open>orchestrator.py\<close>,
  \<^verbatim>\<open>relative_strength_orchestrator.py\<close>, \<^verbatim>\<open>service.py\<close> and
  \<^verbatim>\<open>backend/backtest/shadow_runner.py\<close>; and what every signal of a strategy
  satisfies, up to the risk manager's test of it.
\<close>

subsection \<open>Building a strategy\<close>

record strategy =
  required_candle_count :: nat
  generate_signal :: generator

definition ascii_lower :: "char \<Rightarrow> char" where
  "ascii_lower c = (if 65 \<le> (of_char c :: nat) \<and> (of_char c :: nat) \<le> 90
     then char_of ((of_char c :: nat) + 32) else c)"

definition py_lower :: "string \<Rightarrow> string" where
  "py_lower s = map ascii_lower s"

definition build_day_trading_strategy :: "string \<Rightarrow> pyfloat \<Rightarrow> exc + strategy" where
  "build_day_trading_strategy name m =
     (if py_lower (py_strip name) = ''ema_crossover''
      then Inr \<lparr>required_candle_count = xo_slow (new_ema_crossover m) + 1,
             generate_signal = crossover_generate (new_ema_crossover m)\<rparr>
      else Inl ValueError)"

definition new_rsi_divergence :: "pyfloat \<Rightarrow> rsi_divergence" where
  "new_rsi_divergence m = \<lparr>rd_rsi_period = 14, rd_swing_wing = 2, rd_swing_lookback = 30,
     rd_min_rrr = m, rd_target_rrr = max (fl (15 / 10)) m\<rparr>"

definition build_scalping_strategy :: "(pyfloat \<Rightarrow> pyfloat) \<Rightarrow> string \<Rightarrow> pyfloat \<Rightarrow> exc + strategy" where
  "build_scalping_strategy lg name m =
     (let n = py_lower (py_strip name) in
      if n = ''rsi_divergence'' then Inr
        \<lparr>required_candle_count = divergence_candle_count (new_rsi_divergence m),
         generate_signal = divergence_generate (new_rsi_divergence m)\<rparr>
      else if n = ''vwap_reversion'' then Inr
        \<lparr>required_candle_count = 50, generate_signal = vwap_generate (new_vwap_reversion m)\<rparr>
      else if n = ''vwap_reversion_v2'' then Inr
        \<lparr>required_candle_count = v2_candle_count (new_vwap_reversion_v2 m),
         generate_signal = v2_generate lg (new_vwap_reversion_v2 m)\<rparr>
      else if n = ''ema_pullback'' then Inr
        \<lparr>required_candle_count = pullback_candle_count (new_ema_pullback m),
         generate_signal = pullback_generate (new_ema_pullback m)\<rparr>
      else if n = ''breakout'' then Inr
        \<lparr>required_candle_count = breakout_candle_count (new_breakout m),
         generate_signal = breakout_generate lg (new_breakout m)\<rparr>
      else if n = ''ts_momentum'' then Inr
        \<lparr>required_candle_count = momentum_candle_count (new_ts_momentum m),
         generate_signal = momentum_generate lg (new_ts_momentum m)\<rparr>
      else if n = ''bb_squeeze'' then Inr
        \<lparr>required_candle_count = squeeze_candle_count (new_bb_squeeze m),
         generate_signal = squeeze_generate (new_bb_squeeze m)\<rparr>
      else Inl ValueError)"

subsection \<open>Orchestrators\<close>

text \<open>The first strategy that has a signal; an exception of an earlier one is the result.\<close>

fun first_signal :: "strategy list \<Rightarrow> generator" where
  "first_signal [] s = Inr None"
| "first_signal (t # ts) s = ebind (generate_signal t s) (\<lambda>o'.
     case o' of Some g \<Rightarrow> Inr (Some g) | None \<Rightarrow> first_signal ts s)"

definition new_orchestrator :: "strategy list \<Rightarrow> exc + strategy" where
  "new_orchestrator ts =
     (case ts of
        [] \<Rightarrow> Inl ValueError
      | t # us \<Rightarrow> Inr
          \<lparr>required_candle_count = foldl max (required_candle_count t) (map required_candle_count us),
           generate_signal = first_signal ts\<rparr>)"

text \<open>The relative strength orchestrator; a dictionary is the list of its entries in order.\<close>

record relative_strength =
  rs_strategies :: "(string \<times> ts_momentum) list"
  rs_btc_symbol :: string

definition default_momentum :: ts_momentum where
  "default_momentum = new_ts_momentum (fl (15 / 10))"

definition btc_regime_allows :: "relative_strength \<Rightarrow> market_snapshot \<Rightarrow> exc + bool" where
  "btc_regime_allows r s =
     (let m = (case map_of (rs_strategies r) (rs_btc_symbol r) of Some m \<Rightarrow> m | None \<Rightarrow> default_momentum) in
      ebind (calculate_ema (closes s) (tm_ema_fast_period m)) (\<lambda>fasts.
      ebind (calculate_ema (closes s) (tm_ema_slow_period m)) (\<lambda>slows.
      regime_allows (closes s) fasts slows)))"

fun positive_scores ::
  "(pyfloat \<Rightarrow> pyfloat) \<Rightarrow> relative_strength \<Rightarrow> (string \<times> market_snapshot) list
    \<Rightarrow> exc + (string \<times> pyfloat) list"
where
  "positive_scores lg r [] = Inr []"
| "positive_scores lg r ((symbol, s) # ss) =
     (case map_of (rs_strategies r) symbol of
        None \<Rightarrow> positive_scores lg r ss
      | Some m \<Rightarrow> ebind (compute_momentum_score lg m s) (\<lambda>score.
          ebind (positive_scores lg r ss) (\<lambda>rest.
          Inr (case score of
                 Some x \<Rightarrow> if 0 < x then (symbol, x) # rest else rest
               | None \<Rightarrow> rest))))"

text \<open>\<^verbatim>\<open>max(scores, key=...)\<close>: the first of the highest.\<close>

definition best_score :: "(string \<times> pyfloat) list \<Rightarrow> string \<times> pyfloat" where
  "best_score xs = foldl (\<lambda>b x. if snd b < snd x then x else b) (hd xs) (tl xs)"

definition select_signal ::
  "(pyfloat \<Rightarrow> pyfloat) \<Rightarrow> relative_strength \<Rightarrow> (string \<times> market_snapshot) list
    \<Rightarrow> market_snapshot option \<Rightarrow> exc + strategy_signal option"
where
  "select_signal lg r ss btc =
     ebind (case btc of None \<Rightarrow> Inr True | Some s \<Rightarrow> btc_regime_allows r s) (\<lambda>allowed.
     if \<not> allowed then Inr None
     else ebind (positive_scores lg r ss) (\<lambda>scores.
       if scores = [] then Inr None
       else let winner = fst (best_score scores) in
         ebind (or_raise (map_of (rs_strategies r) winner) KeyError) (\<lambda>m.
         ebind (or_raise (map_of ss winner) KeyError) (\<lambda>s. momentum_generate lg m s))))"

subsection \<open>Running a strategy on a fresh snapshot\<close>

text \<open>The snapshot provider is a parameter: symbol, interval and number of candles.\<close>

type_synonym provider = "string \<Rightarrow> string \<Rightarrow> nat \<Rightarrow> exc + market_snapshot"

definition normalize_request :: "string \<Rightarrow> string \<Rightarrow> exc + string \<times> string" where
  "normalize_request symbol interval =
     (if py_upper (py_strip symbol) = [] then Inl ValueError
      else if py_strip interval = [] then Inl ValueError
      else Inr (py_upper (py_strip symbol), py_strip interval))"

record strategy_result =
  sx_symbol :: string
  sx_interval :: string
  sx_snapshot :: market_snapshot
  sx_signal :: "strategy_signal option"

definition run_strategy :: "provider \<Rightarrow> strategy \<Rightarrow> string \<Rightarrow> string \<Rightarrow> exc + strategy_result" where
  "run_strategy get_snapshot t symbol interval =
     ebind (normalize_request symbol interval) (\<lambda>(sym, intv).
     ebind (get_snapshot sym intv (required_candle_count t)) (\<lambda>s.
     ebind (generate_signal t s) (\<lambda>g.
     Inr \<lparr>sx_symbol = sym, sx_interval = intv, sx_snapshot = s, sx_signal = g\<rparr>)))"

text \<open>\<^verbatim>\<open>ShadowRunner.run_once\<close>, over any service that executes a request.\<close>

definition shadow_run_once ::
  "((string \<times> pyfloat) list \<Rightarrow> string) \<Rightarrow> (string \<Rightarrow> string \<Rightarrow> exc + strategy_result)
    \<Rightarrow> (signal_request \<Rightarrow> ('w, 'a) prog) \<Rightarrow> string \<Rightarrow> string \<Rightarrow> ('w, market_snapshot \<times> (strategy_signal \<times> 'a) option) prog"
where
  "shadow_run_once json run exec symbol interval =
     bnd (from_sum (run symbol interval)) (\<lambda>r.
     case sx_signal r of
       None \<Rightarrow> ret (sx_snapshot r, None)
     | Some g \<Rightarrow>
         bnd (from_sum (to_execute_signal_request json g)) (\<lambda>p.
         bnd (exec p) (\<lambda>a. ret (sx_snapshot r, Some (g, a)))))"

subsection \<open>What a signal satisfies\<close>

text \<open>Prices of a market: positive floats, and volumes that are not negative.\<close>

definition market_candle_ok :: "market_candle \<Rightarrow> bool" where
  "market_candle_ok c \<longleftrightarrow> 0 < mc_low c \<and> 0 < mc_high c \<and> 0 < mc_close c \<and> 0 \<le> mc_volume c
     \<and> is_float (mc_low c) \<and> is_float (mc_high c) \<and> is_float (mc_close c)"

definition market_ok :: "market_snapshot \<Rightarrow> bool" where
  "market_ok s \<longleftrightarrow> list_all market_candle_ok (ms_candles s)"

text \<open>The stop on the losing side, the target not on it.\<close>

definition sides_ok :: "strategy_signal \<Rightarrow> bool" where
  "sides_ok g \<longleftrightarrow> (sg_direction g = ''long'' \<and> sg_stop g < sg_entry g \<and> sg_entry g \<le> sg_target g)
     \<or> (sg_direction g = ''short'' \<and> sg_entry g < sg_stop g \<and> sg_target g \<le> sg_entry g)"

text \<open>The risk manager's test of the signal passes.\<close>

definition accepted :: "pyfloat \<Rightarrow> strategy_signal \<Rightarrow> bool" where
  "accepted r g \<longleftrightarrow> check_rrr (sg_entry g) (sg_stop g) (sg_target g) r = Inr True"

lemma accepted_iff:
  "accepted r g \<longleftrightarrow> fsub (sg_entry g) (sg_stop g) \<noteq> 0
     \<and> r \<le> fdiv \<bar>fsub (sg_target g) (sg_entry g)\<bar> \<bar>fsub (sg_entry g) (sg_stop g)\<bar>"
  by (simp add: accepted_def check_rrr_def Let_def)

lemma fsub_zero [simp]: "fsub x y = 0 \<longleftrightarrow> x = y"
  by (simp add: fsub_def flo.zero_iff)

lemma fadd_ge: "is_float x \<Longrightarrow> 0 \<le> y \<Longrightarrow> x \<le> fadd x y"
  unfolding fadd_def is_float_def by (rule flo.add_mono_rep)

lemma fsub_le: "is_float x \<Longrightarrow> 0 \<le> y \<Longrightarrow> fsub x y \<le> x"
  unfolding fsub_def is_float_def by (rule flo.sub_mono_rep)

lemma fmul_nonneg: "0 \<le> x \<Longrightarrow> 0 \<le> y \<Longrightarrow> 0 \<le> fmul x y"
  by (simp add: fmul_def flo.nonneg)

lemma fsub_nonneg: "0 \<le> fsub x y \<longleftrightarrow> y \<le> x"
  by (simp add: fsub_def flo.nonneg_iff)

lemmas sign_rules = fadd_ge fsub_le fmul_nonneg

lemma make_signal_simps [simp]:
  "sg_direction (make_signal s d e st ta re v ind) = d" "sg_entry (make_signal s d e st ta re v ind) = e"
  "sg_stop (make_signal s d e st ta re v ind) = st" "sg_target (make_signal s d e st ta re v ind) = ta"
  by (simp_all add: make_signal_def)

text \<open>The levels on their sides; with a positive ratio demanded the inequalities are strict.\<close>

definition levels_ok :: "string \<Rightarrow> pyfloat \<Rightarrow> pyfloat \<Rightarrow> pyfloat \<Rightarrow> bool" where
  "levels_ok d e st ta \<longleftrightarrow> (d = ''long'' \<and> st \<le> e \<and> e \<le> ta) \<or> (d = ''short'' \<and> e \<le> st \<and> ta \<le> e)"

lemma levels_rewarding:
  assumes "levels_ok d e st ta" "\<bar>fsub e st\<bar> \<noteq> 0" "\<not> fdiv \<bar>fsub ta e\<bar> \<bar>fsub e st\<bar> < m"
    "g = make_signal s d e st ta re v ind"
  shows "sides_ok g \<and> accepted m g"
  using assms by (auto simp: levels_ok_def sides_ok_def accepted_iff)

lemma rewarding_sound:
  assumes "signal_if_rewarding m s d e st ta re v ind = Some g" "levels_ok d e st ta"
  shows "sides_ok g \<and> accepted m g"
  using assms levels_rewarding[OF assms(2)] by (auto simp: signal_if_rewarding_def Let_def split: if_splits)

lemma ok_closes: "market_ok s \<Longrightarrow> nth_back (closes s) k = Inr c \<Longrightarrow> 0 < c \<and> is_float c"
  by (drule nth_back_in) (auto simp: closes_def market_ok_def list_all_iff market_candle_ok_def)

lemma crossover_sound:
  assumes "market_ok s" "crossover_generate x s = Inr (Some g)"
  shows "sides_ok g \<and> accepted (xo_min_rrr x) g"
proof -
  obtain e st fast slow where e: "nth_back (closes s) 1 = Inr e" and
    g: "(\<not> e \<le> st \<and> crossover_build_signal x s ''long'' e st (fadd e (fmul 2 (fsub e st))) fast slow = Some g)
      \<or> (\<not> st \<le> e \<and> crossover_build_signal x s ''short'' e st (fsub e (fmul 2 (fsub st e))) fast slow = Some g)"
    using assms(2) by (auto simp: crossover_generate_def ebind_Inr_iff split: if_splits)
  from ok_closes[OF assms(1) e] have f: "is_float e" by blast
  have "levels_ok ''long'' e st (fadd e (fmul 2 (fsub e st)))" if "\<not> e \<le> st"
    using that f by (simp add: levels_ok_def fadd_ge fmul_nonneg fsub_nonneg)
  moreover have "levels_ok ''short'' e st (fsub e (fmul 2 (fsub st e)))" if "\<not> st \<le> e"
    using that f by (simp add: levels_ok_def fsub_le fmul_nonneg fsub_nonneg)
  ultimately show ?thesis using g rewarding_sound by (auto simp: crossover_build_signal_def)
qed

lemma nth_back_atr: "calculate_strategy_atr hs ls cs p = Inr as \<Longrightarrow> nth_back as k = Inr a \<Longrightarrow> 0 \<le> a"
  by (drule atr_nonneg, drule nth_back_in) simp

lemma breakout_sound:
  assumes "market_ok s" "breakout_generate lg b s = Inr (Some g)"
    and pos: "0 \<le> bo_atr_stop_multiplier b" "0 \<le> bo_min_rrr b"
  shows "sides_ok g \<and> accepted (bo_min_rrr b) g"
proof -
  obtain e atrs atr hi lo ema where e: "nth_back (closes s) 1 = Inr e"
    and atr: "calculate_strategy_atr (highs s) (lows s) (closes s) (bo_atr_period b) = Inr atrs" "nth_back atrs 1 = Inr atr"
    and g: "(\<exists>st. st = fsub e (fmul (bo_atr_stop_multiplier b) atr)
        \<and> breakout_build_signal b s ''long'' e st (fadd e (fmul (bo_min_rrr b) \<bar>fsub e st\<bar>)) hi lo ema atr = Some g)
      \<or> (\<exists>st. st = fadd e (fmul (bo_atr_stop_multiplier b) atr)
        \<and> breakout_build_signal b s ''short'' e st (fsub e (fmul (bo_min_rrr b) \<bar>fsub e st\<bar>)) hi lo ema atr = Some g)"
    using assms(2) by (auto simp: breakout_generate_def ebind_Inr_iff Let_def split: if_splits) blast+
  have f: "is_float e" using ok_closes[OF assms(1) e] by blast
  have d: "0 \<le> fmul (bo_atr_stop_multiplier b) atr" using pos nth_back_atr[OF atr] by (simp add: fmul_nonneg)
  have "levels_ok ''long'' e (fsub e (fmul (bo_atr_stop_multiplier b) atr)) (fadd e (fmul (bo_min_rrr b) \<bar>x\<bar>))"
    "levels_ok ''short'' e (fadd e (fmul (bo_atr_stop_multiplier b) atr)) (fsub e (fmul (bo_min_rrr b) \<bar>x\<bar>))" for x
    using f d pos by (simp_all add: levels_ok_def sign_rules)
  then show ?thesis using g rewarding_sound by (auto simp: breakout_build_signal_def)
qed

lemma pullback_sound:
  assumes "market_ok s" "pullback_generate p s = Inr (Some g)" and pos: "0 \<le> pb_target_r_multiple p"
  shows "sides_ok g \<and> accepted (pb_min_rrr p) g"
proof -
  obtain e fast slow rsi atr where e: "nth_back (closes s) 1 = Inr e"
    and g: "build_long_signal p s e fast slow rsi atr = Inr (Some g) \<or> build_short_signal p s e fast slow rsi atr = Inr (Some g)"
    using assms(2) by (auto simp: pullback_generate_def ebind_Inr_iff split: if_splits) blast+
  have f: "is_float e" using ok_closes[OF assms(1) e] by blast
  have "\<exists>st d ta. pullback_build_signal p s d e st ta fast slow rsi atr = Some g \<and> levels_ok d e st ta"
    using g
  proof
    assume "build_long_signal p s e fast slow rsi atr = Inr (Some g)"
    then obtain st where "\<not> e \<le> st"
      "pullback_build_signal p s ''long'' e st (fadd e (fmul (pb_target_r_multiple p) (fsub e st))) fast slow rsi atr = Some g"
      unfolding build_long_signal_def Let_def by (auto simp: ebind_Inr_iff split: if_splits)
    moreover from this have "levels_ok ''long'' e st (fadd e (fmul (pb_target_r_multiple p) (fsub e st)))"
      using f pos by (simp add: levels_ok_def sign_rules fsub_nonneg)
    ultimately show ?thesis by blast
  next
    assume "build_short_signal p s e fast slow rsi atr = Inr (Some g)"
    then obtain st where "\<not> st \<le> e"
      "pullback_build_signal p s ''short'' e st (fsub e (fmul (pb_target_r_multiple p) (fsub st e))) fast slow rsi atr = Some g"
      unfolding build_short_signal_def Let_def by (auto simp: ebind_Inr_iff split: if_splits)
    moreover from this have "levels_ok ''short'' e st (fsub e (fmul (pb_target_r_multiple p) (fsub st e)))"
      using f pos by (simp add: levels_ok_def sign_rules fsub_nonneg)
    ultimately show ?thesis by blast
  qed
  then show ?thesis using rewarding_sound by (auto simp: pullback_build_signal_def)
qed

lemma vwap_ok:
  assumes "market_ok s" "calculate_intraday_vwap s = Inr (Some v)"
  shows "0 \<le> v \<and> is_float v"
proof -
  define cs where "cs = filter (\<lambda>c. mc_volume c \<noteq> 0) (day_candles s)"
  have v: "v = fdiv (fsum (map (\<lambda>c. fmul (typical_price c) (mc_volume c)) cs)) (fsum (map mc_volume cs))"
    using assms(2) by (auto simp: calculate_intraday_vwap_def Let_def cs_def split: if_splits)
  have c: "market_candle_ok c" if "c \<in> set cs" for c
    using that assms(1) by (auto simp: cs_def day_candles_def market_ok_def list_all_iff)
  have "0 \<le> typical_price c" if "c \<in> set cs" for c
    using c[OF that] by (simp add: typical_price_def fdiv_nonneg fadd_def flo.nonneg market_candle_ok_def)
  then have "0 \<le> fsum (map (\<lambda>c. fmul (typical_price c) (mc_volume c)) cs)" "0 \<le> fsum (map mc_volume cs)"
    using c by (auto intro!: fsum_nonneg fmul_nonneg simp: market_candle_ok_def)
  then show ?thesis by (simp add: v fdiv_nonneg)
qed

lemma fmul_shrink:
  assumes "0 \<le> v" "is_float v" "x \<le> 1"
  shows "fmul v x \<le> v"
proof -
  have "v * x \<le> v" using mult_left_mono[OF assms(3,1)] by simp
  then show ?thesis unfolding fmul_def using assms(2) by (intro flo.le_rep) (simp_all add: is_float_def)
qed

lemma fmul_grow:
  assumes "0 \<le> v" "is_float v" "1 \<le> x"
  shows "v \<le> fmul v x"
proof -
  have "v \<le> v * x" using mult_left_mono[OF assms(3,1)] by simp
  then show ?thesis unfolding fmul_def using assms(2) by (intro flo.ge_rep) (simp_all add: is_float_def)
qed

lemma vwap_sound:
  assumes "market_ok s" "vwap_generate v s = Inr (Some g)" and pos: "0 \<le> vr_min_deviation v"
  shows "sides_ok g \<and> accepted (vr_min_rrr v) g"
proof -
  obtain vw rsi atr atrs e where vw: "calculate_intraday_vwap s = Inr (Some vw)"
    and e: "nth_back (closes s) 1 = Inr e"
    and atr: "calculate_strategy_atr (highs s) (lows s) (closes s) (vr_atr_period v) = Inr atrs" "nth_back atrs 1 = Inr atr"
    and g: "(e < fmul vw (fsub 1 (vr_min_deviation v)) \<and> vwap_signal v s ''long'' e (fsub e (fmul 2 atr)) vw rsi atr = Some g)
      \<or> (fmul vw (fadd 1 (vr_min_deviation v)) < e \<and> vwap_signal v s ''short'' e (fadd e (fmul 2 atr)) vw rsi atr = Some g)"
    using assms(2) by (auto simp: vwap_generate_def ebind_Inr_iff split: if_splits option.splits) blast+
  have f: "is_float e" using ok_closes[OF assms(1) e] by blast
  have d: "0 \<le> fmul 2 atr" using nth_back_atr[OF atr] by (simp add: fmul_nonneg)
  note w = vwap_ok[OF assms(1) vw]
  have "levels_ok ''long'' e (fsub e (fmul 2 atr)) vw" if "e < fmul vw (fsub 1 (vr_min_deviation v))"
    using that f d fmul_shrink[of vw "fsub 1 (vr_min_deviation v)"] w fsub_le[OF is_float_100(2) pos]
    by (simp add: levels_ok_def sign_rules)
  moreover have "levels_ok ''short'' e (fadd e (fmul 2 atr)) vw" if "fmul vw (fadd 1 (vr_min_deviation v)) < e"
    using that f d fmul_grow[of vw "fadd 1 (vr_min_deviation v)"] w fadd_ge[OF is_float_100(2) pos]
    by (simp add: levels_ok_def sign_rules)
  ultimately have "\<exists>d st. vwap_signal v s d e st vw rsi atr = Some g \<and> levels_ok d e st vw" using g by blast
  then obtain d st where *: "vwap_signal v s d e st vw rsi atr = Some g" "levels_ok d e st vw" by blast
  from * show ?thesis
    by (intro levels_rewarding[OF *(2)])
      (auto simp: vwap_signal_def rrr_meets_minimum_def Let_def split: if_splits)
qed

lemma v2_levels_sound:
  assumes "build_trade_levels v d e atr vw = Some (st, ta, rrr)" "d = ''long'' \<or> d = ''short''"
    and pos: "0 < e" "is_float e" "0 \<le> atr" "0 \<le> v2_atr_stop_multiplier v" "0 \<le> v2_min_rrr v"
      "0 \<le> round_trip_cost_fraction v"
  shows "levels_ok d e st ta \<and> \<bar>fsub e st\<bar> \<noteq> 0 \<and> \<not> fdiv \<bar>fsub ta e\<bar> \<bar>fsub e st\<bar> < v2_min_rrr v"
proof -
  define x where "x = fmul (v2_atr_stop_multiplier v) atr"
  define needed where "needed = fadd (fmul \<bar>fsub e st\<bar> (v2_min_rrr v)) (fmul e (round_trip_cost_fraction v))"
  have st: "st = (if d = ''long'' then fsub e x else fadd e x)"
    and ta: "ta = (if d = ''long'' then fadd e needed else fsub e needed)"
    and ok: "\<bar>fsub e st\<bar> \<noteq> 0" "\<not> fdiv \<bar>fsub ta e\<bar> \<bar>fsub e st\<bar> < v2_min_rrr v"
    using assms(1) by (auto simp: build_trade_levels_def Let_def x_def needed_def split: if_splits)
  have "0 \<le> x" using pos by (simp add: x_def fmul_nonneg)
  moreover have "0 \<le> needed" using pos by (simp add: needed_def fadd_def flo.nonneg fmul_nonneg)
  ultimately have "levels_ok d e st ta" using assms(2) pos(2) by (auto simp: levels_ok_def st ta sign_rules)
  with ok show ?thesis by blast
qed

lemma v2_sound:
  assumes "market_ok s" "v2_generate lg v s = Inr (Some g)"
    and pos: "0 \<le> v2_atr_stop_multiplier v" "0 \<le> v2_min_rrr v" "0 \<le> round_trip_cost_fraction v"
  shows "sides_ok g \<and> accepted (v2_min_rrr v) g"
proof -
  obtain e pc atrs atr rsi vw d levels adx vol where e: "nth_back (closes s) 1 = Inr e"
    and atr: "calculate_strategy_atr (highs s) (lows s) (closes s) (v2_atr_period v) = Inr atrs" "nth_back atrs 1 = Inr atr"
    and d: "v2_direction v e pc rsi vw = Inr (Some d)"
    and l: "build_trade_levels v d e atr vw = Some levels"
    and g: "g = v2_signal v s d e levels rsi atr adx vol vw"
    using assms(2) by (auto simp: v2_generate_def ebind_Inr_iff split: if_splits option.splits)
  obtain st ta rrr where lv: "levels = (st, ta, rrr)" by (cases levels)
  have "d = ''long'' \<or> d = ''short''" using d by (auto simp: v2_direction_def ebind_Inr_iff split: if_splits)
  from v2_levels_sound[OF l[unfolded lv] this _ _ nth_back_atr[OF atr] pos] ok_closes[OF assms(1) e]
  have "levels_ok d e st ta" "\<bar>fsub e st\<bar> \<noteq> 0" "\<not> fdiv \<bar>fsub ta e\<bar> \<bar>fsub e st\<bar> < v2_min_rrr v" by simp_all
  then show ?thesis by (rule levels_rewarding) (simp add: g lv v2_signal_def)
qed

text \<open>The strategies that do not test the ratio they end up with, or test it with a tolerance.\<close>

lemma divergence_sides:
  assumes "market_ok s" "divergence_generate r s = Inr (Some g)" "0 \<le> rd_target_rrr r"
  shows "sides_ok g"
proof -
  have "sides_ok g" if b: "check_bullish_divergence r s cs rsi ixs n m = Inr (Some g)" for cs rsi ixs n m
  proof -
    obtain e st i1 i2 rrr where e: "nth_back (closes s) 1 = Inr e" "\<not> e \<le> st"
      "g = divergence_signal s ''long'' e st (fadd e (fmul (rd_target_rrr r) (fsub e st))) rrr ''rsi_divergence_bullish'' rsi cs i1 i2"
      using b unfolding check_bullish_divergence_def Let_def by (auto simp: ebind_Inr_iff split: if_splits)
    then show ?thesis using ok_closes[OF assms(1) e(1)] assms(3)
      by (simp add: sides_ok_def divergence_signal_def sign_rules fsub_nonneg)
  qed
  moreover have "sides_ok g" if b: "check_bearish_divergence r s cs rsi ixs n m = Inr (Some g)" for cs rsi ixs n m
  proof -
    obtain e st i1 i2 rrr where e: "nth_back (closes s) 1 = Inr e" "\<not> st \<le> e"
      "g = divergence_signal s ''short'' e st (fsub e (fmul (rd_target_rrr r) (fsub st e))) rrr ''rsi_divergence_bearish'' rsi cs i1 i2"
      using b unfolding check_bearish_divergence_def Let_def by (auto simp: ebind_Inr_iff split: if_splits)
    then show ?thesis using ok_closes[OF assms(1) e(1)] assms(3)
      by (simp add: sides_ok_def divergence_signal_def sign_rules fsub_nonneg)
  qed
  ultimately show ?thesis using assms(2)
    by (auto simp: divergence_generate_def ebind_Inr_iff Let_def split: option.splits)
qed

lemma squeeze_sides:
  assumes "market_ok s" "squeeze_generate b s = Inr (Some g)" "0 \<le> bb_min_rrr b"
  shows "sides_ok g"
proof -
  obtain e st rrr band atr where e: "nth_back (closes s) 1 = Inr e" and
    g: "(\<not> e \<le> st \<and> g = squeeze_signal s ''long'' e st (fadd e (fmul (fsub e st) (bb_min_rrr b))) rrr band atr)
      \<or> (\<not> st \<le> e \<and> g = squeeze_signal s ''short'' e st (fsub e (fmul (fsub st e) (bb_min_rrr b))) rrr band atr)"
    using assms(2) unfolding squeeze_generate_def Let_def
    by (auto simp: ebind_Inr_iff split: if_splits) blast+
  then show ?thesis using ok_closes[OF assms(1) e] assms(3)
    by (auto simp: sides_ok_def squeeze_signal_def sign_rules fsub_nonneg)
qed

lemma momentum_sides:
  assumes "market_ok s" "momentum_generate lg m s = Inr (Some g)" "0 \<le> tm_min_rrr m"
  shows "sides_ok g"
proof -
  obtain e st ind where e: "nth_back (closes s) 1 = Inr e" "\<not> e \<le> st" and
    g: "g = make_signal s ''long'' e st (fadd e (fmul (tm_min_rrr m) \<bar>fsub e st\<bar>)) ''ts_momentum_long'' (tm_strategy_version m) ind"
    using assms(2) unfolding momentum_generate_def Let_def
    by (auto simp: ebind_Inr_iff split: if_splits option.splits)
  then show ?thesis using ok_closes[OF assms(1) e(1)] assms(3)
    by (simp add: sides_ok_def sign_rules)
qed

text \<open>The strategies that test the ratio of the signal they build.\<close>

definition tested_names :: "string list" where
  "tested_names = [''ema_crossover'', ''breakout'', ''ema_pullback'', ''vwap_reversion'', ''vwap_reversion_v2'']"

text \<open>\<^verbatim>\<open>_build_strategy\<close> of the backtest gate: the factory of the scenario's family.\<close>

definition build_strategy :: "(pyfloat \<Rightarrow> pyfloat) \<Rightarrow> string \<Rightarrow> string \<Rightarrow> pyfloat \<Rightarrow> exc + strategy" where
  "build_strategy lg family name m =
     (if family = ''day_trading'' then build_day_trading_strategy name m
      else if family = ''scalping'' then build_scalping_strategy lg name m
      else Inl ValueError)"

lemma literals_nonneg: "0 \<le> fl (a / b)" if "0 \<le> a" "0 \<le> b"
  using that by (simp add: flo.nonneg)

lemma v2_cost_nonneg: "0 \<le> round_trip_cost_fraction (new_vwap_reversion_v2 m)"
  by (simp add: round_trip_cost_fraction_def new_vwap_reversion_v2_def fadd_def fdiv_def flo.nonneg)

lemma built_sound:
  assumes build: "build_strategy lg family name m = Inr t" and m: "0 \<le> m" and ok: "market_ok s"
    and g: "generate_signal t s = Inr (Some g)"
  shows "sides_ok g \<and> (py_lower (py_strip name) \<in> set tested_names \<longrightarrow> accepted m g)"
proof -
  define n where "n = py_lower (py_strip name)"
  consider "n = ''ema_crossover''" "t = \<lparr>required_candle_count = xo_slow (new_ema_crossover m) + 1,
      generate_signal = crossover_generate (new_ema_crossover m)\<rparr>"
    | "build_scalping_strategy lg name m = Inr t"
    using build by (auto simp: build_strategy_def build_day_trading_strategy_def n_def split: if_splits)
  then show ?thesis
  proof cases
    case 1
    then show ?thesis using crossover_sound[OF ok, of "new_ema_crossover m" g] g
      by (simp add: new_ema_crossover_def)
  next
    case 2
    then consider "n = ''rsi_divergence''" "generate_signal t = divergence_generate (new_rsi_divergence m)"
      | "n = ''vwap_reversion''" "generate_signal t = vwap_generate (new_vwap_reversion m)"
      | "n = ''vwap_reversion_v2''" "generate_signal t = v2_generate lg (new_vwap_reversion_v2 m)"
      | "n = ''ema_pullback''" "generate_signal t = pullback_generate (new_ema_pullback m)"
      | "n = ''breakout''" "generate_signal t = breakout_generate lg (new_breakout m)"
      | "n = ''ts_momentum''" "generate_signal t = momentum_generate lg (new_ts_momentum m)"
      | "n = ''bb_squeeze''" "generate_signal t = squeeze_generate (new_bb_squeeze m)"
      unfolding build_scalping_strategy_def Let_def n_def[symmetric]
      by (simp split: if_splits) (metis strategy.select_convs)+
    then show ?thesis
    proof cases
      case 1
      then show ?thesis using divergence_sides[OF ok, of "new_rsi_divergence m" g] g m
        by (simp add: new_rsi_divergence_def tested_names_def n_def[symmetric] le_max_iff_disj)
    next
      case 2
      then show ?thesis using vwap_sound[OF ok, of "new_vwap_reversion m" g] g
        by (simp add: new_vwap_reversion_def flo.nonneg)
    next
      case 3
      then show ?thesis using v2_sound[OF ok, of lg "new_vwap_reversion_v2 m" g] g m v2_cost_nonneg
        by (simp add: new_vwap_reversion_v2_def flo.nonneg)
    next
      case 4
      then show ?thesis using pullback_sound[OF ok, of "new_ema_pullback m" g] g
        by (simp add: new_ema_pullback_def flo.nonneg)
    next
      case 5
      then show ?thesis using breakout_sound[OF ok, of lg "new_breakout m" g] g m
        by (simp add: new_breakout_def)
    next
      case 6
      then show ?thesis using momentum_sides[OF ok, of lg "new_ts_momentum m" g] g m
        by (simp add: new_ts_momentum_def tested_names_def n_def[symmetric])
    next
      case 7
      then show ?thesis using squeeze_sides[OF ok, of "new_bb_squeeze m" g] g m
        by (simp add: new_bb_squeeze_def tested_names_def n_def[symmetric])
    qed
  qed
qed

lemma first_signal_of:
  "first_signal ts s = Inr (Some g) \<Longrightarrow> \<exists>t \<in> set ts. generate_signal t s = Inr (Some g)"
  by (induction ts) (auto simp: ebind_Inr_iff split: option.splits)

lemma emap_in: "emap f xs = Inr ys \<Longrightarrow> y \<in> set ys \<Longrightarrow> \<exists>x \<in> set xs. f x = Inr y"
  by (induction xs arbitrary: ys) (auto simp: ebind_Inr_iff)

lemma accepted_mono: "accepted m g \<Longrightarrow> r \<le> m \<Longrightarrow> accepted r g"
  by (auto simp: accepted_iff)

text \<open>
  C19: every signal that the factory's strategies make of a market of positive prices has its stop
  strictly on the losing side of the entry and its target not on it, whichever strategy an
  orchestrator took it from; and a strategy that tests the ratio it was built with makes only
  signals that the risk manager's test accepts for that ratio and every smaller one.
\<close>

theorem strategy_signals_fit_the_risk_manager:
  assumes build: "emap (\<lambda>(family, name). build_strategy lg family name m) specs = Inr ts"
    and orch: "new_orchestrator ts = Inr t" "generate_signal t s = Inr (Some g)"
    and m: "0 \<le> m" and ok: "market_ok s"
  shows "sides_ok g \<and> ((\<forall>(family, name) \<in> set specs. py_lower (py_strip name) \<in> set tested_names)
      \<longrightarrow> (\<forall>r \<le> m. accepted r g))"
proof -
  have "first_signal ts s = Inr (Some g)"
    using orch by (auto simp: new_orchestrator_def split: list.splits)
  then obtain t' where t': "t' \<in> set ts" "generate_signal t' s = Inr (Some g)"
    using first_signal_of by blast
  obtain family name where fn: "(family, name) \<in> set specs" "build_strategy lg family name m = Inr t'"
    using emap_in[OF build t'(1)] by auto
  from built_sound[OF fn(2) m ok t'(2)] fn(1) show ?thesis by (auto intro: accepted_mono)
qed

text \<open>A jump after 21 quiet candles.\<close>

lemma ema_step_same: "is_float c \<Longrightarrow> ema_step p c c = c"
proof -
  assume "is_float c"
  moreover have "fsub c c = 0" by simp
  ultimately show ?thesis by (simp only: ema_step_def) (simp add: fadd_def fmul_def flo.zero is_float_def)
qed

lemma ema_from_quiet:
  "is_float c \<Longrightarrow> ema_from p c (replicate n c @ [x]) = replicate n c @ [ema_step p c x]"
  by (induction n) (simp_all add: ema_step_same Let_def)

definition quiet_candle :: market_candle where
  "quiet_candle = new_market_candle 0 8 8 8 None 1"

definition jump_candle :: market_candle where
  "jump_candle = new_market_candle 0 16 15 16 None 1"

definition jump_snapshot :: market_snapshot where
  "jump_snapshot = \<lparr>ms_symbol = ''BTCUSDT'', ms_interval = ''5'',
     ms_candles = replicate 21 quiet_candle @ [jump_candle]\<rparr>"

lemma replicate_21: "replicate 21 x = x # replicate 20 x"
  using replicate_Suc[of 20 x] by simp

lemma jump_ema: "calculate_ema (closes jump_snapshot) p = Inr (replicate 21 8 @ [ema_step p 8 16])"
proof -
  have c: "closes jump_snapshot = 8 # replicate 20 8 @ [16]"
    by (simp add: closes_def jump_snapshot_def quiet_candle_def jump_candle_def
        new_market_candle_def replicate_21)
  have f: "is_float 8" by code_simp
  show ?thesis by (simp only: c calculate_ema.simps ema_from_quiet[OF f] replicate_21 append_Cons)
qed

lemma jump_signal: "\<exists>g. crossover_generate (new_ema_crossover 2) jump_snapshot = Inr (Some g) \<and> sg_target g = 18
    \<and> sg_entry g = 16 \<and> sg_stop g = 15 \<and> sg_direction g = ''long'' \<and> sg_symbol g = ''BTCUSDT''"
proof -
  have steps: "ema_step 9 8 16 < 16 \<and> ema_step 21 8 16 < ema_step 9 8 16" by code_simp
  have v: "validate_snapshot 22 jump_snapshot = Inr ()" by code_simp
  have last: "nth_back (closes jump_snapshot) 1 = Inr 16" "nth_back (lows jump_snapshot) 1 = Inr 15"
    by code_simp+
  have ema: "nth_back (replicate 21 8 @ [x]) 2 = Inr 8" "nth_back (replicate 21 (8 :: rat) @ [x]) 1 = Inr x" for x
    by (simp_all add: nth_back_def nth_append)
  have lv: "fadd 16 (fmul 2 (fsub 16 15)) = 18" "\<bar>fsub 16 15\<bar> = 1" "\<not> fdiv \<bar>fsub 18 16\<bar> 1 < (2 :: rat)"
    by code_simp+
  show ?thesis
    using steps by (simp add: crossover_generate_def new_ema_crossover_def v last jump_ema ema lv
        crossover_build_signal_def signal_if_rewarding_def Let_def make_signal_def jump_snapshot_def[THEN arg_cong[of _ _ ms_symbol]] del: One_nat_def)
qed

theorem strategy_signals_fit_the_risk_manager_witness:
  "\<exists>g. crossover_generate (new_ema_crossover 2) jump_snapshot = Inr (Some g) \<and> accepted 2 g"
proof -
  obtain g where g: "crossover_generate (new_ema_crossover 2) jump_snapshot = Inr (Some g)"
    using jump_signal by blast
  define t where "t = \<lparr>required_candle_count = 22, generate_signal = crossover_generate (new_ema_crossover 2)\<rparr>"
  have names: "py_lower (py_strip '' EMA_crossover'') = ''ema_crossover''" by code_simp
  have b: "emap (\<lambda>(family, name). build_strategy id family name 2) [(''day_trading'', '' EMA_crossover'')] = Inr [t]"
    by (simp add: build_strategy_def build_day_trading_strategy_def names t_def new_ema_crossover_def)
  have o: "new_orchestrator [t] = Inr \<lparr>required_candle_count = 22, generate_signal = first_signal [t]\<rparr>"
    by (simp add: new_orchestrator_def t_def)
  have s: "generate_signal \<lparr>required_candle_count = 22, generate_signal = first_signal [t]\<rparr> jump_snapshot = Inr (Some g)"
    using g by (simp add: t_def)
  have ok: "market_ok jump_snapshot" by code_simp
  from strategy_signals_fit_the_risk_manager[OF b o s _ ok] g show ?thesis
    by (simp add: names tested_names_def)
qed

text \<open>
  The divergence strategy is not among them: it allows its ratio to fall short by a billionth,
  which the risk manager does not.  Here are levels, computed as the strategy computes them for
  a demanded ratio of 1.5, that it signals and the risk manager refuses.
\<close>

definition dip_snapshot :: market_snapshot where
  "dip_snapshot = \<lparr>ms_symbol = ''BTCUSDT'', ms_interval = ''5'',
     ms_candles = map (\<lambda>(c, l). new_market_candle 0 c l c None 1)
       [(10, 10), (9, 8), (10, 10), (8, 7), (10, 10), (23, 20)]\<rparr>"

lemma dip_levels:
  "fmul 7 (fl (999 / 1000)) = 3936709024275235 / 562949953421312"
  "fsub 23 (3936709024275235 / 562949953421312) = 2252784976103735 / 140737488355328"
  "fmul (3 / 2) (2252784976103735 / 140737488355328) = 6758354928311205 / 281474976710656"
  "fadd 23 (6758354928311205 / 281474976710656) = 3308069848164073 / 70368744177664"
  "fsub (3308069848164073 / 70368744177664) 23 = 1689588732077801 / 70368744177664"
  "fdiv (1689588732077801 / 70368744177664) (2252784976103735 / 140737488355328) = 6755399441055743 / 4503599627370496"
  by code_simp+

lemma dip_tolerance: "divergence_levels_ok (new_rsi_divergence (3 / 2)) (6755399441055743 / 4503599627370496)"
proof -
  have q: "fl (6755399441055743 / 4503599627370496) = 6755399441055743 / 4503599627370496"
    and e: "fl (1 / 2 ^ 40) = 1 / 2 ^ 40" by code_simp+
  have eps: "1 / 2 ^ 40 \<le> fl (1 / 10 ^ 9)" by (rule flo.ge_rep[OF e]) simp
  have "fsub (3 / 2) (fl (1 / 10 ^ 9)) \<le> 6755399441055743 / 4503599627370496"
    unfolding fsub_def using q eps by (intro flo.le_rep) simp_all
  then show ?thesis by (simp add: divergence_levels_ok_def new_rsi_divergence_def)
qed

lemma divergence_signal_is_refused:
  "\<exists>g. check_bullish_divergence (new_rsi_divergence (3 / 2)) dip_snapshot (closes dip_snapshot)
      [50, 30, 50, 40, 50, 60] (find_swing_lows (closes dip_snapshot) 1) 6 1 = Inr (Some g)
    \<and> sides_ok g \<and> \<not> accepted (3 / 2) g"
proof -
  have c: "closes dip_snapshot = [10, 9, 10, 8, 10, 23]" "lows dip_snapshot = [10, 8, 10, 7, 10, 20]"
    "find_swing_lows [10, 9, 10, 8, 10, 23] 1 = [1, 3]" by code_simp+
  have r: "rd_target_rrr (new_rsi_divergence (3 / 2)) = 3 / 2" by code_simp
  have at: "nth_back [1, 3 :: nat] 2 = Inr 1" "nth_back [1, 3 :: nat] 1 = Inr 3"
    "nth_back [10, 9, 10, 8, 10, 23 :: rat] 1 = Inr 23" "item_at [10, 9, 10, 8, 10, 23 :: rat] 3 = Inr 8"
    "item_at [10, 9, 10, 8, 10, 23 :: rat] 1 = Inr 9" "item_at [50, 30, 50, 40, 50, 60 :: rat] 3 = Inr 40"
    "item_at [50, 30, 50, 40, 50, 60 :: rat] 1 = Inr 30" "item_at [10, 8, 10, 7, 10, 20 :: rat] 3 = Inr 7"
    by code_simp+
  show ?thesis
    by (simp add: check_bullish_divergence_def c at r Let_def dip_levels dip_tolerance sides_ok_def
        accepted_iff divergence_signal_def make_signal_def del: One_nat_def)
qed

end
