(* ===== verification/ExchangeSync.thy ===== *)
theory ExchangeSync
  imports OrderExecutor
begin

text \<open>
  \<^verbatim>\<open>backend/exchange_sync/engine.py\<close>: the handlers of order and execution events
  and the reconciliation rounds.  An event is a \<open>remote_order\<close>; \<open>rc\<close> says whether the engine has a
  REST client.  An event's text numbers are the numbers they denote.  The thread bridge
  (\<^verbatim>\<open>wire\<close>, \<^verbatim>\<open>_dispatch\<close>) and the endless loop around
  \<^verbatim>\<open>reconcile_once\<close> are the scheduling of these handlers, one after another.
\<close>

subsection \<open>Rules\<close>

fun order_status_map :: "remote_status \<Rightarrow> trade_status option" where
  "order_status_map Filled = Some ORDER_CONFIRMED"
| "order_status_map Rejected = Some ORDER_REJECTED"
| "order_status_map Cancelled = Some ORDER_CANCELLED"
| "order_status_map PartiallyFilled = Some ORDER_PARTIALLY_FILLED"
| "order_status_map OtherStatus = None"

definition entry_reconciliation_statuses :: "trade_status list" where
  "entry_reconciliation_statuses = [ORDER_SUBMITTED, ORDER_PENDING_UNKNOWN]"

definition close_reconciliation_statuses :: "trade_status list" where
  "close_reconciliation_statuses = [POSITION_CLOSE_PENDING]"

definition should_ignore_entry_update :: "trade \<Rightarrow> trade_status \<Rightarrow> bool \<Rightarrow> bool" where
  "should_ignore_entry_update t new fully =
     (if t_status t \<in> {POSITION_OPEN, POSITION_CLOSE_PENDING, POSITION_CLOSED,
                       POSITION_CLOSE_FAILED, PNL_RECORDED} then True
      else if t_status t = ORDER_CONFIRMED \<and> new = ORDER_PARTIALLY_FILLED then True
      else t_status t = POSITION_OPEN \<and> new = ORDER_CONFIRMED \<and> fully)"

definition should_ignore_close_update :: "trade \<Rightarrow> bool" where
  "should_ignore_close_update t \<longleftrightarrow> t_status t = PNL_RECORDED"

definition close_side :: "trade \<Rightarrow> exchange_side" where
  "close_side t = (if t_exchange_side t = BUY then SELL else BUY)"

definition tracked_order_link_id :: "trade \<Rightarrow> string option" where
  "tracked_order_link_id t =
     (if t_status t \<in> set close_reconciliation_statuses then t_close_order_link_id t
      else if t_status t \<in> set entry_reconciliation_statuses then t_order_link_id t
      else None)"

fun market_type_text :: "market_type \<Rightarrow> string" where
  "market_type_text SPOT = ''spot''"
| "market_type_text SPOT_MARGIN = ''spot_margin''"
| "market_type_text LINEAR = ''linear''"

subsection \<open>Protective orders\<close>

text \<open>A market order on the opposite side; the trigger makes it a stop or a take-profit.\<close>

definition exit_req :: "trade \<Rightarrow> decimal \<Rightarrow> string \<Rightarrow> decimal option \<Rightarrow> order_req" where
  "exit_req t qty link trigger =
     \<lparr>rq_category = ''spot'', rq_symbol = t_symbol t, rq_side = close_side t,
      rq_order_type = ''Market'', rq_qty = qty, rq_price = None, rq_order_link_id = Some link,
      rq_is_post_only = False, rq_sl_price = None, rq_tp_price = None,
      rq_market_unit = (if close_side t = BUY then Some ''baseCoin'' else None),
      rq_trigger_price = trigger,
      rq_order_filter = (case trigger of None \<Rightarrow> None | Some _ \<Rightarrow> Some ''tpslOrder''),
      rq_reduce_only = True\<rparr>"

definition sync_meta :: "(string \<times> string) list" where
  "sync_meta = [(''source'', ''exchange_sync'')]"

definition transition :: "nat \<Rightarrow> trade_status \<Rightarrow> (string \<times> string) list \<Rightarrow> unit op" where
  "transition i s meta = on_cur (transition_trade_status i s meta)"

definition set_fields :: "nat \<Rightarrow> (trade \<Rightarrow> trade) \<Rightarrow> unit op" where
  "set_fields i f = on_cur (upd_trade i f)"

definition handle_stop_loss_submission_failure :: "env \<Rightarrow> bool \<Rightarrow> nat \<Rightarrow> unit op" where
  "handle_stop_loss_submission_failure e rc i =
     andthen (on_cur (activate_kill_switch (now e)))
     (andthen (on_cur (append_system_event EV_ERROR (StopLossNotArmed i)))
     (if \<not> rc
      then transition i POSITION_CLOSE_FAILED (sync_meta @ [(''reason'', ''stop_loss_arm_failed'')])
      else
        bnd (the_trade i) (\<lambda>t.
        bnd (generate_order_link_id e (signal_text e t)) (\<lambda>link.
        andthen (set_fields i (\<lambda>t. t\<lparr>t_close_order_link_id := Some link,
                                     t_exit_reason := Some KILL_SWITCH_EXIT\<rparr>))
        (bnd (catch
               (bnd (place_order e (exit_req t (or_zero (dec_or (t_filled_qty t) (t_qty t))) link None))
                  (\<lambda>oid. ret (Some oid)))
               (\<lambda>_. True) (\<lambda>_. ret None)) (\<lambda>r.
         case r of
           None \<Rightarrow>
             andthen (on_cur (append_system_event EV_ERROR (EmergencyCloseFailed i)))
               (transition i POSITION_CLOSE_FAILED (sync_meta @ [(''reason'', ''emergency_close_failed'')]))
         | Some oid \<Rightarrow>
             andthen (case oid of
                        Some x \<Rightarrow> set_fields i (\<lambda>t. t\<lparr>t_close_exchange_order_id := Some x\<rparr>)
                      | None \<Rightarrow> ret ())
               (transition i POSITION_CLOSE_PENDING
                  (sync_meta @ [(''reason'', ''emergency_close_after_stop_failure'')]))))))))"

text \<open>
  Placing one protective order: \<open>Some\<close> answer, or \<open>None\<close> when the placement raised.
\<close>

definition try_exit_order :: "env \<Rightarrow> trade \<Rightarrow> decimal \<Rightarrow> string \<Rightarrow> decimal \<Rightarrow> string option option op" where
  "try_exit_order e t qty link trigger =
     catch (bnd (place_order e (exit_req t qty link (Some trigger))) (\<lambda>oid. ret (Some oid)))
       (\<lambda>_. True) (\<lambda>_. ret None)"

definition arm_take_profit :: "env \<Rightarrow> nat \<Rightarrow> decimal \<Rightarrow> bool op" where
  "arm_take_profit e i qty =
     bnd (the_trade i) (\<lambda>t.
     case t_target_price t of
       None \<Rightarrow> ret True
     | Some target \<Rightarrow>
         if t_take_profit_order_link_id t \<noteq> None then ret True
         else
           bnd draw (\<lambda>n. let link = ''tp_'' @ take 12 (hex_of e n) in
           bnd (try_exit_order e t qty link target) (\<lambda>r.
           case r of
             None \<Rightarrow> andthen (on_cur (append_system_event EV_ERROR (TakeProfitNotArmed i))) (ret True)
           | Some oid \<Rightarrow>
               andthen (set_fields i (\<lambda>t. t\<lparr>t_take_profit_order_link_id := Some link\<rparr>))
               (andthen (case oid of
                           Some x \<Rightarrow> set_fields i (\<lambda>t. t\<lparr>t_take_profit_exchange_order_id := Some x\<rparr>)
                         | None \<Rightarrow> ret ())
                  (ret True)))))"

definition ensure_spot_market_protection :: "env \<Rightarrow> bool \<Rightarrow> nat \<Rightarrow> bool op" where
  "ensure_spot_market_protection e rc i =
     (if \<not> rc then ret False
      else bnd (the_trade i) (\<lambda>t.
        if t_market_type t \<noteq> SPOT \<or> t_order_type t \<noteq> Some ''Market'' then ret True
        else
          case dec_or (t_filled_qty t) (t_qty t) of
            None \<Rightarrow> ret False
          | Some qty \<Rightarrow>
              if qty = 0 then ret False
              else case t_stop_price t of
                None \<Rightarrow> ret False
              | Some stop \<Rightarrow>
                  if t_stop_order_link_id t \<noteq> None then arm_take_profit e i qty
                  else
                    bnd draw (\<lambda>n. let link = ''stop_'' @ take 12 (hex_of e n) in
                    bnd (try_exit_order e t qty link stop) (\<lambda>r.
                    case r of
                      None \<Rightarrow> andthen (handle_stop_loss_submission_failure e rc i) (ret False)
                    | Some oid \<Rightarrow>
                        andthen (set_fields i (\<lambda>t. t\<lparr>t_stop_order_link_id := Some link\<rparr>))
                        (andthen (case oid of
                                    Some x \<Rightarrow> set_fields i (\<lambda>t. t\<lparr>t_stop_exchange_order_id := Some x\<rparr>)
                                  | None \<Rightarrow> ret ())
                           (arm_take_profit e i qty))))))"

subsection \<open>Applying an order update\<close>

definition is_protective :: "string \<Rightarrow> trade \<Rightarrow> bool" where
  "is_protective l t \<longleftrightarrow> t_close_order_link_id t = Some l \<or> t_stop_order_link_id t = Some l
     \<or> t_take_profit_order_link_id t = Some l"

definition set_exchange_id :: "string \<Rightarrow> string \<Rightarrow> trade \<Rightarrow> trade" where
  "set_exchange_id l oid t =
     (if t_close_order_link_id t = Some l then t\<lparr>t_close_exchange_order_id := Some oid\<rparr>
      else if t_stop_order_link_id t = Some l then t\<lparr>t_stop_exchange_order_id := Some oid\<rparr>
      else if t_take_profit_order_link_id t = Some l
        then t\<lparr>t_take_profit_exchange_order_id := Some oid\<rparr>
      else t\<lparr>t_exchange_order_id := Some oid\<rparr>)"

definition entry_fill_fields :: "remote_order \<Rightarrow> trade \<Rightarrow> trade" where
  "entry_fill_fields ro t =
     (let t1 = (case ro_avg_price ro of Some p \<Rightarrow> t\<lparr>t_avg_fill_price := Some p\<rparr> | None \<Rightarrow> t)
      in case ro_cum_exec_qty ro of Some q \<Rightarrow> t1\<lparr>t_filled_qty := Some q\<rparr> | None \<Rightarrow> t1)"

definition apply_entry_fill :: "env \<Rightarrow> bool \<Rightarrow> nat \<Rightarrow> remote_order \<Rightarrow> unit op" where
  "apply_entry_fill e rc i ro =
     andthen (set_fields i (entry_fill_fields ro))
     (andthen (transition i ORDER_CONFIRMED sync_meta)
     (andthen (set_fields i (\<lambda>t. t\<lparr>t_opened_at := Some (now e)\<rparr>))
     (if ro_leaves_zero ro
      then bnd (ensure_spot_market_protection e rc i) (\<lambda>ready.
             if ready then transition i POSITION_OPEN sync_meta else ret ())
      else ret ())))"

text \<open>Microseconds to whole seconds, truncated: \<^verbatim>\<open>int(total_seconds())\<close>.\<close>

definition hold_seconds :: "timestamp \<Rightarrow> timestamp \<Rightarrow> int" where
  "hold_seconds t1 t0 = trunc0 (of_int (t1 - t0) / 1000000)"

text \<open>The writes of the close branch between the status transitions.\<close>

definition close_times :: "timestamp \<Rightarrow> trade \<Rightarrow> trade" where
  "close_times tm t =
     (case t_opened_at t of
        None \<Rightarrow> t\<lparr>t_closed_at := Some tm\<rparr>
      | Some o' \<Rightarrow> t\<lparr>t_closed_at := Some tm, t_hold_time_seconds := Some (hold_seconds tm o')\<rparr>)"

definition close_exit_reason :: "string \<Rightarrow> trade \<Rightarrow> trade" where
  "close_exit_reason l t =
     (if t_stop_order_link_id t = Some l then t\<lparr>t_exit_reason := Some SL_HIT\<rparr>
      else if t_take_profit_order_link_id t = Some l then t\<lparr>t_exit_reason := Some TP_HIT\<rparr>
      else if t_exit_reason t = None then t\<lparr>t_exit_reason := Some MANUAL\<rparr> else t)"

definition record_pnl :: "decimal \<Rightarrow> trade \<Rightarrow> trade" where
  "record_pnl exit_price t =
     (let pnl = calculate_realized_pnl t exit_price in
      t\<lparr>t_realized_pnl := Some pnl, t_pnl_pct := calculate_pnl_pct t pnl,
        t_pnl_in_r := calculate_pnl_in_r t pnl\<rparr>)"

text \<open>\<^verbatim>\<open>data.get("orderLinkId", "")\<close>\<close>

definition link_of :: "remote_order \<Rightarrow> string" where
  "link_of ro = (case ro_link_id ro of Some l \<Rightarrow> l | None \<Rightarrow> [])"

definition apply_close_fill :: "env \<Rightarrow> nat \<Rightarrow> remote_order \<Rightarrow> unit op" where
  "apply_close_fill e i ro =
     (let exit_price = or_zero (ro_avg_price ro) in
      andthen (transition i ORDER_CONFIRMED sync_meta)
      (andthen (set_fields i (\<lambda>t. t\<lparr>t_avg_exit_price := Some exit_price\<rparr>))
      (andthen (transition i POSITION_CLOSED sync_meta)
      (andthen (set_fields i (close_times (now e)))
      (andthen (set_fields i (close_exit_reason (link_of ro)))
      (andthen (set_fields i (record_pnl exit_price))
      (andthen (transition i PNL_RECORDED sync_meta)
        (on_db (apply_trade_outcome_analytics (now e) i)))))))))"

definition apply_close_failure :: "nat \<Rightarrow> trade_status \<Rightarrow> string \<Rightarrow> unit op" where
  "apply_close_failure i new link =
     andthen (transition i new sync_meta)
     (andthen (transition i POSITION_CLOSE_FAILED sync_meta)
       (on_cur (append_system_event EV_ERROR (CloseOrderFailed i link))))"

definition apply_order_update :: "env \<Rightarrow> bool \<Rightarrow> nat \<Rightarrow> remote_order \<Rightarrow> bool op" where
  "apply_order_update e rc i ro =
     (case order_status_map (ro_status ro) of
        None \<Rightarrow> ret False
      | Some new \<Rightarrow>
          if link_of ro = [] then ret False
          else bnd (the_trade i) (\<lambda>t.
            let protective = is_protective (link_of ro) t in
            andthen (case ro_order_id ro of
                       Some oid \<Rightarrow> set_fields i (set_exchange_id (link_of ro) oid)
                     | None \<Rightarrow> ret ())
            (if \<not> protective \<and> should_ignore_entry_update t new (ro_leaves_zero ro) then ret False
             else if protective \<and> should_ignore_close_update t then ret False
             else
               andthen
                 (if new = ORDER_CONFIRMED \<and> \<not> protective then apply_entry_fill e rc i ro
                  else if protective \<and> new = ORDER_CONFIRMED then apply_close_fill e i ro
                  else if protective \<and> new \<in> {ORDER_REJECTED, ORDER_CANCELLED}
                    then apply_close_failure i new (link_of ro)
                  else transition i new sync_meta)
                 (ret True))))"

subsection \<open>Event handlers\<close>

definition process_order :: "env \<Rightarrow> bool \<Rightarrow> remote_order \<Rightarrow> unit op" where
  "process_order e rc ro =
     (if link_of ro = [] \<or> order_status_map (ro_status ro) = None then ret ()
      else in_session (
        bnd (reads (\<lambda>w. get_trade_by_order_link_id (link_of ro) (cur w))) (\<lambda>r.
        bnd (from_sum r) (\<lambda>ot.
        case ot of
          None \<Rightarrow> ret ()
        | Some t \<Rightarrow> andthen (apply_order_update e rc (t_id t) ro) commit))))"

text \<open>An execution event: order link id, fee and price; absent or empty text is \<open>None\<close>.\<close>

definition process_execution :: "string \<Rightarrow> decimal option \<Rightarrow> decimal option \<Rightarrow> unit op" where
  "process_execution link fee price =
     (if link = [] \<or> (fee = None \<and> price = None) then ret ()
      else in_session (
        bnd (case fee of
               None \<Rightarrow> ret True
             | Some f \<Rightarrow> on_db (add_execution_fee link f)) (\<lambda>updated.
        case price of
          None \<Rightarrow> if updated then commit else ret ()
        | Some p \<Rightarrow>
            bnd (reads (\<lambda>w. get_trade_by_order_link_id link (cur w))) (\<lambda>r.
            bnd (from_sum r) (\<lambda>ot.
            case ot of
              None \<Rightarrow> ret ()
            | Some t \<Rightarrow>
                andthen (if t_order_link_id t = Some link \<and> truthy (t_entry_price t)
                         then set_fields (t_id t)
                                (\<lambda>t. t\<lparr>t_slippage := Some (dc \<bar>dsub p (or_zero (t_entry_price t))\<bar>)\<rparr>)
                         else ret ())
                  commit)))))"

subsection \<open>Reconciliation\<close>

definition reconcile_trade :: "env \<Rightarrow> bool \<Rightarrow> nat \<Rightarrow> bool op" where
  "reconcile_trade e rc i =
     (if \<not> rc then ret False
      else bnd (the_trade i) (\<lambda>t.
        case tracked_order_link_id t of
          None \<Rightarrow> ret False
        | Some l \<Rightarrow>
            bnd (get_order_status e (market_type_text (t_market_type t)) (t_symbol t) l) (\<lambda>r.
            case r of
              None \<Rightarrow> ret False
            | Some ro \<Rightarrow> apply_order_update e rc i
                (if ro_link_id ro = None then ro\<lparr>ro_link_id := Some l\<rparr> else ro))))"

definition reconcile_status_group :: "env \<Rightarrow> bool \<Rightarrow> trade_status list \<Rightarrow> nat op" where
  "reconcile_status_group e rc statuses =
     (if \<not> rc then ret 0
      else in_session (
        bnd (reads (\<lambda>w. map t_id (list_trades_by_status statuses (cur w)))) (\<lambda>ids.
        bnd (count_each (\<lambda>i. catch (reconcile_trade e rc i) (\<lambda>_. True) (\<lambda>_. ret False)) ids) (\<lambda>n.
        andthen commit (ret n)))))"

definition reconcile_missing_protection_orders :: "env \<Rightarrow> bool \<Rightarrow> nat op" where
  "reconcile_missing_protection_orders e rc =
     (if \<not> rc then ret 0
      else in_session (
        bnd (reads (\<lambda>w. map t_id (list_spot_market_trades_missing_protection (cur w)))) (\<lambda>ids.
        bnd (count_each (\<lambda>i.
               bnd (the_trade i) (\<lambda>t.
               bnd (reads (\<lambda>w. get_trade_by_order_link_id
                      (case t_order_link_id t of Some l \<Rightarrow> l | None \<Rightarrow> []) (cur w))) (\<lambda>r.
               bnd (from_sum r) (\<lambda>ot.
               case ot of
                 None \<Rightarrow> ret False
               | Some locked \<Rightarrow> catch (ensure_spot_market_protection e rc (t_id locked))
                                  (\<lambda>_. True) (\<lambda>_. ret False))))) ids) (\<lambda>n.
        andthen commit (ret n)))))"

definition reconcile_once :: "env \<Rightarrow> bool \<Rightarrow> nat op" where
  "reconcile_once e rc =
     (if \<not> rc then ret 0
      else
        bnd (reconcile_status_group e rc entry_reconciliation_statuses) (\<lambda>a.
        bnd (reconcile_status_group e rc close_reconciliation_statuses) (\<lambda>b.
        bnd (reconcile_missing_protection_orders e rc) (\<lambda>c. ret (a + b + c)))))"

subsection \<open>Frames\<close>

lemma transition_runs [simp]:
  "transition i s m w = (Inr (), w\<lparr>cur := transition_trade_status i s m (cur w)\<rparr>)"
  "set_fields i f w = (Inr (), w\<lparr>cur := upd_trade i f (cur w)\<rparr>)"
  "andthen (transition i s m) n w = n (w\<lparr>cur := transition_trade_status i s m (cur w)\<rparr>)"
  "andthen (set_fields i f) n w = n (w\<lparr>cur := upd_trade i f (cur w)\<rparr>)"
  by (simp_all add: transition_def set_fields_def)

text \<open>The session's state just before the analytics of a close.\<close>

definition close_db :: "env \<Rightarrow> nat \<Rightarrow> remote_order \<Rightarrow> db \<Rightarrow> db" where
  "close_db e i ro d0 =
     (let x = or_zero (ro_avg_price ro);
          d1 = upd_trade i (\<lambda>t. t\<lparr>t_avg_exit_price := Some x\<rparr>) (transition_trade_status i ORDER_CONFIRMED sync_meta d0);
          d2 = upd_trade i (close_times (now e)) (transition_trade_status i POSITION_CLOSED sync_meta d1);
          d3 = upd_trade i (record_pnl x) (upd_trade i (close_exit_reason (link_of ro)) d2)
      in transition_trade_status i PNL_RECORDED sync_meta d3)"

lemma apply_close_fill_run:
  "apply_close_fill e i ro w = on_db (apply_trade_outcome_analytics (now e) i) (w\<lparr>cur := close_db e i ro (cur w)\<rparr>)"
  by (simp add: apply_close_fill_def close_db_def Let_def)

lemma keeps_status_sync [simp]:
  "keeps_status (set_exchange_id l oid)" "keeps_status (entry_fill_fields ro)"
  "keeps_status (close_times tm)" "keeps_status (close_exit_reason l)" "keeps_status (record_pnl x)"
  "keeps_status (\<lambda>t. t\<lparr>t_opened_at := a\<rparr>)" "keeps_status (\<lambda>t. t\<lparr>t_avg_exit_price := b\<rparr>)"
  "keeps_status (\<lambda>t. t\<lparr>t_slippage := g t\<rparr>)"
  "keeps_status (\<lambda>t. t\<lparr>t_close_order_link_id := c, t_exit_reason := f\<rparr>)"
  "keeps_status (\<lambda>t. t\<lparr>t_close_exchange_order_id := c\<rparr>)"
  "keeps_status (\<lambda>t. t\<lparr>t_stop_order_link_id := c\<rparr>)" "keeps_status (\<lambda>t. t\<lparr>t_stop_exchange_order_id := c\<rparr>)"
  "keeps_status (\<lambda>t. t\<lparr>t_take_profit_order_link_id := c\<rparr>)"
  "keeps_status (\<lambda>t. t\<lparr>t_take_profit_exchange_order_id := c\<rparr>)"
  by (simp_all add: keeps_status_def set_exchange_id_def entry_fill_fields_def close_times_def
      close_exit_reason_def record_pnl_def Let_def split: option.splits)

context store_invariant
begin

lemma keep_transition: "s \<noteq> POSITION_CLOSED \<Longrightarrow> keeps I (transition i s m)"
  unfolding transition_def by (intro keep_on_cur lawful_transition)

lemma keep_set_fields: "keeps_status f \<Longrightarrow> keeps I (set_fields i f)"
  unfolding set_fields_def by (intro keep_on_cur lawful_fields)

lemma keep_analytics: "keeps I (on_db (apply_trade_outcome_analytics tm i))"
proof (rule keep_on_db)
  fix d assume "I d"
  moreover have "keeps_date (outcome_stat t pnl)" for t pnl by (rule keeps_date_outcome)
  ultimately show "I (snd (apply_trade_outcome_analytics tm i d))
      \<and> map t_id (trades (snd (apply_trade_outcome_analytics tm i d))) = map t_id (trades d)"
    by (auto simp: apply_trade_outcome_analytics_def Let_def stat stat_row split: option.splits)
qed

lemma keep_fee: "keeps I (on_db (add_execution_fee l f))"
proof (rule keep_on_db)
  fix d assume "I d"
  moreover have "keeps_status (\<lambda>t. t\<lparr>t_fee_paid := Some (or_zero (t_fee_paid t) + f)\<rparr>)"
    by (simp add: keeps_status_def)
  ultimately show "I (snd (add_execution_fee l f d))
      \<and> map t_id (trades (snd (add_execution_fee l f d))) = map t_id (trades d)"
    by (auto simp: add_execution_fee_def fees map_update_where split: list.splits)
qed

lemmas sync_rules = keep_rules lawful_rules keep_link keep_transition keep_set_fields
  keeps_status_sync keep_analytics keep_fee

lemma keep_stop_failure: "keeps I (handle_stop_loss_submission_failure e rc i)"
  unfolding handle_stop_loss_submission_failure_def by (intro sync_rules)

lemma keep_try_exit: "keeps I (try_exit_order e t q l tr)"
  unfolding try_exit_order_def by (intro sync_rules)

lemma keep_take_profit: "keeps I (arm_take_profit e i q)"
  unfolding arm_take_profit_def Let_def by (intro sync_rules keep_try_exit)

lemma keep_protection: "keeps I (ensure_spot_market_protection e rc i)"
  unfolding ensure_spot_market_protection_def Let_def
  by (intro sync_rules keep_try_exit keep_take_profit keep_stop_failure)

lemma keep_entry_fill: "keeps I (apply_entry_fill e rc i ro)"
  unfolding apply_entry_fill_def by (intro sync_rules keep_protection)

lemma keep_close_fill: "keeps I (apply_close_fill e i ro)"
proof -
  have "lawful I (close_db e i ro)"
    unfolding close_db_def Let_def
    by (rule lawful_comp[OF lawful_closing lawful_comp[OF lawful_fields lawful_transition]]) simp_all
  then have "keeps I (andthen (on_cur (close_db e i ro)) (on_db (apply_trade_outcome_analytics (now e) i)))"
    by (intro keep_rules keep_analytics)
  moreover have "apply_close_fill e i ro
      = andthen (on_cur (close_db e i ro)) (on_db (apply_trade_outcome_analytics (now e) i))"
    by (simp add: fun_eq_iff apply_close_fill_run)
  ultimately show ?thesis by simp
qed

lemma keep_close_failure: "new \<noteq> POSITION_CLOSED \<Longrightarrow> keeps I (apply_close_failure i new l)"
  unfolding apply_close_failure_def by (intro sync_rules)

lemma keep_order_update: "keeps I (apply_order_update e rc i ro)"
  unfolding apply_order_update_def Let_def
  by (cases "ro_status ro"; simp only: order_status_map.simps option.case;
      intro sync_rules keep_entry_fill keep_close_fill keep_close_failure)

lemma keep_process_order: "keeps I (process_order e rc ro)"
  unfolding process_order_def by (intro sync_rules keep_order_update)

lemma keep_process_execution: "keeps I (process_execution l f p)"
  unfolding process_execution_def by (intro sync_rules)

lemma keep_reconcile_trade: "keeps I (reconcile_trade e rc i)"
  unfolding reconcile_trade_def by (intro sync_rules keep_order_update)

lemma keep_status_group: "keeps I (reconcile_status_group e rc sts)"
  unfolding reconcile_status_group_def by (intro sync_rules keep_reconcile_trade)

lemma keep_missing_protection: "keeps I (reconcile_missing_protection_orders e rc)"
  unfolding reconcile_missing_protection_orders_def by (intro sync_rules keep_protection)

lemma keep_reconcile_once: "keeps I (reconcile_once e rc)"
  unfolding reconcile_once_def by (intro sync_rules keep_status_group keep_missing_protection)

end

subsection \<open>Rows under distinct keys\<close>

definition distinct_ids :: "db \<Rightarrow> bool" where
  "distinct_ids d \<longleftrightarrow> distinct (map t_id (trades d))"

lemma distinct_ids_cong: "map t_id (trades d') = map t_id (trades d) \<Longrightarrow> distinct_ids d' = distinct_ids d"
  by (simp add: distinct_ids_def)

lemma transition_trades:
  assumes "distinct_ids d"
  shows "trades (transition_trade_status i s m d)
    = update_where (\<lambda>t. t_id t = i) (\<lambda>t. t\<lparr>t_status := s\<rparr>) (trades d)"
proof (cases "get_trade i d")
  case None
  then have "update_where (\<lambda>t. t_id t = i) (\<lambda>t. t\<lparr>t_status := s\<rparr>) (trades d) = trades d"
    by (auto simp: get_trade_def find_None_iff update_where_def intro: map_idI)
  with None show ?thesis by (simp add: transition_trade_status_def)
next
  case (Some t)
  show ?thesis
  proof (cases "t_status t = s")
    case True
    have "u\<lparr>t_status := s\<rparr> = u" if "u \<in> set (trades d)" "t_id u = i" for u
    proof -
      have "u = t" using get_trade_unique[of d u] assms that Some by (simp add: distinct_ids_def)
      with True show ?thesis by simp
    qed
    then have "update_where (\<lambda>t. t_id t = i) (\<lambda>t. t\<lparr>t_status := s\<rparr>) (trades d) = trades d"
      by (auto simp: update_where_def intro!: map_idI)
    with Some True show ?thesis by (simp add: transition_trade_status_def)
  next
    case False
    with Some show ?thesis
      by (simp add: transition_trade_status_def append_trade_event_def upd_trade_def)
  qed
qed

lemma update_where_comp:
  "(\<And>x. p (f x) = p x) \<Longrightarrow> update_where p g (update_where p f xs) = update_where p (\<lambda>x. g (f x)) xs"
  by (auto simp: update_where_def)

text \<open>The row a filled closing order leaves.\<close>

definition close_row :: "env \<Rightarrow> remote_order \<Rightarrow> trade \<Rightarrow> trade" where
  "close_row e ro t =
     (let x = or_zero (ro_avg_price ro);
          t1 = t\<lparr>t_avg_exit_price := Some x, t_status := POSITION_CLOSED\<rparr>
      in (record_pnl x (close_exit_reason (link_of ro) (close_times (now e) t1)))\<lparr>t_status := PNL_RECORDED\<rparr>)"

lemma row_simps [simp]:
  "t_id (close_times tm t) = t_id t" "t_id (close_exit_reason l t) = t_id t"
  "t_id (record_pnl x t) = t_id t" "t_id (set_exchange_id l oid t) = t_id t"
  "t_id (entry_fill_fields ro t) = t_id t" "t_status (entry_fill_fields ro t) = t_status t"
  "t_status (set_exchange_id l oid t) = t_status t"
  by (simp_all add: close_times_def close_exit_reason_def record_pnl_def set_exchange_id_def
      entry_fill_fields_def Let_def split: option.splits)

lemma close_row_simps [simp]:
  "t_id (close_row e ro t) = t_id t" "t_status (close_row e ro t) = PNL_RECORDED"
  "t_order_link_id (close_row e ro t) = t_order_link_id t"
  "t_close_order_link_id (close_row e ro t) = t_close_order_link_id t"
  "t_stop_order_link_id (close_row e ro t) = t_stop_order_link_id t"
  "t_take_profit_order_link_id (close_row e ro t) = t_take_profit_order_link_id t"
  "t_closed_at (close_row e ro t) = Some (now e)"
  "t_realized_pnl (close_row e ro t) = Some (calculate_realized_pnl t (or_zero (ro_avg_price ro)))"
  by (simp_all add: close_row_def close_times_def close_exit_reason_def record_pnl_def
      calculate_realized_pnl_def Let_def split: option.splits)

lemma upd_trade_only [simp]:
  "daily_stats (upd_trade i f d) = daily_stats d" "trades (upd_trade i f d) = update_where (\<lambda>t. t_id t = i) f (trades d)"
  by (simp_all add: upd_trade_def)

lemma upd_distinct [simp]:
  "keeps_status f \<Longrightarrow> distinct_ids (upd_trade i f d) = distinct_ids d"
  "distinct_ids (transition_trade_status i s m d) = distinct_ids d"
  by (simp_all add: distinct_ids_def map_update_where keeps_status_def)

lemma close_db_trades:
  assumes "distinct_ids d"
  shows "trades (close_db e i ro d) = update_where (\<lambda>t. t_id t = i) (close_row e ro) (trades d)"
    and "daily_stats (close_db e i ro d) = daily_stats d" and "distinct_ids (close_db e i ro d)"
  using assms by (simp_all add: close_db_def Let_def transition_trades update_where_comp
      close_row_def[abs_def])

lemma get_trade_update:
  assumes "trades d' = update_where (\<lambda>t. t_id t = i) f (trades d)" "\<And>t. t_id (f t) = t_id t"
  shows "get_trade i d' = map_option f (get_trade i d)"
  using assms by (simp add: get_trade_def find_update_where)

lemma apply_close_fill_result:
  assumes d: "distinct_ids (cur w)" and t: "get_trade i (cur w) = Some t"
  shows "apply_close_fill e i ro w = (Inr (), w\<lparr>cur :=
     upd_stat (today e) (outcome_stat (close_row e ro t) (calculate_realized_pnl t (or_zero (ro_avg_price ro))))
       (ensure_daily_stat (today e) (close_db e i ro (cur w)))\<rparr>)"
proof -
  have "get_trade i (close_db e i ro (cur w)) = Some (close_row e ro t)"
    using get_trade_update[OF close_db_trades(1)[OF d]] t by simp
  then show ?thesis
    by (simp add: apply_close_fill_run on_db_def apply_trade_outcome_analytics_def today_def Let_def)
qed

lemma filter_update_where:
  "(\<And>x. q (f x) = q x) \<Longrightarrow> filter q (update_where p f xs) = update_where p f (filter q xs)"
  by (induction xs) (auto simp: update_where_def)

lemma owner_update:
  assumes "get_trade_by_order_link_id l d = Inr (Some t)"
    and "trades d' = update_where (\<lambda>t. t_id t = t_id t0) f (trades d)" "t_id t = t_id t0"
    and "\<And>t. owns_link l (f t) = owns_link l t"
  shows "get_trade_by_order_link_id l d' = Inr (Some (f t))"
proof -
  have "filter (owns_link l) (trades d) = [t]"
    using assms(1) by (auto simp: get_trade_by_order_link_id_def split: list.splits)
  then show ?thesis using assms(2-4)
    by (simp add: get_trade_by_order_link_id_def filter_update_where) (simp add: update_where_def)
qed

lemma owner_is_row:
  assumes "get_trade_by_order_link_id l d = Inr (Some t)" "distinct_ids d"
  shows "get_trade (t_id t) d = Some t"
proof -
  have f: "filter (owns_link l) (trades d) = [t]"
    using assms(1) by (auto simp: get_trade_by_order_link_id_def split: list.splits)
  have "t \<in> set (filter (owns_link l) (trades d))" unfolding f by simp
  then show ?thesis using get_trade_unique assms(2) by (simp add: distinct_ids_def)
qed

text \<open>The row as the handler sees it once the exchange's id is noted.\<close>

definition noted :: "remote_order \<Rightarrow> trade \<Rightarrow> trade" where
  "noted ro t = (case ro_order_id ro of Some oid \<Rightarrow> set_exchange_id (link_of ro) oid t | None \<Rightarrow> t)"

lemma noted_simps [simp]:
  "t_id (noted ro t) = t_id t" "t_status (noted ro t) = t_status t"
  "owns_link l (noted ro t) = owns_link l t" "is_protective l (noted ro t) = is_protective l t"
  "noted ro (noted ro t) = noted ro t"
  by (auto simp: noted_def set_exchange_id_def owns_link_def is_protective_def split: option.splits)

lemma exchange_ids_close_row [simp]:
  "t_exchange_order_id (close_row e ro t) = t_exchange_order_id t"
  "t_close_exchange_order_id (close_row e ro t) = t_close_exchange_order_id t"
  "t_stop_exchange_order_id (close_row e ro t) = t_stop_exchange_order_id t"
  "t_take_profit_exchange_order_id (close_row e ro t) = t_take_profit_exchange_order_id t"
  by (simp_all add: close_row_def close_times_def close_exit_reason_def record_pnl_def Let_def
      split: option.splits)

definition id_noted :: "string \<Rightarrow> string \<Rightarrow> trade \<Rightarrow> bool" where
  "id_noted l oid t \<longleftrightarrow>
     (if t_close_order_link_id t = Some l then t_close_exchange_order_id t = Some oid
      else if t_stop_order_link_id t = Some l then t_stop_exchange_order_id t = Some oid
      else if t_take_profit_order_link_id t = Some l
        then t_take_profit_exchange_order_id t = Some oid
      else t_exchange_order_id t = Some oid)"

lemma id_noted_set: "id_noted l oid (set_exchange_id l oid t)"
  by (simp add: id_noted_def set_exchange_id_def)

lemma id_noted_id: "id_noted l oid t \<Longrightarrow> set_exchange_id l oid t = t"
  by (cases t) (auto simp: id_noted_def set_exchange_id_def split: if_splits)

lemma noted_close_row [simp]: "noted ro (close_row e ro (noted ro t)) = close_row e ro (noted ro t)"
proof (cases "ro_order_id ro")
  case None
  then show ?thesis by (simp add: noted_def)
next
  case (Some oid)
  have "id_noted (link_of ro) oid (close_row e ro (set_exchange_id (link_of ro) oid t))"
    using id_noted_set[of "link_of ro" oid t] by (simp add: id_noted_def)
  then show ?thesis using Some by (simp add: noted_def id_noted_id)
qed

lemma owns_close_row [simp]:
  "owns_link l (close_row e ro t) = owns_link l t" "is_protective l (close_row e ro t) = is_protective l t"
  by (simp_all add: owns_link_def is_protective_def)

lemma apply_order_update_run:
  assumes "order_status_map (ro_status ro) = Some new" "link_of ro \<noteq> []" "get_trade i (cur w) = Some t"
  shows "apply_order_update e rc i ro w = (let w1 = w\<lparr>cur := upd_trade i (noted ro) (cur w)\<rparr> in
     if \<not> is_protective (link_of ro) t \<and> should_ignore_entry_update t new (ro_leaves_zero ro) then (Inr False, w1)
     else if is_protective (link_of ro) t \<and> should_ignore_close_update t then (Inr False, w1)
     else andthen
       (if new = ORDER_CONFIRMED \<and> \<not> is_protective (link_of ro) t then apply_entry_fill e rc i ro
        else if is_protective (link_of ro) t \<and> new = ORDER_CONFIRMED then apply_close_fill e i ro
        else if is_protective (link_of ro) t \<and> new \<in> {ORDER_REJECTED, ORDER_CANCELLED}
          then apply_close_failure i new (link_of ro)
        else transition i new sync_meta) (ret True) w1)"
proof -
  have "upd_trade i (\<lambda>t. t) d = d" for d by (simp add: upd_trade_def update_where_def)
  then have "(case ro_order_id ro of Some oid \<Rightarrow> set_fields i (set_exchange_id (link_of ro) oid) | None \<Rightarrow> ret ()) w
      = (Inr (), w\<lparr>cur := upd_trade i (noted ro) (cur w)\<rparr>)"
    by (cases "ro_order_id ro") (simp_all add: noted_def[abs_def])
  note noted = andthen_Inr[where m = "case ro_order_id ro of
      Some oid \<Rightarrow> set_fields i (set_exchange_id (link_of ro) oid) | None \<Rightarrow> ret ()", OF this]
  have "bnd (the_trade i) f w = f t w" for f :: "trade \<Rightarrow> bool op"
    using assms(3) by (simp add: the_trade_def trade_of_def)
  then show ?thesis unfolding apply_order_update_def Let_def
    by (simp only: assms(1,2) option.case if_False noted if_distribR run_simps)
qed

lemma process_order_run:
  assumes "order_status_map (ro_status ro) = Some new" "link_of ro \<noteq> []"
    and "get_trade_by_order_link_id (link_of ro) (saved w) = Inr (Some t)"
  shows "process_order e rc ro w
    = in_session (andthen (apply_order_update e rc (t_id t) ro) commit) w"
  using assms by (simp add: process_order_def in_session_def)

text \<open>The committed state after a closing order filled.\<close>

definition after_close :: "env \<Rightarrow> remote_order \<Rightarrow> trade \<Rightarrow> db \<Rightarrow> db" where
  "after_close e ro t d =
     upd_stat (today e) (outcome_stat (close_row e ro (noted ro t))
         (calculate_realized_pnl t (or_zero (ro_avg_price ro))))
       (ensure_daily_stat (today e) (close_db e (t_id t) ro (upd_trade (t_id t) (noted ro) d)))"

lemma noted_pnl [simp]: "calculate_realized_pnl (noted ro t) x = calculate_realized_pnl t x"
  by (simp add: noted_def set_exchange_id_def calculate_realized_pnl_def split: option.splits)

lemma keeps_status_noted [simp]: "keeps_status (noted ro)"
  by (simp add: keeps_status_def)

lemma close_fill_run:
  assumes own: "get_trade_by_order_link_id (link_of ro) (saved w) = Inr (Some t)"
    and d: "distinct_ids (saved w)" and p: "is_protective (link_of ro) t" "link_of ro \<noteq> []"
    and st: "ro_status ro = Filled" "t_status t \<noteq> PNL_RECORDED"
  shows "process_order e rc ro w
    = (Inr (), w\<lparr>cur := after_close e ro t (saved w), saved := after_close e ro t (saved w)\<rparr>)"
proof -
  define w1 where "w1 = w\<lparr>cur := upd_trade (t_id t) (noted ro) (saved w)\<rparr>"
  have g: "get_trade (t_id t) (saved w) = Some t" by (rule owner_is_row[OF own d])
  have g1: "get_trade (t_id t) (cur w1) = Some (noted ro t)"
    using g by (simp add: w1_def get_trade_def find_update_where)
  have d1: "distinct_ids (cur w1)" using d by (simp add: w1_def)
  have "apply_order_update e rc (t_id t) ro (w\<lparr>cur := saved w\<rparr>)
      = andthen (apply_close_fill e (t_id t) ro) (ret True) w1"
    using p st by (subst apply_order_update_run[where t = t and new = ORDER_CONFIRMED]) (simp_all add: g Let_def w1_def should_ignore_close_update_def)
  also have "\<dots> = (Inr True, w1\<lparr>cur := after_close e ro t (saved w)\<rparr>)"
    unfolding andthen_Inr[of "apply_close_fill e (t_id t) ro" w1, OF apply_close_fill_result[OF d1 g1]]
    by (simp add: after_close_def w1_def)
  finally have run: "apply_order_update e rc (t_id t) ro (w\<lparr>cur := saved w\<rparr>)
      = (Inr True, w\<lparr>cur := after_close e ro t (saved w)\<rparr>)" by (simp add: w1_def)
  show ?thesis using own p st
    by (simp add: process_order_run[where new = ORDER_CONFIRMED] in_session_def andthen_Inr[of "apply_order_update e rc (t_id t) ro", OF run])
qed

lemma after_close_trades:
  assumes "distinct_ids d"
  shows "trades (after_close e ro t d)
    = update_where (\<lambda>u. t_id u = t_id t) (\<lambda>u. close_row e ro (noted ro u)) (trades d)"
  using assms by (simp add: after_close_def close_db_trades update_where_comp)

lemma after_close_owner:
  assumes "get_trade_by_order_link_id l d = Inr (Some t)" "distinct_ids d"
  shows "get_trade_by_order_link_id l (after_close e ro t d) = Inr (Some (close_row e ro (noted ro t)))"
  using owner_update[OF assms(1) after_close_trades[OF assms(2)]] by simp

text \<open>
  C7: the fill of a trade's closing order, its stop or its take-profit is recorded completely and
  exactly once.  The trade ends in \<open>PNL_RECORDED\<close> with the exit price, the result and the exit
  reason of the order that filled; the day's row takes its result; nothing is sent; and a second
  delivery of the same event, at any time, changes nothing.
\<close>

theorem close_fill_is_recorded_once:
  assumes own: "get_trade_by_order_link_id (link_of ro) (saved w) = Inr (Some t)"
    and d: "distinct_ids (saved w)" and p: "is_protective (link_of ro) t" "link_of ro \<noteq> []"
    and st: "ro_status ro = Filled" "t_status t \<noteq> PNL_RECORDED"
  shows "case process_order e rc ro w of (r, w') \<Rightarrow>
      r = Inr () \<and> sent w' = sent w \<and> cur w' = saved w'
    \<and> trades (saved w') = update_where (\<lambda>u. t_id u = t_id t) (\<lambda>u. close_row e ro (noted ro u)) (trades (saved w))
    \<and> stat_of (today e) (saved w') = outcome_stat (close_row e ro (noted ro t))
        (calculate_realized_pnl t (or_zero (ro_avg_price ro))) (stat_of (today e) (saved w))
    \<and> process_order e' rc' ro w' = (Inr (), w')"
proof -
  define u where "u = close_row e ro (noted ro t)"
  define w' where "w' = w\<lparr>cur := after_close e ro t (saved w), saved := after_close e ro t (saved w)\<rparr>"
  have run: "process_order e rc ro w = (Inr (), w')"
    using close_fill_run[OF own d p st] by (simp add: w'_def)
  have own': "get_trade_by_order_link_id (link_of ro) (saved w') = Inr (Some u)"
    using after_close_owner[OF own d] by (simp add: w'_def u_def)
  have d': "distinct_ids (saved w')"
    using d after_close_trades[OF d, of e ro t]
    by (simp add: w'_def distinct_ids_def map_update_where)
  have g': "get_trade (t_id u) (saved w') = Some u" by (rule owner_is_row[OF own' d'])
  have same: "upd_trade (t_id u) (noted ro) (saved w') = saved w'"
  proof -
    have "noted ro v = v" if "v \<in> set (trades (saved w'))" "t_id v = t_id u" for v
    proof -
      have "v = u" using get_trade_unique[of "saved w'" v] d' that g' by (simp add: distinct_ids_def)
      then show ?thesis by (simp add: u_def)
    qed
    then have "update_where (\<lambda>v. t_id v = t_id u) (noted ro) (trades (saved w')) = trades (saved w')"
      by (auto simp: update_where_def intro!: map_idI)
    then show ?thesis by (simp add: upd_trade_def)
  qed
  have "apply_order_update e' rc' (t_id u) ro (w'\<lparr>cur := saved w'\<rparr>) = (Inr False, w')"
    using p st same by (subst apply_order_update_run[where t = u and new = ORDER_CONFIRMED])
      (simp_all add: g' Let_def should_ignore_close_update_def, simp_all add: u_def w'_def)
  then have again: "process_order e' rc' ro w' = (Inr (), w')"
    using own' p st by (simp add: process_order_run[where new = ORDER_CONFIRMED] in_session_def andthen_Inr)
      (simp add: w'_def)
  have "stat_of (today e) (saved w') = outcome_stat u (calculate_realized_pnl t (or_zero (ro_avg_price ro)))
      (stat_of (today e) (saved w))"
    using d close_db_trades(2)[of "upd_trade (t_id t) (noted ro) (saved w)" e "t_id t" ro]
    by (simp add: w'_def after_close_def u_def stat_of_upd keeps_date_outcome) (simp add: stat_of_def get_stat_def)
  then show ?thesis using again after_close_trades[OF d, of e ro t]
    by (simp add: run) (simp add: w'_def u_def)
qed

definition fill_event :: remote_order where
  "fill_event = \<lparr>ro_link_id = Some ''stop_1'', ro_status = Filled, ro_order_id = Some ''x'',
     ro_avg_price = Some 98, ro_cum_exec_qty = Some 1, ro_leaves_zero = True\<rparr>"

definition open_trade :: trade where
  "open_trade = blank_trade\<lparr>t_id := 1, t_order_link_id := Some ''entry'', t_symbol := ''BTCUSDT'',
     t_stop_order_link_id := Some ''stop_1'', t_entry_price := Some 100, t_stop_price := Some 98,
     t_qty := Some 1, t_filled_qty := Some 1, t_order_type := Some ''Market'',
     t_status := POSITION_OPEN\<rparr>"

definition open_world :: world where
  "open_world = fresh_world\<lparr>saved := empty_db\<lparr>trades := [open_trade]\<rparr>\<rparr>"

theorem close_fill_is_recorded_once_witness:
  "trades (saved (snd (process_order calm_env True fill_event open_world)))
    = [close_row calm_env fill_event (noted fill_event open_trade)]"
proof -
  have own: "get_trade_by_order_link_id (link_of fill_event) (saved open_world) = Inr (Some open_trade)"
    by code_simp
  have d: "distinct_ids (saved open_world)" by code_simp
  have p: "is_protective (link_of fill_event) open_trade" "link_of fill_event \<noteq> []"
    "ro_status fill_event = Filled" "t_status open_trade \<noteq> PNL_RECORDED" by code_simp+
  have "trades (saved open_world) = [open_trade]" by (simp add: open_world_def empty_db_def)
  then show ?thesis using close_fill_is_recorded_once[OF own d p, where e = calm_env and rc = True and e' = calm_env and rc' = True]
    by (simp add: update_where_def split: prod.splits)
qed

subsection \<open>A fill without protection\<close>

lemma catch_place_run:
  "catch (bnd (place_order e rq) (\<lambda>oid. ret (Some oid))) (\<lambda>_. True) (\<lambda>_. ret None) w
    = (Inr (case ex_place (exch e) (sent w) rq of Inl _ \<Rightarrow> None | Inr oid \<Rightarrow> Some oid),
       w\<lparr>sent := sent w @ [Place rq]\<rparr>)"
  by (simp add: catch_def bnd_def place_order_def ret_def split: sum.splits)

lemma get_upd: "get_trade i d = Some t \<Longrightarrow> (\<And>t. t_id (f t) = t_id t) \<Longrightarrow> get_trade i (upd_trade i f d) = Some (f t)"
  by (simp add: get_trade_def find_update_where)

lemma get_transition:
  assumes "get_trade i d = Some t"
  shows "get_trade i (transition_trade_status i s m d) = Some (t\<lparr>t_status := s\<rparr>)"
proof (cases "t_status t = s")
  case True
  then have "t\<lparr>t_status := s\<rparr> = t" by simp
  with True assms show ?thesis by (simp add: transition_trade_status_def)
next
  case False
  then show ?thesis using get_upd[OF assms, of "\<lambda>t. t\<lparr>t_status := s\<rparr>"] assms
    by (simp add: transition_trade_status_def append_trade_event_def get_trade_def)
qed

lemma get_other [simp]:
  "get_trade i (append_system_event ty n d) = get_trade i d"
  "get_trade i (activate_kill_switch tm d) = get_trade i d"
  by (simp_all add: get_trade_def append_system_event_def)

lemma killed_activate [simp]: "killed (activate_kill_switch tm d)"
  by (simp add: killed_def activate_kill_switch_def)

lemma killed_transition [simp]: "killed (transition_trade_status i s m d) = killed d"
  by (simp add: transition_trade_status_def split: option.splits)

text \<open>
  The failure handler: the kill switch is on, one market order for the whole quantity on the
  opposite side was sent, and the trade waits for it or is marked as failed.
\<close>

definition stop_failed :: "env \<Rightarrow> trade \<Rightarrow> decimal \<Rightarrow> string \<Rightarrow> request list \<Rightarrow> world \<Rightarrow> bool" where
  "stop_failed e t q l lg w \<longleftrightarrow> killed (cur w) \<and> sent w = lg @ [Place (exit_req t q l None)]
     \<and> (\<exists>v. get_trade (t_id t) (cur w) = Some v \<and> t_close_order_link_id v = Some l
          \<and> t_status v = (case ex_place (exch e) lg (exit_req t q l None) of
                Inl _ \<Rightarrow> POSITION_CLOSE_FAILED | Inr _ \<Rightarrow> POSITION_CLOSE_PENDING))"

lemma stop_failure_run:
  assumes "get_trade i (cur w) = Some t" "t_id t = i"
    and "l = signal_text e t @ ''_'' @ take 8 (hex_of e (draws w))"
    and "q = or_zero (dec_or (t_filled_qty t) (t_qty t))"
  shows "fst (handle_stop_loss_submission_failure e True i w) = Inr ()
    \<and> stop_failed e t q l (sent w) (snd (handle_stop_loss_submission_failure e True i w))"
proof -
  define d where "d = append_system_event EV_ERROR (StopLossNotArmed i) (activate_kill_switch (now e) (cur w))"
  define d1 where "d1 = upd_trade i (\<lambda>t. t\<lparr>t_close_order_link_id := Some l, t_exit_reason := Some KILL_SWITCH_EXIT\<rparr>) d"
  define t1 where "t1 = t\<lparr>t_close_order_link_id := Some l, t_exit_reason := Some KILL_SWITCH_EXIT\<rparr>"
  have g: "get_trade i d = Some t" using assms(1) by (simp add: d_def)
  then have g1: "get_trade i d1 = Some t1" by (simp add: d1_def t1_def get_upd)
  have k: "killed d1" by (simp add: d1_def d_def)
  define w1 where "w1 = w\<lparr>draws := Suc (draws w), cur := d1\<rparr>"
  have run: "handle_stop_loss_submission_failure e True i w =
     bnd (catch (bnd (place_order e (exit_req t q l None)) (\<lambda>oid. ret (Some oid))) (\<lambda>_. True) (\<lambda>_. ret None))
      (\<lambda>r. case r of
           None \<Rightarrow>
             andthen (on_cur (append_system_event EV_ERROR (EmergencyCloseFailed i)))
               (transition i POSITION_CLOSE_FAILED (sync_meta @ [(''reason'', ''emergency_close_failed'')]))
         | Some oid \<Rightarrow>
             andthen (case oid of
                        Some x \<Rightarrow> set_fields i (\<lambda>t. t\<lparr>t_close_exchange_order_id := Some x\<rparr>)
                      | None \<Rightarrow> ret ())
               (transition i POSITION_CLOSE_PENDING
                  (sync_meta @ [(''reason'', ''emergency_close_after_stop_failure'')]))) w1"
    using g assms(3,4)
    by (simp add: handle_stop_loss_submission_failure_def d_def[symmetric]
        generate_order_link_id_def bnd_assoc bnd_draw d1_def w1_def)
  show ?thesis
  proof (cases "ex_place (exch e) (sent w) (exit_req t q l None)")
    case (Inl x)
    then show ?thesis using g1 k assms(2) get_transition[OF g1]
      by (auto simp: run bnd_Inr[OF catch_place_run] w1_def stop_failed_def t1_def get_transition)
  next
    case (Inr oid)
    have g2: "get_trade i (upd_trade i (\<lambda>t. t\<lparr>t_close_exchange_order_id := Some x\<rparr>) d1)
        = Some (t1\<lparr>t_close_exchange_order_id := Some x\<rparr>)" for x
      using get_upd[OF g1] by simp
    show ?thesis using Inr g1 k assms(2) get_transition[OF g1] get_transition[OF g2]
      by (cases oid) (auto simp: run bnd_Inr[OF catch_place_run] w1_def stop_failed_def t1_def)
  qed
qed

text \<open>The row of a fully filled entry when its protection is armed.\<close>

definition filled_row :: "env \<Rightarrow> remote_order \<Rightarrow> trade \<Rightarrow> trade" where
  "filled_row e ro t =
     (entry_fill_fields ro (noted ro t))\<lparr>t_status := ORDER_CONFIRMED, t_opened_at := Some (now e)\<rparr>"

lemma noted_fields [simp]:
  "t_market_type (noted ro t) = t_market_type t" "t_order_type (noted ro t) = t_order_type t"
  "t_stop_price (noted ro t) = t_stop_price t" "t_target_price (noted ro t) = t_target_price t"
  "t_stop_order_link_id (noted ro t) = t_stop_order_link_id t"
  "t_market_type (entry_fill_fields ro t) = t_market_type t"
  "t_order_type (entry_fill_fields ro t) = t_order_type t"
  "t_stop_price (entry_fill_fields ro t) = t_stop_price t"
  "t_stop_order_link_id (entry_fill_fields ro t) = t_stop_order_link_id t"
  by (simp_all add: noted_def set_exchange_id_def entry_fill_fields_def Let_def split: option.splits)

lemma filled_row_fields [simp]:
  "t_id (filled_row e ro t) = t_id t" "t_market_type (filled_row e ro t) = t_market_type t"
  "t_order_type (filled_row e ro t) = t_order_type t" "t_stop_price (filled_row e ro t) = t_stop_price t"
  "t_stop_order_link_id (filled_row e ro t) = t_stop_order_link_id t"
  by (simp_all add: filled_row_def)

lemma entry_fill_run:
  assumes "get_trade i (cur w) = Some (noted ro t)" "ro_leaves_zero ro"
  obtains w1 where "get_trade i (cur w1) = Some (filled_row e ro t)" "sent w1 = sent w"
    "draws w1 = draws w"
    "apply_entry_fill e rc i ro w = bnd (ensure_spot_market_protection e rc i) (\<lambda>ready.
        if ready then transition i POSITION_OPEN sync_meta else ret ()) w1"
proof -
  define w1 where "w1 = w\<lparr>cur := upd_trade i (\<lambda>t. t\<lparr>t_opened_at := Some (now e)\<rparr>)
     (transition_trade_status i ORDER_CONFIRMED sync_meta (upd_trade i (entry_fill_fields ro) (cur w)))\<rparr>"
  have "get_trade i (cur w1) = Some (filled_row e ro t)"
    using get_upd[OF get_transition[OF get_upd[OF assms(1)]]]
    by (simp add: w1_def filled_row_def)
  then show ?thesis using assms(2) that[of w1] by (simp add: apply_entry_fill_def w1_def)
qed

lemma unprotected_run:
  assumes g: "get_trade i (cur w) = Some u" "t_id u = i"
    and u: "t_market_type u = SPOT" "t_order_type u = Some ''Market''"
      "dec_or (t_filled_qty u) (t_qty u) = Some q" "q \<noteq> 0" "t_stop_price u = Some sp"
      "t_stop_order_link_id u = None"
    and st: "rs = exit_req u q (''stop_'' @ take 12 (hex_of e (draws w))) (Some sp)"
    and ref: "ex_place (exch e) (sent w) rs = Inl x"
  shows "fst (ensure_spot_market_protection e True i w) = Inr False
    \<and> stop_failed e u q (signal_text e u @ ''_'' @ take 8 (hex_of e (Suc (draws w)))) (sent w @ [Place rs])
        (snd (ensure_spot_market_protection e True i w))"
proof -
  define w1 where "w1 = w\<lparr>draws := Suc (draws w), sent := sent w @ [Place rs]\<rparr>"
  have run: "ensure_spot_market_protection e True i w
      = andthen (handle_stop_loss_submission_failure e True i) (ret False) w1"
    using g u ref by (simp add: ensure_spot_market_protection_def try_exit_order_def Let_def bnd_draw
        bnd_Inr[OF catch_place_run] st w1_def)
  have "get_trade i (cur w1) = Some u" "q = or_zero (dec_or (t_filled_qty u) (t_qty u))"
    using g u by (simp_all add: w1_def)
  from stop_failure_run[OF this(1) g(2) HOL.refl this(2), of e] show ?thesis
    by (cases "handle_stop_loss_submission_failure e True i w1")
      (simp add: run andthen_def bnd_def w1_def)
qed

text \<open>
  C6: a market position that cannot be protected is not left alone.  When the stop order of a
  completely filled spot market entry cannot be placed, for any reason, the handler commits the
  kill switch as active, sends one market order over the whole filled quantity on the opposite
  side, and commits the trade as waiting for that order, or as failed to close when that order
  raised too; it never ends as an open position.
\<close>

theorem unprotected_fill_trips_kill_switch:
  assumes own: "get_trade_by_order_link_id (link_of ro) (saved w) = Inr (Some t)"
    and d: "distinct_ids (saved w)" and l: "link_of ro \<noteq> []" "\<not> is_protective (link_of ro) t"
    and ro: "ro_status ro = Filled" "ro_leaves_zero ro" "\<not> should_ignore_entry_update t ORDER_CONFIRMED True"
    and t: "t_market_type t = SPOT" "t_order_type t = Some ''Market''" "t_stop_price t = Some sp"
      "t_stop_order_link_id t = None"
    and q: "dec_or (t_filled_qty (filled_row e ro t)) (t_qty (filled_row e ro t)) = Some q" "q \<noteq> 0"
    and ref: "ex_place (exch e) (sent w)
      (exit_req (filled_row e ro t) q (''stop_'' @ take 12 (hex_of e (draws w))) (Some sp)) = Inl x"
  shows "case process_order e True ro w of (r, w') \<Rightarrow> r = Inr () \<and> killed (saved w') \<and> cur w' = saved w'
    \<and> (\<exists>stop close v. sent w' = sent w @ [Place stop, Place close]
        \<and> rq_trigger_price stop = Some sp \<and> rq_trigger_price close = None
        \<and> rq_side close = close_side t \<and> rq_qty close = q \<and> rq_order_type close = ''Market''
        \<and> get_trade (t_id t) (saved w') = Some v \<and> t_close_order_link_id v = rq_order_link_id close
        \<and> t_status v = (case ex_place (exch e) (sent w @ [Place stop]) close of
              Inl _ \<Rightarrow> POSITION_CLOSE_FAILED | Inr _ \<Rightarrow> POSITION_CLOSE_PENDING))"
proof -
  define u where "u = filled_row e ro t"
  define i where "i = t_id t"
  define rs where "rs = exit_req u q (''stop_'' @ take 12 (hex_of e (draws w))) (Some sp)"
  define w0 where "w0 = w\<lparr>cur := upd_trade i (noted ro) (saved w)\<rparr>"
  have g: "get_trade i (saved w) = Some t" using owner_is_row[OF own d] by (simp add: i_def)
  have g0: "get_trade i (cur w0) = Some (noted ro t)" using get_upd[OF g, of "noted ro"] by (simp add: w0_def)
  obtain w1 where w1: "get_trade i (cur w1) = Some u" "sent w1 = sent w0" "draws w1 = draws w0"
    "apply_entry_fill e True i ro w0 = bnd (ensure_spot_market_protection e True i) (\<lambda>ready.
        if ready then transition i POSITION_OPEN sync_meta else ret ()) w1"
    using entry_fill_run[OF g0 ro(2)] unfolding u_def by blast
  have ui: "t_id u = i" by (simp add: u_def i_def)
  have refu: "ex_place (exch e) (sent w1) rs = Inl x"
    using ref w1 by (simp add: rs_def u_def w0_def)
  have rsu: "rs = exit_req u q (''stop_'' @ take 12 (hex_of e (draws w1))) (Some sp)"
    using w1 by (simp add: rs_def w0_def)
  obtain w2 where w2: "ensure_spot_market_protection e True i w1 = (Inr False, w2)"
    and sf: "stop_failed e u q (signal_text e u @ ''_'' @ take 8 (hex_of e (Suc (draws w1)))) (sent w1 @ [Place rs]) w2"
    using unprotected_run[OF w1(1) ui _ _ _ q(2) _ _ rsu refu] t q(1)
    by (cases "ensure_spot_market_protection e True i w1") (auto simp: u_def)
  have "apply_entry_fill e True i ro w0 = (Inr (), w2)" by (simp add: w1(4) bnd_def w2)
  then have "apply_order_update e True i ro (w\<lparr>cur := saved w\<rparr>) = (Inr True, w2)"
    using l ro by (subst apply_order_update_run[where t = t and new = ORDER_CONFIRMED])
      (simp_all add: g Let_def w0_def andthen_Inr)
  then have run: "process_order e True ro w = (Inr (), w2\<lparr>saved := cur w2\<rparr>)"
    using own l ro by (simp add: process_order_run[where new = ORDER_CONFIRMED] in_session_def
        andthen_Inr i_def)
  define c where "c = exit_req u q (signal_text e u @ ''_'' @ take 8 (hex_of e (Suc (draws w1)))) None"
  have "sent w2 = sent w @ [Place rs, Place c]" "killed (cur w2)"
    using sf w1 by (simp_all add: stop_failed_def c_def w0_def)
  moreover have "rq_trigger_price rs = Some sp" "rq_trigger_price c = None" "rq_side c = close_side t"
    "rq_qty c = q" "rq_order_type c = ''Market''"
    by (simp_all add: rs_def c_def exit_req_def close_side_def u_def filled_row_def entry_fill_fields_def
        noted_def set_exchange_id_def Let_def split: option.splits)
  moreover obtain v where "get_trade i (cur w2) = Some v" "t_close_order_link_id v = rq_order_link_id c"
    "t_status v = (case ex_place (exch e) (sent w @ [Place rs]) c of
              Inl _ \<Rightarrow> POSITION_CLOSE_FAILED | Inr _ \<Rightarrow> POSITION_CLOSE_PENDING)"
    using sf w1 by (auto simp: stop_failed_def c_def w0_def ui exit_req_def)
  ultimately show ?thesis by (auto simp: run i_def)
qed

definition refusing_env :: env where
  "refusing_env = calm_env\<lparr>exch := (exch calm_env)\<lparr>ex_place :=
     \<lambda>_ rq. if rq_trigger_price rq = None then Inr (Some ''oid'') else Inl (BybitAPIError ''170213'')\<rparr>\<rparr>"

definition entry_trade :: trade where
  "entry_trade = open_trade\<lparr>t_stop_order_link_id := None, t_filled_qty := None, t_signal_id := Some 1,
     t_status := ORDER_SUBMITTED\<rparr>"

definition entry_world :: world where
  "entry_world = fresh_world\<lparr>saved := empty_db\<lparr>trades := [entry_trade]\<rparr>, draws := 2\<rparr>"

definition entry_fill :: remote_order where
  "entry_fill = \<lparr>ro_link_id = Some ''entry'', ro_status = Filled, ro_order_id = Some ''y'',
     ro_avg_price = Some 100, ro_cum_exec_qty = Some 1, ro_leaves_zero = True\<rparr>"

theorem unprotected_fill_trips_kill_switch_witness:
  "killed (saved (snd (process_order refusing_env True entry_fill entry_world)))
    \<and> length (sent (snd (process_order refusing_env True entry_fill entry_world))) = 2"
proof -
  have own: "get_trade_by_order_link_id (link_of entry_fill) (saved entry_world) = Inr (Some entry_trade)"
    by code_simp
  have d: "distinct_ids (saved entry_world)" by code_simp
  have l: "link_of entry_fill \<noteq> []" "\<not> is_protective (link_of entry_fill) entry_trade" by code_simp+
  have ro: "ro_status entry_fill = Filled" "ro_leaves_zero entry_fill"
    "\<not> should_ignore_entry_update entry_trade ORDER_CONFIRMED True" by code_simp+
  have t: "t_market_type entry_trade = SPOT" "t_order_type entry_trade = Some ''Market''"
    "t_stop_price entry_trade = Some 98" "t_stop_order_link_id entry_trade = None" by code_simp+
  have q: "dec_or (t_filled_qty (filled_row refusing_env entry_fill entry_trade))
      (t_qty (filled_row refusing_env entry_fill entry_trade)) = Some 1" "(1::decimal) \<noteq> 0" by code_simp+
  have ref: "ex_place (exch refusing_env) (sent entry_world)
      (exit_req (filled_row refusing_env entry_fill entry_trade) 1
        (''stop_'' @ take 12 (hex_of refusing_env (draws entry_world))) (Some 98)) = Inl (BybitAPIError ''170213'')"
    by (simp add: refusing_env_def calm_env_def exit_req_def)
  from unprotected_fill_trips_kill_switch[OF own d l ro t q ref] show ?thesis
    by (cases "process_order refusing_env True entry_fill entry_world") (auto simp: entry_world_def fresh_world_def)
qed

text \<open>
  An event of the entry order that arrives when the position is already open, closing, closed
  or recorded changes nothing but the noted exchange id: no status, price or quantity of any
  trade, no statistics and no audit event changes, and nothing is sent.
\<close>

theorem late_entry_event_is_ignored:
  assumes own: "get_trade_by_order_link_id (link_of ro) (saved w) = Inr (Some t)"
    and d: "distinct_ids (saved w)" and l: "link_of ro \<noteq> []" "\<not> is_protective (link_of ro) t"
    and st: "t_status t \<in> {POSITION_OPEN, POSITION_CLOSE_PENDING, POSITION_CLOSED,
               POSITION_CLOSE_FAILED, PNL_RECORDED}"
  shows "case process_order e rc ro w of (r, w') \<Rightarrow> r = Inr () \<and> sent w' = sent w \<and> draws w' = draws w
    \<and> (saved w' = saved w
       \<or> saved w' = (saved w)\<lparr>trades := update_where (\<lambda>u. t_id u = t_id t)
           (\<lambda>u. u\<lparr>t_exchange_order_id := ro_order_id ro\<rparr>) (trades (saved w))\<rparr>)"
proof (cases "order_status_map (ro_status ro)")
  case None
  then show ?thesis by (simp add: process_order_def)
next
  case (Some new)
  have g: "get_trade (t_id t) (saved w) = Some t" by (rule owner_is_row[OF own d])
  have ign: "should_ignore_entry_update t new (ro_leaves_zero ro)"
    using st by (auto simp: should_ignore_entry_update_def)
  have "apply_order_update e rc (t_id t) ro (w\<lparr>cur := saved w\<rparr>)
      = (Inr False, w\<lparr>cur := upd_trade (t_id t) (noted ro) (saved w)\<rparr>)"
    using l ign Some by (subst apply_order_update_run[where t = t and new = new]) (simp_all add: g Let_def)
  then have run: "process_order e rc ro w
      = (Inr (), w\<lparr>cur := upd_trade (t_id t) (noted ro) (saved w), saved := upd_trade (t_id t) (noted ro) (saved w)\<rparr>)"
    using own l Some by (simp add: process_order_run in_session_def andthen_Inr)
  have only: "u = t" if "u \<in> set (trades (saved w))" "t_id u = t_id t" for u
    using get_trade_unique[of "saved w" u] d that g by (simp add: distinct_ids_def)
  show ?thesis
  proof (cases "ro_order_id ro")
    case None
    then have "noted ro = (\<lambda>u. u)" by (simp add: noted_def fun_eq_iff)
    then have "upd_trade (t_id t) (noted ro) (saved w) = saved w"
      by (simp add: upd_trade_def update_where_def)
    then show ?thesis by (simp add: run)
  next
    case (Some oid)
    have "noted ro u = u\<lparr>t_exchange_order_id := Some oid\<rparr>" if "u = t" for u
      using that l(2) Some by (simp add: noted_def set_exchange_id_def is_protective_def)
    then have "update_where (\<lambda>u. t_id u = t_id t) (noted ro) (trades (saved w))
        = update_where (\<lambda>u. t_id u = t_id t) (\<lambda>u. u\<lparr>t_exchange_order_id := Some oid\<rparr>) (trades (saved w))"
      using only by (auto simp: update_where_def)
    then show ?thesis by (simp add: run upd_trade_def Some)
  qed
qed

theorem late_entry_event_is_ignored_witness:
  "sent (snd (process_order calm_env True entry_fill
      (fresh_world\<lparr>saved := empty_db\<lparr>trades := [open_trade]\<rparr>\<rparr>))) = []"
proof -
  define w where "w = fresh_world\<lparr>saved := empty_db\<lparr>trades := [open_trade]\<rparr>\<rparr>"
  have own: "get_trade_by_order_link_id (link_of entry_fill) (saved w) = Inr (Some open_trade)"
    unfolding w_def by code_simp
  have d: "distinct_ids (saved w)" unfolding w_def by code_simp
  have l: "link_of entry_fill \<noteq> []" "\<not> is_protective (link_of entry_fill) open_trade" by code_simp+
  have st: "t_status open_trade \<in> {POSITION_OPEN, POSITION_CLOSE_PENDING, POSITION_CLOSED,
               POSITION_CLOSE_FAILED, PNL_RECORDED}" by (simp add: open_trade_def)
  from late_entry_event_is_ignored[OF own d l st, of calm_env True] show ?thesis
    by (cases "process_order calm_env True entry_fill w") (auto simp: w_def fresh_world_def)
qed

end
