(* ===== verification/PositionManager.thy ===== *)
theory PositionManager
  imports ExchangeSync
begin

text \<open>
  \<^verbatim>\<open>backend/position_manager/\<close>: closing a trade by hand or by the spot exit
  monitor, and the routes.  A round of the monitor reads the candidates in one session, asks for
  each symbol's price once, and closes the triggered trades one by one, each in its own session.
  The creation time that orders the lists is the order of the rows.
\<close>

subsection \<open>Closing a trade\<close>

definition open_position_statuses :: "trade_status list" where
  "open_position_statuses =
     [POSITION_OPEN, ORDER_PARTIALLY_FILLED, POSITION_CLOSE_PENDING, POSITION_CLOSE_FAILED]"

definition close_retryable_statuses :: "trade_status list" where
  "close_retryable_statuses = [POSITION_OPEN, ORDER_PARTIALLY_FILLED, POSITION_CLOSE_FAILED]"

definition list_open_trades :: "env \<Rightarrow> trade list op" where
  "list_open_trades e = in_session (reads (\<lambda>w.
     rev (filter (\<lambda>t. t_status t \<in> set open_position_statuses) (trades (cur w)))))"

text \<open>The row as \<^verbatim>\<open>_prepare_close_submission\<close> leaves it, and what it returns.\<close>

definition close_prepared :: "string \<Rightarrow> exit_reason \<Rightarrow> trade \<Rightarrow> trade" where
  "close_prepared link r t = t\<lparr>t_close_order_link_id := Some link,
     t_close_exchange_order_id := None, t_exit_reason := Some r\<rparr>"

definition prepare_close_submission ::
  "env \<Rightarrow> nat \<Rightarrow> exit_reason \<Rightarrow> (string \<times> exchange_side \<times> decimal) op"
where
  "prepare_close_submission e i r =
     bnd draw (\<lambda>n. let link = ''close_'' @ take 12 (hex_of e n) in
     bnd (the_trade i) (\<lambda>t.
     andthen (set_fields i (close_prepared link r))
       (ret (link, close_side t, or_zero (dec_or (t_filled_qty t) (t_qty t))))))"

text \<open>The exit price of a shadow close and the columns it fills.\<close>

definition shadow_exit_price :: "exit_reason \<Rightarrow> trade \<Rightarrow> decimal option" where
  "shadow_exit_price r t =
     (if r = SL_HIT \<and> t_stop_price t \<noteq> None then t_stop_price t
      else if r = TP_HIT \<and> t_target_price t \<noteq> None then t_target_price t
      else dec_or (t_target_price t) (dec_or (t_entry_price t) (t_stop_price t)))"

definition shadow_close_fields :: "env \<Rightarrow> exit_reason \<Rightarrow> trade \<Rightarrow> trade" where
  "shadow_close_fields e r t =
     (let x = shadow_exit_price r t;
          t1 = record_pnl (or_zero x) (t\<lparr>t_avg_exit_price := x, t_closed_at := Some (now e)\<rparr>)
      in case t_opened_at t of
           None \<Rightarrow> t1
         | Some o' \<Rightarrow> t1\<lparr>t_hold_time_seconds := Some (hold_seconds (now e) o')\<rparr>)"

definition manager_meta :: "(string \<times> string) list" where
  "manager_meta = [(''source'', ''position_manager'')]"

definition close_req :: "trade \<Rightarrow> string \<Rightarrow> exchange_side \<Rightarrow> decimal \<Rightarrow> order_req" where
  "close_req t link side qty =
     \<lparr>rq_category = ''spot'', rq_symbol = t_symbol t, rq_side = side,
      rq_order_type = ''Market'', rq_qty = qty, rq_price = None, rq_order_link_id = Some link,
      rq_is_post_only = False, rq_sl_price = None, rq_tp_price = None,
      rq_market_unit = (if side = BUY then Some ''baseCoin'' else None),
      rq_trigger_price = None, rq_order_filter = None, rq_reduce_only = False\<rparr>"

definition shadow_close :: "env \<Rightarrow> nat \<Rightarrow> exit_reason \<Rightarrow> trade op" where
  "shadow_close e i r =
     andthen (set_fields i (shadow_close_fields e r))
     (andthen (transition i PNL_RECORDED (manager_meta @ [(''execution_mode'', ''shadow'')]))
     (andthen (on_db (apply_trade_outcome_analytics (now e) i))
     (andthen commit
       (the_trade i))))"

definition live_close :: "env \<Rightarrow> nat \<Rightarrow> string \<Rightarrow> exchange_side \<Rightarrow> decimal \<Rightarrow> trade op" where
  "live_close e i link side qty =
     bnd (the_trade i) (\<lambda>t.
     bnd (place_order e (close_req t link side qty)) (\<lambda>oid.
     andthen (case oid of
                Some x \<Rightarrow> set_fields i (\<lambda>t. t\<lparr>t_close_exchange_order_id := Some x\<rparr>)
              | None \<Rightarrow> ret ())
     (andthen commit
       (the_trade i))))"

definition close_trade :: "env \<Rightarrow> nat \<Rightarrow> exit_reason \<Rightarrow> trade op" where
  "close_trade e i r = in_session (
     bnd (reads (\<lambda>w. get_trade i (cur w))) (\<lambda>ot.
     case ot of
       None \<Rightarrow> throw TradeNotFoundError
     | Some t \<Rightarrow>
         andthen (raise_if (t_status t \<notin> set close_retryable_statuses) TradeNotOpenError)
         (bnd (prepare_close_submission e i r) (\<lambda>(link, side, qty).
         andthen (transition i POSITION_CLOSE_PENDING manager_meta)
           (if trading_mode (cfg e) = SHADOW then shadow_close e i r
            else live_close e i link side qty)))))"

subsection \<open>The spot exit monitor\<close>

definition reached :: "decimal option \<Rightarrow> (decimal \<Rightarrow> bool) \<Rightarrow> bool" where
  "reached level p = (case level of None \<Rightarrow> False | Some x \<Rightarrow> p x)"

definition resolve_spot_exit_reason :: "trade \<Rightarrow> decimal \<Rightarrow> exit_reason option" where
  "resolve_spot_exit_reason t p =
     (if t_signal_direction t = LONG then
        if reached (t_stop_price t) (\<lambda>s. p \<le> s) then Some SL_HIT
        else if reached (t_target_price t) (\<lambda>g. g \<le> p) then Some TP_HIT
        else None
      else if reached (t_stop_price t) (\<lambda>s. s \<le> p) then Some SL_HIT
      else if reached (t_target_price t) (\<lambda>g. p \<le> g) then Some TP_HIT
      else None)"

definition exit_candidates :: "db \<Rightarrow> trade list" where
  "exit_candidates d =
     filter (\<lambda>t. t_stop_order_link_id t = None \<and> t_take_profit_order_link_id t = None)
       (list_spot_market_trades_missing_protection d)"

text \<open>The loop over the candidates; \<open>cache\<close> holds the prices already asked for.\<close>

fun exit_decisions ::
  "env \<Rightarrow> (string \<times> decimal) list \<Rightarrow> trade list \<Rightarrow> (nat \<times> exit_reason) list op"
where
  "exit_decisions e cache [] = ret []"
| "exit_decisions e cache (t # ts) =
     bnd (case map_of cache (t_symbol t) of
            Some p \<Rightarrow> ret (p, cache)
          | None \<Rightarrow> bnd (get_ticker_price e (t_symbol t)) (\<lambda>x.
              ret (dec_of_float x, (t_symbol t, dec_of_float x) # cache))) (\<lambda>(p, cache').
     bnd (exit_decisions e cache' ts) (\<lambda>ds.
     ret (case resolve_spot_exit_reason t p of
            Some r \<Rightarrow> (t_id t, r) # ds
          | None \<Rightarrow> ds)))"

definition close_or_skip :: "env \<Rightarrow> nat \<times> exit_reason \<Rightarrow> bool op" where
  "close_or_skip e ir =
     catch (bnd (close_trade e (fst ir) (snd ir)) (\<lambda>_. ret True)) (\<lambda>_. True) (\<lambda>_. ret False)"

definition monitor_spot_exit_candidates_once :: "env \<Rightarrow> nat op" where
  "monitor_spot_exit_candidates_once e =
     bnd (in_session (reads (\<lambda>w. exit_candidates (cur w)))) (\<lambda>ts.
     bnd (exit_decisions e [] ts) (\<lambda>ds.
     count_each (close_or_skip e) ds))"

text \<open>
  \<^verbatim>\<open>run_spot_exit_monitor\<close> until its stop event: one environment for each round
  that starts before the event is set.
\<close>

fun run_spot_exit_monitor :: "env list \<Rightarrow> unit op" where
  "run_spot_exit_monitor [] = ret ()"
| "run_spot_exit_monitor (e # es) =
     andthen (catch (bnd (monitor_spot_exit_candidates_once e) (\<lambda>_. ret ())) (\<lambda>_. True) (\<lambda>_. ret ()))
       (run_spot_exit_monitor es)"

subsection \<open>Routes\<close>

text \<open>
  The status code of \<^verbatim>\<open>POST /positions/{id}/close\<close>; only a
  \<^verbatim>\<open>ValueError\<close> is caught, an uncaught error is a 500.
\<close>

definition close_position_status :: "exc + trade \<Rightarrow> nat" where
  "close_position_status r = (case r of
     Inr _ \<Rightarrow> 200
   | Inl x \<Rightarrow> if x = TradeNotFoundError then 404
             else if x = TradeNotOpenError then 409
             else if x = ValueError then 400 else 500)"

definition close_position :: "env \<Rightarrow> nat \<Rightarrow> exit_reason option \<Rightarrow> trade op" where
  "close_position e i payload =
     close_trade e i (case payload of Some r \<Rightarrow> r | None \<Rightarrow> MANUAL)"

definition list_trades :: "nat \<Rightarrow> nat \<Rightarrow> trading_mode option \<Rightarrow> trade list op" where
  "list_trades n k mode = in_session (reads (\<lambda>w.
     take n (drop k (filter (\<lambda>t. case mode of None \<Rightarrow> True | Some m \<Rightarrow> t_mode t = m)
       (rev (trades (cur w)))))))"

definition get_trade_detail :: "nat \<Rightarrow> trade op" where
  "get_trade_detail i = in_session (bnd (reads (\<lambda>w. get_trade i (cur w))) (\<lambda>ot.
     case ot of None \<Rightarrow> throw TradeNotFoundError | Some t \<Rightarrow> ret t))"

subsection \<open>Frames\<close>

lemma keeps_status_manager [simp]:
  "keeps_status (close_prepared l r)" "keeps_status (shadow_close_fields e r)"
  by (simp_all add: keeps_status_def close_prepared_def shadow_close_fields_def record_pnl_def Let_def
      split: option.splits)

context store_invariant
begin

lemma keep_prepare_close: "keeps I (prepare_close_submission e i r)"
  unfolding prepare_close_submission_def Let_def by (intro sync_rules keeps_status_manager)

lemma keep_close_trade: "keeps I (close_trade e i r)"
  unfolding close_trade_def shadow_close_def live_close_def
  by (intro sync_rules keep_prepare_close keeps_status_manager)

lemma keep_decisions: "keeps I (exit_decisions e c ts)"
  by (induction ts arbitrary: c) (auto intro!: sync_rules split: option.splits)

lemma keep_monitor: "keeps I (monitor_spot_exit_candidates_once e)"
  unfolding monitor_spot_exit_candidates_once_def close_or_skip_def
  by (intro sync_rules keep_decisions keep_close_trade)

lemma keep_run_monitor: "keeps I (run_spot_exit_monitor es)"
  by (induction es; simp only: run_spot_exit_monitor.simps; intro sync_rules keep_monitor)

end

subsection \<open>A shadow close\<close>

lemma manager_row_simps [simp]:
  "t_id (close_prepared l r t) = t_id t" "t_id (shadow_close_fields e r t) = t_id t"
  "t_status (shadow_close_fields e r t) = t_status t"
  "t_closed_at (shadow_close_fields e r t) = Some (now e)"
  "t_exit_reason (shadow_close_fields e r t) = t_exit_reason t"
  "t_exit_reason (close_prepared l r t) = Some r"
  "t_realized_pnl (shadow_close_fields e r t)
    = Some (calculate_realized_pnl t (or_zero (shadow_exit_price r t)))"
  by (simp_all add: close_prepared_def shadow_close_fields_def record_pnl_def Let_def
      calculate_realized_pnl_def split: option.splits)

lemma shadow_price_status [simp]: "shadow_exit_price r (t\<lparr>t_status := s\<rparr>) = shadow_exit_price r t"
  by (auto simp: shadow_exit_price_def)

lemma realized_pnl_columns [simp]:
  "calculate_realized_pnl (t\<lparr>t_status := s\<rparr>) x = calculate_realized_pnl t x"
  "calculate_realized_pnl (close_prepared l r t) x = calculate_realized_pnl t x"
  "shadow_exit_price r' (close_prepared l r t) = shadow_exit_price r' t"
  by (auto simp: calculate_realized_pnl_def close_prepared_def shadow_exit_price_def)

text \<open>The row a shadow close leaves, and the database it commits.\<close>

definition shadow_closed :: "env \<Rightarrow> exit_reason \<Rightarrow> string \<Rightarrow> trade \<Rightarrow> trade" where
  "shadow_closed e r link t =
     (shadow_close_fields e r ((close_prepared link r t)\<lparr>t_status := POSITION_CLOSE_PENDING\<rparr>))
       \<lparr>t_status := PNL_RECORDED\<rparr>"

lemma shadow_closed_simps [simp]:
  "t_id (shadow_closed e r l t) = t_id t" "t_status (shadow_closed e r l t) = PNL_RECORDED"
  "t_closed_at (shadow_closed e r l t) = Some (now e)"
  "t_exit_reason (shadow_closed e r l t) = Some r"
  "t_realized_pnl (shadow_closed e r l t)
    = Some (calculate_realized_pnl t (or_zero (shadow_exit_price r t)))"
  by (simp_all add: shadow_closed_def)

definition shadow_closed_db :: "env \<Rightarrow> nat \<Rightarrow> exit_reason \<Rightarrow> string \<Rightarrow> db \<Rightarrow> db" where
  "shadow_closed_db e i r l d =
     transition_trade_status i PNL_RECORDED (manager_meta @ [(''execution_mode'', ''shadow'')])
       (upd_trade i (shadow_close_fields e r)
         (transition_trade_status i POSITION_CLOSE_PENDING manager_meta
           (upd_trade i (close_prepared l r) d)))"

lemma shadow_closed_db_rows:
  assumes "distinct_ids d"
  shows "trades (shadow_closed_db e i r l d)
      = update_where (\<lambda>t. t_id t = i) (shadow_closed e r l) (trades d)"
    and "daily_stats (shadow_closed_db e i r l d) = daily_stats d"
    and "get_trade i d = Some t \<Longrightarrow>
      get_trade i (shadow_closed_db e i r l d) = Some (shadow_closed e r l t)"
proof -
  show tr: "trades (shadow_closed_db e i r l d)
      = update_where (\<lambda>t. t_id t = i) (shadow_closed e r l) (trades d)"
    using assms by (simp add: shadow_closed_db_def transition_trades update_where_comp
        shadow_closed_def[abs_def])
  show "daily_stats (shadow_closed_db e i r l d) = daily_stats d" by (simp add: shadow_closed_db_def)
  show "get_trade i (shadow_closed_db e i r l d) = Some (shadow_closed e r l t)" if "get_trade i d = Some t"
    using get_trade_update[OF tr] that by simp
qed

definition close_link :: "env \<Rightarrow> world \<Rightarrow> string" where
  "close_link e w = ''close_'' @ take 12 (hex_of e (draws w))"

lemma close_trade_refused:
  assumes "case get_trade i (saved w) of None \<Rightarrow> True | Some t \<Rightarrow> t_status t \<notin> set close_retryable_statuses"
  shows "close_trade e i r w = (Inl (if get_trade i (saved w) = None then TradeNotFoundError
     else TradeNotOpenError), w\<lparr>cur := saved w\<rparr>)"
  using assms by (simp add: close_trade_def in_session_def split: option.splits)

lemma prepare_close_run:
  assumes "get_trade i (cur w) = Some t"
  shows "prepare_close_submission e i r w
    = (Inr (close_link e w, close_side t, or_zero (dec_or (t_filled_qty t) (t_qty t))),
       w\<lparr>draws := Suc (draws w), cur := upd_trade i (close_prepared (close_link e w) r) (cur w)\<rparr>)"
  using assms by (simp add: prepare_close_submission_def bnd_draw Let_def close_link_def)

lemma close_trade_begins:
  assumes "get_trade i (saved w) = Some t" "t_status t \<in> set close_retryable_statuses"
  shows "close_trade e i r w = in_session (\<lambda>_.
     (if trading_mode (cfg e) = SHADOW then shadow_close e i r
      else live_close e i (close_link e w) (close_side t) (or_zero (dec_or (t_filled_qty t) (t_qty t))))
       (w\<lparr>draws := Suc (draws w), cur := transition_trade_status i POSITION_CLOSE_PENDING manager_meta
          (upd_trade i (close_prepared (close_link e w) r) (saved w))\<rparr>)) w"
proof -
  have "prepare_close_submission e i r (w\<lparr>cur := saved w\<rparr>)
      = (Inr (close_link e w, close_side t, or_zero (dec_or (t_filled_qty t) (t_qty t))),
         w\<lparr>draws := Suc (draws w), cur := upd_trade i (close_prepared (close_link e w) r) (saved w)\<rparr>)"
    using prepare_close_run[of i "w\<lparr>cur := saved w\<rparr>" t e r] assms(1) by (simp add: close_link_def)
  then show ?thesis using assms by (simp add: close_trade_def in_session_def bnd_Inr)
qed

text \<open>The committed state after a shadow close.\<close>

definition after_shadow_close :: "env \<Rightarrow> nat \<Rightarrow> exit_reason \<Rightarrow> string \<Rightarrow> trade \<Rightarrow> db \<Rightarrow> db" where
  "after_shadow_close e i r l t d =
     upd_stat (today e) (outcome_stat (shadow_closed e r l t)
         (calculate_realized_pnl t (or_zero (shadow_exit_price r t))))
       (ensure_daily_stat (today e) (shadow_closed_db e i r l d))"

lemma shadow_close_run:
  assumes g: "get_trade i (saved w) = Some t" and st: "t_status t \<in> set close_retryable_statuses"
    and m: "trading_mode (cfg e) = SHADOW" and d: "distinct_ids (saved w)"
  shows "close_trade e i r w = (Inr (shadow_closed e r (close_link e w) t),
    w\<lparr>draws := Suc (draws w), cur := after_shadow_close e i r (close_link e w) t (saved w),
      saved := after_shadow_close e i r (close_link e w) t (saved w)\<rparr>)"
proof -
  define d' where "d' = after_shadow_close e i r (close_link e w) t (saved w)"
  note g' = shadow_closed_db_rows(3)[OF d g, of e r "close_link e w"]
  have "on_db (apply_trade_outcome_analytics (now e) i)
      (w\<lparr>draws := Suc (draws w), cur := shadow_closed_db e i r (close_link e w) (saved w)\<rparr>)
    = (Inr (), w\<lparr>draws := Suc (draws w), cur := d'\<rparr>)"
    using g' by (simp add: on_db_def apply_trade_outcome_analytics_def d'_def after_shadow_close_def
        today_def Let_def)
  moreover have "get_trade i d' = Some (shadow_closed e r (close_link e w) t)"
    using g' by (simp add: d'_def after_shadow_close_def get_trade_def)
  ultimately show ?thesis using m
    by (simp add: close_trade_begins[OF g st] in_session_def shadow_close_def shadow_closed_db_def
        andthen_Inr[of "on_db (apply_trade_outcome_analytics (now e) i)"] commit_def d'_def)
      (simp add: the_trade_def)
qed

lemma after_shadow_close_rows:
  assumes "distinct_ids d"
  shows "trades (after_shadow_close e i r l t d)
    = update_where (\<lambda>u. t_id u = i) (shadow_closed e r l) (trades d)"
  using shadow_closed_db_rows(1)[OF assms] by (simp add: after_shadow_close_def)

text \<open>
  In shadow mode a close is recorded completely and once.  Closing an open trade ends it in
  \<open>PNL_RECORDED\<close> with the exit price of its reason, the result of that price and the close link,
  adds its result to the day's row, commits, sends nothing and touches no other trade; closing
  it again is refused and changes nothing.
\<close>

theorem shadow_close_is_recorded_once:
  assumes g: "get_trade i (saved w) = Some t" and st: "t_status t \<in> set close_retryable_statuses"
    and m: "trading_mode (cfg e) = SHADOW" and d: "distinct_ids (saved w)"
  shows "case close_trade e i r w of (res, w') \<Rightarrow>
      res = Inr (shadow_closed e r (close_link e w) t) \<and> sent w' = sent w
    \<and> trades (saved w') = update_where (\<lambda>u. t_id u = i) (shadow_closed e r (close_link e w)) (trades (saved w))
    \<and> t_realized_pnl (shadow_closed e r (close_link e w) t)
        = Some (calculate_realized_pnl t (or_zero (shadow_exit_price r t)))
    \<and> stat_of (today e) (saved w') = outcome_stat (shadow_closed e r (close_link e w) t)
        (calculate_realized_pnl t (or_zero (shadow_exit_price r t))) (stat_of (today e) (saved w))
    \<and> close_trade e' i r' w' = (Inl TradeNotOpenError, w')"
proof -
  define u where "u = shadow_closed e r (close_link e w) t"
  define d' where "d' = after_shadow_close e i r (close_link e w) t (saved w)"
  define w' where "w' = w\<lparr>draws := Suc (draws w), cur := d', saved := d'\<rparr>"
  have run: "close_trade e i r w = (Inr u, w')"
    using shadow_close_run[OF g st m d] by (simp add: w'_def u_def d'_def)
  have rows: "trades d' = update_where (\<lambda>u. t_id u = i) (shadow_closed e r (close_link e w)) (trades (saved w))"
    using after_shadow_close_rows[OF d] by (simp add: d'_def)
  have "get_trade i (saved w') = Some u"
    using get_trade_update[OF rows] g by (simp add: w'_def u_def)
  then have again: "close_trade e' i r' w' = (Inl TradeNotOpenError, w')"
    by (subst close_trade_refused) (simp_all add: u_def w'_def close_retryable_statuses_def)
  have "stat_of (today e) d' = outcome_stat u (calculate_realized_pnl t (or_zero (shadow_exit_price r t)))
      (stat_of (today e) (saved w))"
    using shadow_closed_db_rows(2)[OF d, of e i r "close_link e w"]
    by (simp add: d'_def after_shadow_close_def u_def stat_of_upd keeps_date_outcome)
      (simp add: stat_of_def get_stat_def)
  then show ?thesis using again rows by (simp add: run) (simp add: w'_def u_def)
qed

definition shadow_mode_env :: env where
  "shadow_mode_env = calm_env\<lparr>cfg := plain_settings\<lparr>trading_mode := SHADOW\<rparr>\<rparr>"

theorem shadow_close_is_recorded_once_witness:
  "fst (close_trade shadow_mode_env 1 TP_HIT (snd (close_trade shadow_mode_env 1 SL_HIT open_world)))
    = Inl TradeNotOpenError"
proof -
  have g: "get_trade 1 (saved open_world) = Some open_trade" by code_simp
  have st: "t_status open_trade \<in> set close_retryable_statuses" by code_simp
  have m: "trading_mode (cfg shadow_mode_env) = SHADOW" by code_simp
  have d: "distinct_ids (saved open_world)" by code_simp
  from shadow_close_is_recorded_once[OF g st m d, of SL_HIT shadow_mode_env TP_HIT] show ?thesis
    by (cases "close_trade shadow_mode_env 1 SL_HIT open_world") auto
qed

subsection \<open>A live close\<close>

text \<open>
  Outside shadow mode a close sends exactly one order: a market order over the whole filled
  quantity on the opposite side, under a fresh close link.  When the exchange accepts it, the
  trade is committed as closing under that link; when the placement raises, for whatever reason,
  the error is passed on and nothing is committed, so the journal does not know the link of an
  order that may have reached the exchange.
\<close>

theorem live_close_sends_one_market_order:
  assumes g: "get_trade i (saved w) = Some t" and st: "t_status t \<in> set close_retryable_statuses"
    and m: "trading_mode (cfg e) \<noteq> SHADOW"
  shows "case close_trade e i r w of (res, w') \<Rightarrow>
    (let rq = close_req t (close_link e w) (close_side t) (or_zero (dec_or (t_filled_qty t) (t_qty t))) in
       sent w' = sent w @ [Place rq]
     \<and> (case ex_place (exch e) (sent w) rq of
          Inl x \<Rightarrow> res = Inl x \<and> saved w' = saved w
        | Inr oid \<Rightarrow> res = Inr (t\<lparr>t_close_order_link_id := Some (close_link e w),
              t_close_exchange_order_id := oid, t_exit_reason := Some r, t_status := POSITION_CLOSE_PENDING\<rparr>)
            \<and> get_trade i (saved w') = Some (t\<lparr>t_close_order_link_id := Some (close_link e w),
              t_close_exchange_order_id := oid, t_exit_reason := Some r, t_status := POSITION_CLOSE_PENDING\<rparr>)))"
proof -
  define rq where "rq = close_req t (close_link e w) (close_side t) (or_zero (dec_or (t_filled_qty t) (t_qty t)))"
  define d1 where "d1 = transition_trade_status i POSITION_CLOSE_PENDING manager_meta
      (upd_trade i (close_prepared (close_link e w) r) (saved w))"
  define u where "u = (close_prepared (close_link e w) r t)\<lparr>t_status := POSITION_CLOSE_PENDING\<rparr>"
  define w1 where "w1 = w\<lparr>draws := Suc (draws w), cur := d1\<rparr>"
  have g1: "get_trade i d1 = Some u"
    using get_transition[OF get_upd[OF g]] by (simp add: d1_def u_def)
  have rq1: "close_req u (close_link e w) (close_side t) (or_zero (dec_or (t_filled_qty t) (t_qty t))) = rq"
    by (simp add: rq_def u_def close_req_def close_prepared_def)
  have run: "close_trade e i r w = in_session (\<lambda>_. bnd (place_order e rq) (\<lambda>oid.
     andthen (case oid of
                Some x \<Rightarrow> set_fields i (\<lambda>t. t\<lparr>t_close_exchange_order_id := Some x\<rparr>)
              | None \<Rightarrow> ret ()) (andthen commit (the_trade i))) w1) w"
    using m g1 rq1 by (simp add: close_trade_begins[OF g st] live_close_def d1_def[symmetric] w1_def)
  show ?thesis
  proof (cases "ex_place (exch e) (sent w) rq")
    case (Inl x)
    then show ?thesis
      by (simp add: run in_session_def bnd_def place_order_def w1_def rq_def[symmetric] Let_def)
  next
    case (Inr oid)
    have "get_trade i (upd_trade i (\<lambda>t. t\<lparr>t_close_exchange_order_id := Some x\<rparr>) d1)
        = Some (u\<lparr>t_close_exchange_order_id := Some x\<rparr>)" for x
      using get_upd[OF g1] by simp
    with Inr g1 show ?thesis
      by (cases oid) (simp_all add: run in_session_def bnd_def place_order_def w1_def rq_def[symmetric]
          Let_def commit_def the_trade_def u_def close_prepared_def)
  qed
qed

theorem live_close_sends_one_market_order_witness:
  "length (sent (snd (close_trade calm_env 1 MANUAL open_world))) = 1"
proof -
  have g: "get_trade 1 (saved open_world) = Some open_trade" by code_simp
  have st: "t_status open_trade \<in> set close_retryable_statuses" by code_simp
  have m: "trading_mode (cfg calm_env) \<noteq> SHADOW" by code_simp
  from live_close_sends_one_market_order[OF g st m, of MANUAL] show ?thesis
    by (cases "close_trade calm_env 1 MANUAL open_world") (auto simp: Let_def open_world_def fresh_world_def)
qed

subsection \<open>A round of the monitor\<close>

lemma get_shadow_other:
  assumes "distinct_ids d" "j \<noteq> i"
  shows "get_trade j (after_shadow_close e i r l t d) = get_trade j d"
  using find_update_where_other[of "\<lambda>u. t_id u = i" "\<lambda>t. t_id t = j" "shadow_closed e r l" "trades d"] assms
  by (simp add: get_trade_def after_shadow_close_rows)

text \<open>What closing a list of decided trades leaves, in shadow mode.\<close>

definition decided_close :: "db \<Rightarrow> (nat \<times> exit_reason) list \<Rightarrow> db \<Rightarrow> bool" where
  "decided_close d ds d' \<longleftrightarrow> distinct_ids d' \<and> (\<forall>j. case get_trade j d of
     None \<Rightarrow> get_trade j d' = None
   | Some t \<Rightarrow> (case map_of ds j of
        Some r \<Rightarrow> if t_status t \<in> set close_retryable_statuses
                  then \<exists>v. get_trade j d' = Some v \<and> t_status v = PNL_RECORDED \<and> t_exit_reason v = Some r
                  else get_trade j d' = Some t
      | None \<Rightarrow> get_trade j d' = Some t))"

definition closable :: "db \<Rightarrow> nat \<Rightarrow> bool" where
  "closable d i \<longleftrightarrow> (case get_trade i d of None \<Rightarrow> False
     | Some t \<Rightarrow> t_status t \<in> set close_retryable_statuses)"

lemma close_or_skip_shadow:
  assumes m: "trading_mode (cfg e) = SHADOW" and d: "distinct_ids (saved w)"
  obtains w1 where "close_or_skip e (i, r) w = (Inr (closable (saved w) i), w1)" "sent w1 = sent w"
    "distinct_ids (saved w1)" "\<And>j. j \<noteq> i \<Longrightarrow> get_trade j (saved w1) = get_trade j (saved w)"
    "closable (saved w) i \<Longrightarrow> \<exists>v. get_trade i (saved w1) = Some v \<and> t_status v = PNL_RECORDED \<and> t_exit_reason v = Some r"
    "\<not> closable (saved w) i \<Longrightarrow> get_trade i (saved w1) = get_trade i (saved w)"
proof (cases "closable (saved w) i")
  case False
  then have "close_or_skip e (i, r) w = (Inr (closable (saved w) i), w\<lparr>cur := saved w\<rparr>)"
    using close_trade_refused[of i w e r]
    by (auto simp: close_or_skip_def catch_def bnd_def closable_def ret_def split: option.splits)
  from that[OF this] False d show ?thesis by simp
next
  case True
  then obtain t where g: "get_trade i (saved w) = Some t" and st: "t_status t \<in> set close_retryable_statuses"
    by (auto simp: closable_def split: option.splits)
  define d' where "d' = after_shadow_close e i r (close_link e w) t (saved w)"
  have rows: "trades d' = update_where (\<lambda>t. t_id t = i) (shadow_closed e r (close_link e w)) (trades (saved w))"
    using after_shadow_close_rows[OF d] by (simp add: d'_def)
  have "close_or_skip e (i, r) w = (Inr (closable (saved w) i), w\<lparr>draws := Suc (draws w), cur := d', saved := d'\<rparr>)"
    using shadow_close_run[OF g st m d, of r] True
    by (simp add: close_or_skip_def catch_def bnd_def d'_def ret_def)
  moreover have "distinct_ids d'" using d rows by (simp add: distinct_ids_def map_update_where)
  ultimately show ?thesis
    using that True get_trade_update[OF rows] g get_shadow_other[OF d] by (simp add: d'_def)
qed

lemma close_all_shadow:
  assumes "trading_mode (cfg e) = SHADOW" "distinct_ids (saved w)" "distinct (map fst ds)"
  shows "\<exists>w'. count_each (close_or_skip e) ds w
      = (Inr (length (filter (\<lambda>ir. closable (saved w) (fst ir)) ds)), w')
    \<and> sent w' = sent w \<and> decided_close (saved w) ds (saved w')"
  using assms(2,3)
proof (induction ds arbitrary: w)
  case Nil
  then show ?case by (auto simp: decided_close_def split: option.splits)
next
  case (Cons ir ds)
  obtain i r where ir: "ir = (i, r)" by (cases ir)
  obtain w1 where run: "close_or_skip e (i, r) w = (Inr (closable (saved w) i), w1)" "sent w1 = sent w"
    "distinct_ids (saved w1)" and other: "\<And>j. j \<noteq> i \<Longrightarrow> get_trade j (saved w1) = get_trade j (saved w)"
    and fin: "closable (saved w) i \<Longrightarrow>
      \<exists>v. get_trade i (saved w1) = Some v \<and> t_status v = PNL_RECORDED \<and> t_exit_reason v = Some r"
    "\<not> closable (saved w) i \<Longrightarrow> get_trade i (saved w1) = get_trade i (saved w)"
    using close_or_skip_shadow[OF assms(1) Cons.prems(1), of i r thesis] by blast
  have nin: "map_of ds i = None" and dd: "distinct (map fst ds)"
    using Cons.prems(2) ir by (auto simp: map_of_eq_None_iff)
  obtain w' where IH: "count_each (close_or_skip e) ds w1
      = (Inr (length (filter (\<lambda>ir. closable (saved w1) (fst ir)) ds)), w')"
    "sent w' = sent w1" "decided_close (saved w1) ds (saved w')"
    using Cons.IH[OF run(3) dd] by blast
  have cl: "closable (saved w1) j = closable (saved w) j" if "j \<noteq> i" for j
    using other[OF that] by (simp add: closable_def)
  have same: "filter (\<lambda>ir. closable (saved w1) (fst ir)) ds = filter (\<lambda>ir. closable (saved w) (fst ir)) ds"
  proof (intro filter_cong refl)
    fix x assume "x \<in> set ds"
    then have "fst x \<noteq> i" using Cons.prems(2) ir by (metis distinct.simps(2) fst_conv image_eqI list.map(2) set_map)
    then show "closable (saved w1) (fst x) = closable (saved w) (fst x)" by (rule cl)
  qed
  have "decided_close (saved w) (ir # ds) (saved w')"
    unfolding decided_close_def
  proof (intro conjI allI)
    show "distinct_ids (saved w')" using IH(3) by (simp add: decided_close_def)
    fix j
    have a: "case get_trade j (saved w1) of
         None \<Rightarrow> get_trade j (saved w') = None
       | Some t \<Rightarrow> (case map_of ds j of
            Some r \<Rightarrow> if t_status t \<in> set close_retryable_statuses
              then \<exists>v. get_trade j (saved w') = Some v \<and> t_status v = PNL_RECORDED \<and> t_exit_reason v = Some r
              else get_trade j (saved w') = Some t
          | None \<Rightarrow> get_trade j (saved w') = Some t)"
      using IH(3) unfolding decided_close_def by blast
    then show "case get_trade j (saved w) of
         None \<Rightarrow> get_trade j (saved w') = None
       | Some t \<Rightarrow> (case map_of (ir # ds) j of
            Some r \<Rightarrow> if t_status t \<in> set close_retryable_statuses
              then \<exists>v. get_trade j (saved w') = Some v \<and> t_status v = PNL_RECORDED \<and> t_exit_reason v = Some r
              else get_trade j (saved w') = Some t
          | None \<Rightarrow> get_trade j (saved w') = Some t)"
    proof (cases "j = i")
      case True
      show ?thesis
      proof (cases "closable (saved w) i")
        case c: True
        from fin(1)[OF this] obtain v where "get_trade i (saved w1) = Some v" "t_status v = PNL_RECORDED"
          "t_exit_reason v = Some r" by blast
        with a nin True ir c show ?thesis by (auto simp: closable_def split: option.splits)
      next
        case False
        with fin(2)[OF this] a nin True ir show ?thesis
          by (auto simp: closable_def split: option.splits)
      qed
    next
      case False
      then have "map_of (ir # ds) j = map_of ds j" using ir by simp
      with a other[OF False] show ?thesis by (simp only:)
    qed
  qed
  then show ?case using run IH same by (simp add: ir bnd_def ret_def)
qed

text \<open>The decisions of a round when every symbol has a price; the cache changes nothing.\<close>

fun decide :: "(string \<Rightarrow> decimal) \<Rightarrow> trade list \<Rightarrow> (nat \<times> exit_reason) list" where
  "decide p [] = []"
| "decide p (t # ts) = (case resolve_spot_exit_reason t (p (t_symbol t)) of
     Some r \<Rightarrow> (t_id t, r) # decide p ts | None \<Rightarrow> decide p ts)"

lemma exit_decisions_run:
  assumes "\<And>s. ex_ticker_price (exch e) (sent w) s = Inr (f s)"
    and "\<And>s x. map_of cache s = Some x \<Longrightarrow> x = dec_of_float (f s)"
  shows "exit_decisions e cache ts w = (Inr (decide (\<lambda>s. dec_of_float (f s)) ts), w)"
  using assms(2)
proof (induction ts arbitrary: cache)
  case Nil
  then show ?case by simp
next
  case (Cons t ts)
  show ?case
  proof (cases "map_of cache (t_symbol t)")
    case None
    have "exit_decisions e ((t_symbol t, dec_of_float (f (t_symbol t))) # cache) ts w
        = (Inr (decide (\<lambda>s. dec_of_float (f s)) ts), w)"
      using Cons.prems by (intro Cons.IH) (auto split: if_splits)
    with None assms(1) show ?thesis
      by (simp add: bnd_def get_ticker_price_def ret_def split: option.splits)
  next
    case (Some x)
    have "exit_decisions e cache ts w = (Inr (decide (\<lambda>s. dec_of_float (f s)) ts), w)"
      using Cons.prems by (rule Cons.IH)
    with Some Cons.prems[OF Some] show ?thesis
      by (simp add: bnd_def ret_def split: option.splits)
  qed
qed

lemma decide_ids: "set (map fst (decide p ts)) \<subseteq> t_id ` set ts"
  by (induction ts) (auto split: option.splits)

lemma decide_distinct: "distinct (map t_id ts) \<Longrightarrow> distinct (map fst (decide p ts))"
  using decide_ids by (induction ts) (fastforce split: option.splits)+

lemma decide_map_of:
  "distinct (map t_id ts) \<Longrightarrow> t \<in> set ts \<Longrightarrow>
    map_of (decide p ts) (t_id t) = resolve_spot_exit_reason t (p (t_symbol t))"
proof (induction ts)
  case (Cons u ts)
  have no: "map_of (decide p ts) (t_id u) = None"
    using Cons.prems(1) decide_ids[of p ts] by (auto simp: map_of_eq_None_iff)
  have "t_id t \<noteq> t_id u" if "t \<noteq> u" using Cons.prems that by (auto simp: rev_image_eqI)
  with Cons show ?case
    by (cases "t = u") (auto simp: no split: option.splits)
qed simp

text \<open>
  A round of the spot exit monitor closes exactly the open positions whose level is reached.
  In shadow mode, when every symbol has a price, the round sends nothing and every row is
  afterwards as before, but for the unprotected open market positions whose stop or target the
  price has reached: those are recorded as closed for that reason.  A position that is only
  confirmed is watched as well, but closing it is refused, so it is left open.
\<close>

theorem monitor_closes_the_triggered:
  assumes m: "trading_mode (cfg e) = SHADOW" and d: "distinct_ids (saved w)"
    and p: "\<And>s. ex_ticker_price (exch e) (sent w) s = Inr (f s)"
    and t: "get_trade i (saved w) = Some t"
  shows "case monitor_spot_exit_candidates_once e w of (r, w') \<Rightarrow>
    (\<exists>n. r = Inr n) \<and> sent w' = sent w
    \<and> (if t \<in> set (exit_candidates (saved w)) \<and> t_status t = POSITION_OPEN
       then case resolve_spot_exit_reason t (dec_of_float (f (t_symbol t))) of
              None \<Rightarrow> get_trade i (saved w') = Some t
            | Some x \<Rightarrow> \<exists>v. get_trade i (saved w') = Some v \<and> t_status v = PNL_RECORDED
                \<and> t_exit_reason v = Some x
       else get_trade i (saved w') = Some t)"
proof -
  define ts where "ts = exit_candidates (saved w)"
  define ds where "ds = decide (\<lambda>s. dec_of_float (f s)) ts"
  have sub: "ts = filter (\<lambda>t. t_stop_order_link_id t = None \<and> t_take_profit_order_link_id t = None \<and> missing_protection t)
      (trades (saved w))"
    by (simp add: ts_def exit_candidates_def list_spot_market_trades_missing_protection_def conj_ac)
  have dt: "distinct (map t_id ts)" using d by (simp add: sub distinct_ids_def distinct_map_filter)
  define w0 where "w0 = w\<lparr>cur := saved w\<rparr>"
  have w0: "sent w0 = sent w" "saved w0 = saved w" by (simp_all add: w0_def)
  have dec: "exit_decisions e [] ts w0 = (Inr ds, w0)"
    unfolding ds_def using p by (intro exit_decisions_run) (simp_all add: w0)
  obtain n w' where run: "count_each (close_or_skip e) ds w0 = (Inr n, w')" "sent w' = sent w"
    and c: "decided_close (saved w) ds (saved w')"
    using close_all_shadow[OF m, of w0 ds] d decide_distinct[OF dt] by (auto simp: ds_def w0)
  have all: "monitor_spot_exit_candidates_once e w = (Inr n, w')"
    using dec run(1) by (simp add: monitor_spot_exit_candidates_once_def in_session_def bnd_def ts_def w0_def)
  have tid: "t \<in> set (trades (saved w))" "t_id t = i" using get_trade_Some[OF t] by simp_all
  have row: "case map_of ds i of
        Some r \<Rightarrow> if t_status t \<in> set close_retryable_statuses
                  then \<exists>v. get_trade i (saved w') = Some v \<and> t_status v = PNL_RECORDED \<and> t_exit_reason v = Some r
                  else get_trade i (saved w') = Some t
      | None \<Rightarrow> get_trade i (saved w') = Some t"
    using c[unfolded decided_close_def, THEN conjunct2, rule_format, of i] by (simp only: t option.case)
  have "map_of ds i = (if t \<in> set ts then resolve_spot_exit_reason t (dec_of_float (f (t_symbol t))) else None)"
  proof (cases "t \<in> set ts")
    case True
    then show ?thesis using decide_map_of[OF dt True] by (simp add: ds_def tid)
  next
    case False
    have "u = t" if "u \<in> set ts" "t_id u = i" for u
      using that t get_trade_unique[of "saved w" u] d by (simp add: sub distinct_ids_def)
    then have "i \<notin> t_id ` set ts" using False by auto
    then show ?thesis using False decide_ids[of "\<lambda>s. dec_of_float (f s)" ts]
      by (auto simp: ds_def map_of_eq_None_iff)
  qed
  note mo = this
  have st: "t_status t \<in> set close_retryable_statuses \<longleftrightarrow> t_status t = POSITION_OPEN" if "t \<in> set ts"
    using that by (auto simp: sub missing_protection_def close_retryable_statuses_def)
  show ?thesis
  proof (cases "t \<in> set ts \<and> t_status t = POSITION_OPEN")
    case True
    then have mo': "map_of ds i = resolve_spot_exit_reason t (dec_of_float (f (t_symbol t)))"
      and op: "t_status t \<in> set close_retryable_statuses" using mo st by (simp_all only: if_True)
    have "case resolve_spot_exit_reason t (dec_of_float (f (t_symbol t))) of
          None \<Rightarrow> get_trade i (saved w') = Some t
        | Some x \<Rightarrow> \<exists>v. get_trade i (saved w') = Some v \<and> t_status v = PNL_RECORDED \<and> t_exit_reason v = Some x"
      using row op unfolding mo' by (simp only: if_True)
    then show ?thesis unfolding all ts_def[symmetric] prod.case
      using run(2) True by (simp only: if_True simp_thms) blast
  next
    case False
    have "get_trade i (saved w') = Some t"
    proof (cases "map_of ds i")
      case None
      with row show ?thesis by (simp only: option.case)
    next
      case (Some x)
      then have "t \<in> set ts" using mo by (metis option.distinct(1))
      with row Some st False show ?thesis by (simp only: option.case if_False simp_thms)
    qed
    then show ?thesis unfolding all ts_def[symmetric] prod.case
      using run(2) False by (simp only: if_False simp_thms) blast
  qed
qed

definition naked_trade :: trade where
  "naked_trade = open_trade\<lparr>t_stop_order_link_id := None, t_target_price := Some 99\<rparr>"

theorem monitor_closes_the_triggered_witness:
  "\<exists>v. get_trade 1 (saved (snd (monitor_spot_exit_candidates_once shadow_mode_env
      (fresh_world\<lparr>saved := empty_db\<lparr>trades := [naked_trade]\<rparr>\<rparr>)))) = Some v \<and> t_exit_reason v = Some TP_HIT"
proof -
  define w where "w = fresh_world\<lparr>saved := empty_db\<lparr>trades := [naked_trade]\<rparr>\<rparr>"
  have m: "trading_mode (cfg shadow_mode_env) = SHADOW" by code_simp
  have d: "distinct_ids (saved w)" unfolding w_def by code_simp
  have p: "ex_ticker_price (exch shadow_mode_env) (sent w) s = Inr 100" for s
    by (simp add: shadow_mode_env_def calm_env_def)
  have t: "get_trade 1 (saved w) = Some naked_trade" unfolding w_def by code_simp
  have c: "naked_trade \<in> set (exit_candidates (saved w))" "t_status naked_trade = POSITION_OPEN"
    unfolding w_def by code_simp+
  have r: "resolve_spot_exit_reason naked_trade (dec_of_float 100) = Some TP_HIT" by code_simp
  from monitor_closes_the_triggered[OF m d p t] c r show ?thesis
    by (cases "monitor_spot_exit_candidates_once shadow_mode_env w") (auto simp: w_def)
qed

end
