(* ===== verification/Services.thy ===== *)
theory Services
  imports SignalExecution PositionManager
begin

text \<open>
  The journal's services together: a step is one call of a service (a route, a handler of the
  exchange's stream, a round of a background task), in any environment; what every history of
  such calls keeps, and what the kill switch stops.
\<close>

subsection \<open>Histories of calls\<close>

text \<open>Every entry point of the application that works on the journal, but the reset.\<close>

inductive service :: "world \<Rightarrow> world \<Rightarrow> bool" where
  signal: "service w (snd (execute_signal e dg p w))"
| order_event: "service w (snd (process_order e rc ro w))"
| execution_event: "service w (snd (process_execution l fee price w))"
| reconciliation: "service w (snd (reconcile_once e rc w))"
| close: "service w (snd (close_position e i payload w))"
| exit_monitor: "service w (snd (run_spot_exit_monitor es w))"
| kill: "service w (snd (post_kill e w))"
| safety_status: "service w (snd (get_safety_status e w))"
| open_trades: "service w (snd (list_open_trades e w))"
| all_trades: "service w (snd (list_trades n k mode w))"
| one_trade: "service w (snd (get_trade_detail i w))"

inductive reachable :: "world \<Rightarrow> bool" where
  start: "reachable fresh_world"
| call: "reachable w \<Longrightarrow> service w w' \<Longrightarrow> reachable w'"
| reset: "reachable w \<Longrightarrow> reachable (snd (post_reset e w))"

inductive_cases serviceE: "service w w'"

text \<open>A frame that every session keeps is kept by every service.\<close>

lemma service_steps:
  assumes "service w w'"
    and "\<And>e dg p. P (snd (execute_signal e dg p w))"
    and "\<And>e rc ro. P (snd (process_order e rc ro w))"
    and "\<And>l fee price. P (snd (process_execution l fee price w))"
    and "\<And>e rc. P (snd (reconcile_once e rc w))"
    and "\<And>e i r. P (snd (close_trade e i r w))"
    and "\<And>es. P (snd (run_spot_exit_monitor es w))"
    and "\<And>e. P (snd (post_kill e w))"
    and "\<And>e. P (snd (get_safety_status e w))"
    and "\<And>f. P (snd (in_session (reads f :: trade list op) w))"
    and "\<And>i. P (snd (get_trade_detail i w))"
  shows "P w'"
  using assms(1)
  by (cases rule: service.cases)
    (auto simp: close_position_def list_open_trades_def list_trades_def intro: assms(2-))

context store_invariant
begin

lemma keep_detail: "keeps I (get_trade_detail i)"
  unfolding get_trade_detail_def by (intro keep_rules)

lemma keep_service: "service w w' \<Longrightarrow> winv I w \<Longrightarrow> winv I w'"
  by (erule service_steps)
    (auto simp: post_kill_def get_safety_status_def
      intro!: keeps_run keep_execute_signal keep_process_order keep_process_execution
        keep_reconcile_once keep_close_trade keep_run_monitor keep_session keep_activate keep_status
        keep_detail kp.reads)

end

context reset_invariant
begin

lemma keep_post_reset: "keeps I (post_reset e)"
  unfolding post_reset_def by (intro keep_session keep_reset)

lemma keep_reachable: "reachable w \<Longrightarrow> I empty_db \<Longrightarrow> winv I w"
proof (induction rule: reachable.induct)
  case start
  then show ?case by (simp add: winv_def fresh_world_def ids_below_def empty_db_def)
next
  case (call w w')
  then show ?case using keep_service by blast
next
  case (reset w e)
  then show ?case using keeps_run[OF keep_post_reset] by blast
qed

end

text \<open>Outside a session there is nothing uncommitted.\<close>

lemma clean_session: "steps (preserves (\<lambda>w. cur w = saved w)) (in_session m)"
  by (auto simp: steps_def preserves_def in_session_def split: prod.splits)

lemma clean_reads: "steps (preserves (\<lambda>w. cur w = saved w)) (get_ticker_price e s)"
  by (simp add: steps_def preserves_def get_ticker_price_def)

lemma clean_decisions: "steps (preserves (\<lambda>w. cur w = saved w)) (exit_decisions e c ts)"
  by (induction ts arbitrary: c) (auto intro!: kp.rules clean_reads split: option.splits)

lemma clean_close: "steps (preserves (\<lambda>w. cur w = saved w)) (close_or_skip e ir)"
  unfolding close_or_skip_def close_trade_def by (intro kp.rules clean_session)

lemma clean_monitor: "steps (preserves (\<lambda>w. cur w = saved w)) (run_spot_exit_monitor es)"
  by (induction es; simp only: run_spot_exit_monitor.simps monitor_spot_exit_candidates_once_def)
    (intro kp.rules clean_session clean_decisions clean_close | assumption)+

lemma clean_reconcile: "steps (preserves (\<lambda>w. cur w = saved w)) (reconcile_once e rc)"
  unfolding reconcile_once_def reconcile_status_group_def reconcile_missing_protection_orders_def
  by (intro kp.rules clean_session)

lemma clean_service: "service w w' \<Longrightarrow> cur w = saved w \<Longrightarrow> cur w' = saved w'"
  by (erule service_steps)
    (auto simp: execute_signal_def process_order_def process_execution_def close_trade_def
      post_kill_def get_safety_status_def get_trade_detail_def Let_def
      intro: keeps_run[OF clean_session] keeps_run[OF clean_reconcile] keeps_run[OF clean_monitor])

lemma reachable_clean: "reachable w \<Longrightarrow> cur w = saved w"
  by (induction rule: reachable.induct)
    (auto simp: fresh_world_def post_reset_def intro: clean_service keeps_run[OF clean_session])

lemmas empty_invariants = audited_def unique_dates_def none_closed_def empty_db_def

lemma reachable_sound:
  assumes "reachable w"
  shows "audited (saved w) \<and> unique_dates (saved w)"
proof -
  have "winv audited w" by (rule audit.keep_reachable[OF assms]) (simp add: empty_invariants)
  moreover have "winv unique_dates w" by (rule dates.keep_reachable[OF assms]) (simp add: empty_invariants)
  ultimately show ?thesis by (simp add: winv_def)
qed

text \<open>
  C2: whatever calls the application has served, in whatever order and however each of them
  ended, the committed journal is sound: each trade's events lead, without a gap, from its
  creation to its present status, a day has one row of statistics, and no trade rests in the
  transient status \<open>POSITION_CLOSED\<close>.
\<close>

theorem journal_is_always_sound:
  assumes "reachable w"
  shows "audited (saved w) \<and> unique_dates (saved w) \<and> none_closed (saved w)"
proof -
  have "winv none_closed w" by (rule nc.keep_reachable[OF assms]) (simp add: empty_invariants)
  with reachable_sound[OF assms] show ?thesis by (simp add: winv_def)
qed

text \<open>A history: a signal is executed, the switch is thrown, the safety state is reset.\<close>

definition sample_history :: world where
  "sample_history = snd (post_reset calm_env (snd (post_kill calm_env
     (snd (execute_signal calm_env cp_symbol sample_request fresh_world)))))"

lemma sample_reachable: "reachable sample_history"
proof -
  have "reachable (snd (execute_signal calm_env cp_symbol sample_request fresh_world))"
    using reachable.start service.signal by (rule reachable.call)
  then have "reachable (snd (post_kill calm_env
      (snd (execute_signal calm_env cp_symbol sample_request fresh_world))))"
    using service.kill by (rule reachable.call)
  then show ?thesis unfolding sample_history_def by (rule reachable.reset)
qed

theorem journal_is_always_sound_witness:
  "audited (saved sample_history) \<and> unique_dates (saved sample_history)
    \<and> none_closed (saved sample_history)"
  by (rule journal_is_always_sound[OF sample_reachable])

subsection \<open>What the kill switch stops\<close>

abbreviation trade_ids :: "db \<Rightarrow> nat list" where
  "trade_ids d \<equiv> map t_id (trades d)"

text \<open>The switch is on, nothing was sent since \<open>rs\<close> and no trade was added to \<open>ids\<close>.\<close>

definition blocked :: "request list \<Rightarrow> nat list \<Rightarrow> world \<Rightarrow> bool" where
  "blocked rs ids w \<longleftrightarrow> killed (cur w) \<and> sent w = rs \<and> trade_ids (cur w) = ids
     \<and> killed (saved w) \<and> trade_ids (saved w) = ids"

abbreviation idle :: "'a op \<Rightarrow> bool" where
  "idle m \<equiv> (\<forall>rs ids. steps (preserves (blocked rs ids)) m)"

lemma blocked_basic:
  "lawful killed f \<Longrightarrow> steps (preserves (blocked rs ids)) (on_cur f)"
  "steps (preserves (blocked rs ids)) commit" "steps (preserves (blocked rs ids)) draw"
  "steps (preserves (blocked rs ids)) (get_order_status e c s l)"
  "steps (preserves (blocked rs ids)) (the_trade i)"
  by (auto simp: steps_def preserves_def blocked_def lawful_def on_cur_def commit_def draw_def
      get_order_status_def the_trade_def)

lemmas blocked_rules = kp.rules blocked_basic ks.lawful_rules ks.lawful_fields keeps_status_simps
  ks.map_remote_open

lemma blocked_replay: "steps (preserves (blocked rs ids)) (replay_submission e s)"
  unfolding replay_submission_def build_result_def reconcile_pending_unknown_def
  by (intro blocked_rules)

lemma blocked_execute:
  assumes "blocked rs ids w"
  shows "\<exists>w'. execute e sid s dir en st ta c w = (Inl KillSwitchActiveError, w') \<and> blocked rs ids w'"
  using assms ks.clear_pause[of "cur w" "now e"]
  by (simp add: execute_def andthen_def[of "kill_switch_guard e"] bnd_def guard_run blocked_def)

lemma blocked_execute_steps: "steps (preserves (blocked rs ids)) (execute e sid s dir en st ta c)"
proof (rule stepsI)
  fix w
  show "preserves (blocked rs ids) w (snd (execute e sid s dir en st ta c w))"
    using blocked_execute[of rs ids w e sid s dir en st ta c] by (auto simp: preserves_def)
qed

lemma blocked_execute_new: "steps (preserves (blocked rs ids)) (execute_new e p fp s)"
  unfolding execute_new_def execute_for_submission_def build_result_def
  by (intro blocked_rules blocked_execute_steps)

lemma blocked_new_fails:
  assumes b: "blocked rs ids w"
  shows "fst (execute_new e p fp s w) \<noteq> Inr r"
proof
  assume "fst (execute_new e p fp s w) = Inr r"
  then obtain w' where "execute_new e p fp s w = (Inr r, w')" by (cases "execute_new e p fp s w") auto
  then obtain k w1 where k: "(case s of Some s \<Rightarrow> ret (sub_id s)
      | None \<Rightarrow> bnd draw (\<lambda>n. andthen (on_cur (create_signal_submission n fp)) (ret n))) w = (Inr k, w1)"
    and rest: "execute_for_submission e p k w1 = (Inr r, w')"
    unfolding execute_new_def by (rule bnd_InrE)
  have "steps (preserves (blocked rs ids)) (case s of Some s \<Rightarrow> ret (sub_id s)
      | None \<Rightarrow> bnd draw (\<lambda>n. andthen (on_cur (create_signal_submission n fp)) (ret n)))"
    by (cases s; simp only: option.case; intro blocked_rules)
  from stepsD[OF this k] b have b1: "blocked rs ids w1" by (simp add: preserves_def)
  define n where "n = create_signal \<lparr>sig_id = draws w1, sig_symbol = rs_symbol p,
      sig_direction = rs_direction p, sig_reason = rs_reason p,
      sig_strategy_version = rs_strategy_version p,
      sig_indicators_snapshot = rs_indicators_snapshot p\<rparr>"
  define u where "u = upd_submission k (\<lambda>s. s\<lparr>sub_signal_id := Some (draws w1), sub_trade_id := None\<rparr>)"
  define w2 where "w2 = w1\<lparr>draws := Suc (draws w1), cur := u (n (cur w1))\<rparr>"
  have "lawful killed u" "lawful killed n" unfolding u_def n_def by (rule ks.lawful_rules)+
  with b1 have b2: "blocked rs ids w2" by (simp add: blocked_def lawful_def w2_def)
  obtain w3 where x: "execute e (draws w1) (rs_symbol p) (rs_direction p) (rs_entry p) (rs_stop p)
      (rs_target p) ''spot'' w2 = (Inl KillSwitchActiveError, w3)"
    using blocked_execute[OF b2] by blast
  have "fst (execute_for_submission e p k w1) = Inl KillSwitchActiveError"
    by (simp add: execute_for_submission_def bnd_draw n_def[symmetric] u_def[symmetric]
        w2_def[symmetric] bnd_def[of "execute e (draws w1) (rs_symbol p) (rs_direction p) (rs_entry p)
          (rs_stop p) (rs_target p) ''spot''"] x)
  with rest show False by simp
qed

lemma blocked_signal:
  assumes b: "blocked rs ids (w\<lparr>cur := saved w\<rparr>)" and run: "execute_signal e dg p w = (res, w')"
  shows "blocked rs ids w' \<and> (case res of Inl _ \<Rightarrow> True | Inr r \<Rightarrow> er_replayed r)"
proof -
  define q where "q = normalize_execute_signal_request p"
  define fp where "fp = fingerprint_signal_request dg q"
  define w0 where "w0 = w\<lparr>cur := saved w\<rparr>"
  define s where "s = get_signal_submission fp (saved w)"
  define m where "m = (case s of None \<Rightarrow> ret None | Some s \<Rightarrow> replay_submission e s)"
  define f where "f = (\<lambda>o'. case o' of Some r \<Rightarrow> ret r | None \<Rightarrow> execute_new e q fp s)"
  obtain w1 where w1: "bnd m f w0 = (res, w1)" and w': "w' = w1\<lparr>cur := saved w1\<rparr>"
    using run by (auto simp: execute_signal_def Let_def in_session_def fp_def[symmetric]
        q_def[symmetric] s_def m_def f_def w0_def split: prod.splits)
  have mb: "steps (preserves (blocked rs ids)) m"
    unfolding m_def by (intro blocked_rules blocked_replay)
  have fb: "steps (preserves (blocked rs ids)) (f x)" for x
    unfolding f_def by (intro blocked_rules blocked_execute_new)
  have "steps (preserves (blocked rs ids)) (bnd m f)" by (rule kp.bnd[OF mb fb])
  from stepsD[OF this w1] b have "blocked rs ids w1" by (simp add: preserves_def w0_def)
  then have "blocked rs ids w'" by (simp add: w' blocked_def)
  moreover have "er_replayed r" if "res = Inr r" for r
  proof -
    obtain x w2 where x: "m w0 = (Inr x, w2)" and r: "f x w2 = (Inr r, w1)"
      using w1 \<open>res = Inr r\<close> by (auto elim: bnd_InrE)
    from stepsD[OF mb x] b have b2: "blocked rs ids w2" by (simp add: preserves_def w0_def)
    show ?thesis
    proof (cases x)
      case None
      with r have "fst (execute_new e q fp s w2) = Inr r" by (simp add: f_def)
      with blocked_new_fails[OF b2] show ?thesis by blast
    next
      case (Some r')
      with r x show ?thesis by (cases s) (auto simp: m_def f_def dest: replayed_result)
    qed
  qed
  ultimately show ?thesis by (auto split: sum.splits)
qed

lemma killed_history: "service\<^sup>*\<^sup>* w w' \<Longrightarrow> winv killed w \<Longrightarrow> winv killed w'"
  by (induction rule: rtranclp_induct) (auto intro: ks.keep_service)

lemma reachable_ids: "reachable w \<Longrightarrow> ids_below (draws w) (saved w)"
  using audit.keep_reachable by (simp add: winv_def empty_invariants)

text \<open>
  C3: once the kill switch is committed it stays on through every later call of the application
  but a reset, and from then on a signal never opens a trade: the execution sends nothing to the
  exchange and adds no trade to the journal, and it can only fail or return an earlier trade.
\<close>

theorem killed_until_reset:
  assumes "reachable w" "killed (saved w)" "service\<^sup>*\<^sup>* w w'"
  shows "killed (saved w')
    \<and> sent (snd (execute_signal e dg p w')) = sent w'
    \<and> trade_ids (saved (snd (execute_signal e dg p w'))) = trade_ids (saved w')
    \<and> (case fst (execute_signal e dg p w') of Inl _ \<Rightarrow> True | Inr r \<Rightarrow> er_replayed r)"
proof -
  have "winv killed w"
    using assms(1,2) reachable_clean[OF assms(1)] reachable_ids[OF assms(1)] by (simp add: winv_def)
  from killed_history[OF assms(3) this] have k: "killed (saved w')" by (simp add: winv_def)
  obtain res w2 where run: "execute_signal e dg p w' = (res, w2)" by (cases "execute_signal e dg p w'")
  have "blocked (sent w') (trade_ids (saved w')) (w'\<lparr>cur := saved w'\<rparr>)"
    using k by (simp add: blocked_def)
  from blocked_signal[OF this run] k run show ?thesis by (simp add: blocked_def)
qed

theorem killed_until_reset_witness:
  "sent (snd (execute_signal calm_env cp_symbol sample_request
     (snd (get_safety_status calm_env (snd (post_kill calm_env fresh_world)))))) = []"
proof -
  let ?w = "snd (post_kill calm_env fresh_world)"
  let ?v = "snd (get_safety_status calm_env ?w)"
  have r: "reachable ?w" using reachable.start service.kill by (rule reachable.call)
  have k: "killed (saved ?w)" "sent ?v = []" by code_simp+
  have "service\<^sup>*\<^sup>* ?w ?v" using service.safety_status by (rule r_into_rtranclp)
  from killed_until_reset[OF r k(1) this, of calm_env cp_symbol sample_request] k(2)
  show ?thesis by simp
qed

end
