(* ===== verification/Json.thy ===== *)
theory Json
  imports Results
begin

text \<open>
  Values of parsed JSON, as \<^verbatim>\<open>json.loads\<close> returns them, and the conversions the
  code applies to them.  A text is its characters and what \<^verbatim>\<open>Decimal()\<close>,
  \<^verbatim>\<open>int()\<close>, \<^verbatim>\<open>float()\<close> and
  \<^verbatim>\<open>datetime.fromisoformat()\<close> make of it, \<open>None\<close> when they raise.
\<close>

record json_text =
  jt_chars :: string
  jt_decimal :: "decimal option"
  jt_int :: "int option"
  jt_float :: "pyfloat option"
  jt_time :: "int option"

datatype json = JNull | JBool bool | JInt int | JFloat pyfloat | JText json_text
  | JList "json list" | JObj "(string \<times> json) list"

text \<open>A text that is no number and no time.\<close>

definition plain_text :: "string \<Rightarrow> json_text" where
  "plain_text s = \<lparr>jt_chars = s, jt_decimal = None, jt_int = None, jt_float = None, jt_time = None\<rparr>"

text \<open>\<^verbatim>\<open>str()\<close>; \<open>rep\<close> is the text of what is no text.\<close>

fun json_str :: "(json \<Rightarrow> string) \<Rightarrow> json \<Rightarrow> string" where
  "json_str rep (JText t) = jt_chars t"
| "json_str rep v = rep v"

fun json_int :: "json \<Rightarrow> exc + int" where
  "json_int (JInt i) = Inr i"
| "json_int (JBool b) = Inr (if b then 1 else 0)"
| "json_int (JFloat x) = Inr (trunc0 x)"
| "json_int (JText t) = or_raise (jt_int t) ValueError"
| "json_int _ = Inl TypeError"

fun json_float :: "json \<Rightarrow> exc + pyfloat" where
  "json_float (JInt i) = Inr (of_pyint i)"
| "json_float (JBool b) = Inr (if b then 1 else 0)"
| "json_float (JFloat x) = Inr x"
| "json_float (JText t) = or_raise (jt_float t) ValueError"
| "json_float _ = Inl TypeError"

text \<open>\<^verbatim>\<open>Decimal(str(value))\<close>\<close>

fun json_decimal :: "json \<Rightarrow> exc + decimal" where
  "json_decimal (JInt i) = Inr (of_int i)"
| "json_decimal (JFloat x) = Inr (dec_of_float x)"
| "json_decimal (JText t) = or_raise (jt_decimal t) InvalidOperation"
| "json_decimal _ = Inl InvalidOperation"

fun json_bool :: "json \<Rightarrow> bool" where
  "json_bool JNull = False"
| "json_bool (JBool b) = b"
| "json_bool (JInt i) = (i \<noteq> 0)"
| "json_bool (JFloat x) = (x \<noteq> 0)"
| "json_bool (JText t) = (jt_chars t \<noteq> [])"
| "json_bool (JList xs) = (xs \<noteq> [])"
| "json_bool (JObj m) = (m \<noteq> [])"

text \<open>\<^verbatim>\<open>datetime.fromisoformat(str(value))\<close>\<close>

fun json_time :: "json \<Rightarrow> exc + int" where
  "json_time (JText t) = or_raise (jt_time t) ValueError"
| "json_time _ = Inl ValueError"

text \<open>\<^verbatim>\<open>item["key"]\<close>\<close>

definition json_at :: "(string \<times> json) list \<Rightarrow> string \<Rightarrow> exc + json" where
  "json_at m k = or_raise (map_of m k) KeyError"

text \<open>\<^verbatim>\<open>item.get("key", default)\<close>\<close>

definition json_get :: "(string \<times> json) list \<Rightarrow> string \<Rightarrow> json \<Rightarrow> json" where
  "json_get m k v = (case map_of m k of Some x \<Rightarrow> x | None \<Rightarrow> v)"

fun json_objects :: "json list \<Rightarrow> (string \<times> json) list list" where
  "json_objects [] = []"
| "json_objects (JObj m # xs) = m # json_objects xs"
| "json_objects (_ # xs) = json_objects xs"

end
