(* ===== verification/BybitClient.thy ===== *)
theory BybitClient
  imports Json
begin

text \<open>
  \<^verbatim>\<open>backend/bybit_client/rest.py\<close>: the facade over the exchange's HTTP session.
  The session is a parameter: a method name and its keyword arguments, over a state of its own,
  answered with a parsed response or with an exception, of which the client tells apart only
  whether the exchange called the request invalid.
\<close>

subsection \<open>The session\<close>

datatype session_error = InvalidRequestError string | OtherSessionError

type_synonym kwargs = "(string \<times> json) list"

type_synonym 'w session = "string \<Rightarrow> kwargs \<Rightarrow> 'w \<Rightarrow> (session_error + json) \<times> 'w"

text \<open>A call with one exception for every failure of the session.\<close>

definition call_session :: "'w session \<Rightarrow> string \<Rightarrow> kwargs \<Rightarrow> ('w, json) prog" where
  "call_session ses m ks w = (case ses m ks w of
     (Inl _, w') \<Rightarrow> (Inl BybitConnectionError, w') | (Inr v, w') \<Rightarrow> (Inr v, w'))"

definition text_arg :: "string \<Rightarrow> json" where
  "text_arg s = JText (plain_text s)"

text \<open>\<^verbatim>\<open>x.get(key, default)\<close> of a value that may be no dictionary.\<close>

definition dot_get :: "json \<Rightarrow> string \<Rightarrow> json \<Rightarrow> exc + json" where
  "dot_get v k d = (case v of JObj m \<Rightarrow> Inr (json_get m k d) | _ \<Rightarrow> Inl AttributeError)"

text \<open>A return code is zero as Python compares it.\<close>

fun equals_zero :: "json \<Rightarrow> bool" where
  "equals_zero (JInt i) = (i = 0)"
| "equals_zero (JFloat x) = (x = 0)"
| "equals_zero (JBool b) = (\<not> b)"
| "equals_zero _ = False"

definition unwrap :: "(json \<Rightarrow> string) \<Rightarrow> json \<Rightarrow> exc + json" where
  "unwrap rep response =
     ebind (dot_get response ''retCode'' (JInt (- 1))) (\<lambda>code.
     if \<not> equals_zero code then
       ebind (dot_get response ''retMsg'' (text_arg ''Unknown error'')) (\<lambda>msg.
       Inl (BybitAPIError (json_str rep msg)))
     else dot_get response ''result'' (JObj []))"

text \<open>
  The items of a result; what is neither a list nor empty is not one the client can go through.
\<close>

definition items_of :: "json \<Rightarrow> exc + json list" where
  "items_of result =
     ebind (dot_get result ''list'' (JList [])) (\<lambda>v.
     case v of JList xs \<Rightarrow> Inr xs | _ \<Rightarrow> if json_bool v then Inl TypeError else Inr [])"

text \<open>The methods that turn every exception but the exchange's own into a lost connection.\<close>

definition wrap_errors :: "exc + 'a \<Rightarrow> exc + 'a" where
  "wrap_errors r = (case r of
     Inl (BybitAPIError m) \<Rightarrow> Inl (BybitAPIError m) | Inl _ \<Rightarrow> Inl BybitConnectionError | Inr a \<Rightarrow> Inr a)"

subsection \<open>Account and market\<close>

definition client_get_wallet_balance :: "(json \<Rightarrow> string) \<Rightarrow> 'w session \<Rightarrow> string \<Rightarrow> ('w, json) prog" where
  "client_get_wallet_balance rep ses account_type =
     bnd (call_session ses ''get_wallet_balance'' [(''accountType'', text_arg account_type)]) (\<lambda>v.
     from_sum (unwrap rep v))"

definition first_item :: "json list \<Rightarrow> exc + json" where
  "first_item xs = (case xs of [] \<Rightarrow> Inl (BybitAPIError ''not found'') | x # _ \<Rightarrow> Inr x)"

definition client_get_instruments_info :: "(json \<Rightarrow> string) \<Rightarrow> 'w session \<Rightarrow> string \<Rightarrow> string \<Rightarrow> ('w, json) prog" where
  "client_get_instruments_info rep ses symbol category =
     bnd (call_session ses ''get_instruments_info''
            [(''category'', text_arg category), (''symbol'', text_arg symbol)]) (\<lambda>v.
     from_sum (ebind (unwrap rep v) (\<lambda>r. ebind (items_of r) first_item)))"

record kline =
  kl_start_time :: int
  kl_open_price :: pyfloat
  kl_high_price :: pyfloat
  kl_low_price :: pyfloat
  kl_close_price :: pyfloat
  kl_volume :: pyfloat
  kl_turnover :: pyfloat

text \<open>A time of milliseconds; times are microseconds since the epoch.\<close>

definition parse_kline_item :: "json \<Rightarrow> exc + kline" where
  "parse_kline_item item = (case item of
     JList (a # b # c # d # e # f # g # _) \<Rightarrow>
       ebind (json_int a) (\<lambda>ms. ebind (json_float b) (\<lambda>op. ebind (json_float c) (\<lambda>high.
       ebind (json_float d) (\<lambda>low. ebind (json_float e) (\<lambda>close. ebind (json_float f) (\<lambda>volume.
       ebind (json_float g) (\<lambda>turnover.
       Inr \<lparr>kl_start_time = ms * 1000, kl_open_price = op, kl_high_price = high, kl_low_price = low,
            kl_close_price = close, kl_volume = volume, kl_turnover = turnover\<rparr>)))))))
   | _ \<Rightarrow> Inl (BybitAPIError ''Unexpected kline payload''))"

definition client_get_klines ::
  "(json \<Rightarrow> string) \<Rightarrow> 'w session \<Rightarrow> string \<Rightarrow> string \<Rightarrow> int \<Rightarrow> string \<Rightarrow> int option \<Rightarrow> ('w, kline list) prog"
where
  "client_get_klines rep ses symbol interval limit category end' =
     bnd (call_session ses ''get_kline''
            [(''category'', text_arg category), (''symbol'', text_arg symbol),
             (''interval'', text_arg interval), (''limit'', JInt limit),
             (''end'', case end' of None \<Rightarrow> JNull | Some t \<Rightarrow> JInt t)]) (\<lambda>v.
     from_sum (ebind (unwrap rep v) (\<lambda>r. ebind (items_of r) (emap parse_kline_item))))"

definition client_get_ticker_price :: "(json \<Rightarrow> string) \<Rightarrow> 'w session \<Rightarrow> string \<Rightarrow> string \<Rightarrow> ('w, pyfloat) prog" where
  "client_get_ticker_price rep ses symbol category =
     bnd (call_session ses ''get_tickers''
            [(''category'', text_arg category), (''symbol'', text_arg symbol)]) (\<lambda>v.
     from_sum (ebind (unwrap rep v) (\<lambda>r. ebind (items_of r) (\<lambda>xs. ebind (first_item xs) (\<lambda>x.
       ebind (dot_get x ''lastPrice'' JNull) (\<lambda>p.
       if p = JNull then Inl (BybitAPIError ''missing lastPrice'') else json_float p))))))"

subsection \<open>Orders\<close>

record order_params =
  po_category :: string
  po_symbol :: string
  po_side :: string
  po_order_type :: string
  po_qty :: string
  po_price :: "string option"
  po_order_link_id :: "string option"
  po_is_post_only :: bool
  po_sl_price :: "string option"
  po_tp_price :: "string option"
  po_market_unit :: "string option"
  po_trigger_price :: "string option"
  po_order_filter :: "string option"
  po_reduce_only :: "bool option"

definition optional :: "string \<Rightarrow> string option \<Rightarrow> kwargs" where
  "optional k v = (case v of None \<Rightarrow> [] | Some s \<Rightarrow> [(k, text_arg s)])"

definition order_keywords :: "order_params \<Rightarrow> kwargs" where
  "order_keywords p =
     [(''category'', text_arg (po_category p)), (''symbol'', text_arg (po_symbol p)),
      (''side'', text_arg (po_side p)), (''orderType'', text_arg (po_order_type p)),
      (''qty'', text_arg (po_qty p))]
     @ optional ''price'' (po_price p)
     @ optional ''orderLinkId'' (po_order_link_id p)
     @ (if po_is_post_only p then [(''timeInForce'', text_arg ''PostOnly'')] else [])
     @ (case po_sl_price p of None \<Rightarrow> []
        | Some s \<Rightarrow> (''stopLoss'', text_arg s)
            # (if po_category p \<noteq> ''spot'' then [(''slOrderType'', text_arg ''Market'')] else []))
     @ optional ''takeProfit'' (po_tp_price p)
     @ optional ''marketUnit'' (po_market_unit p)
     @ optional ''triggerPrice'' (po_trigger_price p)
     @ optional ''orderFilter'' (po_order_filter p)
     @ (case po_reduce_only p of None \<Rightarrow> [] | Some b \<Rightarrow> [(''reduceOnly'', JBool b)])"

definition client_place_order :: "(json \<Rightarrow> string) \<Rightarrow> 'w session \<Rightarrow> order_params \<Rightarrow> ('w, json) prog" where
  "client_place_order rep ses p w = (case ses ''place_order'' (order_keywords p) w of
     (Inl (InvalidRequestError msg), w') \<Rightarrow> (Inl (BybitAPIError msg), w')
   | (Inl OtherSessionError, w') \<Rightarrow> (Inl BybitConnectionError, w')
   | (Inr v, w') \<Rightarrow> (unwrap rep v, w'))"

definition id_keywords :: "string \<Rightarrow> string \<Rightarrow> string option \<Rightarrow> string option \<Rightarrow> kwargs" where
  "id_keywords category symbol order_id link =
     [(''category'', text_arg category), (''symbol'', text_arg symbol)]
     @ optional ''orderId'' order_id @ optional ''orderLinkId'' link"

definition client_cancel_order ::
  "(json \<Rightarrow> string) \<Rightarrow> 'w session \<Rightarrow> string \<Rightarrow> string \<Rightarrow> string option \<Rightarrow> string option \<Rightarrow> ('w, json) prog"
where
  "client_cancel_order rep ses category symbol order_id link =
     (if order_id = None \<and> link = None then throw InvalidOrderParamsError
      else bnd (call_session ses ''cancel_order'' (id_keywords category symbol order_id link)) (\<lambda>v.
        from_sum (unwrap rep v)))"

definition client_get_order_status ::
  "(json \<Rightarrow> string) \<Rightarrow> 'w session \<Rightarrow> string \<Rightarrow> string \<Rightarrow> string option \<Rightarrow> string option \<Rightarrow> ('w, json option) prog"
where
  "client_get_order_status rep ses category symbol order_id link =
     (if order_id = None \<and> link = None then throw InvalidOrderParamsError
      else
        let ks = id_keywords category symbol order_id link in
        bnd (call_session ses ''get_open_orders'' ks) (\<lambda>v.
        bnd (from_sum (wrap_errors (ebind (unwrap rep v) items_of))) (\<lambda>xs.
        if xs \<noteq> [] then ret (Some (hd xs))
        else
          bnd (call_session ses ''get_order_history'' ks) (\<lambda>u.
          bnd (from_sum (wrap_errors (ebind (unwrap rep u) items_of))) (\<lambda>ys.
          ret (if ys = [] then None else Some (hd ys)))))))"

definition client_get_open_orders :: "(json \<Rightarrow> string) \<Rightarrow> 'w session \<Rightarrow> string \<Rightarrow> string \<Rightarrow> ('w, json list) prog" where
  "client_get_open_orders rep ses category symbol =
     bnd (call_session ses ''get_open_orders''
            [(''category'', text_arg category), (''symbol'', text_arg symbol)]) (\<lambda>v.
     bnd (from_sum (wrap_errors (unwrap rep v))) (\<lambda>r. from_sum (items_of r)))"

definition client_get_executions ::
  "(json \<Rightarrow> string) \<Rightarrow> 'w session \<Rightarrow> string \<Rightarrow> string \<Rightarrow> int \<Rightarrow> ('w, json list) prog"
where
  "client_get_executions rep ses category symbol limit =
     bnd (call_session ses ''get_executions''
            [(''category'', text_arg category), (''symbol'', text_arg symbol), (''limit'', JInt limit)]) (\<lambda>v.
     bnd (from_sum (wrap_errors (unwrap rep v))) (\<lambda>r. from_sum (items_of r)))"

subsection \<open>When an order is not known\<close>

definition answers_none :: "json \<Rightarrow> bool" where
  "answers_none v \<longleftrightarrow> (\<exists>m r. v = JObj m \<and> equals_zero (json_get m ''retCode'' (JInt (- 1))) \<and>
     json_get m ''result'' (JObj []) = JObj r \<and> items_of (JObj r) = Inr [])"

lemma answers_none_iff: "ebind (unwrap rep v) items_of = Inr [] \<longleftrightarrow> answers_none v"
  by (cases v) (auto simp: unwrap_def dot_get_def answers_none_def items_of_def
      split: json.splits if_splits)

lemma wrapped_Inr: "wrap_errors r = Inr a \<longleftrightarrow> r = Inr a"
  by (auto simp: wrap_errors_def split: sum.split exc.split)

lemma bnd_Inr_iff:
  "bnd m f w = (Inr b, w') \<longleftrightarrow> (\<exists>a w1. m w = (Inr a, w1) \<and> f a w1 = (Inr b, w'))"
  by (auto simp: bnd_def split: prod.splits sum.splits)

lemma call_session_Inr: "call_session ses m ks w = (Inr v, w') \<longleftrightarrow> ses m ks w = (Inr v, w')"
  by (auto simp: call_session_def split: prod.splits sum.splits)


definition empty_session :: "unit session" where
  "empty_session m ks w = (Inr (JObj [(''retCode'', JInt 0), (''result'', JObj [(''list'', JList [])])]), w)"


end
