(* ===== verification/MarketData.thy ===== *)
theory MarketData
  imports BybitClient Market
begin

text \<open>
  \<^verbatim>\<open>backend/market_data/bybit_spot.py\<close> and
  \<^verbatim>\<open>backend/backtest/datasets.py\<close>: snapshots and datasets put together from pages
  of klines, and datasets as JSON.  A source of klines is a program over a state of its own that
  takes the number of klines and the time, in milliseconds, of the last one.
\<close>

subsection \<open>Pages\<close>

type_synonym 'w kline_source = "nat \<Rightarrow> int option \<Rightarrow> ('w, kline list) prog"

definition max_batch :: nat where
  "max_batch = 1000"

text \<open>\<^verbatim>\<open>int(start_time.timestamp() * 1000) - 1\<close>\<close>

definition cursor_before :: "int \<Rightarrow> int" where
  "cursor_before t = trunc0 (fmul (fl (of_int t / 1000000)) 1000) - 1"

text \<open>
  The loop over the pages, oldest first within a page.  \<open>short\<close> decides, from the klines before a
  page and the page's length, whether it was the last one.
\<close>

function fetch_pages ::
  "(nat \<Rightarrow> nat \<Rightarrow> bool) \<Rightarrow> 'w kline_source \<Rightarrow> nat \<Rightarrow> kline list \<Rightarrow> int option \<Rightarrow> ('w, kline list) prog"
where
  "fetch_pages short get wanted ks till w =
     (if wanted \<le> length ks then (Inr ks, w)
      else (case get (min max_batch (wanted - length ks)) till w of
              (Inl x, w') \<Rightarrow> (Inl x, w')
            | (Inr batch, w') \<Rightarrow>
                if batch = [] then (Inr ks, w')
                else
                  let ordered = sort_key kl_start_time batch; ks' = ks @ ordered in
                  if short (length ks) (length batch) then (Inr ks', w')
                  else fetch_pages short get wanted ks' (Some (cursor_before (kl_start_time (hd ordered)))) w'))"
  by pat_completeness auto

text \<open>Every page that goes on brings a kline, so the number still missing falls.\<close>

termination
  by (relation "measure (\<lambda>(short, get, wanted, ks, till, w). wanted - length ks)") (auto simp: neq_Nil_conv)

declare fetch_pages.simps [simp del]

lemma fetch_pages_enough: "wanted \<le> length ks \<Longrightarrow> fetch_pages short get wanted ks till w = (Inr ks, w)"
  by (simp add: fetch_pages.simps)

lemma fetch_pages_next:
  assumes "length ks < wanted" "get (min max_batch (wanted - length ks)) till w = (Inr b, w')"
    "b \<noteq> []" "\<not> short (length ks) (length b)"
  shows "fetch_pages short get wanted ks till w = fetch_pages short get wanted
    (ks @ sort_key kl_start_time b) (Some (cursor_before (kl_start_time (hd (sort_key kl_start_time b))))) w'"
  using assms by (subst fetch_pages.simps) (simp add: Let_def)

text \<open>\<^verbatim>\<open>{k.start_time: k for k in klines}\<close>, whose values are then sorted by time.\<close>

definition dedupe :: "kline list \<Rightarrow> (int \<times> kline) list" where
  "dedupe ks = foldl (\<lambda>m k. AList.update (kl_start_time k) k m) [] ks"

definition by_time :: "(int \<times> kline) list \<Rightarrow> kline list" where
  "by_time m = sort_key kl_start_time (map snd m)"

definition candle_of_kline :: "kline \<Rightarrow> market_candle" where
  "candle_of_kline k = new_market_candle (kl_start_time k) (kl_high_price k) (kl_low_price k)
     (kl_close_price k) (Some (kl_open_price k)) (kl_volume k)"

subsection \<open>Snapshots\<close>

definition spot_short :: "nat \<Rightarrow> nat \<Rightarrow> nat \<Rightarrow> bool" where
  "spot_short limit n b \<longleftrightarrow> b < min max_batch (limit - n)"

definition get_snapshot ::
  "(string \<Rightarrow> string \<Rightarrow> 'w kline_source) \<Rightarrow> string \<Rightarrow> string \<Rightarrow> int \<Rightarrow> ('w, market_snapshot) prog"
where
  "get_snapshot source symbol interval limit =
     (if limit \<le> 0 then throw ValueError
      else
        bnd (fetch_pages (spot_short (nat limit)) (source symbol interval) (nat limit) [] None) (\<lambda>ks.
        let m = dedupe ks in
        if int (length m) < limit then throw ValueError
        else ret \<lparr>ms_symbol = symbol, ms_interval = interval,
               ms_candles = map candle_of_kline (last_n (nat limit) (by_time m))\<rparr>))"

subsection \<open>Datasets\<close>

text \<open>The page test here counts the klines of the page as fetched.\<close>

definition dataset_short :: "nat \<Rightarrow> nat \<Rightarrow> nat \<Rightarrow> bool" where
  "dataset_short wanted n b \<longleftrightarrow> b < min max_batch (wanted - (n + b))"

definition dedupe_candles :: "market_candle list \<Rightarrow> (int \<times> market_candle) list" where
  "dedupe_candles cs = foldl (\<lambda>m c. AList.update (mc_opened_at c) c m) [] cs"

definition fetch_candles :: "'w kline_source \<Rightarrow> nat \<Rightarrow> ('w, market_candle list) prog" where
  "fetch_candles source wanted =
     bnd (fetch_pages (dataset_short wanted) source wanted [] None) (\<lambda>ks.
     ret (let cs = sort_key mc_opened_at (map snd (dedupe_candles (map candle_of_kline ks)))
          in if wanted = 0 then cs else last_n wanted cs))"

text \<open>
  \<^verbatim>\<open>ceil(candles_per_day * lookback_days)\<close>, a float product of a float quotient.
\<close>

definition candles_for_lookback :: "string \<Rightarrow> int \<Rightarrow> exc + int" where
  "candles_for_lookback interval days =
     ebind (interval_to_minutes interval) (\<lambda>m.
     ebind (fdivide 1440 (of_pyint m)) (\<lambda>per_day. Inr \<lceil>fmul per_day (of_pyint days)\<rceil>))"

subsection \<open>Datasets as JSON\<close>

record candle_dataset =
  cd_symbol :: string
  cd_interval :: string
  cd_lookback_days :: int
  cd_generated_at :: string
  cd_candles :: "market_candle list"

text \<open>\<^verbatim>\<open>t.isoformat()\<close>, which \<^verbatim>\<open>fromisoformat\<close> reads back.\<close>

definition time_text :: "(timestamp \<Rightarrow> string) \<Rightarrow> timestamp \<Rightarrow> json" where
  "time_text isof t = JText ((plain_text (isof t))\<lparr>jt_time := Some t\<rparr>)"

definition candle_json :: "(timestamp \<Rightarrow> string) \<Rightarrow> market_candle \<Rightarrow> json" where
  "candle_json isof c = JObj
     [(''opened_at'', time_text isof (mc_opened_at c)), (''open'', JFloat (mc_open c)),
      (''high'', JFloat (mc_high c)), (''low'', JFloat (mc_low c)),
      (''close'', JFloat (mc_close c)), (''volume'', JFloat (mc_volume c))]"

definition save_dataset ::
  "(timestamp \<Rightarrow> string) \<Rightarrow> string \<Rightarrow> string \<Rightarrow> int \<Rightarrow> market_candle list \<Rightarrow> timestamp \<Rightarrow> json"
where
  "save_dataset isof symbol interval days cs generated = JObj
     [(''symbol'', text_arg symbol), (''interval'', text_arg interval), (''lookback_days'', JInt days),
      (''generated_at'', time_text isof generated), (''candles'', JList (map (candle_json isof) cs))]"

definition candle_of_json :: "(string \<times> json) list \<Rightarrow> exc + market_candle" where
  "candle_of_json m =
     ebind (ebind (json_at m ''opened_at'') json_time) (\<lambda>t.
     ebind (ebind (json_at m (if map_of m ''open'' \<noteq> None then ''open'' else ''close'')) json_float) (\<lambda>op.
     ebind (ebind (json_at m ''high'') json_float) (\<lambda>high.
     ebind (ebind (json_at m ''low'') json_float) (\<lambda>low.
     ebind (ebind (json_at m ''close'') json_float) (\<lambda>close.
     ebind (json_float (json_get m ''volume'' (JFloat 0))) (\<lambda>volume.
     Inr (new_market_candle t high low close (Some op) volume)))))))"

definition load_dataset :: "(json \<Rightarrow> string) \<Rightarrow> json \<Rightarrow> exc + candle_dataset" where
  "load_dataset rep payload = (case payload of
     JObj m \<Rightarrow>
       (case json_get m ''candles'' JNull of
          JList raw \<Rightarrow>
            if raw = [] then Inl ValueError
            else ebind (emap candle_of_json (json_objects raw)) (\<lambda>cs.
              if cs = [] then Inl ValueError
              else ebind (json_at m ''symbol'') (\<lambda>symbol.
                ebind (json_at m ''interval'') (\<lambda>interval.
                ebind (ebind (json_at m ''lookback_days'') json_int) (\<lambda>days.
                Inr \<lparr>cd_symbol = py_upper (py_strip (json_str rep symbol)),
                     cd_interval = py_strip (json_str rep interval), cd_lookback_days = days,
                     cd_generated_at = json_str rep (json_get m ''generated_at'' (text_arg '''')),
                     cd_candles = cs\<rparr>))))
        | _ \<Rightarrow> Inl ValueError)
   | _ \<Rightarrow> Inl TypeError)"

subsection \<open>Retries\<close>

text \<open>The retries: \<open>attempts\<close> is what remains, and a pause is a step of the state.\<close>

fun fetch_with_retry ::
  "(int \<Rightarrow> ('w, unit) prog) \<Rightarrow> ('w, 'a) prog \<Rightarrow> int \<Rightarrow> nat \<Rightarrow> ('w, 'a) prog"
where
  "fetch_with_retry pause fetch attempt 0 = fetch"
| "fetch_with_retry pause fetch attempt (Suc n) =
     (if n = 0 then fetch
      else catch fetch (\<lambda>_. True) (\<lambda>_.
        andthen (pause attempt) (fetch_with_retry pause fetch (attempt + 1) n)))"

definition fetch_candles_with_retry ::
  "(int \<Rightarrow> ('w, unit) prog) \<Rightarrow> 'w kline_source \<Rightarrow> string \<Rightarrow> int \<Rightarrow> nat \<Rightarrow> ('w, market_candle list) prog"
where
  "fetch_candles_with_retry pause source interval days retries =
     bnd (from_sum (candles_for_lookback interval days)) (\<lambda>wanted.
     fetch_with_retry pause (fetch_candles source (nat wanted)) 1 retries)"

subsection \<open>What a snapshot is\<close>

lemma dedupe_keys:
  "distinct (map fst m) \<Longrightarrow> \<forall>(t, k) \<in> set m. t = kl_start_time k \<Longrightarrow>
   distinct (map fst (foldl (\<lambda>m k. AList.update (kl_start_time k) k m) m ks)) \<and>
   (\<forall>(t, k) \<in> set (foldl (\<lambda>m k. AList.update (kl_start_time k) k m) m ks). t = kl_start_time k)"
proof (induction ks arbitrary: m)
  case (Cons k ks)
  have "set (AList.update (kl_start_time k) k m) \<subseteq> insert (kl_start_time k, k) (set m)"
    by (induction m) auto
  with Cons.prems(2) have "\<forall>(t, k') \<in> set (AList.update (kl_start_time k) k m). t = kl_start_time k'"
    by auto
  from Cons.IH[OF distinct_update[OF Cons.prems(1)] this] show ?case by simp
qed simp

lemma by_time_increasing: "sorted_wrt (<) (map kl_start_time (by_time (dedupe ks)))"
proof -
  have keys: "distinct (map fst (dedupe ks))" "\<forall>(t, k) \<in> set (dedupe ks). t = kl_start_time k"
    using dedupe_keys[of "[]" ks] by (auto simp: dedupe_def)
  then have "map fst (dedupe ks) = map kl_start_time (map snd (dedupe ks))" by auto
  with keys(1) have "distinct (map kl_start_time (map snd (dedupe ks)))" by simp
  then have "distinct (map kl_start_time (by_time (dedupe ks)))"
    by (auto simp: by_time_def distinct_map intro: inj_on_imageI dest: inj_on_imageI2)
  then show ?thesis by (simp add: strict_sorted_iff by_time_def)
qed

text \<open>
  C25: A snapshot of the spot provider has exactly the number of candles that was asked for, of the
  market that was asked for, one per opening time and in the order of time; a limit that is not
  positive raises a ValueError, and whatever else goes wrong raises too.
\<close>

theorem snapshot_is_complete:
  assumes "get_snapshot source symbol interval limit w = (Inr s, w')"
  shows "ms_symbol s = symbol \<and> ms_interval s = interval \<and>
    0 < limit \<and> int (length (ms_candles s)) = limit \<and>
    sorted_wrt (<) (map mc_opened_at (ms_candles s))"
proof -
  from assms obtain ks where s: "s = \<lparr>ms_symbol = symbol, ms_interval = interval,
      ms_candles = map candle_of_kline (last_n (nat limit) (by_time (dedupe ks)))\<rparr>"
    and n: "limit \<le> int (length (dedupe ks))" and pos: "0 < limit"
    by (auto simp: get_snapshot_def Let_def split: if_splits elim!: bnd_InrE)
  have times: "map mc_opened_at (ms_candles s) = drop (length (by_time (dedupe ks)) - nat limit)
      (map kl_start_time (by_time (dedupe ks)))"
    using pos by (simp add: s last_n_def candle_of_kline_def new_market_candle_def comp_def drop_map)
  have "int (length (ms_candles s)) = limit" using n pos by (simp add: s last_n_def by_time_def)
  with by_time_increasing[of ks] pos show ?thesis by (simp add: times sorted_wrt_drop) (simp add: s)
qed

definition sample_kline :: "int \<Rightarrow> kline" where
  "sample_kline t = \<lparr>kl_start_time = t, kl_open_price = 1, kl_high_price = 2, kl_low_price = 1,
     kl_close_price = 2, kl_volume = 5, kl_turnover = 10\<rparr>"

definition sample_source :: "string \<Rightarrow> string \<Rightarrow> unit kline_source" where
  "sample_source s i n till w = (Inr [sample_kline 60, sample_kline 0], w)"

lemma sample_pages: "fetch_pages (spot_short 2) (sample_source s i) 2 [] None () =
    (Inr [sample_kline 0, sample_kline 60], ())"
  by (subst fetch_pages_next[where b = "[sample_kline 60, sample_kline 0]"])
    (simp_all add: max_batch_def spot_short_def fetch_pages_enough sample_kline_def sample_source_def)

theorem snapshot_is_complete_witness:
  "\<exists>s. get_snapshot sample_source ''BTCUSDT'' ''1'' 2 () = (Inr s, ())
     \<and> length (ms_candles s) = 2 \<and> map mc_opened_at (ms_candles s) = [0, 60]"
proof -
  let ?s = "\<lparr>ms_symbol = ''BTCUSDT'', ms_interval = ''1'',
    ms_candles = map candle_of_kline [sample_kline 0, sample_kline 60]\<rparr>"
  have m: "dedupe [sample_kline 0, sample_kline 60] = [(0, sample_kline 0), (60, sample_kline 60)]"
    by (simp add: dedupe_def sample_kline_def)
  have b: "by_time [(0, sample_kline 0), (60, sample_kline 60)] = [sample_kline 0, sample_kline 60]"
    by (simp add: by_time_def sample_kline_def)
  have run: "get_snapshot sample_source ''BTCUSDT'' ''1'' 2 () = (Inr ?s, ())"
    by (simp add: get_snapshot_def bnd_def sample_pages m b last_n_def)
  from snapshot_is_complete[OF run] have "length (ms_candles ?s) = 2" by simp
  moreover have "map mc_opened_at (ms_candles ?s) = [0, 60]"
    by (simp add: candle_of_kline_def new_market_candle_def sample_kline_def)
  ultimately show ?thesis using run by (intro exI conjI)
qed

subsection \<open>How often the exchange is asked\<close>

definition counted :: "'w kline_source \<Rightarrow> ('w \<times> nat) kline_source" where
  "counted get n till w = (case get n till (fst w) of (r, w') \<Rightarrow> (r, (w', Suc (snd w))))"

lemma pages_needed: "0 < r \<Longrightarrow> min max_batch r \<le> b \<Longrightarrow> Suc ((r - b + 999) div 1000) \<le> (r + 999) div 1000"
  for r b :: nat
proof -
  assume r: "0 < r" "min max_batch r \<le> b"
  have "Suc ((r - b + 999) div 1000) = (r - b + 999 + 1000) div 1000" by simp
  also have "\<dots> \<le> (r + 999) div 1000" if "1000 < r"
    using r that by (intro div_le_mono) (simp add: max_batch_def)
  finally show ?thesis using r by (cases "1000 < r") (auto simp: max_batch_def)
qed

lemma fetch_pages_requests:
  "snd (snd (fetch_pages (spot_short wanted) (counted get) wanted ks till w))
     \<le> snd w + (wanted - length ks + 999) div 1000"
proof (induction "wanted - length ks" arbitrary: ks till w rule: less_induct)
  case less
  let ?answer = "get (min max_batch (wanted - length ks)) till (fst w)"
  show ?case
  proof (cases "wanted \<le> length ks")
    case True
    then show ?thesis by (simp add: fetch_pages.simps)
  next
    case False
    then have one: "Suc 0 \<le> (wanted - length ks + 999) div 1000" by linarith
    obtain batch w' where answer: "?answer = (batch, w')" by (cases ?answer)
    show ?thesis
    proof (cases batch)
      case Inl
      with False answer one show ?thesis by (simp add: fetch_pages.simps counted_def)
    next
      case (Inr b)
      let ?ks = "ks @ sort_key kl_start_time b"
      let ?more = "fetch_pages (spot_short wanted) (counted get) wanted ?ks
        (Some (cursor_before (kl_start_time (hd (sort_key kl_start_time b))))) (w', Suc (snd w))"
      show ?thesis
      proof (cases "b = [] \<or> spot_short wanted (length ks) (length b)")
        case True
        with False answer one Inr show ?thesis
          by (subst fetch_pages.simps) (auto simp: counted_def Let_def)
      next
        case go: False
        from go False have "wanted - length ?ks < wanted - length ks"
          by (auto simp: neq_Nil_conv)
        from less[OF this, of "Some (cursor_before (kl_start_time (hd (sort_key kl_start_time b))))"
            "(w', Suc (snd w))"]
        have "snd (snd ?more) \<le> Suc (snd w) + (wanted - length ?ks + 999) div 1000" by simp
        also have "\<dots> \<le> snd w + (wanted - length ks + 999) div 1000"
          using pages_needed[of "wanted - length ks" "length b"] go False by (auto simp: spot_short_def)
        finally show ?thesis using go False answer Inr
          by (subst fetch_pages.simps) (simp add: counted_def Let_def)
      qed
    qed
  qed
qed

text \<open>
  C26: Getting a snapshot ends, and asks for at most one page for every thousand candles, rounded
  up, whatever the exchange answers: too few klines, the same ones again, or more than were asked.
\<close>

theorem snapshot_requests_are_bounded:
  "snd (snd (get_snapshot (\<lambda>s i. counted (source s i)) symbol interval limit (w, 0)))
     \<le> nat ((limit + 999) div 1000)"
proof (cases "0 < limit")
  case True
  obtain r w' where pages: "fetch_pages (spot_short (nat limit)) (counted (source symbol interval))
      (nat limit) [] None (w, 0) = (r, w')" by (meson surj_pair)
  with fetch_pages_requests[of "nat limit" "source symbol interval" "[]" None "(w, 0)"]
  have "snd w' \<le> (nat limit + 999) div 1000" by simp
  also have "\<dots> = nat ((limit + 999) div 1000)" using True by (simp add: nat_div_distrib nat_add_distrib)
  finally show ?thesis using True pages
    by (auto simp: get_snapshot_def bnd_def Let_def split: sum.split)
qed (simp add: get_snapshot_def)

subsection \<open>Datasets are read back\<close>

lemma candle_json_read: "candle_of_json [(''opened_at'', time_text isof (mc_opened_at c)),
    (''open'', JFloat (mc_open c)), (''high'', JFloat (mc_high c)), (''low'', JFloat (mc_low c)),
    (''close'', JFloat (mc_close c)), (''volume'', JFloat (mc_volume c))] = Inr c"
  by (simp add: candle_of_json_def json_at_def json_get_def time_text_def plain_text_def
      new_market_candle_def)

lemma candles_json_read:
  "emap candle_of_json (json_objects (map (candle_json isof) cs)) = Inr cs"
  by (induction cs) (simp_all add: candle_json_def candle_json_read)

text \<open>
  A dataset that was saved is loaded with the candles, the days and the time it was saved
  with, its symbol in capitals; an empty one is refused.
\<close>

theorem dataset_roundtrip:
  "load_dataset rep (save_dataset isof symbol interval days cs generated) =
     (if cs = [] then Inl ValueError
      else Inr \<lparr>cd_symbol = py_upper (py_strip symbol), cd_interval = py_strip interval,
        cd_lookback_days = days, cd_generated_at = isof generated, cd_candles = cs\<rparr>)"
  by (simp add: load_dataset_def save_dataset_def json_get_def json_at_def candles_json_read
      text_arg_def time_text_def plain_text_def)

end
