(* ===== verification/CandleFeed.thy ===== *)
theory CandleFeed
  imports MarketData
begin

text \<open>
  \<^verbatim>\<open>backend/market_data/bybit_ws_feed.py\<close>: the windows of confirmed candles kept
  from the exchange's stream and refilled over REST after a gap.  The stream calls back in a thread
  of its own, the refill runs on the event loop and does not take the lock: their steps interleave.
\<close>

subsection \<open>Windows\<close>

record feed_snapshot =
  fs_snapshot :: market_snapshot
  fs_gap_recovered :: bool

record feed_config =
  fc_symbols :: "string list"
  fc_interval :: string
  fc_interval_seconds :: int
  fc_window_size :: nat

text \<open>The feed does not strip the interval, unlike \<^verbatim>\<open>interval_to_seconds\<close>.\<close>

definition feed_interval_to_seconds :: "string \<Rightarrow> exc + int" where
  "feed_interval_to_seconds interval = or_raise (map_of interval_table interval) ValueError"

definition new_feed_config :: "string list \<Rightarrow> string \<Rightarrow> nat \<Rightarrow> exc + feed_config" where
  "new_feed_config symbols interval window_size =
     (if symbols = [] then Inl ValueError
      else ebind (feed_interval_to_seconds interval) (\<lambda>s.
        Inr \<lparr>fc_symbols = symbols, fc_interval = interval, fc_interval_seconds = s,
             fc_window_size = window_size\<rparr>))"

datatype loop_status = NoLoop | LoopRunning | LoopClosed

datatype loop_task = QueueSnapshot feed_snapshot | RecoverGap string

text \<open>
  \<open>cf_ready\<close> are the calls handed to the event loop, in order; \<open>cf_recovering\<close> the recoveries that
  wait for their klines; \<open>cf_refill\<close> the window being refilled and the klines still to come.
\<close>

record candle_feed =
  cf_windows :: "string \<Rightarrow> market_candle list option"
  cf_warmed_up :: "string \<Rightarrow> bool option"
  cf_loop :: loop_status
  cf_ready :: "loop_task list"
  cf_recovering :: "string list"
  cf_refill :: "(string \<times> kline list) option"
  cf_queue :: "feed_snapshot list"
  cf_ws :: bool

definition queue_maxsize :: nat where
  "queue_maxsize = 500"

definition new_feed :: "feed_config \<Rightarrow> candle_feed" where
  "new_feed fc =
     \<lparr>cf_windows = (\<lambda>s. if s \<in> set (fc_symbols fc) then Some [] else None),
      cf_warmed_up = (\<lambda>s. if s \<in> set (fc_symbols fc) then Some False else None),
      cf_loop = NoLoop, cf_ready = [], cf_recovering = [], cf_refill = None, cf_queue = [],
      cf_ws = False\<rparr>"

text \<open>\<^verbatim>\<open>deque.append\<close> with a maximal length.\<close>

definition deque_append :: "nat \<Rightarrow> 'a list \<Rightarrow> 'a \<Rightarrow> 'a list" where
  "deque_append n xs x = drop (length xs + 1 - n) (xs @ [x])"

definition window_of :: "candle_feed \<Rightarrow> string \<Rightarrow> market_candle list" where
  "window_of f symbol = (case cf_windows f symbol of Some w \<Rightarrow> w | None \<Rightarrow> [])"

definition set_window :: "string \<Rightarrow> market_candle list \<Rightarrow> candle_feed \<Rightarrow> candle_feed" where
  "set_window symbol w f = f\<lparr>cf_windows := (cf_windows f)(symbol \<mapsto> w)\<rparr>"

definition set_warmed :: "string \<Rightarrow> bool \<Rightarrow> candle_feed \<Rightarrow> candle_feed" where
  "set_warmed symbol b f = f\<lparr>cf_warmed_up := (cf_warmed_up f)(symbol \<mapsto> b)\<rparr>"

definition window_snapshot :: "feed_config \<Rightarrow> string \<Rightarrow> candle_feed \<Rightarrow> bool \<Rightarrow> feed_snapshot" where
  "window_snapshot fc symbol f recovered =
     \<lparr>fs_snapshot = \<lparr>ms_symbol = symbol, ms_interval = fc_interval fc, ms_candles = window_of f symbol\<rparr>,
      fs_gap_recovered = recovered\<rparr>"

definition enqueue_snapshot :: "feed_snapshot \<Rightarrow> candle_feed \<Rightarrow> candle_feed" where
  "enqueue_snapshot s f =
     (if cf_loop f = LoopRunning then f\<lparr>cf_ready := cf_ready f @ [QueueSnapshot s]\<rparr> else f)"

definition queue_snapshot_nowait :: "feed_snapshot \<Rightarrow> candle_feed \<Rightarrow> candle_feed" where
  "queue_snapshot_nowait s f =
     (if length (cf_queue f) < queue_maxsize then f\<lparr>cf_queue := cf_queue f @ [s]\<rparr> else f)"

subsection \<open>Confirmed candles\<close>

definition candle_gap :: "int \<Rightarrow> market_candle \<Rightarrow> market_candle \<Rightarrow> bool" where
  "candle_gap seconds old new \<longleftrightarrow>
     mc_opened_at old + seconds * 1000000 + trunc0 (fmul (of_pyint seconds) (3 / 2)) * 1000000 < mc_opened_at new"

definition candle_of_item :: "(string \<times> json) list \<Rightarrow> exc + market_candle" where
  "candle_of_item m =
     ebind (ebind (json_at m ''start'') json_int) (\<lambda>ms.
     ebind (ebind (json_at m ''open'') json_float) (\<lambda>op.
     ebind (ebind (json_at m ''high'') json_float) (\<lambda>high.
     ebind (ebind (json_at m ''low'') json_float) (\<lambda>low.
     ebind (ebind (json_at m ''close'') json_float) (\<lambda>close.
     ebind (json_float (json_get m ''volume'' (JFloat 0))) (\<lambda>volume.
     Inr (new_market_candle (ms * 1000) high low close (Some op) volume)))))))"

definition schedule_recovery :: "string \<Rightarrow> (candle_feed, unit) prog" where
  "schedule_recovery symbol f = (case cf_loop f of
     NoLoop \<Rightarrow> (Inr (), f)
   | LoopRunning \<Rightarrow> (Inr (), f\<lparr>cf_ready := cf_ready f @ [RecoverGap symbol]\<rparr>)
   | LoopClosed \<Rightarrow> (Inl RuntimeError, f))"

definition add_candle :: "feed_config \<Rightarrow> string \<Rightarrow> market_candle list \<Rightarrow> market_candle \<Rightarrow> (candle_feed, unit) prog" where
  "add_candle fc symbol window c f =
     (let window' = deque_append (fc_window_size fc) window c;
          f1 = set_window symbol window' f
      in case cf_warmed_up f1 symbol of
        None \<Rightarrow> (Inl KeyError, f1)
      | Some warm \<Rightarrow>
          let warm' = (if warm then warm else fc_window_size fc \<le> length window');
              f2 = set_warmed symbol warm' f1
          in (Inr (), if warm' then enqueue_snapshot (window_snapshot fc symbol f2 False) f2 else f2))"

definition handle_confirmed_candle :: "feed_config \<Rightarrow> string \<Rightarrow> (string \<times> json) list \<Rightarrow> (candle_feed, unit) prog" where
  "handle_confirmed_candle fc symbol item f = (case candle_of_item item of
     Inl e \<Rightarrow> if e \<in> {KeyError, TypeError, ValueError} then (Inr (), f) else (Inl e, f)
   | Inr c \<Rightarrow>
       (case cf_windows f symbol of
          None \<Rightarrow> (Inl KeyError, f)
        | Some window \<Rightarrow>
            if window \<noteq> [] \<and> candle_gap (fc_interval_seconds fc) (last window) c
            then schedule_recovery symbol f
            else add_candle fc symbol window c f))"

text \<open>\<^verbatim>\<open>text.split(separator)\<close> at a single character.\<close>

fun split_on :: "char \<Rightarrow> string \<Rightarrow> string list" where
  "split_on d [] = [[]]"
| "split_on d (c # cs) =
     (if c = d then [] # split_on d cs
      else case split_on d cs of [] \<Rightarrow> [[c]] | w # ws \<Rightarrow> (c # w) # ws)"

definition handle_item :: "feed_config \<Rightarrow> string \<Rightarrow> json \<Rightarrow> (candle_feed, unit) prog" where
  "handle_item fc symbol item = (case item of
     JObj m \<Rightarrow> if json_bool (json_get m ''confirm'' (JBool False))
              then handle_confirmed_candle fc symbol m else ret ()
   | _ \<Rightarrow> throw AttributeError)"

text \<open>The items of \<^verbatim>\<open>for item in data\<close>: texts and dictionaries are gone through by
  characters and keys, which have no \<^verbatim>\<open>get\<close>.\<close>

definition on_kline_message :: "(json \<Rightarrow> string) \<Rightarrow> feed_config \<Rightarrow> (string \<times> json) list \<Rightarrow> (candle_feed, unit) prog" where
  "on_kline_message rep fc message =
     (let parts = split_on (CHR ''.'') (json_str rep (json_get message ''topic'' (text_arg ''''))) in
      if length parts < 3 then ret ()
      else case json_get message ''data'' (JList []) of
        JList items \<Rightarrow> each (handle_item fc (parts ! 2)) items
      | JObj m \<Rightarrow> raise_if (m \<noteq> []) AttributeError
      | JText t \<Rightarrow> raise_if (jt_chars t \<noteq> []) AttributeError
      | _ \<Rightarrow> throw TypeError)"

subsection \<open>Warming up and recovering\<close>

definition refill_with :: "feed_config \<Rightarrow> string \<Rightarrow> kline \<Rightarrow> candle_feed \<Rightarrow> candle_feed" where
  "refill_with fc symbol k f =
     set_window symbol (deque_append (fc_window_size fc) (window_of f symbol) (candle_of_kline k)) f"

definition settle_warm_up :: "feed_config \<Rightarrow> string \<Rightarrow> candle_feed \<Rightarrow> candle_feed" where
  "settle_warm_up fc symbol f = set_warmed symbol (fc_window_size fc \<le> length (window_of f symbol)) f"

definition warm_up_symbol :: "feed_config \<Rightarrow> string \<Rightarrow> kline list \<Rightarrow> candle_feed \<Rightarrow> candle_feed" where
  "warm_up_symbol fc symbol ks f =
     settle_warm_up fc symbol
       (foldl (\<lambda>f k. refill_with fc symbol k f) (set_window symbol [] f) (sort_key kl_start_time ks))"

text \<open>
  The start of the feed: every symbol is warmed up in turn, and the first REST error ends it.
  \<open>get\<close> are the klines the exchange has for a symbol.
\<close>

fun warm_up_all :: "feed_config \<Rightarrow> (string \<Rightarrow> exc + kline list) \<Rightarrow> string list \<Rightarrow> (candle_feed, unit) prog" where
  "warm_up_all fc get [] f = (Inr (), f)"
| "warm_up_all fc get (s # ss) f = (case get s of
     Inl e \<Rightarrow> (Inl e, f) | Inr ks \<Rightarrow> warm_up_all fc get ss (warm_up_symbol fc s ks f))"

definition start_ws :: "bool \<Rightarrow> candle_feed \<Rightarrow> candle_feed" where
  "start_ws pybit_installed f = (if pybit_installed then f\<lparr>cf_ws := True\<rparr> else f)"

definition start_feed ::
  "feed_config \<Rightarrow> (string \<Rightarrow> exc + kline list) \<Rightarrow> bool \<Rightarrow> (candle_feed, unit) prog"
where
  "start_feed fc get pybit_installed f =
     andthen (warm_up_all fc get (fc_symbols fc)) (modify (start_ws pybit_installed)) (f\<lparr>cf_loop := LoopRunning\<rparr>)"

definition stop_feed :: "candle_feed \<Rightarrow> candle_feed" where
  "stop_feed f = (if cf_ws f then f\<lparr>cf_ws := False\<rparr> else f)"

text \<open>What \<^verbatim>\<open>_recover_gap\<close> does once the window is refilled.\<close>

definition finish_recovery :: "feed_config \<Rightarrow> string \<Rightarrow> candle_feed \<Rightarrow> candle_feed" where
  "finish_recovery fc symbol f =
     (let f1 = settle_warm_up fc symbol f in
      if cf_warmed_up f1 symbol = Some True
      then enqueue_snapshot (window_snapshot fc symbol f1 True) f1 else f1)"

subsection \<open>Steps\<close>

definition run_loop_task :: "loop_task \<Rightarrow> candle_feed \<Rightarrow> candle_feed" where
  "run_loop_task t f = (case t of
     QueueSnapshot s \<Rightarrow> queue_snapshot_nowait s f
   | RecoverGap symbol \<Rightarrow> f\<lparr>cf_recovering := cf_recovering f @ [symbol]\<rparr>)"

datatype feed_event = Message "(string \<times> json) list" | RunTask | KlinesArrive "kline list" | RequestFails
  | RefillOne | RefillDone | Take | Stop

inductive feed_step :: "(json \<Rightarrow> string) \<Rightarrow> feed_config \<Rightarrow> feed_event \<Rightarrow> candle_feed \<Rightarrow> candle_feed \<Rightarrow> bool"
  for rep fc where
  message: "cf_ws f \<Longrightarrow> feed_step rep fc (Message m) f (snd (on_kline_message rep fc m f))"
| run_task: "cf_ready f = t # ts \<Longrightarrow> cf_refill f = None \<Longrightarrow>
    feed_step rep fc RunTask f (run_loop_task t (f\<lparr>cf_ready := ts\<rparr>))"
| klines: "cf_recovering f = s # ss \<Longrightarrow> cf_refill f = None \<Longrightarrow>
    feed_step rep fc (KlinesArrive ks) f
      (set_window s [] (f\<lparr>cf_recovering := ss, cf_refill := Some (s, sort_key kl_start_time ks)\<rparr>))"
| request_fails: "cf_recovering f = s # ss \<Longrightarrow> cf_refill f = None \<Longrightarrow>
    feed_step rep fc RequestFails f (f\<lparr>cf_recovering := ss\<rparr>)"
| refill: "cf_refill f = Some (s, k # ks) \<Longrightarrow>
    feed_step rep fc RefillOne f (refill_with fc s k (f\<lparr>cf_refill := Some (s, ks)\<rparr>))"
| refill_done: "cf_refill f = Some (s, []) \<Longrightarrow>
    feed_step rep fc RefillDone f (finish_recovery fc s (f\<lparr>cf_refill := None\<rparr>))"
| consume: "cf_queue f = s # q \<Longrightarrow> cf_refill f = None \<Longrightarrow>
    feed_step rep fc Take f (f\<lparr>cf_queue := q\<rparr>)"
| stop: "cf_refill f = None \<Longrightarrow> feed_step rep fc Stop f (stop_feed f)"

inductive_cases feed_stepE: "feed_step rep fc ev f f'"

text \<open>
  The event loop does one thing at a time: a refill, once its klines are there, runs to its end.  Only
  the stream's thread comes in between.
\<close>

text \<open>
  The histories of a feed after its start.  \<open>racing\<close> says whether a message of the stream may come
  in the middle of a refill.
\<close>

inductive feed_reachable :: "(json \<Rightarrow> string) \<Rightarrow> feed_config \<Rightarrow> bool \<Rightarrow> candle_feed \<Rightarrow> bool"
  for rep fc racing where
  started: "start_feed fc get installed (new_feed fc) = (r, f) \<Longrightarrow> feed_reachable rep fc racing f"
| step: "feed_reachable rep fc racing f \<Longrightarrow> feed_step rep fc ev f f' \<Longrightarrow>
    racing \<or> cf_refill f = None \<or> (\<forall>m. ev \<noteq> Message m) \<Longrightarrow> feed_reachable rep fc racing f'"


text \<open>The step an event makes, and the state a sequence of events leads to, where it can happen.\<close>

definition feed_do :: "(json \<Rightarrow> string) \<Rightarrow> feed_config \<Rightarrow> feed_event \<Rightarrow> candle_feed \<Rightarrow> candle_feed option" where
  "feed_do rep fc ev f = (case ev of
     Message m \<Rightarrow> if cf_ws f then Some (snd (on_kline_message rep fc m f)) else None
   | RefillOne \<Rightarrow> (case cf_refill f of
       Some (s, k # ks) \<Rightarrow> Some (refill_with fc s k (f\<lparr>cf_refill := Some (s, ks)\<rparr>)) | _ \<Rightarrow> None)
   | RefillDone \<Rightarrow> (case cf_refill f of
       Some (s, []) \<Rightarrow> Some (finish_recovery fc s (f\<lparr>cf_refill := None\<rparr>)) | _ \<Rightarrow> None)
   | _ \<Rightarrow>
       if cf_refill f \<noteq> None then None
       else case ev of
         RunTask \<Rightarrow> (case cf_ready f of
           t # ts \<Rightarrow> Some (run_loop_task t (f\<lparr>cf_ready := ts\<rparr>)) | [] \<Rightarrow> None)
       | KlinesArrive ks \<Rightarrow> (case cf_recovering f of
           s # ss \<Rightarrow> Some (set_window s [] (f\<lparr>cf_recovering := ss, cf_refill := Some (s, sort_key kl_start_time ks)\<rparr>))
         | [] \<Rightarrow> None)
       | RequestFails \<Rightarrow> (case cf_recovering f of
           s # ss \<Rightarrow> Some (f\<lparr>cf_recovering := ss\<rparr>) | [] \<Rightarrow> None)
       | Stop \<Rightarrow> Some (stop_feed f)
       | _ \<Rightarrow> (case cf_queue f of s # q \<Rightarrow> Some (f\<lparr>cf_queue := q\<rparr>) | [] \<Rightarrow> None))"

lemma feed_do_step: "feed_do rep fc ev f = Some f' \<longleftrightarrow> feed_step rep fc ev f f'"
proof
  have none: "\<forall>a b. cf_refill f \<noteq> Some (a, b) \<Longrightarrow> cf_refill f = None"
    by (cases "cf_refill f") auto
  show "feed_do rep fc ev f = Some f' \<Longrightarrow> feed_step rep fc ev f f'"
    by (auto simp: feed_do_def intro: feed_step.intros none
        split: feed_event.splits option.splits prod.splits list.splits if_splits)
  show "feed_step rep fc ev f f' \<Longrightarrow> feed_do rep fc ev f = Some f'"
    by (erule feed_stepE) (auto simp: feed_do_def)
qed

fun feed_history :: "(json \<Rightarrow> string) \<Rightarrow> feed_config \<Rightarrow> feed_event list \<Rightarrow> candle_feed \<Rightarrow> candle_feed option" where
  "feed_history rep fc [] f = Some f"
| "feed_history rep fc (ev # evs) f = (case feed_do rep fc ev f of
     Some f' \<Rightarrow> feed_history rep fc evs f' | None \<Rightarrow> None)"

lemma feed_history_reachable:
  "feed_history rep fc evs f = Some f' \<Longrightarrow> feed_reachable rep fc True f \<Longrightarrow> feed_reachable rep fc True f'"
  by (induction evs arbitrary: f) (auto simp: feed_do_step intro: feed_reachable.step split: option.splits)

subsection \<open>What the feed keeps\<close>

definition snapshot_full :: "feed_config \<Rightarrow> feed_snapshot \<Rightarrow> bool" where
  "snapshot_full fc s \<longleftrightarrow> length (ms_candles (fs_snapshot s)) = fc_window_size fc"

definition task_full :: "feed_config \<Rightarrow> loop_task \<Rightarrow> bool" where
  "task_full fc t = (case t of QueueSnapshot s \<Rightarrow> snapshot_full fc s | RecoverGap _ \<Rightarrow> True)"

definition refilling :: "candle_feed \<Rightarrow> string \<Rightarrow> bool" where
  "refilling f s \<longleftrightarrow> (\<exists>ks. cf_refill f = Some (s, ks))"

definition warm_is_full :: "feed_config \<Rightarrow> candle_feed \<Rightarrow> bool" where
  "warm_is_full fc f \<longleftrightarrow>
     (\<forall>s. length (window_of f s) \<le> fc_window_size fc \<and>
       (cf_warmed_up f s = Some True \<and> \<not> refilling f s \<longrightarrow> length (window_of f s) = fc_window_size fc))"

definition feed_ok :: "feed_config \<Rightarrow> candle_feed \<Rightarrow> bool" where
  "feed_ok fc f \<longleftrightarrow> warm_is_full fc f \<and> (\<forall>t \<in> set (cf_ready f). task_full fc t) \<and>
     (\<forall>s \<in> set (cf_queue f). snapshot_full fc s) \<and> length (cf_queue f) \<le> queue_maxsize"

lemma length_deque [simp]: "length (deque_append n xs x) = min n (Suc (length xs))"
  by (auto simp: deque_append_def min_def)

lemma feed_simps [simp]:
  "window_of (set_window s w f) t = (if t = s then w else window_of f t)"
  "cf_warmed_up (set_window s w f) = cf_warmed_up f" "cf_refill (set_window s w f) = cf_refill f"
  "cf_ready (set_window s w f) = cf_ready f" "cf_queue (set_window s w f) = cf_queue f"
  "cf_loop (set_window s w f) = cf_loop f" "cf_recovering (set_window s w f) = cf_recovering f"
  "window_of (set_warmed s b f) = window_of f"
  "cf_warmed_up (set_warmed s b f) = (cf_warmed_up f)(s \<mapsto> b)" "cf_refill (set_warmed s b f) = cf_refill f"
  "cf_ready (set_warmed s b f) = cf_ready f" "cf_queue (set_warmed s b f) = cf_queue f"
  "cf_loop (set_warmed s b f) = cf_loop f" "cf_recovering (set_warmed s b f) = cf_recovering f"
  "window_of (enqueue_snapshot sn f) = window_of f"
  "cf_warmed_up (enqueue_snapshot sn f) = cf_warmed_up f" "cf_refill (enqueue_snapshot sn f) = cf_refill f"
  "cf_queue (enqueue_snapshot sn f) = cf_queue f"
  "cf_ready (enqueue_snapshot sn f) =
     cf_ready f @ (if cf_loop f = LoopRunning then [QueueSnapshot sn] else [])"
  "ms_candles (fs_snapshot (window_snapshot fc s f b)) = window_of f s"
  by (auto simp: window_of_def set_window_def set_warmed_def enqueue_snapshot_def window_snapshot_def)

lemma window_of_updates [simp]:
  "window_of (f\<lparr>cf_ready := r\<rparr>) = window_of f" "window_of (f\<lparr>cf_refill := x\<rparr>) = window_of f"
  "window_of (f\<lparr>cf_recovering := y\<rparr>) = window_of f" "window_of (f\<lparr>cf_queue := q\<rparr>) = window_of f"
  "window_of (f\<lparr>cf_loop := l\<rparr>) = window_of f" "window_of (f\<lparr>cf_ws := v\<rparr>) = window_of f"
  by (auto simp: window_of_def fun_eq_iff)

lemma add_candle_ok:
  assumes "feed_ok fc f" "cf_windows f s = Some w" "\<not> refilling f s"
  shows "feed_ok fc (snd (add_candle fc s w c f))"
proof -
  have w: "window_of f s = w" using assms(2) by (simp add: window_of_def)
  then have "length w \<le> fc_window_size fc"
    "cf_warmed_up f s = Some True \<longrightarrow> length w = fc_window_size fc"
    using assms(1,3) by (auto simp: feed_ok_def warm_is_full_def)
  with assms(1) show ?thesis
    by (auto simp: add_candle_def feed_ok_def warm_is_full_def task_full_def snapshot_full_def
        refilling_def Let_def min_def split: option.splits loop_task.splits)
qed

lemma message_refill [simp]:
  "cf_refill (snd (add_candle fc s w c f)) = cf_refill f"
  "cf_refill (snd (schedule_recovery s f)) = cf_refill f"
  by (auto simp: add_candle_def schedule_recovery_def Let_def split: option.splits loop_status.splits)

definition quiet_ok :: "feed_config \<Rightarrow> candle_feed \<Rightarrow> bool" where
  "quiet_ok fc f \<longleftrightarrow> feed_ok fc f \<and> cf_refill f = None"

lemma handle_confirmed_ok: "steps (preserves (quiet_ok fc)) (handle_confirmed_candle fc s item)"
proof (rule stepsI)
  fix f
  have "feed_ok fc f \<Longrightarrow> feed_ok fc (snd (schedule_recovery s f))"
    by (auto simp: schedule_recovery_def feed_ok_def warm_is_full_def task_full_def refilling_def
        split: loop_status.split)
  then show "preserves (quiet_ok fc) f (snd (handle_confirmed_candle fc s item f))"
    by (auto simp: preserves_def quiet_ok_def handle_confirmed_candle_def refilling_def
        split: sum.split option.split intro!: add_candle_ok)
qed

lemma message_ok: "steps (preserves (quiet_ok fc)) (on_kline_message rep fc m)"
proof -
  have "steps (preserves (quiet_ok fc)) (handle_item fc s item)" for s item
    by (auto simp: handle_item_def intro!: handle_confirmed_ok kp.rules split: json.split)
  then show ?thesis
    by (auto simp: on_kline_message_def Let_def intro!: kp.rules split: json.split)
qed

lemma refill_ok:
  assumes "feed_ok fc f" "refilling f s"
  shows "feed_ok fc (refill_with fc s k f)"
  using assms by (auto simp: refill_with_def feed_ok_def warm_is_full_def refilling_def)

lemma settled_ok:
  assumes "feed_ok fc f" "refilling f s"
  shows "feed_ok fc (settle_warm_up fc s (f\<lparr>cf_refill := None\<rparr>))"
  using assms by (auto simp: settle_warm_up_def feed_ok_def warm_is_full_def refilling_def le_antisym)

lemma finish_ok:
  assumes "feed_ok fc f" "refilling f s"
  shows "feed_ok fc (finish_recovery fc s (f\<lparr>cf_refill := None\<rparr>))"
proof -
  let ?g = "settle_warm_up fc s (f\<lparr>cf_refill := None\<rparr>)"
  from settled_ok[OF assms] have "feed_ok fc ?g" .
  moreover have "cf_refill ?g = None" by (simp add: settle_warm_up_def)
  ultimately show ?thesis
    by (auto simp: finish_recovery_def Let_def feed_ok_def warm_is_full_def task_full_def
        snapshot_full_def refilling_def)
qed

lemma warm_up_ok:
  assumes "feed_ok fc f" "cf_refill f = None"
  shows "quiet_ok fc (warm_up_symbol fc s ks f)"
proof -
  let ?fill = "foldl (\<lambda>f k. refill_with fc s k f)"
  have fill: "feed_ok fc (?fill f' ks) \<and> cf_refill (?fill f' ks) = cf_refill f'"
    if "feed_ok fc f'" "refilling f' s" for f' ks
    using that
  proof (induction ks arbitrary: f')
    case (Cons k ks)
    from Cons.prems have "refilling (refill_with fc s k f') s"
      by (simp add: refilling_def refill_with_def)
    with Cons.IH[OF refill_ok[OF Cons.prems]] show ?case by (simp add: refill_with_def)
  qed simp
  have comm: "?fill (g\<lparr>cf_refill := x\<rparr>) ks = (?fill g ks)\<lparr>cf_refill := x\<rparr>" for g x ks
  proof (induction ks arbitrary: g)
    case (Cons k ks)
    have "refill_with fc s k (g\<lparr>cf_refill := x\<rparr>) = (refill_with fc s k g)\<lparr>cf_refill := x\<rparr>"
      by (simp add: refill_with_def set_window_def)
    with Cons show ?case by simp
  qed simp
  let ?f = "set_window s [] (f\<lparr>cf_refill := Some (s, [])\<rparr>)"
  have start: "feed_ok fc ?f" "refilling ?f s"
    using assms by (auto simp: feed_ok_def warm_is_full_def refilling_def)
  let ?g = "?fill ?f (sort_key kl_start_time ks)"
  from fill[OF start] have "feed_ok fc ?g" "refilling ?g s"
    using start(2) by (auto simp: refilling_def)
  from settled_ok[OF this] have "feed_ok fc (settle_warm_up fc s (?g\<lparr>cf_refill := None\<rparr>))" .
  moreover have "?g\<lparr>cf_refill := None\<rparr> = ?fill (set_window s [] f) (sort_key kl_start_time ks)"
  proof -
    have "?f\<lparr>cf_refill := None\<rparr> = set_window s [] f" using assms(2) by (simp add: set_window_def)
    then show ?thesis by (simp flip: comm)
  qed
  moreover have "cf_refill (settle_warm_up fc s (?g\<lparr>cf_refill := None\<rparr>)) = None"
    by (simp add: settle_warm_up_def)
  ultimately show ?thesis by (simp add: warm_up_symbol_def quiet_ok_def)
qed

lemma quiet_ok_ws: "quiet_ok fc f \<Longrightarrow> quiet_ok fc (f\<lparr>cf_ws := b\<rparr>)"
  by (simp add: quiet_ok_def feed_ok_def warm_is_full_def refilling_def)

lemma start_ok: "start_feed fc get installed (new_feed fc) = (r, f) \<Longrightarrow> quiet_ok fc f"
proof -
  have warm: "steps (preserves (quiet_ok fc)) (warm_up_all fc get ss)" for ss
  proof (induction ss)
    case (Cons s ss)
    have "quiet_ok fc f \<Longrightarrow> quiet_ok fc (warm_up_symbol fc s ks f)" for f ks
      by (intro warm_up_ok) (simp_all add: quiet_ok_def)
    with Cons show ?case by (auto simp: steps_def preserves_def split: sum.split)
  qed (simp add: steps_def preserves_def)
  have ws: "steps (preserves (quiet_ok fc)) (modify (start_ws installed))"
    by (rule kp.modify) (simp add: preserves_def start_ws_def quiet_ok_ws)
  have "quiet_ok fc ((new_feed fc)\<lparr>cf_loop := LoopRunning\<rparr>)"
    by (auto simp: new_feed_def quiet_ok_def feed_ok_def warm_is_full_def window_of_def split: if_splits)
  from keeps_run[OF kp.andthen[OF warm ws] this]
  show "start_feed fc get installed (new_feed fc) = (r, f) \<Longrightarrow> quiet_ok fc f"
    by (simp add: start_feed_def) (metis snd_conv)
qed

lemma feed_step_ok:
  assumes "feed_step rep fc ev f f'" "feed_ok fc f" "cf_refill f = None \<or> (\<forall>m. ev \<noteq> Message m)"
  shows "feed_ok fc f'"
  using assms
proof (induction rule: feed_step.induct)
  case (message m f)
  then show ?case using keeps_run[OF message_ok] by (auto simp: quiet_ok_def)
next
  case (run_task f t ts)
  then show ?case
    by (cases t) (auto simp: run_loop_task_def queue_snapshot_nowait_def feed_ok_def warm_is_full_def
        task_full_def refilling_def)
next
  case (klines f s ss ks)
  then show ?case by (auto simp: feed_ok_def warm_is_full_def refilling_def)
next
  case (request_fails f s ss)
  then show ?case by (auto simp: feed_ok_def warm_is_full_def refilling_def)
next
  case (refill f s k ks)
  then show ?case
    by (intro refill_ok) (auto simp: feed_ok_def warm_is_full_def refilling_def)
next
  case (refill_done f s)
  then show ?case by (intro finish_ok) (auto simp: refilling_def)
next
  case (consume f s q)
  then show ?case by (auto simp: feed_ok_def warm_is_full_def refilling_def)
next
  case (stop f)
  then show ?case using quiet_ok_ws[of fc f False] by (simp add: stop_feed_def quiet_ok_def)
qed

lemma feed_reachable_ok: "feed_reachable rep fc False f \<Longrightarrow> feed_ok fc f"
  by (induction rule: feed_reachable.induct) (auto dest: start_ok feed_step_ok simp: quiet_ok_def)

text \<open>
  C27: As long as no message of the stream arrives in the middle of a refill, every snapshot in the
  feed's queue is a full window, of exactly the configured number of candles, and the queue never
  holds more than its maximum: through warming up, gaps, failing requests and recoveries.
\<close>

theorem snapshots_are_full_windows:
  assumes "feed_reachable rep fc False f" "s \<in> set (cf_queue f)"
  shows "length (ms_candles (fs_snapshot s)) = fc_window_size fc \<and> length (cf_queue f) \<le> queue_maxsize"
  using feed_reachable_ok[OF assms(1)] assms(2) by (simp add: feed_ok_def snapshot_full_def)

text \<open>A feed of one symbol, warmed up with klines from the start of time.\<close>

definition sample_feed_config :: "nat \<Rightarrow> feed_config" where
  "sample_feed_config n = \<lparr>fc_symbols = [''BTCUSDT''], fc_interval = ''1'', fc_interval_seconds = 60,
     fc_window_size = n\<rparr>"

definition sample_klines :: "nat \<Rightarrow> kline list" where
  "sample_klines n = map (\<lambda>i. sample_kline (int i * 60000000)) [0..<n]"

definition sample_feed :: "nat \<Rightarrow> candle_feed" where
  "sample_feed n = snd (start_feed (sample_feed_config n) (\<lambda>_. Inr (sample_klines n)) True
     (new_feed (sample_feed_config n)))"

definition kline_item :: "int \<Rightarrow> (string \<times> json) list" where
  "kline_item minutes = [(''confirm'', JBool True), (''start'', JInt (minutes * 60000)), (''open'', JFloat 1),
     (''high'', JFloat 2), (''low'', JFloat 1), (''close'', JFloat 2), (''volume'', JFloat 5)]"

definition kline_message :: "int \<Rightarrow> (string \<times> json) list" where
  "kline_message minutes = [(''topic'', text_arg ''kline.1.BTCUSDT''), (''data'', JList [JObj (kline_item minutes)])]"

definition sample_feed_history :: "nat \<Rightarrow> feed_event list \<Rightarrow> candle_feed option" where
  "sample_feed_history n evs = feed_history (\<lambda>_. []) (sample_feed_config n) evs (sample_feed n)"

lemma sample_started: "feed_reachable rep (sample_feed_config n) racing (sample_feed n)"
  unfolding sample_feed_def by (rule feed_reachable.started) (rule prod.collapse[symmetric])

theorem snapshots_are_full_windows_witness:
  "\<exists>f s. feed_reachable (\<lambda>_. []) (sample_feed_config 2) False f \<and> s \<in> set (cf_queue f) \<and>
     length (ms_candles (fs_snapshot s)) = 2"
proof -
  let ?f = "snd (on_kline_message (\<lambda>_. []) (sample_feed_config 2) (kline_message 2) (sample_feed 2))"
  let ?s = "window_snapshot (sample_feed_config 2) ''BTCUSDT'' ?f False"
  let ?g = "run_loop_task (QueueSnapshot ?s) (?f\<lparr>cf_ready := []\<rparr>)"
  have quiet: "cf_refill (sample_feed 2) = None" "cf_refill ?f = None" "cf_ws (sample_feed 2)" by code_simp+
  have f: "feed_reachable (\<lambda>_. []) (sample_feed_config 2) False ?f"
    using feed_reachable.step[OF sample_started feed_step.message[OF quiet(3)]] quiet(1) by blast
  have ready: "cf_ready ?f = [QueueSnapshot ?s]" by code_simp
  have g: "feed_reachable (\<lambda>_. []) (sample_feed_config 2) False ?g"
    using feed_reachable.step[OF f feed_step.run_task[OF ready quiet(2)]] by simp
  have queue: "cf_queue ?g = [?s]" by code_simp
  then have s: "?s \<in> set (cf_queue ?g)" by simp
  from snapshots_are_full_windows[OF g s]
  have "length (ms_candles (fs_snapshot ?s)) = fc_window_size (sample_feed_config 2)" by (rule conjunct1)
  also have "\<dots> = 2" by (simp add: sample_feed_config_def)
  finally show ?thesis using g s by (intro exI conjI)
qed

text \<open>
  A refill does not hold the lock, so a candle of the stream that comes while a window is being
  refilled is put into the half empty window, which still counts as warmed up, and is delivered as
  an ordinary snapshot.
\<close>

definition race :: "feed_event list" where
  "race = [Message (kline_message 9), RunTask, KlinesArrive (sample_klines 2), Message (kline_message 2),
     RefillOne, RefillOne, RefillDone, RunTask]"

theorem refill_race_delivers_a_short_window:
  "\<exists>f s. feed_reachable (\<lambda>_. []) (sample_feed_config 2) True f \<and> s \<in> set (cf_queue f) \<and>
     \<not> fs_gap_recovered s \<and> length (ms_candles (fs_snapshot s)) < fc_window_size (sample_feed_config 2)"
proof -
  have run: "map_option (\<lambda>f. map (\<lambda>s. (fs_gap_recovered s, length (ms_candles (fs_snapshot s)))) (cf_queue f))
      (sample_feed_history 2 race) = Some [(False, 1)]"
    by code_simp
  then obtain f where f: "sample_feed_history 2 race = Some f"
    and q: "map (\<lambda>s. (fs_gap_recovered s, length (ms_candles (fs_snapshot s)))) (cf_queue f) = [(False, 1)]"
    by auto
  from f have "feed_reachable (\<lambda>_. []) (sample_feed_config 2) True f"
    unfolding sample_feed_history_def by (rule feed_history_reachable) (rule sample_started)
  moreover from q obtain s where "cf_queue f = [s]" "\<not> fs_gap_recovered s"
    "length (ms_candles (fs_snapshot s)) = 1" by auto
  ultimately show ?thesis by (intro exI[of _ f] exI[of _ s]) (simp add: sample_feed_config_def)
qed

text \<open>
  The last kline of a warm-up is the one of the current interval, not yet complete.  When the stream
  confirms it, it is put into the window a second time.
\<close>

theorem unfinished_candle_is_kept_twice:
  assumes "candle_of_item item = Inr c" "cf_windows f s = Some (w @ [c'])" "cf_warmed_up f s = Some b"
    and "mc_opened_at c' = mc_opened_at c" "2 \<le> fc_window_size fc" "0 \<le> fc_interval_seconds fc"
  shows "\<exists>w'. cf_windows (snd (handle_confirmed_candle fc s item f)) s = Some (w' @ [c', c])"
proof -
  have "0 \<le> trunc0 (fmul (of_pyint (fc_interval_seconds fc)) (3 / 2))"
    using assms(6) by (simp add: trunc0_def float_ops of_pyint_def flo.nonneg)
  then have gap: "\<not> candle_gap (fc_interval_seconds fc) c' c" using assms(4,6) by (simp add: candle_gap_def)
  have "drop (length w + 2 - fc_window_size fc) (w @ [c', c])
      = drop (length w + 2 - fc_window_size fc) w @ [c', c]" using assms(5) by simp
  then have window: "deque_append (fc_window_size fc) (w @ [c']) c
      = drop (length w + 2 - fc_window_size fc) w @ [c', c]" by (simp add: deque_append_def)
  show ?thesis
    using assms gap by (simp add: handle_confirmed_candle_def add_candle_def Let_def window
        set_window_def set_warmed_def enqueue_snapshot_def)
qed

text \<open>One missing candle is no gap: the window goes on as if nothing had been lost.\<close>

lemma one_missing_candle_is_no_gap:
  assumes "feed_interval_to_seconds interval = Inr s" "mc_opened_at new = mc_opened_at old + 2 * s * 1000000"
  shows "\<not> candle_gap s old new"
proof -
  have "s \<in> {60, 180, 300, 900, 1800, 3600, 7200, 14400, 86400}"
    using assms(1) by (auto simp: feed_interval_to_seconds_def interval_table_def or_raise_def split: if_splits)
  moreover have "trunc0 (fmul (of_pyint 60) (3 / 2)) = 90" "trunc0 (fmul (of_pyint 180) (3 / 2)) = 270"
    "trunc0 (fmul (of_pyint 300) (3 / 2)) = 450" "trunc0 (fmul (of_pyint 900) (3 / 2)) = 1350"
    "trunc0 (fmul (of_pyint 1800) (3 / 2)) = 2700" "trunc0 (fmul (of_pyint 3600) (3 / 2)) = 5400"
    "trunc0 (fmul (of_pyint 7200) (3 / 2)) = 10800" "trunc0 (fmul (of_pyint 14400) (3 / 2)) = 21600"
    "trunc0 (fmul (of_pyint 86400) (3 / 2)) = 129600"
    by code_simp+
  ultimately show ?thesis using assms(2) by (auto simp: candle_gap_def)
qed

end
