(* ===== verification/SignalLoop.thy ===== *)
theory SignalLoop
  imports StrategyEngine Services CandleFeed
begin

text \<open>
  \<^verbatim>\<open>backend/signal_loop/runner.py\<close> and \<^verbatim>\<open>ws_runner.py\<close>: the two
  tasks that turn candles into signals and hand them to the execution service, one by polling every
  candle close, one by waiting for the candle feed.  The execution service is the interface they
  are written against: here the argument \<open>exec\<close>, below the locale \<open>guarded_executor\<close>.
\<close>

subsection \<open>What both loops share\<close>

record symbol_state =
  ys_symbol :: string
  ys_cooldown_seconds :: int
  ys_last_entry_at :: "timestamp option"

definition is_in_cooldown :: "timestamp \<Rightarrow> symbol_state \<Rightarrow> bool" where
  "is_in_cooldown t s = (case ys_last_entry_at s of
     None \<Rightarrow> False
   | Some l \<Rightarrow> fl (of_int (t - l) / 1000000) < of_int (ys_cooldown_seconds s))"

definition record_entry :: "timestamp \<Rightarrow> symbol_state \<Rightarrow> symbol_state" where
  "record_entry t s = s\<lparr>ys_last_entry_at := Some t\<rparr>"

definition new_symbol_state :: "int \<Rightarrow> string \<Rightarrow> symbol_state" where
  "new_symbol_state cooldown symbol =
     \<lparr>ys_symbol = symbol, ys_cooldown_seconds = cooldown, ys_last_entry_at = None\<rparr>"

text \<open>
  The settings of a loop; without a session factory (\<open>lc_journal\<close>) no symbol is blacklisted.
  \<open>lc_json\<close> is the text kept of a signal's indicators.
\<close>

record loop_config =
  lc_interval :: string
  lc_cooldown_seconds :: int
  lc_max_symbols_concurrent :: nat
  lc_journal :: bool
  lc_max_staleness_intervals :: int
  lc_staleness_grace_seconds :: int
  lc_json :: "(string \<times> pyfloat) list \<Rightarrow> string"

definition is_symbol_blacklisted :: "loop_config \<Rightarrow> env \<Rightarrow> string \<Rightarrow> bool op" where
  "is_symbol_blacklisted lc e symbol =
     (if \<not> lc_journal lc then ret False
      else in_session (bnd (on_db (\<lambda>d. case get_or_create_daily_stat (date_of (now e)) d of
              (stat, d') \<Rightarrow> (Inr stat, d'))) (\<lambda>stat.
        ret (5 \<le> symbol_consecutive_losses stat symbol))))"

type_synonym 'r executor = "env \<Rightarrow> signal_request \<Rightarrow> (world, 'r) prog"

definition snapshot_is_stale :: "loop_config \<Rightarrow> env \<Rightarrow> market_snapshot \<Rightarrow> exc + bool" where
  "snapshot_is_stale lc e = is_snapshot_stale (lc_max_staleness_intervals lc) (lc_staleness_grace_seconds lc) (now e)"

subsection \<open>The polling loop\<close>

text \<open>
  The evaluation of a symbol goes through phases: it waits for the semaphore, runs the strategy,
  hands over a request.  The evaluations of one tick interleave between their phases.
\<close>

datatype phase = Waiting | Evaluating | Executing signal_request | Finished

record signal_loop =
  sl_states :: "(string \<times> symbol_state) list"
  sl_tasks :: "(string \<times> phase) list"
  sl_stopped :: bool

definition new_signal_loop :: "loop_config \<Rightarrow> string list \<Rightarrow> exc + signal_loop" where
  "new_signal_loop lc symbols =
     (if symbols = [] then Inl ValueError
      else Inr \<lparr>sl_states = foldl (\<lambda>m s. AList.update s (new_symbol_state (lc_cooldown_seconds lc) s) m) [] symbols,
                sl_tasks = [], sl_stopped = False\<rparr>)"

definition stop_loop :: "signal_loop \<Rightarrow> signal_loop" where
  "stop_loop l = l\<lparr>sl_stopped := True\<rparr>"

definition phase_of :: "signal_loop \<Rightarrow> string \<Rightarrow> phase" where
  "phase_of l s = (case map_of (sl_tasks l) s of Some p \<Rightarrow> p | None \<Rightarrow> Finished)"

definition set_phase :: "string \<Rightarrow> phase \<Rightarrow> signal_loop \<Rightarrow> signal_loop" where
  "set_phase s p l = l\<lparr>sl_tasks := AList.update s p (sl_tasks l)\<rparr>"

definition state_of :: "signal_loop \<Rightarrow> string \<Rightarrow> symbol_state" where
  "state_of l s = (case map_of (sl_states l) s of Some y \<Rightarrow> y | None \<Rightarrow> new_symbol_state 0 s)"

fun is_active :: "phase \<Rightarrow> bool" where
  "is_active Evaluating = True"
| "is_active (Executing _) = True"
| "is_active _ = False"

definition active_count :: "signal_loop \<Rightarrow> nat" where
  "active_count l = length (filter (\<lambda>(s, p). is_active p) (sl_tasks l))"

definition all_finished :: "signal_loop \<Rightarrow> bool" where
  "all_finished l \<longleftrightarrow> (\<forall>(s, p) \<in> set (sl_tasks l). p = Finished)"

text \<open>\<^verbatim>\<open>_tick\<close>: one task for every symbol.\<close>

definition begin_tick :: "signal_loop \<Rightarrow> signal_loop" where
  "begin_tick l = l\<lparr>sl_tasks := map (\<lambda>(s, y). (s, Waiting)) (sl_states l)\<rparr>"

text \<open>\<^verbatim>\<open>_evaluate_symbol\<close> once the semaphore is taken, up to the strategy.\<close>

definition enter_evaluation :: "loop_config \<Rightarrow> env \<Rightarrow> string \<Rightarrow> signal_loop \<times> world \<Rightarrow> signal_loop \<times> world" where
  "enter_evaluation lc e s = (\<lambda>(l, w).
     if is_in_cooldown (now e) (state_of l s) then (set_phase s Finished l, w)
     else case is_symbol_blacklisted lc e s w of
       (Inl _, w') \<Rightarrow> (set_phase s Finished l, w')
     | (Inr b, w') \<Rightarrow> (set_phase s (if b then Finished else Evaluating) l, w'))"

text \<open>
  The strategy's result: what it makes of it, an exception of the safety guard stops the loop,
  every other exception only ends the evaluation.
\<close>

definition request_of_result :: "loop_config \<Rightarrow> env \<Rightarrow> strategy_result \<Rightarrow> exc + signal_request option" where
  "request_of_result lc e r =
     ebind (snapshot_is_stale lc e (sx_snapshot r)) (\<lambda>stale.
     if stale then Inr None
     else case sx_signal r of
       None \<Rightarrow> Inr None
     | Some g \<Rightarrow> ebind (to_execute_signal_request (lc_json lc) g) (\<lambda>p. Inr (Some p)))"

definition finish_evaluation :: "loop_config \<Rightarrow> env \<Rightarrow> string \<Rightarrow> exc + strategy_result \<Rightarrow> signal_loop \<Rightarrow> signal_loop" where
  "finish_evaluation lc e s result l = (case result of
     Inl x \<Rightarrow> set_phase s Finished (if is_safety_guard_error x then stop_loop l else l)
   | Inr r \<Rightarrow> (case request_of_result lc e r of
       Inr (Some p) \<Rightarrow> set_phase s (Executing p) l
     | _ \<Rightarrow> set_phase s Finished l))"

definition enter_symbol :: "env \<Rightarrow> string \<Rightarrow> signal_loop \<Rightarrow> signal_loop" where
  "enter_symbol e s l = l\<lparr>sl_states := AList.map_entry s (record_entry (now e)) (sl_states l)\<rparr>"

definition execute_request :: "'r executor \<Rightarrow> env \<Rightarrow> string \<Rightarrow> signal_request \<Rightarrow> signal_loop \<times> world \<Rightarrow> signal_loop \<times> world" where
  "execute_request exec e s p = (\<lambda>(l, w). case exec e p w of
     (Inr _, w') \<Rightarrow> (set_phase s Finished (enter_symbol e s l), w')
   | (Inl x, w') \<Rightarrow> (set_phase s Finished (if is_safety_guard_error x then stop_loop l else l), w'))"

subsection \<open>Waking up\<close>

text \<open>
  \<^verbatim>\<open>_sleep_until_next_candle_close\<close>: how long the loop sleeps unless it is
  stopped.
\<close>

definition sleep_seconds :: "string \<Rightarrow> timestamp \<Rightarrow> exc + int" where
  "sleep_seconds interval t =
     ebind (interval_to_minutes interval) (\<lambda>m.
     let total_minutes = t div 60000000 mod 1440;
         minutes_to_next = m - total_minutes mod m;
         wait = minutes_to_next * 60 - t div 1000000 mod 60 + 2
     in Inr (if wait \<le> 0 then m * 60 else wait))"

subsection \<open>Steps of the polling loop\<close>

text \<open>
  The state of a running loop: its own, the world, and the last time it saw.  The strategy service
  answers anything; the clock does not run backwards.
\<close>

type_synonym running = "signal_loop \<times> world \<times> timestamp"

inductive loop_step :: "loop_config \<Rightarrow> 'r executor \<Rightarrow> running \<Rightarrow> running \<Rightarrow> bool"
  for lc exec where
  tick: "\<not> sl_stopped l \<Longrightarrow> all_finished l \<Longrightarrow> t \<le> now (e :: env) \<Longrightarrow>
    loop_step lc exec (l, w, t) (begin_tick l, w, now e)"
| enter: "phase_of l s = Waiting \<Longrightarrow> active_count l < lc_max_symbols_concurrent lc \<Longrightarrow> t \<le> now e \<Longrightarrow>
    enter_evaluation lc e s (l, w) = (l', w') \<Longrightarrow> loop_step lc exec (l, w, t) (l', w', now e)"
| evaluate: "phase_of l s = Evaluating \<Longrightarrow> t \<le> now e \<Longrightarrow>
    loop_step lc exec (l, w, t) (finish_evaluation lc e s result l, w, now e)"
| execute: "phase_of l s = Executing p \<Longrightarrow> t \<le> now e \<Longrightarrow>
    execute_request exec e s p (l, w) = (l', w') \<Longrightarrow> loop_step lc exec (l, w, t) (l', w', now e)"
| stop: "loop_step lc exec (l, w, t) (stop_loop l, w, t)"

inductive_cases loop_stepE: "loop_step lc exec (l, w, t) r"

subsection \<open>The loop on the candle feed\<close>

record ws_runner =
  wr_states :: "(string \<times> symbol_state) list"
  wr_stopped :: bool

definition ws_state :: "loop_config \<Rightarrow> string \<Rightarrow> ws_runner \<Rightarrow> symbol_state" where
  "ws_state lc s r = (case map_of (wr_states r) s of
     Some y \<Rightarrow> y | None \<Rightarrow> new_symbol_state (lc_cooldown_seconds lc) s)"

definition set_default :: "loop_config \<Rightarrow> string \<Rightarrow> ws_runner \<Rightarrow> ws_runner" where
  "set_default lc s r = (if map_of (wr_states r) s = None
     then r\<lparr>wr_states := wr_states r @ [(s, new_symbol_state (lc_cooldown_seconds lc) s)]\<rparr> else r)"

text \<open>Why a snapshot is skipped, if it is.\<close>

datatype skip_reason = GapRecovered | StaleSnapshot | Cooldown | Blacklist

definition skip_reason_of :: "loop_config \<Rightarrow> env \<Rightarrow> feed_snapshot \<Rightarrow> symbol_state \<Rightarrow> skip_reason option op" where
  "skip_reason_of lc e fs y =
     (if fs_gap_recovered fs then ret (Some GapRecovered)
      else bnd (from_sum (snapshot_is_stale lc e (fs_snapshot fs))) (\<lambda>stale.
        if stale then ret (Some StaleSnapshot)
        else if is_in_cooldown (now e) y then ret (Some Cooldown)
        else bnd (is_symbol_blacklisted lc e (ms_symbol (fs_snapshot fs))) (\<lambda>b.
          ret (if b then Some Blacklist else None))))"

definition ws_execute ::
  "loop_config \<Rightarrow> 'r executor \<Rightarrow> env \<Rightarrow> string \<Rightarrow> strategy_signal \<Rightarrow> ws_runner \<times> world \<Rightarrow> ws_runner \<times> world"
where
  "ws_execute lc exec e s g = (\<lambda>(r, w).
     case to_execute_signal_request (lc_json lc) g of
       Inl _ \<Rightarrow> (r, w)
     | Inr p \<Rightarrow> (case exec e p w of
         (Inr _, w') \<Rightarrow> (r\<lparr>wr_states := AList.map_entry s (record_entry (now e)) (wr_states r)\<rparr>, w')
       | (Inl x, w') \<Rightarrow> (if is_safety_guard_error x then r\<lparr>wr_stopped := True\<rparr> else r, w')))"

text \<open>
  One snapshot from the queue, answered with the signal a strategy makes of it; an exception ends
  the whole loop.
\<close>

definition process_feed_snapshot ::
  "loop_config \<Rightarrow> 'r executor \<Rightarrow> generator \<Rightarrow> env \<Rightarrow> feed_snapshot \<Rightarrow> (ws_runner \<times> world, unit) prog"
where
  "process_feed_snapshot lc exec gen e fs = (\<lambda>(r, w).
     let s = ms_symbol (fs_snapshot fs); r' = set_default lc s r in
     case skip_reason_of lc e fs (ws_state lc s r') w of
       (Inl x, w') \<Rightarrow> (Inl x, (r', w'))
     | (Inr (Some _), w') \<Rightarrow> (Inr (), (r', w'))
     | (Inr None, w') \<Rightarrow> (case gen (fs_snapshot fs) of
         Inr (Some g) \<Rightarrow> (Inr (), ws_execute lc exec e s g (r', w'))
       | _ \<Rightarrow> (Inr (), (r', w'))))"

text \<open>The snapshots a run takes from the queue until it is stopped or ended by an exception.\<close>

fun ws_run ::
  "loop_config \<Rightarrow> 'r executor \<Rightarrow> generator \<Rightarrow> (env \<times> feed_snapshot) list \<Rightarrow> (ws_runner \<times> world, unit) prog"
where
  "ws_run lc exec gen [] rw = (Inr (), rw)"
| "ws_run lc exec gen ((e, fs) # q) rw =
     (if wr_stopped (fst rw) then (Inr (), rw)
      else andthen (process_feed_snapshot lc exec gen e fs) (ws_run lc exec gen q) rw)"

subsection \<open>Executors behind the kill switch\<close>

text \<open>
  What the loops need of the execution service: a call is one of the journal's services, and once
  the kill switch is committed it sends nothing, opens no trade and returns at most a replay.
\<close>

locale journal_executor =
  fixes exec :: "'r executor"
  assumes is_service: "service w (snd (exec e p w))"
begin

lemma blacklist_world: "cur w = saved w \<Longrightarrow> snd (is_symbol_blacklisted lc e s w) = w"
  by (auto simp: is_symbol_blacklisted_def in_session_def bnd_def on_db_def
      split: prod.splits sum.splits)

lemma enter_world: "cur w = saved w \<Longrightarrow> enter_evaluation lc e s (l, w) = (l', w') \<Longrightarrow> w' = w"
  using blacklist_world[of w lc e s]
  by (auto simp: enter_evaluation_def split: if_splits prod.splits sum.splits)

lemma execute_world: "execute_request exec e s p (l, w) = (l', w') \<Longrightarrow> w' = snd (exec e p w)"
  by (auto simp: execute_request_def split: prod.splits sum.splits)

lemma loop_step_service:
  "loop_step lc exec (l, w, t) (l', w', t') \<Longrightarrow> cur w = saved w \<Longrightarrow> w' = w \<or> service w w'"
  by (erule loop_stepE) (auto dest: enter_world execute_world simp: is_service)

lemma ws_execute_service: "snd (ws_execute lc exec e s g (r, w)) = w \<or> service w (snd (ws_execute lc exec e s g (r, w)))"
  using is_service[of w e]
  by (auto simp: ws_execute_def split: sum.split prod.split) (metis snd_conv)+

lemma skip_world: "cur w = saved w \<Longrightarrow> snd (skip_reason_of lc e fs y w) = w"
  using blacklist_world[of w lc e "ms_symbol (fs_snapshot fs)"]
  by (auto simp: skip_reason_of_def bnd_def split: sum.splits prod.splits)

lemma process_service:
  assumes "cur w = saved w" "process_feed_snapshot lc exec gen e fs (r, w) = (res, (r', w'))"
  shows "w' = w \<or> service w w'"
proof -
  let ?s = "ms_symbol (fs_snapshot fs)"
  let ?r = "set_default lc ?s r"
  obtain skip w1 where skip: "skip_reason_of lc e fs (ws_state lc ?s ?r) w = (skip, w1)" by fastforce
  with skip_world[OF assms(1)] have w1: "w1 = w" by (metis snd_conv)
  show ?thesis
    using assms(2) skip w1 ws_execute_service[of lc e ?s _ ?r w]
    by (auto simp: process_feed_snapshot_def Let_def split: sum.splits option.splits) (metis snd_conv)+
qed

lemma loop_steps_reachable:
  "(loop_step lc exec)\<^sup>*\<^sup>* r r' \<Longrightarrow> reachable (fst (snd r)) \<Longrightarrow>
   service\<^sup>*\<^sup>* (fst (snd r)) (fst (snd r')) \<and> reachable (fst (snd r'))"
proof (induction rule: rtranclp_induct)
  case (step x y)
  then have "fst (snd y) = fst (snd x) \<or> service (fst (snd x)) (fst (snd y))"
    using reachable_clean by (cases x; cases y) (auto dest: loop_step_service)
  with step show ?case by (auto intro: reachable.call rtranclp.rtrancl_into_rtrancl)
qed simp

lemma ws_run_reachable:
  "ws_run lc exec gen q (r, w) = (res, (r', w')) \<Longrightarrow> reachable w \<Longrightarrow> service\<^sup>*\<^sup>* w w' \<and> reachable w'"
proof (induction q arbitrary: r w)
  case (Cons a q)
  obtain e fs where a: "a = (e, fs)" by (cases a)
  obtain res1 r1 w1 where one: "process_feed_snapshot lc exec gen e fs (r, w) = (res1, (r1, w1))"
    by (metis surj_pair)
  then have w1: "w1 = w \<or> service w w1"
    using process_service[OF reachable_clean[OF Cons.prems(2)]] by blast
  then have "reachable w1" using Cons.prems(2) by (auto intro: reachable.call)
  with Cons one w1 show ?case
    by (auto simp: a andthen_def bnd_def split: if_splits sum.splits)
      (meson converse_rtranclp_into_rtranclp)
qed simp

end

locale guarded_executor = journal_executor exec
  for exec :: "'r executor" +
  fixes replayed :: "'r \<Rightarrow> bool"
  assumes blocks: "reachable w \<Longrightarrow> killed (saved w) \<Longrightarrow> exec e p w = (res, w') \<Longrightarrow>
      killed (saved w') \<and> sent w' = sent w \<and> trade_ids (saved w') = trade_ids (saved w)
      \<and> (case res of Inl _ \<Rightarrow> True | Inr r \<Rightarrow> replayed r)"
begin

definition shut :: "request list \<Rightarrow> nat list \<Rightarrow> world \<Rightarrow> bool" where
  "shut rs ids w \<longleftrightarrow> reachable w \<and> killed (saved w) \<and> sent w = rs \<and> trade_ids (saved w) = ids"

lemma shut_exec: "shut rs ids w \<Longrightarrow> shut rs ids (snd (exec e p w))"
  using blocks[of w e p "fst (exec e p w)" "snd (exec e p w)"] is_service[of w e p]
  by (auto simp: shut_def intro: reachable.call)

lemma shut_clean: "shut rs ids w \<Longrightarrow> cur w = saved w"
  by (simp add: shut_def reachable_clean)

lemma shut_enter:
  "enter_evaluation lc e s (l, w) = (l', w') \<Longrightarrow> shut rs ids w \<Longrightarrow> shut rs ids w'"
  using enter_world shut_clean by metis

lemma shut_step: "loop_step lc exec (l, w, t) (l', w', t') \<Longrightarrow> shut rs ids w \<Longrightarrow> shut rs ids w'"
  by (erule loop_stepE) (auto simp: shut_exec dest: execute_world shut_enter)

lemma shut_ws_execute: "shut rs ids w \<Longrightarrow> shut rs ids (snd (ws_execute lc exec e s g (r, w)))"
  using shut_exec[of rs ids w e]
  by (auto simp: ws_execute_def split: sum.split prod.split) (metis snd_conv)+

lemma shut_process:
  assumes "shut rs ids w" "process_feed_snapshot lc exec gen e fs (r, w) = (res, (r', w'))"
  shows "shut rs ids w'"
proof -
  let ?s = "ms_symbol (fs_snapshot fs)"
  let ?r = "set_default lc ?s r"
  obtain skip w1 where skip: "skip_reason_of lc e fs (ws_state lc ?s ?r) w = (skip, w1)" by fastforce
  with skip_world[OF shut_clean[OF assms(1)]] have w1: "w1 = w" by (metis snd_conv)
  show ?thesis
    using assms(2) skip w1 assms(1) shut_ws_execute[OF assms(1), of lc e ?s _ ?r]
    by (auto simp: process_feed_snapshot_def Let_def split: sum.splits option.splits) (metis snd_conv)+
qed

lemma shut_ws_run: "ws_run lc exec gen q (r, w) = (res, (r', w')) \<Longrightarrow> shut rs ids w \<Longrightarrow> shut rs ids w'"
proof (induction q arbitrary: r w)
  case (Cons a q)
  obtain e fs where a: "a = (e, fs)" by (cases a)
  obtain res1 r1 w1 where one: "process_feed_snapshot lc exec gen e fs (r, w) = (res1, (r1, w1))"
    by (metis surj_pair)
  with Cons shut_process[OF Cons.prems(2)] show ?case
    by (auto simp: a andthen_def bnd_def split: if_splits sum.splits)
qed simp

lemma shut_steps: "(loop_step lc exec)\<^sup>*\<^sup>* r r' \<Longrightarrow> shut rs ids (fst (snd r)) \<Longrightarrow> shut rs ids (fst (snd r'))"
proof (induction rule: rtranclp_induct)
  case (step x y)
  then show ?case by (cases x; cases y) (auto dest: shut_step)
qed simp

end

lemma execute_signal_blocks:
  assumes "killed (saved w)" "execute_signal e dg p w = (res, w')"
  shows "killed (saved w') \<and> sent w' = sent w \<and> trade_ids (saved w') = trade_ids (saved w)
    \<and> (case res of Inl _ \<Rightarrow> True | Inr r \<Rightarrow> er_replayed r)"
proof -
  have "blocked (sent w) (trade_ids (saved w)) (w\<lparr>cur := saved w\<rparr>)" using assms(1) by (simp add: blocked_def)
  from blocked_signal[OF this assms(2)] show ?thesis by (simp add: blocked_def)
qed

interpretation sj: journal_executor "\<lambda>e p. execute_signal e dg p" for dg
  by unfold_locales (rule service.signal)

interpretation sx: guarded_executor "\<lambda>e p. execute_signal e dg p" er_replayed for dg
  by unfold_locales (rule execute_signal_blocks)

text \<open>
  C28: Behind a committed kill switch neither loop trades.  However the evaluations of the polling
  loop interleave, over any number of ticks, and whatever snapshots the other loop takes from its
  queue, nothing is sent to the exchange, no trade is added and the switch stays on; and all that
  they ever do to the journal is done by calls of its services, so the journal stays sound.
\<close>

theorem loops_respect_the_kill_switch:
  assumes "reachable w" "killed (saved w)"
    and "(loop_step lc (\<lambda>e p. execute_signal e dg p))\<^sup>*\<^sup>* (l, w, t) (l', w1, t')"
    and "ws_run lc' (\<lambda>e p. execute_signal e dg p) gen q (r, w1) = (res, (r', w2))"
  shows "killed (saved w2) \<and> sent w2 = sent w \<and> trade_ids (saved w2) = trade_ids (saved w)
    \<and> service\<^sup>*\<^sup>* w w2"
proof -
  have "sx.shut (sent w) (trade_ids (saved w)) w" using assms(1,2) by (simp add: sx.shut_def)
  with sx.shut_steps[OF assms(3)] sx.shut_ws_run[OF assms(4)]
  have "sx.shut (sent w) (trade_ids (saved w)) w2" by simp
  moreover have "service\<^sup>*\<^sup>* w w1 \<and> reachable w1" using sj.loop_steps_reachable[OF assms(3)] assms(1) by simp
  then have "service\<^sup>*\<^sup>* w w2" using sj.ws_run_reachable[OF assms(4)] by (meson rtranclp_trans)
  ultimately show ?thesis by (simp add: sx.shut_def)
qed

text \<open>A loop of one symbol goes through one tick.\<close>

definition sample_loop_config :: loop_config where
  "sample_loop_config = \<lparr>lc_interval = ''1'', lc_cooldown_seconds = 60, lc_max_symbols_concurrent = 1,
     lc_journal = True, lc_max_staleness_intervals = 2, lc_staleness_grace_seconds = 5, lc_json = (\<lambda>_. [])\<rparr>"

definition sample_loop :: signal_loop where
  "sample_loop = \<lparr>sl_states = [(''BTCUSDT'', new_symbol_state 60 ''BTCUSDT'')], sl_tasks = [], sl_stopped = False\<rparr>"

definition sample_loop_signal :: strategy_signal where
  "sample_loop_signal = \<lparr>sg_symbol = ''BTCUSDT'', sg_direction = ''long'', sg_entry = 100, sg_stop = 90,
     sg_target = 130, sg_reason = None, sg_strategy_version = None, sg_indicators_snapshot = []\<rparr>"

definition sample_result :: "env \<Rightarrow> strategy_result" where
  "sample_result e = \<lparr>sx_symbol = ''BTCUSDT'', sx_interval = ''1'',
     sx_snapshot = \<lparr>ms_symbol = ''BTCUSDT'', ms_interval = ''1'',
       ms_candles = [new_market_candle (now e) 100 100 100 None 1]\<rparr>,
     sx_signal = Some sample_loop_signal\<rparr>"

definition sample_loop_request :: signal_request where
  "sample_loop_request = \<lparr>rs_symbol = ''BTCUSDT'', rs_direction = LONG, rs_entry = 100, rs_stop = 90,
     rs_target = 130, rs_reason = None, rs_strategy_version = None, rs_indicators_snapshot = Some []\<rparr>"

definition sample_executing :: signal_loop where
  "sample_executing = sample_loop\<lparr>sl_tasks := [(''BTCUSDT'', Executing sample_loop_request)]\<rparr>"

lemma sample_loop_new: "new_signal_loop sample_loop_config [''BTCUSDT''] = Inr sample_loop"
  by (simp add: new_signal_loop_def sample_loop_config_def sample_loop_def)

lemma sample_tick:
  assumes w: "is_symbol_blacklisted sample_loop_config calm_env ''BTCUSDT'' w = (Inr False, w)"
  shows "(loop_step sample_loop_config exec)\<^sup>*\<^sup>* (sample_loop, w, now calm_env) (sample_executing, w, now calm_env)"
proof -
  let ?lc = sample_loop_config and ?s = "''BTCUSDT''" and ?t = "now calm_env"
  define l1 where "l1 = begin_tick sample_loop"
  define l2 where "l2 = set_phase ?s Evaluating l1"
  have "loop_step ?lc exec (sample_loop, w, ?t) (l1, w, ?t)"
    unfolding l1_def by (rule loop_step.tick) (simp_all add: sample_loop_def all_finished_def)
  moreover have "enter_evaluation ?lc calm_env ?s (l1, w) = (l2, w)"
    by (simp add: enter_evaluation_def w l2_def l1_def state_of_def begin_tick_def sample_loop_def
        new_symbol_state_def is_in_cooldown_def)
  then have "loop_step ?lc exec (l1, w, ?t) (l2, w, ?t)"
    by (intro loop_step.enter) (simp_all add: l1_def begin_tick_def sample_loop_def phase_of_def
        active_count_def sample_loop_config_def)
  moreover have "finish_evaluation ?lc calm_env ?s (Inr (sample_result calm_env)) l2 = sample_executing"
    unfolding l1_def l2_def by code_simp
  then have "loop_step ?lc exec (l2, w, ?t) (sample_executing, w, ?t)"
    using loop_step.evaluate[of l2 ?s ?t calm_env ?lc exec w "Inr (sample_result calm_env)"]
    by (simp add: l1_def l2_def begin_tick_def sample_loop_def phase_of_def set_phase_def)
  ultimately show ?thesis by (meson converse_rtranclp_into_rtranclp rtranclp.rtrancl_refl)
qed

theorem loops_respect_the_kill_switch_witness:
  "\<exists>l w t. (loop_step sample_loop_config (\<lambda>e p. execute_signal e cp_symbol p))\<^sup>*\<^sup>*
      (sample_loop, snd (post_kill calm_env fresh_world), now calm_env) (l, w, t)
    \<and> sl_stopped l \<and> killed (saved w) \<and> sent w = sent (snd (post_kill calm_env fresh_world))"
proof -
  let ?x = "\<lambda>e p. execute_signal e cp_symbol p"
  let ?w = "snd (post_kill calm_env fresh_world)"
  let ?last = "execute_request ?x calm_env ''BTCUSDT'' sample_loop_request (sample_executing, ?w)"
  have r: "reachable ?w" using reachable.start service.kill by (rule reachable.call)
  have k: "killed (saved ?w)" by code_simp
  have "is_symbol_blacklisted sample_loop_config calm_env ''BTCUSDT'' ?w = (Inr False, ?w)" by code_simp
  note tick = sample_tick[OF this, of ?x]
  have "loop_step sample_loop_config ?x (sample_executing, ?w, now calm_env) (fst ?last, snd ?last, now calm_env)"
    by (rule loop_step.execute) (simp_all add: sample_executing_def phase_of_def)
  with tick have run: "(loop_step sample_loop_config ?x)\<^sup>*\<^sup>* (sample_loop, ?w, now calm_env)
      (fst ?last, snd ?last, now calm_env)" by (rule rtranclp.rtrancl_into_rtrancl)
  have idle: "ws_run sample_loop_config ?x gen [] (r, snd ?last) = (Inr (), (r, snd ?last))" for gen r by simp
  have stopped: "sl_stopped (fst ?last)" by code_simp
  from loops_respect_the_kill_switch[OF r k run idle]
  have after: "killed (saved (snd ?last))" "sent (snd ?last) = sent ?w" by simp_all
  show ?thesis using run stopped after by (intro exI conjI)
qed

subsection \<open>Cooldowns and the semaphore\<close>

lemma cooldown_wears_off: "t \<le> t' \<Longrightarrow> is_in_cooldown t' y \<Longrightarrow> is_in_cooldown t y"
proof (cases "ys_last_entry_at y")
  case (Some l)
  assume "t \<le> t'" "is_in_cooldown t' y"
  moreover from this(1) have "fl (of_int (t - l) / 1000000) \<le> fl (of_int (t' - l) / 1000000)"
    by (intro flo.mono divide_right_mono) simp_all
  ultimately show ?thesis using Some by (auto simp: is_in_cooldown_def)
qed (simp add: is_in_cooldown_def)

definition actives :: "(string \<times> phase) list \<Rightarrow> nat" where
  "actives xs = length (filter (\<lambda>(s, p). is_active p) xs)"

lemma actives_update:
  "distinct (map fst xs) \<Longrightarrow> map_of xs s = Some p \<Longrightarrow>
   actives (AList.update s q xs) + of_bool (is_active p) = actives xs + of_bool (is_active q)"
  by (induction xs) (auto simp: actives_def)

lemma update_keys: "map_of xs s = Some p \<Longrightarrow> map fst (AList.update s q xs) = map fst xs"
  by (induction xs) auto

text \<open>
  The tasks are one for each symbol, no more of them are between the semaphore and their end than it
  admits, and none of these is for a symbol in its cooldown.
\<close>

definition loop_ok :: "loop_config \<Rightarrow> signal_loop \<Rightarrow> timestamp \<Rightarrow> bool" where
  "loop_ok lc l t \<longleftrightarrow> distinct (map fst (sl_states l)) \<and> distinct (map fst (sl_tasks l))
     \<and> active_count l \<le> lc_max_symbols_concurrent lc
     \<and> (\<forall>s. is_active (phase_of l s) \<longrightarrow> \<not> is_in_cooldown t (state_of l s))"

lemma phase_known: "phase_of l s \<noteq> Finished \<Longrightarrow> map_of (sl_tasks l) s = Some (phase_of l s)"
  by (auto simp: phase_of_def split: option.splits)

lemma set_phase_simps [simp]:
  "phase_of (set_phase s p l) s' = (if s' = s then p else phase_of l s')"
  "state_of (set_phase s p l) = state_of l" "sl_states (set_phase s p l) = sl_states l"
  "phase_of (stop_loop l) = phase_of l" "state_of (stop_loop l) = state_of l"
  "sl_states (stop_loop l) = sl_states l" "sl_tasks (stop_loop l) = sl_tasks l"
  "phase_of (enter_symbol e s l) = phase_of l" "sl_tasks (enter_symbol e s l) = sl_tasks l"
  by (auto simp: phase_of_def set_phase_def update_conv' state_of_def stop_loop_def enter_symbol_def fun_eq_iff)

lemma active_count_set_phase:
  "distinct (map fst (sl_tasks l)) \<Longrightarrow> phase_of l s \<noteq> Finished \<Longrightarrow>
   active_count (set_phase s q l) + of_bool (is_active (phase_of l s)) = active_count l + of_bool (is_active q)"
  using actives_update[OF _ phase_known] by (simp add: active_count_def actives_def set_phase_def)

lemma set_phase_distinct:
  "phase_of l s \<noteq> Finished \<Longrightarrow> distinct (map fst (sl_tasks l)) \<Longrightarrow> distinct (map fst (sl_tasks (set_phase s q l)))"
  by (simp add: set_phase_def update_keys[OF phase_known])

lemma loop_ok_later: "loop_ok lc l t \<Longrightarrow> t \<le> t' \<Longrightarrow> loop_ok lc l t'"
  using cooldown_wears_off by (auto simp: loop_ok_def)

lemma loop_ok_phase:
  assumes "loop_ok lc l t" "phase_of l s \<noteq> Finished"
    and "is_active q \<Longrightarrow> is_active (phase_of l s) \<or>
      active_count l < lc_max_symbols_concurrent lc \<and> \<not> is_in_cooldown t (state_of l s)"
  shows "loop_ok lc (set_phase s q l) t"
  using assms active_count_set_phase[OF _ assms(2), of q] set_phase_distinct[OF assms(2), of q]
  by (cases "is_active q"; cases "is_active (phase_of l s)") (auto simp: loop_ok_def split: if_splits)

lemma loop_ok_finish:
  "loop_ok lc l t \<Longrightarrow> phase_of l s \<noteq> Finished \<Longrightarrow> loop_ok lc (set_phase s Finished l) t"
  by (rule loop_ok_phase) simp_all

lemma loop_ok_begin:
  "loop_ok lc l t \<Longrightarrow> phase_of l s = Waiting \<Longrightarrow> active_count l < lc_max_symbols_concurrent lc \<Longrightarrow>
   \<not> is_in_cooldown t (state_of l s) \<Longrightarrow> loop_ok lc (set_phase s Evaluating l) t"
  by (rule loop_ok_phase) simp_all

lemma loop_ok_pass:
  "loop_ok lc l t \<Longrightarrow> phase_of l s = Evaluating \<Longrightarrow> loop_ok lc (set_phase s (Executing p) l) t"
  by (rule loop_ok_phase) simp_all

lemma active_count_simps [simp]:
  "active_count (stop_loop l) = active_count l" "active_count (enter_symbol e s l) = active_count l"
  by (simp_all add: active_count_def)

lemma loop_ok_stop: "loop_ok lc (stop_loop l) t \<longleftrightarrow> loop_ok lc l t"
  by (simp add: loop_ok_def)

lemma loop_ok_enter_symbol:
  assumes "loop_ok lc (set_phase s Finished l) t"
  shows "loop_ok lc (set_phase s Finished (enter_symbol e s l)) t"
proof -
  have "map fst (AList.map_entry s f xs) = map fst xs" for f and xs :: "(string \<times> symbol_state) list"
    by (induction xs) auto
  moreover have "state_of (enter_symbol e s l) s' = state_of l s'" if "s' \<noteq> s" for s'
    using that by (simp add: state_of_def enter_symbol_def map_of_map_entry)
  moreover have "sl_tasks (set_phase s Finished (enter_symbol e s l)) = sl_tasks (set_phase s Finished l)"
    by (simp add: set_phase_def enter_symbol_def)
  ultimately show ?thesis
    using assms by (simp add: loop_ok_def active_count_def) (simp add: enter_symbol_def)
qed

lemma loop_step_ok: "loop_step lc exec (l, w, t) (l', w', t') \<Longrightarrow> loop_ok lc l t \<Longrightarrow> loop_ok lc l' t' \<and> t \<le> t'"
proof (erule loop_stepE)
  fix e :: env
  assume ok: "loop_ok lc l t" and t: "t \<le> now e" and r: "(l', w', t') = (begin_tick l, w, now e)"
  have idle: "filter (\<lambda>(s, p). is_active p) (map (\<lambda>(s, y). (s, Waiting)) xs) = []"
    for xs :: "(string \<times> symbol_state) list" by (induction xs) auto
  have "phase_of (begin_tick l) s \<in> {Waiting, Finished}" for s
    by (auto simp: phase_of_def begin_tick_def map_of_map split: option.split)
  then have "\<not> is_active (phase_of (begin_tick l) s)" for s
    by (metis insertE is_active.simps(3,4) singletonD)
  with ok r t idle show "loop_ok lc l' t' \<and> t \<le> t'"
    by (auto simp: loop_ok_def begin_tick_def active_count_def comp_def split_def)
next
  fix s l'' w'' and e :: env
  assume ok: "loop_ok lc l t" and t: "t \<le> now e" and r: "(l', w', t') = (l'', w'', now e)"
    and s: "phase_of l s = Waiting" "active_count l < lc_max_symbols_concurrent lc"
    and run: "enter_evaluation lc e s (l, w) = (l'', w'')"
  show "loop_ok lc l' t' \<and> t \<le> t'"
    using run s r t loop_ok_later[OF ok t]
    by (auto simp: enter_evaluation_def loop_ok_finish loop_ok_begin
        split: if_splits prod.splits sum.splits)
next
  fix s result and e :: env
  assume ok: "loop_ok lc l t" and t: "t \<le> now e" and s: "phase_of l s = Evaluating"
    and r: "(l', w', t') = (finish_evaluation lc e s result l, w, now e)"
  then show "loop_ok lc l' t' \<and> t \<le> t'"
    using loop_ok_later[OF ok t]
    by (auto simp: finish_evaluation_def loop_ok_stop loop_ok_finish loop_ok_pass
        split: sum.split option.split)
next
  fix s p l'' w'' and e :: env
  assume ok: "loop_ok lc l t" and t: "t \<le> now e" and s: "phase_of l s = Executing p"
    and r: "(l', w', t') = (l'', w'', now e)" and run: "execute_request exec e s p (l, w) = (l'', w'')"
  then show "loop_ok lc l' t' \<and> t \<le> t'"
    using loop_ok_later[OF ok t]
    by (auto simp: execute_request_def loop_ok_stop loop_ok_finish loop_ok_enter_symbol
        split: sum.splits prod.splits if_splits)
qed (simp add: loop_ok_stop)

lemma new_loop_ok: "new_signal_loop lc symbols = Inr l \<Longrightarrow> loop_ok lc l t"
proof -
  have "distinct (map fst (foldl (\<lambda>m s. AList.update s (f s) m) m symbols))"
    if "distinct (map fst m)" for f :: "string \<Rightarrow> symbol_state" and m
    using that by (induction symbols arbitrary: m) (simp_all add: distinct_update)
  then show "new_signal_loop lc symbols = Inr l \<Longrightarrow> loop_ok lc l t"
    by (auto simp: new_signal_loop_def loop_ok_def active_count_def phase_of_def split: if_splits)
qed

lemma loop_steps_ok:
  "(loop_step lc exec)\<^sup>*\<^sup>* r r' \<Longrightarrow> loop_ok lc (fst r) (snd (snd r)) \<Longrightarrow> loop_ok lc (fst r') (snd (snd r'))"
proof (induction rule: rtranclp_induct)
  case (step x y)
  then show ?case by (cases x; cases y) (auto dest: loop_step_ok)
qed simp



subsection \<open>A tick ends\<close>

fun phase_weight :: "phase \<Rightarrow> nat" where
  "phase_weight Waiting = 3"
| "phase_weight Evaluating = 2"
| "phase_weight (Executing _) = 1"
| "phase_weight Finished = 0"

definition tick_weight :: "signal_loop \<Rightarrow> nat" where
  "tick_weight l = sum_list (map (\<lambda>(s, p). phase_weight p) (sl_tasks l))"

lemma weight_update:
  "map_of xs s = Some p \<Longrightarrow>
   sum_list (map (\<lambda>(s, p). phase_weight p) (AList.update s q xs)) + phase_weight p
     = sum_list (map (\<lambda>(s, p). phase_weight p) xs) + phase_weight q"
  by (induction xs) auto

lemma tick_weight_set_phase:
  "phase_of l s \<noteq> Finished \<Longrightarrow> phase_weight q < phase_weight (phase_of l s) \<Longrightarrow>
   tick_weight (set_phase s q l) < tick_weight l"
  using weight_update[OF phase_known, of l s q] by (simp add: tick_weight_def set_phase_def)

lemma tick_weight_simps [simp]:
  "tick_weight (set_phase s q (stop_loop l)) = tick_weight (set_phase s q l)"
  "tick_weight (set_phase s q (enter_symbol e s' l)) = tick_weight (set_phase s q l)"
  by (simp_all add: tick_weight_def set_phase_def)

lemma loop_step_weight:
  "loop_step lc exec (l, w, t) (l', w', t') \<Longrightarrow> all_finished l \<or> l' = stop_loop l \<or> tick_weight l' < tick_weight l"
  by (erule loop_stepE)
    (auto simp: enter_evaluation_def finish_evaluation_def execute_request_def tick_weight_set_phase
      split: if_splits prod.splits sum.splits option.splits)

lemma active_exists: "0 < active_count l \<Longrightarrow> distinct (map fst (sl_tasks l)) \<Longrightarrow> \<exists>s. is_active (phase_of l s)"
proof -
  assume "0 < active_count l" and d: "distinct (map fst (sl_tasks l))"
  then obtain s p where "(s, p) \<in> set (sl_tasks l)" "is_active p"
    by (auto simp: active_count_def filter_empty_conv)
  with d show ?thesis by (intro exI[of _ s]) (simp add: phase_of_def)
qed

lemma loop_can_step:
  assumes ok: "loop_ok lc l t" and pos: "0 < lc_max_symbols_concurrent lc" and busy: "\<not> all_finished l"
  shows "\<exists>l' w' t'. loop_step lc exec (l, w, t) (l', w', t') \<and> tick_weight l' < tick_weight l"
proof -
  define e where "e = calm_env\<lparr>now := t\<rparr>"
  have t: "t \<le> now e" by (simp add: e_def)
  have d: "distinct (map fst (sl_tasks l))" using ok by (simp add: loop_ok_def)
  show ?thesis
  proof (cases "0 < active_count l")
    case True
    then obtain s where s: "is_active (phase_of l s)" using active_exists d by blast
    then consider "phase_of l s = Evaluating" | p where "phase_of l s = Executing p"
      by (cases "phase_of l s") auto
    then show ?thesis
    proof cases
      case 1
      from loop_step.evaluate[OF this t, of lc exec w "Inl ValueError"] 1 show ?thesis
        by (intro exI conjI) (auto simp: finish_evaluation_def tick_weight_set_phase)
    next
      case 2
      obtain l' w' where run: "execute_request exec e s p (l, w) = (l', w')" by fastforce
      with 2 have "tick_weight l' < tick_weight l"
        by (auto simp: execute_request_def tick_weight_set_phase split: prod.splits sum.splits if_splits)
      with loop_step.execute[OF 2 t run] show ?thesis by blast
    qed
  next
    case False
    from busy obtain s p where "(s, p) \<in> set (sl_tasks l)" "p \<noteq> Finished" by (auto simp: all_finished_def)
    with d have p: "phase_of l s = p" by (simp add: phase_of_def)
    with False \<open>(s, p) \<in> set (sl_tasks l)\<close> \<open>p \<noteq> Finished\<close> have s: "phase_of l s = Waiting"
      by (cases p) (auto simp: active_count_def filter_empty_conv)
    obtain l' w' where run: "enter_evaluation lc e s (l, w) = (l', w')" by fastforce
    with s have "tick_weight l' < tick_weight l"
      by (auto simp: enter_evaluation_def tick_weight_set_phase split: prod.splits sum.splits if_splits)
    with loop_step.enter[OF s _ t run] False pos show ?thesis by auto
  qed
qed



subsection \<open>When the loop wakes up\<close>

lemma interval_minutes_divide:
  "interval_to_minutes interval = Inr m \<Longrightarrow> 0 < m \<and> m dvd 1440"
  by (auto simp: interval_to_minutes_def interval_to_seconds_def interval_table_def or_raise_def
      ebind_Inr_iff split: if_splits)

text \<open>
  The polling loop sleeps at least three seconds and at most one interval and two seconds, and
  wakes up two seconds after a candle of its interval has closed.
\<close>

theorem loop_wakes_after_a_close:
  assumes "sleep_seconds interval t = Inr n"
  shows "3 \<le> n \<and> (\<exists>m. interval_to_minutes interval = Inr m \<and> n \<le> 60 * m + 2 \<and>
    60 * m dvd t div 1000000 + n - 2)"
proof -
  from assms obtain m where m: "interval_to_minutes interval = Inr m"
    by (auto simp: sleep_seconds_def ebind_Inr_iff)
  from interval_minutes_divide[OF m] have pos: "0 < m" and dv: "m dvd 1440" by auto
  define T where "T = t div 1000000"
  define k where "k = T div 60"
  have "t div 60000000 = k" by (simp add: k_def T_def zdiv_zmult2_eq)
  then have total: "t div 60000000 mod 1440 mod m = k mod m" using dv by (simp add: mod_mod_cancel)
  have km: "0 \<le> k mod m" "k mod m < m" using pos by simp_all
  have T: "T = 60 * k + T mod 60" "0 \<le> T mod 60" "T mod 60 < 60" by (simp_all add: k_def)
  define r where "r = m - k mod m"
  have r: "1 \<le> r" "r \<le> m" using km by (simp_all add: r_def)
  have "n = (if r * 60 - T mod 60 + 2 \<le> 0 then m * 60 else r * 60 - T mod 60 + 2)"
    using assms total unfolding r_def T_def by (simp only: sleep_seconds_def m ebind_simps Let_def sum.inject)
  then have n: "n = r * 60 - T mod 60 + 2" using r T by simp
  have "T + n - 2 = 60 * (k + r)" using T(1) n by simp
  also have "k + r = m * (k div m + 1)" using mult_div_mod_eq[of m k] by (simp add: r_def algebra_simps)
  finally have "60 * m dvd T + n - 2" by (simp add: mult.assoc)
  moreover have "3 \<le> n" "n \<le> 60 * m + 2" using n r T by simp_all
  ultimately show ?thesis using m T_def by blast
qed

theorem loop_wakes_after_a_close_witness:
  "sleep_seconds ''15'' 0 = Inr 902 \<and> 60 * 15 dvd (0::int) div 1000000 + 902 - 2"
proof -
  have "sleep_seconds ''15'' 0 = Inr 902" by code_simp
  with loop_wakes_after_a_close[OF this] show ?thesis by simp
qed

end
