(* ===== verification/Configuration.thy ===== *)
theory Configuration
  imports SignalLoop
begin

text \<open>
  \<^verbatim>\<open>backend/config.py\<close>, the validators of the settings, and what
  \<^verbatim>\<open>backend/main.py\<close> starts with them (\<^verbatim>\<open>lifespan\<close>,
  \<^verbatim>\<open>_validate_runner_configuration\<close>, \<^verbatim>\<open>create_app\<close>): which
  loops run, on which symbols, with which strategy.
\<close>

subsection \<open>Validators\<close>

definition parse_debug :: "json \<Rightarrow> exc + bool" where
  "parse_debug v = (case v of
     JBool b \<Rightarrow> Inr b
   | JText t \<Rightarrow>
       let s = py_lower (py_strip (jt_chars t)) in
       if s \<in> {''true'', ''1'', ''yes'', ''on''} then Inr True
       else if s \<in> {''false'', ''0'', ''no'', ''off'', ''release'', ''production'', ''prod'', ''staging''}
       then Inr False
       else Inl ValueError
   | _ \<Rightarrow> Inr (json_bool v))"

definition clean_symbol :: "string \<Rightarrow> string" where
  "clean_symbol s = py_upper (py_strip s)"

definition split_symbols :: "string \<Rightarrow> string list" where
  "split_symbols raw =
     (if py_strip raw = [] then []
      else map clean_symbol (filter (\<lambda>p. py_strip p \<noteq> []) (split_on (CHR '','') (py_strip raw))))"

text \<open>What an iteration yields: the items of a list, the keys of a dictionary.\<close>

definition parse_symbol_lists :: "(json \<Rightarrow> string) \<Rightarrow> json \<Rightarrow> exc + string list" where
  "parse_symbol_lists rep v = (case v of
     JNull \<Rightarrow> Inr []
   | JText t \<Rightarrow> Inr (split_symbols (jt_chars t))
   | JList xs \<Rightarrow> Inr (map clean_symbol (filter (\<lambda>p. py_strip p \<noteq> []) (map (json_str rep) xs)))
   | JObj m \<Rightarrow> Inr (map clean_symbol (filter (\<lambda>p. py_strip p \<noteq> []) (map fst m)))
   | _ \<Rightarrow> Inl TypeError)"

definition validate_active_strategy :: "(json \<Rightarrow> string) \<Rightarrow> json \<Rightarrow> exc + string" where
  "validate_active_strategy rep v = (case v of
     JNull \<Rightarrow> Inr []
   | _ \<Rightarrow>
       let n = py_lower (py_strip (json_str rep v)) in
       if n \<in> {[], ''grid'', ''scalping'', ''signal_loop''} then Inr n else Inl ValueError)"

definition normalize_signal_loop_strategy :: "string \<Rightarrow> exc + string" where
  "normalize_signal_loop_strategy v =
     (if py_lower (py_strip v) = [] then Inl ValueError else Inr (py_lower (py_strip v)))"

definition database_url_must_be_set :: "string \<Rightarrow> exc + string" where
  "database_url_must_be_set v = (if v = [] then Inl ValueError else Inr v)"

definition validate_canary_risk_multiplier :: "pyfloat \<Rightarrow> exc + pyfloat" where
  "validate_canary_risk_multiplier v = (if v \<le> 0 then Inl ValueError else Inr v)"

definition validate_market_data_max_staleness_intervals :: "int \<Rightarrow> exc + int" where
  "validate_market_data_max_staleness_intervals v = (if v < 1 then Inl ValueError else Inr v)"

definition validate_market_data_staleness_grace_seconds :: "int \<Rightarrow> exc + int" where
  "validate_market_data_staleness_grace_seconds v = (if v < 0 then Inl ValueError else Inr v)"

subsection \<open>Settings\<close>

text \<open>The settings the start of the application reads.\<close>

record app_settings =
  ap_bybit_testnet :: bool
  ap_bybit_api_key :: string
  ap_bybit_api_secret :: string
  ap_bybit_testnet_api_key :: string
  ap_bybit_testnet_api_secret :: string
  ap_database_url :: string
  ap_trading_mode :: string
  ap_environment :: string
  ap_debug :: bool
  ap_signal_loop_enabled :: bool
  ap_signal_loop_symbols :: "string list"
  ap_signal_loop_strategy :: string
  ap_signal_loop_interval :: string
  ap_signal_loop_cooldown_seconds :: int
  ap_signal_loop_max_symbols_concurrent :: int
  ap_scalping_enabled :: bool
  ap_scalping_symbols :: "string list"
  ap_scalping_interval :: string
  ap_scalping_ws_window_size :: nat
  ap_scalping_cooldown_seconds :: int
  ap_scalping_strategy :: string
  ap_grid_symbols :: "string list"
  ap_active_strategy :: string
  ap_canary_risk_multiplier :: pyfloat
  ap_min_rrr :: pyfloat
  ap_max_staleness_intervals :: int
  ap_staleness_grace_seconds :: int
  ap_admin_jwt_secret :: string

text \<open>What the environment gives for the settings that are parsed.\<close>

record raw_settings =
  rw_debug :: json
  rw_signal_loop_symbols :: json
  rw_scalping_symbols :: json
  rw_grid_symbols :: json
  rw_active_strategy :: json

definition active_api_key :: "app_settings \<Rightarrow> string" where
  "active_api_key a = (if ap_bybit_testnet a then ap_bybit_testnet_api_key a else ap_bybit_api_key a)"

definition active_api_secret :: "app_settings \<Rightarrow> string" where
  "active_api_secret a = (if ap_bybit_testnet a then ap_bybit_testnet_api_secret a else ap_bybit_api_secret a)"

definition api_keys_required_outside_shadow :: "app_settings \<Rightarrow> exc + app_settings" where
  "api_keys_required_outside_shadow a =
     (if ap_trading_mode a = ''shadow'' then Inr a
      else if ap_bybit_testnet a then
        if ap_bybit_testnet_api_key a = [] then Inl ValueError
        else if ap_bybit_testnet_api_secret a = [] then Inl ValueError else Inr a
      else if ap_bybit_api_key a = [] then Inl ValueError
      else if ap_bybit_api_secret a = [] then Inl ValueError else Inr a)"

text \<open>\<^verbatim>\<open>Settings()\<close>: every field's validator, then the model's; any failure is one error.\<close>

definition load_settings :: "(json \<Rightarrow> string) \<Rightarrow> raw_settings \<Rightarrow> app_settings \<Rightarrow> exc + app_settings" where
  "load_settings rep rw a =
     ebind (parse_debug (rw_debug rw)) (\<lambda>debug.
     ebind (database_url_must_be_set (ap_database_url a)) (\<lambda>_.
     ebind (parse_symbol_lists rep (rw_signal_loop_symbols rw)) (\<lambda>loop_symbols.
     ebind (normalize_signal_loop_strategy (ap_signal_loop_strategy a)) (\<lambda>strategy.
     ebind (parse_symbol_lists rep (rw_scalping_symbols rw)) (\<lambda>scalping_symbols.
     ebind (parse_symbol_lists rep (rw_grid_symbols rw)) (\<lambda>grid_symbols.
     ebind (validate_active_strategy rep (rw_active_strategy rw)) (\<lambda>active.
     ebind (validate_canary_risk_multiplier (ap_canary_risk_multiplier a)) (\<lambda>_.
     ebind (validate_market_data_max_staleness_intervals (ap_max_staleness_intervals a)) (\<lambda>_.
     ebind (validate_market_data_staleness_grace_seconds (ap_staleness_grace_seconds a)) (\<lambda>_.
     api_keys_required_outside_shadow
       (a\<lparr>ap_debug := debug, ap_signal_loop_symbols := loop_symbols, ap_signal_loop_strategy := strategy,
          ap_scalping_symbols := scalping_symbols, ap_grid_symbols := grid_symbols,
          ap_active_strategy := active\<rparr>)))))))))))"

subsection \<open>What runs\<close>

definition validate_runner_configuration :: "app_settings \<Rightarrow> exc + unit" where
  "validate_runner_configuration a =
     (if ap_active_strategy a \<noteq> [] then Inr ()
      else if \<not> (ap_signal_loop_enabled a \<and> ap_scalping_enabled a) then Inr ()
      else if set (ap_signal_loop_symbols a) \<inter> set (ap_scalping_symbols a) \<noteq> {} then Inl RuntimeError
      else Inr ())"

definition runs_signal_loop :: "app_settings \<Rightarrow> bool" where
  "runs_signal_loop a \<longleftrightarrow>
     (ap_active_strategy a = ''signal_loop'' \<or> ap_active_strategy a = [] \<and> ap_signal_loop_enabled a)
     \<and> ap_signal_loop_symbols a \<noteq> []"

definition runs_scalping :: "app_settings \<Rightarrow> bool" where
  "runs_scalping a \<longleftrightarrow>
     (ap_active_strategy a = ''scalping'' \<or> ap_active_strategy a = [] \<and> ap_scalping_enabled a)
     \<and> ap_scalping_symbols a \<noteq> []"

text \<open>
  The tasks of the running application.  The polling loop's semaphore refuses a negative number of
  evaluations.
\<close>

record polling_task =
  pt_loop :: signal_loop
  pt_config :: loop_config
  pt_strategy :: strategy

record feed_task =
  ft_feed :: feed_config
  ft_config :: loop_config
  ft_strategy :: strategy

record app_plan =
  pl_spot_exit_monitor :: bool
  pl_polling :: "polling_task option"
  pl_scalping :: "feed_task option"
  pl_grid_symbols :: "string list option"

definition plan_polling :: "((string \<times> pyfloat) list \<Rightarrow> string) \<Rightarrow> app_settings \<Rightarrow> exc + polling_task option" where
  "plan_polling js a =
     (if \<not> runs_signal_loop a then Inr None
      else
        ebind (build_day_trading_strategy (ap_signal_loop_strategy a) (ap_min_rrr a)) (\<lambda>t.
        let lc = \<lparr>lc_interval = ap_signal_loop_interval a, lc_cooldown_seconds = ap_signal_loop_cooldown_seconds a,
                 lc_max_symbols_concurrent = nat (ap_signal_loop_max_symbols_concurrent a), lc_journal = True,
                 lc_max_staleness_intervals = ap_max_staleness_intervals a,
                 lc_staleness_grace_seconds = ap_staleness_grace_seconds a, lc_json = js\<rparr> in
        ebind (new_signal_loop lc (ap_signal_loop_symbols a)) (\<lambda>l.
        Inr (Some \<lparr>pt_loop = l, pt_config = lc, pt_strategy = t\<rparr>))))"

definition plan_scalping ::
  "(pyfloat \<Rightarrow> pyfloat) \<Rightarrow> ((string \<times> pyfloat) list \<Rightarrow> string) \<Rightarrow> app_settings \<Rightarrow> exc + feed_task option"
where
  "plan_scalping lg js a =
     (if \<not> runs_scalping a then Inr None
      else
        ebind (new_feed_config (ap_scalping_symbols a) (ap_scalping_interval a) (ap_scalping_ws_window_size a)) (\<lambda>fc.
        ebind (build_scalping_strategy lg (ap_scalping_strategy a) (ap_min_rrr a)) (\<lambda>t.
        Inr (Some \<lparr>ft_feed = fc,
          ft_config = \<lparr>lc_interval = ap_scalping_interval a, lc_cooldown_seconds = ap_scalping_cooldown_seconds a,
            lc_max_symbols_concurrent = 1, lc_journal = True,
            lc_max_staleness_intervals = ap_max_staleness_intervals a,
            lc_staleness_grace_seconds = ap_staleness_grace_seconds a, lc_json = js\<rparr>,
          ft_strategy = t\<rparr>))))"

definition lifespan ::
  "(pyfloat \<Rightarrow> pyfloat) \<Rightarrow> ((string \<times> pyfloat) list \<Rightarrow> string) \<Rightarrow> app_settings \<Rightarrow> exc + app_plan"
where
  "lifespan lg js a =
     ebind (validate_runner_configuration a) (\<lambda>_.
     ebind (plan_polling js a) (\<lambda>polling.
     ebind (plan_scalping lg js a) (\<lambda>scalping.
     Inr \<lparr>pl_spot_exit_monitor = (ap_trading_mode a \<noteq> ''shadow''), pl_polling = polling,
          pl_scalping = scalping,
          pl_grid_symbols = (if ap_active_strategy a = ''grid'' then Some (ap_grid_symbols a) else None)\<rparr>)))"

text \<open>
  \<^verbatim>\<open>create_app\<close> refuses a short secret.  Without pybit a client takes the exchange's
  place that answers every call with an error.
\<close>

definition admin_secret_ok :: "app_settings \<Rightarrow> exc + unit" where
  "admin_secret_ok a = (if length (ap_admin_jwt_secret a) < 32 then Inl ValueError else Inr ())"

definition null_rest_client :: exchange where
  "null_rest_client = \<lparr>ex_place = (\<lambda>_ _. Inl RuntimeError), ex_cancel = (\<lambda>_ _ _ _. Inl RuntimeError),
     ex_order_status = (\<lambda>_ _ _ _. Inl RuntimeError), ex_wallet = (\<lambda>_. Inl RuntimeError),
     ex_instrument = (\<lambda>_ _. Inl RuntimeError), ex_ticker_price = (\<lambda>_ _. Inl RuntimeError)\<rparr>"

text \<open>\<^verbatim>\<open>GET /health\<close>\<close>

definition health_check :: "app_settings \<Rightarrow> string \<times> string \<times> string \<times> bool \<times> bool" where
  "health_check a = (''ok'', ap_trading_mode a, ap_environment a, ap_bybit_testnet a, active_api_key a \<noteq> [])"

subsection \<open>What the settings guarantee\<close>

lemma parsed_symbols_clean:
  "parse_symbol_lists rep v = Inr ss \<Longrightarrow> s \<in> set ss \<Longrightarrow> clean_symbol s = s"
  by (auto simp: parse_symbol_lists_def split_symbols_def clean_symbol_def normalize_symbol_idem
      split: json.splits if_splits)

lemma loaded_symbols:
  assumes "load_settings rep rw a0 = Inr a"
  shows "\<forall>s \<in> set (ap_signal_loop_symbols a) \<union> set (ap_scalping_symbols a) \<union> set (ap_grid_symbols a). clean_symbol s = s"
  using assms
  by (auto simp: load_settings_def ebind_Inr_iff api_keys_required_outside_shadow_def
      split: if_splits dest: parsed_symbols_clean)

lemma update_key_set: "fst ` set (AList.update k v m) = insert k (fst ` set m)"
  by (induction m) auto

lemma loop_symbols: "new_signal_loop lc ss = Inr l \<Longrightarrow> set (map fst (sl_states l)) = set ss"
proof -
  have "fst ` set (foldl (\<lambda>m s. AList.update s (f s) m) m ss) = fst ` set m \<union> set ss"
    for f :: "string \<Rightarrow> symbol_state" and m
    by (induction ss arbitrary: m) (auto simp: update_key_set)
  from this[of "new_symbol_state (lc_cooldown_seconds lc)" "[]"]
  moreover have "new_signal_loop lc ss = Inr l \<Longrightarrow>
      sl_states l = foldl (\<lambda>m s. AList.update s (new_symbol_state (lc_cooldown_seconds lc) s) m) [] ss"
    by (auto simp: new_signal_loop_def split: if_splits)
  ultimately show "new_signal_loop lc ss = Inr l \<Longrightarrow> ?thesis" by simp
qed

text \<open>
  C31: An application that starts never trades a symbol from two loops: when both loops run, which
  is only without an active strategy, their symbols are disjoint, and with the grid as the active
  strategy neither runs.  And every symbol of a loop is in the normal form in which the journal
  keeps the results of a symbol, so the blacklist looks where they were counted.
\<close>

theorem runners_never_share_a_symbol:
  assumes "load_settings rep rw a0 = Inr a" "lifespan lg js a = Inr p"
  shows "(\<forall>t f. pl_polling p = Some t \<and> pl_scalping p = Some f \<longrightarrow>
      ap_active_strategy a = [] \<and>
      set (map fst (sl_states (pt_loop t))) \<inter> set (fc_symbols (ft_feed f)) = {})
    \<and> (pl_grid_symbols p \<noteq> None \<longrightarrow> pl_polling p = None \<and> pl_scalping p = None)
    \<and> (\<forall>t s. pl_polling p = Some t \<and> s \<in> set (map fst (sl_states (pt_loop t))) \<longrightarrow> clean_symbol s = s)
    \<and> (\<forall>f s. pl_scalping p = Some f \<and> s \<in> set (fc_symbols (ft_feed f)) \<longrightarrow> clean_symbol s = s)"
proof -
  from assms(2) have valid: "validate_runner_configuration a = Inr ()"
    and polling: "plan_polling js a = Inr (pl_polling p)"
    and scalping: "plan_scalping lg js a = Inr (pl_scalping p)"
    and grid: "pl_grid_symbols p = (if ap_active_strategy a = ''grid'' then Some (ap_grid_symbols a) else None)"
    by (auto simp: lifespan_def ebind_Inr_iff)
  have polled: "runs_signal_loop a \<and> set (map fst (sl_states (pt_loop t))) = set (ap_signal_loop_symbols a)"
    if "pl_polling p = Some t" for t
    using polling that loop_symbols
    by (auto simp: plan_polling_def ebind_Inr_iff Let_def simp del: set_map split: if_splits)
  have scalped: "runs_scalping a \<and> fc_symbols (ft_feed f) = ap_scalping_symbols a"
    if "pl_scalping p = Some f" for f
    using scalping that
    by (auto simp: plan_scalping_def ebind_Inr_iff new_feed_config_def split: if_splits)
  have both: "ap_active_strategy a = [] \<and> set (ap_signal_loop_symbols a) \<inter> set (ap_scalping_symbols a) = {}"
    if "runs_signal_loop a" "runs_scalping a"
    using that valid
    by (auto simp: validate_runner_configuration_def runs_signal_loop_def runs_scalping_def split: if_splits)
  have alone: "\<not> runs_signal_loop a \<and> \<not> runs_scalping a" if "ap_active_strategy a = ''grid''"
    using that by (simp add: runs_signal_loop_def runs_scalping_def)
  have "pl_polling p = None \<and> pl_scalping p = None" if "pl_grid_symbols p \<noteq> None"
    using that grid alone polling scalping
    by (auto simp: plan_polling_def plan_scalping_def split: if_splits)
  moreover have "clean_symbol s = s"
    if "pl_polling p = Some t" "s \<in> set (map fst (sl_states (pt_loop t)))" for t s
    using polled[OF that(1)] that(2) loaded_symbols[OF assms(1)] by blast
  moreover have "clean_symbol s = s"
    if "pl_scalping p = Some f" "s \<in> set (fc_symbols (ft_feed f))" for f s
    using scalped[OF that(1)] that(2) loaded_symbols[OF assms(1)] by auto
  moreover have "ap_active_strategy a = [] \<and> set (map fst (sl_states (pt_loop t))) \<inter> set (fc_symbols (ft_feed f)) = {}"
    if "pl_polling p = Some t" "pl_scalping p = Some f" for t f
    using both polled[OF that(1)] scalped[OF that(2)] by simp
  ultimately show ?thesis by blast
qed

definition sample_raw :: raw_settings where
  "sample_raw = \<lparr>rw_debug = JText (plain_text ''on''), rw_signal_loop_symbols = JText (plain_text '' btcusdt, ethusdt''),
     rw_scalping_symbols = JText (plain_text ''solusdt''), rw_grid_symbols = JNull,
     rw_active_strategy = JNull\<rparr>"

definition sample_settings :: app_settings where
  "sample_settings = \<lparr>ap_bybit_testnet = True, ap_bybit_api_key = [], ap_bybit_api_secret = [],
     ap_bybit_testnet_api_key = [], ap_bybit_testnet_api_secret = [], ap_database_url = ''db'',
     ap_trading_mode = ''shadow'', ap_environment = ''development'', ap_debug = True,
     ap_signal_loop_enabled = True, ap_signal_loop_symbols = [], ap_signal_loop_strategy = ''ema_crossover'',
     ap_signal_loop_interval = ''15'', ap_signal_loop_cooldown_seconds = 300,
     ap_signal_loop_max_symbols_concurrent = 5, ap_scalping_enabled = True, ap_scalping_symbols = [],
     ap_scalping_interval = ''5'', ap_scalping_ws_window_size = 50, ap_scalping_cooldown_seconds = 120,
     ap_scalping_strategy = ''vwap_reversion'', ap_grid_symbols = [], ap_active_strategy = [],
     ap_canary_risk_multiplier = 1 / 4, ap_min_rrr = 2, ap_max_staleness_intervals = 2,
     ap_staleness_grace_seconds = 15, ap_admin_jwt_secret = []\<rparr>"

definition sample_loaded :: app_settings where
  "sample_loaded = sample_settings\<lparr>ap_signal_loop_symbols := [''BTCUSDT'', ''ETHUSDT''],
     ap_scalping_symbols := [''SOLUSDT'']\<rparr>"

theorem runners_never_share_a_symbol_witness:
  "\<exists>p t f. lifespan id (\<lambda>_. []) sample_loaded = Inr p \<and> pl_polling p = Some t \<and> pl_scalping p = Some f
     \<and> set (map fst (sl_states (pt_loop t))) \<inter> set (fc_symbols (ft_feed f)) = {}"
proof -
  have load: "load_settings (\<lambda>_. []) sample_raw sample_settings = Inr sample_loaded" by code_simp
  have starts: "map_option (\<lambda>_. ()) (case lifespan id (\<lambda>_. []) sample_loaded of Inr p \<Rightarrow> pl_polling p | _ \<Rightarrow> None) = Some ()"
    "map_option (\<lambda>_. ()) (case lifespan id (\<lambda>_. []) sample_loaded of Inr p \<Rightarrow> pl_scalping p | _ \<Rightarrow> None) = Some ()"
    by code_simp+
  then obtain p t f where p: "lifespan id (\<lambda>_. []) sample_loaded = Inr p"
    and tf: "pl_polling p = Some t" "pl_scalping p = Some f"
    by (auto split: sum.splits)
  from runners_never_share_a_symbol[OF load p] tf
  have "set (map fst (sl_states (pt_loop t))) \<inter> set (fc_symbols (ft_feed f)) = {}" by blast
  with p tf show ?thesis by (intro exI conjI)
qed

text \<open>
  The default window of the feed holds fifty candles, and nothing compares it with what the strategy
  needs: five of the seven scalping strategies refuse every snapshot of such a window.
\<close>

theorem default_window_starves_strategies:
  assumes "name \<in> {''rsi_divergence'', ''ema_pullback'', ''breakout'', ''ts_momentum'', ''bb_squeeze''}"
    and "build_scalping_strategy lg name m = Inr t" "length (ms_candles s) = 50"
  shows "generate_signal t s = Inl ValueError"
proof -
  have short: "validate_snapshot n s = Inl ValueError" if "50 < n" for n
    using that assms(3) by (simp add: validate_snapshot_def closes_def)
  have lower: "py_lower (py_strip n) = n"
    if "n \<in> {''rsi_divergence'', ''ema_pullback'', ''breakout'', ''ts_momentum'', ''bb_squeeze''}" for n
    using that by (elim insertE emptyE; hypsubst) code_simp+
  have counts: "divergence_candle_count (new_rsi_divergence m) = 53"
    "pullback_candle_count (new_ema_pullback m) = 69" "breakout_candle_count (new_breakout m) = 51"
    "momentum_candle_count (new_ts_momentum m) = 293" "squeeze_candle_count (new_bb_squeeze m) = 89"
    by code_simp+
  show ?thesis
    using assms(1) assms(2)[unfolded build_scalping_strategy_def lower[OF assms(1)] Let_def]
    by (auto simp: divergence_generate_def pullback_generate_def breakout_generate_def
        momentum_generate_def compute_momentum_score_def squeeze_generate_def short counts)
qed

end
