(* ===== verification/BacktestSimulation.thy ===== *)
theory BacktestSimulation
  imports Market
begin

text \<open>
  \<^verbatim>\<open>backend/backtest/simulation_execution_service.py\<close>: the execution of one
  signal against the candles that follow it.  The draws of \<^verbatim>\<open>Random(0)\<close> are the
  parameter \<open>rnd\<close>, by their number; a function that may draw takes the number of draws made
  and returns the new one.
\<close>

subsection \<open>Configuration\<close>

datatype market_mode = Spot | Derivatives

record simulation =
  sim_max_hold_candles :: nat
  sim_risk_amount :: decimal
  sim_maker_fee_rate :: decimal
  sim_taker_fee_rate :: decimal
  sim_maker_fill_probability :: pyfloat
  sim_spread_bps :: decimal
  sim_slippage_bps :: decimal
  sim_one_bar_execution_delay :: bool
  sim_market_mode :: market_mode
  sim_virtual_equity :: decimal
  sim_default_min_notional :: decimal
  sim_min_notional_by_symbol :: "(string \<times> decimal) list"

definition default_spot_min_notionals :: "(string \<times> decimal) list" where
  "default_spot_min_notionals = [(''BTCUSDT'', 5), (''ETHUSDT'', 5), (''SOLUSDT'', 5), (''XRPUSDT'', 5)]"

text \<open>
  The constructor; the caller's table comes as normalized symbols and Decimals, and its last
  entry for a symbol counts.
\<close>

definition new_simulation ::
  "nat \<Rightarrow> pyfloat \<Rightarrow> pyfloat option \<Rightarrow> bool \<Rightarrow> decimal \<Rightarrow> decimal \<Rightarrow> pyfloat \<Rightarrow> decimal \<Rightarrow> decimal \<Rightarrow> bool
    \<Rightarrow> market_mode \<Rightarrow> pyfloat \<Rightarrow> (string \<times> decimal) list \<Rightarrow> decimal \<Rightarrow> simulation"
where
  "new_simulation hold risk fee legacy maker taker fill spread slip delay mode equity table default_notional =
     (let s = \<lparr>sim_max_hold_candles = hold, sim_risk_amount = dec_of_float risk,
          sim_maker_fee_rate = (case fee of Some f \<Rightarrow> dec_of_float f | None \<Rightarrow> maker),
          sim_taker_fee_rate = (case fee of Some f \<Rightarrow> dec_of_float f | None \<Rightarrow> taker),
          sim_maker_fill_probability = fill, sim_spread_bps = spread, sim_slippage_bps = slip,
          sim_one_bar_execution_delay = delay, sim_market_mode = mode,
          sim_virtual_equity = dec_of_float equity, sim_default_min_notional = default_notional,
          sim_min_notional_by_symbol =
            rev (map (\<lambda>(k, v). (py_upper (py_strip k), v)) table) @ default_spot_min_notionals\<rparr>
      in if fee \<noteq> None \<and> legacy
         then s\<lparr>sim_maker_fill_probability := 1, sim_spread_bps := 0, sim_slippage_bps := 0,
                sim_one_bar_execution_delay := False\<rparr>
         else s)"

record sim_result =
  xr_realized_pnl :: decimal
  xr_fees_paid :: decimal
  xr_slippage :: decimal
  xr_exit_reason :: string
  xr_hold_candles :: nat
  xr_qty :: decimal
  xr_closed_at_step :: int
  xr_entry_price :: decimal
  xr_exit_price :: decimal
  xr_status :: string
  xr_rejected_short_signal :: bool
  xr_skipped_min_notional :: bool
  xr_skipped_insufficient_capital :: bool
  xr_ambiguous_candle :: bool

text \<open>A trade that was never open: the price is both entry and exit.\<close>

definition flat_result :: "string \<Rightarrow> int \<Rightarrow> decimal \<Rightarrow> sim_result" where
  "flat_result reason step price =
     \<lparr>xr_realized_pnl = 0, xr_fees_paid = 0, xr_slippage = 0, xr_exit_reason = reason,
      xr_hold_candles = 0, xr_qty = 0, xr_closed_at_step = step, xr_entry_price = price,
      xr_exit_price = price, xr_status = ''closed'', xr_rejected_short_signal = False,
      xr_skipped_min_notional = False, xr_skipped_insufficient_capital = False,
      xr_ambiguous_candle = False\<rparr>"

definition build_skipped_result :: "decimal \<Rightarrow> int \<Rightarrow> string \<Rightarrow> bool \<Rightarrow> bool \<Rightarrow> bool \<Rightarrow> sim_result" where
  "build_skipped_result price step reason short notional capital =
     (flat_result reason step price)\<lparr>xr_status := ''skipped'', xr_rejected_short_signal := short,
        xr_skipped_min_notional := notional, xr_skipped_insufficient_capital := capital\<rparr>"

record prepared_execution =
  pe_raw_entry_price :: decimal
  pe_entry_price :: decimal
  pe_entry_fee_rate :: decimal
  pe_stop :: decimal
  pe_target :: decimal
  pe_qty :: decimal

subsection \<open>Prices, fees and results\<close>

definition apply_spread :: "decimal \<Rightarrow> exchange_side \<Rightarrow> decimal \<Rightarrow> decimal" where
  "apply_spread price side bps = (let move = ddiv (dmul price bps) 10000 in
     if side = BUY then dadd price move else dsub price move)"

definition entry_side :: "signal_direction \<Rightarrow> exchange_side" where
  "entry_side d = (if d = LONG then BUY else SELL)"

definition exit_side :: "signal_direction \<Rightarrow> exchange_side" where
  "exit_side d = (if d = LONG then SELL else BUY)"

definition apply_slippage :: "simulation \<Rightarrow> decimal \<Rightarrow> signal_direction \<Rightarrow> decimal" where
  "apply_slippage s price d = (let move = ddiv (dmul price (sim_slippage_bps s)) 10000 in
     if d = LONG then dsub price move else dadd price move)"

definition maker_fill :: "simulation \<Rightarrow> (nat \<Rightarrow> pyfloat) \<Rightarrow> nat \<Rightarrow> bool \<times> nat" where
  "maker_fill s rnd n =
     (if sim_maker_fill_probability s \<le> 0 then (False, n)
      else if 1 \<le> sim_maker_fill_probability s then (True, n)
      else (rnd n < sim_maker_fill_probability s, Suc n))"

definition calculate_fees :: "decimal \<Rightarrow> decimal \<Rightarrow> decimal \<Rightarrow> decimal \<Rightarrow> decimal \<Rightarrow> decimal" where
  "calculate_fees entry exit qty entry_rate exit_rate =
     (if qty \<le> 0 then 0
      else dadd (dmul (dmul entry qty) entry_rate) (dmul (dmul exit qty) exit_rate))"

definition simulated_pnl :: "signal_direction \<Rightarrow> decimal \<Rightarrow> decimal \<Rightarrow> decimal \<Rightarrow> decimal" where
  "simulated_pnl d entry exit qty =
     (if qty \<le> 0 then 0 else if d = LONG then dmul (dsub exit entry) qty else dmul (dsub entry exit) qty)"

definition resolve_min_notional :: "simulation \<Rightarrow> string \<Rightarrow> decimal" where
  "resolve_min_notional s symbol =
     (case map_of (sim_min_notional_by_symbol s) (py_upper (py_strip symbol)) of
        Some x \<Rightarrow> x | None \<Rightarrow> sim_default_min_notional s)"

definition resolve_stop_exit_price :: "decimal \<Rightarrow> decimal \<Rightarrow> signal_direction \<Rightarrow> decimal" where
  "resolve_stop_exit_price stop opened d =
     (if d = LONG \<and> opened < stop then opened else if d = SHORT \<and> stop < opened then opened else stop)"

definition build_sim_result ::
  "signal_direction \<Rightarrow> prepared_execution \<Rightarrow> decimal \<Rightarrow> decimal \<Rightarrow> decimal \<Rightarrow> string \<Rightarrow> nat \<Rightarrow> int \<Rightarrow> bool
    \<Rightarrow> sim_result"
where
  "build_sim_result d p raw_exit exit exit_rate reason hold closed_at ambiguous =
     \<lparr>xr_realized_pnl = simulated_pnl d (pe_entry_price p) exit (pe_qty p),
      xr_fees_paid = calculate_fees (pe_entry_price p) exit (pe_qty p) (pe_entry_fee_rate p) exit_rate,
      xr_slippage = dadd (dc \<bar>dsub (pe_entry_price p) (pe_raw_entry_price p)\<bar>) (dc \<bar>dsub exit raw_exit\<bar>),
      xr_exit_reason = reason, xr_hold_candles = hold, xr_qty = pe_qty p,
      xr_closed_at_step = closed_at, xr_entry_price = pe_entry_price p, xr_exit_price = exit,
      xr_status = ''closed'', xr_rejected_short_signal = False, xr_skipped_min_notional = False,
      xr_skipped_insufficient_capital = False, xr_ambiguous_candle = ambiguous\<rparr>"

subsection \<open>Entry\<close>

definition maybe_skip_spot_short :: "simulation \<Rightarrow> signal_request \<Rightarrow> decimal \<Rightarrow> int \<Rightarrow> sim_result option" where
  "maybe_skip_spot_short s g entry step =
     (if sim_market_mode s \<noteq> Spot \<or> rs_direction g \<noteq> SHORT then None
      else Some (build_skipped_result entry step ''rejected_short_signal'' True False False))"

definition resolve_entry_price :: "simulation \<Rightarrow> signal_request \<Rightarrow> market_candle list \<Rightarrow> decimal" where
  "resolve_entry_price s g future =
     (if sim_one_bar_execution_delay s then dec_of_float (mc_open (hd future))
      else dec_of_float (rs_entry g))"

definition maybe_skip_spot_constraints ::
  "simulation \<Rightarrow> signal_request \<Rightarrow> int \<Rightarrow> decimal \<Rightarrow> decimal \<Rightarrow> sim_result option"
where
  "maybe_skip_spot_constraints s g step entry qty =
     (if sim_market_mode s \<noteq> Spot then None
      else let notional = dmul entry qty in
        if notional < resolve_min_notional s (rs_symbol g)
          then Some (build_skipped_result entry step ''min_notional'' False True False)
        else if sim_virtual_equity s < notional
          then Some (build_skipped_result entry step ''insufficient_capital'' False False True)
        else None)"

text \<open>A prepared execution, or the result that ends the trade before it is open.\<close>

definition prepare_execution ::
  "simulation \<Rightarrow> (nat \<Rightarrow> pyfloat) \<Rightarrow> signal_request \<Rightarrow> market_candle list \<Rightarrow> int \<Rightarrow> nat
    \<Rightarrow> (sim_result + prepared_execution) \<times> nat"
where
  "prepare_execution s rnd g future step n =
     (let raw = resolve_entry_price s g future in
      case maker_fill s rnd n of (is_maker, n') \<Rightarrow>
      let rate = (if is_maker then sim_maker_fee_rate s else sim_taker_fee_rate s);
          entry = apply_spread raw (entry_side (rs_direction g))
                    (if is_maker then 0 else ddiv (sim_spread_bps s) 2);
          stop = dec_of_float (rs_stop g); target = dec_of_float (rs_target g);
          risk = dc \<bar>dsub entry stop\<bar>;
          qty = (if risk \<noteq> 0 then ddiv (sim_risk_amount s) risk else 0) in
      (if qty \<le> 0 then Inl (flat_result ''timeout'' step entry)
       else case maybe_skip_spot_constraints s g step entry qty of
              Some r \<Rightarrow> Inl r
            | None \<Rightarrow> Inr \<lparr>pe_raw_entry_price = raw, pe_entry_price = entry, pe_entry_fee_rate = rate,
                             pe_stop = stop, pe_target = target, pe_qty = qty\<rparr>,
       n'))"

subsection \<open>Exit\<close>

definition stop_hit :: "signal_direction \<Rightarrow> decimal \<Rightarrow> market_candle \<Rightarrow> bool" where
  "stop_hit d stop c = (if d = LONG then dec_of_float (mc_low c) \<le> stop else stop \<le> dec_of_float (mc_high c))"

definition target_hit :: "signal_direction \<Rightarrow> decimal \<Rightarrow> market_candle \<Rightarrow> bool" where
  "target_hit d target c =
     (if d = LONG then target \<le> dec_of_float (mc_high c) else dec_of_float (mc_low c) \<le> target)"

definition build_stop_result ::
  "simulation \<Rightarrow> signal_request \<Rightarrow> decimal \<Rightarrow> nat \<Rightarrow> int \<Rightarrow> prepared_execution \<Rightarrow> bool \<Rightarrow> sim_result"
where
  "build_stop_result s g opened hold closed_at p ambiguous =
     (let raw = resolve_stop_exit_price (pe_stop p) opened (rs_direction g) in
      build_sim_result (rs_direction g) p raw (apply_slippage s raw (rs_direction g))
        (sim_taker_fee_rate s) ''sl_hit'' hold closed_at ambiguous)"

definition build_target_result ::
  "simulation \<Rightarrow> (nat \<Rightarrow> pyfloat) \<Rightarrow> signal_request \<Rightarrow> nat \<Rightarrow> int \<Rightarrow> prepared_execution \<Rightarrow> nat \<Rightarrow> sim_result \<times> nat"
where
  "build_target_result s rnd g hold closed_at p n =
     (case maker_fill s rnd n of (is_maker, n') \<Rightarrow>
        (build_sim_result (rs_direction g) p (pe_target p)
           (apply_spread (pe_target p) (exit_side (rs_direction g))
              (if is_maker then 0 else ddiv (sim_spread_bps s) 2))
           (if is_maker then sim_maker_fee_rate s else sim_taker_fee_rate s)
           ''tp_hit'' hold closed_at False, n'))"

definition evaluate_candle_exit ::
  "simulation \<Rightarrow> (nat \<Rightarrow> pyfloat) \<Rightarrow> signal_request \<Rightarrow> market_candle \<Rightarrow> nat \<Rightarrow> int \<Rightarrow> prepared_execution \<Rightarrow> nat
    \<Rightarrow> sim_result option \<times> nat"
where
  "evaluate_candle_exit s rnd g c index step p n =
     (let hold = index + 1; closed_at = step + int hold;
          stopped = stop_hit (rs_direction g) (pe_stop p) c;
          reached = target_hit (rs_direction g) (pe_target p) c in
      if \<not> stopped \<and> \<not> reached then (None, n)
      else if stopped then
        (Some (build_stop_result s g (dec_of_float (mc_open c)) hold closed_at p reached), n)
      else (case build_target_result s rnd g hold closed_at p n of (r, n') \<Rightarrow> (Some r, n')))"

definition build_timeout_result ::
  "simulation \<Rightarrow> signal_request \<Rightarrow> market_candle list \<Rightarrow> int \<Rightarrow> prepared_execution \<Rightarrow> sim_result"
where
  "build_timeout_result s g future step p =
     (let hold = min (sim_max_hold_candles s) (length future);
          raw = dec_of_float (mc_close (if hold = 0 then last future else future ! (hold - 1)))
      in build_sim_result (rs_direction g) p raw (apply_slippage s raw (rs_direction g))
           (sim_taker_fee_rate s) ''timeout'' hold (step + int hold) False)"

text \<open>The loop over the candles it may be held for.\<close>

fun exit_loop ::
  "simulation \<Rightarrow> (nat \<Rightarrow> pyfloat) \<Rightarrow> signal_request \<Rightarrow> int \<Rightarrow> prepared_execution \<Rightarrow> nat \<Rightarrow> market_candle list \<Rightarrow> nat
    \<Rightarrow> sim_result option \<times> nat"
where
  "exit_loop s rnd g step p index [] n = (None, n)"
| "exit_loop s rnd g step p index (c # cs) n =
     (case evaluate_candle_exit s rnd g c index step p n of
        (Some r, n') \<Rightarrow> (Some r, n')
      | (None, n') \<Rightarrow> exit_loop s rnd g step p (index + 1) cs n')"

definition execute_replay_signal ::
  "simulation \<Rightarrow> (nat \<Rightarrow> pyfloat) \<Rightarrow> signal_request \<Rightarrow> market_candle list \<Rightarrow> int \<Rightarrow> nat \<Rightarrow> sim_result \<times> nat"
where
  "execute_replay_signal s rnd g future step n =
     (let entry = dec_of_float (rs_entry g) in
      case maybe_skip_spot_short s g entry step of
        Some r \<Rightarrow> (r, n)
      | None \<Rightarrow>
          if future = [] then (flat_result ''timeout'' step entry, n)
          else (case prepare_execution s rnd g future step n of
                  (Inl r, n') \<Rightarrow> (r, n')
                | (Inr p, n') \<Rightarrow>
                    (case exit_loop s rnd g step p 0 (take (sim_max_hold_candles s) future) n' of
                       (Some r, n'') \<Rightarrow> (r, n'')
                     | (None, n'') \<Rightarrow> (build_timeout_result s g future step p, n''))))"

subsection \<open>The first touch decides\<close>

definition touched :: "signal_request \<Rightarrow> market_candle \<Rightarrow> bool" where
  "touched g c \<longleftrightarrow> stop_hit (rs_direction g) (dec_of_float (rs_stop g)) c
     \<or> target_hit (rs_direction g) (dec_of_float (rs_target g)) c"

lemma prepare_levels:
  "prepare_execution s rnd g future step n = (Inr p, n')
    \<Longrightarrow> pe_stop p = dec_of_float (rs_stop g) \<and> pe_target p = dec_of_float (rs_target g) \<and> 0 < pe_qty p"
  by (auto simp: prepare_execution_def Let_def split: prod.splits if_splits option.splits)

lemma build_sim_result_simps [simp]:
  "xr_exit_reason (build_sim_result d p raw x rate re h c a) = re"
  "xr_hold_candles (build_sim_result d p raw x rate re h c a) = h"
  "xr_closed_at_step (build_sim_result d p raw x rate re h c a) = c"
  "xr_status (build_sim_result d p raw x rate re h c a) = ''closed''"
  "xr_ambiguous_candle (build_sim_result d p raw x rate re h c a) = a"
  "xr_exit_price (build_sim_result d p raw x rate re h c a) = x"
  by (simp_all add: build_sim_result_def)

text \<open>What the exit says of the candle it happened on.\<close>

definition exit_fits :: "simulation \<Rightarrow> signal_request \<Rightarrow> market_candle \<Rightarrow> sim_result \<Rightarrow> bool" where
  "exit_fits s g c r \<longleftrightarrow>
     (let d = rs_direction g; stop = dec_of_float (rs_stop g); target = dec_of_float (rs_target g) in
      (xr_exit_reason r = ''sl_hit'' \<and> stop_hit d stop c
         \<and> xr_ambiguous_candle r = target_hit d target c
         \<and> xr_exit_price r = apply_slippage s (if d = LONG then min stop (dec_of_float (mc_open c))
             else max stop (dec_of_float (mc_open c))) d)
      \<or> (xr_exit_reason r = ''tp_hit'' \<and> target_hit d target c \<and> \<not> stop_hit d stop c
         \<and> \<not> xr_ambiguous_candle r))"

lemma evaluate_untouched:
  assumes "pe_stop p = dec_of_float (rs_stop g)" "pe_target p = dec_of_float (rs_target g)" "\<not> touched g c"
  shows "evaluate_candle_exit s rnd g c i step p n = (None, n)"
  using assms by (simp add: evaluate_candle_exit_def touched_def Let_def)

lemma stop_exit_price:
  "resolve_stop_exit_price stop opened d = (if d = LONG then min stop opened else max stop opened)"
  by (cases d) (auto simp: resolve_stop_exit_price_def)

lemma evaluate_touched:
  assumes "pe_stop p = dec_of_float (rs_stop g)" "pe_target p = dec_of_float (rs_target g)" "touched g c"
  shows "\<exists>r n'. evaluate_candle_exit s rnd g c i step p n = (Some r, n')
      \<and> exit_fits s g c r \<and> xr_hold_candles r = i + 1 \<and> xr_closed_at_step r = step + int (i + 1)"
  using assms by (auto simp: evaluate_candle_exit_def touched_def Let_def exit_fits_def
      build_stop_result_def build_target_result_def stop_exit_price split: prod.splits)

lemma exit_loop_untouched:
  assumes p: "pe_stop p = dec_of_float (rs_stop g)" "pe_target p = dec_of_float (rs_target g)"
  shows "\<forall>c \<in> set cs. \<not> touched g c \<Longrightarrow> exit_loop s rnd g step p i cs n = (None, n)"
  by (induction cs arbitrary: i) (simp_all add: evaluate_untouched[OF p])

lemma exit_loop_touched:
  assumes p: "pe_stop p = dec_of_float (rs_stop g)" "pe_target p = dec_of_float (rs_target g)"
  shows "\<forall>c \<in> set cs. \<not> touched g c \<Longrightarrow> touched g c' \<Longrightarrow>
    exit_loop s rnd g step p i (cs @ c' # ds) n = evaluate_candle_exit s rnd g c' (i + length cs) step p n"
proof (induction cs arbitrary: i)
  case Nil
  then show ?case using evaluate_touched[OF p, of c' s rnd i step n] by auto
qed (simp add: evaluate_untouched[OF p])

lemma first_touch:
  obtains "\<forall>c \<in> set cs. \<not> touched g c"
  | as c bs where "cs = as @ c # bs" "\<forall>c \<in> set as. \<not> touched g c" "touched g c"
  using split_list_first_prop[of cs "touched g"] by blast

lemma held_not_short:
  assumes "execute_replay_signal s rnd g future step n = (r, n')" "0 < xr_hold_candles r"
  shows "maybe_skip_spot_short s g (dec_of_float (rs_entry g)) step = None"
  using assms by (auto simp: execute_replay_signal_def maybe_skip_spot_short_def Let_def
      build_skipped_result_def flat_result_def split: if_splits)

text \<open>The ways an execution ends: before it is open, at the first touch, or by the clock.\<close>

lemma simulation_cases:
  assumes run: "execute_replay_signal s rnd g future step n = (r, n')" and held: "0 < xr_hold_candles r"
  obtains (touch) as c bs p m where "take (sim_max_hold_candles s) future = as @ c # bs"
      "\<forall>c \<in> set as. \<not> touched g c" "touched g c" "prepare_execution s rnd g future step n = (Inr p, m)"
      "evaluate_candle_exit s rnd g c (length as) step p m = (Some r, n')" "exit_fits s g c r"
      "xr_hold_candles r = length as + 1" "xr_closed_at_step r = step + int (length as + 1)"
  | (timeout) p where "\<forall>c \<in> set (take (sim_max_hold_candles s) future). \<not> touched g c"
      "prepare_execution s rnd g future step n = (Inr p, n')" "r = build_timeout_result s g future step p"
proof -
  note short = held_not_short[OF run held]
  have f: "future \<noteq> []"
    using run held short by (auto simp: execute_replay_signal_def flat_result_def)
  obtain x m where x: "prepare_execution s rnd g future step n = (x, m)"
    by (cases "prepare_execution s rnd g future step n")
  obtain p where p: "x = Inr p"
  proof (cases x)
    case (Inl r')
    then have "r' = r" using run short f x by (simp add: execute_replay_signal_def)
    with x Inl held have False
      by (auto simp: prepare_execution_def Let_def flat_result_def maybe_skip_spot_constraints_def
          build_skipped_result_def split: prod.splits if_splits option.splits)
    then show ?thesis ..
  qed
  note lv = prepare_levels[OF x[unfolded p]]
  have loop: "(case exit_loop s rnd g step p 0 (take (sim_max_hold_candles s) future) m of
      (Some r, n'') \<Rightarrow> (r, n'') | (None, n'') \<Rightarrow> (build_timeout_result s g future step p, n'')) = (r, n')"
    using run short f x p by (simp add: execute_replay_signal_def)
  show ?thesis
  proof (rule first_touch[of "take (sim_max_hold_candles s) future" g])
    assume "\<forall>c \<in> set (take (sim_max_hold_candles s) future). \<not> touched g c"
    with exit_loop_untouched[OF _ _ this] lv loop x p show ?thesis by (intro timeout) auto
  next
    fix as c bs assume t: "take (sim_max_hold_candles s) future = as @ c # bs"
      "\<forall>c \<in> set as. \<not> touched g c" "touched g c"
    obtain r' k where e: "evaluate_candle_exit s rnd g c (length as) step p m = (Some r', k)"
      "exit_fits s g c r'" "xr_hold_candles r' = length as + 1" "xr_closed_at_step r' = step + int (length as + 1)"
      using evaluate_touched[OF _ _ t(3), of p s rnd "length as" step m] lv by auto
    with exit_loop_touched[OF _ _ t(2,3), of p s rnd step 0 bs m] lv loop t(1) have "r' = r" "k = n'" by auto
    with e t x p show ?thesis by (intro touch) simp_all
  qed
qed

lemma prepare_first_candle:
  "hd future' = hd future \<Longrightarrow> prepare_execution s rnd g future' step n = prepare_execution s rnd g future step n"
  by (simp add: prepare_execution_def resolve_entry_price_def)

lemma take_split:
  assumes "take m xs = as @ c # bs"
  shows "take (Suc (length as)) xs = as @ [c]" "Suc (length as) \<le> m" "Suc (length as) \<le> length xs"
proof -
  have "length (take m xs) = length as + 1 + length bs" by (simp only: assms) simp
  then show l: "Suc (length as) \<le> m" "Suc (length as) \<le> length xs" by simp_all
  have "take (Suc (length as)) (take m xs) = as @ [c]" by (simp only: assms) simp
  with l(1) show "take (Suc (length as)) xs = as @ [c]" by simp
qed

lemma prefix_of_longer:
  "take (Suc (length as)) xs = as @ [c] \<Longrightarrow> Suc (length as) \<le> m \<Longrightarrow> \<exists>bs. take m xs = as @ c # bs"
  by (metis append.assoc append_Cons append_Nil le_add_diff_inverse take_add)

lemma same_start:
  assumes "take h future' = take h future" "0 < h" "h \<le> length future"
  shows "future' \<noteq> []" "hd future' = hd future" "future' ! (h - 1) = future ! (h - 1)" "h \<le> length future'"
proof -
  show len: "h \<le> length future'" using arg_cong[OF assms(1), of length] assms(3) by simp
  then show "future' \<noteq> []" using assms(2) by auto
  show "hd future' = hd future" using assms len by (metis hd_take)
  show "future' ! (h - 1) = future ! (h - 1)"
    using nth_take[of "h - 1" h future'] nth_take[of "h - 1" h future] assms by simp
qed

lemma touch_is_stable:
  assumes run: "execute_replay_signal s rnd g future step n = (r, n')" and held: "0 < xr_hold_candles r"
    and touch: "take (sim_max_hold_candles s) future = as @ c # bs" "\<forall>x \<in> set as. \<not> touched g x" "touched g c"
      "prepare_execution s rnd g future step n = (Inr p, m)"
      "evaluate_candle_exit s rnd g c (length as) step p m = (Some r, n')" "xr_hold_candles r = length as + 1"
    and same: "take (xr_hold_candles r) future' = take (xr_hold_candles r) future"
  shows "execute_replay_signal s rnd g future' step n = (r, n')"
proof -
  note t = take_split[OF touch(1)]
  have f: "take (Suc (length as)) future' = as @ [c]" using same touch(6) t(1) by simp
  obtain bs' where bs': "take (sim_max_hold_candles s) future' = as @ c # bs'"
    using prefix_of_longer[OF f t(2)] by blast
  have "xr_hold_candles r \<le> length future" using t(3) touch(6) by simp
  note start = same_start[OF same held this]
  have "exit_loop s rnd g step p 0 (take (sim_max_hold_candles s) future') m = (Some r, n')"
    using exit_loop_touched[OF _ _ touch(2,3), of p s rnd step 0 bs' m] prepare_levels[OF touch(4)]
      touch(5) by (simp add: bs')
  then show ?thesis
    using held_not_short[OF run held] start(1) touch(4) prepare_first_candle[OF start(2), of s rnd g step n]
    by (simp add: execute_replay_signal_def)
qed

lemma timeout_is_stable:
  assumes run: "execute_replay_signal s rnd g future step n = (r, n')" and held: "0 < xr_hold_candles r"
    and timeout: "prepare_execution s rnd g future step n = (Inr p, n')" "r = build_timeout_result s g future step p"
    and h: "h = sim_max_hold_candles s" "0 < h" "h \<le> length future"
    and nt: "\<forall>x \<in> set (take h future). \<not> touched g x" and same: "take h future' = take h future"
  shows "execute_replay_signal s rnd g future' step n = (r, n')"
proof -
  note start = same_start[OF same h(2,3)]
  have loop: "exit_loop s rnd g step p 0 (take (sim_max_hold_candles s) future') n' = (None, n')"
    using exit_loop_untouched[of p g "take h future'"] prepare_levels[OF timeout(1)] nt
    by (simp add: same h(1)[symmetric])
  have "build_timeout_result s g future' step p = r"
    using start(3,4) h(2,3) by (simp add: timeout(2) build_timeout_result_def Let_def h(1)[symmetric])
  then show ?thesis
    using held_not_short[OF run held] start(1) timeout(1) prepare_first_candle[OF start(2), of s rnd g step n] loop
    by (simp add: execute_replay_signal_def)
qed

text \<open>
  C23: an open trade of the simulation ends at the first candle that touches its stop or its target
  and no later than it may be held.  When a candle touches both, the stop counts and the result
  says so; a gap through the stop is filled at the opening price, never at the better stop.  And
  the simulation does not look ahead: the candles after the exit do not change the result, unless
  the trade only ended because the data did.
\<close>

theorem simulation_exits_at_first_touch:
  assumes run: "execute_replay_signal s rnd g future step n = (r, n')" and held: "0 < xr_hold_candles r"
  shows "\<exists>before c. take (xr_hold_candles r) future = before @ [c] \<and> (\<forall>x \<in> set before. \<not> touched g x)
    \<and> xr_hold_candles r \<le> sim_max_hold_candles s \<and> xr_closed_at_step r = step + int (xr_hold_candles r)
    \<and> (if touched g c then exit_fits s g c r
       else xr_exit_reason r = ''timeout''
         \<and> xr_hold_candles r = min (sim_max_hold_candles s) (length future))
    \<and> (\<forall>future'. take (xr_hold_candles r) future' = take (xr_hold_candles r) future
         \<longrightarrow> touched g c \<or> xr_hold_candles r = sim_max_hold_candles s
         \<longrightarrow> execute_replay_signal s rnd g future' step n = (r, n'))"
  using run held
proof (cases rule: simulation_cases)
  case (touch as c bs p m)
  have "\<forall>future'. take (xr_hold_candles r) future' = take (xr_hold_candles r) future
      \<longrightarrow> execute_replay_signal s rnd g future' step n = (r, n')"
    using touch_is_stable[OF run held touch(1-5,7)] by blast
  with touch take_split[OF touch(1)] show ?thesis by (intro exI[of _ as] exI[of _ c]) simp
next
  case (timeout p)
  define h where "h = min (sim_max_hold_candles s) (length future)"
  have h: "xr_hold_candles r = h" "xr_exit_reason r = ''timeout''" "xr_closed_at_step r = step + int h"
    by (simp_all add: timeout(3) build_timeout_result_def Let_def h_def)
  have hl: "0 < h" "h \<le> length future" "h \<le> sim_max_hold_candles s" using held h by (simp_all add: h_def)
  have tk: "take h future = take (h - 1) future @ [future ! (h - 1)]"
    using hl take_Suc_conv_app_nth[of "h - 1" future] by simp
  have nt: "\<forall>x \<in> set (take h future). \<not> touched g x"
    using timeout(1) hl set_take_subset_set_take[of h "sim_max_hold_candles s" future] by blast
  then have last: "\<not> touched g (future ! (h - 1))" and before: "\<forall>x \<in> set (take (h - 1) future). \<not> touched g x"
    unfolding tk by simp_all
  have stable: "\<forall>future'. take h future' = take h future \<longrightarrow> touched g (future ! (h - 1)) \<or> h = sim_max_hold_candles s
      \<longrightarrow> execute_replay_signal s rnd g future' step n = (r, n')"
    using timeout_is_stable[OF run held timeout(2,3) _ hl(1,2) nt] last by blast
  show ?thesis unfolding h(1)
  proof (intro exI conjI)
    show "take h future = take (h - 1) future @ [future ! (h - 1)]" by (rule tk)
    show "if touched g (future ! (h - 1)) then exit_fits s g (future ! (h - 1)) r
      else xr_exit_reason r = ''timeout'' \<and> h = min (sim_max_hold_candles s) (length future)"
      using last h(2) h_def by simp
  qed (rule before hl(3) h(3) stable)+
qed

text \<open>A short candle series: the second candle touches both levels, so the stop counts.\<close>

definition sample_simulation :: simulation where
  "sample_simulation = new_simulation 3 4 (Some 0) True 0 0 0 0 0 False Spot 1000 [] 0"

definition sample_signal :: signal_request where
  "sample_signal = \<lparr>rs_symbol = ''BTCUSDT'', rs_direction = LONG, rs_entry = 8, rs_stop = 4, rs_target = 16,
     rs_reason = None, rs_strategy_version = None, rs_indicators_snapshot = None\<rparr>"

definition sample_future :: "market_candle list" where
  "sample_future = [new_market_candle 0 9 8 9 (Some 8) 1, new_market_candle 1 20 2 5 (Some 3) 1,
     new_market_candle 2 6 5 6 None 1]"

lemma sample_execution:
  "\<exists>r. execute_replay_signal sample_simulation (\<lambda>_. 0) sample_signal sample_future 5 0 = (r, 0)
    \<and> xr_hold_candles r = 2 \<and> xr_ambiguous_candle r"
proof -
  have "case execute_replay_signal sample_simulation (\<lambda>_. 0) sample_signal sample_future 5 0 of (r, n) \<Rightarrow>
    n = 0 \<and> xr_hold_candles r = 2 \<and> xr_ambiguous_candle r" by code_simp
  then show ?thesis by (auto split: prod.splits)
qed

theorem simulation_exits_at_first_touch_witness:
  "\<exists>r before c. execute_replay_signal sample_simulation (\<lambda>_. 0) sample_signal sample_future 5 0 = (r, 0)
    \<and> xr_ambiguous_candle r \<and> take 2 sample_future = before @ [c] \<and> (\<forall>x \<in> set before. \<not> touched sample_signal x)
    \<and> xr_closed_at_step r = 7"
proof -
  obtain r where r: "execute_replay_signal sample_simulation (\<lambda>_. 0) sample_signal sample_future 5 0 = (r, 0)"
    "xr_hold_candles r = 2" "xr_ambiguous_candle r" using sample_execution by blast
  from simulation_exits_at_first_touch[OF r(1)] r(2) obtain before c where
    "take 2 sample_future = before @ [c]" "\<forall>x \<in> set before. \<not> touched sample_signal x"
    "xr_closed_at_step r = 5 + int 2" by auto
  with r show ?thesis by auto
qed

end
