(* ===== verification/BacktestReplay.thy ===== *)
theory BacktestReplay
  imports BacktestSimulation StrategyEngine Json
begin

text \<open>
  \<^verbatim>\<open>backend/backtest/replay_runner.py\<close> and \<^verbatim>\<open>metrics.py\<close>: a
  strategy is replayed over historical candles, step by step, under the portfolio's limits, with
  an execution service that may keep a state of its own.  What a service returns is read by
  name, so an execution is a list of named values.
\<close>

subsection \<open>Executions read by name\<close>

datatype dyn = DNone | DBool bool | DInt int | DDecimal decimal | DFloat pyfloat | DText json_text | DOther

type_synonym execution_object = "(string \<times> dyn) list"

definition read_metric :: "execution_object \<Rightarrow> string \<Rightarrow> dyn" where
  "read_metric x k = (case map_of x k of Some v \<Rightarrow> v | None \<Rightarrow> DNone)"

definition read_bool :: "execution_object \<Rightarrow> string \<Rightarrow> bool" where
  "read_bool x k \<longleftrightarrow> read_metric x k = DBool True"

definition execution_was_executed :: "execution_object \<Rightarrow> bool" where
  "execution_was_executed x = (case read_metric x ''status'' of
     DText t \<Rightarrow> jt_chars t \<noteq> ''skipped'' | _ \<Rightarrow> True)"

fun coerce_decimal :: "dyn \<Rightarrow> exc + decimal option" where
  "coerce_decimal (DDecimal x) = Inr (Some x)"
| "coerce_decimal (DInt i) = Inr (Some (of_int i))"
| "coerce_decimal (DBool b) = Inr (Some (if b then 1 else 0))"
| "coerce_decimal (DFloat x) = Inr (Some (dec_of_float x))"
| "coerce_decimal (DText t) = (case jt_decimal t of Some x \<Rightarrow> Inr (Some x) | None \<Rightarrow> Inl InvalidOperation)"
| "coerce_decimal _ = Inr None"

fun coerce_int :: "dyn \<Rightarrow> int option" where
  "coerce_int (DInt i) = Some i"
| "coerce_int (DDecimal x) = Some (trunc0 x)"
| "coerce_int (DFloat x) = Some (trunc0 x)"
| "coerce_int (DText t) = jt_int t"
| "coerce_int _ = None"

definition resolve_close_step :: "execution_object \<Rightarrow> int \<Rightarrow> int" where
  "resolve_close_step x step =
     (case coerce_int (read_metric x ''closed_at_step'') of
        Some c \<Rightarrow> c
      | None \<Rightarrow> (case coerce_int (read_metric x ''hold_candles'') of None \<Rightarrow> step | Some h \<Rightarrow> step + h))"

definition net_trade_pnl :: "execution_object \<Rightarrow> exc + decimal option" where
  "net_trade_pnl x =
     ebind (coerce_decimal (read_metric x ''realized_pnl'')) (\<lambda>pnl.
     ebind (coerce_decimal (read_metric x ''fees_paid'')) (\<lambda>fees.
     Inr (case (pnl, fees) of
            (None, _) \<Rightarrow> None
          | (Some p, None) \<Rightarrow> Some p
          | (Some p, Some f) \<Rightarrow> Some (dsub p f))))"

text \<open>The simulation's result as such an object.\<close>

definition text_of_chars :: "string \<Rightarrow> dyn" where
  "text_of_chars s = DText (plain_text s)"

definition object_of_result :: "sim_result \<Rightarrow> execution_object" where
  "object_of_result r = [(''realized_pnl'', DDecimal (xr_realized_pnl r)),
     (''fees_paid'', DDecimal (xr_fees_paid r)), (''slippage'', DDecimal (xr_slippage r)),
     (''exit_reason'', text_of_chars (xr_exit_reason r)),
     (''hold_candles'', DInt (int (xr_hold_candles r))), (''qty'', DDecimal (xr_qty r)),
     (''closed_at_step'', DInt (xr_closed_at_step r)), (''entry_price'', DDecimal (xr_entry_price r)),
     (''exit_price'', DDecimal (xr_exit_price r)), (''status'', text_of_chars (xr_status r)),
     (''rejected_short_signal'', DBool (xr_rejected_short_signal r)),
     (''skipped_min_notional'', DBool (xr_skipped_min_notional r)),
     (''skipped_insufficient_capital'', DBool (xr_skipped_insufficient_capital r)),
     (''ambiguous_candle'', DBool (xr_ambiguous_candle r))]"

subsection \<open>Requests and steps\<close>

record replay_request =
  rp_symbol :: string
  rp_interval :: string
  rp_candles :: "market_candle list option"
  rp_snapshots :: "market_snapshot list option"
  rp_start_step :: "int option"
  rp_end_step :: "int option"

definition negative :: "int option \<Rightarrow> bool" where
  "negative o' = (case o' of Some i \<Rightarrow> i < 0 | None \<Rightarrow> False)"

definition normalize_replay_request :: "replay_request \<Rightarrow> exc + replay_request" where
  "normalize_replay_request q =
     (let symbol = py_upper (py_strip (rp_symbol q)); interval = py_strip (rp_interval q) in
      if symbol = [] then Inl ValueError
      else if interval = [] then Inl ValueError
      else if (rp_candles q = None) = (rp_snapshots q = None) then Inl ValueError
      else if negative (rp_start_step q) then Inl ValueError
      else if negative (rp_end_step q) then Inl ValueError
      else Inr (q\<lparr>rp_symbol := symbol, rp_interval := interval\<rparr>))"

definition build_snapshot_replay_steps ::
  "replay_request \<Rightarrow> market_snapshot list \<Rightarrow> exc + (int \<times> market_snapshot) list"
where
  "build_snapshot_replay_steps q ss =
     (let start = (case rp_start_step q of Some i \<Rightarrow> i | None \<Rightarrow> 0);
          stop = (case rp_end_step q of Some i \<Rightarrow> i | None \<Rightarrow> int (length ss)) in
      if stop < start then Inl ValueError
      else if int (length ss) < stop then Inl ValueError
      else Inr (map (\<lambda>i. (i, ss ! nat i)) [start..stop - 1]))"

definition build_candle_replay_steps ::
  "replay_request \<Rightarrow> market_candle list \<Rightarrow> nat \<Rightarrow> exc + (int \<times> market_snapshot) list"
where
  "build_candle_replay_steps q cs required =
     (if length cs < required then Inl ValueError
      else
        let minimum = int required - 1;
            start = (case rp_start_step q of Some i \<Rightarrow> i | None \<Rightarrow> minimum);
            stop = (case rp_end_step q of Some i \<Rightarrow> i | None \<Rightarrow> int (length cs)) in
        if start < minimum then Inl ValueError
        else if stop < start then Inl ValueError
        else if int (length cs) < stop then Inl ValueError
        else Inr (map (\<lambda>i. (i, \<lparr>ms_symbol = rp_symbol q, ms_interval = rp_interval q,
               ms_candles = drop (nat (i - int required + 1)) (take (nat (i + 1)) cs)\<rparr>))
             [start..stop - 1]))"

definition build_replay_steps :: "replay_request \<Rightarrow> nat \<Rightarrow> exc + (int \<times> market_snapshot) list" where
  "build_replay_steps q required = (case rp_snapshots q of
     Some ss \<Rightarrow> build_snapshot_replay_steps q ss
   | None \<Rightarrow> (case rp_candles q of
       Some cs \<Rightarrow> build_candle_replay_steps q cs required
     | None \<Rightarrow> Inl TypeError))"

definition future_candles_for_step :: "replay_request \<Rightarrow> int \<Rightarrow> market_candle list" where
  "future_candles_for_step q step = (case rp_candles q of
     None \<Rightarrow> [] | Some cs \<Rightarrow> drop (nat (step + 1)) cs)"

subsection \<open>The portfolio\<close>

text \<open>Dictionaries are association lists; a day is its date.\<close>

record open_position =
  op_symbol :: string
  op_direction :: string
  op_entry_price :: decimal
  op_stop_price :: decimal
  op_target_price :: decimal
  op_opened_at_step :: int
  op_planned_close_step :: int

record portfolio =
  pf_open_positions :: "(string \<times> open_position) list"
  pf_cooldown_until :: "(string \<times> int) list"
  pf_daily_trades :: "(date \<times> int) list"
  pf_consecutive_losses :: int
  pf_session_halted :: bool
  pf_current_date :: "date option"

record closure =
  cl_symbol :: string
  cl_close_step :: int
  cl_entry_date :: date
  cl_net_trade_pnl :: "decimal option"

type_synonym schedule = "(int \<times> closure list) list"

record limits =
  lm_max_open_positions :: int
  lm_max_trades_per_day :: int
  lm_cooldown_candles :: int
  lm_hard_pause_consecutive_losses :: int

definition default_limits :: limits where
  "default_limits = \<lparr>lm_max_open_positions = 1, lm_max_trades_per_day = 10, lm_cooldown_candles = 2,
     lm_hard_pause_consecutive_losses = 5\<rparr>"

definition get_or :: "('k \<times> 'v) list \<Rightarrow> 'k \<Rightarrow> 'v \<Rightarrow> 'v" where
  "get_or m k v = (case map_of m k of Some x \<Rightarrow> x | None \<Rightarrow> v)"

definition empty_portfolio :: portfolio where
  "empty_portfolio = \<lparr>pf_open_positions = [], pf_cooldown_until = [], pf_daily_trades = [],
     pf_consecutive_losses = 0, pf_session_halted = False, pf_current_date = None\<rparr>"

definition reset_daily_circuit_breaker :: "date \<Rightarrow> portfolio \<Rightarrow> portfolio" where
  "reset_daily_circuit_breaker dstr s =
     (if pf_current_date s = Some dstr then s
      else s\<lparr>pf_current_date := Some dstr, pf_consecutive_losses := 0, pf_session_halted := False\<rparr>)"

definition count_result :: "limits \<Rightarrow> decimal option \<Rightarrow> portfolio \<Rightarrow> portfolio" where
  "count_result l pnl s = (case pnl of
     None \<Rightarrow> s
   | Some x \<Rightarrow>
       if x < 0 then
         let n = pf_consecutive_losses s + 1 in
         s\<lparr>pf_consecutive_losses := n,
           pf_session_halted := pf_session_halted s \<or> lm_hard_pause_consecutive_losses l \<le> n\<rparr>
       else if 0 < x then s\<lparr>pf_consecutive_losses := 0\<rparr> else s)"

definition record_closed_trade :: "limits \<Rightarrow> closure \<Rightarrow> portfolio \<Rightarrow> portfolio" where
  "record_closed_trade l c s = count_result l (cl_net_trade_pnl c)
     (s\<lparr>pf_open_positions := AList.delete (cl_symbol c) (pf_open_positions s),
        pf_cooldown_until := AList.update (cl_symbol c) (cl_close_step c + lm_cooldown_candles l) (pf_cooldown_until s),
        pf_daily_trades := AList.update (cl_entry_date c)
          (get_or (pf_daily_trades s) (cl_entry_date c) 0 + 1) (pf_daily_trades s)\<rparr>)"

definition apply_scheduled_closures ::
  "limits \<Rightarrow> int \<Rightarrow> portfolio \<times> schedule \<Rightarrow> portfolio \<times> schedule"
where
  "apply_scheduled_closures l step ps =
     (foldl (\<lambda>s c. record_closed_trade l c s) (fst ps) (get_or (snd ps) step []),
      AList.delete step (snd ps))"

definition can_execute_signal :: "limits \<Rightarrow> strategy_signal \<Rightarrow> int \<Rightarrow> date \<Rightarrow> portfolio \<Rightarrow> bool" where
  "can_execute_signal l g step dstr s =
     (if pf_session_halted s then False
      else if map_of (pf_open_positions s) (sg_symbol g) \<noteq> None then False
      else if lm_max_open_positions l \<le> int (length (pf_open_positions s)) then False
      else if step \<le> get_or (pf_cooldown_until s) (sg_symbol g) (- 1) then False
      else get_or (pf_daily_trades s) dstr 0 < lm_max_trades_per_day l)"

definition track_execution ::
  "limits \<Rightarrow> strategy_signal \<Rightarrow> execution_object \<Rightarrow> int \<Rightarrow> date \<Rightarrow> portfolio \<times> schedule
    \<Rightarrow> exc + portfolio \<times> schedule"
where
  "track_execution l g x step dstr ps =
     (if \<not> execution_was_executed x then Inr ps
      else
        let close = resolve_close_step x step in
        ebind (coerce_decimal (read_metric x ''entry_price'')) (\<lambda>price.
        ebind (net_trade_pnl x) (\<lambda>pnl.
        let position = \<lparr>op_symbol = sg_symbol g, op_direction = sg_direction g,
              op_entry_price = (if truthy price then or_zero price else dec_of_float (sg_entry g)),
              op_stop_price = dec_of_float (sg_stop g), op_target_price = dec_of_float (sg_target g),
              op_opened_at_step = step, op_planned_close_step = close\<rparr>;
            s = (fst ps)\<lparr>pf_open_positions := AList.update (sg_symbol g) position (pf_open_positions (fst ps))\<rparr>;
            c = \<lparr>cl_symbol = sg_symbol g, cl_close_step = close, cl_entry_date = dstr, cl_net_trade_pnl = pnl\<rparr> in
        Inr (if close \<le> step then (record_closed_trade l c s, snd ps)
             else (s, AList.update close (get_or (snd ps) close [] @ [c]) (snd ps))))))"

subsection \<open>The replay\<close>

record 'x replay_step_row =
  rr_step_index :: int
  rr_snapshot :: market_snapshot
  rr_signal :: "strategy_signal option"
  rr_execution :: "'x option"

text \<open>
  The execution service over its own state \<open>'s\<close>, with results of a type \<open>'x\<close> of its own: with the
  candles to come and the step, or, like the application's, with the signal alone.
\<close>

datatype ('s, 'x) replay_service =
    ReplayContext "signal_request \<Rightarrow> market_candle list \<Rightarrow> int \<Rightarrow> ('s, 'x) prog"
  | PlainService "signal_request \<Rightarrow> ('s, 'x) prog"

fun run_service ::
  "('s, 'x) replay_service \<Rightarrow> replay_request \<Rightarrow> int \<Rightarrow> signal_request \<Rightarrow> ('s, 'x) prog"
where
  "run_service (ReplayContext f) q step p = f p (future_candles_for_step q step) step"
| "run_service (PlainService f) q step p = f p"

text \<open>\<open>view\<close> reads an execution by name.\<close>

type_synonym 'x replay_state = "(portfolio \<times> schedule) \<times> 'x replay_step_row list"

definition replay_one ::
  "('x \<Rightarrow> execution_object) \<Rightarrow> ((string \<times> pyfloat) list \<Rightarrow> string) \<Rightarrow> limits \<Rightarrow> generator \<Rightarrow> ('s, 'x) replay_service \<Rightarrow> replay_request
    \<Rightarrow> 'x replay_state \<Rightarrow> int \<times> market_snapshot \<Rightarrow> ('s, 'x replay_state) prog"
where
  "replay_one view json l gen svc q st is = (case is of (step, snap) \<Rightarrow>
     bnd (from_sum (nth_back (ms_candles snap) 1)) (\<lambda>c.
     let dstr = candle_day c;
         ps = apply_scheduled_closures l step
                (reset_daily_circuit_breaker dstr (fst (fst st)), snd (fst st)) in
     bnd (from_sum (gen snap)) (\<lambda>sg.
     case sg of
       None \<Rightarrow> ret (ps, snd st @ [\<lparr>rr_step_index = step, rr_snapshot = snap, rr_signal = None, rr_execution = None\<rparr>])
     | Some g \<Rightarrow>
         if can_execute_signal l g step dstr (fst ps) then
           bnd (from_sum (to_execute_signal_request json g)) (\<lambda>p.
           bnd (run_service svc q step p) (\<lambda>x.
           bnd (from_sum (track_execution l g (view x) step dstr ps)) (\<lambda>ps'.
           ret (ps', snd st @ [\<lparr>rr_step_index = step, rr_snapshot = snap, rr_signal = Some g, rr_execution = Some x\<rparr>]))))
         else ret (ps, snd st @ [\<lparr>rr_step_index = step, rr_snapshot = snap, rr_signal = Some g, rr_execution = None\<rparr>]))))"

fun replay_all ::
  "('x \<Rightarrow> execution_object) \<Rightarrow> ((string \<times> pyfloat) list \<Rightarrow> string) \<Rightarrow> limits \<Rightarrow> generator \<Rightarrow> ('s, 'x) replay_service \<Rightarrow> replay_request
    \<Rightarrow> 'x replay_state \<Rightarrow> (int \<times> market_snapshot) list \<Rightarrow> ('s, 'x replay_state) prog"
where
  "replay_all view json l gen svc q st [] = ret st"
| "replay_all view json l gen svc q st (x # xs) =
     bnd (replay_one view json l gen svc q st x) (\<lambda>st'. replay_all view json l gen svc q st' xs)"

subsection \<open>The report\<close>

text \<open>Equity, its peak and the deepest fall so far.\<close>

definition drawdown_step :: "decimal \<times> decimal \<times> decimal \<Rightarrow> decimal \<Rightarrow> decimal \<times> decimal \<times> decimal" where
  "drawdown_step s pnl = (case s of (equity, peak, dd) \<Rightarrow>
     let equity' = dadd equity pnl; peak' = max peak equity'
     in (equity', peak', max dd (dsub peak' equity')))"

definition calculate_max_drawdown :: "decimal list \<Rightarrow> decimal" where
  "calculate_max_drawdown pnls = snd (snd (foldl drawdown_step (0, 0, 0) pnls))"

record replay_metrics =
  rm_closed_trades :: nat
  rm_winning_trades :: nat
  rm_losing_trades :: nat
  rm_expectancy :: "decimal option"
  rm_win_rate :: "decimal option"
  rm_profit_factor :: "decimal option"
  rm_max_drawdown :: "decimal option"

record slippage_summary =
  sl_count :: nat
  sl_average :: decimal
  sl_minimum :: decimal
  sl_maximum :: decimal

record replay_counters =
  rc_rejected_short_signals :: nat
  rc_skipped_min_notional :: nat
  rc_skipped_insufficient_capital :: nat
  rc_ambiguous_candles :: nat

record replay_report =
  rp_metrics :: replay_metrics
  rp_slippage :: "slippage_summary option"
  rp_counters :: replay_counters

definition executions_of :: "'x replay_step_row list \<Rightarrow> 'x list" where
  "executions_of rows = List.map_filter rr_execution rows"

definition count_flag :: "string \<Rightarrow> execution_object list \<Rightarrow> nat" where
  "count_flag k xs = length (filter (\<lambda>x. read_bool x k) xs)"

definition collect_report_counters :: "execution_object list \<Rightarrow> replay_counters" where
  "collect_report_counters xs = (
     \<lparr>rc_rejected_short_signals = count_flag ''rejected_short_signal'' xs,
      rc_skipped_min_notional = count_flag ''skipped_min_notional'' xs,
      rc_skipped_insufficient_capital = count_flag ''skipped_insufficient_capital'' xs,
      rc_ambiguous_candles = count_flag ''ambiguous_candle'' xs\<rparr>)"

definition trade_outputs ::
  "execution_object \<Rightarrow> exc + decimal option \<times> decimal option"
where
  "trade_outputs x =
     ebind (coerce_decimal (read_metric x ''realized_pnl'')) (\<lambda>pnl.
     ebind (coerce_decimal (read_metric x ''slippage'')) (\<lambda>slip. Inr (pnl, slip)))"

definition collect_trade_outputs :: "execution_object list \<Rightarrow> exc + decimal list \<times> decimal list" where
  "collect_trade_outputs xs =
     ebind (emap trade_outputs (filter execution_was_executed xs)) (\<lambda>os.
     Inr (List.map_filter fst os, List.map_filter snd os))"

definition list_min :: "decimal list \<Rightarrow> decimal" where
  "list_min xs = foldl min (hd xs) (tl xs)"

definition list_max :: "decimal list \<Rightarrow> decimal" where
  "list_max xs = foldl max (hd xs) (tl xs)"

definition summarize_slippage :: "decimal list \<Rightarrow> slippage_summary option" where
  "summarize_slippage xs = (if xs = [] then None
     else Some \<lparr>sl_count = length xs, sl_average = ddiv (dsum xs) (of_nat (length xs)),
            sl_minimum = list_min xs, sl_maximum = list_max xs\<rparr>)"

text \<open>No number for no trades; the losses of the profit factor do not add up to zero.\<close>

definition replay_metrics_of :: "decimal list \<Rightarrow> replay_metrics" where
  "replay_metrics_of pnls =
     (let wins = filter (\<lambda>x. 0 < x) pnls; losses = filter (\<lambda>x. x < 0) pnls; n = length pnls in
      \<lparr>rm_closed_trades = n, rm_winning_trades = length wins, rm_losing_trades = length losses,
       rm_expectancy = (if n = 0 then None else Some (ddiv (dsum pnls) (of_nat n))),
       rm_win_rate = (if n = 0 then None else Some (ddiv (of_nat (length wins)) (of_nat n))),
       rm_profit_factor = (if losses = [] then None else Some (ddiv (dsum wins) (dc \<bar>dsum losses\<bar>))),
       rm_max_drawdown = (if n = 0 then None else Some (calculate_max_drawdown pnls))\<rparr>)"

text \<open>The report of the executions of the steps that have one.\<close>

definition build_report :: "execution_object list \<Rightarrow> exc + replay_report" where
  "build_report xs = ebind (collect_trade_outputs xs) (\<lambda>(pnls, slips).
     Inr \<lparr>rp_metrics = replay_metrics_of pnls, rp_slippage = summarize_slippage slips,
          rp_counters = collect_report_counters xs\<rparr>)"

record 'x replay_result =
  rx_request :: replay_request
  rx_steps :: "'x replay_step_row list"
  rx_report :: replay_report

definition run_replay ::
  "('x \<Rightarrow> execution_object) \<Rightarrow> ((string \<times> pyfloat) list \<Rightarrow> string) \<Rightarrow> limits \<Rightarrow> strategy \<Rightarrow> ('s, 'x) replay_service \<Rightarrow> replay_request
    \<Rightarrow> ('s, 'x replay_result) prog"
where
  "run_replay view json l t svc q0 =
     bnd (from_sum (normalize_replay_request q0)) (\<lambda>q.
     bnd (from_sum (build_replay_steps q (required_candle_count t))) (\<lambda>steps.
     bnd (replay_all view json l (generate_signal t) svc q ((empty_portfolio, []), []) steps) (\<lambda>st.
     bnd (from_sum (build_report (map view (executions_of (snd st))))) (\<lambda>r.
     ret \<lparr>rx_request = q, rx_steps = snd st, rx_report = r\<rparr>))))"

text \<open>The simulation as the execution service; its state is the number of draws made.\<close>

definition simulation_service :: "simulation \<Rightarrow> (nat \<Rightarrow> pyfloat) \<Rightarrow> (nat, sim_result) replay_service" where
  "simulation_service s rnd = ReplayContext (\<lambda>g future step n.
     case execute_replay_signal s rnd g future step n of (r, n') \<Rightarrow> (Inr r, n'))"

end
