(* ===== verification/ReplayLimits.thy ===== *)
theory ReplayLimits
  imports BacktestReplay
begin

text \<open>
  What the replay of \<^verbatim>\<open>backend/backtest/replay_runner.py\<close> guarantees: the entries it
  makes respect the portfolio's limits, and the drawdown it reports is the deepest fall of the
  equity.
\<close>

subsection \<open>Entries\<close>

text \<open>An entry: the step it was made at, its symbol, the step it closes at, its day.\<close>

record entry =
  en_step :: int
  en_symbol :: string
  en_close :: int
  en_day :: date

definition entry_of_row :: "('x \<Rightarrow> execution_object) \<Rightarrow> 'x replay_step_row \<Rightarrow> entry option" where
  "entry_of_row view r = (case rr_signal r of None \<Rightarrow> None | Some g \<Rightarrow> (case rr_execution r of None \<Rightarrow> None
     | Some x \<Rightarrow> if execution_was_executed (view x)
         then Some \<lparr>en_step = rr_step_index r, en_symbol = sg_symbol g,
                en_close = resolve_close_step (view x) (rr_step_index r),
                en_day = candle_day (last (ms_candles (rr_snapshot r)))\<rparr>
         else None))"

definition entries :: "('x \<Rightarrow> execution_object) \<Rightarrow> 'x replay_step_row list \<Rightarrow> entry list" where
  "entries view rows = List.map_filter (entry_of_row view) rows"

lemma entries_simps [simp]:
  "entries view [] = []"
  "entries view (rows @ [r]) = entries view rows @ (case entry_of_row view r of None \<Rightarrow> [] | Some e \<Rightarrow> [e])"
  by (simp_all add: entries_def List.map_filter_def split: option.split)

text \<open>What must hold of the entries made before one.\<close>

definition allowed_entry :: "limits \<Rightarrow> entry list \<Rightarrow> entry \<Rightarrow> bool" where
  "allowed_entry l es e \<longleftrightarrow>
     int (length (filter (\<lambda>x. en_step e < en_close x) es)) < lm_max_open_positions l
     \<and> (\<forall>x \<in> set es. en_symbol x = en_symbol e \<longrightarrow> en_close x + lm_cooldown_candles l < en_step e)
     \<and> int (length (filter (\<lambda>x. en_day x = en_day e \<and> en_close x \<le> en_step e) es)) < lm_max_trades_per_day l"

definition respects_limits :: "limits \<Rightarrow> entry list \<Rightarrow> bool" where
  "respects_limits l es \<longleftrightarrow> (\<forall>i < length es. allowed_entry l (take i es) (es ! i))"

lemma respects_limits_simps [simp]:
  "respects_limits l []" "respects_limits l (es @ [e]) \<longleftrightarrow> respects_limits l es \<and> allowed_entry l es e"
  by (auto simp: respects_limits_def nth_append less_Suc_eq)

lemma day_bound:
  "respects_limits l es \<Longrightarrow> int (length (filter (\<lambda>x. en_day x = d) es))
     \<le> max 0 (lm_max_trades_per_day l + lm_max_open_positions l - 1)"
proof (induction es rule: rev_induct)
  case (snoc e es)
  show ?case
  proof (cases "en_day e = d")
    case True
    have "length (filter (\<lambda>x. en_day x = d) es)
      \<le> length (filter (\<lambda>x. en_day x = d \<and> en_close x \<le> en_step e) es)
        + length (filter (\<lambda>x. en_step e < en_close x) es)"
      by (induction es) auto
    with snoc.prems True show ?thesis by (simp add: allowed_entry_def)
  qed (use snoc in simp)
qed simp

subsection \<open>The portfolio follows the entries\<close>

text \<open>The entries \<open>es\<close> were made, and the closures up to step \<open>k\<close> are recorded.\<close>

definition closure_key :: "closure \<Rightarrow> string \<times> int \<times> date" where
  "closure_key c = (cl_symbol c, cl_close_step c, cl_entry_date c)"

definition entry_key :: "entry \<Rightarrow> string \<times> int \<times> date" where
  "entry_key e = (en_symbol e, en_close e, en_day e)"

definition still_open :: "int \<Rightarrow> entry list \<Rightarrow> entry list" where
  "still_open k es = filter (\<lambda>e. k < en_close e) es"

definition kept :: "limits \<Rightarrow> int \<Rightarrow> entry list \<Rightarrow> portfolio \<times> schedule \<Rightarrow> bool" where
  "kept l k es ps \<longleftrightarrow>
     distinct (map fst (pf_open_positions (fst ps)))
     \<and> distinct (map en_symbol (still_open k es))
     \<and> set (map fst (pf_open_positions (fst ps))) = set (map en_symbol (still_open k es))
     \<and> (\<forall>c > k. map closure_key (get_or (snd ps) c []) = map entry_key (filter (\<lambda>e. en_close e = c) es))
     \<and> (\<forall>e \<in> set es. en_close e \<le> k \<longrightarrow>
          (\<exists>v. map_of (pf_cooldown_until (fst ps)) (en_symbol e) = Some v \<and> en_close e + lm_cooldown_candles l \<le> v))
     \<and> (\<forall>d. get_or (pf_daily_trades (fst ps)) d 0
          = int (length (filter (\<lambda>e. en_day e = d \<and> en_close e \<le> k) es)))"

lemma kept_initial: "kept l k [] (empty_portfolio, [])"
  by (simp add: kept_def empty_portfolio_def still_open_def get_or_def)

lemma get_or_simps [simp]:
  "get_or (AList.update k v m) k' d = (if k' = k then v else get_or m k' d)"
  "get_or (AList.delete k m) k' d = (if k' = k then d else get_or m k' d)"
  by (simp_all add: get_or_def update_conv' AList.delete_conv')

lemma count_result_fields [simp]:
  "pf_open_positions (count_result l p s) = pf_open_positions s"
  "pf_cooldown_until (count_result l p s) = pf_cooldown_until s"
  "pf_daily_trades (count_result l p s) = pf_daily_trades s"
  by (simp_all add: count_result_def Let_def split: option.split)

lemma reset_fields [simp]:
  "pf_open_positions (reset_daily_circuit_breaker d s) = pf_open_positions s"
  "pf_cooldown_until (reset_daily_circuit_breaker d s) = pf_cooldown_until s"
  "pf_daily_trades (reset_daily_circuit_breaker d s) = pf_daily_trades s"
  by (simp_all add: reset_daily_circuit_breaker_def)

lemma kept_cong:
  assumes "pf_open_positions s' = pf_open_positions s" "pf_cooldown_until s' = pf_cooldown_until s"
    "pf_daily_trades s' = pf_daily_trades s"
  shows "kept l k es (s', sch) = kept l k es (s, sch)"
  by (simp add: kept_def assms)

lemma record_closed_fields:
  "pf_open_positions (record_closed_trade l c s) = filter (\<lambda>p. fst p \<noteq> cl_symbol c) (pf_open_positions s)"
  "map_of (pf_cooldown_until (record_closed_trade l c s)) y
     = (if y = cl_symbol c then Some (cl_close_step c + lm_cooldown_candles l) else map_of (pf_cooldown_until s) y)"
  "get_or (pf_daily_trades (record_closed_trade l c s)) d 0
     = get_or (pf_daily_trades s) d 0 + (if d = cl_entry_date c then 1 else 0)"
  by (simp_all add: record_closed_trade_def update_conv' AList.delete_eq split_def eq_commute[of "cl_symbol c"])

lemma foldl_record_closed:
  "pf_open_positions (foldl (\<lambda>s c. record_closed_trade l c s) s cs)
     = filter (\<lambda>p. fst p \<notin> cl_symbol ` set cs) (pf_open_positions s)"
  "\<forall>c \<in> set cs. cl_close_step c = k \<Longrightarrow>
     map_of (pf_cooldown_until (foldl (\<lambda>s c. record_closed_trade l c s) s cs)) y
     = (if y \<in> cl_symbol ` set cs then Some (k + lm_cooldown_candles l) else map_of (pf_cooldown_until s) y)"
  "get_or (pf_daily_trades (foldl (\<lambda>s c. record_closed_trade l c s) s cs)) d 0
     = get_or (pf_daily_trades s) d 0 + int (length (filter (\<lambda>c. cl_entry_date c = d) cs))"
  by (induction cs arbitrary: s) (auto simp: record_closed_fields intro!: filter_cong)

subsection \<open>Every step keeps it\<close>

lemma still_open_next:
  "still_open (k + 1) es = filter (\<lambda>e. en_close e \<noteq> k + 1) (still_open k es)"
  by (auto simp: still_open_def intro!: filter_cong)

lemma closing_count:
  "length (filter (\<lambda>e. en_day e = d \<and> en_close e \<le> k + 1) es)
     = length (filter (\<lambda>e. en_day e = d \<and> en_close e \<le> k) es)
       + length (filter (\<lambda>e. en_day e = d) (filter (\<lambda>e. en_close e = k + 1) es))"
  by (induction es) auto

lemma closures_of:
  assumes "map closure_key cs = map entry_key (filter (\<lambda>e. en_close e = k) es)"
  shows "cl_symbol ` set cs = en_symbol ` {e \<in> set es. en_close e = k}" "\<forall>c \<in> set cs. cl_close_step c = k"
    "length (filter (\<lambda>c. cl_entry_date c = d) cs)
      = length (filter (\<lambda>e. en_day e = d) (filter (\<lambda>e. en_close e = k) es))"
proof -
  have m: "map f (map closure_key cs) = map f (map entry_key (filter (\<lambda>e. en_close e = k) es))"
    for f :: "string \<times> int \<times> date \<Rightarrow> 'a" using assms by simp
  from m[of fst, THEN arg_cong, of set]
  show "cl_symbol ` set cs = en_symbol ` {e \<in> set es. en_close e = k}"
    by (simp add: closure_key_def entry_key_def comp_def)
  have "cl_close_step ` set cs = en_close ` {e \<in> set es. en_close e = k}"
    using m[of "\<lambda>x. fst (snd x)", THEN arg_cong, of set] by (simp add: closure_key_def entry_key_def comp_def)
  then show "\<forall>c \<in> set cs. cl_close_step c = k" by blast
  have "filter (\<lambda>x. x = d) (map cl_entry_date cs)
      = filter (\<lambda>x. x = d) (map en_day (filter (\<lambda>e. en_close e = k) es))"
    using m[of "\<lambda>x. snd (snd x)"] by (simp add: closure_key_def entry_key_def comp_def)
  from arg_cong[OF this, of length]
  show "length (filter (\<lambda>c. cl_entry_date c = d) cs)
      = length (filter (\<lambda>e. en_day e = d) (filter (\<lambda>e. en_close e = k) es))"
    by (simp add: filter_map comp_def)
qed

lemma kept_closures:
  assumes "kept l k es (s, sch)"
  shows "kept l (k + 1) es (apply_scheduled_closures l (k + 1) (s, sch))"
proof -
  define cs where "cs = get_or sch (k + 1) []"
  have "map closure_key cs = map entry_key (filter (\<lambda>e. en_close e = k + 1) es)"
    using assms by (simp add: kept_def cs_def)
  note c = closures_of[OF this]
  define s' where "s' = foldl (\<lambda>s c. record_closed_trade l c s) s cs"
  have run: "apply_scheduled_closures l (k + 1) (s, sch) = (s', AList.delete (k + 1) sch)"
    by (simp add: apply_scheduled_closures_def s'_def cs_def)
  note f = foldl_record_closed(1,3)[of l s cs, folded s'_def] foldl_record_closed(2)[OF c(2), where s = s and l = l, folded s'_def]
  have open': "map fst (pf_open_positions s') = filter (\<lambda>y. y \<notin> cl_symbol ` set cs) (map fst (pf_open_positions s))"
    by (simp add: f(1) filter_map comp_def)
  have inj: "distinct (map en_symbol (still_open k es))" and dist: "distinct (map fst (pf_open_positions s))"
    and same: "set (map fst (pf_open_positions s)) = set (map en_symbol (still_open k es))"
    using assms by (simp_all add: kept_def)
  have "set (map en_symbol (still_open (k + 1) es))
      = set (map en_symbol (still_open k es)) - en_symbol ` {e \<in> set es. en_close e = k + 1}"
    using inj by (fastforce simp: still_open_def distinct_map inj_on_def)
  then have keys: "set (map fst (pf_open_positions s')) = set (map en_symbol (still_open (k + 1) es))"
    unfolding open' by (auto simp: c(1) same simp del: set_map)
  have "\<exists>v. map_of (pf_cooldown_until s') (en_symbol e) = Some v \<and> en_close e + lm_cooldown_candles l \<le> v"
    if e: "e \<in> set es" "en_close e \<le> k + 1" for e
  proof (cases "en_symbol e \<in> cl_symbol ` set cs")
    case False
    with c(1) e have "en_close e \<le> k" by (cases "en_close e = k + 1") auto
    with assms e(1) f(3) False show ?thesis by (simp add: kept_def)
  qed (use e(2) f(3) in simp)
  moreover have "get_or (pf_daily_trades s') d 0
      = int (length (filter (\<lambda>e. en_day e = d \<and> en_close e \<le> k + 1) es))" for d
    using assms by (simp add: f(2) c(3) closing_count kept_def)
  moreover have "distinct (map en_symbol (still_open (k + 1) es))"
    unfolding still_open_next using inj by (simp add: distinct_map_filter)
  moreover have "distinct (map fst (pf_open_positions s'))" unfolding open' using dist by (rule distinct_filter)
  moreover have "map closure_key (get_or (AList.delete (k + 1) sch) c []) = map entry_key (filter (\<lambda>e. en_close e = c) es)"
    if "k + 1 < c" for c using assms that by (simp add: kept_def)
  ultimately show ?thesis using keys by (simp add: kept_def run)
qed

lemma kept_reset:
  "kept l k es ps \<Longrightarrow> kept l k es (reset_daily_circuit_breaker d (fst ps), snd ps)"
  by (simp add: kept_def)

lemma can_execute_allowed:
  assumes "kept l k es ps" "can_execute_signal l g k d (fst ps)" "en_step e = k" "en_symbol e = sg_symbol g" "en_day e = d"
  shows "allowed_entry l es e" "sg_symbol g \<notin> set (map en_symbol (still_open k es))"
proof -
  define s where "s = fst ps"
  note c = assms(2)[folded s_def, unfolded can_execute_signal_def]
  have keys: "set (map fst (pf_open_positions s)) = set (map en_symbol (still_open k es))"
    "distinct (map fst (pf_open_positions s))" "distinct (map en_symbol (still_open k es))"
    using assms(1) by (simp_all add: kept_def s_def)
  have len: "length (pf_open_positions s) = length (still_open k es)"
    using distinct_card[OF keys(2)] distinct_card[OF keys(3)] by (simp only: keys(1) length_map)
  have "map_of (pf_open_positions s) (sg_symbol g) = None" using c by (simp split: if_splits)
  then have "sg_symbol g \<notin> set (map fst (pf_open_positions s))" by (simp add: map_of_eq_None_iff)
  then show free: "sg_symbol g \<notin> set (map en_symbol (still_open k es))" by (simp only: keys(1) not_False_eq_True)
  have "en_close x + lm_cooldown_candles l < k" if x: "x \<in> set es" "en_symbol x = sg_symbol g" for x
  proof -
    have "en_close x \<le> k" using free x by (force simp: still_open_def)
    with assms(1) x obtain v where "map_of (pf_cooldown_until s) (sg_symbol g) = Some v"
      "en_close x + lm_cooldown_candles l \<le> v" by (auto simp: kept_def s_def)
    with c show ?thesis by (simp add: get_or_def split: if_splits)
  qed
  moreover have "int (length (still_open k es)) < lm_max_open_positions l"
    using c by (simp add: len split: if_splits)
  moreover have "get_or (pf_daily_trades s) d 0 < lm_max_trades_per_day l" using c by (simp split: if_splits)
  ultimately show "allowed_entry l es e"
    using assms(1,3,4,5) by (simp add: allowed_entry_def still_open_def kept_def s_def)
qed

lemma kept_record:
  assumes "kept l k es (s, sch)" "en_symbol e \<notin> set (map en_symbol (still_open k es))"
    "en_close e = k" "closure_key c = entry_key e"
  shows "kept l k (es @ [e])
    (record_closed_trade l c (s\<lparr>pf_open_positions := AList.update (en_symbol e) p (pf_open_positions s)\<rparr>), sch)"
proof -
  define s' where "s' = s\<lparr>pf_open_positions := AList.update (en_symbol e) p (pf_open_positions s)\<rparr>"
  have c: "cl_symbol c = en_symbol e" "cl_close_step c = k" "cl_entry_date c = en_day e"
    using assms(3,4) by (simp_all add: closure_key_def entry_key_def)
  have new: "en_symbol e \<notin> fst ` set (pf_open_positions s)"
    using assms(1,2) by (simp add: kept_def)
  then have "filter (\<lambda>q. fst q \<noteq> en_symbol e) (AList.update (en_symbol e) p (pf_open_positions s))
      = pf_open_positions s"
    using AList.delete_update_same[of "en_symbol e" p "pf_open_positions s"]
      AList.delete_id[of "en_symbol e" "pf_open_positions s"] by (simp add: AList.delete_eq split_def eq_commute)
  then have "pf_open_positions (record_closed_trade l c s') = pf_open_positions s"
    by (simp add: record_closed_fields(1) c(1) s'_def)
  then show ?thesis
    using assms(1,3) unfolding s'_def[symmetric]
    by (auto simp: kept_def still_open_def record_closed_fields(2,3) c s'_def)
qed

lemma kept_schedule:
  assumes "kept l k es (s, sch)" "en_symbol e \<notin> set (map en_symbol (still_open k es))"
    "k < en_close e" "closure_key c = entry_key e"
  shows "kept l k (es @ [e])
    (s\<lparr>pf_open_positions := AList.update (en_symbol e) p (pf_open_positions s)\<rparr>,
     AList.update (en_close e) (get_or sch (en_close e) [] @ [c]) sch)"
  using assms
  by (auto simp: kept_def still_open_def distinct_update dom_update)

lemma track_kept:
  assumes "kept l k es ps" "can_execute_signal l g k d (fst ps)" "track_execution l g x k d ps = Inr ps'"
    "execution_was_executed x" "k \<le> resolve_close_step x k"
    "e = \<lparr>en_step = k, en_symbol = sg_symbol g, en_close = resolve_close_step x k, en_day = d\<rparr>"
  shows "kept l k (es @ [e]) ps'"
proof -
  have e: "en_symbol e = sg_symbol g" "en_close e = resolve_close_step x k" "en_day e = d" by (simp_all add: assms(6))
  have free: "en_symbol e \<notin> set (map en_symbol (still_open k es))"
    using can_execute_allowed(2)[OF assms(1,2), of e] by (simp add: assms(6))
  obtain s sch where ps: "ps = (s, sch)" by force
  define P where "P price = \<lparr>op_symbol = sg_symbol g, op_direction = sg_direction g,
      op_entry_price = (if truthy price then or_zero price else dec_of_float (sg_entry g)),
      op_stop_price = dec_of_float (sg_stop g), op_target_price = dec_of_float (sg_target g),
      op_opened_at_step = k, op_planned_close_step = en_close e\<rparr>" for price
  define C where "C pnl = \<lparr>cl_symbol = en_symbol e, cl_close_step = en_close e, cl_entry_date = d,
      cl_net_trade_pnl = pnl\<rparr>" for pnl
  from assms(3,4) obtain price pnl where read: "coerce_decimal (read_metric x ''entry_price'') = Inr price"
    "net_trade_pnl x = Inr pnl" by (auto simp: track_execution_def ebind_Inr_iff Let_def)
  have c:
    "ps' = (let s' = s\<lparr>pf_open_positions := AList.update (en_symbol e) (P price) (pf_open_positions s)\<rparr> in
      if en_close e \<le> k then (record_closed_trade l (C pnl) s', sch)
      else (s', AList.update (en_close e) (get_or sch (en_close e) [] @ [C pnl]) sch))"
    using assms(3,4) by (simp add: track_execution_def read Let_def ps e P_def C_def split: if_splits)
  have key: "closure_key (C pnl) = entry_key e" by (simp add: C_def closure_key_def entry_key_def e)
  show ?thesis
  proof (cases "en_close e \<le> k")
    case True
    with assms(5) have "en_close e = k" by (simp add: assms(6))
    from kept_record[OF assms(1)[unfolded ps] free this key] c True show ?thesis by (simp add: Let_def)
  next
    case False
    then have "k < en_close e" by simp
    from kept_schedule[OF assms(1)[unfolded ps] free this key] c False show ?thesis by (simp add: Let_def)
  qed
qed

lemma track_skipped: "\<not> execution_was_executed x \<Longrightarrow> track_execution l g x k d ps = Inr ps"
  by (simp add: track_execution_def)

subsection \<open>Services whose trades close after they open\<close>

lemma nth_back_last: "nth_back xs 1 = Inr x \<Longrightarrow> x = last xs"
  using nth_back_1[of xs] by (cases "xs = []") (auto simp: nth_back_def)

text \<open>
  The contract the replay relies on: an execution closes no earlier than the step of its entry.
\<close>

locale forward_service =
  fixes view :: "'x \<Rightarrow> execution_object" and svc :: "('s, 'x) replay_service" and q :: replay_request
  assumes forward: "run_service svc q step p w = (Inr x, w') \<Longrightarrow> step \<le> resolve_close_step (view x) step"
begin

lemma replay_one_kept:
  assumes kept: "kept l (k - 1) (entries view (snd st)) (fst st)" and lim: "respects_limits l (entries view (snd st))"
    and run: "replay_one view json l gen svc q st (k, snap) w = (Inr st', w')"
  shows "kept l k (entries view (snd st')) (fst st') \<and> respects_limits l (entries view (snd st'))"
proof -
  from run obtain c where c: "nth_back (ms_candles snap) 1 = Inr c"
    by (cases "nth_back (ms_candles snap) 1") (auto simp: replay_one_def simp del: One_nat_def)
  note c = c nth_back_last[OF c]
  define d where "d = candle_day c"
  define ps where "ps = apply_scheduled_closures l k (reset_daily_circuit_breaker d (fst (fst st)), snd (fst st))"
  have k: "kept l k (entries view (snd st)) ps"
    using kept_closures[OF kept_reset[OF kept, of d]] by (simp add: ps_def)
  have quiet: ?thesis if "fst st' = ps" "entries view (snd st') = entries view (snd st)"
    using that k lim by (simp only:)
  from run c(1) obtain sg where sg: "gen snap = Inr sg"
    by (cases "gen snap") (auto simp: replay_one_def Let_def)
  show ?thesis
  proof (cases sg)
    case None
    with run sg c(1) show ?thesis
      by (intro quiet) (auto simp: replay_one_def Let_def entry_of_row_def ps_def d_def)
  next
    case (Some g)
    show ?thesis
    proof (cases "can_execute_signal l g k d (fst ps)")
      case False
      with run sg c(1) Some show ?thesis
        by (intro quiet) (auto simp: replay_one_def Let_def entry_of_row_def ps_def d_def)
    next
      case True
      from run obtain p x w1 ps' where x: "run_service svc q k p w = (Inr x, w1)"
        "track_execution l g (view x) k d ps = Inr ps'" "fst st' = ps'"
        "snd st' = snd st @ [\<lparr>rr_step_index = k, rr_snapshot = snap, rr_signal = Some g, rr_execution = Some x\<rparr>]"
        using True
        by (auto simp: replay_one_def c(1) sg Some Let_def d_def[symmetric] ps_def[symmetric]
            elim!: bnd_InrE split: sum.splits simp del: One_nat_def)
      show ?thesis
      proof (cases "execution_was_executed (view x)")
        case False
        with x track_skipped[OF False] show ?thesis by (intro quiet) (simp_all add: entry_of_row_def)
      next
        case exec: True
        define e where "e = \<lparr>en_step = k, en_symbol = sg_symbol g, en_close = resolve_close_step (view x) k, en_day = d\<rparr>"
        have es: "entries view (snd st') = entries view (snd st) @ [e]"
          using exec by (simp add: x(4) entry_of_row_def e_def d_def c(2))
        have "allowed_entry l (entries view (snd st)) e"
          by (rule can_execute_allowed(1)[OF k True]) (simp_all add: e_def)
        with lim track_kept[OF k True x(2) exec forward[OF x(1)] e_def] x(3) show ?thesis
          by (simp add: es)
      qed
    qed
  qed
qed

lemma replay_all_kept:
  assumes "kept l (k - 1) (entries view (snd st)) (fst st)" "respects_limits l (entries view (snd st))"
    "replay_all view json l gen svc q st ss w = (Inr st', w')" "map fst ss = [k..k + int (length ss) - 1]"
  shows "respects_limits l (entries view (snd st'))"
  using assms
proof (induction ss arbitrary: k st w)
  case (Cons x xs)
  obtain step snap where x: "x = (step, snap)" by force
  from Cons.prems(3) obtain st1 w1 where r: "replay_one view json l gen svc q st x w = (Inr st1, w1)"
    "replay_all view json l gen svc q st1 xs w1 = (Inr st', w')" by (auto elim!: bnd_InrE)
  have m: "step = k" "map fst xs = [k + 1..k + 1 + int (length xs) - 1]"
    using Cons.prems(4) by (simp_all add: x upto_rec1[of k])
  from replay_one_kept[OF Cons.prems(1,2) r(1)[unfolded x m(1)]]
  show ?case using Cons.IH[of "k + 1", OF _ _ r(2) m(2)] by simp
qed simp

end

subsection \<open>The simulation is such a service\<close>

lemma closed_after_entry:
  "xr_closed_at_step (build_sim_result d p ra x rate reason hold c amb) = c"
  "xr_hold_candles (build_sim_result d p ra x rate reason hold c amb) = hold"
  by (simp_all add: build_sim_result_def)

lemma exit_loop_span:
  "exit_loop s rnd g step p i cs n = (Some r, n') \<Longrightarrow>
     xr_closed_at_step r = step + int (xr_hold_candles r) \<and> xr_hold_candles r \<le> i + length cs"
proof (induction cs arbitrary: i n)
  case (Cons c cs)
  then show ?case
    using Cons.IH[of "i + 1"]
    by (auto simp: evaluate_candle_exit_def build_stop_result_def build_target_result_def Let_def
        closed_after_entry split: prod.splits option.splits if_splits)
qed simp

lemma flat_span [simp]:
  "xr_closed_at_step (flat_result m step x) = step" "xr_hold_candles (flat_result m step x) = 0"
  "xr_closed_at_step (build_skipped_result x step m a b c) = step"
  "xr_hold_candles (build_skipped_result x step m a b c) = 0"
  by (simp_all add: flat_result_def build_skipped_result_def)

lemma prepare_span:
  "prepare_execution s rnd g future step n = (Inl r, n') \<Longrightarrow> xr_closed_at_step r = step \<and> xr_hold_candles r = 0"
  by (auto simp: prepare_execution_def maybe_skip_spot_constraints_def Let_def
      split: prod.splits option.splits if_splits)

lemma simulation_span:
  assumes "execute_replay_signal s rnd g future step n = (r, n')"
  shows "xr_closed_at_step r = step + int (xr_hold_candles r) \<and> xr_hold_candles r \<le> length future"
proof -
  have skip: "maybe_skip_spot_short s g x step = Some r \<Longrightarrow> ?thesis" for x
    by (auto simp: maybe_skip_spot_short_def split: if_splits)
  have timeout: "r = build_timeout_result s g future step p \<Longrightarrow> ?thesis" for p
    by (simp add: build_timeout_result_def Let_def closed_after_entry)
  have loop: "exit_loop s rnd g step p 0 (take m future) k = (Some r, j) \<Longrightarrow> ?thesis" for p m k j
    by (drule exit_loop_span) simp
  show ?thesis
    using assms skip timeout loop prepare_span[of s rnd g future step n r]
    unfolding execute_replay_signal_def Let_def
    by (auto split: prod.splits option.splits if_splits sum.splits)
qed

lemma object_of_result_simps [simp]:
  "read_metric (object_of_result r) ''closed_at_step'' = DInt (xr_closed_at_step r)"
  "resolve_close_step (object_of_result r) step = xr_closed_at_step r"
  by (simp_all add: resolve_close_step_def read_metric_def object_of_result_def)

interpretation simulated: forward_service object_of_result "simulation_service s rnd" q
proof
  fix step p n x n'
  assume "run_service (simulation_service s rnd) q step p n = (Inr x, n')"
  then have "execute_replay_signal s rnd p (future_candles_for_step q step) step n = (x, n')"
    by (auto simp: simulation_service_def split: prod.splits)
  from simulation_span[OF this] show "step \<le> resolve_close_step (object_of_result x) step" by simp
qed

lemma steps_consecutive:
  assumes "build_replay_steps q m = Inr ss"
  shows "\<exists>k. map fst ss = [k..k + int (length ss) - 1]"
proof -
  obtain a b f where "ss = map (\<lambda>i. (i, f i)) [a..b - 1]" "a \<le> b"
    using assms
    by (auto simp: build_replay_steps_def build_snapshot_replay_steps_def build_candle_replay_steps_def Let_def
        linorder_not_less split: option.splits if_splits; blast)
  then have "map fst ss = [a..a + int (length ss) - 1]" by (simp add: comp_def)
  then show ?thesis ..
qed

subsection \<open>The limits of a replay\<close>

lemma replay_entries:
  assumes "run_replay object_of_result json l t (simulation_service s rnd) q n = (Inr res, n')"
  shows "respects_limits l (entries object_of_result (rx_steps res))"
proof -
  let ?svc = "simulation_service s rnd"
  from assms obtain q' ss st w w' where r: "build_replay_steps q' (required_candle_count t) = Inr ss"
    "replay_all object_of_result json l (generate_signal t) ?svc q' ((empty_portfolio, []), []) ss w = (Inr st, w')"
    "rx_steps res = snd st"
    by (auto simp: run_replay_def elim!: bnd_InrE split: sum.splits)
  from steps_consecutive[OF r(1)] obtain k where "map fst ss = [k..k + int (length ss) - 1]" by blast
  from simulated.replay_all_kept[OF _ _ r(2) this] show ?thesis by (simp add: r(3) kept_initial)
qed

text \<open>
  C21: a replay over the simulation never enters when the limits say no.  At every entry fewer
  positions than allowed are still open, the symbol's own last trade is closed and its cooldown
  over, and fewer trades of that day than allowed are closed; so a day never has more than
  the daily maximum of entries and one less than the positions that may be open together.
\<close>

theorem replay_respects_limits:
  assumes "run_replay object_of_result json l t (simulation_service s rnd) q n = (Inr res, n')"
  shows "let es = entries object_of_result (rx_steps res) in
    (\<forall>i < length es. let e = es ! i; before = take i es in
       int (length (filter (\<lambda>x. en_step e < en_close x) before)) < lm_max_open_positions l
       \<and> (\<forall>x \<in> set before. en_symbol x = en_symbol e \<longrightarrow> en_close x + lm_cooldown_candles l < en_step e)
       \<and> int (length (filter (\<lambda>x. en_day x = en_day e \<and> en_close x \<le> en_step e) before)) < lm_max_trades_per_day l)
    \<and> (\<forall>d. int (length (filter (\<lambda>x. en_day x = d) es))
         \<le> max 0 (lm_max_trades_per_day l + lm_max_open_positions l - 1))"
  using replay_entries[OF assms] day_bound[OF replay_entries[OF assms]]
  by (simp add: Let_def respects_limits_def allowed_entry_def)

subsection \<open>The drawdown\<close>

text \<open>The equity after each trade, from zero.\<close>

definition equity_curve :: "decimal list \<Rightarrow> decimal list" where
  "equity_curve pnls = map (\<lambda>k. dsum (take k pnls)) [0..<length pnls + 1]"

lemma dsub_mono: "x \<le> y \<Longrightarrow> dsub x z \<le> dsub y z"
  by (simp add: dsub_def dco.mono)

definition falls :: "decimal list \<Rightarrow> decimal set" where
  "falls c = {dsub (c ! i) (c ! j) |i j. i \<le> j \<and> j < length c}"

lemma equity_curve_simps:
  "equity_curve [] = [0]" "equity_curve (xs @ [x]) = equity_curve xs @ [dadd (dsum xs) x]"
  "equity_curve xs \<noteq> []"
  by (simp_all add: equity_curve_def dsum_def)

lemma falls_snoc: "falls (c @ [x]) = falls c \<union> (\<lambda>a. dsub a x) ` set (c @ [x])" (is "?l = ?r")
proof
  show "?l \<subseteq> ?r"
  proof
    fix y assume "y \<in> ?l"
    then obtain i j where y: "y = dsub ((c @ [x]) ! i) ((c @ [x]) ! j)" "i \<le> j" "j < length (c @ [x])"
      unfolding falls_def by blast
    show "y \<in> ?r"
    proof (cases "j = length c")
      case True
      then have "(c @ [x]) ! i \<in> set (c @ [x])" using y(2,3) by (intro nth_mem) simp
      with y(1) True have "y \<in> (\<lambda>a. dsub a x) ` set (c @ [x])"
        by (intro image_eqI[of _ _ "(c @ [x]) ! i"]) simp_all
      then show ?thesis by (rule UnI2)
    next
      case False
      with y(2,3) have "j < length c" "i < length c" by simp_all
      with y(1,2) have "y \<in> falls c"
        unfolding falls_def by (intro CollectI exI[of _ i] exI[of _ j]) (simp add: nth_append)
      then show ?thesis by simp
    qed
  qed
  have "dsub (c ! i) (c ! j) \<in> ?l" if "i \<le> j" "j < length c" for i j
    using that unfolding falls_def by (intro CollectI exI[of _ i] exI[of _ j]) (simp add: nth_append)
  moreover have "dsub a x \<in> ?l" if "a \<in> set (c @ [x])" for a
  proof -
    from that obtain i where "i < length (c @ [x])" "(c @ [x]) ! i = a" by (metis in_set_conv_nth)
    then show ?thesis unfolding falls_def by (intro CollectI exI[of _ i] exI[of _ "length c"]) simp
  qed
  ultimately show "?r \<subseteq> ?l" by (auto simp: falls_def[of c])
qed

lemma falls_finite: "finite (falls c)"
  by (induction c rule: rev_induct) (simp_all add: falls_snoc, simp add: falls_def)

lemma falls_nonempty: "c \<noteq> [] \<Longrightarrow> falls c \<noteq> {}"
  by (cases c rule: rev_cases) (auto simp: falls_snoc)

lemma drawdown_fold:
  "foldl drawdown_step (0, 0, 0) pnls
     = (dsum pnls, Max (set (equity_curve pnls)), Max (falls (equity_curve pnls)))"
proof (induction pnls rule: rev_induct)
  case Nil
  have "falls [0] = {0}" by (auto simp: falls_def dsub_def dco.zero)
  then show ?case by (simp add: equity_curve_simps dsum_def)
next
  case (snoc x xs)
  define c where "c = equity_curve xs"
  define y where "y = dadd (dsum xs) x"
  have ne: "c \<noteq> []" by (simp add: c_def equity_curve_simps)
  have peak: "max (Max (set c)) y = Max (set (c @ [y]))" using ne by (simp add: max.commute)
  have "dsub (Max (set (c @ [y]))) y = Max ((\<lambda>a. dsub a y) ` set (c @ [y]))"
    by (rule mono_Max_commute) (simp_all add: mono_def dsub_mono)
  then have "max (Max (falls c)) (dsub (Max (set (c @ [y]))) y) = Max (falls (c @ [y]))"
    using ne falls_nonempty[OF ne] by (simp only: falls_snoc) (subst Max_Un, simp_all add: falls_finite)
  moreover have "dsum (xs @ [x]) = y" "equity_curve (xs @ [x]) = c @ [y]"
    by (simp_all add: y_def c_def dsum_def equity_curve_simps)
  moreover have "foldl drawdown_step (0, 0, 0) (xs @ [x])
      = (y, max (Max (set c)) y, max (Max (falls c)) (dsub (max (Max (set c)) y) y))"
    by (simp only: foldl_append foldl.simps snoc.IH) (simp add: drawdown_step_def Let_def y_def c_def)
  ultimately show ?case by (simp only: peak)
qed

text \<open>
  C22: the drawdown the reports and gates use, kept in one pass with a running peak, is the deepest
  fall between any point of the equity curve and a later one, each fall rounded as the subtraction
  rounds it; and it is never negative.
\<close>

theorem max_drawdown_is_deepest_fall:
  "let c = equity_curve pnls in
   calculate_max_drawdown pnls = Max {dsub (c ! i) (c ! j) |i j. i \<le> j \<and> j < length c}
   \<and> 0 \<le> calculate_max_drawdown pnls"
proof -
  define c where "c = equity_curve pnls"
  have m: "calculate_max_drawdown pnls = Max (falls c)"
    by (simp add: calculate_max_drawdown_def drawdown_fold c_def)
  have "dsub (c ! 0) (c ! 0) \<in> falls c" unfolding falls_def by (force simp: c_def equity_curve_simps)
  then have "0 \<in> falls c" by (simp add: dsub_def dco.zero)
  with falls_finite[of c] show ?thesis
    unfolding m falls_def[symmetric] c_def[symmetric] Let_def by simp
qed

subsection \<open>A small replay\<close>

text \<open>
  A strategy that always buys, over two snapshots without candles to come: the first entry closes
  at once, and the second step is within its cooldown.
\<close>

definition eager_strategy :: strategy where
  "eager_strategy = \<lparr>required_candle_count = 1,
     generate_signal = (\<lambda>s. Inr (Some (make_signal s ''long'' 8 4 16 ''buy'' ''v1'' [])))\<rparr>"

definition sample_snapshot :: market_snapshot where
  "sample_snapshot = \<lparr>ms_symbol = ''BTCUSDT'', ms_interval = ''5'',
     ms_candles = [new_market_candle 0 9 8 9 (Some 8) 1]\<rparr>"

definition sample_replay :: replay_request where
  "sample_replay = \<lparr>rp_symbol = ''BTCUSDT'', rp_interval = ''5'', rp_candles = None,
     rp_snapshots = Some [sample_snapshot, sample_snapshot], rp_start_step = None, rp_end_step = None\<rparr>"

lemma sample_replay_steps:
  "normalize_replay_request sample_replay = Inr sample_replay"
  "build_replay_steps sample_replay 1 = Inr [(0, sample_snapshot), (1, sample_snapshot)]"
proof -
  have "py_upper (py_strip ''BTCUSDT'') = ''BTCUSDT''" "py_strip ''5'' = ''5''" by code_simp+
  then show "normalize_replay_request sample_replay = Inr sample_replay"
    by (simp add: normalize_replay_request_def sample_replay_def negative_def)
  have "[0..1 :: int] = [0, 1]" by code_simp
  then show "build_replay_steps sample_replay 1 = Inr [(0, sample_snapshot), (1, sample_snapshot)]"
    by (simp add: build_replay_steps_def build_snapshot_replay_steps_def sample_replay_def)
qed

lemma sample_replay_all:
  "case replay_all object_of_result (\<lambda>_. ''{}'') default_limits (generate_signal eager_strategy)
       (simulation_service sample_simulation (\<lambda>_. 0)) sample_replay ((empty_portfolio, []), [])
       [(0, sample_snapshot), (1, sample_snapshot)] 0 of
     (Inr st, n) \<Rightarrow> n = 0 \<and> map en_close (entries object_of_result (snd st)) = [0] \<and> length (snd st) = 2
       \<and> isl (build_report (map object_of_result (executions_of (snd st)))) = False
   | _ \<Rightarrow> False"
  by code_simp

lemma sample_replay_run:
  "\<exists>res. run_replay object_of_result (\<lambda>_. ''{}'') default_limits eager_strategy
      (simulation_service sample_simulation (\<lambda>_. 0)) sample_replay 0 = (Inr res, 0)
    \<and> map en_close (entries object_of_result (rx_steps res)) = [0] \<and> length (rx_steps res) = 2"
proof -
  have c: "required_candle_count eager_strategy = 1" by (simp add: eager_strategy_def)
  obtain st where st: "replay_all object_of_result (\<lambda>_. ''{}'') default_limits (generate_signal eager_strategy)
       (simulation_service sample_simulation (\<lambda>_. 0)) sample_replay ((empty_portfolio, []), [])
       [(0, sample_snapshot), (1, sample_snapshot)] 0 = (Inr st, 0)"
    "map en_close (entries object_of_result (snd st)) = [0]" "length (snd st) = 2"
    "\<not> isl (build_report (map object_of_result (executions_of (snd st))))"
    using sample_replay_all by (auto split: prod.splits sum.splits simp del: replay_all.simps)
  then show ?thesis
    by (cases "build_report (map object_of_result (executions_of (snd st)))")
      (simp_all add: run_replay_def sample_replay_steps c bnd_Inr[of "replay_all _ _ _ _ _ _ _ _"] del: replay_all.simps One_nat_def)
qed

text \<open>The entries respect the limits there, and the day has one.\<close>

theorem replay_respects_limits_witness:
  "\<exists>res. run_replay object_of_result (\<lambda>_. ''{}'') default_limits eager_strategy
      (simulation_service sample_simulation (\<lambda>_. 0)) sample_replay 0 = (Inr res, 0)
    \<and> length (entries object_of_result (rx_steps res)) = 1
    \<and> (\<forall>d. length (filter (\<lambda>x. en_day x = d) (entries object_of_result (rx_steps res))) \<le> 10)"
proof -
  obtain res where r: "run_replay object_of_result (\<lambda>_. ''{}'') default_limits eager_strategy
      (simulation_service sample_simulation (\<lambda>_. 0)) sample_replay 0 = (Inr res, 0)"
    "map en_close (entries object_of_result (rx_steps res)) = [0]"
    using sample_replay_run by (elim exE conjE) (rule that)
  let ?es = "entries object_of_result (rx_steps res)"
  have "length ?es = 1" using arg_cong[OF r(2), of length] by simp
  moreover have "length (filter (\<lambda>x. en_day x = d) ?es) \<le> 10" for d
    using replay_respects_limits[OF r(1), unfolded Let_def, THEN conjunct2, THEN spec, of d]
    by (simp add: default_limits_def)
  ultimately show ?thesis using r(1) by (intro exI[of _ res] conjI allI)
qed

end
