(* ===== verification/BacktestGate.thy ===== *)
theory BacktestGate
  imports ReplayLimits
begin

text \<open>
  \<^verbatim>\<open>backend/backtest/gate.py\<close>: a scenario's strategy is replayed over its candles
  with the simulated execution, the net results are measured, and a profile of thresholds decides
  whether the scenario passes.
\<close>

subsection \<open>The manifest\<close>

record threshold_profile =
  tp_name :: string
  tp_min_closed_trades :: int
  tp_min_win_rate :: decimal
  tp_min_profit_factor :: decimal
  tp_require_positive_expectancy :: bool
  tp_max_drawdown_pct :: decimal

record scenario =
  sc_name :: string
  sc_family :: string
  sc_strategy :: string
  sc_symbol :: string
  sc_interval :: string
  sc_lookback_days :: int
  sc_live_lookback_days :: int
  sc_dataset_path :: string
  sc_risk_amount_usd :: pyfloat
  sc_starting_equity_usd :: pyfloat
  sc_max_hold_candles :: int
  sc_min_rrr :: pyfloat
  sc_regression_profile :: string
  sc_live_profile :: string

record manifest =
  mf_profiles :: "(string \<times> threshold_profile) list"
  mf_scenarios :: "scenario list"

definition load_profile :: "string \<Rightarrow> (string \<times> json) list \<Rightarrow> exc + string \<times> threshold_profile" where
  "load_profile name m =
     ebind (json_at m ''min_closed_trades'') (\<lambda>v1. ebind (json_int v1) (\<lambda>trades.
     ebind (json_at m ''min_win_rate'') (\<lambda>v2. ebind (json_decimal v2) (\<lambda>rate.
     ebind (json_at m ''min_profit_factor'') (\<lambda>v3. ebind (json_decimal v3) (\<lambda>factor.
     ebind (json_at m ''require_positive_expectancy'') (\<lambda>v4.
     ebind (json_at m ''max_drawdown_pct'') (\<lambda>v5. ebind (json_decimal v5) (\<lambda>dd.
     Inr (name, \<lparr>tp_name = name, tp_min_closed_trades = trades, tp_min_win_rate = rate,
       tp_min_profit_factor = factor, tp_require_positive_expectancy = json_bool v4,
       tp_max_drawdown_pct = dd\<rparr>))))))))))"

text \<open>A text field of a scenario.\<close>

definition item_str :: "(json \<Rightarrow> string) \<Rightarrow> (string \<times> json) list \<Rightarrow> string \<Rightarrow> exc + string" where
  "item_str rep m k = ebind (json_at m k) (\<lambda>v. Inr (json_str rep v))"

definition item_int :: "(string \<times> json) list \<Rightarrow> string \<Rightarrow> exc + int" where
  "item_int m k = ebind (json_at m k) json_int"

definition load_scenario :: "(json \<Rightarrow> string) \<Rightarrow> (string \<times> json) list \<Rightarrow> exc + scenario" where
  "load_scenario rep m =
     ebind (item_str rep m ''name'') (\<lambda>name. ebind (item_str rep m ''family'') (\<lambda>family.
     ebind (item_str rep m ''strategy'') (\<lambda>strat. ebind (item_str rep m ''symbol'') (\<lambda>symbol.
     ebind (item_str rep m ''interval'') (\<lambda>interval. ebind (item_int m ''lookback_days'') (\<lambda>days.
     ebind (item_int m ''live_lookback_days'') (\<lambda>live_days. ebind (item_str rep m ''dataset_path'') (\<lambda>path.
     ebind (json_float (json_get m ''risk_amount_usd'' (JFloat 100))) (\<lambda>risk.
     ebind (json_float (json_get m ''starting_equity_usd'' (JFloat 10000))) (\<lambda>equity.
     ebind (json_int (json_get m ''max_hold_candles'' (JInt 20))) (\<lambda>hold.
     ebind (json_float (json_get m ''min_rrr'' (JFloat (3 / 2)))) (\<lambda>rrr.
     ebind (item_str rep m ''regression_profile'') (\<lambda>regression. ebind (item_str rep m ''live_profile'') (\<lambda>live.
     Inr \<lparr>sc_name = name, sc_family = family, sc_strategy = strat, sc_symbol = py_upper (py_strip symbol),
       sc_interval = py_strip interval, sc_lookback_days = days, sc_live_lookback_days = live_days,
       sc_dataset_path = path, sc_risk_amount_usd = risk, sc_starting_equity_usd = equity,
       sc_max_hold_candles = hold, sc_min_rrr = rrr, sc_regression_profile = regression,
       sc_live_profile = live\<rparr>))))))))))))))"

fun named_objects :: "(string \<times> json) list \<Rightarrow> (string \<times> (string \<times> json) list) list" where
  "named_objects [] = []"
| "named_objects ((k, JObj m) # xs) = (k, m) # named_objects xs"
| "named_objects (_ # xs) = named_objects xs"

definition profiles_known :: "manifest \<Rightarrow> bool" where
  "profiles_known f \<longleftrightarrow> (\<forall>c \<in> set (mf_scenarios f).
     sc_regression_profile c \<in> fst ` set (mf_profiles f) \<and> sc_live_profile c \<in> fst ` set (mf_profiles f))"

definition load_manifest :: "(json \<Rightarrow> string) \<Rightarrow> json \<Rightarrow> exc + manifest" where
  "load_manifest rep payload = (case payload of
     JObj m \<Rightarrow>
       (case (json_get m ''profiles'' JNull, json_get m ''scenarios'' JNull) of
          (JObj ps, JList ss) \<Rightarrow>
            ebind (emap (\<lambda>(k, p). load_profile k p) (named_objects ps)) (\<lambda>profiles.
            ebind (emap (load_scenario rep) (json_objects ss)) (\<lambda>scenarios.
            let f = \<lparr>mf_profiles = profiles, mf_scenarios = scenarios\<rparr> in
            if profiles = [] \<or> scenarios = [] then Inl ValueError
            else if \<not> profiles_known f then Inl ValueError
            else Inr f))
        | _ \<Rightarrow> Inl TypeError)
   | _ \<Rightarrow> Inl TypeError)"

subsection \<open>Months\<close>

text \<open>
  \<^verbatim>\<open>strftime("%Y-%m")\<close> of a day counted from the epoch, as the number of months
  since the year zero, which sorts as the text does.
\<close>

definition month_of :: "date \<Rightarrow> int" where
  "month_of d =
     (let z = d + 719468; era = z div 146097; doe = z - era * 146097;
          yoe = (doe - doe div 1460 + doe div 36524 - doe div 146096) div 365;
          doy = doe - (365 * yoe + yoe div 4 - yoe div 100);
          mp = (5 * doy + 2) div 153;
          month = (if mp < 10 then mp + 3 else mp - 9)
      in (yoe + era * 400 + (if month \<le> 2 then 1 else 0)) * 12 + month - 1)"

subsection \<open>Measures\<close>

definition net_pnl_of :: "sim_result \<Rightarrow> decimal" where
  "net_pnl_of r = dsub (xr_realized_pnl r) (xr_fees_paid r)"

definition gross_wins :: "decimal list \<Rightarrow> decimal" where
  "gross_wins ps = dsum (filter (\<lambda>x. 0 < x) ps)"

definition gross_losses :: "decimal list \<Rightarrow> decimal" where
  "gross_losses ps = dsum (map (\<lambda>x. dc \<bar>x\<bar>) (filter (\<lambda>x. x < 0) ps))"

text \<open>A Decimal, or infinity.\<close>

definition profit_factor_of :: "decimal list \<Rightarrow> xfloat option" where
  "profit_factor_of ps =
     (if gross_losses ps = 0 then (if gross_wins ps = 0 then None else Some Infinity)
      else Some (Fin (ddiv (gross_wins ps) (gross_losses ps))))"

definition share :: "nat \<Rightarrow> nat \<Rightarrow> decimal option" where
  "share k n = (if n = 0 then None else Some (ddiv (of_nat k) (of_nat n)))"

definition winners :: "decimal list \<Rightarrow> nat" where
  "winners ps = length (filter (\<lambda>x. 0 < x) ps)"

definition drawdown_pct :: "scenario \<Rightarrow> decimal list \<Rightarrow> decimal option" where
  "drawdown_pct c ps = (if 0 < sc_starting_equity_usd c
     then Some (ddiv (calculate_max_drawdown ps) (dec_of_float (sc_starting_equity_usd c))) else None)"

record month_point =
  mp_month :: int
  mp_pnl :: decimal
  mp_trades :: nat
  mp_gross_profit :: decimal
  mp_gross_loss :: decimal
  mp_win_rate :: "decimal option"
  mp_profit_factor :: "xfloat option"
  mp_max_drawdown_pct :: "decimal option"

definition build_monthly_point :: "scenario \<Rightarrow> int \<Rightarrow> sim_result list \<Rightarrow> month_point" where
  "build_monthly_point c month xs =
     (let ps = map net_pnl_of xs in
      \<lparr>mp_month = month, mp_pnl = dsum ps, mp_trades = length ps, mp_gross_profit = gross_wins ps,
       mp_gross_loss = gross_losses ps, mp_win_rate = share (winners ps) (length ps),
       mp_profit_factor = profit_factor_of ps, mp_max_drawdown_pct = drawdown_pct c ps\<rparr>)"

text \<open>The month of the candle a trade closed at.\<close>

definition close_month :: "market_candle list \<Rightarrow> sim_result \<Rightarrow> int option" where
  "close_month cs x =
     (if xr_closed_at_step x < 0 \<or> int (length cs) \<le> xr_closed_at_step x then None
      else Some (month_of (candle_day (cs ! nat (xr_closed_at_step x)))))"

definition file_under_month ::
  "market_candle list \<Rightarrow> (int \<times> sim_result list) list \<Rightarrow> sim_result \<Rightarrow> (int \<times> sim_result list) list"
where
  "file_under_month cs m x = (case close_month cs x of
     None \<Rightarrow> m | Some k \<Rightarrow> AList.update k (get_or m k [] @ [x]) m)"

definition best_month_of :: "month_point list \<Rightarrow> month_point option" where
  "best_month_of ps = (case ps of [] \<Rightarrow> None
     | p # qs \<Rightarrow> Some (foldl (\<lambda>b x. if mp_pnl b < mp_pnl x then x else b) p qs))"

definition worst_month_of :: "month_point list \<Rightarrow> month_point option" where
  "worst_month_of ps = (case ps of [] \<Rightarrow> None
     | p # qs \<Rightarrow> Some (foldl (\<lambda>b x. if mp_pnl x < mp_pnl b then x else b) p qs))"

definition build_monthly_pnl :: "scenario \<Rightarrow> market_candle list \<Rightarrow> sim_result list \<Rightarrow> month_point list \<times> nat" where
  "build_monthly_pnl c cs xs =
     (map (\<lambda>(k, ys). build_monthly_point c k ys) (sort_key fst (foldl (file_under_month cs) [] xs)),
      length (filter (\<lambda>x. close_month cs x = None) xs))"

record scenario_metrics =
  sm_closed_trades :: nat
  sm_winning_trades :: nat
  sm_gross_profit :: decimal
  sm_gross_loss :: decimal
  sm_win_rate :: "decimal option"
  sm_expectancy :: "decimal option"
  sm_profit_factor :: "xfloat option"
  sm_max_drawdown :: decimal
  sm_max_drawdown_pct :: "decimal option"
  sm_total_pnl :: decimal
  sm_net_pnl :: decimal
  sm_fees_paid :: decimal
  sm_slippage_paid :: decimal
  sm_counters :: replay_counters
  sm_monthly_pnl :: "month_point list"
  sm_best_month :: "month_point option"
  sm_worst_month :: "month_point option"

text \<open>
  The metrics and the number of trades the months leave out, which becomes a limitation when it is
  not zero.
\<close>

definition calculate_metrics ::
  "scenario \<Rightarrow> market_candle list \<Rightarrow> sim_result list \<Rightarrow> replay_report \<Rightarrow> scenario_metrics \<times> nat"
where
  "calculate_metrics c cs xs report =
     (let executed = filter (\<lambda>x. xr_status x \<noteq> ''skipped'') xs;
          ps = map net_pnl_of executed; n = length ps;
          (months, unresolved) = build_monthly_pnl c cs executed in
      (\<lparr>sm_closed_trades = n, sm_winning_trades = winners ps, sm_gross_profit = gross_wins ps,
        sm_gross_loss = gross_losses ps, sm_win_rate = share (winners ps) n,
        sm_expectancy = (if n = 0 then None else Some (ddiv (dsum ps) (of_nat n))),
        sm_profit_factor = profit_factor_of ps, sm_max_drawdown = calculate_max_drawdown ps,
        sm_max_drawdown_pct = drawdown_pct c ps, sm_total_pnl = dsum (map xr_realized_pnl executed),
        sm_net_pnl = dsum ps, sm_fees_paid = dsum (map xr_fees_paid executed),
        sm_slippage_paid = dsum (map (\<lambda>x. dmul (xr_slippage x) (xr_qty x)) executed),
        sm_counters = rp_counters report, sm_monthly_pnl = months,
        sm_best_month = best_month_of months, sm_worst_month = worst_month_of months\<rparr>,
       unresolved))"

subsection \<open>The decision\<close>

datatype failure = TooFewTrades | WinRateLow | ProfitFactorLow | ExpectancyLow | DrawdownTooHigh

definition evaluate_profile :: "scenario_metrics \<Rightarrow> threshold_profile \<Rightarrow> failure list" where
  "evaluate_profile m p =
     (if int (sm_closed_trades m) < tp_min_closed_trades p then [TooFewTrades] else [])
     @ (case sm_win_rate m of
          None \<Rightarrow> [WinRateLow] | Some r \<Rightarrow> if r < tp_min_win_rate p then [WinRateLow] else [])
     @ (case sm_profit_factor m of
          None \<Rightarrow> [ProfitFactorLow]
        | Some f \<Rightarrow> if xless f (tp_min_profit_factor p) then [ProfitFactorLow] else [])
     @ (if tp_require_positive_expectancy p then
          (case sm_expectancy m of
             None \<Rightarrow> [ExpectancyLow] | Some x \<Rightarrow> if x \<le> 0 then [ExpectancyLow] else [])
        else [])
     @ (case sm_max_drawdown_pct m of
          None \<Rightarrow> [DrawdownTooHigh]
        | Some d \<Rightarrow> if tp_max_drawdown_pct p < d then [DrawdownTooHigh] else [])"

record evaluation =
  ev_name :: string
  ev_lookback_days :: int
  ev_profile :: string
  ev_metrics :: scenario_metrics
  ev_passed :: bool
  ev_failure_reasons :: "failure list"
  ev_unresolved :: nat

definition scenario_simulation :: "scenario \<Rightarrow> pyfloat \<Rightarrow> simulation" where
  "scenario_simulation c fee = new_simulation (nat (sc_max_hold_candles c)) (sc_risk_amount_usd c)
     (Some fee) False (1 / 1000) (25 / 10000) (fl (7 / 10)) 2 1 True Spot (sc_starting_equity_usd c) [] 5"

definition evaluate_scenario ::
  "((string \<times> pyfloat) list \<Rightarrow> string) \<Rightarrow> (pyfloat \<Rightarrow> pyfloat) \<Rightarrow> (nat \<Rightarrow> pyfloat) \<Rightarrow> scenario
    \<Rightarrow> market_candle list \<Rightarrow> threshold_profile \<Rightarrow> pyfloat \<Rightarrow> int option \<Rightarrow> exc + evaluation"
where
  "evaluate_scenario js lg rnd c cs p fee lookback =
     ebind (build_strategy lg (sc_family c) (sc_strategy c) (sc_min_rrr c)) (\<lambda>t.
     ebind (fst (run_replay object_of_result js default_limits t
              (simulation_service (scenario_simulation c fee) rnd)
              \<lparr>rp_symbol = sc_symbol c, rp_interval = sc_interval c, rp_candles = Some cs,
               rp_snapshots = None, rp_start_step = None, rp_end_step = None\<rparr> 0)) (\<lambda>res.
     let (m, unresolved) = calculate_metrics c cs (executions_of (rx_steps res)) (rx_report res);
         reasons = evaluate_profile m p in
     Inr \<lparr>ev_name = sc_name c,
          ev_lookback_days = (case lookback of Some d \<Rightarrow> if d = 0 then sc_lookback_days c else d
                              | None \<Rightarrow> sc_lookback_days c),
          ev_profile = tp_name p, ev_metrics = m, ev_passed = (reasons = []),
          ev_failure_reasons = reasons, ev_unresolved = unresolved\<rparr>))"

subsection \<open>Every trade closes within the candles\<close>

definition from_simulation :: "simulation \<Rightarrow> (nat \<Rightarrow> pyfloat) \<Rightarrow> replay_request \<Rightarrow> sim_result replay_step_row \<Rightarrow> bool" where
  "from_simulation s rnd q r \<longleftrightarrow> (case rr_execution r of None \<Rightarrow> True
     | Some x \<Rightarrow> rr_signal r \<noteq> None \<and> (\<exists>p n n'. execute_replay_signal s rnd p
         (future_candles_for_step q (rr_step_index r)) (rr_step_index r) n = (x, n')))"

lemma from_simulation_simps:
  "from_simulation s rnd q \<lparr>rr_step_index = k, rr_snapshot = snap, rr_signal = g, rr_execution = None\<rparr>"
  "from_simulation s rnd q \<lparr>rr_step_index = k, rr_snapshot = snap, rr_signal = g, rr_execution = Some x\<rparr>
     \<longleftrightarrow> g \<noteq> None \<and> (\<exists>p n n'. execute_replay_signal s rnd p (future_candles_for_step q k) k n = (x, n'))"
  by (simp_all add: from_simulation_def)

lemma replay_one_rows:
  assumes "replay_one v js l gen (simulation_service s rnd) q st (k, snap) n = (Inr st', n')"
  shows "\<exists>r. snd st' = snd st @ [r] \<and> rr_step_index r = k \<and> from_simulation s rnd q r"
  using assms
  by (auto simp: replay_one_def Let_def simulation_service_def from_simulation_simps
      elim!: bnd_InrE split: option.splits if_splits sum.splits prod.splits; blast)

lemma replay_all_rows:
  assumes "replay_all v js l gen (simulation_service s rnd) q st ss n = (Inr st', n')"
    "\<forall>r \<in> set (snd st). from_simulation s rnd q r \<and> rr_step_index r \<in> K" "fst ` set ss \<subseteq> K"
  shows "\<forall>r \<in> set (snd st'). from_simulation s rnd q r \<and> rr_step_index r \<in> K"
  using assms
proof (induction ss arbitrary: st n)
  case (Cons x xs)
  obtain k snap where x: "x = (k, snap)" by force
  from Cons.prems(1) obtain st1 n1 where r: "replay_one v js l gen (simulation_service s rnd) q st x n = (Inr st1, n1)"
    "replay_all v js l gen (simulation_service s rnd) q st1 xs n1 = (Inr st', n')" by (auto elim!: bnd_InrE)
  from replay_one_rows[OF r(1)[unfolded x]] Cons.prems(2,3) have
    "\<forall>r \<in> set (snd st1). from_simulation s rnd q r \<and> rr_step_index r \<in> K" by (auto simp: x)
  from Cons.IH[OF r(2) this] Cons.prems(3) show ?case by simp
qed simp

lemma candle_steps:
  assumes "build_replay_steps q m = Inr ss" "rp_candles q = Some cs" "rp_snapshots q = None" "0 < m"
  shows "fst ` set ss \<subseteq> {0..<int (length cs)}"
  using assms by (auto simp: build_replay_steps_def build_candle_replay_steps_def Let_def split: option.splits if_splits)

lemma row_closes_within:
  assumes "from_simulation s rnd q r" "rr_step_index r \<in> {0..<int (length cs)}" "rp_candles q = Some cs"
    "rr_execution r = Some x"
  shows "0 \<le> xr_closed_at_step x" "xr_closed_at_step x < int (length cs)"
proof -
  from assms obtain p n n' where "execute_replay_signal s rnd p (drop (nat (rr_step_index r + 1)) cs)
      (rr_step_index r) n = (x, n')" by (auto simp: from_simulation_def future_candles_for_step_def)
  from simulation_span[OF this] assms(2)
  show "0 \<le> xr_closed_at_step x" "xr_closed_at_step x < int (length cs)" by auto
qed

lemma built_strategy_count: "build_strategy lg f name m = Inr t \<Longrightarrow> 0 < required_candle_count t"
  by (auto simp: build_strategy_def build_day_trading_strategy_def build_scalping_strategy_def Let_def
      v2_candle_count_def pullback_candle_count_def breakout_candle_count_def momentum_candle_count_def
      squeeze_candle_count_def divergence_candle_count_def new_bb_squeeze_def new_rsi_divergence_def
      split: if_splits)

lemma replay_runs:
  assumes "run_replay v js l t svc q0 n = (Inr res, n')"
  obtains q ss st where "normalize_replay_request q0 = Inr q"
    "build_replay_steps q (required_candle_count t) = Inr ss"
    "replay_all v js l (generate_signal t) svc q ((empty_portfolio, []), []) ss n = (Inr st, n')"
    "rx_steps res = snd st"
  using assms unfolding run_replay_def by (elim bnd_InrE) (auto split: sum.splits)

lemma normalize_fields:
  "normalize_replay_request q = Inr q' \<Longrightarrow> rp_candles q' = rp_candles q \<and> rp_snapshots q' = rp_snapshots q"
  by (auto simp: normalize_replay_request_def Let_def split: if_splits)

text \<open>What a replay over candles gives the gate.\<close>

lemma candle_replay:
  assumes run: "run_replay object_of_result js l t (simulation_service s rnd)
      \<lparr>rp_symbol = sym', rp_interval = intv, rp_candles = Some cs, rp_snapshots = None,
       rp_start_step = None, rp_end_step = None\<rparr> n = (Inr res, n')" and t: "0 < required_candle_count t"
  defines "xs \<equiv> filter (\<lambda>x. xr_status x \<noteq> ''skipped'') (executions_of (rx_steps res))"
  shows "\<forall>x \<in> set xs. close_month cs x \<noteq> None"
    and "length (entries object_of_result (rx_steps res)) = length xs"
proof -
  from replay_runs[OF run] obtain q ss st where r: "normalize_replay_request \<lparr>rp_symbol = sym', rp_interval = intv,
      rp_candles = Some cs, rp_snapshots = None, rp_start_step = None, rp_end_step = None\<rparr> = Inr q"
    "build_replay_steps q (required_candle_count t) = Inr ss"
    "replay_all object_of_result js l (generate_signal t) (simulation_service s rnd) q
       ((empty_portfolio, []), []) ss n = (Inr st, n')" "rx_steps res = snd st" .
  note q = conjunct1[OF normalize_fields[OF r(1)], simplified] conjunct2[OF normalize_fields[OF r(1)], simplified] r(2-4)
  have rows: "\<forall>r \<in> set (rx_steps res). from_simulation s rnd q r \<and> rr_step_index r \<in> {0..<int (length cs)}"
    using replay_all_rows[OF q(4) _ candle_steps[OF q(3,1,2) t]] by (simp add: q(5))
  have "close_month cs x \<noteq> None" if x: "x \<in> set xs" for x
  proof -
    from x obtain r where r: "r \<in> set (rx_steps res)" "rr_execution r = Some x"
      by (auto simp: xs_def executions_of_def List.map_filter_def)
    with row_closes_within[of s rnd q r cs x] rows q(1) show ?thesis by (auto simp: close_month_def)
  qed
  then show "\<forall>x \<in> set xs. close_month cs x \<noteq> None" by blast
  have exec: "execution_was_executed (object_of_result x) \<longleftrightarrow> xr_status x \<noteq> ''skipped''" for x
    by (simp add: execution_was_executed_def read_metric_def object_of_result_def text_of_chars_def plain_text_def)
  have "length (entries object_of_result rs)
      = length (filter (\<lambda>x. xr_status x \<noteq> ''skipped'') (executions_of rs))"
    if "\<forall>r \<in> set rs. from_simulation s rnd q r" for rs
    using that
    by (induction rs) (auto simp: entries_def executions_of_def List.map_filter_def entry_of_row_def exec
        from_simulation_def split: option.splits)
  with rows show "length (entries object_of_result (rx_steps res)) = length xs" by (simp add: xs_def)
qed

subsection \<open>The months add up\<close>

lemma update_count:
  "distinct (map fst m) \<Longrightarrow> sum_list (map (\<lambda>p. length (snd p)) (AList.update k (get_or m k [] @ [x]) m))
     = Suc (sum_list (map (\<lambda>p. length (snd p)) m))"
proof (induction m)
  case (Cons p m)
  obtain k' ys where p: "p = (k', ys)" by force
  show ?case
  proof (cases "k' = k")
    case False
    then have "get_or (p # m) k [] = get_or m k []" by (simp add: get_or_def p)
    with False Cons show ?thesis by (simp add: p)
  qed (simp add: p get_or_def)
qed (simp add: get_or_def)

lemma months_count:
  "distinct (map fst m) \<Longrightarrow> sum_list (map (\<lambda>p. length (snd p)) (foldl (file_under_month cs) m xs))
     = sum_list (map (\<lambda>p. length (snd p)) m) + length (filter (\<lambda>x. close_month cs x \<noteq> None) xs)"
proof (induction xs arbitrary: m)
  case (Cons x xs)
  have "distinct (map fst (file_under_month cs m x))"
    using Cons.prems by (simp add: file_under_month_def distinct_update split: option.split)
  from Cons.IH[OF this] show ?case
    using update_count[OF Cons.prems] by (simp add: file_under_month_def split: option.split)
qed simp

lemma sum_insort_key: "sum_list (map f (insort_key g x xs)) = f x + sum_list (map f xs)" for f :: "'a \<Rightarrow> nat"
  by (induction xs) simp_all

lemma sum_sort_key: "sum_list (map f (sort_key g xs)) = sum_list (map f xs)" for f :: "'a \<Rightarrow> nat"
  by (induction xs) (simp_all add: sum_insort_key)

lemma monthly_trades:
  "sum_list (map mp_trades (fst (build_monthly_pnl c cs xs))) + snd (build_monthly_pnl c cs xs) = length xs"
proof -
  let ?m = "foldl (file_under_month cs) [] xs"
  have "sum_list (map mp_trades (map (\<lambda>(k, ys). build_monthly_point c k ys) (sort_key fst ?m)))
      = sum_list (map (\<lambda>p. length (snd p)) (sort_key fst ?m))"
    by (simp add: comp_def split_def build_monthly_point_def Let_def)
  also have "\<dots> = sum_list (map (\<lambda>p. length (snd p)) ?m)"
    by (rule sum_sort_key)
  also have "\<dots> = length (filter (\<lambda>x. close_month cs x \<noteq> None) xs)" by (simp add: months_count)
  finally show ?thesis
    using sum_length_filter_compl[of "\<lambda>x. close_month cs x \<noteq> None" xs] by (simp add: build_monthly_pnl_def)
qed


subsection \<open>A scenario that passes\<close>

text \<open>
  A quiet market jumps, the crossover buys, and the next candle reaches the target.
\<close>

definition rise_candle :: market_candle where
  "rise_candle = new_market_candle 0 20 16 20 (Some 16) 1"

definition sample_candles :: "market_candle list" where
  "sample_candles = replicate 21 quiet_candle @ [jump_candle, rise_candle]"

definition sample_scenario :: scenario where
  "sample_scenario = \<lparr>sc_name = ''sample'', sc_family = ''day_trading'', sc_strategy = ''ema_crossover'',
     sc_symbol = ''BTCUSDT'', sc_interval = ''5'', sc_lookback_days = 1, sc_live_lookback_days = 1,
     sc_dataset_path = '''', sc_risk_amount_usd = 4, sc_starting_equity_usd = 1000,
     sc_max_hold_candles = 20, sc_min_rrr = 2, sc_regression_profile = ''p'', sc_live_profile = ''p''\<rparr>"

definition sample_profile :: threshold_profile where
  "sample_profile = \<lparr>tp_name = ''p'', tp_min_closed_trades = 1, tp_min_win_rate = 1,
     tp_min_profit_factor = 2, tp_require_positive_expectancy = True, tp_max_drawdown_pct = 0\<rparr>"

definition sample_win :: sim_result where
  "sample_win = \<lparr>xr_realized_pnl = 8, xr_fees_paid = 0, xr_slippage = 0, xr_exit_reason = ''tp_hit'',
     xr_hold_candles = 1, xr_qty = 4, xr_closed_at_step = 22, xr_entry_price = 16, xr_exit_price = 18,
     xr_status = ''closed'', xr_rejected_short_signal = False, xr_skipped_min_notional = False,
     xr_skipped_insufficient_capital = False, xr_ambiguous_candle = False\<rparr>"

lemma sample_win_run:
  "execute_replay_signal (scenario_simulation sample_scenario 0) (\<lambda>_. 0)
     \<lparr>rs_symbol = ''BTCUSDT'', rs_direction = LONG, rs_entry = 16, rs_stop = 15, rs_target = 18,
      rs_reason = a, rs_strategy_version = b, rs_indicators_snapshot = c\<rparr> [rise_candle] 21 0
   = (sample_win, 2)"
  by code_simp

lemma sample_metrics:
  "case calculate_metrics sample_scenario sample_candles [sample_win] r of (m, n) \<Rightarrow>
     evaluate_profile m sample_profile = [] \<and> sm_closed_trades m = 1"
  by code_simp

lemma ema_total: "xs \<noteq> [] \<Longrightarrow> \<exists>ys. calculate_ema xs p = Inr ys \<and> length ys = length xs"
proof -
  have "length (ema_from p e ys) = length ys" for e ys by (induction ys arbitrary: e) (simp_all add: Let_def)
  then show "xs \<noteq> [] \<Longrightarrow> ?thesis" by (cases xs) simp_all
qed

lemma nth_back_total: "0 < k \<Longrightarrow> k \<le> length xs \<Longrightarrow> \<exists>x. nth_back xs k = Inr x"
  by (simp add: nth_back_def)

lemma crossover_total:
  assumes "xo_slow x + 1 \<le> length (ms_candles s)" "1 \<le> xo_slow x"
  shows "\<exists>o'. crossover_generate x s = Inr o'"
proof -
  have len: "length (closes s) = length (ms_candles s)" "length (highs s) = length (ms_candles s)"
    "length (lows s) = length (ms_candles s)" by (simp_all add: closes_def highs_def lows_def)
  have v: "validate_snapshot (xo_slow x + 1) s = Inr ()" using assms by (simp add: validate_snapshot_def len)
  have ne: "closes s \<noteq> []" using assms len(1) by auto
  obtain fs ss where e: "calculate_ema (closes s) (xo_fast x) = Inr fs" "length fs = length (closes s)"
    "calculate_ema (closes s) (xo_slow x) = Inr ss" "length ss = length (closes s)" using ema_total[OF ne] by metis
  have "2 \<le> length (ms_candles s)" using assms by simp
  then obtain a b c d f g h where n: "nth_back fs 2 = Inr a" "nth_back ss 2 = Inr b" "nth_back fs 1 = Inr c"
    "nth_back ss 1 = Inr d" "nth_back (closes s) 1 = Inr f" "nth_back (lows s) 1 = Inr g" "nth_back (highs s) 1 = Inr h"
    using nth_back_total[of 2 fs] nth_back_total[of 2 ss] nth_back_total[of 1 fs] nth_back_total[of 1 ss]
      nth_back_total[of 1 "closes s"] nth_back_total[of 1 "lows s"] nth_back_total[of 1 "highs s"] e len by auto
  show ?thesis by (simp add: crossover_generate_def v e n del: One_nat_def)
qed

definition second_snapshot :: market_snapshot where
  "second_snapshot = jump_snapshot\<lparr>ms_candles := drop 1 sample_candles\<rparr>"

definition gate_request :: replay_request where
  "gate_request = \<lparr>rp_symbol = ''BTCUSDT'', rp_interval = ''5'', rp_candles = Some sample_candles,
     rp_snapshots = None, rp_start_step = None, rp_end_step = None\<rparr>"

lemma gate_request_steps:
  "normalize_replay_request gate_request = Inr gate_request"
  "build_replay_steps gate_request 22 = Inr [(21, jump_snapshot), (22, second_snapshot)]"
proof -
  have "py_upper (py_strip ''BTCUSDT'') = ''BTCUSDT''" "py_strip ''5'' = ''5''" by code_simp+
  then show "normalize_replay_request gate_request = Inr gate_request"
    by (simp add: normalize_replay_request_def gate_request_def negative_def)
  have "[21..22 :: int] = [21, 22]" by code_simp
  then show "build_replay_steps gate_request 22 = Inr [(21, jump_snapshot), (22, second_snapshot)]"
    by (simp add: build_replay_steps_def build_candle_replay_steps_def gate_request_def Let_def
        sample_candles_def second_snapshot_def jump_snapshot_def)
qed

lemma sample_first_step:
  "\<exists>st. replay_one object_of_result (\<lambda>_. ''{}'') default_limits (crossover_generate (new_ema_crossover 2))
      (simulation_service (scenario_simulation sample_scenario 0) (\<lambda>_. 0)) gate_request
      ((empty_portfolio, []), []) (21, jump_snapshot) 0 = (Inr st, 2)
    \<and> executions_of (snd st) = [sample_win]
    \<and> snd (fst st) = [(22, [\<lparr>cl_symbol = ''BTCUSDT'', cl_close_step = 22, cl_entry_date = 0, cl_net_trade_pnl = Some 8\<rparr>])]"
proof -
  obtain g where g: "crossover_generate (new_ema_crossover 2) jump_snapshot = Inr (Some g)" "sg_target g = 18"
    "sg_entry g = 16" "sg_stop g = 15" "sg_direction g = ''long''" "sg_symbol g = ''BTCUSDT''"
    using jump_signal by (elim exE conjE) (rule that)
  have c: "nth_back (ms_candles jump_snapshot) 1 = Inr jump_candle" "candle_day jump_candle = 0" by code_simp+
  have p: "to_execute_signal_request (\<lambda>_. ''{}'') g = Inr \<lparr>rs_symbol = ''BTCUSDT'', rs_direction = LONG,
      rs_entry = 16, rs_stop = 15, rs_target = 18, rs_reason = sg_reason g,
      rs_strategy_version = sg_strategy_version g, rs_indicators_snapshot = Some ''{}''\<rparr>"
    by (simp add: to_execute_signal_request_def text_direction_def g)
  have f: "future_candles_for_step gate_request 21 = [rise_candle]"
    by (simp add: future_candles_for_step_def gate_request_def sample_candles_def)
  have ex: "can_execute_signal default_limits g 21 0 (fst (apply_scheduled_closures default_limits 21
      (reset_daily_circuit_breaker 0 empty_portfolio, [])))"
    by (simp add: can_execute_signal_def g default_limits_def apply_scheduled_closures_def get_or_def
        reset_daily_circuit_breaker_def empty_portfolio_def)
  have tr: "\<exists>s. track_execution default_limits g (object_of_result sample_win) 21 0
      (apply_scheduled_closures default_limits 21 (reset_daily_circuit_breaker 0 empty_portfolio, []))
      = Inr (s, [(22, [\<lparr>cl_symbol = ''BTCUSDT'', cl_close_step = 22, cl_entry_date = 0, cl_net_trade_pnl = Some 8\<rparr>])])"
  proof -
    have "execution_was_executed (object_of_result sample_win)" "dsub 8 0 = 8"
      "coerce_decimal (read_metric (object_of_result sample_win) ''entry_price'') = Inr (Some 16)"
      "net_trade_pnl (object_of_result sample_win) = Inr (Some 8)" by code_simp+
    then show ?thesis
      by (simp add: track_execution_def g Let_def apply_scheduled_closures_def get_or_def sample_win_def)
  qed
  then obtain s where tr: "track_execution default_limits g (object_of_result sample_win) 21 0
      (apply_scheduled_closures default_limits 21 (reset_daily_circuit_breaker 0 empty_portfolio, []))
      = Inr (s, [(22, [\<lparr>cl_symbol = ''BTCUSDT'', cl_close_step = 22, cl_entry_date = 0, cl_net_trade_pnl = Some 8\<rparr>])])" ..
  show ?thesis
    by (simp add: replay_one_def c g(1) p ex tr Let_def simulation_service_def f sample_win_run bnd_def
        executions_of_def List.map_filter_def del: One_nat_def)
qed

lemma crossover_symbol: "crossover_generate x s = Inr (Some g) \<Longrightarrow> sg_symbol g = ms_symbol s"
  by (auto simp: crossover_generate_def ebind_Inr_iff crossover_build_signal_def signal_if_rewarding_def
      Let_def make_signal_def split: if_splits)

text \<open>The step a position closes at is within its symbol's cooldown.\<close>

lemma cooldown_refuses:
  assumes "sg_symbol g = cl_symbol c" "cl_close_step c = k" "0 \<le> lm_cooldown_candles l"
  shows "\<not> can_execute_signal l g k d (fst (apply_scheduled_closures l k (s, [(k, [c])])))"
  using assms record_closed_fields(2)[of l c s "sg_symbol g"]
  by (simp add: can_execute_signal_def apply_scheduled_closures_def get_or_def)

lemma sample_run:
  "\<exists>res n. run_replay object_of_result (\<lambda>_. ''{}'') default_limits
      \<lparr>required_candle_count = 22, generate_signal = crossover_generate (new_ema_crossover 2)\<rparr>
      (simulation_service (scenario_simulation sample_scenario 0) (\<lambda>_. 0)) gate_request 0 = (Inr res, n)
    \<and> executions_of (rx_steps res) = [sample_win]"
proof -
  let ?gen = "crossover_generate (new_ema_crossover 2)"
  let ?svc = "simulation_service (scenario_simulation sample_scenario 0) (\<lambda>_. 0)"
  obtain s rows where one: "replay_one object_of_result (\<lambda>_. ''{}'') default_limits ?gen ?svc gate_request
      ((empty_portfolio, []), []) (21, jump_snapshot) 0
      = (Inr ((s, [(22, [\<lparr>cl_symbol = ''BTCUSDT'', cl_close_step = 22, cl_entry_date = 0, cl_net_trade_pnl = Some 8\<rparr>])]), rows), 2)"
    "executions_of rows = [sample_win]"
    using sample_first_step by (elim exE conjE) (metis prod.collapse)
  have l: "length (ms_candles second_snapshot) = 22" by (simp add: second_snapshot_def sample_candles_def)
  have x: "xo_slow (new_ema_crossover 2) = 21" by (simp add: new_ema_crossover_def)
  obtain o' where o: "?gen second_snapshot = Inr o'"
    using crossover_total[of "new_ema_crossover 2" second_snapshot] l by (auto simp: x)
  have c: "nth_back (ms_candles second_snapshot) 1 = Inr rise_candle" by code_simp
  have no: "\<not> can_execute_signal default_limits g 22 d (fst (apply_scheduled_closures default_limits 22
      (s', [(22, [\<lparr>cl_symbol = ''BTCUSDT'', cl_close_step = 22, cl_entry_date = 0, cl_net_trade_pnl = Some 8\<rparr>])])))"
    if "o' = Some g" for g d s'
    using crossover_symbol[of _ second_snapshot g] o that
    by (intro cooldown_refuses) (auto simp: second_snapshot_def jump_snapshot_def default_limits_def)
  define ps where "ps = apply_scheduled_closures default_limits 22 (reset_daily_circuit_breaker (candle_day rise_candle) s,
      [(22, [\<lparr>cl_symbol = ''BTCUSDT'', cl_close_step = 22, cl_entry_date = 0, cl_net_trade_pnl = Some 8\<rparr>])])"
  define row where "row = \<lparr>rr_step_index = 22 :: int, rr_snapshot = second_snapshot, rr_signal = o',
      rr_execution = None :: sim_result option\<rparr>"
  have two: "replay_one object_of_result (\<lambda>_. ''{}'') default_limits ?gen ?svc gate_request
      ((s, [(22, [\<lparr>cl_symbol = ''BTCUSDT'', cl_close_step = 22, cl_entry_date = 0, cl_net_trade_pnl = Some 8\<rparr>])]), rows)
      (22, second_snapshot) 2 = (Inr (ps, rows @ [row]), 2)"
    using no by (cases o') (simp_all add: replay_one_def c o Let_def ps_def row_def del: One_nat_def)
  have rows: "executions_of (rows @ [row]) = [sample_win]"
    using one(2) by (simp add: executions_of_def List.map_filter_def row_def)
  have "replay_all object_of_result (\<lambda>_. ''{}'') default_limits ?gen ?svc gate_request ((empty_portfolio, []), [])
      [(21, jump_snapshot), (22, second_snapshot)] 0 = (Inr (ps, rows @ [row]), 2)"
    by (simp add: bnd_def one(1) two)
  moreover have "\<not> isl (build_report [object_of_result sample_win])" by code_simp
  ultimately show ?thesis
    by (cases "build_report [object_of_result sample_win]")
      (simp_all add: run_replay_def gate_request_steps bnd_def rows del: replay_all.simps)
qed


end
