(* ===== verification/AdminStats.thy ===== *)
theory AdminStats
  imports Configuration BacktestGate
begin

text \<open>
  \<^verbatim>\<open>backend/admin/stats.py\<close>, the trade listings of
  \<^verbatim>\<open>data_router.py\<close> and \<^verbatim>\<open>backtest_reports.py\<close>: what the
  admin panel shows of the committed journal and of the last backtest report.
\<close>

subsection \<open>Dashboard\<close>

text \<open>
  \<^verbatim>\<open>float(balance["list"][0].get("totalWalletBalance", 0.0))\<close>, with three of
  the exceptions it may raise turned into zero.
\<close>

definition first_wallet :: "json \<Rightarrow> exc + json" where
  "first_wallet balance = (case balance of
     JObj m \<Rightarrow> ebind (json_at m ''list'') (\<lambda>v. case v of
         JList [] \<Rightarrow> Inl IndexError
       | JList (x # _) \<Rightarrow> Inr x
       | JObj _ \<Rightarrow> Inl KeyError
       | JText t \<Rightarrow> if jt_chars t = [] then Inl IndexError else Inr (text_arg (take 1 (jt_chars t)))
       | _ \<Rightarrow> Inl TypeError)
   | _ \<Rightarrow> Inl TypeError)"

definition wallet_equity :: "json \<Rightarrow> exc + pyfloat" where
  "wallet_equity balance =
     (case ebind (first_wallet balance) (\<lambda>x. ebind (dot_get x ''totalWalletBalance'' (JFloat 0)) json_float) of
        Inl e \<Rightarrow> if e \<in> {KeyError, IndexError, TypeError} then Inr 0 else Inl e
      | Inr x \<Rightarrow> Inr x)"

record dashboard_stats =
  da_equity :: pyfloat
  da_trading_mode :: trading_mode
  da_safety_guard_status :: string
  da_open_positions_count :: nat
  da_pnl_today :: pyfloat

definition safety_guard_status :: "safety_state option \<Rightarrow> string" where
  "safety_guard_status s = (case s of
     None \<Rightarrow> ''OK''
   | Some f \<Rightarrow> if sf_kill_switch_active f then ''KILLED''
              else if sf_pause_reason f \<noteq> None then ''PAUSED'' else ''OK'')"

text \<open>\<open>balance\<close> is what the client answers when it is asked for the wallet.\<close>

definition get_dashboard_stats :: "settings \<Rightarrow> exc + json \<Rightarrow> timestamp \<Rightarrow> db \<Rightarrow> exc + dashboard_stats" where
  "get_dashboard_stats st balance t d =
     ebind (if trading_mode st = SHADOW then Inr (shadow_equity st) else ebind balance wallet_equity) (\<lambda>equity.
     Inr \<lparr>da_equity = equity, da_trading_mode = trading_mode st,
          da_safety_guard_status = safety_guard_status (safety d),
          da_open_positions_count = length (filter (\<lambda>t. t_status t = POSITION_OPEN) (trades d)),
          da_pnl_today = (case get_stat (date_of t) d of
             Some s \<Rightarrow> (case ds_net_pnl s of Some x \<Rightarrow> fl x | None \<Rightarrow> 0) | None \<Rightarrow> 0)\<rparr>)"

subsection \<open>Series\<close>

definition days_since :: "timestamp \<Rightarrow> int \<Rightarrow> db \<Rightarrow> daily_stat list" where
  "days_since t days d =
     sort_key ds_date (filter (\<lambda>s. date_of t - (days - 1) \<le> ds_date s) (daily_stats d))"

definition series_of :: "(daily_stat \<Rightarrow> decimal option) \<Rightarrow> daily_stat list \<Rightarrow> (date \<times> pyfloat) list" where
  "series_of f ss = concat (map (\<lambda>s. case f s of Some x \<Rightarrow> [(ds_date s, fl x)] | None \<Rightarrow> []) ss)"

text \<open>The ending equity of a day is a column that no code writes; it is a parameter.\<close>

definition get_equity_curve :: "(daily_stat \<Rightarrow> decimal option) \<Rightarrow> timestamp \<Rightarrow> int \<Rightarrow> db \<Rightarrow> (date \<times> pyfloat) list" where
  "get_equity_curve ending t days d = series_of ending (days_since t days d)"

definition get_daily_pnl :: "timestamp \<Rightarrow> int \<Rightarrow> db \<Rightarrow> (date \<times> pyfloat) list" where
  "get_daily_pnl t days d = series_of ds_net_pnl (days_since t days d)"

subsection \<open>Closed trades\<close>

record trade_summary =
  tm_total_trades :: nat
  tm_win_rate :: pyfloat
  tm_profit_factor :: xfloat
  tm_total_pnl :: pyfloat
  tm_avg_trade :: pyfloat

definition empty_summary :: trade_summary where
  "empty_summary = \<lparr>tm_total_trades = 0, tm_win_rate = 0, tm_profit_factor = Fin 0, tm_total_pnl = 0,
     tm_avg_trade = 0\<rparr>"

definition summary_of :: "pyfloat list \<Rightarrow> trade_summary" where
  "summary_of pnls =
     (if pnls = [] then empty_summary
      else
        let n = of_pyint (int (length pnls)); wins = filter (\<lambda>p. 0 < p) pnls;
            gross_profit = fsum wins; gross_loss = \<bar>fsum (filter (\<lambda>p. p < 0) pnls)\<bar>
        in \<lparr>tm_total_trades = length pnls, tm_win_rate = fdiv (of_pyint (int (length wins))) n,
            tm_profit_factor = (if 0 < gross_loss then Fin (fdiv gross_profit gross_loss)
              else if 0 < gross_profit then Infinity else Fin 0),
            tm_total_pnl = fsum pnls, tm_avg_trade = fdiv (fsum pnls) n\<rparr>)"

definition closed_pnls :: "db \<Rightarrow> pyfloat list" where
  "closed_pnls d = concat (map (\<lambda>t. case t_realized_pnl t of Some x \<Rightarrow> [fl x] | None \<Rightarrow> [])
     (filter (\<lambda>t. t_status t = POSITION_CLOSED) (trades d)))"

definition get_trades_summary :: "db \<Rightarrow> trade_summary" where
  "get_trades_summary d = summary_of (closed_pnls d)"

text \<open>
  \<^verbatim>\<open>GET /admin/trades\<close>: the filters, the newest closing first, and one page.  Rows
  with the same time of closing come in the order of the table.
\<close>

record trade_filter =
  tf_symbol :: "string option"
  tf_from_date :: "date option"
  tf_to_date :: "date option"

definition start_of_day :: "date \<Rightarrow> timestamp" where
  "start_of_day x = x * 86400000000"

definition trade_matches :: "trade_filter \<Rightarrow> trade \<Rightarrow> bool" where
  "trade_matches f t \<longleftrightarrow> t_status t = POSITION_CLOSED
     \<and> (case tf_symbol f of Some s \<Rightarrow> s = [] \<or> t_symbol t = s | None \<Rightarrow> True)
     \<and> (case tf_from_date f of Some x \<Rightarrow> (case t_closed_at t of Some c \<Rightarrow> start_of_day x \<le> c | None \<Rightarrow> False) | None \<Rightarrow> True)
     \<and> (case tf_to_date f of Some x \<Rightarrow> (case t_closed_at t of Some c \<Rightarrow> c < start_of_day (x + 1) | None \<Rightarrow> False) | None \<Rightarrow> True)"

definition closing_key :: "trade \<Rightarrow> int" where
  "closing_key t = (case t_closed_at t of Some c \<Rightarrow> - c | None \<Rightarrow> 0)"

definition admin_trades :: "trade_filter \<Rightarrow> nat \<Rightarrow> nat \<Rightarrow> db \<Rightarrow> nat \<times> nat \<times> nat \<times> trade list" where
  "admin_trades f page limit d =
     (let matching = filter (trade_matches f) (trades d); n = length matching in
      (n, page, max 1 ((n + limit - 1) div limit), take limit (drop ((page - 1) * limit) (sort_key closing_key matching))))"

definition admin_open_trades :: "db \<Rightarrow> trade list" where
  "admin_open_trades d = filter (\<lambda>t. t_status t = POSITION_OPEN) (trades d)"

text \<open>
  C34: The panel never shows a closed trade.  Its listing and its summary ask for the status
  \<open>POSITION_CLOSED\<close>, in which no committed trade ever rests, so in every state the application can
  come to the summary is the empty one and every page of the listing is empty.
\<close>

theorem panel_shows_no_closed_trade:
  assumes "reachable w"
  shows "get_trades_summary (saved w) = empty_summary \<and>
    admin_trades f page limit (saved w) = (0, page, max 1 ((limit - 1) div limit), [])"
proof -
  have "winv none_closed w" by (rule nc.keep_reachable[OF assms]) (simp add: empty_invariants)
  then have "filter (\<lambda>t. t_status t = POSITION_CLOSED) (trades (saved w)) = []"
    "filter (trade_matches f) (trades (saved w)) = []"
    by (auto simp: winv_def none_closed_def filter_empty_conv trade_matches_def)
  then show ?thesis
    by (simp add: get_trades_summary_def summary_of_def closed_pnls_def admin_trades_def)
qed

theorem panel_shows_no_closed_trade_witness:
  "get_trades_summary (saved sample_history) = empty_summary"
  using panel_shows_no_closed_trade[OF sample_reachable] by (rule conjunct1)

subsection \<open>Backtest reports\<close>

definition text_json :: "json \<Rightarrow> string option" where
  "text_json v = (case v of JText t \<Rightarrow> Some (jt_chars t) | _ \<Rightarrow> None)"

definition strategy_text :: "json \<Rightarrow> string list" where
  "strategy_text item = (case item of
     JObj m \<Rightarrow> (case text_json (json_get m ''strategy'' JNull) of
        Some s \<Rightarrow> if py_strip s = [] then [] else [py_strip s] | None \<Rightarrow> [])
   | _ \<Rightarrow> [])"

definition derive_strategy_name :: "json list \<Rightarrow> string" where
  "derive_strategy_name xs = (case remdups (concat (map strategy_text xs)) of
     [s] \<Rightarrow> s | _ \<Rightarrow> ''mixed'')"

definition set_default_key :: "string \<Rightarrow> json \<Rightarrow> (string \<times> json) list \<Rightarrow> (string \<times> json) list" where
  "set_default_key k v m = (if map_of m k = None then AList.update k v m else m)"

text \<open>\<open>source\<close> is the name of the report's file.\<close>

definition report_metadata :: "(json \<Rightarrow> string) \<Rightarrow> bool \<Rightarrow> string option \<Rightarrow> json \<Rightarrow> (string \<times> json) list" where
  "report_metadata rep has_scenarios source v =
     (let m = (case v of JObj m \<Rightarrow> m | _ \<Rightarrow> []);
          m1 = set_default_key ''report_format_version'' (JInt (if has_scenarios then 2 else 1)) m;
          limitations = (case json_get m1 ''limitations'' JNull of JList xs \<Rightarrow> xs | _ \<Rightarrow> []);
          m2 = AList.update ''limitations'' (JList (map (\<lambda>x. text_arg (json_str rep x)) limitations)) m1
      in case source of Some f \<Rightarrow> set_default_key ''source_file'' (text_arg f) m2 | None \<Rightarrow> m2)"

definition normalize_backtest_report_payload ::
  "(json \<Rightarrow> string) \<Rightarrow> string option \<Rightarrow> json \<Rightarrow> exc + (string \<times> json) list"
where
  "normalize_backtest_report_payload rep source payload = (case payload of
     JObj p \<Rightarrow>
       let given = json_get p ''scenarios'' JNull;
           raw = (if given = JNull then json_get p ''results'' (JList []) else given);
           n1 = (if given = JNull then AList.update ''scenarios'' raw p else p)
       in (case raw of
          JList scenarios \<Rightarrow>
            let suite = (if json_get n1 ''suite_name'' JNull = JNull then json_get n1 ''suite'' JNull
                         else json_get n1 ''suite_name'' JNull);
                n2 = AList.update ''suite_name'' (if text_json suite = None then JNull else suite) n1;
                named = (case text_json (json_get n2 ''strategy_name'' JNull) of Some s \<Rightarrow> py_strip s \<noteq> [] | None \<Rightarrow> False);
                n3 = (if named then n2
                      else AList.update ''strategy_name'' (text_arg (derive_strategy_name scenarios)) n2);
                n4 = AList.update ''metadata''
                  (JObj (report_metadata rep (map_of p ''scenarios'' \<noteq> None) source (json_get n3 ''metadata'' JNull))) n3
            in Inr (set_default_key ''results'' raw n4)
        | _ \<Rightarrow> Inl TypeError)
   | _ \<Rightarrow> Inl TypeError)"

text \<open>
  The newest report that can be read.  A candidate is its time of modification, its name and its
  parsed content, or \<open>None\<close> where it cannot be read or parsed.
\<close>

definition load_latest_backtest_report ::
  "(json \<Rightarrow> string) \<Rightarrow> (int \<times> string \<times> json option) list \<Rightarrow> (string \<times> json) list option"
where
  "load_latest_backtest_report rep candidates =
     (case concat (map (\<lambda>(_, name, v). case v of
          Some payload \<Rightarrow> (case normalize_backtest_report_payload rep (Some name) payload of
             Inr m \<Rightarrow> [m] | Inl _ \<Rightarrow> [])
        | None \<Rightarrow> []) (sort_key (\<lambda>(t, _). - t) candidates)) of
        [] \<Rightarrow> None | m # _ \<Rightarrow> Some m)"

end
