(* ===== verification/AdminAuth.thy ===== *)
theory AdminAuth
  imports Prelude Journal_Models
begin

text \<open>
  \<^verbatim>\<open>backend/admin/auth.py\<close>, \<^verbatim>\<open>router.py\<close> and
  \<^verbatim>\<open>deps.py\<close>: logging in to the admin panel with a password and a one-time
  code, tokens, their revocation, and the blocking of addresses.  The password hash, the one-time
  codes, the signed tokens and Redis are libraries and services outside the repository: parameters,
  with what the code relies on as hypotheses.
\<close>

subsection \<open>Libraries and services\<close>

text \<open>What a token says; times in it are seconds.\<close>

record claims =
  cl_sub :: "string option"
  cl_type :: "string option"
  cl_exp :: "int option"
  cl_jti :: string

text \<open>
  \<open>al_decode\<close> is \<open>None\<close> where \<^verbatim>\<open>jwt.decode\<close> raises: no signature of ours, or expired.
\<close>

record auth_lib =
  al_checkpw :: "string \<Rightarrow> string \<Rightarrow> bool"
  al_totp :: "string \<Rightarrow> string \<Rightarrow> timestamp \<Rightarrow> bool"
  al_encode :: "claims \<Rightarrow> string"
  al_decode :: "string \<Rightarrow> timestamp \<Rightarrow> claims option"
  al_hex :: "nat \<Rightarrow> string"
  al_trusted_proxy :: "string \<Rightarrow> bool"

record 's redis_ops =
  rd_exists :: "string \<Rightarrow> timestamp \<Rightarrow> 's \<Rightarrow> bool"
  rd_get :: "string \<Rightarrow> timestamp \<Rightarrow> 's \<Rightarrow> int option"
  rd_incr :: "string \<Rightarrow> timestamp \<Rightarrow> 's \<Rightarrow> int \<times> 's"
  rd_expire :: "string \<Rightarrow> int \<Rightarrow> timestamp \<Rightarrow> 's \<Rightarrow> 's"
  rd_setex :: "string \<Rightarrow> int \<Rightarrow> timestamp \<Rightarrow> 's \<Rightarrow> 's"
  rd_delete :: "string \<Rightarrow> timestamp \<Rightarrow> 's \<Rightarrow> 's"

subsection \<open>Users, audit and answers\<close>

record admin_user =
  au_id :: nat
  au_username :: string
  au_password_hash :: string
  au_totp_secret :: string
  au_is_active :: bool

record audit_log =
  lg_admin_id :: nat
  lg_action :: string
  lg_ip_address :: string
  lg_user_agent :: "string option"

record 's auth_world =
  aw_users :: "admin_user list"
  aw_audit :: "audit_log list"
  aw_redis :: 's
  aw_draws :: nat

datatype http_error = Unauthorized | Forbidden | TooManyRequests

type_synonym ('s, 'a) route = "'s auth_world \<Rightarrow> (http_error + 'a) \<times> 's auth_world"

definition on_redis :: "('s \<Rightarrow> 's) \<Rightarrow> 's auth_world \<Rightarrow> 's auth_world" where
  "on_redis f w = w\<lparr>aw_redis := f (aw_redis w)\<rparr>"

definition find_user :: "string \<Rightarrow> 's auth_world \<Rightarrow> admin_user option" where
  "find_user name w = find (\<lambda>u. au_username u = name) (aw_users w)"

definition append_audit :: "nat \<Rightarrow> string \<Rightarrow> string \<Rightarrow> string option \<Rightarrow> 's auth_world \<Rightarrow> 's auth_world" where
  "append_audit i action ip ua w = w\<lparr>aw_audit := aw_audit w @
     [\<lparr>lg_admin_id = i, lg_action = action, lg_ip_address = ip, lg_user_agent = ua\<rparr>]\<rparr>"

text \<open>The address a request counts for: a trusted proxy may name another.\<close>

definition client_ip :: "auth_lib \<Rightarrow> string option \<Rightarrow> string option \<Rightarrow> string" where
  "client_ip lib peer real_ip = (case peer of
     None \<Rightarrow> ''unknown''
   | Some p \<Rightarrow> if p = [] then ''unknown''
       else if al_trusted_proxy lib p \<and> real_ip \<noteq> None \<and> real_ip \<noteq> Some [] then the real_ip else p)"

subsection \<open>Tokens\<close>

definition token_claims :: "auth_lib \<Rightarrow> string \<Rightarrow> string \<Rightarrow> int \<Rightarrow> timestamp \<Rightarrow> 's auth_world \<Rightarrow> claims" where
  "token_claims lib username token_type seconds t w =
     \<lparr>cl_sub = Some username, cl_type = Some token_type, cl_exp = Some ((t + seconds * 1000000) div 1000000),
      cl_jti = al_hex lib (aw_draws w)\<rparr>"

text \<open>\<^verbatim>\<open>_make_token\<close>: the claims that are signed.\<close>

definition make_token :: "auth_lib \<Rightarrow> string \<Rightarrow> string \<Rightarrow> int \<Rightarrow> timestamp \<Rightarrow> 's auth_world \<Rightarrow> claims \<times> 's auth_world" where
  "make_token lib username token_type seconds t w =
     (token_claims lib username token_type seconds t w, w\<lparr>aw_draws := Suc (aw_draws w)\<rparr>)"

definition create_access_token :: "auth_lib \<Rightarrow> int \<Rightarrow> string \<Rightarrow> timestamp \<Rightarrow> 's auth_world \<Rightarrow> claims \<times> 's auth_world" where
  "create_access_token lib ttl_minutes username t = make_token lib username ''access'' (ttl_minutes * 60) t"

definition create_refresh_token :: "auth_lib \<Rightarrow> int \<Rightarrow> string \<Rightarrow> timestamp \<Rightarrow> 's auth_world \<Rightarrow> claims \<times> 's auth_world" where
  "create_refresh_token lib ttl_days username t = make_token lib username ''refresh'' (ttl_days * 86400) t"

definition create_totp_pending_token :: "auth_lib \<Rightarrow> string \<Rightarrow> timestamp \<Rightarrow> 's auth_world \<Rightarrow> claims \<times> 's auth_world" where
  "create_totp_pending_token lib username t = make_token lib username ''totp_pending'' 300 t"

definition decode_token :: "auth_lib \<Rightarrow> string \<Rightarrow> string \<Rightarrow> timestamp \<Rightarrow> claims option" where
  "decode_token lib token expected t = (case al_decode lib token t of
     None \<Rightarrow> None
   | Some c \<Rightarrow> if cl_type c \<noteq> Some expected then None else if cl_sub c = None then None else Some c)"

definition subject :: "claims \<Rightarrow> string" where
  "subject c = (case cl_sub c of Some s \<Rightarrow> s | None \<Rightarrow> [])"

subsection \<open>Failures and blocks\<close>

definition blocked_key :: "string \<Rightarrow> string" where
  "blocked_key ip = ''blocked:'' @ ip"

definition failures_key :: "string \<Rightarrow> string" where
  "failures_key ip = ''failures:'' @ ip"

definition revoked_key :: "string \<Rightarrow> string" where
  "revoked_key jti = ''bl:'' @ jti"

definition is_blocked :: "'s redis_ops \<Rightarrow> string \<Rightarrow> timestamp \<Rightarrow> 's auth_world \<Rightarrow> bool" where
  "is_blocked R ip t w = rd_exists R (blocked_key ip) t (aw_redis w)"

definition record_failure :: "'s redis_ops \<Rightarrow> string \<Rightarrow> timestamp \<Rightarrow> 's auth_world \<Rightarrow> 's auth_world" where
  "record_failure R ip t w =
     (case rd_incr R (failures_key ip) t (aw_redis w) of (n, s) \<Rightarrow>
        let s1 = (if n = 1 then rd_expire R (failures_key ip) 900 t s else s);
            s2 = (if 5 \<le> n then rd_setex R (blocked_key ip) 900 t s1 else s1)
        in w\<lparr>aw_redis := s2\<rparr>)"

definition reset_failures :: "'s redis_ops \<Rightarrow> string \<Rightarrow> timestamp \<Rightarrow> 's auth_world \<Rightarrow> 's auth_world" where
  "reset_failures R ip t = on_redis (rd_delete R (failures_key ip) t)"

subsection \<open>Routes\<close>

text \<open>The schema of a login: lengths, and the characters of the name.\<close>

definition login_payload_ok :: "string \<Rightarrow> string \<Rightarrow> bool" where
  "login_payload_ok username password \<longleftrightarrow> 3 \<le> length username \<and> length username \<le> 50 \<and>
     list_all (\<lambda>c. let n = (of_char c :: nat) in
       97 \<le> n \<and> n \<le> 122 \<or> 65 \<le> n \<and> n \<le> 90 \<or> 48 \<le> n \<and> n \<le> 57 \<or> c = CHR ''_'' \<or> c = CHR ''-'') username \<and>
     8 \<le> length password \<and> length password \<le> 128"

definition login ::
  "auth_lib \<Rightarrow> 's redis_ops \<Rightarrow> string \<Rightarrow> string option \<Rightarrow> string \<Rightarrow> string \<Rightarrow> timestamp \<Rightarrow> ('s, claims) route"
where
  "login lib R ip ua username password t w =
     (if is_blocked R ip t w then (Inl TooManyRequests, w)
      else
        let row = find_user username w;
            valid = (case row of None \<Rightarrow> False
              | Some u \<Rightarrow> au_is_active u \<and> al_checkpw lib password (au_password_hash u))
        in if \<not> valid then
             let w1 = record_failure R ip t w in
             (Inl Unauthorized, case row of Some u \<Rightarrow> append_audit (au_id u) ''login_failed'' ip ua w1 | None \<Rightarrow> w1)
           else
             (case create_totp_pending_token lib username t (reset_failures R ip t w) of
                (c, w2) \<Rightarrow> (Inr c, w2)))"

record verified =
  vf_access :: claims
  vf_refresh :: claims

definition totp_key :: "string \<Rightarrow> string" where
  "totp_key token = ''totp_fail:'' @ token"

text \<open>The route once the number of failures of the session's token is not too high.\<close>

definition check_code ::
  "auth_lib \<Rightarrow> 's redis_ops \<Rightarrow> int \<Rightarrow> int \<Rightarrow> string \<Rightarrow> string option \<Rightarrow> string \<Rightarrow> string \<Rightarrow> timestamp
    \<Rightarrow> ('s, verified) route"
where
  "check_code lib R access_ttl refresh_ttl ip ua token code t w =
     (case decode_token lib token ''totp_pending'' t of
        None \<Rightarrow> (Inl Unauthorized, w)
      | Some c \<Rightarrow>
          (case find_user (subject c) w of
             None \<Rightarrow> (Inl Unauthorized, w)
           | Some u \<Rightarrow>
               if \<not> au_is_active u then (Inl Unauthorized, w)
               else if \<not> al_totp lib (au_totp_secret u) code t then
                 (case rd_incr R (totp_key token) t (aw_redis w) of (n, s) \<Rightarrow>
                    (Inl Unauthorized, append_audit (au_id u) ''totp_failed'' ip ua
                       (w\<lparr>aw_redis := if n = 1 then rd_expire R (totp_key token) 300 t s else s\<rparr>)))
               else
                 (case create_refresh_token lib refresh_ttl (subject c) t
                         (append_audit (au_id u) ''login_success'' ip ua w) of (r, w1) \<Rightarrow>
                  (case create_access_token lib access_ttl (subject c) t w1 of (a, w2) \<Rightarrow>
                    (Inr \<lparr>vf_access = a, vf_refresh = r\<rparr>, w2)))))"

definition verify_totp ::
  "auth_lib \<Rightarrow> 's redis_ops \<Rightarrow> int \<Rightarrow> int \<Rightarrow> string \<Rightarrow> string option \<Rightarrow> string \<Rightarrow> string \<Rightarrow> timestamp
    \<Rightarrow> ('s, verified) route"
where
  "verify_totp lib R access_ttl refresh_ttl ip ua token code t w =
     (case rd_get R (totp_key token) t (aw_redis w) of
        Some n \<Rightarrow> if 5 \<le> n then (Inl TooManyRequests, w)
                 else check_code lib R access_ttl refresh_ttl ip ua token code t w
      | None \<Rightarrow> check_code lib R access_ttl refresh_ttl ip ua token code t w)"

text \<open>A token is revoked under its identifier; a token without one cannot be.\<close>

definition revoked :: "'s redis_ops \<Rightarrow> claims \<Rightarrow> timestamp \<Rightarrow> 's auth_world \<Rightarrow> bool" where
  "revoked R c t w \<longleftrightarrow> cl_jti c \<noteq> [] \<and> rd_exists R (revoked_key (cl_jti c)) t (aw_redis w)"

definition csrf_ok :: "string option \<Rightarrow> string option \<Rightarrow> bool" where
  "csrf_ok cookie header \<longleftrightarrow> cookie \<noteq> None \<and> cookie \<noteq> Some [] \<and> header = cookie"

definition refresh_access_token ::
  "auth_lib \<Rightarrow> 's redis_ops \<Rightarrow> int \<Rightarrow> string option \<Rightarrow> string option \<Rightarrow> string option \<Rightarrow> timestamp \<Rightarrow> ('s, claims) route"
where
  "refresh_access_token lib R access_ttl refresh_token csrf_token csrf_header t w =
     (if \<not> csrf_ok csrf_token csrf_header then (Inl Forbidden, w)
      else case refresh_token of
        None \<Rightarrow> (Inl Unauthorized, w)
      | Some token \<Rightarrow>
          (case decode_token lib token ''refresh'' t of
             None \<Rightarrow> (Inl Unauthorized, w)
           | Some c \<Rightarrow>
               if revoked R c t w then (Inl Unauthorized, w)
               else (case create_access_token lib access_ttl (subject c) t w of (a, w1) \<Rightarrow> (Inr a, w1))))"

text \<open>The identifier is put on the list for as long as the token would still be accepted.\<close>

definition revoke :: "auth_lib \<Rightarrow> 's redis_ops \<Rightarrow> string \<Rightarrow> string \<Rightarrow> timestamp \<Rightarrow> 's auth_world \<Rightarrow> 's auth_world" where
  "revoke lib R token expected t w = (case decode_token lib token expected t of
     None \<Rightarrow> w
   | Some c \<Rightarrow> (case cl_exp c of
       None \<Rightarrow> w
     | Some x \<Rightarrow>
         let ttl = (x * 1000000 - t) div 1000000 in
         if cl_jti c \<noteq> [] \<and> 0 < ttl then on_redis (rd_setex R (revoked_key (cl_jti c)) ttl t) w else w))"

definition logout ::
  "auth_lib \<Rightarrow> 's redis_ops \<Rightarrow> string option \<Rightarrow> string option \<Rightarrow> string option \<Rightarrow> string option \<Rightarrow> timestamp \<Rightarrow> ('s, unit) route"
where
  "logout lib R access_token refresh_token csrf_token csrf_header t w =
     (if refresh_token \<noteq> None \<and> refresh_token \<noteq> Some [] \<and> \<not> csrf_ok csrf_token csrf_header
      then (Inl Forbidden, w)
      else
        let w1 = (case access_token of Some tok \<Rightarrow> revoke lib R tok ''access'' t w | None \<Rightarrow> w);
            w2 = (case refresh_token of Some tok \<Rightarrow> if tok = [] then w1 else revoke lib R tok ''refresh'' t w1 | None \<Rightarrow> w1)
        in (Inr (), w2))"

definition get_current_admin :: "auth_lib \<Rightarrow> 's redis_ops \<Rightarrow> string \<Rightarrow> timestamp \<Rightarrow> 's auth_world \<Rightarrow> http_error + string" where
  "get_current_admin lib R token t w = (case decode_token lib token ''access'' t of
     None \<Rightarrow> Inl Unauthorized
   | Some c \<Rightarrow> if revoked R c t w then Inl Unauthorized else Inr (subject c))"

text \<open>Every route of the panel's data records who asked for what.\<close>

definition audit_log_access :: "string \<Rightarrow> string \<Rightarrow> string option \<Rightarrow> string \<Rightarrow> 's auth_world \<Rightarrow> 's auth_world" where
  "audit_log_access path ip ua admin w = (case find_user admin w of
     None \<Rightarrow> w
   | Some u \<Rightarrow> append_audit (au_id u) (''access:'' @ path) ip ua w)"

text \<open>\<^verbatim>\<open>_validate_ws_access\<close> of the log stream also asks whether the user is active.\<close>

definition validate_ws_access :: "auth_lib \<Rightarrow> 's redis_ops \<Rightarrow> string \<Rightarrow> timestamp \<Rightarrow> 's auth_world \<Rightarrow> bool" where
  "validate_ws_access lib R token t w = (case decode_token lib token ''access'' t of
     None \<Rightarrow> False
   | Some c \<Rightarrow> \<not> revoked R c t w \<and> (case find_user (subject c) w of Some u \<Rightarrow> au_is_active u | None \<Rightarrow> False))"

text \<open>\<^verbatim>\<open>scripts/create_admin.py\<close>: usernames are unique.\<close>

definition insert_admin :: "string \<Rightarrow> string \<Rightarrow> string \<Rightarrow> 's auth_world \<Rightarrow> 's auth_world" where
  "insert_admin username hash secret w =
     (if find_user username w \<noteq> None then w
      else w\<lparr>aw_users := aw_users w @ [\<lparr>au_id = aw_draws w, au_username = username, au_password_hash = hash,
               au_totp_secret = secret, au_is_active = True\<rparr>], aw_draws := Suc (aw_draws w)\<rparr>)"

subsection \<open>Histories\<close>

text \<open>
  What the application does with its users, in any order and at any time, with the claims of the
  tokens it has handed out.  A token that is presented may be any text, but the library
  accepts only what was signed here: \<open>signed\<close>.
\<close>

definition signed :: "auth_lib \<Rightarrow> claims list \<Rightarrow> bool" where
  "signed lib issued \<longleftrightarrow> (\<forall>token t c. al_decode lib token t = Some c \<longrightarrow> c \<in> set issued)"

definition deactivated :: "string \<Rightarrow> admin_user \<Rightarrow> admin_user" where
  "deactivated name u = (if au_username u = name then u\<lparr>au_is_active := False\<rparr> else u)"

inductive auth_step ::
  "auth_lib \<Rightarrow> 's redis_ops \<Rightarrow> claims list \<Rightarrow> 's auth_world \<Rightarrow> claims list \<Rightarrow> 's auth_world \<Rightarrow> bool"
  for lib R issued where
  admin: "auth_step lib R issued w [] (insert_admin username hash secret w)"
| login: "login lib R ip ua username password t w = (r, w') \<Longrightarrow>
    auth_step lib R issued w (case r of Inr c \<Rightarrow> [c] | Inl _ \<Rightarrow> []) w'"
| totp: "verify_totp lib R a b ip ua token code t w = (r, w') \<Longrightarrow>
    (\<And>t c. al_decode lib token t = Some c \<Longrightarrow> c \<in> set issued) \<Longrightarrow>
    auth_step lib R issued w (case r of Inr v \<Rightarrow> [vf_access v, vf_refresh v] | Inl _ \<Rightarrow> []) w'"
| refresh: "refresh_access_token lib R a (Some token) ct ch t w = (r, w') \<Longrightarrow>
    (\<And>t c. al_decode lib token t = Some c \<Longrightarrow> c \<in> set issued) \<Longrightarrow>
    auth_step lib R issued w (case r of Inr c \<Rightarrow> [c] | Inl _ \<Rightarrow> []) w'"
| logout: "auth_step lib R issued w [] (snd (logout lib R atk rt ct ch t w))"
| access: "get_current_admin lib R token t w = Inr admin \<Longrightarrow>
    auth_step lib R issued w [] (audit_log_access path ip ua admin w)"
| deactivate: "auth_step lib R issued w [] (w\<lparr>aw_users := map (deactivated name) (aw_users w)\<rparr>)"

inductive auth_reachable :: "auth_lib \<Rightarrow> 's redis_ops \<Rightarrow> 's \<Rightarrow> claims list \<Rightarrow> 's auth_world \<Rightarrow> bool"
  for lib R s0 where
  start: "auth_reachable lib R s0 [] \<lparr>aw_users = [], aw_audit = [], aw_redis = s0, aw_draws = 0\<rparr>"
| step: "auth_reachable lib R s0 issued w \<Longrightarrow> auth_step lib R issued w new w' \<Longrightarrow>
    auth_reachable lib R s0 (issued @ new) w'"

subsection \<open>Access needs both factors\<close>

text \<open>A login of the user with a right code is on record.\<close>

definition identities :: "'s auth_world \<Rightarrow> (nat \<times> string) set" where
  "identities w = (\<lambda>u. (au_id u, au_username u)) ` set (aw_users w)"

definition logged_in :: "'s auth_world \<Rightarrow> string \<Rightarrow> bool" where
  "logged_in w name \<longleftrightarrow> (\<exists>i. (i, name) \<in> identities w \<and>
     (\<exists>l \<in> set (aw_audit w). lg_admin_id l = i \<and> lg_action l = ''login_success''))"

definition earned :: "'s auth_world \<Rightarrow> claims \<Rightarrow> bool" where
  "earned w c \<longleftrightarrow> (cl_type c = Some ''access'' \<or> cl_type c = Some ''refresh'' \<longrightarrow>
     (\<exists>name. cl_sub c = Some name \<and> logged_in w name))"

text \<open>Users are never removed or renamed, and the audit only grows.\<close>

definition grows :: "'s auth_world \<Rightarrow> 's auth_world \<Rightarrow> bool" where
  "grows w w' \<longleftrightarrow> identities w \<subseteq> identities w' \<and> set (aw_audit w) \<subseteq> set (aw_audit w')"

lemma grows_trans: "grows u v \<Longrightarrow> grows v w \<Longrightarrow> grows u w"
  by (auto simp: grows_def)

lemma grows_earned: "grows w w' \<Longrightarrow> earned w c \<Longrightarrow> earned w' c"
  unfolding grows_def earned_def logged_in_def by blast

lemma grows_all: "grows w w' \<Longrightarrow> \<forall>c \<in> set issued. earned w c \<Longrightarrow> \<forall>c \<in> set issued. earned w' c"
  using grows_earned by blast

lemma grows_simps:
  "grows w w" "grows w (append_audit i a ip ua w)" "grows w (on_redis f w)" "grows w (w\<lparr>aw_redis := s\<rparr>)"
  "grows w (w\<lparr>aw_draws := n\<rparr>)" "grows w (record_failure R ip t w)" "grows w (reset_failures R ip t w)"
  "grows w (revoke lib R tok ty t w)" "grows w (insert_admin name hash secret w)"
  by (auto simp: grows_def identities_def append_audit_def on_redis_def record_failure_def reset_failures_def
      revoke_def insert_admin_def Let_def split: option.split prod.split)

lemmas token_defs = create_access_token_def create_refresh_token_def create_totp_pending_token_def
  make_token_def token_claims_def

lemma find_user_Some: "find_user name w = Some u \<Longrightarrow> u \<in> set (aw_users w) \<and> au_username u = name"
  by (auto simp: find_user_def find_Some_iff)

lemma login_grows: "login lib R ip ua name pw t w = (r, w') \<Longrightarrow> grows w w'"
  by (auto simp: login_def Let_def token_defs grows_simps intro: grows_trans[OF grows_simps(6) grows_simps(2)]
      grows_trans[OF grows_simps(7) grows_simps(5)] split: if_splits option.splits)

lemma audited_grows: "grows w (w\<lparr>aw_redis := s, aw_audit := aw_audit w @ xs, aw_draws := n\<rparr>)"
  by (auto simp: grows_def identities_def)

lemma check_code_grows: "check_code lib R a b ip ua token code t w = (r, w') \<Longrightarrow> grows w w'"
  by (auto simp: check_code_def token_defs grows_def identities_def append_audit_def split: option.splits if_splits prod.splits)

lemma verify_grows: "verify_totp lib R a b ip ua token code t w = (r, w') \<Longrightarrow> grows w w'"
  by (auto simp: verify_totp_def grows_simps dest: check_code_grows split: option.splits if_splits)

lemma verify_earned:
  assumes "verify_totp lib R a b ip ua token code t w = (Inr v, w')"
  shows "earned w' (vf_access v) \<and> earned w' (vf_refresh v)"
proof -
  from assms have run: "check_code lib R a b ip ua token code t w = (Inr v, w')"
    by (auto simp: verify_totp_def split: option.splits if_splits)
  then obtain c u where u: "find_user (subject c) w = Some u"
    and w': "aw_users w' = aw_users w" "\<exists>l \<in> set (aw_audit w'). lg_admin_id l = au_id u \<and> lg_action l = ''login_success''"
    and v: "cl_sub (vf_access v) = Some (subject c)" "cl_sub (vf_refresh v) = Some (subject c)"
    by (auto simp: check_code_def token_defs append_audit_def split: option.splits if_splits prod.splits)
  with find_user_Some[OF u] have "logged_in w' (subject c)" by (force simp: logged_in_def identities_def)
  with v show ?thesis by (simp add: earned_def)
qed

lemma auth_step_ok:
  assumes "auth_step lib R issued w new w'" "\<forall>c \<in> set issued. earned w c"
  shows "\<forall>c \<in> set (issued @ new). earned w' c"
  using assms
proof (induction rule: auth_step.induct)
  case (admin w username hash secret)
  then show ?case using grows_all[OF grows_simps(9)] by simp
next
  case (login ip ua username password t w r w')
  have "earned w' c" if "r = Inr c" for c
    using login(1) that by (auto simp: login_def Let_def token_defs earned_def split: if_splits option.splits)
  then show ?case using login(2) grows_all[OF login_grows[OF login(1)]] by (cases r) auto
next
  case (totp a b ip ua token code t w r w')
  then show ?case using grows_all[OF verify_grows[OF totp(1)]]
    by (cases r) (auto dest: verify_earned)
next
  case (refresh a token ct ch t w r w')
  have same: "grows w w'" using refresh(1)
    by (auto simp: refresh_access_token_def token_defs grows_simps split: option.splits if_splits)
  have "earned w' c" if r: "r = Inr c" for c
  proof -
    from refresh(1) r obtain c0 where c0: "decode_token lib token ''refresh'' t = Some c0"
      and c: "cl_sub c = Some (subject c0)"
      by (auto simp: refresh_access_token_def token_defs split: option.splits if_splits)
    then have "al_decode lib token t = Some c0" "cl_type c0 = Some ''refresh''" "cl_sub c0 \<noteq> None"
      by (auto simp: decode_token_def split: option.splits if_splits)
    with refresh(2,3) have "earned w c0" by blast
    with \<open>cl_type c0 = Some ''refresh''\<close> \<open>cl_sub c0 \<noteq> None\<close> have "logged_in w (subject c0)"
      by (auto simp: earned_def subject_def)
    with c have "earned w c" by (simp add: earned_def)
    with grows_earned[OF same] show ?thesis .
  qed
  then show ?case using refresh(3) grows_all[OF same] by (cases r) auto
next
  case (logout w atk rt ct ch t)
  have "grows w (snd (logout lib R atk rt ct ch t w))"
    by (auto simp: logout_def Let_def grows_simps intro: grows_trans grows_simps split: option.split)
  with logout show ?case using grows_all by simp
next
  case (access token t w admin path ip ua)
  have "grows w (audit_log_access path ip ua admin w)"
    by (simp add: audit_log_access_def grows_simps split: option.split)
  with access show ?case using grows_all by simp
next
  case (deactivate w name)
  have "au_id (deactivated name u) = au_id u" "au_username (deactivated name u) = au_username u" for u
    by (simp_all add: deactivated_def)
  then have "grows w (w\<lparr>aw_users := map (deactivated name) (aw_users w)\<rparr>)"
    by (simp add: grows_def identities_def image_image)
  with deactivate show ?case using grows_all by simp
qed

lemma auth_reachable_ok: "auth_reachable lib R s0 issued w \<Longrightarrow> \<forall>c \<in> set issued. earned w c"
  by (induction rule: auth_reachable.induct) (simp, metis auth_step_ok)


subsection \<open>A concrete store\<close>

text \<open>An instance of the operations: values with the time they expire, if they do.\<close>

type_synonym key_store = "string \<Rightarrow> (int \<times> timestamp option) option"

definition alive :: "string \<Rightarrow> timestamp \<Rightarrow> key_store \<Rightarrow> (int \<times> timestamp option) option" where
  "alive k t s = (case s k of
     Some (v, Some u) \<Rightarrow> if t < u then Some (v, Some u) else None | x \<Rightarrow> x)"

definition store_ops :: "key_store redis_ops" where
  "store_ops = \<lparr>
     rd_exists = (\<lambda>k t s. alive k t s \<noteq> None),
     rd_get = (\<lambda>k t s. map_option fst (alive k t s)),
     rd_incr = (\<lambda>k t s. case alive k t s of
        Some (v, u) \<Rightarrow> (v + 1, s(k \<mapsto> (v + 1, u))) | None \<Rightarrow> (1, s(k \<mapsto> (1, None)))),
     rd_expire = (\<lambda>k ttl t s. case alive k t s of
        Some (v, u) \<Rightarrow> s(k \<mapsto> (v, Some (t + ttl * 1000000))) | None \<Rightarrow> s),
     rd_setex = (\<lambda>k ttl t s. s(k \<mapsto> (1, Some (t + ttl * 1000000)))),
     rd_delete = (\<lambda>k t s. s(k := None))\<rparr>"

definition pending_claims :: claims where
  "pending_claims = \<lparr>cl_sub = Some ''ama'', cl_type = Some ''totp_pending'', cl_exp = Some 300, cl_jti = ''j''\<rparr>"

definition access_claims :: claims where
  "access_claims = \<lparr>cl_sub = Some ''ama'', cl_type = Some ''access'', cl_exp = Some 60, cl_jti = ''j''\<rparr>"

text \<open>A library with one password, one code and two readable tokens.\<close>

definition sample_lib :: auth_lib where
  "sample_lib = \<lparr>al_checkpw = (\<lambda>p h. p = h), al_totp = (\<lambda>_ c _. c = ''123456''), al_encode = (\<lambda>_. []),
     al_decode = (\<lambda>token t. if token = ''pending'' then Some pending_claims
        else if token = ''access'' then Some access_claims else None),
     al_hex = (\<lambda>_. ''j''), al_trusted_proxy = (\<lambda>_. False)\<rparr>"

definition sample_users :: "key_store auth_world" where
  "sample_users = insert_admin ''ama'' ''password'' ''secret''
     \<lparr>aw_users = [], aw_audit = [], aw_redis = (\<lambda>_. None), aw_draws = 0\<rparr>"


subsection \<open>Five failures\<close>

text \<open>
  What the code relies on of Redis.  \<open>lives k u s\<close>: the key is there until the time \<open>u\<close>.
\<close>

definition redis_laws :: "'s redis_ops \<Rightarrow> (string \<Rightarrow> timestamp \<Rightarrow> 's \<Rightarrow> bool) \<Rightarrow> bool" where
  "redis_laws R lives \<longleftrightarrow>
     (\<forall>k u t s. lives k u s \<longrightarrow> t < u \<longrightarrow> rd_exists R k t s) \<and>
     (\<forall>k ttl t s. lives k (t + ttl * 1000000) (rd_setex R k ttl t s)) \<and>
     (\<forall>k u k' ttl t s. lives k u s \<longrightarrow> k \<noteq> k' \<or> u \<le> t + ttl * 1000000 \<longrightarrow> lives k u (rd_setex R k' ttl t s)) \<and>
     (\<forall>k u k' ttl t s. lives k u s \<longrightarrow> k \<noteq> k' \<longrightarrow> lives k u (rd_expire R k' ttl t s)) \<and>
     (\<forall>k u k' t s. lives k u s \<longrightarrow> k \<noteq> k' \<longrightarrow> lives k u (snd (rd_incr R k' t s))) \<and>
     (\<forall>k u k' t s. lives k u s \<longrightarrow> k \<noteq> k' \<longrightarrow> lives k u (rd_delete R k' t s))"

lemma laws:
  assumes "redis_laws R lives"
  shows live_exists: "\<And>k u t s. lives k u s \<Longrightarrow> t < u \<Longrightarrow> rd_exists R k t s"
    and live_set: "\<And>k ttl t s. lives k (t + ttl * 1000000) (rd_setex R k ttl t s)"
    and live_setex: "\<And>k u k' ttl t s. lives k u s \<Longrightarrow> k \<noteq> k' \<or> u \<le> t + ttl * 1000000 \<Longrightarrow> lives k u (rd_setex R k' ttl t s)"
    and live_expire: "\<And>k u k' ttl t s. lives k u s \<Longrightarrow> k \<noteq> k' \<Longrightarrow> lives k u (rd_expire R k' ttl t s)"
    and live_incr: "\<And>k u k' t s. lives k u s \<Longrightarrow> k \<noteq> k' \<Longrightarrow> lives k u (snd (rd_incr R k' t s))"
    and live_delete: "\<And>k u k' t s. lives k u s \<Longrightarrow> k \<noteq> k' \<Longrightarrow> lives k u (rd_delete R k' t s)"
  using assms by (auto simp: redis_laws_def)

lemma key_spaces [simp]:
  "blocked_key ip \<noteq> failures_key ip'" "blocked_key ip \<noteq> totp_key token" "blocked_key ip \<noteq> revoked_key j"
  "blocked_key ip = blocked_key ip' \<longleftrightarrow> ip = ip'"
  by (simp_all add: totp_key_def blocked_key_def failures_key_def revoked_key_def)

lemma failure_keeps_block:
  assumes l: "redis_laws R lives" and "lives (blocked_key ip) u (aw_redis w)" "ip' \<noteq> ip \<or> u \<le> t"
  shows "lives (blocked_key ip) u (aw_redis (record_failure R ip' t w))"
proof -
  obtain n s where n: "rd_incr R (failures_key ip') t (aw_redis w) = (n, s)" by fastforce
  with live_incr[OF l assms(2), of "failures_key ip'" t] have s: "lives (blocked_key ip) u s" by simp
  have "blocked_key ip \<noteq> blocked_key ip' \<or> u \<le> t + 900 * 1000000" using assms(3) by auto
  then show ?thesis
    using live_setex[OF l] live_expire[OF l s] s
    by (simp add: record_failure_def n Let_def)
qed

lemma revoke_keeps_block:
  "redis_laws R lives \<Longrightarrow> lives (blocked_key ip) u (aw_redis w) \<Longrightarrow>
   lives (blocked_key ip) u (aw_redis (revoke lib R tok ty t w))"
  by (auto simp: revoke_def Let_def on_redis_def live_setex split: option.split)

lemma login_keeps_block:
  assumes "login lib R ip' ua name pw t w = (r, w')" and l: "redis_laws R lives"
    and b: "lives (blocked_key ip) u (aw_redis w)"
  shows "lives (blocked_key ip) u (aw_redis w')"
proof (cases "is_blocked R ip' t w")
  case True
  with assms(1) b show ?thesis by (simp add: login_def)
next
  case False
  have "u \<le> t" if "ip' = ip"
    using False live_exists[OF l b, of t] that by (fastforce simp: is_blocked_def not_less)
  then have "lives (blocked_key ip) u (aw_redis (record_failure R ip' t w))"
    using failure_keeps_block[OF l b] by blast
  moreover have "lives (blocked_key ip) u (aw_redis (reset_failures R ip' t w))"
    using live_delete[OF l b] by (simp add: reset_failures_def on_redis_def)
  ultimately show ?thesis
    using assms(1) False
    by (auto simp: login_def Let_def token_defs append_audit_def split: if_splits option.splits)
qed

lemma verify_keeps_block:
  assumes "verify_totp lib R a c ip' ua token code t w = (r, w')" and l: "redis_laws R lives"
    and b: "lives (blocked_key ip) u (aw_redis w)"
  shows "lives (blocked_key ip) u (aw_redis w')"
proof -
  obtain n s where n: "rd_incr R (totp_key token) t (aw_redis w) = (n, s)" by fastforce
  with live_incr[OF l b, of "totp_key token" t] have s: "lives (blocked_key ip) u s" by simp
  with live_expire[OF l s] b assms(1) show ?thesis
    by (auto simp: verify_totp_def check_code_def token_defs append_audit_def n
        split: if_splits option.splits)
qed

lemma auth_step_keeps_block:
  assumes "auth_step lib R issued w new w'" "redis_laws R lives" "lives (blocked_key ip) u (aw_redis w)"
  shows "lives (blocked_key ip) u (aw_redis w')"
  using assms
proof (induction rule: auth_step.induct)
  case (login ip' ua username password t w r w')
  then show ?case using login_keeps_block by blast
next
  case (totp a b ip' ua token code t w r w')
  then show ?case using verify_keeps_block by blast
next
  case (refresh a token ct ch t w r w')
  then show ?case
    by (auto simp: refresh_access_token_def token_defs split: if_splits option.splits)
next
  case (logout w atk rt ct ch t)
  then show ?case by (auto simp: logout_def Let_def revoke_keeps_block split: option.split)
qed (simp_all add: insert_admin_def audit_log_access_def append_audit_def split: option.split)

definition auth_moves :: "auth_lib \<Rightarrow> 's redis_ops \<Rightarrow> claims list \<times> 's auth_world \<Rightarrow> claims list \<times> 's auth_world \<Rightarrow> bool" where
  "auth_moves lib R = (\<lambda>(i, w) (i', w'). \<exists>new. auth_step lib R i w new w' \<and> i' = i @ new)"

lemma moves_keep_block:
  "(auth_moves lib R)\<^sup>*\<^sup>* x y \<Longrightarrow> redis_laws R lives \<Longrightarrow> lives (blocked_key ip) u (aw_redis (snd x)) \<Longrightarrow>
   lives (blocked_key ip) u (aw_redis (snd y))"
proof (induction rule: rtranclp_induct)
  case (step y z)
  then show ?case by (cases y; cases z) (auto simp: auth_moves_def dest: auth_step_keeps_block)
qed simp


definition store_lives :: "string \<Rightarrow> timestamp \<Rightarrow> key_store \<Rightarrow> bool" where
  "store_lives k u s \<longleftrightarrow> (\<exists>v e. s k = Some (v, e) \<and> (case e of None \<Rightarrow> True | Some x \<Rightarrow> u \<le> x))"

lemma store_laws: "redis_laws store_ops store_lives"
  by (auto simp: redis_laws_def store_ops_def store_lives_def alive_def split: option.splits)

definition four_failures :: "key_store auth_world" where
  "four_failures = sample_users\<lparr>aw_redis := [''failures:10.0.0.1'' \<mapsto> (4, None)]\<rparr>"


text \<open>
  Deactivating a user does not take effect on the routes of the panel: a token keeps its access and
  can be refreshed, because neither looks at the user again.  Only the log stream does.
\<close>

definition deactivate_user :: "string \<Rightarrow> 's auth_world \<Rightarrow> 's auth_world" where
  "deactivate_user name w = w\<lparr>aw_users := map (deactivated name) (aw_users w)\<rparr>"

lemma deactivate_user_keeps [simp]:
  "aw_redis (deactivate_user name w) = aw_redis w" "aw_draws (deactivate_user name w) = aw_draws w"
  "revoked R c t (deactivate_user name w) = revoked R c t w"
  by (simp_all add: deactivate_user_def revoked_def)

lemma deactivated_is_inactive: "au_username (deactivated name v) = name \<Longrightarrow> \<not> au_is_active (deactivated name v)"
  by (cases "au_username v = name") (simp_all add: deactivated_def)

lemma find_deactivated:
  assumes "find_user name (deactivate_user name w) = Some u"
  shows "\<not> au_is_active u"
proof -
  obtain v where "u = deactivated name v" "au_username u = name"
    using assms by (auto simp: find_user_def deactivate_user_def find_Some_iff)
  then show ?thesis
    using deactivated_is_inactive [of name v] by simp
qed

lemma refreshed_deactivated:
  "fst (refresh_access_token lib R ttl rt ct ch t (deactivate_user name w))
     = fst (refresh_access_token lib R ttl rt ct ch t w)"
  by (simp add: refresh_access_token_def create_access_token_def make_token_def token_claims_def
      split: option.split)

text \<open>
  Deactivating an administrator does not end the access of the panel's routes: the same token
  is accepted as before, and the same refresh token is exchanged for the same new access token,
  while the log stream refuses every token of that user.
\<close>

theorem deactivated_admin_keeps_access:
  "get_current_admin lib R token t (deactivate_user name w) = get_current_admin lib R token t w
   \<and> fst (refresh_access_token lib R ttl rt ct ch t (deactivate_user name w))
     = fst (refresh_access_token lib R ttl rt ct ch t w)
   \<and> \<not> (validate_ws_access lib R token t (deactivate_user name w)
        \<and> get_current_admin lib R token t w = Inr name)"
proof (intro conjI refreshed_deactivated)
  show "get_current_admin lib R token t (deactivate_user name w) = get_current_admin lib R token t w"
    by (simp add: get_current_admin_def split: option.split)
  show "\<not> (validate_ws_access lib R token t (deactivate_user name w)
        \<and> get_current_admin lib R token t w = Inr name)"
    using find_deactivated [of name w]
    by (auto simp: get_current_admin_def validate_ws_access_def split: option.splits if_splits)
qed

end
