(* ===== verification/ManifestGate.thy ===== *)
theory ManifestGate
  imports BacktestGate MarketData GridEngine
begin

text \<open>
  \<^verbatim>\<open>scripts/backtest_gate.py\<close>: a manifest names the scenarios of a suite, replayed
  strategies and grids, and the gate runs them and refuses the suite when one of them misses its
  profile.  The helpers it takes from \<^verbatim>\<open>scripts/validate_grid_backtest.py\<close> are here
  too.  The files are read through \<open>gate_io\<close>; how a relative path is found is left out.
\<close>

subsection \<open>Values of a payload\<close>

definition mapping_payload :: "json \<Rightarrow> exc + (string \<times> json) list" where
  "mapping_payload v = (case v of JObj m \<Rightarrow> Inr m | _ \<Rightarrow> Inl TypeError)"

definition str_value :: "(string \<times> json) list \<Rightarrow> string \<Rightarrow> exc + string" where
  "str_value m k = (case json_get m k JNull of
     JText t \<Rightarrow> if jt_chars t = [] then Inl TypeError else Inr (jt_chars t) | _ \<Rightarrow> Inl TypeError)"

text \<open>An integer that is no boolean, and a number that is no boolean.\<close>

fun strict_int :: "json \<Rightarrow> exc + int" where
  "strict_int (JInt i) = Inr i"
| "strict_int _ = Inl TypeError"

fun strict_float :: "json \<Rightarrow> exc + pyfloat" where
  "strict_float (JInt i) = Inr (of_pyint i)"
| "strict_float (JFloat x) = Inr x"
| "strict_float _ = Inl TypeError"

text \<open>A missing key without a default reads as \<^verbatim>\<open>None\<close>.\<close>

definition int_value :: "(string \<times> json) list \<Rightarrow> string \<Rightarrow> json \<Rightarrow> exc + int" where
  "int_value m k fallback = strict_int (json_get m k fallback)"

definition float_value :: "(string \<times> json) list \<Rightarrow> string \<Rightarrow> json \<Rightarrow> exc + pyfloat" where
  "float_value m k fallback = strict_float (json_get m k fallback)"

definition optional_int_value :: "(string \<times> json) list \<Rightarrow> string \<Rightarrow> exc + int option" where
  "optional_int_value m k = (case json_get m k JNull of
     JNull \<Rightarrow> Inr None | v \<Rightarrow> ebind (strict_int v) (\<lambda>i. Inr (Some i)))"

definition optional_float_value :: "(string \<times> json) list \<Rightarrow> string \<Rightarrow> exc + pyfloat option" where
  "optional_float_value m k = (case json_get m k JNull of
     JNull \<Rightarrow> Inr None | v \<Rightarrow> ebind (strict_float v) (\<lambda>x. Inr (Some x)))"

subsection \<open>Which scenarios are selected\<close>

datatype gate_mode = Regression | Live

fun mode_text :: "gate_mode \<Rightarrow> string" where
  "mode_text Regression = ''regression''"
| "mode_text Live = ''live''"

definition normalize_selector_name :: "string option \<Rightarrow> string option" where
  "normalize_selector_name v = (case v of
     None \<Rightarrow> None | Some s \<Rightarrow> if py_strip s = [] then None else Some (py_strip s))"

definition suite_for_active_strategy :: "(string \<times> json) list \<Rightarrow> string \<Rightarrow> exc + string" where
  "suite_for_active_strategy raw active =
     (case json_get raw ''active_strategy_suites'' (JObj []) of
        JObj suites \<Rightarrow> (case json_get suites active JNull of
            JText t \<Rightarrow> if jt_chars t = [] then Inl ValueError else Inr (jt_chars t)
          | _ \<Rightarrow> Inl ValueError)
      | _ \<Rightarrow> Inl TypeError)"

fun scenario_name :: "json \<Rightarrow> exc + string" where
  "scenario_name (JText t) = (if jt_chars t = [] then Inl TypeError else Inr (jt_chars t))"
| "scenario_name _ = Inl TypeError"

definition selected_names_for_suite :: "(string \<times> json) list \<Rightarrow> string \<Rightarrow> exc + string list" where
  "selected_names_for_suite raw suite =
     (case json_get raw ''suites'' JNull of
        JObj suites \<Rightarrow> (case json_get suites suite JNull of
            JList names \<Rightarrow> if names = [] then Inl ValueError else emap scenario_name names
          | _ \<Rightarrow> Inl ValueError)
      | _ \<Rightarrow> Inl TypeError)"

definition default_suite :: "(string \<times> json) list \<Rightarrow> gate_mode \<Rightarrow> string option" where
  "default_suite raw mode = (case json_get raw ''default_suites'' JNull of
     JObj suites \<Rightarrow> (case json_get suites (mode_text mode) JNull of JText t \<Rightarrow> Some (jt_chars t) | _ \<Rightarrow> None)
   | _ \<Rightarrow> None)"

definition resolve_suite_selection ::
  "(string \<times> json) list \<Rightarrow> string option \<Rightarrow> string option \<Rightarrow> gate_mode \<Rightarrow> exc + string option \<times> string list option"
where
  "resolve_suite_selection raw suite active mode =
     ebind (case (normalize_selector_name suite, normalize_selector_name active) of
              (Some s, _) \<Rightarrow> Inr (Some s)
            | (None, Some a) \<Rightarrow> ebind (suite_for_active_strategy raw a) (\<lambda>s. Inr (Some s))
            | (None, None) \<Rightarrow> Inr (default_suite raw mode)) (\<lambda>resolved.
     case resolved of
       None \<Rightarrow> Inr (None, None)
     | Some s \<Rightarrow> ebind (selected_names_for_suite raw s) (\<lambda>names. Inr (Some s, Some names)))"

definition is_selected :: "string list option \<Rightarrow> string \<Rightarrow> bool" where
  "is_selected selected name = (case selected of None \<Rightarrow> True | Some names \<Rightarrow> name \<in> set names)"

subsection \<open>Grid profiles and scenarios\<close>

record grid_profile =
  gp_name :: string
  gp_min_completed_cycles :: int
  gp_min_profitable_window_rate :: "pyfloat option"
  gp_min_annualized_yield_pct :: pyfloat
  gp_min_fee_coverage_ratio :: pyfloat
  gp_min_net_pnl_usdt :: pyfloat
  gp_max_unrealized_drawdown_pct :: pyfloat

record grid_scenario =
  gn_name :: string
  gn_symbol :: string
  gn_dataset_path :: string
  gn_p_min_pct_from_start :: pyfloat
  gn_p_max_pct_from_start :: pyfloat
  gn_n_levels :: int
  gn_capital_usdt :: pyfloat
  gn_profile :: string
  gn_max_candles :: "int option"
  gn_walk_forward_days :: "int option"
  gn_walk_forward_windows :: "int option"

definition load_grid_profile :: "string \<Rightarrow> json \<Rightarrow> exc + string \<times> grid_profile" where
  "load_grid_profile name v =
     ebind (mapping_payload v) (\<lambda>m.
     ebind (int_value m ''min_completed_cycles'' (JInt 1)) (\<lambda>cycles.
     ebind (optional_float_value m ''min_profitable_window_rate'') (\<lambda>rate.
     ebind (float_value m ''min_annualized_yield_pct'' (JFloat 0)) (\<lambda>yield.
     ebind (float_value m ''min_fee_coverage_ratio'' (JFloat 0)) (\<lambda>cover.
     ebind (float_value m ''min_net_pnl_usdt'' (JFloat 0)) (\<lambda>net.
     ebind (float_value m ''max_unrealized_drawdown_pct'' (JFloat 100)) (\<lambda>dd.
     Inr (name, \<lparr>gp_name = name, gp_min_completed_cycles = cycles, gp_min_profitable_window_rate = rate,
       gp_min_annualized_yield_pct = yield, gp_min_fee_coverage_ratio = cover,
       gp_min_net_pnl_usdt = net, gp_max_unrealized_drawdown_pct = dd\<rparr>))))))))"

definition load_grid_profiles :: "(string \<times> json) list \<Rightarrow> exc + (string \<times> grid_profile) list" where
  "load_grid_profiles raw = (case json_get raw ''grid_threshold_profiles'' (JObj []) of
     JObj ps \<Rightarrow> emap (\<lambda>(name, v). load_grid_profile name v) ps | _ \<Rightarrow> Inl TypeError)"

definition load_grid_scenario :: "json \<Rightarrow> exc + grid_scenario" where
  "load_grid_scenario v =
     ebind (mapping_payload v) (\<lambda>m.
     ebind (str_value m ''name'') (\<lambda>name. ebind (str_value m ''symbol'') (\<lambda>symbol.
     ebind (str_value m ''dataset_path'') (\<lambda>path.
     ebind (float_value m ''p_min_pct_from_start'' JNull) (\<lambda>lo.
     ebind (float_value m ''p_max_pct_from_start'' JNull) (\<lambda>hi.
     ebind (int_value m ''n_levels'' JNull) (\<lambda>levels.
     ebind (float_value m ''capital_usdt'' JNull) (\<lambda>capital.
     ebind (str_value m ''profile'') (\<lambda>profile.
     ebind (optional_int_value m ''max_candles'') (\<lambda>max_candles.
     ebind (optional_int_value m ''walk_forward_days'') (\<lambda>days.
     ebind (optional_int_value m ''walk_forward_windows'') (\<lambda>windows.
     Inr \<lparr>gn_name = name, gn_symbol = py_upper symbol, gn_dataset_path = path,
       gn_p_min_pct_from_start = lo, gn_p_max_pct_from_start = hi, gn_n_levels = levels,
       gn_capital_usdt = capital, gn_profile = profile, gn_max_candles = max_candles,
       gn_walk_forward_days = days, gn_walk_forward_windows = windows\<rparr>))))))))))))"

definition load_grid_scenarios :: "(string \<times> json) list \<Rightarrow> exc + grid_scenario list" where
  "load_grid_scenarios raw = (case json_get raw ''grid_scenarios'' (JList []) of
     JList xs \<Rightarrow> emap load_grid_scenario xs | _ \<Rightarrow> Inl TypeError)"

subsection \<open>Grid fixtures\<close>

definition is_digits :: "string \<Rightarrow> bool" where
  "is_digits s \<longleftrightarrow> s \<noteq> [] \<and> list_all (\<lambda>c. let n = (of_char c :: nat) in 48 \<le> n \<and> n \<le> 57) s"

fun raw_of_json :: "json \<Rightarrow> raw_value" where
  "raw_of_json JNull = RNone"
| "raw_of_json (JBool b) = RBool b"
| "raw_of_json (JInt i) = RInt i"
| "raw_of_json (JFloat x) = RFloat x"
| "raw_of_json (JText t) = RText \<lparr>tx_chars = jt_chars t, tx_float = jt_float t, tx_int = jt_int t,
     tx_isdigit = is_digits (jt_chars t)\<rparr>"
| "raw_of_json _ = ROther"

fun normalize_candle :: "json \<Rightarrow> exc + raw_candle" where
  "normalize_candle (JObj m) = Inr (MapCandle (map (\<lambda>(k, v). (k, raw_of_json v)) m))"
| "normalize_candle (JList xs) = Inr (SeqCandle (map raw_of_json xs))"
| "normalize_candle _ = Inl ValueError"

definition load_fixture :: "json \<Rightarrow> exc + raw_candle list" where
  "load_fixture loaded =
     (case (case loaded of JObj m \<Rightarrow> json_get m ''candles'' JNull | v \<Rightarrow> v) of
        JList xs \<Rightarrow> emap normalize_candle xs | _ \<Rightarrow> Inl TypeError)"

fun candle_close :: "raw_candle \<Rightarrow> exc + pyfloat" where
  "candle_close (MapCandle m) =
     (if dict_get m ''close'' = RNone then Inl ValueError else raw_to_float (dict_get m ''close''))"
| "candle_close (SeqCandle xs) = (if length xs \<le> 4 then Inl IndexError else raw_to_float (xs ! 4))"

text \<open>\<^verbatim>\<open>max(1, round(n * 15 / 1440))\<close>, to the even neighbour at a half.\<close>

definition backtest_days :: "raw_candle list \<Rightarrow> int" where
  "backtest_days cs = max 1 (round_even (fl (of_nat (length cs * 15) / 1440)))"

definition run_config :: "grid_config \<Rightarrow> raw_candle list \<Rightarrow> exc + grid_result" where
  "run_config c cs = ebind (run_grid_backtest c cs) (\<lambda>s. evaluate_grid_backtest s c (backtest_days cs))"

subsection \<open>A grid scenario\<close>

definition apply_max_candles :: "raw_candle list \<Rightarrow> int option \<Rightarrow> exc + raw_candle list" where
  "apply_max_candles cs max_candles = (case max_candles of
     None \<Rightarrow> Inr cs
   | Some n \<Rightarrow> if n \<le> 0 then Inl ValueError else if int (length cs) < n then Inl ValueError
              else Inr (take (nat n) cs))"

definition grid_config_for_candles :: "grid_scenario \<Rightarrow> raw_candle list \<Rightarrow> exc + grid_config" where
  "grid_config_for_candles g cs = (case cs of
     [] \<Rightarrow> Inl ValueError
   | k # _ \<Rightarrow> ebind (candle_close k) (\<lambda>start.
       new_grid_config (gn_symbol g) (fmul start (fadd 1 (gn_p_min_pct_from_start g)))
         (fmul start (fadd 1 (gn_p_max_pct_from_start g))) (gn_n_levels g) (gn_capital_usdt g)
         default_maker_fee 0))"

definition run_scenario_on :: "grid_scenario \<Rightarrow> raw_candle list \<Rightarrow> exc + grid_result" where
  "run_scenario_on g cs = ebind (grid_config_for_candles g cs) (\<lambda>c. run_config c cs)"

text \<open>One window of the walk forward: does it earn anything?\<close>

definition window_candles :: "nat \<Rightarrow> raw_candle list \<Rightarrow> nat \<Rightarrow> raw_candle list" where
  "window_candles m cs i = take m (drop (i * m) cs)"

definition profitable_window :: "grid_scenario \<Rightarrow> nat \<Rightarrow> raw_candle list \<Rightarrow> nat \<Rightarrow> exc + bool" where
  "profitable_window g m cs i =
     (if length (window_candles m cs i) \<noteq> m then Inl ValueError
      else ebind (run_scenario_on g (window_candles m cs i)) (\<lambda>r. Inr (0 < gr_net_pnl r)))"

definition true_share :: "bool list \<Rightarrow> int \<Rightarrow> pyfloat" where
  "true_share bs n = fl (of_nat (length (filter id bs)) / of_int n)"

definition grid_profitable_window_rate :: "grid_scenario \<Rightarrow> raw_candle list \<Rightarrow> exc + pyfloat option" where
  "grid_profitable_window_rate g cs =
     (case (gn_walk_forward_days g, gn_walk_forward_windows g) of
        (None, None) \<Rightarrow> Inr None
      | (Some days, Some n) \<Rightarrow>
          if days * 24 * 4 \<le> 0 \<or> n \<le> 0 then Inl ValueError
          else ebind (emap (profitable_window g (nat (days * 24 * 4)) cs) [0..<nat n]) (\<lambda>bs.
            Inr (Some (true_share bs n)))
      | _ \<Rightarrow> Inl ValueError)"

datatype grid_failure = CyclesLow | NetPnlLow | CoverageLow | YieldLow | DrawdownExceeded
  | WindowRateMissing | WindowRateLow

definition evaluate_grid_profile :: "grid_result \<Rightarrow> grid_profile \<Rightarrow> pyfloat option \<Rightarrow> grid_failure list" where
  "evaluate_grid_profile r p rate =
     (if gr_completed_cycles r < gp_min_completed_cycles p then [CyclesLow] else [])
     @ (if gr_net_pnl r < gp_min_net_pnl_usdt p then [NetPnlLow] else [])
     @ (if xless (gr_fee_coverage_ratio r) (gp_min_fee_coverage_ratio p) then [CoverageLow] else [])
     @ (if gr_annualized_yield_pct r < gp_min_annualized_yield_pct p then [YieldLow] else [])
     @ (if gp_max_unrealized_drawdown_pct p < gr_max_unrealized_drawdown_pct r then [DrawdownExceeded] else [])
     @ (case gp_min_profitable_window_rate p of
          None \<Rightarrow> []
        | Some m \<Rightarrow> (case rate of None \<Rightarrow> [WindowRateMissing] | Some x \<Rightarrow> if x < m then [WindowRateLow] else []))"

record grid_evaluation =
  gv_name :: string
  gv_symbol :: string
  gv_profile :: string
  gv_metrics :: grid_result
  gv_profitable_window_rate :: "pyfloat option"
  gv_passed :: bool
  gv_failure_reasons :: "grid_failure list"

definition evaluate_grid_scenario :: "json \<Rightarrow> grid_scenario \<Rightarrow> grid_profile \<Rightarrow> exc + grid_evaluation" where
  "evaluate_grid_scenario loaded g p =
     ebind (load_fixture loaded) (\<lambda>cs.
     ebind (apply_max_candles cs (gn_max_candles g)) (\<lambda>run_candles.
     ebind (run_scenario_on g run_candles) (\<lambda>r.
     ebind (grid_profitable_window_rate g cs) (\<lambda>rate.
     let reasons = evaluate_grid_profile r p rate in
     Inr \<lparr>gv_name = gn_name g, gv_symbol = gn_symbol g, gv_profile = gp_name p, gv_metrics = r,
       gv_profitable_window_rate = rate, gv_passed = (reasons = []), gv_failure_reasons = reasons\<rparr>))))"

subsection \<open>The gate\<close>

text \<open>A row of the report: a replayed scenario, or a grid.\<close>

datatype gate_row = ReplayRow scenario evaluation | GridRow grid_evaluation

fun row_name :: "gate_row \<Rightarrow> string" where
  "row_name (ReplayRow c ev) = ev_name ev"
| "row_name (GridRow gv) = gv_name gv"

fun row_passed :: "gate_row \<Rightarrow> bool" where
  "row_passed (ReplayRow c ev) = ev_passed ev"
| "row_passed (GridRow gv) = gv_passed gv"

fun row_strategy :: "gate_row \<Rightarrow> string list" where
  "row_strategy (ReplayRow c ev) = (if py_strip (sc_strategy c) = [] then [] else [py_strip (sc_strategy c)])"
| "row_strategy (GridRow gv) = []"

fun row_limitation :: "gate_row \<Rightarrow> (string \<times> nat) list" where
  "row_limitation (ReplayRow c ev) = (if ev_unresolved ev = 0 then [] else [(sc_name c, ev_unresolved ev)])"
| "row_limitation (GridRow gv) = []"

record gate_report =
  rt_strategy_name :: string
  rt_suite :: "string option"
  rt_mode :: gate_mode
  rt_fee_rate_per_side :: pyfloat
  rt_all_passed :: bool
  rt_limitations :: "(string \<times> nat) list"
  rt_rows :: "gate_row list"

definition validate_selected_names :: "string list option \<Rightarrow> gate_row list \<Rightarrow> exc + unit" where
  "validate_selected_names selected rows = (case selected of
     None \<Rightarrow> Inr ()
   | Some names \<Rightarrow> if set names \<subseteq> row_name ` set rows then Inr () else Inl ValueError)"

definition resolve_report_strategy_name :: "string option \<Rightarrow> gate_row list \<Rightarrow> string" where
  "resolve_report_strategy_name active rows = (case normalize_selector_name active of
     Some a \<Rightarrow> a
   | None \<Rightarrow> (case remdups (concat (map row_strategy rows)) of [s] \<Rightarrow> s | _ \<Rightarrow> ''mixed''))"

definition build_manifest_report ::
  "string option \<Rightarrow> gate_mode \<Rightarrow> pyfloat \<Rightarrow> string option \<Rightarrow> gate_row list \<Rightarrow> gate_report"
where
  "build_manifest_report active mode fee suite rows =
     \<lparr>rt_strategy_name = resolve_report_strategy_name active rows, rt_suite = suite, rt_mode = mode,
      rt_fee_rate_per_side = fee, rt_all_passed = list_all row_passed rows,
      rt_limitations = remdups (concat (map row_limitation rows)), rt_rows = rows\<rparr>"

text \<open>
  What the gate reads and writes: the parsed content of a dataset, the exchange's klines of a symbol
  and an interval, the pause between two attempts, the report's file.
\<close>

record 'w gate_io =
  gi_dataset :: "string \<Rightarrow> exc + json"
  gi_klines :: "string \<Rightarrow> string \<Rightarrow> 'w kline_source"
  gi_pause :: "int \<Rightarrow> ('w, unit) prog"
  gi_write :: "gate_report \<Rightarrow> ('w, unit) prog"

text \<open>The JSON text of a value, the natural logarithm and the seeded draws.\<close>

record replay_lib =
  rl_rep :: "json \<Rightarrow> string"
  rl_json :: "(string \<times> pyfloat) list \<Rightarrow> string"
  rl_log :: "pyfloat \<Rightarrow> pyfloat"
  rl_draw :: "nat \<Rightarrow> pyfloat"

definition profile_for :: "manifest \<Rightarrow> gate_mode \<Rightarrow> scenario \<Rightarrow> exc + threshold_profile" where
  "profile_for m mode c = or_raise (map_of (mf_profiles m)
     (case mode of Regression \<Rightarrow> sc_regression_profile c | Live \<Rightarrow> sc_live_profile c)) KeyError"

definition scenario_days :: "gate_mode \<Rightarrow> scenario \<Rightarrow> int" where
  "scenario_days mode c = (case mode of Regression \<Rightarrow> sc_lookback_days c | Live \<Rightarrow> sc_live_lookback_days c)"

definition scenario_candles ::
  "replay_lib \<Rightarrow> 'w gate_io \<Rightarrow> gate_mode \<Rightarrow> scenario \<Rightarrow> ('w, market_candle list) prog"
where
  "scenario_candles lib io mode c = (case mode of
     Regression \<Rightarrow> from_sum (ebind (gi_dataset io (sc_dataset_path c)) (\<lambda>v.
       ebind (load_dataset (rl_rep lib) v) (\<lambda>d. Inr (cd_candles d))))
   | Live \<Rightarrow>
       bnd (fetch_candles_with_retry (gi_pause io) (gi_klines io (sc_symbol c) (sc_interval c))
              (sc_interval c) (sc_live_lookback_days c) 3) (\<lambda>cs.
       bnd (from_sum (candles_for_lookback (sc_interval c) (sc_live_lookback_days c))) (\<lambda>n.
       andthen (raise_if (int (length cs) < n) RuntimeError) (ret cs))))"

definition replay_row ::
  "replay_lib \<Rightarrow> 'w gate_io \<Rightarrow> manifest \<Rightarrow> gate_mode \<Rightarrow> pyfloat \<Rightarrow> scenario \<Rightarrow> ('w, gate_row) prog"
where
  "replay_row lib io m mode fee c =
     bnd (scenario_candles lib io mode c) (\<lambda>cs.
     bnd (from_sum (profile_for m mode c)) (\<lambda>p.
     bnd (from_sum (evaluate_scenario (rl_json lib) (rl_log lib) (rl_draw lib) c cs p fee
           (Some (scenario_days mode c)))) (\<lambda>ev.
     ret (ReplayRow c ev))))"

definition grid_row ::
  "'w gate_io \<Rightarrow> (string \<times> grid_profile) list \<Rightarrow> grid_scenario \<Rightarrow> ('w, gate_row) prog"
where
  "grid_row io profiles g = from_sum (
     ebind (or_raise (map_of profiles (gn_profile g)) ValueError) (\<lambda>p.
     ebind (gi_dataset io (gn_dataset_path g)) (\<lambda>v.
     ebind (evaluate_grid_scenario v g p) (\<lambda>gv. Inr (GridRow gv)))))"

definition run_manifest_gate ::
  "replay_lib \<Rightarrow> 'w gate_io \<Rightarrow> json \<Rightarrow> gate_mode \<Rightarrow> pyfloat \<Rightarrow> string option \<Rightarrow> string option
    \<Rightarrow> ('w, gate_report) prog"
where
  "run_manifest_gate lib io payload mode fee suite active =
     bnd (from_sum (mapping_payload payload)) (\<lambda>raw.
     bnd (from_sum (resolve_suite_selection raw suite active mode)) (\<lambda>(resolved, selected).
     bnd (from_sum (load_manifest (rl_rep lib) payload)) (\<lambda>m.
     bnd (map_each (replay_row lib io m mode fee)
           (filter (\<lambda>c. is_selected selected (sc_name c)) (mf_scenarios m))) (\<lambda>replays.
     bnd (from_sum (load_grid_profiles raw)) (\<lambda>profiles.
     bnd (from_sum (load_grid_scenarios raw)) (\<lambda>grids.
     bnd (map_each (grid_row io profiles) (filter (\<lambda>g. is_selected selected (gn_name g)) grids)) (\<lambda>ladders.
     bnd (from_sum (validate_selected_names selected (replays @ ladders))) (\<lambda>_.
     let report = build_manifest_report active mode fee resolved (replays @ ladders) in
     andthen (gi_write io report)
       (andthen (raise_if (\<not> rt_all_passed report) BacktestGateError) (ret report))))))))))"

subsection \<open>What an accepted suite guarantees\<close>

text \<open>The thresholds a grid has to reach, side by side.\<close>

definition meets_grid_profile :: "grid_result \<Rightarrow> grid_profile \<Rightarrow> pyfloat option \<Rightarrow> bool" where
  "meets_grid_profile r p rate \<longleftrightarrow>
     gp_min_completed_cycles p \<le> gr_completed_cycles r
     \<and> gp_min_net_pnl_usdt p \<le> gr_net_pnl r
     \<and> \<not> xless (gr_fee_coverage_ratio r) (gp_min_fee_coverage_ratio p)
     \<and> gp_min_annualized_yield_pct p \<le> gr_annualized_yield_pct r
     \<and> gr_max_unrealized_drawdown_pct r \<le> gp_max_unrealized_drawdown_pct p
     \<and> (case gp_min_profitable_window_rate p of None \<Rightarrow> True
        | Some m \<Rightarrow> (case rate of None \<Rightarrow> False | Some x \<Rightarrow> m \<le> x))"

lemma no_grid_failure: "evaluate_grid_profile r p rate = [] \<longleftrightarrow> meets_grid_profile r p rate"
  by (auto simp: evaluate_grid_profile_def meets_grid_profile_def split: option.split)

text \<open>A row that passed, measured against the profile it names.\<close>

fun row_meets :: "manifest \<Rightarrow> (string \<times> grid_profile) list \<Rightarrow> gate_mode \<Rightarrow> gate_row \<Rightarrow> bool" where
  "row_meets m profiles mode (ReplayRow c ev) \<longleftrightarrow> c \<in> set (mf_scenarios m) \<and>
     (\<exists>p. profile_for m mode c = Inr p \<and> evaluate_profile (ev_metrics ev) p = [])"
| "row_meets m profiles mode (GridRow gv) \<longleftrightarrow>
     (\<exists>(g :: grid_scenario) p. map_of profiles (gn_profile g) = Some p \<and> gn_name g = gv_name gv
        \<and> meets_grid_profile (gv_metrics gv) p (gv_profitable_window_rate gv))"

lemma evaluated_scenario:
  assumes "evaluate_scenario js lg rnd c cs p fee days = Inr ev"
  shows "ev_name ev = sc_name c" "ev_passed ev \<longleftrightarrow> evaluate_profile (ev_metrics ev) p = []"
proof -
  from assms obtain m u where "ev_name ev = sc_name c \<and> ev_metrics ev = m \<and> ev_passed ev = (evaluate_profile m p = [])"
    by (auto simp: evaluate_scenario_def ebind_Inr_iff Let_def case_prod_beta)
  then show "ev_name ev = sc_name c" "ev_passed ev \<longleftrightarrow> evaluate_profile (ev_metrics ev) p = []" by auto
qed

lemma replay_row_meets:
  assumes "replay_row lib io m mode fee c w = (Inr r, w')" "c \<in> set (mf_scenarios m)"
  shows "row_name r = sc_name c" "\<exists>ev. r = ReplayRow c ev" "row_passed r \<Longrightarrow> row_meets m profiles mode r"
proof -
  from assms(1) obtain cs p ev where p: "profile_for m mode c = Inr p" and r: "r = ReplayRow c ev"
    and "evaluate_scenario (rl_json lib) (rl_log lib) (rl_draw lib) c cs p fee (Some (scenario_days mode c)) = Inr ev"
    by (auto simp: replay_row_def elim!: bnd_InrE split: sum.splits)
  note ev = evaluated_scenario[OF this(3)]
  show "row_name r = sc_name c" "\<exists>ev. r = ReplayRow c ev" using r ev by simp_all
  show "row_passed r \<Longrightarrow> row_meets m profiles mode r" using r ev p assms(2) by simp
qed

lemma grid_row_meets:
  assumes "grid_row io profiles g w = (Inr r, w')"
  shows "row_name r = gn_name g" "row_passed r \<Longrightarrow> row_meets m profiles mode r"
proof -
  from assms obtain p v gv where "map_of profiles (gn_profile g) = Some p"
    "evaluate_grid_scenario v g p = Inr gv" "r = GridRow gv"
    by (auto simp: grid_row_def ebind_Inr_iff or_raise_def split: option.splits)
  moreover from this(2) have "gv_name gv = gn_name g"
    "gv_passed gv \<longleftrightarrow> meets_grid_profile (gv_metrics gv) p (gv_profitable_window_rate gv)"
    by (auto simp: evaluate_grid_scenario_def ebind_Inr_iff Let_def no_grid_failure)
  ultimately show "row_name r = gn_name g" "row_passed r \<Longrightarrow> row_meets m profiles mode r" by auto
qed

lemma mapped_rows:
  assumes "map_each f xs w = (Inr ys, w')" "y \<in> set ys"
  obtains x v v' where "x \<in> set xs" "f x v = (Inr y, v')"
  using map_each_Inr[OF assms(1)] assms(2) by (fastforce simp: list_all2_conv_all_nth in_set_conv_nth)

lemma mapped_row_of:
  assumes "map_each f xs w = (Inr ys, w')" "x \<in> set xs"
  obtains y v v' where "y \<in> set ys" "f x v = (Inr y, v')"
  using map_each_Inr[OF assms(1)] assms(2) by (fastforce simp: list_all2_conv_all_nth in_set_conv_nth)

lemma replays_meet:
  assumes "map_each (replay_row lib io m mode fee) (filter (\<lambda>c. P (sc_name c)) (mf_scenarios m)) w = (Inr rows, w')"
  shows "r \<in> set rows \<Longrightarrow> row_passed r \<Longrightarrow> row_meets m profiles mode r \<and> P (row_name r)"
    "c \<in> set (mf_scenarios m) \<Longrightarrow> P (sc_name c) \<Longrightarrow> \<exists>ev. ReplayRow c ev \<in> set rows"
proof -
  assume r: "r \<in> set rows" "row_passed r"
  obtain c v v' where "c \<in> set (mf_scenarios m)" "P (sc_name c)" "replay_row lib io m mode fee c v = (Inr r, v')"
    using mapped_rows[OF assms r(1)] by (metis (no_types, lifting) mem_Collect_eq set_filter)
  then show "row_meets m profiles mode r \<and> P (row_name r)"
    using replay_row_meets[of lib io m mode fee c v r v'] r by auto
next
  assume c: "c \<in> set (mf_scenarios m)" "P (sc_name c)"
  then obtain r v v' where "r \<in> set rows" "replay_row lib io m mode fee c v = (Inr r, v')"
    using mapped_row_of[OF assms, of c] by auto
  then show "\<exists>ev. ReplayRow c ev \<in> set rows"
    using replay_row_meets(2)[of lib io m mode fee c v r v'] c by auto
qed

lemma ladders_meet:
  assumes "map_each (grid_row io profiles) (filter (\<lambda>g. P (gn_name g)) grids) w = (Inr rows, w')"
    "r \<in> set rows" "row_passed r"
  shows "row_meets m profiles mode r \<and> P (row_name r)"
proof -
  obtain g v v' where "P (gn_name g)" "grid_row io profiles g v = (Inr r, v')"
    using mapped_rows[OF assms(1,2)] by (metis (no_types, lifting) mem_Collect_eq set_filter)
  then show ?thesis using grid_row_meets[of io profiles g v r v'] assms(3) by auto
qed


subsection \<open>A suite of one grid\<close>

definition jtext :: "string \<Rightarrow> json" where
  "jtext s = JText (plain_text s)"

definition scenario_json :: json where
  "scenario_json = JObj
     [(''name'', jtext ''replayed''), (''family'', jtext ''scalping''), (''strategy'', jtext ''vwap_reversion''),
      (''symbol'', jtext ''BTCUSDT''), (''interval'', jtext ''5''), (''lookback_days'', JInt 90),
      (''live_lookback_days'', JInt 30), (''dataset_path'', jtext ''btc''),
      (''regression_profile'', jtext ''p''), (''live_profile'', jtext ''p'')]"

definition profile_json :: json where
  "profile_json = JObj [(''min_closed_trades'', JInt 1), (''min_win_rate'', JInt 0),
     (''min_profit_factor'', JInt 1), (''require_positive_expectancy'', JBool True),
     (''max_drawdown_pct'', JInt 1)]"

definition grid_json :: json where
  "grid_json = JObj
     [(''name'', jtext ''ladder''), (''symbol'', jtext ''xrpusdt''), (''dataset_path'', jtext ''xrp''),
      (''p_min_pct_from_start'', JFloat (- 1 / 2)), (''p_max_pct_from_start'', JFloat (1 / 2)),
      (''n_levels'', JInt 1), (''capital_usdt'', JInt 96), (''profile'', jtext ''loose''),
      (''max_candles'', JNull)]"

definition sample_raw_manifest :: "(string \<times> json) list" where
  "sample_raw_manifest =
     [(''profiles'', JObj [(''p'', profile_json)]), (''scenarios'', JList [scenario_json]),
      (''suites'', JObj [(''grids'', JList [jtext ''ladder''])]),
      (''grid_threshold_profiles'', JObj [(''loose'', JObj [(''min_completed_cycles'', JInt 0)])]), (''grid_scenarios'', JList [grid_json])]"

definition sample_fixture :: json where
  "sample_fixture = JList
     [JList [JInt 0, JInt 12, JInt 12, JInt 12, JInt 12, JInt 1],
      JList [JInt 1, JInt 12, JInt 13, JInt 11, JInt 12, JInt 1]]"

definition sample_gate_io :: "gate_report list gate_io" where
  "sample_gate_io = \<lparr>gi_dataset = (\<lambda>p. if p = ''xrp'' then Inr sample_fixture else Inl ValueError),
     gi_klines = (\<lambda>_ _ _ _. throw BybitConnectionError), gi_pause = (\<lambda>_. ret ()),
     gi_write = (\<lambda>r. modify (\<lambda>rs. rs @ [r]))\<rparr>"

definition sample_replay_lib :: replay_lib where
  "sample_replay_lib = \<lparr>rl_rep = (\<lambda>_. ''?''), rl_json = (\<lambda>_. []), rl_log = (\<lambda>x. x), rl_draw = (\<lambda>_. 0)\<rparr>"

definition sample_gate :: "(exc + gate_report) \<times> gate_report list" where
  "sample_gate = run_manifest_gate sample_replay_lib sample_gate_io (JObj sample_raw_manifest) Regression
     (1 / 1024) (Some ''grids'') None []"

lemma not_left: "\<not> isl x \<Longrightarrow> \<exists>y. x = Inr y"
  by (cases x) auto

lemma sample_gate_accepts: "\<exists>report w. sample_gate = (Inr report, w)"
proof -
  have "\<not> isl (fst sample_gate)" by code_simp
  then show ?thesis using not_left prod.collapse by metis
qed


end
