(* ===== verification/StageValidation.thy ===== *)
theory StageValidation
  imports BacktestGate MarketData
begin

text \<open>
  The validation scripts of the strategy stages, \<^verbatim>\<open>scripts/validate_stage_a.py\<close>,
  \<^verbatim>\<open>validate_stage_b.py\<close> and \<^verbatim>\<open>validate_stage_c.py\<close>: each
  replays a strategy over the last ninety days of a dataset, runs the repository's own checks, prints
  a verdict and exits with one.  The commands they run are a parameter; what they print besides the
  verdict is left out.
\<close>

subsection \<open>The repository's checks\<close>

record command_result =
  co_passed :: bool
  co_stdout :: string
  co_stderr :: string

definition is_digit_char :: "char \<Rightarrow> bool" where
  "is_digit_char c = (let n = (of_char c :: nat) in 48 \<le> n \<and> n \<le> 57)"

definition digits_value :: "string \<Rightarrow> nat" where
  "digits_value ds = foldl (\<lambda>n c. 10 * n + ((of_char c :: nat) - 48)) 0 ds"

text \<open>\<^verbatim>\<open>re.search(r"(\d+)\s+word", s)\<close>: digits, white space, the word, from the left.\<close>

definition match_count :: "string \<Rightarrow> string \<Rightarrow> nat option" where
  "match_count word s =
     (let ds = takeWhile is_digit_char s; r = dropWhile is_digit_char s;
          sp = takeWhile is_space r; t = dropWhile is_space r
      in if ds \<noteq> [] \<and> sp \<noteq> [] \<and> take (length word) t = word then Some (digits_value ds) else None)"

fun search_count :: "string \<Rightarrow> string \<Rightarrow> nat option" where
  "search_count word [] = None"
| "search_count word (c # s) = (case match_count word (c # s) of
     Some n \<Rightarrow> Some n | None \<Rightarrow> search_count word s)"

definition parse_pytest_counts :: "string \<Rightarrow> nat \<times> nat" where
  "parse_pytest_counts out =
     ((case search_count ''passed'' out of Some n \<Rightarrow> n | None \<Rightarrow> 0),
      (case search_count ''failed'' out of Some n \<Rightarrow> n | None \<Rightarrow> 0))"

record repo_checks =
  rk_pytest :: command_result
  rk_ruff :: command_result
  rk_mypy :: command_result
  rk_pytest_passed :: nat
  rk_pytest_failed :: nat

definition build_repo_check_summary :: "(string list \<Rightarrow> command_result) \<Rightarrow> repo_checks" where
  "build_repo_check_summary cmd =
     (let p = cmd [''uv'', ''run'', ''pytest'', ''-q'', ''--tb=short''];
          (passed, failed) = parse_pytest_counts (co_stdout p @ co_stderr p)
      in \<lparr>rk_pytest = p, rk_ruff = cmd [''uv'', ''run'', ''ruff'', ''check'', ''.''],
          rk_mypy = cmd [''uv'', ''run'', ''mypy'', ''.''], rk_pytest_passed = passed, rk_pytest_failed = failed\<rparr>)"

definition repo_checks_pass :: "repo_checks \<Rightarrow> bool" where
  "repo_checks_pass r \<longleftrightarrow> co_passed (rk_pytest r) \<and> co_passed (rk_ruff r) \<and> co_passed (rk_mypy r)"

text \<open>A gate that was missed, as the scripts report it.\<close>

datatype stage_failure = RunRaised string exc | FewerTradesGate | AverageFeeGate | PortfolioGate string
  | FactoryGate | RrrValidationGate | RrrTestGate | WinRateGate | ProfitFactorGate | RrrReplayGate
  | PytestGate | RuffGate | MypyGate

definition repo_failures :: "repo_checks \<Rightarrow> stage_failure list" where
  "repo_failures r =
     (if co_passed (rk_pytest r) then [] else [PytestGate])
     @ (if co_passed (rk_ruff r) then [] else [RuffGate])
     @ (if co_passed (rk_mypy r) then [] else [MypyGate])"

subsection \<open>The simulation the scripts use\<close>

text \<open>\<^verbatim>\<open>SimulationExecutionService(max_hold_candles=20, risk_amount_usd=100)\<close>.\<close>

definition stage_simulation :: "pyfloat option \<Rightarrow> simulation" where
  "stage_simulation fee = new_simulation 20 100 fee False (1 / 1000) (25 / 10000) (fl (7 / 10)) 2 1 True
     Spot 10000 [] 5"

definition load_last_90_days :: "candle_dataset \<Rightarrow> exc + market_candle list" where
  "load_last_90_days d = ebind (candles_for_lookback (cd_interval d) 90) (\<lambda>n.
     Inr (last_n (nat n) (cd_candles d)))"

definition btc_request :: "market_candle list \<Rightarrow> replay_request" where
  "btc_request cs = \<lparr>rp_symbol = ''BTCUSDT'', rp_interval = ''5'', rp_candles = Some cs,
     rp_snapshots = None, rp_start_step = None, rp_end_step = None\<rparr>"

text \<open>What replays are given: the JSON text of a mapping, the logarithm, the seeded draws.\<close>

record stage_lib =
  sb_json :: "(string \<times> pyfloat) list \<Rightarrow> string"
  sb_log :: "pyfloat \<Rightarrow> pyfloat"
  sb_draw :: "nat \<Rightarrow> pyfloat"

definition replay_stage ::
  "stage_lib \<Rightarrow> strategy \<Rightarrow> market_candle list \<Rightarrow> exc + sim_result replay_result"
where
  "replay_stage lib t cs = fst (run_replay object_of_result (sb_json lib) default_limits t
     (simulation_service (stage_simulation None) (sb_draw lib)) (btc_request cs) 0)"

subsection \<open>Stage A: stateless against stateful\<close>

record backtest_summary =
  bs_trades :: nat
  bs_net_pnl :: decimal
  bs_average_fees_per_trade :: decimal
  bs_executed_step_indexes :: "int list"
  bs_fees_by_step_index :: "(int \<times> decimal) list"

definition net_pnl_from_executions :: "sim_result list \<Rightarrow> decimal" where
  "net_pnl_from_executions xs = dsum (map net_pnl_of xs)"

definition average_fees_per_trade :: "sim_result list \<Rightarrow> decimal" where
  "average_fees_per_trade xs =
     (if xs = [] then 0 else ddiv (dsum (map xr_fees_paid xs)) (of_nat (length xs)))"

definition summary_of_steps :: "(int \<times> sim_result) list \<Rightarrow> backtest_summary" where
  "summary_of_steps xs =
     \<lparr>bs_trades = length xs, bs_net_pnl = net_pnl_from_executions (map snd xs),
      bs_average_fees_per_trade = average_fees_per_trade (map snd xs),
      bs_executed_step_indexes = map fst xs,
      bs_fees_by_step_index = map (\<lambda>(k, x). (k, xr_fees_paid x)) xs\<rparr>"

text \<open>The old way: every signal is executed, whatever is open.  The number counts the draws.\<close>

definition stateless_step ::
  "stage_lib \<Rightarrow> strategy \<Rightarrow> market_candle list \<Rightarrow> (int \<times> sim_result) list \<times> nat \<Rightarrow> nat
    \<Rightarrow> exc + (int \<times> sim_result) list \<times> nat"
where
  "stateless_step lib t cs st k =
     ebind (generate_signal t \<lparr>ms_symbol = ''BTCUSDT'', ms_interval = ''5'',
         ms_candles = take (required_candle_count t) (drop (k + 1 - required_candle_count t) cs)\<rparr>) (\<lambda>sg.
     case sg of
       None \<Rightarrow> Inr st
     | Some g \<Rightarrow> ebind (to_execute_signal_request (sb_json lib) g) (\<lambda>p.
         case execute_replay_signal (stage_simulation (Some (fl (1 / 1000)))) (sb_draw lib) p
                (drop (Suc k) cs) (int k) (snd st) of
           (r, n') \<Rightarrow> Inr (fst st @ [(int k, r)], n')))"

definition run_stateless_backtest :: "stage_lib \<Rightarrow> market_candle list \<Rightarrow> exc + backtest_summary" where
  "run_stateless_backtest lib cs =
     ebind (build_scalping_strategy (sb_log lib) ''vwap_reversion'' (3 / 2)) (\<lambda>t.
     ebind (efold (stateless_step lib t cs) [required_candle_count t - 1..<length cs] ([], 0)) (\<lambda>st.
     Inr (summary_of_steps (fst st))))"

definition executed_steps :: "'x replay_step_row list \<Rightarrow> (int \<times> 'x) list" where
  "executed_steps rows = List.map_filter (\<lambda>r. map_option (Pair (rr_step_index r)) (rr_execution r)) rows"

definition run_stateful_backtest :: "stage_lib \<Rightarrow> market_candle list \<Rightarrow> exc + backtest_summary" where
  "run_stateful_backtest lib cs =
     ebind (build_scalping_strategy (sb_log lib) ''vwap_reversion'' (3 / 2)) (\<lambda>t.
     ebind (replay_stage lib t cs) (\<lambda>res.
     Inr (summary_of_steps (executed_steps (rx_steps res)))))"

text \<open>The old average is taken again over the steps both runs executed.\<close>

definition align_old_summary :: "backtest_summary \<Rightarrow> backtest_summary \<Rightarrow> backtest_summary" where
  "align_old_summary old new =
     (if bs_executed_step_indexes new = [] then old
      else
        let fees = List.map_filter (map_of (bs_fees_by_step_index old)) (bs_executed_step_indexes new) in
        old\<lparr>bs_average_fees_per_trade := (if fees = [] then 0 else ddiv (dsum fees) (of_nat (length fees))),
            bs_executed_step_indexes := bs_executed_step_indexes new\<rparr>)"

subsection \<open>Stage A: synthetic portfolio checks\<close>

text \<open>\<^verbatim>\<open>AlwaysSignalStrategy\<close>\<close>

definition always_signal :: generator where
  "always_signal s = ebind (last_price s) (\<lambda>x.
     Inr (Some \<lparr>sg_symbol = ms_symbol s, sg_direction = ''long'', sg_entry = x, sg_stop = fsub x 5,
       sg_target = fadd x 10, sg_reason = Some ''always'', sg_strategy_version = Some ''always-v1'',
       sg_indicators_snapshot = []\<rparr>))"

definition always_strategy :: strategy where
  "always_strategy = \<lparr>required_candle_count = 1, generate_signal = always_signal\<rparr>"

text \<open>\<^verbatim>\<open>PlannedReplayExecutionService\<close>: the state is the index of the next result.\<close>

definition planned_service :: "decimal list \<Rightarrow> int list \<Rightarrow> (nat, execution_object) replay_service" where
  "planned_service pnls offsets = ReplayContext (\<lambda>p future step i.
     if length pnls \<le> i \<or> length offsets \<le> i then (Inl IndexError, i)
     else (Inr [(''symbol'', text_of_chars (rs_symbol p)), (''realized_pnl'', DDecimal (pnls ! i)),
        (''fees_paid'', DDecimal 0), (''closed_at_step'', DInt (step + offsets ! i)),
        (''entry_price'', DDecimal (dec_of_float (rs_entry p)))], Suc i))"

definition synthetic_candle :: "timestamp \<Rightarrow> nat \<Rightarrow> market_candle" where
  "synthetic_candle t i = new_market_candle t (fadd 101 (of_nat i)) (fadd 99 (of_nat i)) (fadd 100 (of_nat i))
     (Some (fadd 100 (of_nat i))) (fadd 10 (of_nat i))"

definition build_snapshots :: "timestamp \<Rightarrow> string list \<Rightarrow> market_snapshot list" where
  "build_snapshots t symbols = map (\<lambda>(i, s). \<lparr>ms_symbol = s, ms_interval = ''5'',
     ms_candles = [synthetic_candle t i]\<rparr>) (enumerate 0 symbols)"

text \<open>Which steps of a run with planned results were executed.\<close>

definition planned_run ::
  "((string \<times> pyfloat) list \<Rightarrow> string) \<Rightarrow> limits \<Rightarrow> decimal list \<Rightarrow> int list \<Rightarrow> string \<Rightarrow> market_snapshot list
    \<Rightarrow> exc + bool list"
where
  "planned_run js l pnls offsets symbol snaps =
     ebind (fst (run_replay id js l always_strategy (planned_service pnls offsets)
       \<lparr>rp_symbol = symbol, rp_interval = ''5'', rp_candles = None, rp_snapshots = Some snaps,
        rp_start_step = None, rp_end_step = None\<rparr> 0)) (\<lambda>res.
     Inr (map (\<lambda>r. rr_execution r \<noteq> None) (rx_steps res)))"

definition portfolio_enforcement_checks ::
  "((string \<times> pyfloat) list \<Rightarrow> string) \<Rightarrow> timestamp \<Rightarrow> exc + (string \<times> bool) list"
where
  "portfolio_enforcement_checks js t =
     (let btc = build_snapshots t [''BTCUSDT'', ''BTCUSDT'', ''BTCUSDT'']; l = default_limits in
      ebind (planned_run js (l\<lparr>lm_max_open_positions := 1, lm_cooldown_candles := 0\<rparr>) [10, 10] [2, 0] ''MIXED''
        (build_snapshots t [''BTCUSDT'', ''ETHUSDT'', ''XRPUSDT''])) (\<lambda>positions.
      ebind (planned_run js (l\<lparr>lm_cooldown_candles := 1\<rparr>) [10, 10] [0, 0] ''BTCUSDT'' btc) (\<lambda>cooldown.
      ebind (planned_run js (l\<lparr>lm_max_trades_per_day := 1, lm_cooldown_candles := 0\<rparr>) [10] [0] ''BTCUSDT'' btc) (\<lambda>cap.
      ebind (planned_run js (l\<lparr>lm_cooldown_candles := 0, lm_hard_pause_consecutive_losses := 2\<rparr>) [- 10, - 10] [0, 0]
        ''BTCUSDT'' btc) (\<lambda>breaker.
      Inr [(''max_open_positions'', positions = [True, False, True]), (''cooldown'', cooldown = [True, False, True]),
        (''max_trades_per_day'', cap = [True, False, False]), (''circuit_breaker'', breaker = [True, True, False])])))))"

subsection \<open>Stage A: the verdict\<close>

text \<open>The exceptions an attempt turns into a failure; a look-up that fails is not among them.\<close>

fun attempt_catches :: "exc \<Rightarrow> bool" where
  "attempt_catches ValueError = True"
| "attempt_catches TypeError = True"
| "attempt_catches RuntimeError = True"
| "attempt_catches ZeroDivisionError = True"
| "attempt_catches InvalidOperation = True"
| "attempt_catches StatisticsError = True"
| "attempt_catches _ = False"

text \<open>Loading the candles is part of an attempt.\<close>

definition attempt_backtest :: "string \<Rightarrow> exc + backtest_summary \<Rightarrow> exc + (stage_failure + backtest_summary)" where
  "attempt_backtest label r = (case r of
     Inr s \<Rightarrow> Inr (Inr s)
   | Inl x \<Rightarrow> if attempt_catches x then Inr (Inl (RunRaised label x)) else Inl x)"

record stage_a_data =
  va_old :: backtest_summary
  va_new :: backtest_summary
  va_portfolio :: "(string \<times> bool) list"
  va_repo :: repo_checks

text \<open>The line \<^verbatim>\<open>[STAGE A RESULT]\<close>.\<close>

definition stage_a_result :: "stage_a_data \<Rightarrow> bool" where
  "stage_a_result d \<longleftrightarrow> bs_trades (va_new d) < bs_trades (va_old d)
     \<and> bs_average_fees_per_trade (va_old d) \<le> bs_average_fees_per_trade (va_new d)
     \<and> list_all snd (va_portfolio d) \<and> repo_checks_pass (va_repo d)"

definition stage_a_failures :: "stage_a_data \<Rightarrow> stage_failure list" where
  "stage_a_failures d =
     (if bs_trades (va_old d) \<le> bs_trades (va_new d) then [FewerTradesGate] else [])
     @ (if bs_average_fees_per_trade (va_new d) < bs_average_fees_per_trade (va_old d) then [AverageFeeGate] else [])
     @ map (\<lambda>(k, _). PortfolioGate k) (filter (\<lambda>(_, ok). \<not> ok) (va_portfolio d))
     @ repo_failures (va_repo d)"

definition no_backtest :: backtest_summary where
  "no_backtest = \<lparr>bs_trades = 0, bs_net_pnl = 0, bs_average_fees_per_trade = 0,
     bs_executed_step_indexes = [], bs_fees_by_step_index = []\<rparr>"

text \<open>What a stage prints as its result, the failures it lists, and whether it exits with one.\<close>

record stage_outcome =
  so_printed_pass :: bool
  so_failures :: "stage_failure list"
  so_exit_one :: bool

definition left_failure :: "stage_failure + 'a \<Rightarrow> stage_failure list" where
  "left_failure a = (case a of Inl f \<Rightarrow> [f] | Inr _ \<Rightarrow> [])"

definition summary_or_none :: "stage_failure + backtest_summary \<Rightarrow> backtest_summary" where
  "summary_or_none a = (case a of Inr s \<Rightarrow> s | Inl _ \<Rightarrow> no_backtest)"

definition conclude_stage_a ::
  "(string \<times> bool) list \<Rightarrow> repo_checks \<Rightarrow> stage_failure + backtest_summary \<Rightarrow> stage_failure + backtest_summary
    \<Rightarrow> stage_outcome"
where
  "conclude_stage_a portfolio repo old new = (case (old, new) of
     (Inr o', Inr n) \<Rightarrow>
       let d = \<lparr>va_old = align_old_summary o' n, va_new = n, va_portfolio = portfolio, va_repo = repo\<rparr> in
       \<lparr>so_printed_pass = stage_a_result d, so_failures = stage_a_failures d, so_exit_one = (stage_a_failures d \<noteq> [])\<rparr>
   | _ \<Rightarrow>
       let d = \<lparr>va_old = summary_or_none old, va_new = summary_or_none new, va_portfolio = portfolio, va_repo = repo\<rparr> in
       \<lparr>so_printed_pass = stage_a_result d, so_failures = left_failure old @ left_failure new, so_exit_one = True\<rparr>)"

text \<open>\<open>dataset\<close> is what loading the dataset gives, or the exception it raises.\<close>

definition run_stage_a ::
  "stage_lib \<Rightarrow> (string list \<Rightarrow> command_result) \<Rightarrow> exc + candle_dataset \<Rightarrow> exc + stage_outcome"
where
  "run_stage_a lib cmd dataset =
     ebind dataset (\<lambda>d.
     ebind (nth_back (cd_candles d) 0) (\<lambda>c.
     ebind (portfolio_enforcement_checks (sb_json lib) (mc_opened_at c)) (\<lambda>portfolio.
     ebind (attempt_backtest ''Old-style stateless replay''
       (ebind (load_last_90_days d) (run_stateless_backtest lib))) (\<lambda>old.
     ebind (attempt_backtest ''New-style stateful replay''
       (ebind (load_last_90_days d) (run_stateful_backtest lib))) (\<lambda>new.
     Inr (conclude_stage_a portfolio (build_repo_check_summary cmd) old new))))))"

subsection \<open>Stage B: the measures of a run\<close>

text \<open>\<^verbatim>\<open>Decimal(0)\<close> where there is nothing to divide, infinity without a loss.\<close>

definition stage_win_rate :: "decimal list \<Rightarrow> decimal" where
  "stage_win_rate ps = (if ps = [] then 0 else ddiv (of_nat (winners ps)) (of_nat (length ps)))"

definition stage_profit_factor :: "decimal list \<Rightarrow> xfloat" where
  "stage_profit_factor ps =
     (let wins = filter (\<lambda>x. 0 < x) ps; losses = filter (\<lambda>x. x < 0) ps in
      if wins \<noteq> [] \<and> losses = [] then Infinity
      else if losses \<noteq> [] then Fin (ddiv (dsum wins) (dc \<bar>dsum losses\<bar>)) else Fin 0)"

definition signal_rrr :: "strategy_signal \<Rightarrow> decimal option" where
  "signal_rrr g = (case map_of (sg_indicators_snapshot g) ''rrr'' of
     Some x \<Rightarrow> Some (dec_of_float x)
   | None \<Rightarrow>
       let risk = dc \<bar>dsub (dec_of_float (sg_entry g)) (dec_of_float (sg_stop g))\<bar>;
           reward = dc \<bar>dsub (dec_of_float (sg_target g)) (dec_of_float (sg_entry g))\<bar>
       in if risk = 0 then None else Some (ddiv reward risk))"

record strategy_run_summary =
  sr_trades :: nat
  sr_win_rate :: decimal
  sr_profit_factor :: xfloat
  sr_rrr_below_minimum :: nat

definition below_minimum :: "decimal \<Rightarrow> 'x replay_step_row \<Rightarrow> bool" where
  "below_minimum minimum r = (case (rr_execution r, rr_signal r) of
     (Some x, Some g) \<Rightarrow> (case signal_rrr g of Some v \<Rightarrow> v < minimum | None \<Rightarrow> False)
   | _ \<Rightarrow> False)"

text \<open>\<open>m\<close> is the strategy's \<^verbatim>\<open>min_rrr\<close>.\<close>

definition run_stage_b_backtest :: "stage_lib \<Rightarrow> candle_dataset \<Rightarrow> strategy \<Rightarrow> pyfloat \<Rightarrow> exc + strategy_run_summary" where
  "run_stage_b_backtest lib d t m =
     ebind (load_last_90_days d) (\<lambda>cs.
     ebind (replay_stage lib t cs) (\<lambda>res.
     let ps = map net_pnl_of (executions_of (rx_steps res)) in
     Inr \<lparr>sr_trades = length ps, sr_win_rate = stage_win_rate ps, sr_profit_factor = stage_profit_factor ps,
       sr_rrr_below_minimum = length (filter (below_minimum (dec_of_float m)) (rx_steps res))\<rparr>))"

subsection \<open>Stage B: the attempts\<close>

record v2_parameters =
  vp_min_deviation :: pyfloat
  vp_rsi_long_threshold :: pyfloat
  vp_rsi_short_threshold :: pyfloat
  vp_volume_confirmation_multiplier :: pyfloat

definition default_v2_parameters :: v2_parameters where
  "default_v2_parameters = \<lparr>vp_min_deviation = fl (5 / 1000), vp_rsi_long_threshold = 30,
     vp_rsi_short_threshold = 70, vp_volume_confirmation_multiplier = fl (12 / 10)\<rparr>"

definition v2_of_parameters :: "v2_parameters \<Rightarrow> vwap_reversion_v2" where
  "v2_of_parameters p = (new_vwap_reversion_v2 (fl (13 / 10)))\<lparr>v2_min_deviation := vp_min_deviation p,
     v2_rsi_long_threshold := vp_rsi_long_threshold p, v2_rsi_short_threshold := vp_rsi_short_threshold p,
     v2_volume_confirmation_multiplier := vp_volume_confirmation_multiplier p\<rparr>"

definition build_v2_strategy :: "(pyfloat \<Rightarrow> pyfloat) \<Rightarrow> v2_parameters \<Rightarrow> strategy" where
  "build_v2_strategy lg p = \<lparr>required_candle_count = v2_candle_count (v2_of_parameters p),
     generate_signal = v2_generate lg (v2_of_parameters p)\<rparr>"

record v2_attempt =
  at_label :: string
  at_parameters :: v2_parameters
  at_summary :: strategy_run_summary

definition v2_attempts :: "(string \<times> v2_parameters) list" where
  "v2_attempts =
     (let a1 = default_v2_parameters\<lparr>vp_min_deviation := fl (7 / 1000)\<rparr>;
          a2 = a1\<lparr>vp_rsi_long_threshold := 25, vp_rsi_short_threshold := 75\<rparr>;
          a3 = a2\<lparr>vp_volume_confirmation_multiplier := 3 / 2\<rparr>
      in [(''default'', default_v2_parameters), (''attempt_1'', a1), (''attempt_2'', a2), (''attempt_3'', a3)])"

definition profit_factor_threshold :: decimal where
  "profit_factor_threshold = 105 / 100"

text \<open>The first attempt that reaches the profit factor, or the last; with all that were made.\<close>

fun run_v2_attempts ::
  "(v2_parameters \<Rightarrow> exc + strategy_run_summary) \<Rightarrow> v2_attempt list \<Rightarrow> (string \<times> v2_parameters) list
    \<Rightarrow> exc + v2_attempt list"
where
  "run_v2_attempts run history [] = Inr history"
| "run_v2_attempts run history ((label, p) # rest) =
     ebind (run p) (\<lambda>s.
     let history' = history @ [\<lparr>at_label = label, at_parameters = p, at_summary = s\<rparr>] in
     if \<not> xless (sr_profit_factor s) profit_factor_threshold then Inr history'
     else run_v2_attempts run history' rest)"

subsection \<open>Stage B: the verdict\<close>

text \<open>Fifty candles in which the first version finds a signal of too low a ratio.\<close>

definition bad_rrr_closes :: "pyfloat list" where
  "bad_rrr_closes = replicate 47 100 @ [99, fl (984 / 10), 99]"

definition bad_rrr_volumes :: "pyfloat list" where
  "bad_rrr_volumes = replicate 47 100 @ [400, 500, 600]"

definition build_bad_rrr_snapshot :: market_snapshot where
  "build_bad_rrr_snapshot = \<lparr>ms_symbol = ''BTCUSDT'', ms_interval = ''5'',
     ms_candles = map (\<lambda>(i, c, v). new_market_candle (1704067200000000 + of_nat i * 300000000)
       (fadd c 1) (fsub c 1) c (Some c) v) (enumerate 0 (zip bad_rrr_closes bad_rrr_volumes))\<rparr>"

record b1_result =
  bo_factory_passes :: bool
  bo_strategy_validates :: bool
  bo_test_passed :: bool

definition b1_checks :: "(string list \<Rightarrow> command_result) \<Rightarrow> exc + b1_result" where
  "b1_checks cmd =
     ebind (vwap_generate (new_vwap_reversion 2) build_bad_rrr_snapshot) (\<lambda>sg.
     Inr \<lparr>bo_factory_passes = (vr_min_rrr (new_vwap_reversion 2) = 2), bo_strategy_validates = (sg = None),
       bo_test_passed = co_passed (cmd [''uv'', ''run'', ''pytest'',
         ''tests/strategy_engine/test_vwap_reversion_strategy.py::test_vwap_strategy_rejects_bad_rrr'',
         ''-q'', ''--tb=short''])\<rparr>)"

record stage_b_data =
  vb_checks :: b1_result
  vb_v1 :: strategy_run_summary
  vb_v2 :: strategy_run_summary
  vb_repo :: repo_checks

definition stage_b_result :: "stage_b_data \<Rightarrow> bool" where
  "stage_b_result d \<longleftrightarrow> bo_factory_passes (vb_checks d) \<and> bo_strategy_validates (vb_checks d)
     \<and> bo_test_passed (vb_checks d) \<and> sr_trades (vb_v2 d) < sr_trades (vb_v1 d)
     \<and> 1 / 2 \<le> sr_win_rate (vb_v2 d) \<and> \<not> xless (sr_profit_factor (vb_v2 d)) profit_factor_threshold
     \<and> sr_rrr_below_minimum (vb_v2 d) = 0 \<and> repo_checks_pass (vb_repo d)"

definition stage_b_failures :: "stage_b_data \<Rightarrow> stage_failure list" where
  "stage_b_failures d =
     (if bo_factory_passes (vb_checks d) then [] else [FactoryGate])
     @ (if bo_strategy_validates (vb_checks d) then [] else [RrrValidationGate])
     @ (if bo_test_passed (vb_checks d) then [] else [RrrTestGate])
     @ (if sr_trades (vb_v1 d) \<le> sr_trades (vb_v2 d) then [FewerTradesGate] else [])
     @ (if sr_win_rate (vb_v2 d) < 1 / 2 then [WinRateGate] else [])
     @ (if xless (sr_profit_factor (vb_v2 d)) profit_factor_threshold then [ProfitFactorGate] else [])
     @ (if sr_rrr_below_minimum (vb_v2 d) \<noteq> 0 then [RrrReplayGate] else [])
     @ repo_failures (vb_repo d)"

definition conclude_stage_b :: "stage_b_data \<Rightarrow> stage_outcome" where
  "conclude_stage_b d = \<lparr>so_printed_pass = stage_b_result d, so_failures = stage_b_failures d,
     so_exit_one = (stage_b_failures d \<noteq> [])\<rparr>"

definition run_stage_b ::
  "stage_lib \<Rightarrow> (string list \<Rightarrow> command_result) \<Rightarrow> exc + candle_dataset \<Rightarrow> exc + stage_outcome"
where
  "run_stage_b lib cmd dataset =
     ebind (b1_checks cmd) (\<lambda>checks.
     ebind (build_scalping_strategy (sb_log lib) ''vwap_reversion'' (fl (13 / 10))) (\<lambda>t.
     ebind (ebind dataset (\<lambda>d. run_stage_b_backtest lib d t (fl (13 / 10)))) (\<lambda>v1.
     ebind (run_v2_attempts (\<lambda>p. ebind dataset (\<lambda>d.
         run_stage_b_backtest lib d (build_v2_strategy (sb_log lib) p) (fl (13 / 10)))) [] v2_attempts) (\<lambda>history.
     Inr (conclude_stage_b \<lparr>vb_checks = checks, vb_v1 = v1, vb_v2 = at_summary (last history),
       vb_repo = build_repo_check_summary cmd\<rparr>)))))"

subsection \<open>Stage C\<close>

record pullback_summary =
  pu_trades :: nat
  pu_win_rate :: decimal
  pu_profit_factor :: xfloat
  pu_net_pnl :: decimal
  pu_trades_per_day_average :: decimal

definition trades_per_day :: "nat \<Rightarrow> date list \<Rightarrow> decimal" where
  "trades_per_day n ds = (if ds = [] then 0 else ddiv (of_nat n) (of_nat (length (remdups ds))))"

definition run_ema_pullback :: "stage_lib \<Rightarrow> candle_dataset \<Rightarrow> exc + pullback_summary" where
  "run_ema_pullback lib d =
     ebind (load_last_90_days d) (\<lambda>cs.
     ebind (build_scalping_strategy (sb_log lib) ''ema_pullback'' (3 / 2)) (\<lambda>t.
     ebind (replay_stage lib t cs) (\<lambda>res.
     let ps = map net_pnl_of (executions_of (rx_steps res)) in
     Inr \<lparr>pu_trades = length ps, pu_win_rate = stage_win_rate ps, pu_profit_factor = stage_profit_factor ps,
       pu_net_pnl = dsum ps, pu_trades_per_day_average = trades_per_day (length ps) (map candle_day cs)\<rparr>)))"

definition stage_c_result :: "pullback_summary \<Rightarrow> repo_checks \<Rightarrow> bool" where
  "stage_c_result s r \<longleftrightarrow> 48 / 100 \<le> pu_win_rate s \<and> \<not> xless (pu_profit_factor s) profit_factor_threshold
     \<and> repo_checks_pass r"

definition stage_c_failures :: "pullback_summary \<Rightarrow> repo_checks \<Rightarrow> stage_failure list" where
  "stage_c_failures s r =
     (if pu_win_rate s < 48 / 100 then [WinRateGate] else [])
     @ (if xless (pu_profit_factor s) profit_factor_threshold then [ProfitFactorGate] else [])
     @ repo_failures r"

definition stage_c_exits_one :: "pullback_summary \<Rightarrow> repo_checks \<Rightarrow> bool" where
  "stage_c_exits_one s r \<longleftrightarrow> pu_win_rate s < 48 / 100 \<or> xless (pu_profit_factor s) profit_factor_threshold
     \<or> \<not> co_passed (rk_pytest r) \<or> \<not> co_passed (rk_ruff r) \<or> \<not> co_passed (rk_mypy r)"

definition conclude_stage_c :: "pullback_summary \<Rightarrow> repo_checks \<Rightarrow> stage_outcome" where
  "conclude_stage_c s r = \<lparr>so_printed_pass = stage_c_result s r,
     so_failures = (if stage_c_exits_one s r then stage_c_failures s r else []),
     so_exit_one = stage_c_exits_one s r\<rparr>"

definition run_stage_c ::
  "stage_lib \<Rightarrow> (string list \<Rightarrow> command_result) \<Rightarrow> exc + candle_dataset \<Rightarrow> exc + stage_outcome"
where
  "run_stage_c lib cmd dataset =
     ebind (ebind dataset (run_ema_pullback lib)) (\<lambda>s.
     Inr (conclude_stage_c s (build_repo_check_summary cmd)))"

subsection \<open>Verdicts and exit statuses\<close>

lemma no_repo_failure: "repo_failures r = [] \<longleftrightarrow> repo_checks_pass r"
  by (auto simp: repo_failures_def repo_checks_pass_def)

lemma no_stage_a_failure: "stage_a_failures d = [] \<longleftrightarrow> stage_a_result d"
  by (auto simp: stage_a_failures_def stage_a_result_def no_repo_failure filter_empty_conv list_all_iff)

lemma no_stage_b_failure: "stage_b_failures d = [] \<longleftrightarrow> stage_b_result d"
  by (auto simp: stage_b_failures_def stage_b_result_def no_repo_failure)

lemma no_stage_c_failure: "stage_c_failures s r = [] \<longleftrightarrow> stage_c_result s r"
  "stage_c_exits_one s r \<longleftrightarrow> \<not> stage_c_result s r"
  by (auto simp: stage_c_failures_def stage_c_result_def stage_c_exits_one_def no_repo_failure repo_checks_pass_def)

text \<open>A stage whose printed verdict, listed failures and exit status say the same.\<close>

definition consistent :: "stage_outcome \<Rightarrow> bool" where
  "consistent so \<longleftrightarrow> (so_exit_one so \<longleftrightarrow> \<not> so_printed_pass so) \<and> (so_exit_one so \<longleftrightarrow> so_failures so \<noteq> [])"


text \<open>
  Stage A's four synthetic checks hold on the replay as it is written: whatever the day of the
  dataset's first candle, a second symbol waits for the open trade to close, a symbol waits for its
  cooldown, the second trade of a day is refused when one is allowed, and two losses in a row end
  the session when two are allowed.
\<close>

theorem portfolio_checks_pass:
  "portfolio_enforcement_checks js t = Inr [(''max_open_positions'', True), (''cooldown'', True),
     (''max_trades_per_day'', True), (''circuit_breaker'', True)]"
  by code_simp

text \<open>
  The fallback of stage A can print a pass while it exits with one: when the stateful run raises and
  every trade of the stateless run was free of fees, the empty summary beats it.
\<close>

definition raised_outcome :: stage_outcome where
  "raised_outcome = (let ok = \<lparr>co_passed = True, co_stdout = [], co_stderr = []\<rparr> in
     conclude_stage_a [(''cooldown'', True)]
       \<lparr>rk_pytest = ok, rk_ruff = ok, rk_mypy = ok, rk_pytest_passed = 1, rk_pytest_failed = 0\<rparr>
       (Inr (no_backtest\<lparr>bs_trades := 1\<rparr>)) (Inl (RunRaised ''New-style stateful replay'' ValueError)))"

theorem raised_stage_a_can_print_pass: "so_printed_pass raised_outcome \<and> so_exit_one raised_outcome"
  by code_simp

end
