(* ===== verification/EventStream.thy ===== *)
theory EventStream
  imports Services GridLive Configuration
begin

text \<open>
  \<^verbatim>\<open>backend/exchange_sync/listener.py\<close>, the wiring of its handlers in
  \<^verbatim>\<open>exchange_sync/engine.py\<close> and in \<^verbatim>\<open>main.py\<close>, and
  \<^verbatim>\<open>backend/backtest/demo_runner.py\<close>.  The thread of the exchange's stream calls the
  handlers, which hand coroutines to the event loop; the loop runs them one by one on the journal
  and on the grid.  pybit is a parameter: whether it is installed, and what connecting answers.
\<close>

subsection \<open>Messages\<close>

record order_item =
  oi_remote :: remote_order
  oi_side :: string
  oi_symbol :: string

record execution_item =
  xi_link_id :: string
  xi_fee :: "decimal option"
  xi_price :: "decimal option"

text \<open>The field \<^verbatim>\<open>data\<close>: absent, null, or items; \<open>None\<close> is an item that is no dictionary.\<close>

datatype 'i message = NoData | NullData | Items "'i option list"

text \<open>\<^verbatim>\<open>for item in message.get("data", [])\<close>\<close>

definition message_items :: "'i message \<Rightarrow> exc + 'i option list" where
  "message_items m = (case m of NoData \<Rightarrow> Inr [] | NullData \<Rightarrow> Inl TypeError | Items xs \<Rightarrow> Inr xs)"

definition fill_side_of :: "string \<Rightarrow> fill_side" where
  "fill_side_of s = (if s = ''Buy'' then FillBuy else if s = ''Sell'' then FillSell else FillOther)"

definition grid_fill_event_of :: "order_item \<Rightarrow> grid_fill_event" where
  "grid_fill_event_of i = \<lparr>fe_order_id = (case ro_order_id (oi_remote i) of Some s \<Rightarrow> s | None \<Rightarrow> []),
     fe_side = fill_side_of (oi_side i), fe_symbol = oi_symbol i\<rparr>"

subsection \<open>The listener and the event loop\<close>

text \<open>A coroutine that was handed to the event loop.\<close>

datatype stream_task = ProcessOrder "order_item option" | ProcessExecution "execution_item option"
  | HandleGridFill grid_fill_event

datatype order_handler = SyncOrders | GridOrders

datatype execution_handler = SyncExecutions

text \<open>\<open>sm_wired\<close>: the engine knows its event loop.  \<open>sm_tasks\<close> are the coroutines that wait to run.\<close>

record stream_app =
  sm_connected :: bool
  sm_order_handlers :: "order_handler list"
  sm_execution_handlers :: "execution_handler list"
  sm_wired :: bool
  sm_loop_closed :: bool
  sm_tasks :: "stream_task list"

definition new_stream_app :: stream_app where
  "new_stream_app = \<lparr>sm_connected = False, sm_order_handlers = [], sm_execution_handlers = [],
     sm_wired = False, sm_loop_closed = False, sm_tasks = []\<rparr>"

type_synonym 'a sop = "(stream_app, 'a) prog"

definition hand_over :: "stream_task \<Rightarrow> stream_app \<Rightarrow> stream_app" where
  "hand_over t a = a\<lparr>sm_tasks := sm_tasks a @ [t]\<rparr>"

text \<open>\<^verbatim>\<open>run_coroutine_threadsafe\<close> raises when the loop is closed.\<close>

definition run_coroutine_threadsafe :: "stream_task \<Rightarrow> unit sop" where
  "run_coroutine_threadsafe t =
     bnd (reads sm_loop_closed) (\<lambda>c. if c then throw RuntimeError else modify (hand_over t))"

definition dispatch :: "stream_task \<Rightarrow> unit sop" where
  "dispatch t = bnd (reads (\<lambda>a. \<not> sm_wired a \<or> sm_loop_closed a)) (\<lambda>unavailable.
     if unavailable then ret () else run_coroutine_threadsafe t)"

definition sync_on_order :: "order_item message \<Rightarrow> unit sop" where
  "sync_on_order m = bnd (from_sum (message_items m)) (each (\<lambda>i. dispatch (ProcessOrder i)))"

definition sync_on_execution :: "execution_item message \<Rightarrow> unit sop" where
  "sync_on_execution m = bnd (from_sum (message_items m)) (each (\<lambda>i. dispatch (ProcessExecution i)))"

definition grid_on_item :: "order_item option \<Rightarrow> unit sop" where
  "grid_on_item i = (case i of
     None \<Rightarrow> throw AttributeError
   | Some x \<Rightarrow> if ro_status (oi_remote x) \<noteq> Filled then ret ()
       else run_coroutine_threadsafe (HandleGridFill (grid_fill_event_of x)))"

definition grid_on_order :: "order_item message \<Rightarrow> unit sop" where
  "grid_on_order m = bnd (from_sum (message_items m)) (each grid_on_item)"

fun run_order_handler :: "order_item message \<Rightarrow> order_handler \<Rightarrow> unit sop" where
  "run_order_handler m SyncOrders = sync_on_order m"
| "run_order_handler m GridOrders = grid_on_order m"

fun run_execution_handler :: "execution_item message \<Rightarrow> execution_handler \<Rightarrow> unit sop" where
  "run_execution_handler m SyncExecutions = sync_on_execution m"

definition handle_order :: "order_item message \<Rightarrow> unit sop" where
  "handle_order m = bnd (reads sm_order_handlers) (each (run_order_handler m))"

definition handle_execution :: "execution_item message \<Rightarrow> unit sop" where
  "handle_execution m = bnd (reads sm_execution_handlers) (each (run_execution_handler m))"

definition on_order :: "order_handler \<Rightarrow> unit sop" where
  "on_order h = modify (\<lambda>a. a\<lparr>sm_order_handlers := sm_order_handlers a @ [h]\<rparr>)"

definition on_execution :: "execution_handler \<Rightarrow> unit sop" where
  "on_execution h = modify (\<lambda>a. a\<lparr>sm_execution_handlers := sm_execution_handlers a @ [h]\<rparr>)"

text \<open>\<open>pybit\<close> is \<open>None\<close> when the package is missing; connecting may raise.\<close>

definition start_listener :: "string \<Rightarrow> string \<Rightarrow> (exc + unit) option \<Rightarrow> unit sop" where
  "start_listener key secret pybit =
     (if key = [] \<or> secret = [] then ret ()
      else case pybit of
        None \<Rightarrow> ret ()
      | Some r \<Rightarrow> bnd (from_sum r) (\<lambda>_. modify (\<lambda>a. a\<lparr>sm_connected := True\<rparr>)))"

definition stop_listener :: "unit sop" where
  "stop_listener = modify (\<lambda>a. a\<lparr>sm_connected := False\<rparr>)"

definition wire_engine :: "unit sop" where
  "wire_engine = andthen (modify (\<lambda>a. a\<lparr>sm_wired := True\<rparr>))
     (andthen (on_order SyncOrders) (on_execution SyncExecutions))"

subsection \<open>Starting the application\<close>

datatype stream_event = OrderEvent "order_item message" | ExecutionEvent "execution_item message"

text \<open>An exception of a handler ends in the thread of the stream.\<close>

definition receive :: "stream_event \<Rightarrow> stream_app \<Rightarrow> stream_app" where
  "receive ev a =
     (if \<not> sm_connected a then a
      else case ev of OrderEvent m \<Rightarrow> snd (handle_order m a) | ExecutionEvent m \<Rightarrow> snd (handle_execution m a))"

text \<open>
  \<^verbatim>\<open>lifespan\<close> starts the listener, wires the engine and registers the grid's handler; the
  thread of the stream delivers \<open>es1\<close> before the wiring, \<open>es2\<close> before the grid's handler, \<open>es3\<close> after.
\<close>

definition start_streams ::
  "string \<Rightarrow> string \<Rightarrow> (exc + unit) option \<Rightarrow> stream_event list \<Rightarrow> stream_event list \<Rightarrow> stream_event list \<Rightarrow> unit sop"
where
  "start_streams key secret pybit es1 es2 es3 =
     andthen (start_listener key secret pybit)
     (andthen (modify (fold receive es1))
     (andthen wire_engine
     (andthen (modify (fold receive es2))
     (andthen (on_order GridOrders) (modify (fold receive es3))))))"

text \<open>What a message is to become: coroutines of the engine, then of the grid.\<close>

definition engine_tasks :: "stream_event \<Rightarrow> stream_task list" where
  "engine_tasks ev = (case ev of
     OrderEvent (Items xs) \<Rightarrow> map ProcessOrder xs
   | ExecutionEvent (Items xs) \<Rightarrow> map ProcessExecution xs
   | _ \<Rightarrow> [])"

definition grid_tasks :: "stream_event \<Rightarrow> stream_task list" where
  "grid_tasks ev = (case ev of
     OrderEvent (Items xs) \<Rightarrow> map (HandleGridFill \<circ> grid_fill_event_of)
       (filter (\<lambda>x. ro_status (oi_remote x) = Filled) (map the (takeWhile (\<lambda>i. i \<noteq> None) xs)))
   | _ \<Rightarrow> [])"

definition all_tasks :: "stream_event \<Rightarrow> stream_task list" where
  "all_tasks ev = engine_tasks ev @ grid_tasks ev"

text \<open>A stream whose loop runs: the engine is wired, the grid's handler may be registered.\<close>

definition streaming :: "bool \<Rightarrow> stream_app \<Rightarrow> bool" where
  "streaming grid a \<longleftrightarrow> sm_connected a \<and> sm_wired a \<and> \<not> sm_loop_closed a
     \<and> sm_order_handlers a = SyncOrders # (if grid then [GridOrders] else [])
     \<and> sm_execution_handlers a = [SyncExecutions]"

lemma hand_over_tasks [simp]: "sm_tasks (hand_over t a) = sm_tasks a @ [t]"
  and hand_over_app [simp]: "sm_wired (hand_over t a) = sm_wired a" "sm_loop_closed (hand_over t a) = sm_loop_closed a"
    "sm_order_handlers (hand_over t a) = sm_order_handlers a" "sm_connected (hand_over t a) = sm_connected a"
    "sm_execution_handlers (hand_over t a) = sm_execution_handlers a"
  by (simp_all add: hand_over_def)

lemma each_dispatch:
  assumes "sm_wired a" "\<not> sm_loop_closed a"
  shows "each (\<lambda>i. dispatch (f i)) xs a = (Inr (), a\<lparr>sm_tasks := sm_tasks a @ map f xs\<rparr>)"
  using assms
proof (induction xs arbitrary: a)
  case (Cons x xs)
  then show ?case
    by (simp add: dispatch_def run_coroutine_threadsafe_def andthen_def bnd_def reads_def modify_def hand_over_def)
qed (simp add: ret_def)

lemma each_grid:
  assumes "\<not> sm_loop_closed a"
  shows "snd (each grid_on_item xs a) = a\<lparr>sm_tasks := sm_tasks a @ grid_tasks (OrderEvent (Items xs))\<rparr>"
  using assms
proof (induction xs arbitrary: a)
  case (Cons x xs)
  then show ?case
    by (cases x) (auto simp: grid_on_item_def grid_tasks_def run_coroutine_threadsafe_def andthen_def bnd_def
        reads_def modify_def hand_over_def throw_def ret_def)
qed (simp add: ret_def grid_tasks_def)

lemma receive_streaming:
  assumes "streaming g a"
  shows "receive ev a = a\<lparr>sm_tasks := sm_tasks a @ (if g then all_tasks ev else engine_tasks ev)\<rparr>"
proof (cases ev)
  case (OrderEvent m)
  show ?thesis
  proof (cases m)
    case (Items xs)
    have "snd (each grid_on_item xs (a\<lparr>sm_tasks := sm_tasks a @ map ProcessOrder xs\<rparr>))
        = a\<lparr>sm_tasks := (sm_tasks a @ map ProcessOrder xs) @ grid_tasks (OrderEvent (Items xs))\<rparr>"
      using assms by (subst each_grid) (auto simp: streaming_def)
    then show ?thesis using assms OrderEvent Items each_dispatch[of a ProcessOrder xs]
      by (cases "each grid_on_item xs (a\<lparr>sm_tasks := sm_tasks a @ map ProcessOrder xs\<rparr>)")
        (auto simp: receive_def handle_order_def streaming_def bnd_def reads_def andthen_def ret_def
          sync_on_order_def grid_on_order_def message_items_def from_sum_def all_tasks_def engine_tasks_def split: sum.splits)
  qed (use assms OrderEvent in \<open>auto simp: receive_def handle_order_def streaming_def bnd_def reads_def andthen_def
      ret_def sync_on_order_def grid_on_order_def message_items_def from_sum_def all_tasks_def engine_tasks_def
      grid_tasks_def throw_def\<close>)
next
  case (ExecutionEvent m)
  with assms each_dispatch[of a ProcessExecution] show ?thesis
    by (cases m) (auto simp: receive_def handle_execution_def streaming_def bnd_def reads_def andthen_def ret_def
        sync_on_execution_def message_items_def from_sum_def all_tasks_def engine_tasks_def grid_tasks_def throw_def)
qed

lemma fold_receive:
  "streaming g a \<Longrightarrow> fold receive es a
     = a\<lparr>sm_tasks := sm_tasks a @ concat (map (if g then all_tasks else engine_tasks) es)\<rparr>"
proof (induction es arbitrary: a)
  case (Cons ev es)
  then show ?case using Cons.IH[of "a\<lparr>sm_tasks := sm_tasks a @ (if g then all_tasks ev else engine_tasks ev)\<rparr>"]
    by (simp add: receive_streaming) (simp add: streaming_def)
qed simp

text \<open>Without handlers nothing happens.\<close>

lemma fold_receive_unwired:
  "sm_order_handlers a = [] \<Longrightarrow> sm_execution_handlers a = [] \<Longrightarrow> fold receive es a = a"
  by (induction es) (auto simp: receive_def handle_order_def handle_execution_def bnd_def reads_def ret_def
      split: stream_event.splits)

text \<open>
  C37: from the moment its handlers are registered no event is lost, and before that every event is.
  Of the messages the stream delivers while the application starts, those before the wiring leave
  no trace; those before the grid's handler is registered become one coroutine of the engine for
  each item, in order; those after become these and then one of the grid for each filled order, up
  to the first item that is no dictionary, whose exception skips the rest of that message.
\<close>

theorem startup_schedules_every_event:
  "snd (start_streams (k # ks) (s # ss) (Some (Inr ())) es1 es2 es3 new_stream_app)
     = \<lparr>sm_connected = True, sm_order_handlers = [SyncOrders, GridOrders],
        sm_execution_handlers = [SyncExecutions], sm_wired = True, sm_loop_closed = False,
        sm_tasks = concat (map engine_tasks es2) @ concat (map all_tasks es3)\<rparr>"
proof -
  let ?c = "new_stream_app\<lparr>sm_connected := True\<rparr>"
  let ?w = "?c\<lparr>sm_wired := True, sm_order_handlers := [SyncOrders], sm_execution_handlers := [SyncExecutions]\<rparr>"
  let ?t = "?w\<lparr>sm_tasks := concat (map engine_tasks es2), sm_order_handlers := [SyncOrders, GridOrders]\<rparr>"
  have 1: "fold receive es1 ?c = ?c" by (rule fold_receive_unwired) (simp_all add: new_stream_app_def)
  have 2: "fold receive es2 ?w = ?w\<lparr>sm_tasks := concat (map engine_tasks es2)\<rparr>"
    by (subst fold_receive[where g = False]) (simp_all add: streaming_def new_stream_app_def)
  have 3: "fold receive es3 ?t = ?t\<lparr>sm_tasks := concat (map engine_tasks es2) @ concat (map all_tasks es3)\<rparr>"
    by (subst fold_receive[where g = True]) (simp_all add: streaming_def new_stream_app_def)
  show ?thesis
    using 1 2 3 by (simp add: start_streams_def start_listener_def wire_engine_def on_order_def on_execution_def
        andthen_def bnd_def from_sum_def modify_def ret_def new_stream_app_def)
qed

subsection \<open>The event loop runs the coroutines\<close>

text \<open>
  A coroutine sees the journal and the grid as they are when it runs; its exception stays in its
  future.  An item that is no dictionary raises at the first \<^verbatim>\<open>data.get\<close>.
\<close>

definition run_task ::
  "env \<Rightarrow> bool \<Rightarrow> grid_exchange \<Rightarrow> stream_task \<Rightarrow> world \<times> grid_world \<Rightarrow> world \<times> grid_world"
where
  "run_task e rc ge t wg = (case t of
     ProcessOrder (Some i) \<Rightarrow> (snd (process_order e rc (oi_remote i) (fst wg)), snd wg)
   | ProcessExecution (Some x) \<Rightarrow>
       (snd (process_execution (xi_link_id x) (xi_fee x) (xi_price x) (fst wg)), snd wg)
   | HandleGridFill ev \<Rightarrow> (fst wg, snd (handle_order_fill ge ev (snd wg)))
   | _ \<Rightarrow> wg)"

text \<open>
  The whole application: services and grid operations are called, the stream delivers, the loop
  takes the coroutine that waits longest.
\<close>

inductive application :: "world \<Rightarrow> grid_world \<Rightarrow> stream_app \<Rightarrow> bool" where
  start: "application fresh_world no_grids (snd (start_streams key secret pybit es1 es2 es3 new_stream_app))"
| service: "application w g a \<Longrightarrow> service w w' \<Longrightarrow> application w' g a"
| reset: "application w g a \<Longrightarrow> application (snd (post_reset e w)) g a"
| grid: "application w g a \<Longrightarrow> grid_step_rel g g' \<Longrightarrow> application w g' a"
| arrival: "application w g a \<Longrightarrow> application w g (receive ev a)"
| task: "application w g a \<Longrightarrow> sm_tasks a = t # ts
    \<Longrightarrow> application (fst (run_task e rc ge t (w, g))) (snd (run_task e rc ge t (w, g))) (a\<lparr>sm_tasks := ts\<rparr>)"
| closing: "application w g a \<Longrightarrow> application w g (snd (stop_listener (a\<lparr>sm_loop_closed := c\<rparr>)))"

lemma application_parts: "application w g a \<Longrightarrow> reachable w \<and> grid_reachable g"
proof (induction rule: application.induct)
  case (task w g a t ts e rc ge)
  then show ?case
    by (auto simp: run_task_def split: stream_task.splits option.splits
        intro: reachable.call service.order_event service.execution_event grid_reachable.step grid_step_rel.filled)
qed (auto intro: reachable.intros grid_reachable.intros)

lemma booked_slot:
  "grid_reachable g \<Longrightarrow> x \<in> set (g_saved g) \<Longrightarrow> s \<in> set (gx_slots x)
    \<Longrightarrow> 0 \<le> sr_realized_pnl s \<and> (sr_status s = ROW_WAITING_SELL \<or> sr_sell_order_id s = None)"
  by (drule grid_reachable_inv) (auto simp: grid_inv_def books_def slot_ok_def)


definition twice_filled :: stream_event where
  "twice_filled = OrderEvent (Items [Some \<lparr>oi_remote = \<lparr>ro_link_id = Some ''ghost'', ro_status = Filled,
     ro_order_id = Some ''7'', ro_avg_price = None, ro_cum_exec_qty = None, ro_leaves_zero = True\<rparr>,
     oi_side = ''Buy'', oi_symbol = ''BTCUSDT''\<rparr>, None])"


subsection \<open>The reconciliation worker\<close>

text \<open>The task of the worker: none, running, or ended by itself.\<close>

datatype worker = NoWorker | WorkerRunning | WorkerDone

definition start_reconciliation_worker :: "trading_mode \<Rightarrow> bool \<Rightarrow> worker \<Rightarrow> worker" where
  "start_reconciliation_worker mode rc k =
     (if mode = SHADOW \<or> \<not> rc then k else if k = WorkerRunning then k else WorkerRunning)"

definition stop_reconciliation_worker :: "worker \<Rightarrow> worker" where
  "stop_reconciliation_worker k = NoWorker"

text \<open>The rounds of the endless loop, one environment each; it logs what a round raises.\<close>

fun reconciliation_loop :: "bool \<Rightarrow> env list \<Rightarrow> unit op" where
  "reconciliation_loop rc [] = ret ()"
| "reconciliation_loop rc (e # es) =
     andthen (catch (bnd (reconcile_once e rc) (\<lambda>_. ret ())) (\<lambda>_. True) (\<lambda>_. ret ())) (reconciliation_loop rc es)"

lemma logged_round: "fst (catch m (\<lambda>_. True) (\<lambda>_. ret ()) w) = Inr ()"
  by (auto simp: catch_def ret_def split: prod.splits sum.splits)

lemma reconciliation_loop_goes_on: "fst (reconciliation_loop rc es w) = Inr ()"
proof (induction es arbitrary: w)
  case (Cons e es)
  then show ?case using logged_round[of "bnd (reconcile_once e rc) (\<lambda>_. ret ())" w]
    by (cases "catch (bnd (reconcile_once e rc) (\<lambda>_. ret ())) (\<lambda>_. True) (\<lambda>_. ret ()) w") (simp add: andthen_def bnd_def)
qed (simp add: ret_def)

subsection \<open>Shutting down\<close>

text \<open>
  What \<^verbatim>\<open>lifespan\<close> does when the application ends, in order.  A loop is told to stop, and
  its task is awaited after all were told.
\<close>

datatype shutdown_step = StopScalping | StopPolling | StopExitMonitor | AwaitScalping | AwaitPolling
  | AwaitExitMonitor | StopReconciliation | StopListener | CloseRedis

definition shutdown :: "app_plan \<Rightarrow> shutdown_step list" where
  "shutdown p =
     (if pl_scalping p \<noteq> None then [StopScalping] else []) @ (if pl_polling p \<noteq> None then [StopPolling] else [])
     @ [StopExitMonitor]
     @ (if pl_scalping p \<noteq> None then [AwaitScalping] else []) @ (if pl_polling p \<noteq> None then [AwaitPolling] else [])
     @ (if pl_spot_exit_monitor p then [AwaitExitMonitor] else []) @ [StopReconciliation, StopListener, CloseRedis]"

text \<open>No task is awaited that was not told to stop before, so no wait is for a loop that goes on.\<close>

lemma awaited_after_stopped:
  assumes "shutdown p = xs @ AwaitScalping # ys \<or> shutdown p = xs @ AwaitPolling # ys \<or> shutdown p = xs @ AwaitExitMonitor # ys"
  shows "(pl_scalping p \<noteq> None \<longrightarrow> StopScalping \<in> set xs) \<and> (pl_polling p \<noteq> None \<longrightarrow> StopPolling \<in> set xs)
    \<and> StopExitMonitor \<in> set xs \<and> StopListener \<notin> set xs"
  using assms by (auto simp: shutdown_def Cons_eq_append_conv append_eq_append_conv2 split: if_splits)

subsection \<open>The demo runner\<close>

text \<open>
  One round of the wait: the reading of \<^verbatim>\<open>monotonic()\<close>, the environment of the
  reconciliation, and what the rest of the application does until the next round.
\<close>

record wait_round =
  wr_reading :: pyfloat
  wr_env :: env
  wr_others :: "world \<Rightarrow> world"

text \<open>
  \<^verbatim>\<open>_wait_for_trade\<close>; \<open>None\<close> means that it still waits when the given rounds are over.
  \<open>sync\<close>: a synchronisation engine was given.  A fresh session reads what is committed.
\<close>

fun wait_for_trade ::
  "bool \<Rightarrow> bool \<Rightarrow> nat \<Rightarrow> trade_status list \<Rightarrow> pyfloat \<Rightarrow> wait_round list \<Rightarrow> world
    \<Rightarrow> (exc + trade) option \<times> world"
where
  "wait_for_trade sync rc i wanted deadline [] w = (None, w)"
| "wait_for_trade sync rc i wanted deadline (r # rs) w =
     (if \<not> wr_reading r < deadline then (Some (Inl TimeoutError), w)
      else case (if sync then reconcile_once (wr_env r) rc w else (Inr 0, w)) of
        (Inl x, w1) \<Rightarrow> (Some (Inl x), w1)
      | (Inr _, w1) \<Rightarrow> (case get_trade i (saved w1) of
          None \<Rightarrow> (Some (Inl NoResultFound), w1)
        | Some t \<Rightarrow> if t_status t \<in> set wanted then (Some (Inr t), w1)
            else wait_for_trade sync rc i wanted deadline rs (wr_others r w1)))"

definition entered_statuses :: "trade_status list" where
  "entered_statuses = [POSITION_OPEN, ORDER_PARTIALLY_FILLED]"

definition finished_statuses :: "trade_status list" where
  "finished_statuses = [PNL_RECORDED, POSITION_CLOSE_FAILED]"

text \<open>
  One wait with its first reading and its rounds; a demo has two, with a pause in between, during
  which the rest of the application goes on.
\<close>

record demo_wait =
  dw_start :: pyfloat
  dw_rounds :: "wait_round list"

definition wait_from :: "bool \<Rightarrow> bool \<Rightarrow> int \<Rightarrow> nat \<Rightarrow> trade_status list \<Rightarrow> demo_wait \<Rightarrow> world
    \<Rightarrow> (exc + trade) option \<times> world" where
  "wait_from sync rc ttl i wanted d =
     wait_for_trade sync rc i wanted (fadd (dw_start d) (of_pyint ttl)) (dw_rounds d)"

definition execute_and_close ::
  "env \<Rightarrow> (canonical_payload \<Rightarrow> string) \<Rightarrow> bool \<Rightarrow> bool \<Rightarrow> int \<Rightarrow> signal_request \<Rightarrow> demo_wait \<Rightarrow> (world \<Rightarrow> world)
    \<Rightarrow> env \<Rightarrow> demo_wait \<Rightarrow> world \<Rightarrow> (exc + trade) option \<times> world"
where
  "execute_and_close e dg sync rc ttl p d1 pause e' d2 w = (case execute_signal e dg p w of
     (Inl x, w1) \<Rightarrow> (Some (Inl x), w1)
   | (Inr r, w1) \<Rightarrow> (case wait_from sync rc ttl (er_trade_id r) entered_statuses d1 w1 of
       (Some (Inr t), w2) \<Rightarrow> (case close_trade e' (t_id t) MANUAL (pause w2) of
           (Inl x, w3) \<Rightarrow> (Some (Inl x), w3)
         | (Inr _, w3) \<Rightarrow> wait_from sync rc ttl (t_id t) finished_statuses d2 w3)
     | (x, w2) \<Rightarrow> (x, w2)))"

text \<open>The rounds of a wait reach its deadline.\<close>

definition reaches_deadline :: "int \<Rightarrow> demo_wait \<Rightarrow> bool" where
  "reaches_deadline ttl d \<longleftrightarrow> (\<exists>r \<in> set (dw_rounds d). fadd (dw_start d) (of_pyint ttl) \<le> wr_reading r)"

lemma wait_ends:
  "r \<in> set rs \<Longrightarrow> deadline \<le> wr_reading r \<Longrightarrow> fst (wait_for_trade sync rc i wanted deadline rs w) \<noteq> None"
  by (induction rs arbitrary: w) (auto split: prod.splits sum.splits option.splits)

lemma wait_finds:
  "wait_for_trade sync rc i wanted deadline rs w = (Some (Inr t), w')
    \<Longrightarrow> t_status t \<in> set wanted \<and> get_trade i (saved w') = Some t"
  by (induction rs arbitrary: w) (auto split: if_splits prod.splits sum.splits option.splits)

lemma wait_from_finds:
  assumes "wait_from sync rc ttl i wanted d w = (Some (Inr t), w')"
  shows "t_status t \<in> set wanted" "get_trade (t_id t) (saved w') = Some t"
proof -
  from wait_finds[OF assms[unfolded wait_from_def]]
  show "t_status t \<in> set wanted" and "get_trade (t_id t) (saved w') = Some t"
    by (auto simp: get_trade_def find_Some_iff)
qed

lemma wait_from_ends: "reaches_deadline ttl d \<Longrightarrow> wait_from sync rc ttl i wanted d w \<noteq> (None, w')"
  using wait_ends[of _ "dw_rounds d" "fadd (dw_start d) (of_pyint ttl)" sync rc i wanted w]
  unfolding reaches_deadline_def wait_from_def by (metis fst_conv)

lemma final_wait:
  assumes "reaches_deadline ttl d" "wait_from sync rc ttl i finished_statuses d w = (res, w')"
  shows "res \<noteq> None"
    and "res = Some (Inr t) \<Longrightarrow> t_status t = POSITION_CLOSE_FAILED \<or> t_status t = PNL_RECORDED"
    and "res = Some (Inr t) \<Longrightarrow> get_trade (t_id t) (saved w') = Some t"
  using wait_from_ends[OF assms(1), of sync rc i finished_statuses w]
    wait_from_finds[of sync rc ttl i finished_statuses d w t w'] assms(2)
  by (auto simp: finished_statuses_def)

text \<open>
  C39: a demo run comes to an end.  When the clock reaches both deadlines, it returns or raises; a
  trade it returns is in the journal, committed, with its result recorded or with its close failed,
  and the signal's execution succeeded.
\<close>

theorem demo_run_ends:
  assumes "reaches_deadline ttl d1" "reaches_deadline ttl d2"
  shows "case execute_and_close e dg sync rc ttl p d1 pause e' d2 w of (res, w') \<Rightarrow>
    res \<noteq> None
    \<and> (\<forall>t. res = Some (Inr t) \<longrightarrow> t_status t \<in> {PNL_RECORDED, POSITION_CLOSE_FAILED}
         \<and> get_trade (t_id t) (saved w') = Some t \<and> isl (fst (execute_signal e dg p w)) = False)"
proof (cases "execute_signal e dg p w")
  case (Pair r w1)
  show ?thesis
  proof (cases r)
    case (Inr er)
    obtain x w2 where 2: "wait_from sync rc ttl (er_trade_id er) entered_statuses d1 w1 = (x, w2)" by fastforce
    then have "x \<noteq> None" using wait_from_ends[OF assms(1)] by metis
    then show ?thesis using Pair Inr 2
      by (auto simp: execute_and_close_def split: sum.splits prod.splits dest: final_wait[OF assms(2)])
  qed (simp add: Pair execute_and_close_def)
qed

text \<open>
  In shadow mode the signal is recorded, a partial fill is applied between two rounds, the close records
  the result.
\<close>

definition entry_filled :: "world \<Rightarrow> world" where
  "entry_filled w = snd (process_order shadow_env False \<lparr>ro_link_id = t_order_link_id (hd (trades (saved w))),
     ro_status = PartiallyFilled, ro_order_id = None, ro_avg_price = Some 100, ro_cum_exec_qty = Some 1,
     ro_leaves_zero = False\<rparr> w)"

definition demo_wait_of :: "(world \<Rightarrow> world) \<Rightarrow> demo_wait" where
  "demo_wait_of f = \<lparr>dw_start = 0, dw_rounds = [\<lparr>wr_reading = 0, wr_env = shadow_env, wr_others = f\<rparr>,
     \<lparr>wr_reading = 1, wr_env = shadow_env, wr_others = id\<rparr>, \<lparr>wr_reading = 2, wr_env = shadow_env, wr_others = id\<rparr>]\<rparr>"

definition demo_outcome :: "(exc + trade) option \<times> world" where
  "demo_outcome = execute_and_close shadow_env cp_symbol True False 2 sample_request
     (demo_wait_of entry_filled) id shadow_env (demo_wait_of id) fresh_world"

theorem demo_run_ends_witness:
  "\<exists>t w'. demo_outcome = (Some (Inr t), w') \<and> t_status t = PNL_RECORDED \<and> get_trade (t_id t) (saved w') = Some t"
proof -
  have "reaches_deadline 2 (demo_wait_of f)" for f
    by (simp add: reaches_deadline_def demo_wait_of_def) code_simp
  from demo_run_ends[OF this[of entry_filled] this[of id], where e = shadow_env and dg = cp_symbol and p = sample_request and w = fresh_world
      and sync = True and rc = False and pause = id and e' = shadow_env]
  have g: "fst demo_outcome = Some (Inr t) \<Longrightarrow> get_trade (t_id t) (saved (snd demo_outcome)) = Some t" for t
    by (simp add: demo_outcome_def split_beta)
  have "case fst demo_outcome of Some (Inr t) \<Rightarrow> t_status t = PNL_RECORDED | _ \<Rightarrow> False" by code_simp
  then obtain t where t: "fst demo_outcome = Some (Inr t)" "t_status t = PNL_RECORDED"
    by (auto split: option.splits sum.splits)
  from t(1) have "demo_outcome = (Some (Inr t), snd demo_outcome)" by (simp add: prod_eq_iff)
  then show ?thesis using t(2) g[OF t(1)] by blast
qed

end
