(* ===== verification/AdminPanel.thy ===== *)
theory AdminPanel
  imports AdminStats AdminAuth GridLive
begin

text \<open>
  The rest of the panel: the dictionaries the routes of \<^verbatim>\<open>backend/admin/data_router.py\<close>
  turn rows into, as records; the log stream of \<^verbatim>\<open>admin/ws_logs.py\<close>, its queues and
  its session; and the routes of \<^verbatim>\<open>backend/api/grid_router.py\<close> over the grid's
  operations.
\<close>

subsection \<open>Rows as the panel shows them\<close>

fun trade_status_text :: "trade_status \<Rightarrow> string" where
  "trade_status_text SIGNAL_GENERATED = ''signal_generated''"
| "trade_status_text RISK_CALCULATED = ''risk_calculated''"
| "trade_status_text SAFETY_CHECKED = ''safety_checked''"
| "trade_status_text ORDER_SUBMITTED = ''order_submitted''"
| "trade_status_text ORDER_PENDING_UNKNOWN = ''order_pending_unknown''"
| "trade_status_text ORDER_CONFIRMED = ''order_confirmed''"
| "trade_status_text ORDER_REJECTED = ''order_rejected''"
| "trade_status_text ORDER_CANCELLED = ''order_cancelled''"
| "trade_status_text ORDER_PARTIALLY_FILLED = ''order_partially_filled''"
| "trade_status_text POSITION_OPEN = ''position_open''"
| "trade_status_text POSITION_CLOSE_PENDING = ''position_close_pending''"
| "trade_status_text POSITION_CLOSED = ''position_closed''"
| "trade_status_text POSITION_CLOSE_FAILED = ''position_close_failed''"
| "trade_status_text PNL_RECORDED = ''pnl_recorded''"

fun direction_text :: "signal_direction \<Rightarrow> string" where
  "direction_text LONG = ''long''"
| "direction_text SHORT = ''short''"

fun side_text :: "exchange_side \<Rightarrow> string" where
  "side_text BUY = ''Buy''"
| "side_text SELL = ''Sell''"

fun trading_mode_text :: "trading_mode \<Rightarrow> string" where
  "trading_mode_text SHADOW = ''shadow''"
| "trading_mode_text DEMO = ''demo''"
| "trading_mode_text REAL = ''real''"

text \<open>What prints an identifier and a time, and the columns the journal's rows leave out.\<close>

record panel_lib =
  vl_uuid :: "nat \<Rightarrow> string"
  vl_iso :: "timestamp \<Rightarrow> string"
  vl_trade_created :: "nat \<Rightarrow> timestamp option"
  vl_session_created :: "nat \<Rightarrow> timestamp option"
  vl_session_stopped :: "nat \<Rightarrow> timestamp option"

record trade_view =
  tv_id :: string
  tv_symbol :: string
  tv_signal_direction :: string
  tv_exchange_side :: string
  tv_market_type :: string
  tv_mode :: string
  tv_status :: string
  tv_entry_price :: "pyfloat option"
  tv_stop_price :: "pyfloat option"
  tv_target_price :: "pyfloat option"
  tv_qty :: "pyfloat option"
  tv_expected_rrr :: "pyfloat option"
  tv_risk_amount_usd :: "pyfloat option"
  tv_risk_pct :: "pyfloat option"
  tv_realized_pnl :: "pyfloat option"
  tv_opened_at :: "string option"
  tv_closed_at :: "string option"
  tv_created_at :: "string option"

definition trade_to_dict :: "panel_lib \<Rightarrow> trade \<Rightarrow> trade_view" where
  "trade_to_dict lib t =
     \<lparr>tv_id = vl_uuid lib (t_id t), tv_symbol = t_symbol t,
      tv_signal_direction = direction_text (t_signal_direction t),
      tv_exchange_side = side_text (t_exchange_side t), tv_market_type = market_type_text (t_market_type t),
      tv_mode = trading_mode_text (t_mode t), tv_status = trade_status_text (t_status t),
      tv_entry_price = map_option fl (t_entry_price t), tv_stop_price = map_option fl (t_stop_price t),
      tv_target_price = map_option fl (t_target_price t), tv_qty = map_option fl (t_qty t),
      tv_expected_rrr = map_option fl (t_expected_rrr t),
      tv_risk_amount_usd = map_option fl (t_risk_amount_usd t), tv_risk_pct = map_option fl (t_risk_pct t),
      tv_realized_pnl = map_option fl (t_realized_pnl t), tv_opened_at = map_option (vl_iso lib) (t_opened_at t),
      tv_closed_at = map_option (vl_iso lib) (t_closed_at t),
      tv_created_at = map_option (vl_iso lib) (vl_trade_created lib (t_id t))\<rparr>"

definition trades_open :: "panel_lib \<Rightarrow> db \<Rightarrow> trade_view list" where
  "trades_open lib d = map (trade_to_dict lib) (admin_open_trades d)"

record trades_page =
  pg_total :: nat
  pg_page :: nat
  pg_pages :: nat
  pg_items :: "trade_view list"

definition trades_list :: "panel_lib \<Rightarrow> trade_filter \<Rightarrow> nat \<Rightarrow> nat \<Rightarrow> db \<Rightarrow> trades_page" where
  "trades_list lib f page limit d = (case admin_trades f page limit d of
     (n, page, pages, ts) \<Rightarrow> \<lparr>pg_total = n, pg_page = page, pg_pages = pages, pg_items = map (trade_to_dict lib) ts\<rparr>)"

fun session_status_text :: "session_status \<Rightarrow> string" where
  "session_status_text GRID_ACTIVE = ''active''"
| "session_status_text GRID_PAUSED = ''paused''"
| "session_status_text GRID_STOPPED = ''stopped''"
| "session_status_text GRID_WAITING_REENTRY = ''waiting_reentry''"

fun slot_status_text :: "slot_row_status \<Rightarrow> string" where
  "slot_status_text ROW_WAITING_BUY = ''waiting_buy''"
| "slot_status_text ROW_WAITING_SELL = ''waiting_sell''"

text \<open>A slot, in the panel and in the answers of the grid's own routes.\<close>

record slot_view =
  lv_id :: nat
  lv_level :: nat
  lv_buy_price :: pyfloat
  lv_sell_price :: pyfloat
  lv_status :: string
  lv_completed_cycles :: int
  lv_realized_pnl :: pyfloat

definition slot_response :: "slot_row \<Rightarrow> slot_view" where
  "slot_response s = \<lparr>lv_id = sr_id s, lv_level = sr_level s, lv_buy_price = fl (sr_buy_price s),
     lv_sell_price = fl (sr_sell_price s), lv_status = slot_status_text (sr_status s),
     lv_completed_cycles = sr_completed_cycles s, lv_realized_pnl = fl (sr_realized_pnl s)\<rparr>"

record session_view =
  sv_id :: nat
  sv_symbol :: string
  sv_status :: string
  sv_config :: "(string \<times> raw_value) list"
  sv_created_at :: "string option"
  sv_stopped_at :: "string option"
  sv_slots :: "slot_view list option"

definition grid_session_to_dict :: "panel_lib \<Rightarrow> bool \<Rightarrow> grid_session \<Rightarrow> session_view" where
  "grid_session_to_dict lib include_slots g =
     \<lparr>sv_id = gx_id g, sv_symbol = gx_symbol g, sv_status = session_status_text (gx_status g),
      sv_config = gx_config_json g, sv_created_at = map_option (vl_iso lib) (vl_session_created lib (gx_id g)),
      sv_stopped_at = map_option (vl_iso lib) (vl_session_stopped lib (gx_id g)),
      sv_slots = (if include_slots then Some (map slot_response (gx_slots g)) else None)\<rparr>"

text \<open>\<^verbatim>\<open>ORDER BY id DESC\<close>\<close>

definition grid_sessions :: "panel_lib \<Rightarrow> grid_world \<Rightarrow> session_view list" where
  "grid_sessions lib w = map (grid_session_to_dict lib False) (rev (sort_key gx_id (g_saved w)))"

text \<open>\<open>None\<close> is the answer 404.\<close>

definition grid_session_detail :: "panel_lib \<Rightarrow> nat \<Rightarrow> grid_world \<Rightarrow> session_view option" where
  "grid_session_detail lib i w =
     map_option (grid_session_to_dict lib True) (find (\<lambda>g. gx_id g = i) (g_saved w))"

definition secret_fields :: "string list" where
  "secret_fields = [''bybit_api_key'', ''bybit_api_secret'', ''bybit_testnet_api_key'',
     ''bybit_testnet_api_secret'', ''admin_jwt_secret'', ''database_url'']"

text \<open>\<open>dump\<close> is \<^verbatim>\<open>settings.model_dump()\<close>.\<close>

definition config_view :: "(string \<times> json) list \<Rightarrow> (string \<times> json) list" where
  "config_view dump = fold (\<lambda>k m. filter (\<lambda>(k', _). k' \<noteq> k) m) secret_fields dump"

lemma config_view_hides_secrets:
  "map_of (config_view dump) k = (if k \<in> set secret_fields then None else map_of dump k)"
proof -
  have "map_of (fold (\<lambda>k m. filter (\<lambda>(k', _). k' \<noteq> k) m) ks dump) k
      = (if k \<in> set ks then None else map_of dump k)" for ks
  proof (induction ks arbitrary: dump)
    case (Cons a ks)
    have "map_of (filter (\<lambda>(k', _). k' \<noteq> a) m) k = (if k = a then None else map_of m k)" for m :: "(string \<times> json) list"
      by (induction m) auto
    from this[of dump] show ?case using Cons by (cases "k = a") simp_all
  qed simp
  then show ?thesis by (simp add: config_view_def)
qed

subsection \<open>The log stream: queues\<close>

text \<open>
  A subscriber's queue and whether its event loop still runs; \<open>lh_callbacks\<close> are the puts that were
  handed to an event loop and have not run.
\<close>

record subscriber =
  su_id :: nat
  su_queue :: "string list"
  su_loop_runs :: bool

record log_handler =
  lh_subscribers :: "subscriber list"
  lh_callbacks :: "(nat \<times> string) list"
  lh_next :: nat

definition subscribe :: "log_handler \<Rightarrow> nat \<times> log_handler" where
  "subscribe h = (lh_next h, h\<lparr>lh_subscribers := lh_subscribers h @ [\<lparr>su_id = lh_next h, su_queue = [], su_loop_runs = True\<rparr>],
     lh_next := Suc (lh_next h)\<rparr>)"

definition unsubscribe :: "nat \<Rightarrow> log_handler \<Rightarrow> log_handler" where
  "unsubscribe i h = h\<lparr>lh_subscribers := filter (\<lambda>s. su_id s \<noteq> i) (lh_subscribers h)\<rparr>"

text \<open>A closed loop refuses the callback, and the record is dropped for that subscriber.\<close>

definition emit :: "string \<Rightarrow> log_handler \<Rightarrow> log_handler" where
  "emit payload h = h\<lparr>lh_callbacks := lh_callbacks h
     @ map (\<lambda>s. (su_id s, payload)) (filter su_loop_runs (lh_subscribers h))\<rparr>"

text \<open>\<^verbatim>\<open>put_nowait\<close> on a queue of 256; a full queue raises in the event loop.\<close>

definition run_put :: "log_handler \<Rightarrow> (exc + unit) \<times> log_handler" where
  "run_put h = (case lh_callbacks h of
     [] \<Rightarrow> (Inr (), h)
   | (i, p) # cs \<Rightarrow>
       (let h' = h\<lparr>lh_callbacks := cs\<rparr> in
        if list_ex (\<lambda>s. su_id s = i \<and> 256 \<le> length (su_queue s)) (lh_subscribers h) then (Inl RuntimeError, h')
        else (Inr (), h'\<lparr>lh_subscribers := map (\<lambda>s. if su_id s = i then s\<lparr>su_queue := su_queue s @ [p]\<rparr> else s)
               (lh_subscribers h)\<rparr>)))"

text \<open>\<^verbatim>\<open>queue.get()\<close> by the session of a subscriber.\<close>

definition take_log :: "nat \<Rightarrow> log_handler \<Rightarrow> string option \<times> log_handler" where
  "take_log i h = ((case find (\<lambda>s. su_id s = i \<and> su_queue s \<noteq> []) (lh_subscribers h) of
       Some s \<Rightarrow> Some (hd (su_queue s)) | None \<Rightarrow> None),
     h\<lparr>lh_subscribers := map (\<lambda>s. if su_id s = i then s\<lparr>su_queue := tl (su_queue s)\<rparr> else s) (lh_subscribers h)\<rparr>)"

definition queues_bounded :: "log_handler \<Rightarrow> bool" where
  "queues_bounded h \<longleftrightarrow> (\<forall>s \<in> set (lh_subscribers h). length (su_queue s) \<le> 256)"

lemma queues_stay_bounded:
  assumes "queues_bounded h"
  shows "queues_bounded (snd (subscribe h))" "queues_bounded (unsubscribe i h)" "queues_bounded (emit p h)"
    "queues_bounded (snd (run_put h))" "queues_bounded (snd (take_log i h))"
  using assms by (auto simp: queues_bounded_def subscribe_def unsubscribe_def emit_def run_put_def take_log_def
      list_ex_iff Let_def split: list.splits)

subsection \<open>The log stream: a session\<close>

datatype ws_action = SendJson string | SendText string | CloseSocket

text \<open>
  One round of the loop: the log line that arrived before the next validation was due, or none; the
  readings of \<^verbatim>\<open>monotonic()\<close> after the wait and after a validation; the time and the world
  of a validation.
\<close>

record 's log_round =
  lr_entry :: "string option"
  lr_check :: pyfloat
  lr_after :: pyfloat
  lr_time :: timestamp
  lr_world :: "'s auth_world"

text \<open>The message is \<open>None\<close> when receiving it raises or takes more than five seconds.\<close>

definition receive_ws_token :: "json option \<Rightarrow> ws_action list + string" where
  "receive_ws_token msg = (case msg of
     None \<Rightarrow> Inl [CloseSocket]
   | Some v \<Rightarrow> (case (case v of JObj m \<Rightarrow> map_of m ''token'' | _ \<Rightarrow> None) of
       Some (JText t) \<Rightarrow> if jt_chars t = [] then Inl [SendJson ''token required'', CloseSocket] else Inr (jt_chars t)
     | _ \<Rightarrow> Inl [SendJson ''token required'', CloseSocket]))"

fun log_session :: "('s log_round \<Rightarrow> bool) \<Rightarrow> pyfloat \<Rightarrow> 's log_round list \<Rightarrow> ws_action list" where
  "log_session valid due [] = []"
| "log_session valid due (r # rs) = (case lr_entry r of
     None \<Rightarrow> if valid r then log_session valid (fadd (lr_after r) 30) rs else [CloseSocket]
   | Some x \<Rightarrow> if due \<le> lr_check r
       then if valid r then SendText x # log_session valid (fadd (lr_after r) 30) rs else [CloseSocket]
       else SendText x # log_session valid due rs)"

definition valid_round :: "auth_lib \<Rightarrow> 's redis_ops \<Rightarrow> string \<Rightarrow> 's log_round \<Rightarrow> bool" where
  "valid_round lib R token r = validate_ws_access lib R token (lr_time r) (lr_world r)"

definition ws_logs ::
  "auth_lib \<Rightarrow> 's redis_ops \<Rightarrow> json option \<Rightarrow> timestamp \<Rightarrow> 's auth_world \<Rightarrow> pyfloat \<Rightarrow> 's log_round list \<Rightarrow> ws_action list"
where
  "ws_logs lib R msg t w started rs = (case receive_ws_token msg of
     Inl as \<Rightarrow> as
   | Inr token \<Rightarrow> if \<not> validate_ws_access lib R token t w
       then [SendJson ''invalid or expired token'', CloseSocket]
       else SendJson ''connected'' # log_session (valid_round lib R token) (fadd started 30) rs)"

text \<open>When the next validation is due after some rounds; \<open>None\<close> when they closed the socket.\<close>

fun due_after :: "('s log_round \<Rightarrow> bool) \<Rightarrow> pyfloat \<Rightarrow> 's log_round list \<Rightarrow> pyfloat option" where
  "due_after valid due [] = Some due"
| "due_after valid due (r # rs) =
     (if lr_entry r = None \<or> due \<le> lr_check r
      then if valid r then due_after valid (fadd (lr_after r) 30) rs else None
      else due_after valid due rs)"

lemma due_after_validation:
  "due_after valid due rs = Some n \<Longrightarrow> n = due \<or> (\<exists>r \<in> set rs. valid r \<and> n = fadd (lr_after r) 30)"
  by (induction rs arbitrary: due) (fastforce split: if_splits)+

lemma log_session_append:
  "log_session valid due (rs @ qs) = log_session valid due rs
     @ (case due_after valid due rs of None \<Rightarrow> [] | Some n \<Rightarrow> log_session valid n qs)"
  by (induction rs arbitrary: due) (auto split: option.splits)

text \<open>Once no validation succeeds, lines go out only until the validation that is due.\<close>

lemma log_session_refused:
  assumes "\<forall>r \<in> set qs. \<not> valid r"
  shows "log_session valid n qs
    = (let ps = takeWhile (\<lambda>r. lr_entry r \<noteq> None \<and> lr_check r < n) qs
       in map (\<lambda>r. SendText (the (lr_entry r))) ps @ (if length ps < length qs then [CloseSocket] else []))"
  using assms by (induction qs) (auto simp: Let_def split: option.splits)

text \<open>
  C40: a log stream is cut off soon after its token stops being good.  Let the stream have run for
  some rounds, and let every later validation fail, because the token was revoked, has expired or
  its user was deactivated.  Then all that still goes out are lines that were ready before the
  validation that was due by then, thirty seconds after the last one that succeeded (or after the
  start); the next thing is the closing of the socket, and nothing follows it.
\<close>

theorem refused_stream_is_cut:
  assumes "receive_ws_token msg = Inr token" "validate_ws_access lib R token t w"
    and "\<forall>r \<in> set qs. \<not> validate_ws_access lib R token (lr_time r) (lr_world r)"
  shows "ws_logs lib R msg t w started (rs @ qs) = ws_logs lib R msg t w started rs
    \<or> (\<exists>due ps. (due = fadd started 30
            \<or> (\<exists>r \<in> set rs. validate_ws_access lib R token (lr_time r) (lr_world r) \<and> due = fadd (lr_after r) 30))
         \<and> ps = takeWhile (\<lambda>r. lr_entry r \<noteq> None \<and> lr_check r < due) qs
         \<and> ws_logs lib R msg t w started (rs @ qs) = ws_logs lib R msg t w started rs
             @ map (\<lambda>r. SendText (the (lr_entry r))) ps @ (if length ps < length qs then [CloseSocket] else []))"
proof (cases "due_after (valid_round lib R token) (fadd started 30) rs")
  case None
  then show ?thesis using assms(1,2) by (simp add: ws_logs_def log_session_append)
next
  case (Some due)
  have "log_session (valid_round lib R token) due qs
      = (let ps = takeWhile (\<lambda>r. lr_entry r \<noteq> None \<and> lr_check r < due) qs
         in map (\<lambda>r. SendText (the (lr_entry r))) ps @ (if length ps < length qs then [CloseSocket] else []))"
    using assms(3) by (intro log_session_refused) (simp add: valid_round_def)
  with Some due_after_validation[OF Some] assms(1,2) show ?thesis
    by (intro disjI2 exI[of _ due]) (auto simp: ws_logs_def log_session_append Let_def valid_round_def)
qed

text \<open>The user is deactivated after the second round; the line after the thirty seconds is not sent.\<close>

definition log_line :: "string \<Rightarrow> pyfloat \<Rightarrow> bool \<Rightarrow> key_store log_round" where
  "log_line x reading active = \<lparr>lr_entry = Some x, lr_check = reading, lr_after = reading, lr_time = 0,
     lr_world = (if active then sample_users else deactivate_user ''ama'' sample_users)\<rparr>"

definition token_message :: "json option" where
  "token_message = Some (JObj [(''token'', JText (plain_text ''access''))])"

definition good_rounds :: "key_store log_round list" where
  "good_rounds = [log_line ''a'' 1 True, log_line ''b'' 31 True]"

definition bad_rounds :: "key_store log_round list" where
  "bad_rounds = [log_line ''c'' 60 False, log_line ''d'' 62 False, log_line ''e'' 63 False]"

theorem refused_stream_is_cut_witness:
  "ws_logs sample_lib store_ops token_message 0 sample_users 0 (good_rounds @ bad_rounds)
     = [SendJson ''connected'', SendText ''a'', SendText ''b'', SendText ''c'', CloseSocket]
   \<and> (\<exists>due ps. ps = takeWhile (\<lambda>r. lr_entry r \<noteq> None \<and> lr_check r < due) bad_rounds
        \<and> ws_logs sample_lib store_ops token_message 0 sample_users 0 (good_rounds @ bad_rounds)
          = ws_logs sample_lib store_ops token_message 0 sample_users 0 good_rounds
            @ map (\<lambda>r. SendText (the (lr_entry r))) ps
            @ (if length ps < length bad_rounds then [CloseSocket] else []))"
proof -
  have e: "ws_logs sample_lib store_ops token_message 0 sample_users 0 (good_rounds @ bad_rounds)
      = [SendJson ''connected'', SendText ''a'', SendText ''b'', SendText ''c'', CloseSocket]"
    "ws_logs sample_lib store_ops token_message 0 sample_users 0 good_rounds
      = [SendJson ''connected'', SendText ''a'', SendText ''b'']" by code_simp+
  have "receive_ws_token token_message = Inr ''access''"
    "validate_ws_access sample_lib store_ops ''access'' 0 sample_users"
    "\<forall>r \<in> set bad_rounds. \<not> validate_ws_access sample_lib store_ops ''access'' (lr_time r) (lr_world r)"
    by code_simp+
  note cut = refused_stream_is_cut[OF this, of 0 good_rounds]
  have "ws_logs sample_lib store_ops token_message 0 sample_users 0 (good_rounds @ bad_rounds)
      \<noteq> ws_logs sample_lib store_ops token_message 0 sample_users 0 good_rounds" unfolding e by simp
  with cut show ?thesis using e(1) by blast
qed

subsection \<open>The routes of the grid\<close>

text \<open>
  The status of a route's answer: \<open>start\<close> (in \<open>GridLive\<close>) knows both errors of the runner,
  \<open>stop\<close> none of them.
\<close>

definition stop_grid_status :: "exc + unit \<Rightarrow> nat" where
  "stop_grid_status r = (case r of Inr _ \<Rightarrow> 200 | Inl _ \<Rightarrow> 500)"

definition set_session_status_code :: "exc + unit \<Rightarrow> nat" where
  "set_session_status_code r = (case r of
     Inr _ \<Rightarrow> 200 | Inl x \<Rightarrow> if x = GridSessionNotFoundError then 404 else 500)"

definition stop_grid_session :: "grid_exchange \<Rightarrow> nat \<Rightarrow> grid_world \<Rightarrow> nat \<times> grid_world" where
  "stop_grid_session e i w = (case stop_grid e i w of (r, w') \<Rightarrow> (stop_grid_status r, w'))"

definition pause_grid_session :: "nat \<Rightarrow> grid_world \<Rightarrow> nat \<times> grid_world" where
  "pause_grid_session i w = (case set_session_status i GRID_PAUSED w of (r, w') \<Rightarrow> (set_session_status_code r, w'))"

record suggest_request =
  sq_symbol :: string
  sq_capital_usdt :: pyfloat
  sq_lookback_days :: int

definition valid_suggest :: "suggest_request \<Rightarrow> bool" where
  "valid_suggest q \<longleftrightarrow> 0 < sq_capital_usdt q \<and> 1 \<le> sq_lookback_days q"

record suggest_response =
  sz_p_min :: pyfloat
  sz_p_max :: pyfloat
  sz_n_levels :: int
  sz_step_pct :: pyfloat
  sz_annual_yield_pct :: pyfloat

text \<open>The answer or the status; the step of the answer is computed after the \<^verbatim>\<open>try\<close>.\<close>

definition suggest_grid_endpoint :: "grid_exchange \<Rightarrow> suggest_request \<Rightarrow> nat + suggest_response" where
  "suggest_grid_endpoint e q =
     (if \<not> valid_suggest q then Inl 422
      else case suggest_for_symbol e (py_upper (py_strip (sq_symbol q))) (sq_capital_usdt q) (sq_lookback_days q) 10 of
        Inl x \<Rightarrow> Inl (if x = ValueError then 400 else 500)
      | Inr c \<Rightarrow> (case step_pct c of
          Inl _ \<Rightarrow> Inl 500
        | Inr sp \<Rightarrow> Inr \<lparr>sz_p_min = gc_p_min c, sz_p_max = gc_p_max c, sz_n_levels = gc_n_levels c,
            sz_step_pct = sp, sz_annual_yield_pct = 0\<rparr>))"

lemma missing_session:
  assumes "\<forall>g \<in> set (g_saved w). gx_id g \<noteq> i" "g_cur w = g_saved w"
  shows "stop_grid_session e i w = (500, w)" "pause_grid_session i w = (404, w)"
proof -
  have "find (\<lambda>g. gx_id g = i) (g_saved w) = None" using assms(1) by (simp add: find_None_iff)
  moreover have "w\<lparr>g_cur := g_saved w\<rparr> = w" using assms(2) by simp
  ultimately show "stop_grid_session e i w = (500, w)" "pause_grid_session i w = (404, w)"
    by (simp_all add: stop_grid_session_def pause_grid_session_def stop_grid_status_def
        set_session_status_code_def stop_grid_def set_session_status_def g_in_session_def assms(2))
qed

end
