(* ===== verification/GridScripts.thy ===== *)
theory GridScripts
  imports ManifestGate
begin

text \<open>
  The grid's own validation scripts: \<^verbatim>\<open>scripts/validate_grid_backtest.py\<close> and
  \<^verbatim>\<open>scripts/grid_parameter_sweep.py\<close>, which backtests a table of configurations, walks the
  best of them forward over windows of thirty days and gates the result.  Fixtures are given as
  candles; what the scripts print is left out, and so is the writing of the results file.
\<close>

subsection \<open>Named configurations\<close>

text \<open>A configuration around the close of the first candle.\<close>

definition range_config ::
  "string \<Rightarrow> raw_candle list \<Rightarrow> pyfloat \<Rightarrow> int \<Rightarrow> pyfloat \<Rightarrow> exc + grid_config"
where
  "range_config symbol cs width n capital = (case cs of
     [] \<Rightarrow> Inl IndexError
   | k # _ \<Rightarrow> ebind (candle_close k) (\<lambda>start.
       new_grid_config symbol (fmul start (fsub 1 width)) (fmul start (fadd 1 width)) n capital default_maker_fee 0))"

definition run_named_config :: "string \<Rightarrow> raw_candle list \<Rightarrow> pyfloat \<Rightarrow> int \<Rightarrow> exc + grid_result" where
  "run_named_config symbol cs width n = ebind (range_config symbol cs width n 20) (\<lambda>c. run_config c cs)"

definition train_candles :: nat where
  "train_candles = 30 * 24 * 4"

definition run_atr_suggested_config :: "string \<Rightarrow> raw_candle list \<Rightarrow> exc + grid_result" where
  "run_atr_suggested_config symbol cs =
     ebind (suggest_grid (take train_candles cs) 20 (fl (5 / 1000)) 10 20 2 symbol) (\<lambda>c.
     run_config c (drop train_candles cs))"

definition xrp_gate :: "grid_result \<Rightarrow> bool" where
  "xrp_gate r \<longleftrightarrow> 0 < gr_net_pnl r \<and> \<not> xless (gr_fee_coverage_ratio r) 2"

definition positive_results :: "grid_result list \<Rightarrow> nat" where
  "positive_results rs = length (filter (\<lambda>r. 0 < gr_net_pnl r) rs)"

text \<open>The exit status, from the candles of the three fixtures.\<close>

definition validate_grid_main :: "raw_candle list \<Rightarrow> raw_candle list \<Rightarrow> raw_candle list \<Rightarrow> exc + nat" where
  "validate_grid_main xrp btc eth =
     ebind (emap (\<lambda>(width, n). run_named_config ''XRPUSDT'' xrp width n)
              [(fl (10 / 100), 10), (fl (20 / 100), 16), (fl (30 / 100), 20)]) (\<lambda>xrp_results.
     ebind (run_named_config ''BTCUSDT'' btc (fl (20 / 100)) 16) (\<lambda>_.
     ebind (run_named_config ''ETHUSDT'' eth (fl (20 / 100)) 16) (\<lambda>_.
     ebind (emap (\<lambda>(symbol, cs). run_atr_suggested_config symbol cs)
              [(''XRPUSDT'', xrp), (''BTCUSDT'', btc), (''ETHUSDT'', eth)]) (\<lambda>atr_results.
     Inr (if list_ex xrp_gate xrp_results \<and> list_all (\<lambda>r. fl (5 / 1000) \<le> gr_config_step_pct r) atr_results
             \<and> 2 \<le> positive_results atr_results then 0 else 1)))))"

subsection \<open>The sweep\<close>

record sweep_result =
  sw_symbol :: string
  sw_range_pct :: pyfloat
  sw_n_levels :: int
  sw_p_min_pct :: pyfloat
  sw_p_max_pct :: pyfloat
  sw_capital_usdt :: pyfloat
  sw_metrics :: grid_result

definition sweep_levels :: "int list" where
  "sweep_levels = [8, 12, 16, 20]"

definition sweep_ranges :: "pyfloat list" where
  "sweep_ranges = [fl (8 / 100), fl (12 / 100), fl (16 / 100), fl (20 / 100), fl (25 / 100)]"

definition sweep_one :: "string \<Rightarrow> raw_candle list \<Rightarrow> int \<Rightarrow> pyfloat \<Rightarrow> exc + sweep_result" where
  "sweep_one symbol cs n width =
     ebind (range_config symbol cs width n 20) (\<lambda>c.
     ebind (run_config c cs) (\<lambda>m.
     Inr \<lparr>sw_symbol = symbol, sw_range_pct = width, sw_n_levels = n, sw_p_min_pct = - width,
          sw_p_max_pct = width, sw_capital_usdt = 20, sw_metrics = m\<rparr>))"

definition run_sweep :: "(string \<times> raw_candle list) list \<Rightarrow> exc + sweep_result list" where
  "run_sweep by_symbol = ebind (emap (\<lambda>(symbol, cs).
       emap (\<lambda>(n, width). sweep_one symbol cs n width) (List.product sweep_levels sweep_ranges)) by_symbol) (\<lambda>rss.
     Inr (concat rss))"

text \<open>
  A stored result.  The infinity that \<^verbatim>\<open>json\<close> writes for a ratio without fees is no number of
  these JSON values; \<open>tag\<close> is the reason a text stands for.
\<close>

definition stored_text :: "(string \<times> json) list \<Rightarrow> string \<Rightarrow> exc + string" where
  "stored_text m k = (case json_get m k JNull of JText t \<Rightarrow> Inr (jt_chars t) | _ \<Rightarrow> Inl TypeError)"

definition stored_float :: "(string \<times> json) list \<Rightarrow> string \<Rightarrow> exc + pyfloat" where
  "stored_float m k = strict_float (json_get m k JNull)"

definition stored_int :: "(string \<times> json) list \<Rightarrow> string \<Rightarrow> exc + int" where
  "stored_int m k = strict_int (json_get m k JNull)"

definition stored_dict :: "(string \<times> json) list \<Rightarrow> string \<Rightarrow> exc + (string \<times> json) list" where
  "stored_dict m k = (case json_get m k JNull of JObj d \<Rightarrow> Inr d | _ \<Rightarrow> Inl TypeError)"

definition parse_metrics :: "(json \<Rightarrow> fail_reason) \<Rightarrow> (string \<times> json) list \<Rightarrow> exc + grid_result" where
  "parse_metrics tag m = (case json_get m ''fail_reasons'' (JList []) of
     JList reasons \<Rightarrow>
       ebind (stored_text m ''symbol'') (\<lambda>symbol.
       ebind (stored_int m ''backtest_days'') (\<lambda>days.
       ebind (stored_float m ''config_step_pct'') (\<lambda>step.
       ebind (stored_int m ''completed_cycles'') (\<lambda>cycles.
       ebind (stored_float m ''gross_profit_usdt'') (\<lambda>gross.
       ebind (stored_float m ''total_fees_usdt'') (\<lambda>fees.
       ebind (stored_float m ''net_pnl_usdt'') (\<lambda>net.
       ebind (stored_float m ''fee_coverage_ratio'') (\<lambda>cover.
       ebind (stored_float m ''annualized_yield_pct'') (\<lambda>yearly.
       ebind (stored_float m ''max_unrealized_drawdown_pct'') (\<lambda>dd.
       ebind (stored_float m ''capital_utilization_pct'') (\<lambda>util.
       ebind (stored_float m ''avg_cycle_profit_pct'') (\<lambda>avg.
       ebind (stored_float m ''days_to_breakeven'') (\<lambda>be.
       Inr \<lparr>gr_symbol = symbol, gr_backtest_days = days, gr_config_step_pct = step, gr_completed_cycles = cycles,
         gr_gross_profit = gross, gr_total_fees = fees, gr_net_pnl = net, gr_fee_coverage_ratio = Fin cover,
         gr_annualized_yield_pct = yearly, gr_max_unrealized_drawdown_pct = dd, gr_capital_utilization_pct = util,
         gr_avg_cycle_profit_pct = avg, gr_days_to_breakeven = Fin be,
         gr_pass_regression = json_bool (json_get m ''pass_regression'' (JBool False)),
         gr_fail_reasons = map tag reasons\<rparr>)))))))))))))
   | _ \<Rightarrow> Inl TypeError)"

definition parse_sweep_result :: "(json \<Rightarrow> fail_reason) \<Rightarrow> json \<Rightarrow> exc + sweep_result" where
  "parse_sweep_result tag v = (case v of
     JObj m \<Rightarrow>
       ebind (ebind (stored_dict m ''metrics'') (parse_metrics tag)) (\<lambda>metrics.
       ebind (stored_text m ''symbol'') (\<lambda>symbol.
       ebind (stored_float m ''range_pct'') (\<lambda>width.
       ebind (stored_int m ''n_levels'') (\<lambda>n.
       ebind (stored_float m ''p_min_pct_from_start'') (\<lambda>lo.
       ebind (stored_float m ''p_max_pct_from_start'') (\<lambda>hi.
       ebind (stored_float m ''capital_usdt'') (\<lambda>capital.
       Inr \<lparr>sw_symbol = symbol, sw_range_pct = width, sw_n_levels = n, sw_p_min_pct = lo, sw_p_max_pct = hi,
            sw_capital_usdt = capital, sw_metrics = metrics\<rparr>)))))))
   | _ \<Rightarrow> Inl TypeError)"

definition load_results :: "(json \<Rightarrow> fail_reason) \<Rightarrow> json \<Rightarrow> exc + sweep_result list" where
  "load_results tag v = (case v of JList xs \<Rightarrow> emap (parse_sweep_result tag) xs | _ \<Rightarrow> Inl TypeError)"

subsection \<open>The walk forward\<close>

text \<open>\<^verbatim>\<open>sorted(..., key=yield, reverse=True)\<close>, which keeps the order of equal yields.\<close>

definition by_yield :: "sweep_result list \<Rightarrow> sweep_result list" where
  "by_yield rs = sort_key (\<lambda>r. - gr_annualized_yield_pct (sw_metrics r)) rs"

definition top_positive_for_symbol :: "sweep_result list \<Rightarrow> string \<Rightarrow> sweep_result list" where
  "top_positive_for_symbol rs symbol = by_yield (filter (\<lambda>r. sw_symbol r = symbol \<and> 0 < gr_net_pnl (sw_metrics r)) rs)"

record walk_forward_result =
  wf_symbol :: string
  wf_range_pct :: pyfloat
  wf_n_levels :: int
  wf_profitable_window_rate :: pyfloat
  wf_windows :: nat

definition walk_window :: nat where
  "walk_window = 30 * (24 * 4)"

definition walk_windows :: nat where
  "walk_windows = 12"

definition window_earns :: "raw_candle list \<Rightarrow> sweep_result \<Rightarrow> nat \<Rightarrow> exc + bool" where
  "window_earns cs r i =
     (let ws = window_candles walk_window cs i in
      if length ws \<noteq> walk_window then Inl ValueError
      else ebind (range_config (sw_symbol r) ws (sw_range_pct r) (sw_n_levels r) (sw_capital_usdt r)) (\<lambda>c.
        ebind (run_config c ws) (\<lambda>m. Inr (0 < gr_net_pnl m))))"

definition walk_forward :: "raw_candle list \<Rightarrow> sweep_result \<Rightarrow> exc + walk_forward_result" where
  "walk_forward cs r =
     ebind (emap (window_earns cs r) [0..<walk_windows]) (\<lambda>bs.
     Inr \<lparr>wf_symbol = sw_symbol r, wf_range_pct = sw_range_pct r, wf_n_levels = sw_n_levels r,
          wf_profitable_window_rate = true_share bs (int walk_windows), wf_windows = walk_windows\<rparr>)"

text \<open>\<^verbatim>\<open>max(..., key=rate)\<close>: the first of the highest.\<close>

definition best_walk :: "walk_forward_result list \<Rightarrow> walk_forward_result" where
  "best_walk ws = foldl (\<lambda>b x. if wf_profitable_window_rate b < wf_profitable_window_rate x then x else b) (hd ws) (tl ws)"

definition gated_symbols :: "string list" where
  "gated_symbols = [''XRPUSDT'', ''SOLUSDT'', ''ETHUSDT'']"

definition walk_top_config :: "(string \<times> raw_candle list) list \<Rightarrow> sweep_result list \<Rightarrow> string \<Rightarrow> exc + walk_forward_result option" where
  "walk_top_config by_symbol rs symbol =
     ebind (or_raise (map_of by_symbol symbol) KeyError) (\<lambda>cs.
     let top = take 3 (top_positive_for_symbol rs symbol) in
     if top = [] then Inr None else ebind (emap (walk_forward cs) top) (\<lambda>ws. Inr (Some (best_walk ws))))"

definition run_walk_forward ::
  "(string \<times> raw_candle list) list \<Rightarrow> sweep_result list \<Rightarrow> exc + (string \<times> walk_forward_result option) list"
where
  "run_walk_forward by_symbol rs =
     emap (\<lambda>symbol. ebind (walk_top_config by_symbol rs symbol) (\<lambda>b. Inr (symbol, b))) gated_symbols"

definition same_config :: "walk_forward_result \<Rightarrow> sweep_result \<Rightarrow> bool" where
  "same_config w r \<longleftrightarrow> sw_symbol r = wf_symbol w \<and> sw_range_pct r = wf_range_pct w \<and> sw_n_levels r = wf_n_levels w"

definition matching_sweep_result :: "sweep_result list \<Rightarrow> walk_forward_result \<Rightarrow> exc + sweep_result" where
  "matching_sweep_result rs w = or_raise (find (same_config w) rs) ValueError"

definition symbol_passes :: "walk_forward_result \<Rightarrow> sweep_result \<Rightarrow> bool" where
  "symbol_passes w r \<longleftrightarrow> 1 / 2 \<le> wf_profitable_window_rate w \<and> 10 \<le> gr_annualized_yield_pct (sw_metrics r)
     \<and> gr_max_unrealized_drawdown_pct (sw_metrics r) \<le> 55 \<and> \<not> xless (gr_fee_coverage_ratio (sw_metrics r)) 2"

definition gate_symbol :: "sweep_result list \<Rightarrow> string \<times> walk_forward_result option \<Rightarrow> exc + bool" where
  "gate_symbol rs sb = (case snd sb of
     None \<Rightarrow> Inr False
   | Some w \<Rightarrow> ebind (matching_sweep_result rs w) (\<lambda>r. Inr (symbol_passes w r)))"

definition walk_forward_gate :: "sweep_result list \<Rightarrow> (string \<times> walk_forward_result option) list \<Rightarrow> exc + bool" where
  "walk_forward_gate rs best = ebind (emap (gate_symbol rs) best) (\<lambda>bs. Inr (list_all id bs))"

text \<open>The exit status; \<open>stored\<close> is what the results file holds, when there is one.\<close>

definition sweep_main ::
  "(json \<Rightarrow> fail_reason) \<Rightarrow> json option \<Rightarrow> (string \<times> raw_candle list) list \<Rightarrow> exc + nat"
where
  "sweep_main tag stored by_symbol =
     ebind (case stored of Some v \<Rightarrow> load_results tag v | None \<Rightarrow> run_sweep by_symbol) (\<lambda>rs.
     ebind (run_walk_forward by_symbol rs) (\<lambda>best.
     ebind (walk_forward_gate rs best) (\<lambda>ok. Inr (if ok then 0 else 1))))"

subsection \<open>What the gate says\<close>

lemma best_walk_in: "ws \<noteq> [] \<Longrightarrow> best_walk ws \<in> set ws"
proof -
  have "foldl (\<lambda>b x. if wf_profitable_window_rate b < wf_profitable_window_rate x then x else b) b xs \<in> insert b (set xs)"
    for b :: walk_forward_result and xs
    by (induction xs arbitrary: b) auto
  then show "ws \<noteq> [] \<Longrightarrow> best_walk ws \<in> set ws" by (cases ws) (force simp: best_walk_def)+
qed

lemma emap_member: "emap f xs = Inr ys \<Longrightarrow> y \<in> set ys \<Longrightarrow> \<exists>x \<in> set xs. f x = Inr y"
  by (induction xs arbitrary: ys) (auto simp: ebind_Inr_iff)

lemma emap_image: "emap f xs = Inr ys \<Longrightarrow> x \<in> set xs \<Longrightarrow> \<exists>y \<in> set ys. f x = Inr y"
  by (induction xs arbitrary: ys) (auto simp: ebind_Inr_iff)

text \<open>A share of one half of twelve windows is six of them.\<close>

lemma half_of_windows:
  assumes "1 / 2 \<le> true_share bs (int walk_windows)"
  shows "6 \<le> length (filter id bs)"
proof (rule ccontr)
  assume "\<not> 6 \<le> length (filter id bs)"
  then have "(of_nat (length (filter id bs)) :: rat) / 12 \<le> 5 / 12" by simp
  then have "true_share bs (int walk_windows) \<le> fl (5 / 12)"
    unfolding true_share_def walk_windows_def by (simp add: flo.mono)
  moreover have "fl (5 / 12) < 1 / 2" by code_simp
  ultimately show False using assms by simp
qed

text \<open>The windows that earned, of a configuration.\<close>

definition earning_windows :: "raw_candle list \<Rightarrow> sweep_result \<Rightarrow> nat set" where
  "earning_windows cs r = {i. i < walk_windows \<and> window_earns cs r i = Inr True}"

lemma earning_count:
  "emap (window_earns cs r) [0..<n] = Inr bs \<Longrightarrow> length (filter id bs) = card {i. i < n \<and> window_earns cs r i = Inr True}"
proof (induction n arbitrary: bs)
  case (Suc n)
  obtain b bs' where bs: "emap (window_earns cs r) [0..<n] = Inr bs'" "window_earns cs r n = Inr b" "bs = bs' @ [b]"
    using Suc.prems by (auto simp: emap_append ebind_Inr_iff)
  have "{i. i < Suc n \<and> window_earns cs r i = Inr True}
      = {i. i < n \<and> window_earns cs r i = Inr True} \<union> (if b then {n} else {})"
    using bs(2) by (auto simp: less_Suc_eq)
  then show ?case using Suc.IH[OF bs(1)] bs(3) by simp
qed simp

text \<open>
  An exit status of zero means: for each gated symbol the results hold a configuration with a
  positive result that earned in at least six of the twelve windows when it was walked forward, and
  the results of that configuration over the whole year reach the yield, drawdown and coverage.
\<close>

theorem sweep_success_means_earning:
  assumes "walk_forward_gate rs best = Inr True" "run_walk_forward by_symbol rs = Inr best"
    and "symbol \<in> set gated_symbols"
  shows "\<exists>cs r full. map_of by_symbol symbol = Some cs \<and> r \<in> set rs \<and> full \<in> set rs
    \<and> sw_symbol r = symbol \<and> 0 < gr_net_pnl (sw_metrics r) \<and> 6 \<le> card (earning_windows cs r)
    \<and> sw_symbol full = symbol \<and> sw_range_pct full = sw_range_pct r \<and> sw_n_levels full = sw_n_levels r
    \<and> 10 \<le> gr_annualized_yield_pct (sw_metrics full) \<and> gr_max_unrealized_drawdown_pct (sw_metrics full) \<le> 55
    \<and> \<not> xless (gr_fee_coverage_ratio (sw_metrics full)) 2"
proof -
  obtain b where b: "(symbol, b) \<in> set best" "walk_top_config by_symbol rs symbol = Inr b"
    using emap_image[OF assms(2)[unfolded run_walk_forward_def] assms(3)] by (auto simp: ebind_Inr_iff)
  obtain bs where bs: "emap (gate_symbol rs) best = Inr bs" "list_all id bs"
    using assms(1) by (auto simp: walk_forward_gate_def ebind_Inr_iff)
  obtain g where "g \<in> set bs" "gate_symbol rs (symbol, b) = Inr g" using emap_image[OF bs(1) b(1)] by blast
  then have "gate_symbol rs (symbol, b) = Inr True" using bs(2) by (auto simp: list_all_iff)
  then obtain w full where w: "b = Some w" "find (same_config w) rs = Some full" "symbol_passes w full"
    by (auto simp: gate_symbol_def matching_sweep_result_def or_raise_def ebind_Inr_iff split: option.splits)
  obtain cs ws where cs: "map_of by_symbol symbol = Some cs" "top_positive_for_symbol rs symbol \<noteq> []" "w = best_walk ws"
      "emap (walk_forward cs) (take 3 (top_positive_for_symbol rs symbol)) = Inr ws"
    using b(2) w(1) by (auto simp: walk_top_config_def or_raise_def Let_def ebind_Inr_iff
        split: option.splits if_splits)
  have "ws \<noteq> []" using emap_length[OF cs(4)] cs(2) by (cases "top_positive_for_symbol rs symbol") auto
  then obtain r where r: "r \<in> set (take 3 (top_positive_for_symbol rs symbol))" "walk_forward cs r = Inr w"
    using emap_member[OF cs(4)] best_walk_in[of ws] cs(3) by blast
  then have r': "r \<in> set rs" "sw_symbol r = symbol" "0 < gr_net_pnl (sw_metrics r)"
    by (auto simp: top_positive_for_symbol_def by_yield_def dest!: in_set_takeD)
  obtain es where es: "emap (window_earns cs r) [0..<walk_windows] = Inr es"
      "w = \<lparr>wf_symbol = sw_symbol r, wf_range_pct = sw_range_pct r, wf_n_levels = sw_n_levels r,
          wf_profitable_window_rate = true_share es (int walk_windows), wf_windows = walk_windows\<rparr>"
    using r(2) by (auto simp: walk_forward_def ebind_Inr_iff)
  have "6 \<le> card (earning_windows cs r)"
    using half_of_windows[of es] earning_count[OF es(1)] w(3) es(2)
    by (simp add: symbol_passes_def earning_windows_def)
  moreover have "full \<in> set rs" "same_config w full" using w(2) by (auto simp: find_Some_iff)
  ultimately show ?thesis using cs(1) r' w(3) es(2)
    by (intro exI[of _ cs] exI[of _ r] exI[of _ full]) (simp add: symbol_passes_def same_config_def)
qed

end
