(* ===== verification/DeveloperTools.thy ===== *)
theory DeveloperTools
  imports Results "HOL-Library.Sublist" "HOL-Library.Char_ord" "HOL-Library.List_Lexorder" "HOL-Library.Product_Lexorder"
begin

text \<open>
  \<^verbatim>\<open>scripts/import_rules.py\<close>, which checks the imports of the backend against its layers,
  and \<^verbatim>\<open>scripts/generate_admin_jwt_secret.py\<close>, which writes a secret into an environment
  file.  Parsing Python is a parameter: a file is given by its path and its import statements.
\<close>

subsection \<open>Names of modules\<close>

definition dot :: char where
  "dot = CHR ''.''"

fun split_dots :: "string \<Rightarrow> string list" where
  "split_dots [] = [[]]"
| "split_dots (c # s) = (case split_dots s of
     [] \<Rightarrow> []
   | p # ps \<Rightarrow> if c = dot then [] # p # ps else (c # p) # ps)"

fun join_dots :: "string list \<Rightarrow> string" where
  "join_dots [] = []"
| "join_dots [p] = p"
| "join_dots (p # ps) = p @ dot # join_dots ps"

lemma split_dots_not_empty: "split_dots s \<noteq> []"
  by (induction s) (auto split: list.splits)

lemma split_dots_append: "dot \<notin> set p \<Longrightarrow> split_dots (p @ dot # s) = p # split_dots s"
  by (induction p) (auto split: list.splits simp: split_dots_not_empty)

lemma split_dots_single: "dot \<notin> set p \<Longrightarrow> split_dots p = [p]"
  by (induction p) auto

lemma split_join: "ps \<noteq> [] \<Longrightarrow> \<forall>p \<in> set ps. dot \<notin> set p \<Longrightarrow> split_dots (join_dots ps) = ps"
  by (induction ps rule: join_dots.induct) (auto simp: split_dots_append split_dots_single)

text \<open>The path of a file below the root of the backend, the last part without its suffix.\<close>

record source_file =
  sf_parts :: "string list"
  sf_path :: string

definition module_name_for_file :: "source_file \<Rightarrow> string" where
  "module_name_for_file f = join_dots (''backend'' #
     (if last (sf_parts f) = ''__init__'' then butlast (sf_parts f) else sf_parts f))"

definition module_group :: "string \<Rightarrow> exc + string" where
  "module_group name = (case split_dots name of
     [p] \<Rightarrow> if p = ''backend'' then Inr ''backend'' else Inl ValueError
   | _ # g # _ \<Rightarrow> Inr g
   | [] \<Rightarrow> Inl ValueError)"

definition shared_modules :: "string list" where
  "shared_modules = [''config'', ''database'', ''task_utils'']"

definition normalize_import_group :: "string \<Rightarrow> string option" where
  "normalize_import_group m =
     (if prefix ''backend.'' m then (case split_dots m of
        _ # g # _ \<Rightarrow> if g \<in> set shared_modules then None else Some g | _ \<Rightarrow> None)
      else if m = ''fastapi'' \<or> prefix ''fastapi.'' m then Some ''fastapi'' else None)"

subsection \<open>The rules\<close>

definition fastapi_allowed_modules :: "string list" where
  "fastapi_allowed_modules = [''backend.admin.data_router'', ''backend.admin.deps'', ''backend.admin.router'',
     ''backend.admin.ws_logs'', ''backend.api.grid_router'', ''backend.main'', ''backend.position_manager.router'',
     ''backend.safety_guard.router'', ''backend.signal_execution.router'']"

definition router_owner_modules :: "string list" where
  "router_owner_modules = [''admin'', ''position_manager'', ''safety_guard'', ''signal_execution'']"

definition disallowed_imports :: "(string \<times> string list) list" where
  "disallowed_imports =
    [(''exchange_sync'', [''backtest'', ''market_data'', ''position_manager'', ''signal_execution'', ''strategy_engine'']),
     (''market_data'', [''exchange_sync'', ''order_executor'', ''position_manager'', ''risk_manager'', ''safety_guard'',
        ''signal_execution'', ''strategy_engine'', ''trade_journal'']),
     (''order_executor'', [''backtest'', ''exchange_sync'', ''market_data'', ''position_manager'', ''signal_execution'',
        ''strategy_engine'']),
     (''position_manager'', [''backtest'', ''bybit_client'', ''exchange_sync'', ''market_data'', ''order_executor'',
        ''signal_execution'', ''strategy_engine'']),
     (''risk_manager'', [''bybit_client'', ''exchange_sync'', ''market_data'', ''order_executor'', ''position_manager'',
        ''safety_guard'', ''signal_execution'', ''strategy_engine'', ''trade_journal'']),
     (''safety_guard'', [''bybit_client'', ''exchange_sync'', ''market_data'', ''order_executor'', ''position_manager'',
        ''signal_execution'', ''strategy_engine'']),
     (''signal_execution'', [''backtest'', ''bybit_client'', ''exchange_sync'', ''market_data'', ''position_manager'',
        ''strategy_engine'']),
     (''signal_loop'', [''backtest'', ''exchange_sync'', ''order_executor'', ''position_manager'']),
     (''strategy_engine'', [''bybit_client'', ''exchange_sync'', ''order_executor'', ''position_manager'', ''risk_manager'',
        ''safety_guard'', ''signal_execution'', ''trade_journal'']),
     (''trade_journal'', [''backtest'', ''bybit_client'', ''exchange_sync'', ''market_data'', ''order_executor'',
        ''position_manager'', ''risk_manager'', ''safety_guard'', ''signal_execution'', ''strategy_engine''])]"

text \<open>
  Import statements, each with its line: plain names; or a module, the number of leading dots and
  the imported names.
\<close>

datatype import_statement = ImportNames "string list" nat | ImportFrom "string option" nat "string list" nat

fun statement_line :: "import_statement \<Rightarrow> nat" where
  "statement_line (ImportNames ns l) = l"
| "statement_line (ImportFrom m k ns l) = l"

fun iter_imported_modules :: "import_statement \<Rightarrow> string list" where
  "iter_imported_modules (ImportNames ns l) = ns"
| "iter_imported_modules (ImportFrom m k ns l) = (case m of
     None \<Rightarrow> []
   | Some name \<Rightarrow> if k \<noteq> 0 then []
       else if ''*'' \<in> set ns then [name]
       else if prefix ''backend.'' name then map (\<lambda>n. name @ dot # n) ns
       else [name])"

datatype rule_code = LayerViolation | InvalidRouterOwner | FastapiLeak | RouterImportLeak

fun rule_text :: "rule_code \<Rightarrow> string" where
  "rule_text LayerViolation = ''ARCH001''"
| "rule_text InvalidRouterOwner = ''ARCH002''"
| "rule_text FastapiLeak = ''ARCH003''"
| "rule_text RouterImportLeak = ''ARCH004''"

record violation =
  vi_code :: rule_code
  vi_path :: string
  vi_line :: nat

definition disallowed_for :: "string \<Rightarrow> string list" where
  "disallowed_for g = (case map_of disallowed_imports g of Some gs \<Rightarrow> gs | None \<Rightarrow> [])"

text \<open>The rules one imported module breaks; an import of no known group is skipped.\<close>

definition broken_rules :: "string \<Rightarrow> string \<Rightarrow> string \<Rightarrow> rule_code list" where
  "broken_rules name own m = (case normalize_import_group m of
     None \<Rightarrow> []
   | Some g \<Rightarrow>
       (if g \<in> set (disallowed_for own) \<and> g \<noteq> own then [LayerViolation] else [])
       @ (if g = ''fastapi'' \<and> name \<notin> set fastapi_allowed_modules then [FastapiLeak] else [])
       @ (if suffix ''.router'' m \<and> name \<noteq> ''backend.main'' then [RouterImportLeak] else []))"

definition statement_violations :: "string \<Rightarrow> string \<Rightarrow> string \<Rightarrow> import_statement \<Rightarrow> violation list" where
  "statement_violations path name own n = concat (map (\<lambda>m.
     map (\<lambda>c. \<lparr>vi_code = c, vi_path = path, vi_line = statement_line n\<rparr>) (broken_rules name own m))
     (iter_imported_modules n))"

definition analyze_python_file :: "source_file \<times> import_statement list \<Rightarrow> exc + violation list" where
  "analyze_python_file fi = (case fi of (f, ns) \<Rightarrow>
     let name = module_name_for_file f in
     ebind (module_group name) (\<lambda>own.
     Inr ((if last (sf_parts f) = ''router'' \<and> own \<notin> set router_owner_modules
           then [\<lparr>vi_code = InvalidRouterOwner, vi_path = sf_path f, vi_line = 1\<rparr>] else [])
       @ concat (map (statement_violations (sf_path f) name own) ns))))"

definition violation_key :: "violation \<Rightarrow> string \<times> nat \<times> string" where
  "violation_key v = (vi_path v, vi_line v, rule_text (vi_code v))"

definition analyze_backend_tree :: "(source_file \<times> import_statement list) list \<Rightarrow> exc + violation list" where
  "analyze_backend_tree fs = ebind (emap analyze_python_file fs) (\<lambda>vss. Inr (sort_key violation_key (concat vss)))"

lemma emap_all_empty: "emap f xs = Inr yss \<Longrightarrow> concat yss = [] \<Longrightarrow> x \<in> set xs \<Longrightarrow> f x = Inr []"
  by (induction xs arbitrary: yss) (auto simp: ebind_Inr_iff)

lemma sorted_empty: "sort_key k xs = [] \<Longrightarrow> xs = []"
  by (metis length_0_conv length_sort)

lemma clean_file:
  assumes "analyze_python_file (f, ns) = Inr []" "n \<in> set ns" "m \<in> set (iter_imported_modules n)"
    and "module_group (module_name_for_file f) = Inr own"
  shows "broken_rules (module_name_for_file f) own m = []"
  using assms by (auto simp: analyze_python_file_def Let_def statement_violations_def split: if_splits)

text \<open>
  An accepted tree keeps its layers where the checker looks.  If no violation is found, then no
  absolute import of a module below \<^verbatim>\<open>backend.\<close> by a file of a group names a group that the
  table forbids to it.
\<close>

theorem accepted_tree_keeps_layers:
  assumes "analyze_backend_tree fs = Inr []" "(f, ns) \<in> set fs" "n \<in> set ns" "m \<in> set (iter_imported_modules n)"
    and "module_group (module_name_for_file f) = Inr own" "normalize_import_group m = Some g"
  shows "g \<notin> set (disallowed_for own) \<or> g = own"
proof -
  obtain vss where "emap analyze_python_file fs = Inr vss" "sort_key violation_key (concat vss) = []"
    using assms(1) by (auto simp: analyze_backend_tree_def ebind_Inr_iff)
  then have "analyze_python_file (f, ns) = Inr []" using emap_all_empty sorted_empty assms(2) by metis
  from clean_file[OF this assms(3,4,5)] show ?thesis
    using assms(6) by (auto simp: broken_rules_def split: if_splits)
qed

definition runner_file :: source_file where
  "runner_file = \<lparr>sf_parts = [''signal_loop'', ''runner''], sf_path = ''backend/signal_loop/runner.py''\<rparr>"

definition runner_import :: import_statement where
  "runner_import = ImportFrom (Some ''backend.signal_execution.schemas'') 0 [''ExecuteSignalRequest''] 7"

theorem accepted_tree_keeps_layers_witness:
  "''signal_execution'' \<notin> set (disallowed_for ''signal_loop'') \<or> ''signal_execution'' = ''signal_loop''"
proof (rule accepted_tree_keeps_layers)
  show "analyze_backend_tree [(runner_file, [runner_import])] = Inr []" by code_simp
  show "(runner_file, [runner_import]) \<in> set [(runner_file, [runner_import])]" "runner_import \<in> set [runner_import]"
    by simp_all
  show "''backend.signal_execution.schemas.ExecuteSignalRequest'' \<in> set (iter_imported_modules runner_import)"
    "module_group (module_name_for_file runner_file) = Inr ''signal_loop''"
    "normalize_import_group ''backend.signal_execution.schemas.ExecuteSignalRequest'' = Some ''signal_execution''"
    by code_simp+
qed

text \<open>
  Where it does not look: a relative import and an import of packages from
  \<^verbatim>\<open>backend\<close> itself are never reported, whatever they import.
\<close>

theorem hidden_imports_are_not_reported:
  "k \<noteq> 0 \<Longrightarrow> analyze_python_file (f, ns @ ImportFrom m k names l # ms) = analyze_python_file (f, ns @ ms)"
  "''*'' \<notin> set names \<Longrightarrow>
    analyze_python_file (f, ns @ ImportFrom (Some ''backend'') 0 names l # ms) = analyze_python_file (f, ns @ ms)"
proof -
  have n: "normalize_import_group ''backend'' = None" by code_simp
  have p: "\<not> prefix ''backend.'' ''backend''" by code_simp
  show "k \<noteq> 0 \<Longrightarrow> analyze_python_file (f, ns @ ImportFrom m k names l # ms) = analyze_python_file (f, ns @ ms)"
    by (simp add: analyze_python_file_def statement_violations_def split: option.split)
  show "''*'' \<notin> set names \<Longrightarrow>
    analyze_python_file (f, ns @ ImportFrom (Some ''backend'') 0 names l # ms) = analyze_python_file (f, ns @ ms)"
    using n p by (simp add: analyze_python_file_def statement_violations_def broken_rules_def)
qed

subsection \<open>The secret of an environment file\<close>

definition line_break :: "char \<Rightarrow> bool" where
  "line_break c = (let n = (of_char c :: nat) in 10 \<le> n \<and> n \<le> 13 \<or> 28 \<le> n \<and> n \<le> 30 \<or> n = 133)"

text \<open>\<^verbatim>\<open>splitlines(keepends=True)\<close>; \<open>acc\<close> is the line so far, reversed.\<close>

fun split_lines :: "string \<Rightarrow> string \<Rightarrow> string list" where
  "split_lines acc [] = (if acc = [] then [] else [rev acc])"
| "split_lines acc (c # s) =
     (if c = CHR 0x0D \<and> s \<noteq> [] \<and> hd s = CHR 0x0A then split_lines (c # acc) s
      else if line_break c then rev (c # acc) # split_lines [] s
      else split_lines (c # acc) s)"

lemma concat_split_lines: "concat (split_lines acc s) = rev acc @ s"
  by (induction acc s rule: split_lines.induct) auto

definition assigns :: "string \<Rightarrow> string \<Rightarrow> bool" where
  "assigns key line \<longleftrightarrow> \<not> prefix ''#'' (py_strip line) \<and> prefix (key @ ''='') (py_strip line)"

definition assigned_value :: "string \<Rightarrow> string" where
  "assigned_value line = py_strip (tl (dropWhile (\<lambda>c. c \<noteq> CHR ''='') line))"

definition newline_of :: "string \<Rightarrow> string" where
  "newline_of line = (if suffix [CHR 0x0D, CHR 0x0A] line then [CHR 0x0D, CHR 0x0A]
     else if suffix [CHR 0x0A] line then [CHR 0x0A] else [])"

definition keeps_line :: "string \<Rightarrow> bool \<Rightarrow> string \<Rightarrow> bool" where
  "keeps_line key force line \<longleftrightarrow> \<not> assigns key line \<or> assigned_value line \<noteq> [] \<and> \<not> force"

definition update_line :: "string \<Rightarrow> string \<Rightarrow> bool \<Rightarrow> string \<Rightarrow> string" where
  "update_line key val force line =
     (if keeps_line key force line then line else key @ ''='' @ val @ newline_of line)"

definition upsert_env_value :: "string \<Rightarrow> string \<Rightarrow> string \<Rightarrow> bool \<Rightarrow> string \<times> bool" where
  "upsert_env_value content key val force =
     (let ls = split_lines [] content;
          updated = map (update_line key val force) ls;
          found = list_ex (assigns key) ls;
          changed = list_ex (\<lambda>l. \<not> keeps_line key force l) ls;
          sep = (if content = [] \<or> suffix [CHR 0x0A] content then [] else [CHR 0x0A])
      in if found then (concat updated, changed)
         else (concat updated @ sep @ key @ ''='' @ val @ [CHR 0x0A], True))"

text \<open>\<open>secret\<close> is what \<^verbatim>\<open>secrets.token_hex\<close> gives; a file that is missing reads as empty.\<close>

definition upsert_admin_jwt_secret :: "string \<Rightarrow> string option \<Rightarrow> bool \<Rightarrow> string option \<times> bool" where
  "upsert_admin_jwt_secret secret file force =
     (case upsert_env_value (case file of Some c \<Rightarrow> c | None \<Rightarrow> []) ''ADMIN_JWT_SECRET'' secret force of
       (updated, changed) \<Rightarrow> (if changed then Some updated else file, changed))"

text \<open>A secret that is set is never overwritten without being asked to.\<close>

lemma set_secret_is_kept:
  assumes "list_ex (assigns ''ADMIN_JWT_SECRET'') (split_lines [] c)"
    and "\<forall>l \<in> set (split_lines [] c). assigns ''ADMIN_JWT_SECRET'' l \<longrightarrow> assigned_value l \<noteq> []"
  shows "upsert_admin_jwt_secret secret (Some c) False = (Some c, False)"
  using assms by (auto simp: upsert_admin_jwt_secret_def upsert_env_value_def keeps_line_def Let_def list_ex_iff)

end
