(* ===== verification/ReplayScripts.thy ===== *)
theory ReplayScripts
  imports StageValidation
begin

text \<open>
  The scripts around the replay: \<^verbatim>\<open>scripts/run_backtest.py\<close>,
  \<^verbatim>\<open>run_strategy_backtests.py\<close>, \<^verbatim>\<open>validate_15m.py\<close>,
  \<^verbatim>\<open>validate_breakout.py\<close>, \<^verbatim>\<open>validate_strategy.py\<close>,
  \<^verbatim>\<open>deposit_sim.py\<close>, \<^verbatim>\<open>validate_ts_momentum.py\<close> and
  \<^verbatim>\<open>refresh_backtest_dataset.py\<close>.  Files are given by their parsed content, the exchange by
  its klines, the platform's sine and logarithm by functions; what is printed is left out.
\<close>

subsection \<open>A replay with a simulation of its own\<close>

definition replay_simulated ::
  "stage_lib \<Rightarrow> simulation \<Rightarrow> string \<Rightarrow> string \<Rightarrow> strategy \<Rightarrow> market_candle list \<Rightarrow> exc + sim_result replay_result"
where
  "replay_simulated lib s symbol interval t cs =
     fst (run_replay object_of_result (sb_json lib) default_limits t (simulation_service s (sb_draw lib))
       \<lparr>rp_symbol = symbol, rp_interval = interval, rp_candles = Some cs, rp_snapshots = None,
        rp_start_step = None, rp_end_step = None\<rparr> 0)"

definition script_simulation :: "nat \<Rightarrow> pyfloat \<Rightarrow> pyfloat option \<Rightarrow> bool \<Rightarrow> simulation" where
  "script_simulation hold risk fee delay =
     new_simulation hold risk fee False (1 / 1000) (25 / 10000) (fl (7 / 10)) 2 1 delay Spot 10000 [] 5"

subsection \<open>A single backtest\<close>

record fixture_candle =
  fx_opened_at :: json
  fx_high :: pyfloat
  fx_low :: pyfloat
  fx_close :: pyfloat
  fx_volume :: pyfloat
  fx_open :: "pyfloat option"

record fixture_payload =
  fp_symbol :: string
  fp_interval :: string
  fp_candles :: "fixture_candle list"
  fp_lookback_days :: "int option"

definition fixture_candle_of :: "(string \<times> json) list \<Rightarrow> exc + fixture_candle" where
  "fixture_candle_of m =
     ebind (json_at m ''opened_at'') (\<lambda>t.
     ebind (ebind (json_at m ''high'') json_float) (\<lambda>high.
     ebind (ebind (json_at m ''low'') json_float) (\<lambda>low.
     ebind (ebind (json_at m ''close'') json_float) (\<lambda>close.
     ebind (json_float (json_get m ''volume'' (JFloat 0))) (\<lambda>volume.
     ebind (case map_of m ''open'' of None \<Rightarrow> Inr None | Some v \<Rightarrow> ebind (json_float v) (\<lambda>x. Inr (Some x))) (\<lambda>op.
     Inr \<lparr>fx_opened_at = t, fx_high = high, fx_low = low, fx_close = close, fx_volume = volume, fx_open = op\<rparr>))))))"

definition load_fixture_payload :: "(json \<Rightarrow> string) \<Rightarrow> json \<Rightarrow> exc + fixture_payload" where
  "load_fixture_payload rep v = (case v of
     JObj m \<Rightarrow>
       (let symbol = py_upper (py_strip (json_str rep (json_get m ''symbol'' (text_arg ''''))));
            interval = py_strip (json_str rep (json_get m ''interval'' (text_arg '''')));
            days = json_get m ''lookback_days'' JNull in
        if symbol = [] then Inl ValueError
        else if interval = [] then Inl ValueError
        else case json_get m ''candles'' JNull of
          JList raw \<Rightarrow>
            if raw = [] then Inl ValueError
            else ebind (emap fixture_candle_of (json_objects raw)) (\<lambda>cs.
              ebind (if days = JNull then Inr None else ebind (json_int days) (\<lambda>n. Inr (Some n))) (\<lambda>n.
              Inr \<lparr>fp_symbol = symbol, fp_interval = interval, fp_candles = cs, fp_lookback_days = n\<rparr>))
        | _ \<Rightarrow> Inl ValueError)
   | _ \<Rightarrow> Inl TypeError)"

definition fixture_market_candles :: "fixture_payload \<Rightarrow> exc + market_candle list" where
  "fixture_market_candles p = emap (\<lambda>c. ebind (json_time (fx_opened_at c)) (\<lambda>t.
     Inr (new_market_candle t (fx_high c) (fx_low c) (fx_close c) (fx_open c) (fx_volume c)))) (fp_candles p)"

record backtest_thresholds =
  bt_min_closed_trades :: "int option"
  bt_min_win_rate :: "pyfloat option"
  bt_min_profit_factor :: "pyfloat option"
  bt_max_drawdown :: "pyfloat option"
  bt_max_drawdown_pct :: "pyfloat option"

text \<open>The command line; \<open>ba_fixture\<close> is the parsed content of the file it names.\<close>

record backtest_args =
  ba_fixture :: "(exc + json) option"
  ba_symbol :: "string option"
  ba_interval :: "string option"
  ba_candles :: "int option"
  ba_lookback_days :: "int option"
  ba_family :: string
  ba_strategy :: string
  ba_min_rrr :: pyfloat
  ba_risk_amount :: pyfloat
  ba_max_hold :: nat
  ba_fee_rate_per_side :: pyfloat
  ba_thresholds :: backtest_thresholds

text \<open>\<^verbatim>\<open>x or y\<close> of a text and of an integer.\<close>

definition or_text :: "string option \<Rightarrow> string \<Rightarrow> string" where
  "or_text o' s = (case o' of Some t \<Rightarrow> if t = [] then s else t | None \<Rightarrow> s)"

definition or_number :: "int option \<Rightarrow> int option \<Rightarrow> int option" where
  "or_number o' n = (case o' of Some i \<Rightarrow> if i = 0 then n else Some i | None \<Rightarrow> n)"

record backtest_input =
  bi_symbol :: string
  bi_interval :: string
  bi_lookback_days :: "int option"
  bi_candles :: "market_candle list"

definition candles_from_file :: "(json \<Rightarrow> string) \<Rightarrow> backtest_args \<Rightarrow> json \<Rightarrow> exc + backtest_input" where
  "candles_from_file rep a v = (case load_dataset rep v of
     Inr d \<Rightarrow> Inr \<lparr>bi_symbol = or_text (ba_symbol a) (cd_symbol d), bi_interval = or_text (ba_interval a) (cd_interval d),
       bi_lookback_days = Some (cd_lookback_days d), bi_candles = cd_candles d\<rparr>
   | Inl x \<Rightarrow> if x \<noteq> KeyError then Inl x
       else ebind (load_fixture_payload rep v) (\<lambda>p.
         ebind (fixture_market_candles p) (\<lambda>cs.
         Inr \<lparr>bi_symbol = or_text (ba_symbol a) (fp_symbol p), bi_interval = or_text (ba_interval a) (fp_interval p),
           bi_lookback_days = or_number (ba_lookback_days a) (fp_lookback_days p), bi_candles = cs\<rparr>)))"

definition load_candles ::
  "(json \<Rightarrow> string) \<Rightarrow> (string \<Rightarrow> string \<Rightarrow> 'w kline_source) \<Rightarrow> backtest_args \<Rightarrow> ('w, backtest_input) prog"
where
  "load_candles rep klines a = (case ba_fixture a of
     Some file \<Rightarrow> from_sum (ebind file (candles_from_file rep a))
   | None \<Rightarrow>
       (let symbol = py_upper (py_strip (or_text (ba_symbol a) ''BTCUSDT''));
            interval = py_strip (or_text (ba_interval a) ''15'') in
        bnd (from_sum (case ba_candles a of Some n \<Rightarrow> Inr n
               | None \<Rightarrow> candles_for_lookback interval
                   (case or_number (ba_lookback_days a) (Some 30) of Some n \<Rightarrow> n | None \<Rightarrow> 30))) (\<lambda>wanted.
        bnd (fetch_candles (klines symbol interval) (nat wanted)) (\<lambda>cs.
        ret \<lparr>bi_symbol = symbol, bi_interval = interval, bi_lookback_days = ba_lookback_days a, bi_candles = cs\<rparr>))))"

definition build_family_strategy :: "(pyfloat \<Rightarrow> pyfloat) \<Rightarrow> string \<Rightarrow> string \<Rightarrow> pyfloat \<Rightarrow> exc + strategy" where
  "build_family_strategy lg family name m =
     (if family = ''day_trading'' then build_day_trading_strategy name m
      else if family = ''scalping'' then build_scalping_strategy lg name m
      else Inl ValueError)"

definition below_limit :: "pyfloat option \<Rightarrow> decimal option \<Rightarrow> bool" where
  "below_limit limit x = (case limit of None \<Rightarrow> False
     | Some l \<Rightarrow> (case x of None \<Rightarrow> True | Some v \<Rightarrow> v < dec_of_float l))"

definition above_limit :: "pyfloat option \<Rightarrow> decimal option \<Rightarrow> bool" where
  "above_limit limit x = (case limit of None \<Rightarrow> False
     | Some l \<Rightarrow> (case x of None \<Rightarrow> True | Some v \<Rightarrow> dec_of_float l < v))"

definition evaluate_thresholds ::
  "backtest_thresholds \<Rightarrow> nat \<Rightarrow> decimal option \<Rightarrow> decimal option \<Rightarrow> decimal option \<Rightarrow> decimal option \<Rightarrow> exc + unit"
where
  "evaluate_thresholds b n w p d dp =
     (if (case bt_min_closed_trades b of None \<Rightarrow> False | Some k \<Rightarrow> int n < k) then Inl BacktestExpectationError
      else if below_limit (bt_min_win_rate b) w then Inl BacktestExpectationError
      else if below_limit (bt_min_profit_factor b) p then Inl BacktestExpectationError
      else if above_limit (bt_max_drawdown b) d then Inl BacktestExpectationError
      else if above_limit (bt_max_drawdown_pct b) dp then Inl BacktestExpectationError
      else Inr ())"

record backtest_outcome =
  bk_input :: backtest_input
  bk_metrics :: replay_metrics
  bk_max_drawdown_pct :: "decimal option"
  bk_net_pnl :: decimal
  bk_fees_paid :: decimal

definition outcome_of_replay :: "backtest_args \<Rightarrow> backtest_input \<Rightarrow> sim_result replay_result \<Rightarrow> backtest_outcome" where
  "outcome_of_replay a i res =
     (let xs = executions_of (rx_steps res); m = rp_metrics (rx_report res) in
      \<lparr>bk_input = i, bk_metrics = m,
       bk_max_drawdown_pct = (if 0 < ba_risk_amount a then map_option (\<lambda>x. ddiv x 10000) (rm_max_drawdown m) else None),
       bk_net_pnl = dsum (map net_pnl_of xs), bk_fees_paid = dsum (map xr_fees_paid xs)\<rparr>)"

definition run_single_backtest ::
  "stage_lib \<Rightarrow> (json \<Rightarrow> string) \<Rightarrow> (string \<Rightarrow> string \<Rightarrow> 'w kline_source) \<Rightarrow> backtest_args \<Rightarrow> ('w, backtest_outcome) prog"
where
  "run_single_backtest lib rep klines a =
     bnd (load_candles rep klines a) (\<lambda>i.
     from_sum (
       ebind (build_family_strategy (sb_log lib) (ba_family a) (ba_strategy a) (ba_min_rrr a)) (\<lambda>t.
       ebind (replay_simulated lib (script_simulation (ba_max_hold a) (ba_risk_amount a)
                (Some (ba_fee_rate_per_side a)) True) (bi_symbol i) (bi_interval i) t (bi_candles i)) (\<lambda>res.
       let out = outcome_of_replay a i res; m = bk_metrics out in
       ebind (evaluate_thresholds (ba_thresholds a) (rm_closed_trades m) (rm_win_rate m) (rm_profit_factor m)
                (rm_max_drawdown m) (bk_max_drawdown_pct out)) (\<lambda>_. Inr out)))))"

text \<open>The thresholds pass exactly when each one that is set is reached.\<close>

lemma evaluate_thresholds_iff:
  "evaluate_thresholds b n w p d dp = Inr () \<longleftrightarrow>
     (\<forall>k. bt_min_closed_trades b = Some k \<longrightarrow> k \<le> int n)
     \<and> (\<forall>l. bt_min_win_rate b = Some l \<longrightarrow> (\<exists>v. w = Some v \<and> dec_of_float l \<le> v))
     \<and> (\<forall>l. bt_min_profit_factor b = Some l \<longrightarrow> (\<exists>v. p = Some v \<and> dec_of_float l \<le> v))
     \<and> (\<forall>l. bt_max_drawdown b = Some l \<longrightarrow> (\<exists>v. d = Some v \<and> v \<le> dec_of_float l))
     \<and> (\<forall>l. bt_max_drawdown_pct b = Some l \<longrightarrow> (\<exists>v. dp = Some v \<and> v \<le> dec_of_float l))"
  by (auto simp: evaluate_thresholds_def below_limit_def above_limit_def not_less split: option.splits)

subsection \<open>The matrix of strategy backtests\<close>

record backtest_case =
  bc_family :: string
  bc_strategy_name :: string
  bc_interval :: string
  bc_lookback_days :: int
  bc_min_rrr :: pyfloat
  bc_max_hold_candles :: nat

definition backtest_cases :: "backtest_case list" where
  "backtest_cases =
     (let crossover = \<lparr>bc_family = ''day_trading'', bc_strategy_name = ''ema_crossover'', bc_interval = ''15'',
            bc_lookback_days = 90, bc_min_rrr = 2, bc_max_hold_candles = 20\<rparr>
      in [\<lparr>bc_family = ''scalping'', bc_strategy_name = ''vwap_reversion'', bc_interval = ''5'',
            bc_lookback_days = 90, bc_min_rrr = 3 / 2, bc_max_hold_candles = 20\<rparr>,
          crossover, crossover\<lparr>bc_interval := ''60''\<rparr>, crossover])"

text \<open>\<^verbatim>\<open>sorted({case.interval ...}, key=int)\<close>\<close>

definition case_intervals :: "string list" where
  "case_intervals = sort_key digits_value (remdups (map bc_interval backtest_cases))"

definition interval_lookback :: "string \<Rightarrow> int" where
  "interval_lookback interval =
     Max (set (map bc_lookback_days (filter (\<lambda>c. bc_interval c = interval) backtest_cases)))"

record matrix_summary =
  mx_trades :: nat
  mx_win_rate :: "decimal option"
  mx_profit_factor :: "xfloat option"

definition summarize_executions :: "sim_result list \<Rightarrow> matrix_summary" where
  "summarize_executions xs =
     (let ps = map net_pnl_of (filter (\<lambda>x. xr_status x \<noteq> ''skipped'') xs) in
      \<lparr>mx_trades = length ps, mx_win_rate = share (winners ps) (length ps), mx_profit_factor = profit_factor_of ps\<rparr>)"

definition build_case_strategy :: "(pyfloat \<Rightarrow> pyfloat) \<Rightarrow> backtest_case \<Rightarrow> exc + strategy" where
  "build_case_strategy lg c = (if bc_family c = ''day_trading'' then build_day_trading_strategy (bc_strategy_name c) (bc_min_rrr c)
     else build_scalping_strategy lg (bc_strategy_name c) (bc_min_rrr c))"

definition run_case ::
  "stage_lib \<Rightarrow> string \<Rightarrow> pyfloat \<Rightarrow> (string \<times> market_candle list) list \<Rightarrow> backtest_case \<Rightarrow> exc + backtest_case \<times> matrix_summary"
where
  "run_case lib symbol fee candles c =
     ebind (build_case_strategy (sb_log lib) c) (\<lambda>t.
     ebind (or_raise (map_of candles (bc_interval c)) KeyError) (\<lambda>cs.
     ebind (replay_simulated lib (script_simulation (bc_max_hold_candles c) 100 (Some fee) True) symbol (bc_interval c) t cs) (\<lambda>res.
     Inr (c, summarize_executions (executions_of (rx_steps res))))))"

definition run_backtests ::
  "stage_lib \<Rightarrow> (int \<Rightarrow> ('w, unit) prog) \<Rightarrow> (string \<Rightarrow> string \<Rightarrow> 'w kline_source) \<Rightarrow> string \<Rightarrow> pyfloat
    \<Rightarrow> ('w, (backtest_case \<times> matrix_summary) list) prog"
where
  "run_backtests lib pause klines symbol fee =
     bnd (map_each (\<lambda>interval. bnd (fetch_candles_with_retry pause (klines symbol interval) interval
            (interval_lookback interval) 3) (\<lambda>cs. ret (interval, cs))) case_intervals) (\<lambda>candles.
     from_sum (emap (run_case lib symbol fee candles) backtest_cases))"

text \<open>The synthetic client; \<open>sn\<close> is the platform's sine, \<open>t\<close> the current time.\<close>

definition synthetic_drift :: "nat \<Rightarrow> pyfloat" where
  "synthetic_drift i = (let leg = (i div 240) mod 4 in
     if leg = 0 then fl (22 / 100) else if leg = 1 then fl (- 18 / 100) else if leg = 2 then fl (8 / 100) else fl (- 6 / 100))"

definition sine_at :: "(pyfloat \<Rightarrow> pyfloat) \<Rightarrow> nat \<Rightarrow> pyfloat \<Rightarrow> pyfloat" where
  "sine_at sn i k = sn (fdiv (of_nat i) k)"

definition synthetic_kline :: "(pyfloat \<Rightarrow> pyfloat) \<Rightarrow> timestamp \<Rightarrow> int \<Rightarrow> pyfloat \<Rightarrow> nat \<Rightarrow> kline" where
  "synthetic_kline sn t0 minutes close i =
     (let volume = fadd 1000 (fmul \<bar>sine_at sn i 7\<bar> 250) in
      \<lparr>kl_start_time = t0 + minutes * int i * 60000000, kl_open_price = close,
       kl_high_price = fadd (fadd close (fl (12 / 10))) (fmul \<bar>sine_at sn i 4\<bar> (fl (6 / 10))),
       kl_low_price = fsub (fsub close (fl (12 / 10))) (fmul \<bar>sine_at sn i 5\<bar> (fl (6 / 10))),
       kl_close_price = close, kl_volume = volume, kl_turnover = fmul close volume\<rparr>)"

definition next_close :: "(pyfloat \<Rightarrow> pyfloat) \<Rightarrow> pyfloat \<Rightarrow> nat \<Rightarrow> pyfloat" where
  "next_close sn close i =
     (let oscillation = fadd (fmul (sine_at sn i 6) (fl (18 / 10))) (fmul (sine_at sn i 29) (fl (32 / 10)))
      in max 10 (fadd (fadd close (synthetic_drift i)) (fmul oscillation (fl (8 / 100)))))"

definition synthetic_klines :: "(pyfloat \<Rightarrow> pyfloat) \<Rightarrow> timestamp \<Rightarrow> int \<Rightarrow> nat \<Rightarrow> kline list" where
  "synthetic_klines sn t0 minutes n =
     rev (snd (foldl (\<lambda>(close, ks) i. let c = next_close sn close i in (c, synthetic_kline sn t0 minutes c i # ks))
       (100, []) [0..<n]))"

definition synthetic_dataset :: "(pyfloat \<Rightarrow> pyfloat) \<Rightarrow> timestamp \<Rightarrow> string \<Rightarrow> exc + kline list" where
  "synthetic_dataset sn t interval =
     ebind (candles_for_lookback interval 90) (\<lambda>n.
     let minutes = int (digits_value interval) in
     Inr (synthetic_klines sn (t - minutes * (n - 1) * 60000000) minutes (nat n)))"

text \<open>\<^verbatim>\<open>get_klines\<close>: the newest first, up to the limit, none after \<^verbatim>\<open>end\<close>.\<close>

definition synthetic_source :: "string \<Rightarrow> (string \<times> kline list) list \<Rightarrow> string \<Rightarrow> string \<Rightarrow> 'w kline_source" where
  "synthetic_source own datasets symbol interval limit till =
     ret (if symbol \<noteq> own then []
       else let ks = (case map_of datasets interval of Some ks \<Rightarrow> ks | None \<Rightarrow> []);
                eligible = (case till of None \<Rightarrow> ks
                  | Some t \<Rightarrow> filter (\<lambda>k. trunc0 (fmul (fl (of_int (kl_start_time k) / 1000000)) 1000) \<le> t) ks)
            in rev (last_n limit eligible))"

lemma synthetic_klines_shape:
  "length (synthetic_klines sn t0 minutes n) = n"
  "0 < minutes \<Longrightarrow> sorted_wrt (<) (map kl_start_time (synthetic_klines sn t0 minutes n))"
proof -
  let ?step = "\<lambda>(close, ks) i. let c = next_close sn close i in (c, synthetic_kline sn t0 minutes c i # ks)"
  have starts: "map kl_start_time (snd (foldl ?step (100, []) [0..<n]))
      = rev (map (\<lambda>i. t0 + minutes * int i * 60000000) [0..<n])"
  proof (induction n)
    case (Suc n)
    obtain c ks where "foldl ?step (100, []) [0..<n] = (c, ks)" by fastforce
    with Suc show ?case by (simp add: Let_def synthetic_kline_def)
  qed simp
  from arg_cong[OF starts, of length] show "length (synthetic_klines sn t0 minutes n) = n"
    by (simp add: synthetic_klines_def)
  have "map kl_start_time (synthetic_klines sn t0 minutes n) = map (\<lambda>i. t0 + minutes * int i * 60000000) [0..<n]"
    using starts by (simp add: synthetic_klines_def rev_map[symmetric])
  then show "0 < minutes \<Longrightarrow> sorted_wrt (<) (map kl_start_time (synthetic_klines sn t0 minutes n))"
    by (simp add: sorted_wrt_iff_nth_less)
qed

subsection \<open>Two strategies on fifteen-minute candles, and the breakout with and without delay\<close>

record ninety_day_summary =
  nd_trades :: nat
  nd_win_rate :: decimal
  nd_profit_factor :: xfloat
  nd_net_pnl :: decimal

definition summary_of_pnls :: "decimal list \<Rightarrow> ninety_day_summary" where
  "summary_of_pnls ps = \<lparr>nd_trades = length ps, nd_win_rate = stage_win_rate ps,
     nd_profit_factor = stage_profit_factor ps, nd_net_pnl = dsum ps\<rparr>"

definition replayed_summary ::
  "stage_lib \<Rightarrow> simulation \<Rightarrow> string \<Rightarrow> strategy \<Rightarrow> market_candle list \<Rightarrow> exc + ninety_day_summary"
where
  "replayed_summary lib s interval t cs =
     ebind (replay_simulated lib s ''BTCUSDT'' interval t cs) (\<lambda>res.
     Inr (summary_of_pnls (map net_pnl_of (executions_of (rx_steps res)))))"

definition passes_thresholds :: "ninety_day_summary \<Rightarrow> bool" where
  "passes_thresholds s \<longleftrightarrow> 48 / 100 \<le> nd_win_rate s \<and> \<not> xless (nd_profit_factor s) (105 / 100)"

definition run_15m_strategy :: "stage_lib \<Rightarrow> candle_dataset \<Rightarrow> string \<Rightarrow> pyfloat \<Rightarrow> exc + ninety_day_summary" where
  "run_15m_strategy lib d name m =
     ebind (build_scalping_strategy (sb_log lib) name m) (\<lambda>t.
     ebind (load_last_90_days d) (\<lambda>cs.
     replayed_summary lib (stage_simulation None) (cd_interval d) t cs))"

text \<open>Whether the process ends with one: only when neither strategy passes.\<close>

definition validate_15m :: "stage_lib \<Rightarrow> candle_dataset \<Rightarrow> exc + bool" where
  "validate_15m lib d =
     ebind (run_15m_strategy lib d ''vwap_reversion_v2'' (fl (13 / 10))) (\<lambda>vwap.
     ebind (run_15m_strategy lib d ''ema_pullback'' (3 / 2)) (\<lambda>ema.
     Inr (\<not> (passes_thresholds vwap \<or> passes_thresholds ema))))"

definition run_breakout_backtest ::
  "stage_lib \<Rightarrow> market_candle list \<Rightarrow> string \<Rightarrow> bool \<Rightarrow> exc + ninety_day_summary"
where
  "run_breakout_backtest lib cs interval delay =
     ebind (build_scalping_strategy (sb_log lib) ''breakout'' 2) (\<lambda>t.
     replayed_summary lib (script_simulation 20 100 None delay) interval t cs)"

definition validate_breakout :: "stage_lib \<Rightarrow> candle_dataset \<Rightarrow> exc + ninety_day_summary \<times> ninety_day_summary" where
  "validate_breakout lib d =
     ebind (load_last_90_days d) (\<lambda>cs.
     ebind (run_breakout_backtest lib cs (cd_interval d) True) (\<lambda>delayed.
     ebind (run_breakout_backtest lib cs (cd_interval d) False) (\<lambda>immediate.
     Inr (delayed, immediate))))"

subsection \<open>The default scalping strategy, and what a deposit would have become\<close>

text \<open>Both scripts fetch candles of their own, without the opening price.\<close>

definition closing_candle_of_kline :: "kline \<Rightarrow> market_candle" where
  "closing_candle_of_kline k = new_market_candle (kl_start_time k) (kl_high_price k) (kl_low_price k)
     (kl_close_price k) None (kl_volume k)"

definition fetch_closing_candles :: "'w kline_source \<Rightarrow> nat \<Rightarrow> ('w, market_candle list) prog" where
  "fetch_closing_candles source wanted =
     bnd (fetch_pages (dataset_short wanted) source wanted [] None) (\<lambda>ks.
     ret (last_n wanted (sort_key mc_opened_at (map snd (dedupe_candles (map closing_candle_of_kline ks))))))"

definition default_vwap_strategy :: strategy where
  "default_vwap_strategy = \<lparr>required_candle_count = 50, generate_signal = vwap_generate (new_vwap_reversion 1)\<rparr>"

record validation_payload =
  vp_candles :: nat
  vp_closed_trades :: nat
  vp_winning_trades :: nat
  vp_win_rate :: decimal
  vp_expectancy :: decimal
  vp_max_drawdown :: decimal
  vp_avg_risk_amount :: decimal
  vp_passed :: bool

text \<open>The fee is taken of the amount at risk, for both sides.\<close>

definition risk_fee :: "pyfloat \<Rightarrow> decimal" where
  "risk_fee risk = dmul (dec_of_float risk) (dmul (1 / 1000) 2)"

definition validation_of_pnls :: "pyfloat \<Rightarrow> nat \<Rightarrow> decimal list \<Rightarrow> validation_payload" where
  "validation_of_pnls risk n ps =
     (let rate = stage_win_rate ps;
          expectancy = (if ps = [] then 0 else ddiv (dsum ps) (of_nat (length ps)));
          dd = (if ps = [] then 0 else calculate_max_drawdown ps)
      in \<lparr>vp_candles = n, vp_closed_trades = length ps, vp_winning_trades = winners ps, vp_win_rate = rate,
          vp_expectancy = expectancy, vp_max_drawdown = dd, vp_avg_risk_amount = dec_of_float risk,
          vp_passed = (55 / 100 < rate \<and> 0 < expectancy \<and> dd < dmul (dec_of_float risk) 10 \<and> 30 \<le> length ps)\<rparr>)"

definition validate_strategy ::
  "stage_lib \<Rightarrow> 'w kline_source \<Rightarrow> string \<Rightarrow> string \<Rightarrow> nat \<Rightarrow> pyfloat \<Rightarrow> nat \<Rightarrow> ('w, validation_payload) prog"
where
  "validate_strategy lib source symbol interval wanted risk hold =
     bnd (fetch_closing_candles source wanted) (\<lambda>cs.
     from_sum (
       ebind (replay_simulated lib (script_simulation hold risk None True) symbol interval default_vwap_strategy cs) (\<lambda>res.
       Inr (validation_of_pnls risk (length cs)
         (map (\<lambda>x. dsub (xr_realized_pnl x) (risk_fee risk)) (executions_of (rx_steps res)))))))"

record deposit_report =
  dr_deposit :: pyfloat
  dr_risk_usd :: pyfloat
  dr_total_trades :: nat
  dr_wins :: nat
  dr_losses :: nat
  dr_win_rate :: pyfloat
  dr_final_equity :: pyfloat
  dr_net_profit :: pyfloat
  dr_max_drawdown :: pyfloat
  dr_max_drawdown_pct :: pyfloat
  dr_roi :: pyfloat

definition deposit_fee :: "pyfloat \<Rightarrow> decimal" where
  "deposit_fee risk = dmul (dmul (dec_of_float risk) (1 / 1000)) 2"

text \<open>\<open>deposit\<close> is not zero: the script runs with 100 and 200.\<close>

definition deposit_report_of :: "pyfloat \<Rightarrow> pyfloat \<Rightarrow> decimal list \<Rightarrow> deposit_report" where
  "deposit_report_of deposit risk nets =
     (let d = dec_of_float deposit;
          (equity, _, dd) = foldl drawdown_step (d, d, 0) nets;
          net_profit = dsub equity d;
          n = length nets
      in \<lparr>dr_deposit = deposit, dr_risk_usd = risk, dr_total_trades = n, dr_wins = winners nets,
          dr_losses = length (filter (\<lambda>x. x \<le> 0) nets),
          dr_win_rate = (if n = 0 then 0 else fmul (fdiv (of_nat (winners nets)) (of_nat n)) 100),
          dr_final_equity = fl equity, dr_net_profit = fl net_profit, dr_max_drawdown = fl dd,
          dr_max_drawdown_pct = fl (dmul (ddiv dd d) 100), dr_roi = fl (dmul (ddiv net_profit d) 100)\<rparr>)"

definition run_sim :: "stage_lib \<Rightarrow> pyfloat \<Rightarrow> pyfloat \<Rightarrow> market_candle list \<Rightarrow> exc + deposit_report" where
  "run_sim lib deposit risk_pct cs =
     (let risk = fdiv (fmul deposit risk_pct) 100 in
      ebind (replay_simulated lib (script_simulation 20 risk None True) ''BTCUSDT'' ''5'' default_vwap_strategy cs) (\<lambda>res.
      Inr (deposit_report_of deposit risk
        (map (\<lambda>x. dsub (xr_realized_pnl x) (deposit_fee risk)) (executions_of (rx_steps res))))))"

definition deposit_sim :: "stage_lib \<Rightarrow> 'w kline_source \<Rightarrow> ('w, deposit_report list) prog" where
  "deposit_sim lib source =
     bnd (fetch_closing_candles source 25000) (\<lambda>cs.
     from_sum (if cs = [] then Inl IndexError else emap (\<lambda>deposit. run_sim lib deposit 1 cs) [100, 200]))"

lemma deposit_report_splits_trades:
  "dr_wins (deposit_report_of deposit risk nets) + dr_losses (deposit_report_of deposit risk nets)
     = dr_total_trades (deposit_report_of deposit risk nets)"
proof -
  have "winners nets + length (filter (\<lambda>x. x \<le> 0) nets) = length nets"
    by (induction nets) (auto simp: winners_def)
  then show ?thesis by (cases "nets = []") (auto simp: deposit_report_of_def Let_def winners_def split: prod.splits)
qed

text \<open>
  Both scripts charge the amount at risk, not the notional, and charge an execution that was skipped
  too: it is counted as a losing trade.
\<close>

lemma skipped_is_charged:
  "xr_realized_pnl x = 0 \<Longrightarrow> dsub (xr_realized_pnl x) (risk_fee 100) = - 1 / 5"
proof -
  have "dsub 0 (risk_fee 100) = - 1 / 5" by code_simp
  then show "xr_realized_pnl x = 0 \<Longrightarrow> dsub (xr_realized_pnl x) (risk_fee 100) = - 1 / 5" by simp
qed

subsection \<open>Relative strength over four markets\<close>

definition common_timestamps :: "(string \<times> market_candle list) list \<Rightarrow> timestamp list" where
  "common_timestamps m = (case map (\<lambda>(_, cs). map mc_opened_at cs) m of
     [] \<Rightarrow> [] | ts # tss \<Rightarrow> sort (filter (\<lambda>t. \<forall>us \<in> set tss. t \<in> set us) (remdups ts)))"

definition candle_at :: "market_candle list \<Rightarrow> timestamp \<Rightarrow> market_candle list" where
  "candle_at cs t = (case map_of (dedupe_candles cs) t of Some c \<Rightarrow> [c] | None \<Rightarrow> [])"

definition align_candles ::
  "(string \<times> market_candle list) list \<Rightarrow> timestamp list \<times> (string \<times> market_candle list) list"
where
  "align_candles m = (let ts = common_timestamps m in
     (ts, map (\<lambda>(symbol, cs). (symbol, concat (map (candle_at cs) ts))) m))"

definition snapshots_at ::
  "(string \<times> market_candle list) list \<Rightarrow> nat \<Rightarrow> nat \<Rightarrow> (string \<times> market_snapshot) list"
where
  "snapshots_at aligned end_index needed = map (\<lambda>(symbol, cs). (symbol,
     \<lparr>ms_symbol = symbol, ms_interval = ''15'',
      ms_candles = drop (end_index + 1 - needed) (take (end_index + 1) cs)\<rparr>)) aligned"

definition momentum_regime_allows :: "market_snapshot \<Rightarrow> ts_momentum \<Rightarrow> exc + bool" where
  "momentum_regime_allows s m =
     ebind (calculate_ema (closes s) (tm_ema_fast_period m)) (\<lambda>fasts.
     ebind (calculate_ema (closes s) (tm_ema_slow_period m)) (\<lambda>slows.
     regime_allows (closes s) fasts slows))"

fun scores_above_zero ::
  "(pyfloat \<Rightarrow> pyfloat) \<Rightarrow> (string \<times> ts_momentum) list \<Rightarrow> (string \<times> market_snapshot) list
    \<Rightarrow> exc + (string \<times> pyfloat) list"
where
  "scores_above_zero lg ms [] = Inr []"
| "scores_above_zero lg ms ((symbol, s) # ss) =
     (case map_of ms symbol of
        None \<Rightarrow> scores_above_zero lg ms ss
      | Some m \<Rightarrow> ebind (compute_momentum_score lg m s) (\<lambda>score.
          ebind (scores_above_zero lg ms ss) (\<lambda>rest.
          Inr (case score of Some x \<Rightarrow> if 0 < x then (symbol, x) # rest else rest | None \<Rightarrow> rest))))"

text \<open>The script asks what the orchestrator would ask.\<close>

lemma script_asks_the_orchestrator:
  "scores_above_zero lg (rs_strategies r) ss = positive_scores lg r ss"
proof (induction ss)
  case (Cons x ss)
  then show ?case by (cases x) (simp split: option.split)
qed simp

lemma momentum_regime_of_orchestrator:
  "map_of (rs_strategies r) (rs_btc_symbol r) = Some m \<Longrightarrow> momentum_regime_allows s m = btc_regime_allows r s"
  by (simp add: momentum_regime_allows_def btc_regime_allows_def)

record momentum_summary =
  mv_base :: ninety_day_summary
  mv_trades_per_day :: decimal
  mv_btc_regime_skips :: nat
  mv_score_skips :: nat

definition momentum_summary_of :: "sim_result list \<Rightarrow> timestamp list \<Rightarrow> nat \<Rightarrow> nat \<Rightarrow> momentum_summary" where
  "momentum_summary_of xs ts regime_skips score_skips =
     \<lparr>mv_base = summary_of_pnls (map net_pnl_of xs), mv_trades_per_day = trades_per_day (length xs) (map date_of ts),
      mv_btc_regime_skips = regime_skips, mv_score_skips = score_skips\<rparr>"

record momentum_state =
  mo_portfolio :: "portfolio \<times> schedule"
  mo_executions :: "sim_result list"
  mo_regime_skips :: nat
  mo_score_skips :: nat
  mo_draws :: nat

text \<open>What is executed once a signal is there.\<close>

definition momentum_execute ::
  "stage_lib \<Rightarrow> (string \<times> market_candle list) list \<Rightarrow> date \<Rightarrow> nat \<Rightarrow> strategy_signal \<Rightarrow> momentum_state
    \<Rightarrow> exc + momentum_state"
where
  "momentum_execute lib aligned day step g s =
     (if \<not> can_execute_signal default_limits g (int step) day (fst (mo_portfolio s)) then Inr s
      else ebind (or_raise (map_of aligned (sg_symbol g)) KeyError) (\<lambda>cs.
        ebind (to_execute_signal_request (sb_json lib) g) (\<lambda>p.
        let xn = execute_replay_signal (stage_simulation None) (sb_draw lib) p (drop (step + 1) cs) (int step) (mo_draws s) in
        ebind (track_execution default_limits g (object_of_result (fst xn)) (int step) day (mo_portfolio s)) (\<lambda>ps.
        Inr (s\<lparr>mo_portfolio := ps, mo_executions := mo_executions s @ [fst xn], mo_draws := snd xn\<rparr>)))))"

definition momentum_step ::
  "stage_lib \<Rightarrow> relative_strength \<Rightarrow> nat \<Rightarrow> timestamp list \<Rightarrow> (string \<times> market_candle list) list
    \<Rightarrow> momentum_state \<Rightarrow> nat \<Rightarrow> exc + momentum_state"
where
  "momentum_step lib r needed ts aligned s0 step =
     (let day = date_of (ts ! step);
          s = s0\<lparr>mo_portfolio := apply_scheduled_closures default_limits (int step)
                (reset_daily_circuit_breaker day (fst (mo_portfolio s0)), snd (mo_portfolio s0))\<rparr>;
          ss = snapshots_at aligned step needed in
      ebind (or_raise (map_of ss ''BTCUSDT'') KeyError) (\<lambda>btc.
      ebind (or_raise (map_of (rs_strategies r) ''BTCUSDT'') KeyError) (\<lambda>m.
      ebind (momentum_regime_allows btc m) (\<lambda>allowed.
      if \<not> allowed then Inr (s\<lparr>mo_regime_skips := mo_regime_skips s + 1\<rparr>)
      else ebind (scores_above_zero (sb_log lib) (rs_strategies r) ss) (\<lambda>scores.
        if scores = [] then Inr (s\<lparr>mo_score_skips := mo_score_skips s + 1\<rparr>)
        else ebind (select_signal (sb_log lib) r ss (Some btc)) (\<lambda>sg.
          case sg of None \<Rightarrow> Inr s | Some g \<Rightarrow> momentum_execute lib aligned day step g s))))))"

fun momentum_steps ::
  "stage_lib \<Rightarrow> relative_strength \<Rightarrow> nat \<Rightarrow> timestamp list \<Rightarrow> (string \<times> market_candle list) list
    \<Rightarrow> momentum_state \<Rightarrow> nat list \<Rightarrow> exc + momentum_state"
where
  "momentum_steps lib r needed ts aligned s [] = Inr s"
| "momentum_steps lib r needed ts aligned s (k # ks) =
     ebind (momentum_step lib r needed ts aligned s k) (\<lambda>s'. momentum_steps lib r needed ts aligned s' ks)"

definition momentum_symbols :: "string list" where
  "momentum_symbols = [''BTCUSDT'', ''ETHUSDT'', ''SOLUSDT'', ''XRPUSDT'']"

definition script_orchestrator :: relative_strength where
  "script_orchestrator = \<lparr>rs_strategies = map (\<lambda>s. (s, default_momentum)) momentum_symbols, rs_btc_symbol = ''BTCUSDT''\<rparr>"

definition last_quarter :: "(string \<Rightarrow> exc + candle_dataset) \<Rightarrow> exc + (string \<times> market_candle list) list" where
  "last_quarter dataset =
     ebind (emap (\<lambda>symbol. ebind (dataset symbol) (\<lambda>d. Inr (symbol, d))) momentum_symbols) (\<lambda>ds.
     ebind (candles_for_lookback ''15'' 90) (\<lambda>n.
     Inr (map (\<lambda>(symbol, d). (symbol, last_n (nat n) (cd_candles d))) ds)))"

definition idle_momentum_state :: momentum_state where
  "idle_momentum_state = \<lparr>mo_portfolio = (empty_portfolio, []), mo_executions = [], mo_regime_skips = 0,
     mo_score_skips = 0, mo_draws = 0\<rparr>"

definition run_momentum_validation :: "stage_lib \<Rightarrow> (string \<Rightarrow> exc + candle_dataset) \<Rightarrow> exc + momentum_summary" where
  "run_momentum_validation lib dataset =
     (let needed = Max (set (map (momentum_candle_count \<circ> snd) (rs_strategies script_orchestrator))) in
      ebind (last_quarter dataset) (\<lambda>m.
      let (ts, aligned) = align_candles m in
      ebind (momentum_steps lib script_orchestrator needed ts aligned idle_momentum_state [needed - 1..<length ts]) (\<lambda>s.
      Inr (momentum_summary_of (mo_executions s) ts (mo_regime_skips s) (mo_score_skips s)))))"

text \<open>Whether the process ends with one.\<close>

definition validate_ts_momentum :: "stage_lib \<Rightarrow> (string \<Rightarrow> exc + candle_dataset) \<Rightarrow> exc + bool" where
  "validate_ts_momentum lib dataset = ebind (run_momentum_validation lib dataset) (\<lambda>s.
     Inr (nd_win_rate (mv_base s) < 1 / 2 \<or> xless (nd_profit_factor (mv_base s)) (105 / 100)))"

text \<open>A step of the validation is counted once at most: as an execution or as one of the skips.\<close>

definition counted_steps :: "momentum_state \<Rightarrow> nat" where
  "counted_steps s = length (mo_executions s) + mo_regime_skips s + mo_score_skips s"

lemma momentum_execute_counts:
  "momentum_execute lib aligned day step g s = Inr s' \<Longrightarrow> counted_steps s' \<le> counted_steps s + 1"
  by (auto simp: momentum_execute_def counted_steps_def ebind_Inr_iff Let_def split: if_splits)

lemma momentum_step_counts:
  "momentum_step lib r needed ts aligned s step = Inr s' \<Longrightarrow> counted_steps s' \<le> counted_steps s + 1"
  by (auto simp: momentum_step_def Let_def ebind_Inr_iff counted_steps_def
      split: if_splits option.splits dest!: momentum_execute_counts)

lemma momentum_steps_count:
  "momentum_steps lib r needed ts aligned s ks = Inr s' \<Longrightarrow> counted_steps s' \<le> counted_steps s + length ks"
  by (induction ks arbitrary: s) (fastforce simp: ebind_Inr_iff dest: momentum_step_counts)+

subsection \<open>Refreshing the datasets of a manifest\<close>

text \<open>What a refresh reports of a scenario; \<open>store\<close> writes a file.\<close>

record refreshed_dataset =
  rd_name :: string
  rd_symbol :: string
  rd_interval :: string
  rd_lookback_days :: int
  rd_dataset_path :: string
  rd_candles :: nat

definition refresh_scenario ::
  "(timestamp \<Rightarrow> string) \<Rightarrow> (int \<Rightarrow> ('w, unit) prog) \<Rightarrow> (string \<Rightarrow> string \<Rightarrow> 'w kline_source) \<Rightarrow> (string \<Rightarrow> json \<Rightarrow> ('w, unit) prog)
    \<Rightarrow> timestamp \<Rightarrow> scenario \<Rightarrow> ('w, refreshed_dataset) prog"
where
  "refresh_scenario isof pause klines store generated c =
     bnd (fetch_candles_with_retry pause (klines (sc_symbol c) (sc_interval c)) (sc_interval c) (sc_lookback_days c) 3) (\<lambda>cs.
     bnd (from_sum (candles_for_lookback (sc_interval c) (sc_lookback_days c))) (\<lambda>n.
     if int (length cs) \<noteq> n then throw ValueError
     else andthen (store (sc_dataset_path c)
            (save_dataset isof (sc_symbol c) (sc_interval c) (sc_lookback_days c) cs generated))
          (ret \<lparr>rd_name = sc_name c, rd_symbol = sc_symbol c, rd_interval = sc_interval c,
             rd_lookback_days = sc_lookback_days c, rd_dataset_path = sc_dataset_path c, rd_candles = length cs\<rparr>)))"

definition refresh_manifest_datasets ::
  "(timestamp \<Rightarrow> string) \<Rightarrow> (json \<Rightarrow> string) \<Rightarrow> (int \<Rightarrow> ('w, unit) prog) \<Rightarrow> (string \<Rightarrow> string \<Rightarrow> 'w kline_source)
    \<Rightarrow> (string \<Rightarrow> json \<Rightarrow> ('w, unit) prog) \<Rightarrow> timestamp \<Rightarrow> json \<Rightarrow> ('w, refreshed_dataset list) prog"
where
  "refresh_manifest_datasets isof rep pause klines store generated payload =
     bnd (from_sum (load_manifest rep payload)) (\<lambda>m.
     map_each (refresh_scenario isof pause klines store generated) (mf_scenarios m))"

text \<open>A refresh that ends covers every scenario, in order, with its whole lookback.\<close>

definition refreshed_whole :: "scenario \<Rightarrow> refreshed_dataset \<Rightarrow> bool" where
  "refreshed_whole c d \<longleftrightarrow> rd_name d = sc_name c
     \<and> candles_for_lookback (sc_interval c) (sc_lookback_days c) = Inr (int (rd_candles d))"

lemma refresh_scenario_whole:
  "refresh_scenario isof pause klines store generated c w = (Inr d, w') \<Longrightarrow> refreshed_whole c d"
  by (auto simp: refresh_scenario_def refreshed_whole_def andthen_def ret_def throw_def from_sum_def
      elim!: bnd_InrE split: if_splits)

lemma map_each_all:
  "map_each f xs w = (Inr ys, w') \<Longrightarrow> (\<And>x y v v'. f x v = (Inr y, v') \<Longrightarrow> P x y) \<Longrightarrow> list_all2 P xs ys"
  by (induction xs arbitrary: ys w) (auto simp: ret_def elim!: bnd_InrE)

lemma refresh_covers_scenarios:
  "refresh_manifest_datasets isof rep pause klines store generated payload w = (Inr ds, w') \<Longrightarrow>
   load_manifest rep payload = Inr m \<Longrightarrow> list_all2 refreshed_whole (mf_scenarios m) ds"
  by (auto simp: refresh_manifest_datasets_def from_sum_def elim!: bnd_InrE map_each_all refresh_scenario_whole)

end
